(* ===== verification/Prelude.thy ===== *)
theory Prelude
  imports Complex_Main "HOL-Library.List_Lexorder" "HOL-Library.Char_ord"
    "HOL-Library.Sublist" "HOL-Library.Multiset"
begin

text \<open>
  Shared by every component: JavaScript values as they appear in the \<open>unknown\<close> fields of the
  runtime records, the few library functions of the language the code calls on them, the
  exceptions it throws, the stable array sort, and the generic lemmas on lists the component
  proofs use.

  Strings are lists of code units in the range 0..255, so that string comparison by code unit is
  the lexicographic order of \<open>List_Lexorder\<close> and \<open>Char_ord\<close>. A property that may be absent or
  \<open>null\<close> is an option; the code reads both alike (\<open>x ?? null\<close>). Finite numbers are exact
  rationals, so rounding beyond 53 bits is not modelled.
\<close>

named_theorems js_simps "unfoldings of the helpers that read JavaScript values"

section \<open>JavaScript values\<close>

datatype js_num = Fin rat | PosInf | NegInf | NaN

datatype json =
    JNull
  | JBool bool
  | JNum js_num
  | JStr string
  | JArr "json list"
  | JObj "(string \<times> json) list"

type_synonym jobj = "(string \<times> json) list"

text \<open>The property read \<open>o.k\<close>; \<open>None\<close> is \<open>undefined\<close>.\<close>

abbreviation (input) jprop :: "jobj \<Rightarrow> string \<Rightarrow> json option" where
  "jprop obj k \<equiv> map_of obj k"

text \<open>\<open>isRecord(v) ? v : null\<close>, the guard repeated in every module of the runtime.\<close>

fun asRecord :: "json option \<Rightarrow> jobj option" where
  "asRecord (Some (JObj kvs)) = Some kvs"
| "asRecord _ = None"

definition isRecord :: "json option \<Rightarrow> bool" where
  "isRecord v = (asRecord v \<noteq> None)"

fun asString :: "json option \<Rightarrow> string option" where
  "asString (Some (JStr s)) = Some s"
| "asString _ = None"

fun asArray :: "json option \<Rightarrow> json list option" where
  "asArray (Some (JArr xs)) = Some xs"
| "asArray _ = None"

fun asNumber :: "json option \<Rightarrow> js_num option" where
  "asNumber (Some (JNum n)) = Some n"
| "asNumber _ = None"

fun asBool :: "json option \<Rightarrow> bool option" where
  "asBool (Some (JBool b)) = Some b"
| "asBool _ = None"

text \<open>\<open>record?.k\<close> on a guarded record: \<open>undefined\<close> when the guard failed.\<close>

definition optProp :: "jobj option \<Rightarrow> string \<Rightarrow> json option" where
  "optProp r k = (case r of None \<Rightarrow> None | Some kvs \<Rightarrow> jprop kvs k)"

text \<open>\<open>{ ...o, k: v }\<close>: an existing key keeps its position.\<close>

fun objSet :: "string \<Rightarrow> json \<Rightarrow> jobj \<Rightarrow> jobj" where
  "objSet k v [] = [(k, v)]"
| "objSet k v ((k', v') # kvs) = (if k' = k then (k, v) # kvs else (k', v') # objSet k v kvs)"

text \<open>A value of an option type written into a JavaScript object as \<open>null\<close> when absent.\<close>

definition jsStrOrNull :: "string option \<Rightarrow> json" where
  "jsStrOrNull s = (case s of None \<Rightarrow> JNull | Some t \<Rightarrow> JStr t)"

definition jsObjOrNull :: "jobj option \<Rightarrow> json" where
  "jsObjOrNull r = (case r of None \<Rightarrow> JNull | Some kvs \<Rightarrow> JObj kvs)"

definition jsInt :: "int \<Rightarrow> json" where
  "jsInt n = JNum (Fin (of_int n))"

lemma map_of_objSet [simp]: "map_of (objSet k v kvs) = (map_of kvs)(k \<mapsto> v)"
  by (induction kvs) (auto simp: fun_eq_iff)

lemma asRecord_Some_iff [js_simps]: "asRecord v = Some kvs \<longleftrightarrow> v = Some (JObj kvs)"
  by (cases "(v, kvs)" rule: prod.exhaust) (cases v rule: asRecord.cases, auto)

lemma asString_Some_iff [js_simps]: "asString v = Some s \<longleftrightarrow> v = Some (JStr s)"
  by (cases v rule: asString.cases) auto

lemma asArray_Some_iff [js_simps]: "asArray v = Some xs \<longleftrightarrow> v = Some (JArr xs)"
  by (cases v rule: asArray.cases) auto

lemma asNumber_Some_iff [js_simps]: "asNumber v = Some n \<longleftrightarrow> v = Some (JNum n)"
  by (cases v rule: asNumber.cases) auto

lemma asBool_Some_iff [js_simps]: "asBool v = Some b \<longleftrightarrow> v = Some (JBool b)"
  by (cases v rule: asBool.cases) auto

section \<open>Numbers\<close>

fun jsAdd :: "js_num \<Rightarrow> js_num \<Rightarrow> js_num" where
  "jsAdd (Fin a) (Fin b) = Fin (a + b)"
| "jsAdd NaN _ = NaN"
| "jsAdd _ NaN = NaN"
| "jsAdd PosInf NegInf = NaN"
| "jsAdd NegInf PosInf = NaN"
| "jsAdd PosInf _ = PosInf"
| "jsAdd _ PosInf = PosInf"
| "jsAdd NegInf _ = NegInf"
| "jsAdd _ NegInf = NegInf"

fun jsPositive :: "js_num \<Rightarrow> bool" where
  "jsPositive (Fin a) = (a > 0)"
| "jsPositive PosInf = True"
| "jsPositive _ = False"

text \<open>\<open>Math.trunc\<close> on a finite number.\<close>

definition jsTrunc :: "rat \<Rightarrow> int" where
  "jsTrunc q = (if 0 \<le> q then \<lfloor>q\<rfloor> else \<lceil>q\<rceil>)"

definition isIntegral :: "rat \<Rightarrow> bool" where
  "isIntegral q = (of_int \<lfloor>q\<rfloor> = q)"

section \<open>Strings\<close>

text \<open>Template literals print integers in decimal.\<close>

definition digit_char :: "nat \<Rightarrow> char" where
  "digit_char d = char_of (48 + d)"

fun natToStr :: "nat \<Rightarrow> string" where
  "natToStr n = (if n < 10 then [digit_char n] else natToStr (n div 10) @ [digit_char (n mod 10)])"

declare natToStr.simps [simp del]

definition intToStr :: "int \<Rightarrow> string" where
  "intToStr i = (if i < 0 then ''-'' @ natToStr (nat (- i)) else natToStr (nat i))"

lemma digit_char_inj: "d < 10 \<Longrightarrow> e < 10 \<Longrightarrow> digit_char d = digit_char e \<longleftrightarrow> d = e"
proof
  assume de: "d < 10" "e < 10" and "digit_char d = digit_char e"
  then have "of_char (char_of (48 + d) :: char) = (of_char (char_of (48 + e) :: char) :: nat)"
    by (simp add: digit_char_def)
  with de show "d = e" by simp
qed simp

lemma digit_char_eval [simp]:
  "digit_char 0 = CHR ''0''" "digit_char (Suc 0) = CHR ''1''" "digit_char 2 = CHR ''2''"
  "digit_char 3 = CHR ''3''" "digit_char 4 = CHR ''4''" "digit_char 5 = CHR ''5''"
  "digit_char 6 = CHR ''6''" "digit_char 7 = CHR ''7''" "digit_char 8 = CHR ''8''"
  "digit_char 9 = CHR ''9''"
  by code_simp+

lemma natToStr_nonempty: "natToStr n \<noteq> []"
  by (subst natToStr.simps) simp

lemma natToStr_inj [simp]: "natToStr m = natToStr n \<longleftrightarrow> m = n"
proof (induction m arbitrary: n rule: natToStr.induct)
  case (1 m)
  show ?case
  proof (cases "m < 10"; cases "n < 10")
    assume "m < 10" "n < 10"
    then show ?thesis by (simp add: natToStr.simps [of m] natToStr.simps [of n] digit_char_inj)
  next
    assume "m < 10" "\<not> n < 10"
    then show ?thesis
      using natToStr_nonempty [of "n div 10"] natToStr_nonempty [of "m div 10"]
      by (auto simp: natToStr.simps [of m] natToStr.simps [of n])
  next
    assume "\<not> m < 10" "n < 10"
    then show ?thesis
      using natToStr_nonempty [of "n div 10"] natToStr_nonempty [of "m div 10"]
      by (auto simp: natToStr.simps [of m] natToStr.simps [of n])
  next
    assume mn: "\<not> m < 10" "\<not> n < 10"
    then have "natToStr m = natToStr n \<longleftrightarrow>
        natToStr (m div 10) = natToStr (n div 10) \<and> digit_char (m mod 10) = digit_char (n mod 10)"
      by (simp add: natToStr.simps [of m] natToStr.simps [of n])
    also have "\<dots> \<longleftrightarrow> m div 10 = n div 10 \<and> m mod 10 = n mod 10"
      using "1.IH" [OF mn(1)] by (simp add: digit_char_inj)
    also have "\<dots> \<longleftrightarrow> m = n" by (metis div_mult_mod_eq)
    finally show ?thesis .
  qed
qed

text \<open>\<open>String.prototype.trim\<close>, \<open>startsWith\<close>, \<open>includes\<close>, \<open>join\<close>, \<open>toLowerCase\<close>.\<close>

definition jsWhite :: "char \<Rightarrow> bool" where
  "jsWhite c = (let n = of_char c :: nat in n \<in> {9, 10, 11, 12, 13, 32, 160})"

definition trim :: "string \<Rightarrow> string" where
  "trim s = rev (dropWhile jsWhite (rev (dropWhile jsWhite s)))"

fun startsWith :: "string \<Rightarrow> string \<Rightarrow> bool" where
  "startsWith s [] = True"
| "startsWith [] (c # cs) = False"
| "startsWith (x # s) (c # cs) = (x = c \<and> startsWith s cs)"

fun str_includes :: "string \<Rightarrow> string \<Rightarrow> bool" where
  "str_includes [] needle = (needle = [])"
| "str_includes (c # s) needle = (startsWith (c # s) needle \<or> str_includes s needle)"

fun joinWith :: "string \<Rightarrow> string list \<Rightarrow> string" where
  "joinWith sep [] = []"
| "joinWith sep [x] = x"
| "joinWith sep (x # y # ys) = x @ sep @ joinWith sep (y # ys)"

definition lowerChar :: "char \<Rightarrow> char" where
  "lowerChar c = (let n = of_char c :: nat in
     if 65 \<le> n \<and> n \<le> 90 \<or> 192 \<le> n \<and> n \<le> 222 \<and> n \<noteq> 215 then char_of (n + 32) else c)"

definition toLowerCase :: "string \<Rightarrow> string" where
  "toLowerCase = map lowerChar"

text \<open>Evaluation compares characters, or their codes as binary integers.\<close>

lemma jsWhite_code [code]:
  "jsWhite c \<longleftrightarrow> c = CHR 0x20 \<or> c = CHR 0x0A \<or> c = CHR 0x0D \<or> c = CHR 0x09 \<or> c = CHR 0x0B \<or> c = CHR 0x0C \<or> c = CHR 0xA0"
proof -
  have codes: "of_char (CHR 0x09) = (9 :: nat)" "of_char (CHR 0x0A) = (10 :: nat)" "of_char (CHR 0x0B) = (11 :: nat)"
    "of_char (CHR 0x0C) = (12 :: nat)" "of_char (CHR 0x0D) = (13 :: nat)" "of_char (CHR 0x20) = (32 :: nat)"
    "of_char (CHR 0xA0) = (160 :: nat)" by simp_all
  show ?thesis unfolding jsWhite_def Let_def codes [symmetric] insert_iff empty_iff of_char_eq_iff by blast
qed

lemma lowerChar_code [code]:
  "lowerChar c = (let n = of_char c :: int in
     if 65 \<le> n \<and> n \<le> 90 \<or> 192 \<le> n \<and> n \<le> 222 \<and> n \<noteq> 215 then char_of (n + 32) else c)"
proof -
  have n: "(of_char c :: int) = int (of_char c)" by (simp only: of_nat_of_char)
  have "char_of (int (of_char c) + 32) = (char_of (of_char c + 32 :: nat) :: char)"
    by (metis char_of_nat of_nat_add of_nat_numeral)
  then show ?thesis unfolding lowerChar_def Let_def n by simp
qed

lemma startsWith_iff: "startsWith s p \<longleftrightarrow> (\<exists>r. s = p @ r)"
  by (induction s p rule: startsWith.induct) auto

lemma startsWith_append [simp]: "startsWith (p @ r) p"
  by (simp add: startsWith_iff)

lemma str_includes_iff: "str_includes s p \<longleftrightarrow> (\<exists>l r. s = l @ p @ r)"
proof (induction s)
  case Nil
  then show ?case by auto
next
  case (Cons c s)
  show ?case
    by (auto simp: startsWith_iff Cons.IH) (metis append_Cons append_Nil append_eq_Cons_conv)+
qed

lemma str_includes_mid [simp]: "str_includes (l @ p @ r) p"
  by (auto simp: str_includes_iff)

section \<open>Exceptions\<close>

text \<open>
  A plain \<open>Error\<close> with its message, or an \<open>OracleUserError\<close> (prompt validation, browser
  automation) that also carries a details record.
\<close>

datatype js_error =
    PlainError (error_message: string)
  | UserError (error_message: string) (error_details: "jobj option")

definition asOracleUserErrorDetails :: "js_error \<Rightarrow> jobj option" where
  "asOracleUserErrorDetails e = (case e of PlainError _ \<Rightarrow> None | UserError _ d \<Rightarrow> d)"

type_synonym 'a result = "js_error + 'a"

section \<open>Array.prototype.sort\<close>

text \<open>
  A stable sort by a comparison function, as the language requires; the comparator's sign is a
  predicate that says the left argument may stay before the right one.
\<close>

fun insertBy :: "('a \<Rightarrow> 'a \<Rightarrow> bool) \<Rightarrow> 'a \<Rightarrow> 'a list \<Rightarrow> 'a list" where
  "insertBy le x [] = [x]"
| "insertBy le x (y # ys) = (if le x y then x # y # ys else y # insertBy le x ys)"

definition sortBy :: "('a \<Rightarrow> 'a \<Rightarrow> bool) \<Rightarrow> 'a list \<Rightarrow> 'a list" where
  "sortBy le xs = foldr (insertBy le) xs []"

lemma sortBy_Nil [simp]: "sortBy le [] = []"
  by (simp add: sortBy_def)

lemma sortBy_Cons [simp]: "sortBy le (x # xs) = insertBy le x (sortBy le xs)"
  by (simp add: sortBy_def)

lemma mset_insertBy [simp]: "mset (insertBy le x xs) = add_mset x (mset xs)"
  by (induction xs) auto

lemma mset_sortBy [simp]: "mset (sortBy le xs) = mset xs"
  by (induction xs) auto

lemma set_insertBy [simp]: "set (insertBy le x xs) = insert x (set xs)"
  by (induction xs) auto

lemma set_sortBy [simp]: "set (sortBy le xs) = set xs"
  by (induction xs) auto

lemma length_sortBy [simp]: "length (sortBy le xs) = length xs"
  by (metis mset_sortBy size_mset)

lemma distinct_map_sortBy [simp]: "distinct (map f (sortBy le xs)) = distinct (map f xs)"
  by (metis mset_sortBy mset_map mset_eq_imp_distinct_iff)

text \<open>What a comparator owes a sort: a total preorder.\<close>

locale comparator =
  fixes le :: "'a \<Rightarrow> 'a \<Rightarrow> bool"
  assumes total: "le x y \<or> le y x"
    and trans: "le x y \<Longrightarrow> le y z \<Longrightarrow> le x z"
begin

lemma sorted_insertBy: "sorted_wrt le xs \<Longrightarrow> sorted_wrt le (insertBy le x xs)"
proof (induction xs)
  case Nil
  then show ?case by simp
next
  case (Cons y ys)
  show ?case
  proof (cases "le x y")
    case True
    with Cons.prems show ?thesis by (auto intro: trans)
  next
    case False
    with total have "le y x" by blast
    with False Cons show ?thesis by auto
  qed
qed

lemma sorted_sortBy: "sorted_wrt le (sortBy le xs)"
  by (induction xs) (auto intro: sorted_insertBy)

lemma refl: "le x x"
  using total by blast

lemma insertBy_least: "\<forall>y\<in>set xs. le x y \<Longrightarrow> insertBy le x xs = x # xs"
  by (cases xs) auto

lemma sortBy_sorted: "sorted_wrt le xs \<Longrightarrow> sortBy le xs = xs"
  by (induction xs) (auto simp: insertBy_least)

lemma hd_sortBy: "y \<in> set xs \<Longrightarrow> le (hd (sortBy le xs)) y"
proof -
  assume y: "y \<in> set xs"
  have s: "sorted_wrt le (sortBy le xs)" by (rule sorted_sortBy)
  from y have "y \<in> set (sortBy le xs)" by simp
  with s show ?thesis by (cases "sortBy le xs") (auto intro: refl)
qed

end

section \<open>Lists\<close>

lemma find_None_filter: "find P xs = None \<longleftrightarrow> filter P xs = []"
  by (induction xs) auto

lemma find_Some_filter: "find P xs = Some x \<Longrightarrow> \<exists>ys. filter P xs = x # ys"
  by (induction xs) (auto split: if_splits)

lemma find_append:
  "find P (before @ after) = (case find P before of Some x \<Rightarrow> Some x | None \<Rightarrow> find P after)"
  by (induction before) auto

lemma find_SomeD: "find P xs = Some x \<Longrightarrow> P x \<and> x \<in> set xs"
  by (induction xs) (auto split: if_splits)

lemma find_map_same:
  "(\<And>x. x \<in> set xs \<Longrightarrow> P (f x) = P x) \<Longrightarrow> find P (map f xs) = map_option f (find P xs)"
  by (induction xs) auto

lemma find_key_unique:
  "distinct (map key xs) \<Longrightarrow> x \<in> set xs \<Longrightarrow> find (\<lambda>y. key y = key x) xs = Some x"
proof (induction xs)
  case Nil
  then show ?case by simp
next
  case (Cons a xs)
  then show ?case
    by (cases "x = a") (auto simp: image_iff)
qed

lemma subseq_prefix_append: "subseq xs (xs @ ys)"
  by (rule prefix_imp_subseq) simp

lemma subseq_append_both: "subseq xs ys \<Longrightarrow> subseq (xs @ zs) (ys @ zs)"
  by (rule list_emb_append_mono) auto

lemma filter_length_le1_mem:
  "length (filter P xs) \<le> 1 \<Longrightarrow> x \<in> set xs \<Longrightarrow> y \<in> set xs \<Longrightarrow> P x \<Longrightarrow> P y \<Longrightarrow> x = y"
proof -
  assume l: "length (filter P xs) \<le> 1" and xy: "x \<in> set xs" "y \<in> set xs" "P x" "P y"
  from xy have "x \<in> set (filter P xs)" "y \<in> set (filter P xs)" by auto
  with l show ?thesis by (cases "filter P xs") auto
qed

section \<open>Asynchronous functions\<close>

text \<open>
  An \<open>async\<close> function takes the world and returns a value or the exception it rejects with,
  together with the world it leaves. \<open>await\<close> in the middle of a function is \<open>ioBind\<close>;
  \<open>try ... catch\<close> is \<open>ioCatch\<close>: the world keeps what the failed call did.
\<close>

type_synonym ('w, 'a) io = "'w \<Rightarrow> 'a result \<times> 'w"

definition ioReturn :: "'a \<Rightarrow> ('w, 'a) io" where
  "ioReturn a = (\<lambda>w. (Inr a, w))"

definition ioThrow :: "js_error \<Rightarrow> ('w, 'a) io" where
  "ioThrow e = (\<lambda>w. (Inl e, w))"

definition ioBind :: "('w, 'a) io \<Rightarrow> ('a \<Rightarrow> ('w, 'b) io) \<Rightarrow> ('w, 'b) io" where
  "ioBind m k = (\<lambda>w. case m w of (Inl e, w') \<Rightarrow> (Inl e, w') | (Inr a, w') \<Rightarrow> k a w')"

definition ioCatch :: "('w, 'a) io \<Rightarrow> (js_error \<Rightarrow> ('w, 'a) io) \<Rightarrow> ('w, 'a) io" where
  "ioCatch m h = (\<lambda>w. case m w of (Inl e, w') \<Rightarrow> h e w' | (Inr a, w') \<Rightarrow> (Inr a, w'))"

definition ioLift :: "'a result \<Rightarrow> ('w, 'a) io" where
  "ioLift r = (\<lambda>w. (r, w))"

lemmas io_defs = ioReturn_def ioThrow_def ioBind_def ioCatch_def ioLift_def

lemma ioBind_return [simp]: "ioBind (ioReturn a) k = k a"
  by (simp add: io_defs)

lemma ioBind_throw [simp]: "ioBind (ioThrow e) k = ioThrow e"
  by (simp add: io_defs)

lemma ioBind_lift [simp]:
  "ioBind (ioLift (Inr a)) k = k a" "ioBind (ioLift (Inl e)) k = ioThrow e"
  by (simp_all add: io_defs)

lemma ioBind_Inr:
  "ioBind m k w = (Inr b, w') \<longleftrightarrow> (\<exists>a w1. m w = (Inr a, w1) \<and> k a w1 = (Inr b, w'))"
  by (auto simp: ioBind_def split: prod.splits sum.splits)

text \<open>\<open>Promise.all\<close> over fallible reads of one state, in index order.\<close>

fun traverse :: "('a \<Rightarrow> 'b result) \<Rightarrow> 'a list \<Rightarrow> 'b list result" where
  "traverse f [] = Inr []"
| "traverse f (x # xs) = (case f x of Inl e \<Rightarrow> Inl e | Inr y \<Rightarrow>
     (case traverse f xs of Inl e \<Rightarrow> Inl e | Inr ys \<Rightarrow> Inr (y # ys)))"

lemma traverse_Inr: "traverse f xs = Inr ys \<longleftrightarrow> list_all2 (\<lambda>x y. f x = Inr y) xs ys"
proof (induction xs arbitrary: ys)
  case Nil
  then show ?case by auto
next
  case (Cons x xs)
  show ?case
    by (auto simp: list_all2_Cons1 Cons.IH [symmetric] split: sum.splits)
qed

text \<open>\<open>Object.values\<close>-style null filters: \<open>xs.filter((x) => x !== null)\<close>.\<close>

definition somes :: "'a option list \<Rightarrow> 'a list" where
  "somes xs = map the (filter (\<lambda>x. x \<noteq> None) xs)"

lemma set_somes [simp]: "x \<in> set (somes xs) \<longleftrightarrow> Some x \<in> set xs"
  by (auto simp: somes_def image_iff)

text \<open>\<open>xs.slice(0, limit)\<close> guarded by \<open>typeof limit === 'number' && limit >= 0\<close>.\<close>

definition sliceLimit :: "js_num option \<Rightarrow> 'a list \<Rightarrow> 'a list" where
  "sliceLimit limit xs = (case limit of
     Some (Fin q) \<Rightarrow> if 0 \<le> q then take (nat (jsTrunc q)) xs else xs
   | _ \<Rightarrow> xs)"

lemma prefix_sliceLimit [simp]: "prefix (sliceLimit l xs) xs"
  by (auto simp: sliceLimit_def take_is_prefix split: option.split js_num.split)

end
