(* ===== verification/Run_Types.thy ===== *)
theory Run_Types
  imports Prelude
begin

text \<open>
  The data model of the execution runtime (\<open>src/runtime/types.ts\<close>, \<open>src/teams/types.ts\<close>): the
  run, its steps, the events appended for every mutation, the leases that make one runner the
  owner of a run, the shared state, and the runner and affinity records the scheduler matches.

  Field names carry a prefix per record (\<open>run_\<close>, \<open>step_\<close>, \<open>ev_\<close>, \<open>lease_\<close>, ...), the
  constructors of the string unions too. Timestamps are the ISO strings the code stores. The zod
  schemas of \<open>src/runtime/schema.ts\<close> accept exactly the values of these types, so a \<open>parse\<close> of
  a typed value is the identity here.
\<close>

section \<open>String unions\<close>

datatype executionRunStatus = RunPlanned | RunRunning | RunSucceeded | RunFailed | RunCancelled

datatype executionRunSourceKind = TeamRunSource | DirectSource

datatype executionRunStepStatus =
  StepPlanned | StepRunnable | StepRunning | StepSucceeded | StepFailed | StepBlocked
| StepSkipped | StepCancelled

datatype executionRunEventType =
  EvRunCreated | EvStepPlanned | EvStepRunnable | EvStepStarted | EvStepSucceeded | EvStepFailed
| EvHandoffConsumed | EvLeaseAcquired | EvLeaseReleased | EvNoteAdded

datatype executionRunLeaseStatus = LeaseActive | LeaseReleased | LeaseExpired

datatype serviceId = Chatgpt | Gemini | Grok

datatype hostRequirement = AnyHost | SameHost

datatype executionRunnerStatus = RunnerActive | RunnerStale

datatype sharedStateStatus = StateActive | StateSucceeded | StateFailed | StateCancelled

datatype teamRunTrigger = TrigCli | TrigService | TrigApi | TrigMcp | TrigScheduled | TrigInternal

datatype executionMode = Sequential
datatype failPolicy = FailFast
datatype parallelismMode = ParallelismDisabled
datatype handoffRequirement = ExplicitHandoff

datatype teamRunStepKind = KPrompt | KAnalysis | KHandoff | KReview | KSynthesis

datatype teamRunStepStatus =
  TStepPlanned | TStepReady | TStepRunning | TStepSucceeded | TStepFailed | TStepBlocked
| TStepSkipped | TStepCancelled

datatype handoffStatus = Prepared | Delivered | Consumed | HandoffFailed

datatype localActionRequestStatus =
  Requested | Approved | Rejected | Executed | ActionFailed | ActionCancelled

datatype teamHistoryEventType =
  ThStepPlanned | ThStepStarted | ThStepSucceeded | ThStepFailed | ThHandoffCreated
| ThHandoffConsumed | ThArtifactAdded | ThNoteAdded

text \<open>The literals these constructors stand for, where the code prints them.\<close>

fun stepStatusText :: "executionRunStepStatus \<Rightarrow> string" where
  "stepStatusText StepPlanned = ''planned''"
| "stepStatusText StepRunnable = ''runnable''"
| "stepStatusText StepRunning = ''running''"
| "stepStatusText StepSucceeded = ''succeeded''"
| "stepStatusText StepFailed = ''failed''"
| "stepStatusText StepBlocked = ''blocked''"
| "stepStatusText StepSkipped = ''skipped''"
| "stepStatusText StepCancelled = ''cancelled''"

fun serviceText :: "serviceId \<Rightarrow> string" where
  "serviceText Chatgpt = ''chatgpt''"
| "serviceText Gemini = ''gemini''"
| "serviceText Grok = ''grok''"

fun actionStatusText :: "localActionRequestStatus \<Rightarrow> string" where
  "actionStatusText Requested = ''requested''"
| "actionStatusText Approved = ''approved''"
| "actionStatusText Rejected = ''rejected''"
| "actionStatusText Executed = ''executed''"
| "actionStatusText ActionFailed = ''failed''"
| "actionStatusText ActionCancelled = ''cancelled''"

section \<open>Records shared with the team layer\<close>

record executionPolicy =
  pol_executionMode :: executionMode
  pol_failPolicy :: failPolicy
  pol_parallelismMode :: parallelismMode
  pol_handoffRequirement :: handoffRequirement

record artifactRef =
  art_id :: string
  art_kind :: string
  art_path :: "string option"
  art_uri :: "string option"
  art_title :: "string option"
  art_metadata :: "jobj option"

record structuredOutput =
  so_key :: string
  so_value :: json

record failure =
  fail_code :: string
  fail_message :: string
  fail_ownerStepId :: "string option"
  fail_details :: "jobj option"

record stepInput =
  in_prompt :: "string option"
  in_handoffIds :: "string list"
  in_artifacts :: "artifactRef list"
  in_structuredData :: jobj
  in_notes :: "string list"

record stepOutput =
  out_summary :: "string option"
  out_artifacts :: "artifactRef list"
  out_structuredData :: jobj
  out_notes :: "string list"

record handoff =
  ho_id :: string
  ho_teamRunId :: string
  ho_fromStepId :: string
  ho_toStepId :: string
  ho_fromAgentId :: string
  ho_toAgentId :: string
  ho_summary :: string
  ho_artifacts :: "artifactRef list"
  ho_structuredData :: jobj
  ho_notes :: "string list"
  ho_status :: handoffStatus
  ho_createdAt :: string

record localActionRequest =
  lar_id :: string
  lar_teamRunId :: string
  lar_ownerStepId :: string
  lar_kind :: string
  lar_summary :: string
  lar_command :: "string option"
  lar_args :: "string list"
  lar_structuredPayload :: jobj
  lar_notes :: "string list"
  lar_status :: localActionRequestStatus
  lar_createdAt :: string
  lar_approvedAt :: "string option"
  lar_completedAt :: "string option"
  lar_resultSummary :: "string option"
  lar_resultPayload :: "jobj option"

section \<open>The run bundle\<close>

record executionRun =
  run_id :: string
  run_sourceKind :: executionRunSourceKind
  run_sourceId :: "string option"
  run_taskRunSpecId :: "string option"
  run_status :: executionRunStatus
  run_createdAt :: string
  run_updatedAt :: string
  run_trigger :: teamRunTrigger
  run_requestedBy :: "string option"
  run_entryPrompt :: "string option"
  run_initialInputs :: jobj
  run_sharedStateId :: string
  run_stepIds :: "string list"
  run_policy :: executionPolicy

record executionRunStep =
  step_id :: string
  step_runId :: string
  step_sourceStepId :: "string option"
  step_agentId :: string
  step_runtimeProfileId :: "string option"
  step_browserProfileId :: "string option"
  step_service :: "serviceId option"
  step_kind :: teamRunStepKind
  step_status :: executionRunStepStatus
  step_order :: int
  step_dependsOnStepIds :: "string list"
  step_input :: stepInput
  step_output :: "stepOutput option"
  step_startedAt :: "string option"
  step_completedAt :: "string option"
  step_failure :: "failure option"

record executionRunEvent =
  ev_id :: string
  ev_runId :: string
  ev_type :: executionRunEventType
  ev_createdAt :: string
  ev_stepId :: "string option"
  ev_leaseId :: "string option"
  ev_note :: "string option"
  ev_payload :: "jobj option"

record executionRunLease =
  lease_id :: string
  lease_runId :: string
  lease_ownerId :: string
  lease_status :: executionRunLeaseStatus
  lease_acquiredAt :: string
  lease_heartbeatAt :: string
  lease_expiresAt :: string
  lease_releasedAt :: "string option"
  lease_releaseReason :: "string option"

record affinityRecord =
  aff_service :: "serviceId option"
  aff_serviceAccountId :: "string option"
  aff_browserRequired :: bool
  aff_runtimeProfileId :: "string option"
  aff_browserProfileId :: "string option"
  aff_hostRequirement :: hostRequirement
  aff_requiredHostId :: "string option"
  aff_eligibilityNote :: "string option"

record executionRunner =
  rnr_id :: string
  rnr_hostId :: string
  rnr_status :: executionRunnerStatus
  rnr_startedAt :: string
  rnr_lastHeartbeatAt :: string
  rnr_expiresAt :: string
  rnr_lastActivityAt :: "string option"
  rnr_lastClaimedRunId :: "string option"
  rnr_serviceIds :: "serviceId list"
  rnr_runtimeProfileIds :: "string list"
  rnr_browserProfileIds :: "string list"
  rnr_serviceAccountIds :: "string list"
  rnr_browserCapable :: bool
  rnr_eligibilityNote :: "string option"

record sharedState =
  ss_id :: string
  ss_runId :: string
  ss_status :: sharedStateStatus
  ss_artifacts :: "artifactRef list"
  ss_structuredOutputs :: "structuredOutput list"
  ss_notes :: "string list"
  ss_history :: "executionRunEvent list"
  ss_lastUpdatedAt :: string

record runBundle =
  bdl_run :: executionRun
  bdl_steps :: "executionRunStep list"
  bdl_handoffs :: "handoff list"
  bdl_localActionRequests :: "localActionRequest list"
  bdl_sharedState :: sharedState
  bdl_events :: "executionRunEvent list"
  bdl_leases :: "executionRunLease list"

text \<open>A stored record (\<open>ExecutionRunStoredRecord\<close> of \<open>store.ts\<close>).\<close>

record storedRecord =
  rec_runId :: string
  rec_revision :: nat
  rec_persistedAt :: string
  rec_bundle :: runBundle

text \<open>The \<open>Partial<Pick<SharedState, ...>>\<close> patches handlers merge into the shared state.\<close>

record sharedStatePatch =
  patch_artifacts :: "artifactRef list"
  patch_structuredOutputs :: "structuredOutput list"
  patch_notes :: "string list"

section \<open>The active lease\<close>

definition isActiveLease :: "executionRunLease \<Rightarrow> bool" where
  "isActiveLease l = (lease_status l = LeaseActive)"

definition activeLeaseOf :: "runBundle \<Rightarrow> executionRunLease option" where
  "activeLeaseOf b = find isActiveLease (bdl_leases b)"

definition getActiveExecutionRunLease :: "storedRecord \<Rightarrow> executionRunLease option" where
  "getActiveExecutionRunLease r = activeLeaseOf (rec_bundle r)"

lemma activeLeaseOf_Some:
  "activeLeaseOf b = Some l \<Longrightarrow> l \<in> set (bdl_leases b) \<and> lease_status l = LeaseActive"
  by (auto simp: activeLeaseOf_def isActiveLease_def dest: find_SomeD)

lemma activeLeaseOf_None:
  "activeLeaseOf b = None \<longleftrightarrow> (\<forall>l\<in>set (bdl_leases b). lease_status l \<noteq> LeaseActive)"
  by (auto simp: activeLeaseOf_def find_None_iff isActiveLease_def)

section \<open>Well-formed bundles\<close>

text \<open>
  What the constructors establish and every mutation of the runtime keeps: step and lease
  identifiers are unique, each event and lease names the run it belongs to, at most one lease is
  active, and the event log is recorded in the shared history as well.
\<close>

definition activeLeases :: "runBundle \<Rightarrow> executionRunLease list" where
  "activeLeases b = filter isActiveLease (bdl_leases b)"

definition wfBundle :: "runBundle \<Rightarrow> bool" where
  "wfBundle b \<longleftrightarrow>
     distinct (map step_id (bdl_steps b)) \<and>
     distinct (map lease_id (bdl_leases b)) \<and>
     length (activeLeases b) \<le> 1 \<and>
     (\<forall>l\<in>set (bdl_leases b). lease_runId l = run_id (bdl_run b)) \<and>
     (\<forall>e\<in>set (bdl_events b). ev_runId e = run_id (bdl_run b)) \<and>
     subseq (bdl_events b) (ss_history (bdl_sharedState b))"

lemma activeLeaseOf_filter:
  "activeLeaseOf b = (case activeLeases b of [] \<Rightarrow> None | l # _ \<Rightarrow> Some l)"
  unfolding activeLeaseOf_def activeLeases_def
  by (cases "find isActiveLease (bdl_leases b)")
    (auto simp: find_None_filter dest: find_Some_filter)

lemma wf_one_active:
  assumes "wfBundle b" "l \<in> set (bdl_leases b)" "lease_status l = LeaseActive"
  shows "activeLeaseOf b = Some l"
proof -
  from assms obtain m where m: "activeLeaseOf b = Some m"
    using activeLeaseOf_None by fastforce
  then have "m \<in> set (bdl_leases b)" "isActiveLease m"
    by (auto simp: isActiveLease_def dest: activeLeaseOf_Some)
  moreover have "isActiveLease l" using assms(3) by (simp add: isActiveLease_def)
  moreover have "length (filter isActiveLease (bdl_leases b)) \<le> 1"
    using assms(1) by (simp add: wfBundle_def activeLeases_def)
  ultimately have "m = l"
    using assms(2) filter_length_le1_mem by metis
  with m show ?thesis by simp
qed

section \<open>Instances\<close>

text \<open>
  Step statuses are ordered by the progress of a step; the order is used to state that a step
  never moves backwards.
\<close>

fun stepRank :: "executionRunStepStatus \<Rightarrow> nat" where
  "stepRank StepBlocked = 0"
| "stepRank StepPlanned = 1"
| "stepRank StepRunnable = 2"
| "stepRank StepRunning = 3"
| "stepRank StepSkipped = 4"
| "stepRank StepCancelled = 5"
| "stepRank StepFailed = 6"
| "stepRank StepSucceeded = 7"

lemma stepRank_inj [simp]: "stepRank x = stepRank y \<longleftrightarrow> x = y"
  by (cases x; cases y) simp_all

instantiation executionRunStepStatus :: linorder
begin

definition less_eq_executionRunStepStatus :: "executionRunStepStatus \<Rightarrow> executionRunStepStatus \<Rightarrow> bool" where
  "less_eq_executionRunStepStatus x y = (stepRank x \<le> stepRank y)"

definition less_executionRunStepStatus :: "executionRunStepStatus \<Rightarrow> executionRunStepStatus \<Rightarrow> bool" where
  "less_executionRunStepStatus x y = (stepRank x < stepRank y)"

instance
  by standard (auto simp: less_eq_executionRunStepStatus_def less_executionRunStepStatus_def)

end

end
