(* ===== verification/Run_Model.thy ===== *)
theory Run_Model
  imports Run_Types
begin

text \<open>
  The constructors of \<open>src/runtime/model.ts\<close>: each fills the defaults of an input with optional
  fields, and \<open>createExecutionRunRecordBundleFromTeamRun\<close> projects a planned team run into a
  runtime bundle. The lemmas state that the projection is well formed and keeps the plan.
\<close>

section \<open>Constructors\<close>

record createExecutionRunInput =
  cri_id :: string
  cri_sourceKind :: "executionRunSourceKind option"
  cri_sourceId :: "string option"
  cri_taskRunSpecId :: "string option"
  cri_status :: "executionRunStatus option"
  cri_createdAt :: string
  cri_updatedAt :: "string option"
  cri_trigger :: teamRunTrigger
  cri_requestedBy :: "string option"
  cri_entryPrompt :: "string option"
  cri_initialInputs :: "jobj option"
  cri_sharedStateId :: string
  cri_stepIds :: "string list option"
  cri_policy :: executionPolicy

definition orElse :: "'a option \<Rightarrow> 'a \<Rightarrow> 'a" where
  "orElse x d = (case x of None \<Rightarrow> d | Some v \<Rightarrow> v)"

lemma orElse_simps [simp]: "orElse None d = d" "orElse (Some v) d = v"
  by (simp_all add: orElse_def)

definition createExecutionRun :: "createExecutionRunInput \<Rightarrow> executionRun" where
  "createExecutionRun inp =
     \<lparr>run_id = cri_id inp,
      run_sourceKind = orElse (cri_sourceKind inp) DirectSource,
      run_sourceId = cri_sourceId inp,
      run_taskRunSpecId = cri_taskRunSpecId inp,
      run_status = orElse (cri_status inp) RunPlanned,
      run_createdAt = cri_createdAt inp,
      run_updatedAt = orElse (cri_updatedAt inp) (cri_createdAt inp),
      run_trigger = cri_trigger inp,
      run_requestedBy = cri_requestedBy inp,
      run_entryPrompt = cri_entryPrompt inp,
      run_initialInputs = orElse (cri_initialInputs inp) [],
      run_sharedStateId = cri_sharedStateId inp,
      run_stepIds = orElse (cri_stepIds inp) [],
      run_policy = cri_policy inp\<rparr>"

record createExecutionRunStepInput =
  csi_id :: string
  csi_runId :: string
  csi_sourceStepId :: "string option"
  csi_agentId :: string
  csi_runtimeProfileId :: "string option"
  csi_browserProfileId :: "string option"
  csi_service :: "serviceId option"
  csi_kind :: teamRunStepKind
  csi_status :: "executionRunStepStatus option"
  csi_order :: int
  csi_dependsOnStepIds :: "string list option"
  csi_input :: stepInput
  csi_output :: "stepOutput option"
  csi_startedAt :: "string option"
  csi_completedAt :: "string option"
  csi_failure :: "failure option"

definition createExecutionRunStep :: "createExecutionRunStepInput \<Rightarrow> executionRunStep" where
  "createExecutionRunStep inp =
     \<lparr>step_id = csi_id inp,
      step_runId = csi_runId inp,
      step_sourceStepId = csi_sourceStepId inp,
      step_agentId = csi_agentId inp,
      step_runtimeProfileId = csi_runtimeProfileId inp,
      step_browserProfileId = csi_browserProfileId inp,
      step_service = csi_service inp,
      step_kind = csi_kind inp,
      step_status = orElse (csi_status inp) StepPlanned,
      step_order = csi_order inp,
      step_dependsOnStepIds = orElse (csi_dependsOnStepIds inp) [],
      step_input = csi_input inp,
      step_output = csi_output inp,
      step_startedAt = csi_startedAt inp,
      step_completedAt = csi_completedAt inp,
      step_failure = csi_failure inp\<rparr>"

definition createExecutionRunEvent ::
  "string \<Rightarrow> string \<Rightarrow> executionRunEventType \<Rightarrow> string \<Rightarrow> string option \<Rightarrow> string option \<Rightarrow>
   string option \<Rightarrow> jobj option \<Rightarrow> executionRunEvent" where
  "createExecutionRunEvent eid runId ty createdAt stepId leaseId note payload =
     \<lparr>ev_id = eid, ev_runId = runId, ev_type = ty, ev_createdAt = createdAt,
      ev_stepId = stepId, ev_leaseId = leaseId, ev_note = note, ev_payload = payload\<rparr>"

lemma createExecutionRunEvent_runId [simp]:
  "ev_runId (createExecutionRunEvent eid runId ty t0 sid lid note p) = runId"
  by (simp add: createExecutionRunEvent_def)

record createAffinityInput =
  cai_service :: "serviceId option"
  cai_serviceAccountId :: "string option"
  cai_browserRequired :: "bool option"
  cai_runtimeProfileId :: "string option"
  cai_browserProfileId :: "string option"
  cai_hostRequirement :: "hostRequirement option"
  cai_requiredHostId :: "string option"
  cai_eligibilityNote :: "string option"

definition createExecutionRunAffinityRecord :: "createAffinityInput \<Rightarrow> affinityRecord" where
  "createExecutionRunAffinityRecord inp =
     \<lparr>aff_service = cai_service inp,
      aff_serviceAccountId = cai_serviceAccountId inp,
      aff_browserRequired = orElse (cai_browserRequired inp) False,
      aff_runtimeProfileId = cai_runtimeProfileId inp,
      aff_browserProfileId = cai_browserProfileId inp,
      aff_hostRequirement = orElse (cai_hostRequirement inp) AnyHost,
      aff_requiredHostId = cai_requiredHostId inp,
      aff_eligibilityNote = cai_eligibilityNote inp\<rparr>"

record createRunnerInput =
  cni_id :: string
  cni_hostId :: string
  cni_status :: "executionRunnerStatus option"
  cni_startedAt :: string
  cni_lastHeartbeatAt :: "string option"
  cni_expiresAt :: string
  cni_lastActivityAt :: "string option"
  cni_lastClaimedRunId :: "string option"
  cni_serviceIds :: "serviceId list option"
  cni_runtimeProfileIds :: "string list option"
  cni_browserProfileIds :: "string list option"
  cni_serviceAccountIds :: "string list option"
  cni_browserCapable :: "bool option"
  cni_eligibilityNote :: "string option"

definition createExecutionRunnerRecord :: "createRunnerInput \<Rightarrow> executionRunner" where
  "createExecutionRunnerRecord inp =
     \<lparr>rnr_id = cni_id inp,
      rnr_hostId = cni_hostId inp,
      rnr_status = orElse (cni_status inp) RunnerActive,
      rnr_startedAt = cni_startedAt inp,
      rnr_lastHeartbeatAt = orElse (cni_lastHeartbeatAt inp) (cni_startedAt inp),
      rnr_expiresAt = cni_expiresAt inp,
      rnr_lastActivityAt = cni_lastActivityAt inp,
      rnr_lastClaimedRunId = cni_lastClaimedRunId inp,
      rnr_serviceIds = orElse (cni_serviceIds inp) [],
      rnr_runtimeProfileIds = orElse (cni_runtimeProfileIds inp) [],
      rnr_browserProfileIds = orElse (cni_browserProfileIds inp) [],
      rnr_serviceAccountIds = orElse (cni_serviceAccountIds inp) [],
      rnr_browserCapable = orElse (cni_browserCapable inp) False,
      rnr_eligibilityNote = cni_eligibilityNote inp\<rparr>"

text \<open>The spread \<open>...record.runner\<close> with which the runner control starts every rebuild.\<close>

definition runnerInputOf :: "executionRunner \<Rightarrow> createRunnerInput" where
  "runnerInputOf r =
     \<lparr>cni_id = rnr_id r, cni_hostId = rnr_hostId r, cni_status = Some (rnr_status r),
      cni_startedAt = rnr_startedAt r, cni_lastHeartbeatAt = Some (rnr_lastHeartbeatAt r),
      cni_expiresAt = rnr_expiresAt r, cni_lastActivityAt = rnr_lastActivityAt r,
      cni_lastClaimedRunId = rnr_lastClaimedRunId r, cni_serviceIds = Some (rnr_serviceIds r),
      cni_runtimeProfileIds = Some (rnr_runtimeProfileIds r),
      cni_browserProfileIds = Some (rnr_browserProfileIds r),
      cni_serviceAccountIds = Some (rnr_serviceAccountIds r),
      cni_browserCapable = Some (rnr_browserCapable r),
      cni_eligibilityNote = rnr_eligibilityNote r\<rparr>"

lemma createExecutionRunnerRecord_runnerInputOf [simp]:
  "createExecutionRunnerRecord (runnerInputOf r) = r"
  by (simp add: createExecutionRunnerRecord_def runnerInputOf_def)

definition createExecutionRunSharedState ::
  "string \<Rightarrow> string \<Rightarrow> sharedStateStatus option \<Rightarrow> artifactRef list option \<Rightarrow>
   structuredOutput list option \<Rightarrow> string list option \<Rightarrow> executionRunEvent list option \<Rightarrow>
   string \<Rightarrow> sharedState" where
  "createExecutionRunSharedState sid runId st arts outs notes hist lastUpdatedAt =
     \<lparr>ss_id = sid, ss_runId = runId, ss_status = orElse st StateActive,
      ss_artifacts = orElse arts [], ss_structuredOutputs = orElse outs [],
      ss_notes = orElse notes [], ss_history = orElse hist [],
      ss_lastUpdatedAt = lastUpdatedAt\<rparr>"

definition stepLe :: "executionRunStep \<Rightarrow> executionRunStep \<Rightarrow> bool" where
  "stepLe l r = (step_order l - step_order r \<le> 0)"

interpretation stepSort: comparator stepLe
  by unfold_locales (auto simp: stepLe_def)

definition createExecutionRunRecordBundle ::
  "executionRun \<Rightarrow> executionRunStep list \<Rightarrow> handoff list option \<Rightarrow>
   localActionRequest list option \<Rightarrow> sharedState \<Rightarrow> executionRunEvent list option \<Rightarrow> runBundle" where
  "createExecutionRunRecordBundle run steps handoffs requests shared events =
     \<lparr>bdl_run = run,
      bdl_steps = sortBy stepLe steps,
      bdl_handoffs = orElse handoffs [],
      bdl_localActionRequests = orElse requests [],
      bdl_sharedState = shared,
      bdl_events = orElse events [],
      bdl_leases = []\<rparr>"

section \<open>Projecting a team run\<close>

record teamRun =
  trun_id :: string
  trun_teamId :: string
  trun_taskRunSpecId :: "string option"
  trun_status :: executionRunStatus
  trun_createdAt :: string
  trun_updatedAt :: string
  trun_trigger :: teamRunTrigger
  trun_requestedBy :: "string option"
  trun_entryPrompt :: "string option"
  trun_initialInputs :: jobj
  trun_sharedStateId :: string
  trun_stepIds :: "string list"
  trun_policy :: executionPolicy

record teamRunStep =
  tstep_id :: string
  tstep_teamRunId :: string
  tstep_agentId :: string
  tstep_runtimeProfileId :: "string option"
  tstep_browserProfileId :: "string option"
  tstep_service :: "serviceId option"
  tstep_kind :: teamRunStepKind
  tstep_status :: teamRunStepStatus
  tstep_order :: int
  tstep_dependsOnStepIds :: "string list"
  tstep_input :: stepInput
  tstep_output :: "stepOutput option"
  tstep_startedAt :: "string option"
  tstep_completedAt :: "string option"
  tstep_failure :: "failure option"

record teamHistoryEvent =
  thev_id :: string
  thev_teamRunId :: string
  thev_type :: teamHistoryEventType
  thev_createdAt :: string
  thev_stepId :: "string option"
  thev_handoffId :: "string option"
  thev_artifactId :: "string option"
  thev_note :: "string option"
  thev_payload :: "jobj option"

record teamSharedState =
  tss_id :: string
  tss_teamRunId :: string
  tss_status :: sharedStateStatus
  tss_artifacts :: "artifactRef list"
  tss_structuredOutputs :: "structuredOutput list"
  tss_notes :: "string list"
  tss_history :: "teamHistoryEvent list"
  tss_lastUpdatedAt :: string

fun mapTeamRunStatusToExecutionStatus :: "executionRunStatus \<Rightarrow> executionRunStatus" where
  "mapTeamRunStatusToExecutionStatus s = s"

fun mapTeamRunStepStatusToExecutionStatus :: "teamRunStepStatus \<Rightarrow> executionRunStepStatus" where
  "mapTeamRunStepStatusToExecutionStatus TStepReady = StepRunnable"
| "mapTeamRunStepStatusToExecutionStatus TStepPlanned = StepPlanned"
| "mapTeamRunStepStatusToExecutionStatus TStepRunning = StepRunning"
| "mapTeamRunStepStatusToExecutionStatus TStepSucceeded = StepSucceeded"
| "mapTeamRunStepStatusToExecutionStatus TStepFailed = StepFailed"
| "mapTeamRunStepStatusToExecutionStatus TStepBlocked = StepBlocked"
| "mapTeamRunStepStatusToExecutionStatus TStepSkipped = StepSkipped"
| "mapTeamRunStepStatusToExecutionStatus TStepCancelled = StepCancelled"

fun mapTeamHistoryEventType :: "teamHistoryEventType \<Rightarrow> executionRunEventType" where
  "mapTeamHistoryEventType ThStepPlanned = EvStepPlanned"
| "mapTeamHistoryEventType ThStepStarted = EvStepStarted"
| "mapTeamHistoryEventType ThStepSucceeded = EvStepSucceeded"
| "mapTeamHistoryEventType ThStepFailed = EvStepFailed"
| "mapTeamHistoryEventType ThHandoffCreated = EvNoteAdded"
| "mapTeamHistoryEventType ThHandoffConsumed = EvHandoffConsumed"
| "mapTeamHistoryEventType ThArtifactAdded = EvNoteAdded"
| "mapTeamHistoryEventType ThNoteAdded = EvNoteAdded"

definition tstepLe :: "teamRunStep \<Rightarrow> teamRunStep \<Rightarrow> bool" where
  "tstepLe l r = (tstep_order l - tstep_order r \<le> 0)"

interpretation tstepSort: comparator tstepLe
  by unfold_locales (auto simp: tstepLe_def)

definition projectTeamStep :: "teamRun \<Rightarrow> teamRunStep \<Rightarrow> executionRunStep" where
  "projectTeamStep tr s = createExecutionRunStep
     \<lparr>csi_id = tstep_id s, csi_runId = trun_id tr, csi_sourceStepId = Some (tstep_id s),
      csi_agentId = tstep_agentId s, csi_runtimeProfileId = tstep_runtimeProfileId s,
      csi_browserProfileId = tstep_browserProfileId s, csi_service = tstep_service s,
      csi_kind = tstep_kind s,
      csi_status = Some (mapTeamRunStepStatusToExecutionStatus (tstep_status s)),
      csi_order = tstep_order s, csi_dependsOnStepIds = Some (tstep_dependsOnStepIds s),
      csi_input = tstep_input s, csi_output = tstep_output s,
      csi_startedAt = tstep_startedAt s, csi_completedAt = tstep_completedAt s,
      csi_failure = tstep_failure s\<rparr>"

definition projectStepEvent :: "teamRun \<Rightarrow> executionRunStep \<Rightarrow> executionRunEvent" where
  "projectStepEvent tr s = createExecutionRunEvent
     (trun_id tr @ '':event:'' @ step_id s @ '':planned'') (trun_id tr)
     (if step_status s = StepRunnable then EvStepRunnable else EvStepPlanned)
     (trun_createdAt tr) (Some (step_id s)) None
     (Some (if step_status s = StepBlocked then ''step is blocked at projection time''
            else ''step projected from team-run planning bundle''))
     (Some [(''order'', jsInt (step_order s)),
            (''sourceStepId'', jsStrOrNull (step_sourceStepId s)),
            (''status'', JStr (stepStatusText (step_status s)))])"

definition projectHistoryEvent :: "teamRun \<Rightarrow> teamHistoryEvent \<Rightarrow> executionRunEvent" where
  "projectHistoryEvent tr e = createExecutionRunEvent (thev_id e) (trun_id tr)
     (mapTeamHistoryEventType (thev_type e)) (thev_createdAt e) (thev_stepId e) None
     (thev_note e) (thev_payload e)"

definition createExecutionRunRecordBundleFromTeamRun ::
  "teamRun \<Rightarrow> teamRunStep list \<Rightarrow> handoff list option \<Rightarrow> localActionRequest list option \<Rightarrow>
   teamSharedState \<Rightarrow> runBundle" where
  "createExecutionRunRecordBundleFromTeamRun tr tsteps handoffs requests tss =
     (let steps = map (projectTeamStep tr) (sortBy tstepLe tsteps);
          events = createExecutionRunEvent (trun_id tr @ '':event:run-created'') (trun_id tr)
              EvRunCreated (trun_createdAt tr) None None
              (Some ''projected from team-run planning bundle'')
              (Some [(''sourceKind'', JStr ''team-run''), (''sourceId'', JStr (trun_id tr))])
            # map (projectStepEvent tr) steps;
          shared = createExecutionRunSharedState (tss_id tss) (trun_id tr) (Some (tss_status tss))
            (Some (tss_artifacts tss)) (Some (tss_structuredOutputs tss)) (Some (tss_notes tss))
            (Some (events @ map (projectHistoryEvent tr) (tss_history tss)))
            (tss_lastUpdatedAt tss);
          run = createExecutionRun
            \<lparr>cri_id = trun_id tr, cri_sourceKind = Some TeamRunSource,
             cri_sourceId = Some (trun_id tr), cri_taskRunSpecId = trun_taskRunSpecId tr,
             cri_status = Some (mapTeamRunStatusToExecutionStatus (trun_status tr)),
             cri_createdAt = trun_createdAt tr, cri_updatedAt = Some (trun_updatedAt tr),
             cri_trigger = trun_trigger tr, cri_requestedBy = trun_requestedBy tr,
             cri_entryPrompt = trun_entryPrompt tr,
             cri_initialInputs = Some (trun_initialInputs tr),
             cri_sharedStateId = ss_id shared, cri_stepIds = Some (map step_id steps),
             cri_policy = trun_policy tr\<rparr>
      in createExecutionRunRecordBundle run steps
           (Some (orElse handoffs [])) (Some (orElse requests [])) shared (Some events))"

section \<open>The projection is well formed\<close>

lemma projectTeamStep_id [simp]: "step_id (projectTeamStep tr s) = tstep_id s"
  by (simp add: projectTeamStep_def createExecutionRunStep_def)

lemma projectTeamStep_order [simp]: "step_order (projectTeamStep tr s) = tstep_order s"
  by (simp add: projectTeamStep_def createExecutionRunStep_def)

lemma projectTeamStep_status [simp]:
  "step_status (projectTeamStep tr s) = mapTeamRunStepStatusToExecutionStatus (tstep_status s)"
  by (simp add: projectTeamStep_def createExecutionRunStep_def)

lemma projectStepEvent_runId [simp]: "ev_runId (projectStepEvent tr s) = trun_id tr"
  by (simp add: projectStepEvent_def)

text \<open>The second sort, inside \<open>createExecutionRunRecordBundle\<close>, finds the steps sorted.\<close>

lemma projected_steps_sorted:
  "sortBy stepLe (map (projectTeamStep tr) (sortBy tstepLe ts))
   = map (projectTeamStep tr) (sortBy tstepLe ts)"
proof (rule stepSort.sortBy_sorted)
  have "sorted_wrt tstepLe (sortBy tstepLe ts)"
    by (rule tstepSort.sorted_sortBy)
  then show "sorted_wrt stepLe (map (projectTeamStep tr) (sortBy tstepLe ts))"
    by (rule sorted_wrt_mono_rel [THEN sorted_wrt_map [THEN iffD2], rotated])
      (simp add: stepLe_def tstepLe_def)
qed

lemma fromTeamRun_steps:
  "bdl_steps (createExecutionRunRecordBundleFromTeamRun tr ts h r tss)
   = map (projectTeamStep tr) (sortBy tstepLe ts)"
  by (simp add: createExecutionRunRecordBundleFromTeamRun_def createExecutionRunRecordBundle_def
      Let_def projected_steps_sorted)

lemma fromTeamRun_run_id [simp]:
  "run_id (bdl_run (createExecutionRunRecordBundleFromTeamRun tr ts h r tss)) = trun_id tr"
  by (simp add: createExecutionRunRecordBundleFromTeamRun_def createExecutionRunRecordBundle_def
      Let_def createExecutionRun_def)

lemma fromTeamRun_stepIds:
  "run_stepIds (bdl_run (createExecutionRunRecordBundleFromTeamRun tr ts h r tss))
   = map step_id (bdl_steps (createExecutionRunRecordBundleFromTeamRun tr ts h r tss))"
  by (simp add: fromTeamRun_steps)
    (simp add: createExecutionRunRecordBundleFromTeamRun_def createExecutionRunRecordBundle_def
      Let_def createExecutionRun_def)

lemma fromTeamRun_wf:
  "distinct (map tstep_id ts) \<Longrightarrow> wfBundle (createExecutionRunRecordBundleFromTeamRun tr ts h r tss)"
  unfolding wfBundle_def fromTeamRun_steps fromTeamRun_run_id
  by (simp add: createExecutionRunRecordBundleFromTeamRun_def createExecutionRunRecordBundle_def
      Let_def createExecutionRunSharedState_def activeLeases_def comp_def subseq_prefix_append)

section \<open>Small bundles for the witnesses\<close>

definition demoPolicy :: executionPolicy where
  "demoPolicy = \<lparr>pol_executionMode = Sequential, pol_failPolicy = FailFast,
     pol_parallelismMode = ParallelismDisabled, pol_handoffRequirement = ExplicitHandoff\<rparr>"

definition demoStep :: "string \<Rightarrow> int \<Rightarrow> executionRunStepStatus \<Rightarrow> string list \<Rightarrow> executionRunStep" where
  "demoStep i n st deps =
     \<lparr>step_id = i, step_runId = ''r'', step_sourceStepId = None, step_agentId = ''agent'',
      step_runtimeProfileId = None, step_browserProfileId = None, step_service = None,
      step_kind = KPrompt, step_status = st, step_order = n, step_dependsOnStepIds = deps,
      step_input = \<lparr>in_prompt = None, in_handoffIds = [], in_artifacts = [],
        in_structuredData = [], in_notes = []\<rparr>,
      step_output = None, step_startedAt = None, step_completedAt = None, step_failure = None\<rparr>"

definition demoBundle :: "executionRunStep list \<Rightarrow> executionRunLease list \<Rightarrow> runBundle" where
  "demoBundle steps leases =
     \<lparr>bdl_run = \<lparr>run_id = ''r'', run_sourceKind = DirectSource, run_sourceId = None,
        run_taskRunSpecId = None, run_status = RunPlanned, run_createdAt = ''t0'',
        run_updatedAt = ''t0'', run_trigger = TrigCli, run_requestedBy = None,
        run_entryPrompt = None, run_initialInputs = [], run_sharedStateId = ''r:state'',
        run_stepIds = map step_id steps, run_policy = demoPolicy\<rparr>,
      bdl_steps = steps, bdl_handoffs = [], bdl_localActionRequests = [],
      bdl_sharedState = \<lparr>ss_id = ''r:state'', ss_runId = ''r'', ss_status = StateActive,
        ss_artifacts = [], ss_structuredOutputs = [], ss_notes = [], ss_history = [],
        ss_lastUpdatedAt = ''t0''\<rparr>,
      bdl_events = [], bdl_leases = leases\<rparr>"

lemmas demo_simps = demoBundle_def demoStep_def demoPolicy_def

definition demoLease :: "string \<Rightarrow> string \<Rightarrow> executionRunLeaseStatus \<Rightarrow> string \<Rightarrow> executionRunLease" where
  "demoLease i ow st ex =
     \<lparr>lease_id = i, lease_runId = ''r'', lease_ownerId = ow, lease_status = st,
      lease_acquiredAt = ''t0'', lease_heartbeatAt = ''t0'', lease_expiresAt = ex,
      lease_releasedAt = None, lease_releaseReason = None\<rparr>"

lemma demoBundle_simps [simp]:
  "bdl_leases (demoBundle ss ls) = ls" "bdl_steps (demoBundle ss ls) = ss"
  "bdl_events (demoBundle ss ls) = []" "run_id (bdl_run (demoBundle ss ls)) = ''r''"
  by (simp_all add: demoBundle_def)

lemma demoBundle_wf:
  "distinct (map step_id ss) \<Longrightarrow> distinct (map lease_id ls) \<Longrightarrow>
   length (filter isActiveLease ls) \<le> 1 \<Longrightarrow> \<forall>l\<in>set ls. lease_runId l = ''r'' \<Longrightarrow>
   wfBundle (demoBundle ss ls)"
  by (simp add: wfBundle_def activeLeases_def)

section \<open>What a projected run promises\<close>

text \<open>Projecting a planned team run yields a record of the right shape: when the planned steps have
  distinct identifiers, the bundle is well formed, its steps stand in dispatch order, and the run
  lists exactly their identifiers in that order.\<close>

lemma team_projection_is_well_formed:
  assumes "distinct (map tstep_id ts)"
  shows "wfBundle (createExecutionRunRecordBundleFromTeamRun tr ts h r tss)
    \<and> sorted_wrt stepLe (bdl_steps (createExecutionRunRecordBundleFromTeamRun tr ts h r tss))
    \<and> run_stepIds (bdl_run (createExecutionRunRecordBundleFromTeamRun tr ts h r tss))
        = map step_id (bdl_steps (createExecutionRunRecordBundleFromTeamRun tr ts h r tss))"
proof -
  have "sorted_wrt stepLe (bdl_steps (createExecutionRunRecordBundleFromTeamRun tr ts h r tss))"
    using stepSort.sorted_sortBy [of "map (projectTeamStep tr) (sortBy tstepLe ts)"]
    by (simp only: fromTeamRun_steps projected_steps_sorted)
  with fromTeamRun_wf [OF assms] fromTeamRun_stepIds show ?thesis by blast
qed

lemma team_projection_is_well_formed_example:
  "\<forall>tr s tss. wfBundle (createExecutionRunRecordBundleFromTeamRun tr
     [s\<lparr>tstep_id := ''b'', tstep_order := 2\<rparr>, s\<lparr>tstep_id := ''a'', tstep_order := 1\<rparr>] None None tss)"
proof (intro allI)
  fix tr tss and s :: teamRunStep
  let ?ts = "[s\<lparr>tstep_id := ''b'', tstep_order := 2\<rparr>, s\<lparr>tstep_id := ''a'', tstep_order := 1\<rparr>]"
  have "distinct (map tstep_id ?ts)" by simp
  from team_projection_is_well_formed [OF this]
  show "wfBundle (createExecutionRunRecordBundleFromTeamRun tr ?ts None None tss)" by blast
qed

end
