(* ===== verification/Dispatcher.thy ===== *)
theory Dispatcher
  imports Run_Model
begin

text \<open>
  The dispatcher (\<open>src/runtime/dispatcher.ts\<close>): one pass over the steps in order sorts them into
  buckets and picks the next runnable step. The loop is modelled as a fold over an accumulator
  record with one field per array the code pushes to; \<open>dispatch_buckets\<close> shows each array is a
  filter of the steps, and the rest of the theory states the scheduling guarantees.
\<close>

section \<open>The dispatch plan\<close>

record dispatchAcc =
  da_blocked :: "string list"
  da_blockedByFailure :: "string list"
  da_terminal :: "string list"
  da_running :: "string list"
  da_waiting :: "string list"
  da_eligible :: "string list"
  da_missing :: "string list"

record dispatchPlan =
  dp_run :: executionRun
  dp_sharedState :: sharedState
  dp_steps :: "executionRunStep list"
  dp_stepsById :: "string \<Rightarrow> executionRunStep option"
  dp_nextRunnableStepId :: "string option"
  dp_runnableStepIds :: "string list"
  dp_deferredStepIds :: "string list"
  dp_waitingStepIds :: "string list"
  dp_blockedStepIds :: "string list"
  dp_blockedByFailureStepIds :: "string list"
  dp_terminalStepIds :: "string list"
  dp_runningStepIds :: "string list"
  dp_missingDependencyStepIds :: "string list"

definition isTerminalStep :: "executionRunStep \<Rightarrow> bool" where
  "isTerminalStep s = (step_status s = StepSucceeded \<or> step_status s = StepFailed \<or>
     step_status s = StepSkipped \<or> step_status s = StepCancelled)"

definition canDispatchStep :: "executionRunStep \<Rightarrow> bool" where
  "canDispatchStep s = (step_status s = StepPlanned \<or> step_status s = StepRunnable)"

text \<open>\<open>Object.fromEntries\<close>: the last step with an identifier wins.\<close>

definition stepsByIdOf :: "executionRunStep list \<Rightarrow> string \<Rightarrow> executionRunStep option" where
  "stepsByIdOf steps = map_of (rev (map (\<lambda>s. (step_id s, s)) steps))"

definition dependenciesSatisfied :: "(string \<Rightarrow> executionRunStep option) \<Rightarrow> executionRunStep \<Rightarrow> bool" where
  "dependenciesSatisfied byId s =
     (let statuses = map (\<lambda>d. map_option step_status (byId d)) (step_dependsOnStepIds s)
      in statuses = [] \<or> list_all (\<lambda>st. st = Some StepSucceeded) statuses)"

definition missingDependencies :: "(string \<Rightarrow> executionRunStep option) \<Rightarrow> executionRunStep \<Rightarrow> string list" where
  "missingDependencies byId s = filter (\<lambda>d. byId d = None) (step_dependsOnStepIds s)"

definition dispatchStep ::
  "(string \<Rightarrow> executionRunStep option) \<Rightarrow> bool \<Rightarrow> dispatchAcc \<Rightarrow> executionRunStep \<Rightarrow> dispatchAcc" where
  "dispatchStep byId hasTerminalFailure acc s =
     (if step_status s = StepBlocked then acc\<lparr>da_blocked := da_blocked acc @ [step_id s]\<rparr>
      else if step_status s = StepRunning then acc\<lparr>da_running := da_running acc @ [step_id s]\<rparr>
      else if isTerminalStep s then acc\<lparr>da_terminal := da_terminal acc @ [step_id s]\<rparr>
      else if hasTerminalFailure
        then acc\<lparr>da_blockedByFailure := da_blockedByFailure acc @ [step_id s]\<rparr>
      else
        let acc' = acc\<lparr>da_missing := da_missing acc @ missingDependencies byId s\<rparr>
        in if canDispatchStep s \<and> dependenciesSatisfied byId s
           then acc'\<lparr>da_eligible := da_eligible acc' @ [step_id s]\<rparr>
           else acc'\<lparr>da_waiting := da_waiting acc' @ [step_id s]\<rparr>)"

definition emptyAcc :: dispatchAcc where
  "emptyAcc = \<lparr>da_blocked = [], da_blockedByFailure = [], da_terminal = [], da_running = [],
     da_waiting = [], da_eligible = [], da_missing = []\<rparr>"

definition hasTerminalFailure :: "executionRun \<Rightarrow> executionRunStep list \<Rightarrow> bool" where
  "hasTerminalFailure run steps =
     (pol_failPolicy (run_policy run) = FailFast \<and>
      list_ex (\<lambda>s. step_status s = StepFailed \<or> step_status s = StepCancelled) steps)"

definition createExecutionRunDispatchPlan :: "runBundle \<Rightarrow> dispatchPlan" where
  "createExecutionRunDispatchPlan b =
     (let steps = sortBy stepLe (bdl_steps b);
          byId = stepsByIdOf steps;
          acc = foldl (dispatchStep byId (hasTerminalFailure (bdl_run b) steps)) emptyAcc steps;
          next = (if da_running acc \<noteq> [] then None
                  else case da_eligible acc of [] \<Rightarrow> None | e # _ \<Rightarrow> Some e)
      in \<lparr>dp_run = bdl_run b,
          dp_sharedState = bdl_sharedState b,
          dp_steps = steps,
          dp_stepsById = byId,
          dp_nextRunnableStepId = next,
          dp_runnableStepIds = (case next of None \<Rightarrow> [] | Some e \<Rightarrow> if e = [] then [] else [e]),
          dp_deferredStepIds =
            (if da_running acc \<noteq> [] then da_eligible acc
             else filter (\<lambda>e. Some e \<noteq> next) (da_eligible acc)),
          dp_waitingStepIds = da_waiting acc,
          dp_blockedStepIds = da_blocked acc,
          dp_blockedByFailureStepIds = da_blockedByFailure acc,
          dp_terminalStepIds = da_terminal acc,
          dp_runningStepIds = da_running acc,
          dp_missingDependencyStepIds = sort (remdups (da_missing acc))\<rparr>)"

section \<open>The buckets as filters\<close>

definition pendingStep :: "executionRunStep \<Rightarrow> bool" where
  "pendingStep s = (step_status s \<noteq> StepBlocked \<and> step_status s \<noteq> StepRunning \<and> \<not> isTerminalStep s)"

definition eligibleStep ::
  "(string \<Rightarrow> executionRunStep option) \<Rightarrow> bool \<Rightarrow> executionRunStep \<Rightarrow> bool" where
  "eligibleStep byId failed s =
     (pendingStep s \<and> \<not> failed \<and> canDispatchStep s \<and> dependenciesSatisfied byId s)"

definition waitingStep ::
  "(string \<Rightarrow> executionRunStep option) \<Rightarrow> bool \<Rightarrow> executionRunStep \<Rightarrow> bool" where
  "waitingStep byId failed s =
     (pendingStep s \<and> \<not> failed \<and> \<not> (canDispatchStep s \<and> dependenciesSatisfied byId s))"

abbreviation (input) ids :: "(executionRunStep \<Rightarrow> bool) \<Rightarrow> executionRunStep list \<Rightarrow> string list" where
  "ids P steps \<equiv> map step_id (filter P steps)"

lemma pendingStep_iff: "pendingStep s \<longleftrightarrow> canDispatchStep s"
  by (cases "step_status s") (simp_all add: pendingStep_def canDispatchStep_def isTerminalStep_def)

lemma dispatchStep_eq:
  "dispatchStep byId failed acc s =
     \<lparr>da_blocked = da_blocked acc @ ids (\<lambda>s. step_status s = StepBlocked) [s],
      da_blockedByFailure = da_blockedByFailure acc @ ids (\<lambda>s. pendingStep s \<and> failed) [s],
      da_terminal = da_terminal acc @ ids isTerminalStep [s],
      da_running = da_running acc @ ids (\<lambda>s. step_status s = StepRunning) [s],
      da_waiting = da_waiting acc @ ids (waitingStep byId failed) [s],
      da_eligible = da_eligible acc @ ids (eligibleStep byId failed) [s],
      da_missing = da_missing acc @
        concat (map (missingDependencies byId) (filter (\<lambda>s. pendingStep s \<and> \<not> failed) [s]))\<rparr>"
  by (cases "step_status s")
    (simp_all add: dispatchStep_def pendingStep_def eligibleStep_def waitingStep_def
      isTerminalStep_def canDispatchStep_def)

lemma dispatch_buckets:
  "foldl (dispatchStep byId failed) acc steps =
     \<lparr>da_blocked = da_blocked acc @ ids (\<lambda>s. step_status s = StepBlocked) steps,
      da_blockedByFailure = da_blockedByFailure acc @ ids (\<lambda>s. pendingStep s \<and> failed) steps,
      da_terminal = da_terminal acc @ ids isTerminalStep steps,
      da_running = da_running acc @ ids (\<lambda>s. step_status s = StepRunning) steps,
      da_waiting = da_waiting acc @ ids (waitingStep byId failed) steps,
      da_eligible = da_eligible acc @ ids (eligibleStep byId failed) steps,
      da_missing = da_missing acc @
        concat (map (missingDependencies byId) (filter (\<lambda>s. pendingStep s \<and> \<not> failed) steps))\<rparr>"
proof (induction steps arbitrary: acc)
  case Nil
  then show ?case by simp
next
  case (Cons s steps)
  show ?case
    unfolding foldl_Cons Cons.IH by (subst dispatchStep_eq)+ simp
qed

abbreviation (input) planSteps :: "runBundle \<Rightarrow> executionRunStep list" where
  "planSteps b \<equiv> sortBy stepLe (bdl_steps b)"

abbreviation (input) planFailed :: "runBundle \<Rightarrow> bool" where
  "planFailed b \<equiv> hasTerminalFailure (bdl_run b) (sortBy stepLe (bdl_steps b))"

definition eligibleSteps :: "runBundle \<Rightarrow> executionRunStep list" where
  "eligibleSteps b = filter (eligibleStep (stepsByIdOf (planSteps b)) (planFailed b)) (planSteps b)"

lemma plan_running:
  "dp_runningStepIds (createExecutionRunDispatchPlan b) = ids (\<lambda>s. step_status s = StepRunning) (planSteps b)"
  by (simp add: createExecutionRunDispatchPlan_def Let_def dispatch_buckets emptyAcc_def)

lemma plan_blocked:
  "dp_blockedStepIds (createExecutionRunDispatchPlan b) = ids (\<lambda>s. step_status s = StepBlocked) (planSteps b)"
  by (simp add: createExecutionRunDispatchPlan_def Let_def dispatch_buckets emptyAcc_def)

lemma plan_terminal:
  "dp_terminalStepIds (createExecutionRunDispatchPlan b) = ids isTerminalStep (planSteps b)"
  by (simp add: createExecutionRunDispatchPlan_def Let_def dispatch_buckets emptyAcc_def)

lemma plan_blockedByFailure:
  "dp_blockedByFailureStepIds (createExecutionRunDispatchPlan b)
   = ids (\<lambda>s. pendingStep s \<and> planFailed b) (planSteps b)"
  by (simp add: createExecutionRunDispatchPlan_def Let_def dispatch_buckets emptyAcc_def)

lemma plan_waiting:
  "dp_waitingStepIds (createExecutionRunDispatchPlan b)
   = ids (waitingStep (stepsByIdOf (planSteps b)) (planFailed b)) (planSteps b)"
  by (simp add: createExecutionRunDispatchPlan_def Let_def dispatch_buckets emptyAcc_def)

lemma plan_next:
  "dp_nextRunnableStepId (createExecutionRunDispatchPlan b) =
     (if dp_runningStepIds (createExecutionRunDispatchPlan b) \<noteq> [] then None
      else case eligibleSteps b of [] \<Rightarrow> None | s # _ \<Rightarrow> Some (step_id s))"
  unfolding plan_running
  by (simp add: createExecutionRunDispatchPlan_def Let_def dispatch_buckets emptyAcc_def
      eligibleSteps_def split: list.split)

lemma plan_deferred:
  "dp_deferredStepIds (createExecutionRunDispatchPlan b) =
     filter (\<lambda>e. Some e \<noteq> dp_nextRunnableStepId (createExecutionRunDispatchPlan b))
       (map step_id (eligibleSteps b))"
  unfolding plan_next plan_running
  by (simp add: createExecutionRunDispatchPlan_def Let_def dispatch_buckets emptyAcc_def
      eligibleSteps_def split: list.split)

lemmas plan_simps = plan_running plan_blocked plan_terminal plan_blockedByFailure plan_waiting
  plan_next plan_deferred

section \<open>Looking steps up\<close>

lemma stepsByIdOf_Some: "stepsByIdOf steps i = Some s \<Longrightarrow> s \<in> set steps \<and> step_id s = i"
  unfolding stepsByIdOf_def by (auto dest!: map_of_SomeD)

lemma stepsByIdOf_unique:
  assumes "distinct (map step_id steps)"
  shows "stepsByIdOf steps i = find (\<lambda>s. step_id s = i) steps"
proof (cases "\<exists>s\<in>set steps. step_id s = i")
  case True
  then obtain s where s: "s \<in> set steps" "step_id s = i" by blast
  have "distinct (map fst (rev (map (\<lambda>s. (step_id s, s)) steps)))"
    using assms by (simp add: comp_def flip: rev_map)
  moreover have "(i, s) \<in> set (rev (map (\<lambda>s. (step_id s, s)) steps))"
    using s by auto
  ultimately have "stepsByIdOf steps i = Some s"
    unfolding stepsByIdOf_def by (rule map_of_is_SomeI)
  moreover from find_key_unique [OF assms s(1)] s(2)
  have "find (\<lambda>y. step_id y = i) steps = Some s" by simp
  ultimately show ?thesis by simp
next
  case False
  then have "find (\<lambda>s. step_id s = i) steps = None"
    by (simp add: find_None_iff)
  moreover have "stepsByIdOf steps i = None"
    using False stepsByIdOf_Some by (metis not_None_eq)
  ultimately show ?thesis by simp
qed

lemma eligibleStep_dependency:
  "eligibleStep byId failed s \<Longrightarrow> d \<in> set (step_dependsOnStepIds s) \<Longrightarrow>
   \<exists>t. byId d = Some t \<and> step_status t = StepSucceeded"
  by (auto simp: eligibleStep_def dependenciesSatisfied_def list_all_iff Let_def)

lemma plan_next_SomeD:
  assumes "dp_nextRunnableStepId (createExecutionRunDispatchPlan b) = Some i"
  obtains s rest where "eligibleSteps b = s # rest" "step_id s = i" "s \<in> set (bdl_steps b)"
    "eligibleStep (stepsByIdOf (planSteps b)) (planFailed b) s"
    "\<forall>t\<in>set (bdl_steps b). step_status t \<noteq> StepRunning"
proof -
  from assms have run: "filter (\<lambda>s. step_status s = StepRunning) (planSteps b) = []"
    by (simp add: plan_next plan_running split: if_splits)
  from assms obtain s rest where es: "eligibleSteps b = s # rest" "step_id s = i"
    by (auto simp: plan_next split: if_splits list.splits)
  then have "s \<in> set (eligibleSteps b)" by simp
  then have "s \<in> set (bdl_steps b)" "eligibleStep (stepsByIdOf (planSteps b)) (planFailed b) s"
    by (simp_all add: eligibleSteps_def)
  moreover from run have "\<forall>t\<in>set (bdl_steps b). step_status t \<noteq> StepRunning"
    by (simp add: filter_empty_conv)
  ultimately show thesis using es that by blast
qed

section \<open>Scheduling guarantees\<close>

lemma filter_split_mset:
  "(\<And>x. x \<in> set xs \<Longrightarrow> Q x \<Longrightarrow> P x) \<Longrightarrow>
   mset (filter P xs) = mset (filter Q xs) + mset (filter (\<lambda>x. P x \<and> \<not> Q x) xs)"
  by (induction xs) auto

lemma mset_buckets:
  "mset (ids (\<lambda>s. step_status s = StepBlocked) xs) + mset (ids (\<lambda>s. step_status s = StepRunning) xs)
   + mset (ids isTerminalStep xs) + mset (ids (\<lambda>s. pendingStep s \<and> failed) xs)
   + mset (ids (waitingStep byId failed) xs) + mset (ids (eligibleStep byId failed) xs)
   = mset (map step_id xs)"
proof (induction xs)
  case Nil
  then show ?case by simp
next
  case (Cons s xs)
  then show ?case
    by (cases "step_status s")
      (auto simp: pendingStep_def eligibleStep_def waitingStep_def isTerminalStep_def canDispatchStep_def)
qed

lemma next_deferred_eligible:
  assumes "distinct (map step_id (bdl_steps b))"
    and "dp_runningStepIds (createExecutionRunDispatchPlan b) = []"
  shows "(case dp_nextRunnableStepId (createExecutionRunDispatchPlan b) of None \<Rightarrow> [] | Some i \<Rightarrow> [i])
     @ dp_deferredStepIds (createExecutionRunDispatchPlan b) = map step_id (eligibleSteps b)"
proof (cases "eligibleSteps b")
  case Nil
  then show ?thesis using assms(2) by (simp add: plan_deferred plan_next)
next
  case (Cons s rest)
  have "distinct (map step_id (planSteps b))" using assms(1) by simp
  then have "distinct (map step_id (eligibleSteps b))"
    unfolding eligibleSteps_def by (rule distinct_map_filter)
  with Cons have "step_id s \<notin> set (map step_id rest)" by simp
  then have "filter (\<lambda>e. e \<noteq> step_id s) (map step_id rest) = map step_id rest"
    by (intro filter_True) (auto, metis imageI)
  with Cons assms(2) show ?thesis by (simp add: plan_deferred plan_next)
qed

lemma deferred_when_running:
  "dp_runningStepIds (createExecutionRunDispatchPlan b) \<noteq> [] \<Longrightarrow>
   dp_nextRunnableStepId (createExecutionRunDispatchPlan b) = None \<and>
   dp_deferredStepIds (createExecutionRunDispatchPlan b) = map step_id (eligibleSteps b)"
  by (simp add: plan_deferred plan_next)

text \<open>The dispatch plan is a partition of the run: each step appears in exactly one of the
  blocked, running, terminal, blocked-by-failure, waiting, next and deferred buckets.\<close>

lemma dispatch_partition:
  assumes "distinct (map step_id (bdl_steps b))"
  defines "p \<equiv> createExecutionRunDispatchPlan b"
  shows "mset (dp_blockedStepIds p @ dp_runningStepIds p @ dp_terminalStepIds p
      @ dp_blockedByFailureStepIds p @ dp_waitingStepIds p
      @ (case dp_nextRunnableStepId p of None \<Rightarrow> [] | Some i \<Rightarrow> [i]) @ dp_deferredStepIds p)
    = mset (map step_id (bdl_steps b))"
proof -
  have e: "(case dp_nextRunnableStepId p of None \<Rightarrow> [] | Some i \<Rightarrow> [i]) @ dp_deferredStepIds p
      = map step_id (eligibleSteps b)"
    unfolding p_def using next_deferred_eligible [OF assms(1)] deferred_when_running [of b]
    by (cases "dp_runningStepIds (createExecutionRunDispatchPlan b) = []") simp_all
  have "mset (map step_id (planSteps b)) = mset (map step_id (bdl_steps b))"
    by simp
  then show ?thesis
    unfolding e using mset_buckets [of "planSteps b" "planFailed b" "stepsByIdOf (planSteps b)"]
    by (simp add: p_def plan_running plan_blocked plan_terminal plan_blockedByFailure plan_waiting
        eligibleSteps_def add.assoc)
qed

definition demoTwoSteps :: runBundle where
  "demoTwoSteps = demoBundle [demoStep ''b'' 2 StepPlanned [''a''], demoStep ''a'' 1 StepSucceeded []] []"

lemma demoTwoSteps_next:
  "dp_nextRunnableStepId (createExecutionRunDispatchPlan demoTwoSteps) = Some ''b''"
  by (simp add: plan_next plan_running eligibleSteps_def demoTwoSteps_def demo_simps stepLe_def
      eligibleStep_def pendingStep_def hasTerminalFailure_def canDispatchStep_def isTerminalStep_def
      dependenciesSatisfied_def stepsByIdOf_def)

lemma dispatch_partition_example:
  "mset (dp_blockedStepIds (createExecutionRunDispatchPlan demoTwoSteps)
      @ dp_runningStepIds (createExecutionRunDispatchPlan demoTwoSteps)
      @ dp_terminalStepIds (createExecutionRunDispatchPlan demoTwoSteps)
      @ dp_blockedByFailureStepIds (createExecutionRunDispatchPlan demoTwoSteps)
      @ dp_waitingStepIds (createExecutionRunDispatchPlan demoTwoSteps)
      @ (case dp_nextRunnableStepId (createExecutionRunDispatchPlan demoTwoSteps) of
           None \<Rightarrow> [] | Some i \<Rightarrow> [i])
      @ dp_deferredStepIds (createExecutionRunDispatchPlan demoTwoSteps))
    = mset [''b'', ''a'']"
proof -
  have "distinct (map step_id (bdl_steps demoTwoSteps))"
    by (simp add: demoTwoSteps_def demo_simps)
  from dispatch_partition [OF this] show ?thesis
    by (simp add: demoTwoSteps_def demo_simps)
qed

text \<open>What the dispatcher's choice gives the runner.\<close>

lemma dispatch_next_ready:
  assumes "dp_nextRunnableStepId (createExecutionRunDispatchPlan b) = Some i"
  shows "\<exists>s\<in>set (bdl_steps b). step_id s = i
      \<and> (step_status s = StepPlanned \<or> step_status s = StepRunnable)
      \<and> (\<forall>d\<in>set (step_dependsOnStepIds s). \<exists>t\<in>set (bdl_steps b). step_id t = d \<and> step_status t = StepSucceeded)
      \<and> (\<forall>t\<in>set (bdl_steps b). step_status t \<notin> {StepRunning, StepFailed, StepCancelled})
      \<and> (\<forall>t\<in>set (eligibleSteps b). step_order s \<le> step_order t)"
proof -
  obtain s rest where s: "eligibleSteps b = s # rest" "step_id s = i" "s \<in> set (bdl_steps b)"
    and e: "eligibleStep (stepsByIdOf (planSteps b)) (planFailed b) s"
    and r: "\<forall>t\<in>set (bdl_steps b). step_status t \<noteq> StepRunning"
    using assms by (rule plan_next_SomeD)
  from e have st: "step_status s = StepPlanned \<or> step_status s = StepRunnable"
    and nf: "\<not> planFailed b"
    by (auto simp: eligibleStep_def canDispatchStep_def)
  have deps: "\<forall>d\<in>set (step_dependsOnStepIds s).
      \<exists>t\<in>set (bdl_steps b). step_id t = d \<and> step_status t = StepSucceeded"
  proof
    fix d assume "d \<in> set (step_dependsOnStepIds s)"
    with e obtain t where "stepsByIdOf (planSteps b) d = Some t" "step_status t = StepSucceeded"
      using eligibleStep_dependency by blast
    then show "\<exists>t\<in>set (bdl_steps b). step_id t = d \<and> step_status t = StepSucceeded"
      using stepsByIdOf_Some by fastforce
  qed
  have nofail: "\<forall>t\<in>set (bdl_steps b). step_status t \<noteq> StepFailed \<and> step_status t \<noteq> StepCancelled"
    using nf by (cases "pol_failPolicy (run_policy (bdl_run b))")
      (auto simp: hasTerminalFailure_def list_ex_iff)
  have "sorted_wrt stepLe (planSteps b)" by (rule stepSort.sorted_sortBy)
  then have "sorted_wrt stepLe (eligibleSteps b)"
    unfolding eligibleSteps_def by (rule sorted_wrt_filter)
  with s(1) have "\<forall>t\<in>set (eligibleSteps b). step_order s \<le> step_order t"
    by (auto simp: stepLe_def)
  with s st deps nofail r show ?thesis by blast
qed

text \<open>The step the dispatcher offers is safe to start: it is planned or runnable, all its
  dependencies are steps of the run that succeeded, no step is running, none failed or was
  cancelled, and no other step that is ready in the same sense precedes it in order.\<close>

lemma dispatch_next_sound:
  assumes "dp_nextRunnableStepId (createExecutionRunDispatchPlan b) = Some i"
  shows "\<exists>s\<in>set (bdl_steps b). step_id s = i
      \<and> (step_status s = StepPlanned \<or> step_status s = StepRunnable)
      \<and> (\<forall>d\<in>set (step_dependsOnStepIds s). \<exists>t\<in>set (bdl_steps b). step_id t = d \<and> step_status t = StepSucceeded)
      \<and> (\<forall>t\<in>set (bdl_steps b). step_status t \<notin> {StepRunning, StepFailed, StepCancelled})
      \<and> (\<forall>t\<in>set (eligibleSteps b). step_order s \<le> step_order t)"
  using assms by (rule dispatch_next_ready)

lemma dispatch_next_sound_example:
  "\<exists>s\<in>set (bdl_steps demoTwoSteps). step_id s = ''b''
      \<and> (step_status s = StepPlanned \<or> step_status s = StepRunnable)
      \<and> (\<forall>d\<in>set (step_dependsOnStepIds s).
           \<exists>t\<in>set (bdl_steps demoTwoSteps). step_id t = d \<and> step_status t = StepSucceeded)
      \<and> (\<forall>t\<in>set (bdl_steps demoTwoSteps). step_status t \<notin> {StepRunning, StepFailed, StepCancelled})
      \<and> (\<forall>t\<in>set (eligibleSteps demoTwoSteps). step_order s \<le> step_order t)"
  using demoTwoSteps_next by (rule dispatch_next_sound)

lemma dispatch_offers_next:
  assumes dist: "distinct (map step_id (bdl_steps b))"
    and deps: "\<forall>s\<in>set (bdl_steps b). \<forall>d\<in>set (step_dependsOnStepIds s).
      \<exists>t\<in>set (bdl_steps b). step_id t = d \<and> step_order t < step_order s"
    and stat: "\<forall>s\<in>set (bdl_steps b). step_status s \<in> {StepPlanned, StepRunnable, StepSucceeded}"
    and open1: "\<exists>s\<in>set (bdl_steps b). step_status s \<noteq> StepSucceeded"
  shows "\<exists>i. dp_nextRunnableStepId (createExecutionRunDispatchPlan b) = Some i"
proof -
  let ?open = "{s \<in> set (bdl_steps b). step_status s \<noteq> StepSucceeded}"
  have "finite ?open" "?open \<noteq> {}" using open1 by auto
  then obtain s where s: "s \<in> ?open" and least: "\<forall>t\<in>?open. step_order s \<le> step_order t"
    using ex_min_if_finite [of "step_order ` ?open"] by (auto simp: not_less)
  have d2: "distinct (map step_id (planSteps b))" using dist by simp
  have "dependenciesSatisfied (stepsByIdOf (planSteps b)) s"
    unfolding dependenciesSatisfied_def Let_def list_all_iff
  proof (intro disjI2 ballI, clarsimp)
    fix d assume "d \<in> set (step_dependsOnStepIds s)"
    with deps s obtain t where t: "t \<in> set (bdl_steps b)" "step_id t = d" "step_order t < step_order s"
      by blast
    with least have "step_status t = StepSucceeded" by fastforce
    moreover have "stepsByIdOf (planSteps b) d = Some t"
      using stepsByIdOf_unique [OF d2, of d] find_key_unique [OF d2, of t] t by simp
    ultimately show "\<exists>z. stepsByIdOf (planSteps b) d = Some z \<and> step_status z = StepSucceeded"
      by simp
  qed
  moreover have "canDispatchStep s" using s stat by (auto simp: canDispatchStep_def)
  moreover have "\<not> planFailed b"
    using stat by (auto simp: hasTerminalFailure_def list_ex_iff)
  ultimately have "eligibleStep (stepsByIdOf (planSteps b)) (planFailed b) s"
    by (simp add: eligibleStep_def pendingStep_iff)
  with s have "s \<in> set (eligibleSteps b)" by (simp add: eligibleSteps_def)
  moreover have "dp_runningStepIds (createExecutionRunDispatchPlan b) = []"
    using stat by (force simp: plan_running filter_empty_conv)
  ultimately show ?thesis
    by (cases "eligibleSteps b") (simp_all add: plan_next)
qed

end
