(* ===== verification/Lease.thy ===== *)
theory Lease
  imports Run_Model
begin

text \<open>
  Execution leases (\<open>src/runtime/lease.ts\<close>): acquiring, renewing, releasing and expiring the
  lease that makes one runner the owner of a run. Each operation is modelled on the whole bundle
  with its guard, the event it appends to both logs and the timestamps it sets. An error is the
  message of the exception thrown.
\<close>

section \<open>Operations\<close>

record leaseMutation =
  lm_bundle :: runBundle
  lm_lease :: executionRunLease
  lm_event :: executionRunEvent

text \<open>The part common to all lease mutations: log the event and stamp the run.\<close>

definition logEvents :: "string \<Rightarrow> executionRunEvent list \<Rightarrow> runBundle \<Rightarrow> runBundle" where
  "logEvents updatedAt events b =
     b\<lparr>bdl_run := (bdl_run b)\<lparr>run_updatedAt := updatedAt\<rparr>,
       bdl_events := bdl_events b @ events,
       bdl_sharedState := (bdl_sharedState b)
         \<lparr>ss_history := ss_history (bdl_sharedState b) @ events, ss_lastUpdatedAt := updatedAt\<rparr>\<rparr>"

definition appendLeaseMutation ::
  "runBundle \<Rightarrow> executionRunLease \<Rightarrow> executionRunEvent \<Rightarrow> string \<Rightarrow> runBundle" where
  "appendLeaseMutation b lease event updatedAt =
     (logEvents updatedAt [event] b)\<lparr>bdl_leases := bdl_leases b @ [lease]\<rparr>"

definition replaceLeaseMutation ::
  "runBundle \<Rightarrow> executionRunLease \<Rightarrow> executionRunEvent \<Rightarrow> string \<Rightarrow> runBundle" where
  "replaceLeaseMutation b lease event updatedAt =
     (logEvents updatedAt [event] b)
       \<lparr>bdl_leases := map (\<lambda>l. if lease_id l = lease_id lease then lease else l) (bdl_leases b)\<rparr>"

definition requireLease :: "runBundle \<Rightarrow> string \<Rightarrow> executionRunLease result" where
  "requireLease b leaseId =
     (case find (\<lambda>l. lease_id l = leaseId) (bdl_leases b) of
        None \<Rightarrow> Inl (PlainError (''Execution lease '' @ leaseId @ '' was not found in run '' @ run_id (bdl_run b)))
      | Some l \<Rightarrow> Inr l)"

definition acquireExecutionRunLease ::
  "runBundle \<Rightarrow> string \<Rightarrow> string \<Rightarrow> string \<Rightarrow> string option \<Rightarrow> string \<Rightarrow> leaseMutation result" where
  "acquireExecutionRunLease b leaseId ownerId acquiredAt heartbeatAt expiresAt =
     (case activeLeaseOf b of
        Some c \<Rightarrow> Inl (PlainError (''Execution run '' @ run_id (bdl_run b) @ '' already has active lease '' @ lease_id c))
      | None \<Rightarrow>
          let lease = \<lparr>lease_id = leaseId, lease_runId = run_id (bdl_run b), lease_ownerId = ownerId,
                lease_status = LeaseActive, lease_acquiredAt = acquiredAt,
                lease_heartbeatAt = orElse heartbeatAt acquiredAt, lease_expiresAt = expiresAt,
                lease_releasedAt = None, lease_releaseReason = None\<rparr>;
              event = createExecutionRunEvent
                (run_id (bdl_run b) @ '':event:'' @ leaseId @ '':lease-acquired'')
                (run_id (bdl_run b)) EvLeaseAcquired acquiredAt None (Some leaseId)
                (Some (''lease acquired by '' @ ownerId))
                (Some [(''ownerId'', JStr ownerId), (''expiresAt'', JStr expiresAt)])
          in Inr \<lparr>lm_bundle = appendLeaseMutation b lease event acquiredAt,
                  lm_lease = lease, lm_event = event\<rparr>)"

definition heartbeatExecutionRunLease ::
  "runBundle \<Rightarrow> string \<Rightarrow> string \<Rightarrow> string \<Rightarrow> jobj option \<Rightarrow> leaseMutation result" where
  "heartbeatExecutionRunLease b leaseId heartbeatAt expiresAt evidence =
     (case requireLease b leaseId of
        Inl e \<Rightarrow> Inl e
      | Inr existing \<Rightarrow>
          if lease_status existing \<noteq> LeaseActive
          then Inl (PlainError (''Execution lease '' @ lease_id existing @ '' is not active''))
          else
            let lease = existing\<lparr>lease_heartbeatAt := heartbeatAt, lease_expiresAt := expiresAt\<rparr>;
                event = createExecutionRunEvent
                  (run_id (bdl_run b) @ '':event:'' @ lease_id lease @ '':lease-heartbeat:'' @ heartbeatAt)
                  (run_id (bdl_run b)) EvNoteAdded heartbeatAt None (Some (lease_id lease))
                  (Some (''lease heartbeat from '' @ lease_ownerId lease))
                  (Some ([(''ownerId'', JStr (lease_ownerId lease)),
                          (''expiresAt'', JStr (lease_expiresAt lease))]
                         @ (case evidence of None \<Rightarrow> [] | Some ev \<Rightarrow> [(''runtimeEvidence'', JObj ev)])))
            in Inr \<lparr>lm_bundle = replaceLeaseMutation b lease event heartbeatAt,
                    lm_lease = lease, lm_event = event\<rparr>)"

definition releaseExecutionRunLease ::
  "runBundle \<Rightarrow> string \<Rightarrow> string \<Rightarrow> string option \<Rightarrow> leaseMutation result" where
  "releaseExecutionRunLease b leaseId releasedAt releaseReason =
     (case requireLease b leaseId of
        Inl e \<Rightarrow> Inl e
      | Inr existing \<Rightarrow>
          if lease_status existing \<noteq> LeaseActive
          then Inl (PlainError (''Execution lease '' @ lease_id existing @ '' is not active''))
          else
            let lease = existing\<lparr>lease_status := LeaseReleased, lease_releasedAt := Some releasedAt,
                  lease_releaseReason := releaseReason\<rparr>;
                event = createExecutionRunEvent
                  (run_id (bdl_run b) @ '':event:'' @ lease_id lease @ '':lease-released'')
                  (run_id (bdl_run b)) EvLeaseReleased releasedAt None (Some (lease_id lease))
                  (Some (case releaseReason of
                     None \<Rightarrow> ''lease released''
                   | Some r \<Rightarrow> if r = [] then ''lease released'' else ''lease released: '' @ r))
                  (Some [(''ownerId'', JStr (lease_ownerId lease)),
                         (''releaseReason'', jsStrOrNull releaseReason)])
            in Inr \<lparr>lm_bundle = replaceLeaseMutation b lease event releasedAt,
                    lm_lease = lease, lm_event = event\<rparr>)"

definition leaseDue :: "string \<Rightarrow> executionRunLease \<Rightarrow> bool" where
  "leaseDue now l = (lease_status l = LeaseActive \<and> \<not> lease_expiresAt l > now)"

definition expireLease :: "string \<Rightarrow> executionRunLease \<Rightarrow> executionRunLease" where
  "expireLease now l =
     (if leaseDue now l
      then l\<lparr>lease_status := LeaseExpired, lease_releasedAt := Some now,
             lease_releaseReason := Some ''lease expired''\<rparr>
      else l)"

definition expiryEvent :: "runBundle \<Rightarrow> string \<Rightarrow> executionRunLease \<Rightarrow> executionRunEvent" where
  "expiryEvent b now l = createExecutionRunEvent
     (run_id (bdl_run b) @ '':event:'' @ lease_id l @ '':lease-expired'')
     (run_id (bdl_run b)) EvLeaseReleased now None (Some (lease_id l)) (Some ''lease expired'')
     (Some [(''ownerId'', JStr (lease_ownerId l)), (''previousExpiresAt'', JStr (lease_expiresAt l))])"

record expireLeasesResult =
  el_bundle :: runBundle
  el_expiredLeaseIds :: "string list"
  el_events :: "executionRunEvent list"

definition expireExecutionRunLeases :: "runBundle \<Rightarrow> string \<Rightarrow> expireLeasesResult" where
  "expireExecutionRunLeases b now =
     (let due = filter (leaseDue now) (bdl_leases b);
          events = map (expiryEvent b now) due
      in if events = [] then \<lparr>el_bundle = b, el_expiredLeaseIds = map lease_id due, el_events = events\<rparr>
         else \<lparr>el_bundle = (logEvents now events b)\<lparr>bdl_leases := map (expireLease now) (bdl_leases b)\<rparr>,
               el_expiredLeaseIds = map lease_id due, el_events = events\<rparr>)"

section \<open>Field lemmas\<close>

lemma logEvents_simps [simp]:
  "bdl_leases (logEvents t es b) = bdl_leases b"
  "bdl_steps (logEvents t es b) = bdl_steps b"
  "bdl_events (logEvents t es b) = bdl_events b @ es"
  "run_id (bdl_run (logEvents t es b)) = run_id (bdl_run b)"
  "run_status (bdl_run (logEvents t es b)) = run_status (bdl_run b)"
  "bdl_handoffs (logEvents t es b) = bdl_handoffs b"
  "ss_history (bdl_sharedState (logEvents t es b)) = ss_history (bdl_sharedState b) @ es"
  by (simp_all add: logEvents_def)

lemma requireLease_Inr:
  "requireLease b i = Inr l \<Longrightarrow> l \<in> set (bdl_leases b) \<and> lease_id l = i"
  by (auto simp: requireLease_def split: option.splits dest: find_SomeD)

text \<open>Each operation that succeeds has one of two shapes.\<close>

lemma acquire_Inr:
  "acquireExecutionRunLease b i ow t0 hb ex = Inr m \<Longrightarrow>
   activeLeaseOf b = None \<and> lm_bundle m = appendLeaseMutation b (lm_lease m) (lm_event m) t0 \<and>
   lease_id (lm_lease m) = i \<and> lease_ownerId (lm_lease m) = ow \<and> lease_expiresAt (lm_lease m) = ex \<and>
   lease_status (lm_lease m) = LeaseActive \<and> lease_runId (lm_lease m) = run_id (bdl_run b) \<and>
   ev_runId (lm_event m) = run_id (bdl_run b)"
  by (auto simp: acquireExecutionRunLease_def Let_def split: option.splits)

lemma heartbeat_Inr:
  "heartbeatExecutionRunLease b i hb ex ev = Inr m \<Longrightarrow>
   \<exists>l\<in>set (bdl_leases b). lease_id l = i \<and> lease_status l = LeaseActive \<and>
     lm_lease m = l\<lparr>lease_heartbeatAt := hb, lease_expiresAt := ex\<rparr> \<and>
     lm_bundle m = replaceLeaseMutation b (lm_lease m) (lm_event m) hb \<and>
     ev_runId (lm_event m) = run_id (bdl_run b)"
  by (auto simp: heartbeatExecutionRunLease_def Let_def dest!: requireLease_Inr
      split: sum.splits if_splits)

lemma release_Inr:
  "releaseExecutionRunLease b i t0 why = Inr m \<Longrightarrow>
   \<exists>l\<in>set (bdl_leases b). lease_id l = i \<and> lease_status l = LeaseActive \<and>
     lm_lease m = l\<lparr>lease_status := LeaseReleased, lease_releasedAt := Some t0, lease_releaseReason := why\<rparr> \<and>
     lm_bundle m = replaceLeaseMutation b (lm_lease m) (lm_event m) t0 \<and>
     ev_runId (lm_event m) = run_id (bdl_run b)"
  by (auto simp: releaseExecutionRunLease_def Let_def dest!: requireLease_Inr
      split: sum.splits if_splits)

section \<open>The bundle stays well formed\<close>

lemma wf_appendLease:
  assumes "wfBundle b" "activeLeaseOf b = None" "lease_id l \<notin> lease_id ` set (bdl_leases b)"
    and "lease_runId l = run_id (bdl_run b)" "ev_runId e = run_id (bdl_run b)"
  shows "wfBundle (appendLeaseMutation b l e t0)"
proof -
  from assms(2) have "filter isActiveLease (bdl_leases b) = []"
    by (simp add: activeLeaseOf_def find_None_filter)
  with assms show ?thesis
    by (auto simp: wfBundle_def appendLeaseMutation_def activeLeases_def subseq_append_both)
qed

lemma active_replace_le:
  assumes "length (filter isActiveLease ls) \<le> 1" "distinct (map lease_id ls)"
    and "\<exists>l\<in>set ls. lease_id l = lease_id l' \<and> isActiveLease l"
  shows "length (filter isActiveLease (map (\<lambda>l. if lease_id l = lease_id l' then l' else l) ls)) \<le> 1"
  using assms
proof (induction ls)
  case Nil
  then show ?case by simp
next
  case (Cons a ls)
  show ?case
  proof (cases "lease_id a = lease_id l'")
    case True
    then have same: "map (\<lambda>l. if lease_id l = lease_id l' then l' else l) ls = ls"
      using Cons.prems(2) by (intro map_idI) (auto simp: image_iff)
    from True Cons.prems(2,3) have "isActiveLease a"
      by (auto simp: image_iff)
    with Cons.prems(1) True same show ?thesis by simp
  next
    case False
    with Cons show ?thesis
      by (cases "isActiveLease a") (auto simp: filter_empty_conv)
  qed
qed

lemma wf_replaceLease:
  assumes wf: "wfBundle b" and l: "l \<in> set (bdl_leases b)" "isActiveLease l" "lease_id l = lease_id l'"
    and "lease_runId l' = run_id (bdl_run b)" "ev_runId e = run_id (bdl_run b)"
  shows "wfBundle (replaceLeaseMutation b l' e t0)"
proof -
  let ?f = "\<lambda>l. if lease_id l = lease_id l' then l' else l"
  have ids: "map lease_id (map ?f (bdl_leases b)) = map lease_id (bdl_leases b)"
    by (simp add: comp_def)
  have "length (filter isActiveLease (map ?f (bdl_leases b))) \<le> 1"
    using wf l by (intro active_replace_le) (auto simp: wfBundle_def activeLeases_def)
  with assms ids show ?thesis
    by (auto simp: wfBundle_def replaceLeaseMutation_def activeLeases_def subseq_append_both
        simp del: map_map)
qed

lemma expireLease_id [simp]: "lease_id (expireLease now l) = lease_id l"
  by (simp add: expireLease_def)

lemma expireLease_runId [simp]: "lease_runId (expireLease now l) = lease_runId l"
  by (simp add: expireLease_def)

lemma expireLease_active:
  "isActiveLease (expireLease now l) \<longleftrightarrow> isActiveLease l \<and> \<not> leaseDue now l"
  by (auto simp: expireLease_def isActiveLease_def leaseDue_def)

lemma el_leases:
  "bdl_leases (el_bundle (expireExecutionRunLeases b now)) = map (expireLease now) (bdl_leases b)"
proof (cases "filter (leaseDue now) (bdl_leases b) = []")
  case True
  then have "map (expireLease now) (bdl_leases b) = bdl_leases b"
    by (intro map_idI) (auto simp: expireLease_def filter_empty_conv)
  with True show ?thesis by (simp add: expireExecutionRunLeases_def Let_def)
next
  case False
  then show ?thesis by (simp add: expireExecutionRunLeases_def Let_def)
qed

lemma filter_expire_le:
  "length (filter isActiveLease (map (expireLease now) ls)) \<le> length (filter isActiveLease ls)"
  by (induction ls) (auto simp: expireLease_active)

lemma wf_expire: "wfBundle b \<Longrightarrow> wfBundle (el_bundle (expireExecutionRunLeases b now))"
  unfolding wfBundle_def activeLeases_def el_leases
  using filter_expire_le [of now "bdl_leases b"]
  by (auto simp: expireExecutionRunLeases_def Let_def comp_def expiryEvent_def subseq_append_both)

section \<open>Lease identifiers handed out by the service host\<close>

text \<open>
  \<open>sanitizeLeaseOwnerFragment\<close> and \<open>nextUniqueExecutionLeaseId\<close> of \<open>src/runtime/serviceHost.ts\<close>.
  The \<open>do ... while\<close> loop draws sequence numbers until the identifier is new; it is modelled with
  fuel, and \<open>nextUniqueExecutionLeaseId_enough\<close> shows that one draw more than there are existing
  identifiers always suffices.
\<close>

definition leaseOwnerChar :: "char \<Rightarrow> bool" where
  "leaseOwnerChar c = (let n = of_char c :: nat in
     97 \<le> n \<and> n \<le> 122 \<or> 65 \<le> n \<and> n \<le> 90 \<or> 48 \<le> n \<and> n \<le> 57 \<or> c = CHR '':'' \<or> c = CHR ''_'' \<or> c = CHR ''-'')"

fun sanitizeFrom :: "bool \<Rightarrow> string \<Rightarrow> string" where
  "sanitizeFrom inRun [] = []"
| "sanitizeFrom inRun (c # cs) =
     (if leaseOwnerChar c then c # sanitizeFrom False cs
      else if inRun then sanitizeFrom True cs
      else CHR ''-'' # sanitizeFrom True cs)"

definition sanitizeLeaseOwnerFragment :: "string \<Rightarrow> string" where
  "sanitizeLeaseOwnerFragment = sanitizeFrom False"

definition executionLeaseId :: "string \<Rightarrow> string \<Rightarrow> nat \<Rightarrow> string" where
  "executionLeaseId runId ownerId n =
     runId @ '':lease:'' @ sanitizeLeaseOwnerFragment ownerId @ '':'' @ natToStr n"

fun nextUniqueExecutionLeaseId ::
  "nat \<Rightarrow> string \<Rightarrow> string \<Rightarrow> string list \<Rightarrow> nat \<Rightarrow> (string \<times> nat) option" where
  "nextUniqueExecutionLeaseId 0 runId ownerId existing leaseSequence = None"
| "nextUniqueExecutionLeaseId (Suc fuel) runId ownerId existing leaseSequence =
     (let leaseSequence' = leaseSequence + 1;
          leaseId = executionLeaseId runId ownerId leaseSequence'
      in if leaseId \<in> set existing
         then nextUniqueExecutionLeaseId fuel runId ownerId existing leaseSequence'
         else Some (leaseId, leaseSequence'))"

lemma executionLeaseId_inj: "executionLeaseId r ow m = executionLeaseId r ow n \<longleftrightarrow> m = n"
  by (simp add: executionLeaseId_def)

lemma nextUnique_fresh:
  "nextUniqueExecutionLeaseId fuel r ow existing n = Some (i, n') \<Longrightarrow>
   i \<notin> set existing \<and> n < n' \<and> i = executionLeaseId r ow n'"
proof (induction fuel arbitrary: n)
  case (Suc fuel)
  let ?candidate = "executionLeaseId r ow (n + 1)"
  consider (taken) "?candidate \<in> set existing" | (free) "?candidate \<notin> set existing" by blast
  then show ?case
  proof cases
    case taken
    then show ?thesis using Suc.prems Suc.IH [of "n + 1"] by (auto simp: Let_def)
  next
    case free
    then show ?thesis using Suc.prems by (auto simp: Let_def)
  qed
qed simp

lemma nextUnique_None_prefix:
  "nextUniqueExecutionLeaseId fuel r ow existing n = None \<Longrightarrow>
   executionLeaseId r ow ` {n <.. n + fuel} \<subseteq> set existing"
proof (induction fuel arbitrary: n)
  case 0
  then show ?case by simp
next
  case (Suc fuel)
  from Suc.prems have here: "executionLeaseId r ow (n + 1) \<in> set existing"
    and rest: "nextUniqueExecutionLeaseId fuel r ow existing (n + 1) = None"
    by (auto simp: Let_def split: if_splits)
  have "{n <.. n + Suc fuel} = insert (n + 1) {n + 1 <.. n + 1 + fuel}" by auto
  with here Suc.IH [OF rest] show ?case by auto
qed

lemma nextUniqueExecutionLeaseId_enough:
  assumes "length existing < fuel"
  shows "nextUniqueExecutionLeaseId fuel r ow existing n \<noteq> None"
proof
  assume "nextUniqueExecutionLeaseId fuel r ow existing n = None"
  then have "executionLeaseId r ow ` {n <.. n + fuel} \<subseteq> set existing"
    by (rule nextUnique_None_prefix)
  then have "card (executionLeaseId r ow ` {n <.. n + fuel}) \<le> card (set existing)"
    by (rule card_mono [rotated]) simp
  moreover have "card (executionLeaseId r ow ` {n <.. n + fuel}) = fuel"
    by (subst card_image) (auto simp: inj_on_def executionLeaseId_inj)
  ultimately show False
    using card_length [of existing] assms by linarith
qed

text \<open>C39. The service host always finds a lease identifier: whatever identifiers a run already
  carries and wherever the sequence counter stands, the search ends after at most one draw more
  than there are existing identifiers, and the identifier it returns is not among them.\<close>

theorem lease_id_search_terminates:
  "\<exists>i n'. nextUniqueExecutionLeaseId (Suc (length existing)) r ow existing n = Some (i, n')
     \<and> i \<notin> set existing \<and> n < n'"
proof -
  obtain i n' where "nextUniqueExecutionLeaseId (Suc (length existing)) r ow existing n = Some (i, n')"
    using nextUniqueExecutionLeaseId_enough [of existing "Suc (length existing)" r ow n]
    by (metis lessI not_None_eq surj_pair)
  then show ?thesis using nextUnique_fresh by blast
qed

section \<open>Sequences of lease operations\<close>

text \<open>
  One rule per operation of the lease module; a new lease takes an identifier the run does not
  carry yet, as the service host provides it.
\<close>

inductive lease_step :: "runBundle \<Rightarrow> runBundle \<Rightarrow> bool" where
  acquire: "acquireExecutionRunLease b i ow t0 hb ex = Inr m \<Longrightarrow>
    i \<notin> lease_id ` set (bdl_leases b) \<Longrightarrow> lease_step b (lm_bundle m)"
| heartbeat: "heartbeatExecutionRunLease b i hb ex ev = Inr m \<Longrightarrow> lease_step b (lm_bundle m)"
| release: "releaseExecutionRunLease b i t0 why = Inr m \<Longrightarrow> lease_step b (lm_bundle m)"
| expire: "lease_step b (el_bundle (expireExecutionRunLeases b now))"

lemma lease_step_wf: "lease_step b b' \<Longrightarrow> wfBundle b \<Longrightarrow> wfBundle b'"
proof (induction rule: lease_step.induct)
  case (acquire b i ow t0 hb ex m)
  then show ?case by (auto dest!: acquire_Inr intro!: wf_appendLease)
next
  case (heartbeat b i hb ex ev m)
  from heartbeat_Inr [OF heartbeat.hyps] obtain l where
    l: "l \<in> set (bdl_leases b)" "lease_id l = i" "lease_status l = LeaseActive"
    and m: "lm_lease m = l\<lparr>lease_heartbeatAt := hb, lease_expiresAt := ex\<rparr>"
      "lm_bundle m = replaceLeaseMutation b (lm_lease m) (lm_event m) hb"
      "ev_runId (lm_event m) = run_id (bdl_run b)" by blast
  from heartbeat.prems l have "lease_runId l = run_id (bdl_run b)" by (simp add: wfBundle_def)
  with heartbeat.prems l m show ?case
    by (auto simp: isActiveLease_def intro!: wf_replaceLease [of b l])
next
  case (release b i t0 why m)
  from release_Inr [OF release.hyps] obtain l where
    l: "l \<in> set (bdl_leases b)" "lease_id l = i" "lease_status l = LeaseActive"
    and m: "lm_lease m = l\<lparr>lease_status := LeaseReleased, lease_releasedAt := Some t0,
        lease_releaseReason := why\<rparr>"
      "lm_bundle m = replaceLeaseMutation b (lm_lease m) (lm_event m) t0"
      "ev_runId (lm_event m) = run_id (bdl_run b)" by blast
  from release.prems l have "lease_runId l = run_id (bdl_run b)" by (simp add: wfBundle_def)
  with release.prems l m show ?case
    by (auto simp: isActiveLease_def intro!: wf_replaceLease [of b l])
next
  case (expire b now)
  then show ?case by (simp add: wf_expire)
qed

lemma lease_step_log: "lease_step b b' \<Longrightarrow> \<exists>es. bdl_events b' = bdl_events b @ es"
proof (induction rule: lease_step.induct)
  case (acquire b i ow t0 hb ex m)
  then show ?case by (auto dest!: acquire_Inr simp: appendLeaseMutation_def)
next
  case (heartbeat b i hb ex ev m)
  then show ?case by (auto dest!: heartbeat_Inr simp: replaceLeaseMutation_def)
next
  case (release b i t0 why m)
  then show ?case by (auto dest!: release_Inr simp: replaceLeaseMutation_def)
next
  case (expire b now)
  then show ?case by (auto simp: expireExecutionRunLeases_def Let_def)
qed

lemma lease_step_steps: "lease_step b b' \<Longrightarrow> bdl_steps b' = bdl_steps b"
  by (induction rule: lease_step.induct)
    (auto dest!: acquire_Inr heartbeat_Inr release_Inr
      simp: appendLeaseMutation_def replaceLeaseMutation_def expireExecutionRunLeases_def Let_def)


section \<open>Ownership\<close>


text \<open>A run is owned exclusively: acquiring a lease succeeds exactly when no lease of the run is
  active, and the holder after a successful acquire is the new owner.\<close>

lemma acquire_iff_unowned:
  "(\<exists>m. acquireExecutionRunLease b i ow t0 hb ex = Inr m
      \<and> activeLeaseOf (lm_bundle m) = Some (lm_lease m) \<and> lease_ownerId (lm_lease m) = ow)
   \<longleftrightarrow> (\<forall>l\<in>set (bdl_leases b). lease_status l \<noteq> LeaseActive)"
proof (cases "activeLeaseOf b")
  case None
  then obtain m where m: "acquireExecutionRunLease b i ow t0 hb ex = Inr m"
    by (simp add: acquireExecutionRunLease_def Let_def)
  from None have "find isActiveLease (bdl_leases b) = None" by (simp add: activeLeaseOf_def)
  then have "find isActiveLease (bdl_leases b @ [lm_lease m]) = Some (lm_lease m)"
    using acquire_Inr [OF m] by (simp add: isActiveLease_def find_append)
  then have "activeLeaseOf (lm_bundle m) = Some (lm_lease m)"
    using acquire_Inr [OF m] by (simp add: activeLeaseOf_def appendLeaseMutation_def)
  with m acquire_Inr [OF m] None show ?thesis
    by (auto simp: activeLeaseOf_None)
next
  case (Some l)
  then have "\<not> (\<forall>l\<in>set (bdl_leases b). lease_status l \<noteq> LeaseActive)"
    using activeLeaseOf_Some [OF Some] by blast
  with Some show ?thesis by (simp add: acquireExecutionRunLease_def)
qed

lemma acquire_iff_unowned_example:
  "\<exists>m. acquireExecutionRunLease (demoBundle [] [demoLease ''l1'' ''o1'' LeaseReleased ''t2'']) ''l2'' ''o2'' ''t3'' None ''t4'' = Inr m
    \<and> activeLeaseOf (lm_bundle m) = Some (lm_lease m) \<and> lease_ownerId (lm_lease m) = ''o2''"
  by (rule acquire_iff_unowned [THEN iffD2]) (simp add: demoLease_def)

lemma active_after_expire:
  assumes "wfBundle b" "activeLeaseOf b = Some l"
  shows "activeLeaseOf (el_bundle (expireExecutionRunLeases b now)) =
    (if leaseDue now l then None else Some l)"
proof -
  have "\<And>x. x \<in> set (bdl_leases b) \<Longrightarrow> isActiveLease x \<Longrightarrow> x = l"
    using assms wf_one_active by (metis isActiveLease_def option.inject)
  moreover have l: "l \<in> set (bdl_leases b)" "isActiveLease l"
    using activeLeaseOf_Some [OF assms(2)] by (simp_all add: isActiveLease_def)
  show ?thesis
  proof (cases "leaseDue now l")
    case True
    with calculation have "\<forall>x\<in>set (bdl_leases b). \<not> isActiveLease (expireLease now x)"
      by (auto simp: expireLease_active)
    with True show ?thesis
      by (simp add: activeLeaseOf_def el_leases find_None_iff)
  next
    case False
    have "find isActiveLease (map (expireLease now) (bdl_leases b))
        = map_option (expireLease now) (find isActiveLease (bdl_leases b))"
      using calculation False by (intro find_map_same) (auto simp: expireLease_active)
    with False assms(2) show ?thesis
      by (simp add: activeLeaseOf_def el_leases expireLease_def)
  qed
qed

text \<open>Ownership cannot be stolen before the lease runs out: after an expiry pass at \<open>now\<close>
  another runner can acquire the run exactly when the expiry timestamp of the active lease has
  been reached.\<close>

lemma takeover_only_after_expiry:
  assumes "wfBundle b" "activeLeaseOf b = Some l"
  shows "(\<exists>m. acquireExecutionRunLease (el_bundle (expireExecutionRunLeases b now)) i ow t0 hb ex = Inr m)
    \<longleftrightarrow> lease_expiresAt l \<le> now"
proof -
  have "lease_status l = LeaseActive" using assms(2) activeLeaseOf_Some by blast
  then have "leaseDue now l \<longleftrightarrow> lease_expiresAt l \<le> now"
    by (auto simp: leaseDue_def)
  then show ?thesis
    by (simp add: acquireExecutionRunLease_def Let_def active_after_expire [OF assms])
qed

lemma takeover_only_after_expiry_example:
  "(\<exists>m. acquireExecutionRunLease (el_bundle (expireExecutionRunLeases
        (demoBundle [] [demoLease ''l1'' ''o1'' LeaseActive ''t5'']) ''t7'')) ''l2'' ''o2'' ''t7'' None ''t9'' = Inr m)
   \<longleftrightarrow> (''t5'' :: string) \<le> ''t7''"
proof -
  let ?b = "demoBundle [] [demoLease ''l1'' ''o1'' LeaseActive ''t5'']"
  have wf: "wfBundle ?b" by (rule demoBundle_wf) (simp_all add: demoLease_def)
  have act: "activeLeaseOf ?b = Some (demoLease ''l1'' ''o1'' LeaseActive ''t5'')"
    by (simp add: activeLeaseOf_def isActiveLease_def demoLease_def)
  show ?thesis
    using takeover_only_after_expiry [OF wf act, of "''t7''" "''l2''" "''o2''" "''t7''" None "''t9''"]
    by (simp add: demoLease_def)
qed

lemma requireLease_unique:
  "distinct (map lease_id (bdl_leases b)) \<Longrightarrow> l \<in> set (bdl_leases b) \<Longrightarrow>
   requireLease b (lease_id l) = Inr l"
  by (simp add: requireLease_def find_key_unique)

text \<open>C12. Fencing: once an expiry pass has taken a due lease away, its former owner can neither
  renew nor release it; both calls fail with the same error and leave nothing changed.\<close>

theorem expired_owner_is_fenced:
  assumes wf: "wfBundle b" and act: "activeLeaseOf b = Some l" and due: "lease_expiresAt l \<le> now"
  defines "b' \<equiv> el_bundle (expireExecutionRunLeases b now)"
  shows "heartbeatExecutionRunLease b' (lease_id l) hb ex ev
      = Inl (PlainError (''Execution lease '' @ lease_id l @ '' is not active''))
    \<and> releaseExecutionRunLease b' (lease_id l) t0 why
      = Inl (PlainError (''Execution lease '' @ lease_id l @ '' is not active''))"
proof -
  have l: "l \<in> set (bdl_leases b)" "lease_status l = LeaseActive"
    using activeLeaseOf_Some [OF act] by simp_all
  with due have d: "leaseDue now l" by (simp add: leaseDue_def)
  have "expireLease now l \<in> set (bdl_leases b')"
    using l(1) by (simp add: b'_def el_leases)
  moreover have "distinct (map lease_id (bdl_leases b'))"
    using wf_expire [OF wf] by (simp add: b'_def wfBundle_def)
  ultimately have "requireLease b' (lease_id l) = Inr (expireLease now l)"
    using requireLease_unique [of b' "expireLease now l"] by simp
  with d show ?thesis
    by (simp add: heartbeatExecutionRunLease_def releaseExecutionRunLease_def expireLease_def)
qed

lemma expired_owner_is_fenced_witness:
  "heartbeatExecutionRunLease (el_bundle (expireExecutionRunLeases
        (demoBundle [] [demoLease ''l1'' ''o1'' LeaseActive ''t5'']) ''t7'')) ''l1'' ''t8'' ''t9'' None
      = Inl (PlainError ''Execution lease l1 is not active'')"
proof -
  let ?b = "demoBundle [] [demoLease ''l1'' ''o1'' LeaseActive ''t5'']"
  have wf: "wfBundle ?b" by (rule demoBundle_wf) (simp_all add: demoLease_def)
  have act: "activeLeaseOf ?b = Some (demoLease ''l1'' ''o1'' LeaseActive ''t5'')"
    by (simp add: activeLeaseOf_def isActiveLease_def demoLease_def)
  have due: "lease_expiresAt (demoLease ''l1'' ''o1'' LeaseActive ''t5'') \<le> ''t7''"
    by (simp add: demoLease_def)
  show ?thesis
    using expired_owner_is_fenced [OF wf act due, of "''t8''" "''t9''" None]
    by (simp add: demoLease_def)
qed

lemma release_active:
  assumes wf: "wfBundle b" and act: "activeLeaseOf b = Some l"
  shows "\<exists>m. releaseExecutionRunLease b (lease_id l) t0 why = Inr m
    \<and> activeLeaseOf (lm_bundle m) = None
    \<and> lm_lease m = l\<lparr>lease_status := LeaseReleased, lease_releasedAt := Some t0, lease_releaseReason := why\<rparr>
    \<and> lm_lease m \<in> set (bdl_leases (lm_bundle m))
    \<and> (\<forall>x. lease_id x \<noteq> lease_id l \<longrightarrow> (x \<in> set (bdl_leases (lm_bundle m)) \<longleftrightarrow> x \<in> set (bdl_leases b)))"
proof -
  have l: "l \<in> set (bdl_leases b)" "lease_status l = LeaseActive"
    using activeLeaseOf_Some [OF act] by simp_all
  have "requireLease b (lease_id l) = Inr l"
    using wf l(1) by (simp add: requireLease_unique wfBundle_def)
  with l(2) obtain m where m: "releaseExecutionRunLease b (lease_id l) t0 why = Inr m"
    by (simp add: releaseExecutionRunLease_def Let_def)
  have dist: "distinct (map lease_id (bdl_leases b))" using wf by (simp add: wfBundle_def)
  have only: "\<And>x. x \<in> set (bdl_leases b) \<Longrightarrow> lease_id x = lease_id l \<Longrightarrow> x = l"
    using dist l(1) by (metis eq_key_imp_eq_value distinct_map inj_onD)
  from release_Inr [OF m] have lm:
    "lm_lease m = l\<lparr>lease_status := LeaseReleased, lease_releasedAt := Some t0, lease_releaseReason := why\<rparr>"
    and bm: "bdl_leases (lm_bundle m) = map (\<lambda>x. if lease_id x = lease_id l then lm_lease m else x) (bdl_leases b)"
    by (auto simp: replaceLeaseMutation_def dest: only)
  have "activeLeaseOf (lm_bundle m) = None"
    unfolding activeLeaseOf_None bm using lm only wf_one_active [OF wf] act by fastforce
  moreover have "lm_lease m \<in> set (bdl_leases (lm_bundle m))"
    unfolding bm using l(1) by (auto intro!: image_eqI [of _ _ l])
  moreover have "\<forall>x. lease_id x \<noteq> lease_id l \<longrightarrow> (x \<in> set (bdl_leases (lm_bundle m)) \<longleftrightarrow> x \<in> set (bdl_leases b))"
    unfolding bm using lm by auto
  ultimately show ?thesis using m lm by blast
qed

text \<open>Releasing gives the run back: on a well-formed bundle the holder's release succeeds,
  afterwards no lease is active, the released lease records when and why, and every other lease
  is as it was.\<close>

lemma release_gives_run_back:
  assumes wf: "wfBundle b" and act: "activeLeaseOf b = Some l"
  shows "\<exists>m. releaseExecutionRunLease b (lease_id l) t0 why = Inr m
    \<and> activeLeaseOf (lm_bundle m) = None
    \<and> lm_lease m = l\<lparr>lease_status := LeaseReleased, lease_releasedAt := Some t0, lease_releaseReason := why\<rparr>
    \<and> lm_lease m \<in> set (bdl_leases (lm_bundle m))
    \<and> (\<forall>x. lease_id x \<noteq> lease_id l \<longrightarrow> (x \<in> set (bdl_leases (lm_bundle m)) \<longleftrightarrow> x \<in> set (bdl_leases b)))"
  using assms by (rule release_active)

lemma release_gives_run_back_example:
  "\<exists>m. releaseExecutionRunLease (demoBundle [] [demoLease ''l1'' ''o1'' LeaseActive ''t5'']) ''l1'' ''t3'' None = Inr m
     \<and> activeLeaseOf (lm_bundle m) = None"
proof -
  let ?b = "demoBundle [] [demoLease ''l1'' ''o1'' LeaseActive ''t5'']"
  have wf: "wfBundle ?b" by (rule demoBundle_wf) (simp_all add: demoLease_def)
  have act: "activeLeaseOf ?b = Some (demoLease ''l1'' ''o1'' LeaseActive ''t5'')"
    by (simp add: activeLeaseOf_def isActiveLease_def demoLease_def)
  show ?thesis
    using release_gives_run_back [OF wf act, of "''t3''" None] by (auto simp: demoLease_def)
qed

text \<open>Why identifiers must be fresh: when a run already carries a released lease under an
  identifier, a second lease acquired under the same identifier is active but can be neither
  renewed nor released, since both look the lease up by its first occurrence.\<close>

lemma reused_lease_id_cannot_be_released:
  assumes old: "bdl_leases b = [l]" "lease_id l = i" "lease_status l = LeaseReleased"
  shows "\<exists>m. acquireExecutionRunLease b i ow t0 hb ex = Inr m
    \<and> activeLeaseOf (lm_bundle m) = Some (lm_lease m)
    \<and> releaseExecutionRunLease (lm_bundle m) i t1 why
        = Inl (PlainError (''Execution lease '' @ i @ '' is not active''))
    \<and> heartbeatExecutionRunLease (lm_bundle m) i hb' ex' ev
        = Inl (PlainError (''Execution lease '' @ i @ '' is not active''))"
  using old
  by (auto simp: acquireExecutionRunLease_def activeLeaseOf_def isActiveLease_def Let_def
      appendLeaseMutation_def releaseExecutionRunLease_def heartbeatExecutionRunLease_def requireLease_def)

lemma reused_lease_id_cannot_be_released_example:
  "\<exists>m. acquireExecutionRunLease (demoBundle [] [demoLease ''l1'' ''o1'' LeaseReleased ''t5'']) ''l1''
        ''o1'' ''t6'' None ''t9'' = Inr m
     \<and> releaseExecutionRunLease (lm_bundle m) ''l1'' ''t7'' None
        = Inl (PlainError ''Execution lease l1 is not active'')"
proof -
  let ?b = "demoBundle [] [demoLease ''l1'' ''o1'' LeaseReleased ''t5'']"
  have "bdl_leases ?b = [demoLease ''l1'' ''o1'' LeaseReleased ''t5'']"
    "lease_id (demoLease ''l1'' ''o1'' LeaseReleased ''t5'') = ''l1''"
    "lease_status (demoLease ''l1'' ''o1'' LeaseReleased ''t5'') = LeaseReleased"
    by (simp_all add: demoLease_def)
  from reused_lease_id_cannot_be_released [OF this, of "''o1''" "''t6''" None "''t9''" "''t7''" None "''t8''" "''t9''" None]
  show ?thesis by auto
qed

end
