(* ===== verification/Store_Concurrency.thy ===== *)
theory Store_Concurrency
  imports Record_Store
begin

text \<open>
  What concurrency does to the run store. First the bounded worker pool \<open>mapWithConcurrency\<close> that
  reads the records of a listing: whatever order the reads finish in, the results come back in
  the order of the inputs. Then \<open>writeExecutionRunStoredRecord\<close> cut at its \<open>await\<close>s: a writer
  reads and checks, replaces \<open>record.json\<close>, replaces \<open>bundle.json\<close>, and other writers run in
  between. Readers never see a torn record, but the revision check does not exclude lost updates.
\<close>

section \<open>The worker pool\<close>

record 'b poolState =
  ps_nextIndex :: nat
  ps_idle :: nat
  ps_inflight :: "nat list"
  ps_results :: "'b option list"

definition workerCount :: "nat \<Rightarrow> rat \<Rightarrow> nat" where
  "workerCount n concurrency = (if n = 0 then 0 else min n (nat (max 1 \<lfloor>concurrency\<rfloor>)))"

definition poolInit :: "nat \<Rightarrow> rat \<Rightarrow> 'b poolState" where
  "poolInit n concurrency = \<lparr>ps_nextIndex = 0, ps_idle = workerCount n concurrency, ps_inflight = [],
     ps_results = replicate n None\<rparr>"

text \<open>
  A worker takes the next index, or returns when there is none; a mapper call in flight finishes
  and its worker is free again. \<open>val i\<close> is what the mapper returns for index \<open>i\<close>.
\<close>

inductive pool_step :: "(nat \<Rightarrow> 'b) \<Rightarrow> nat \<Rightarrow> 'b poolState \<Rightarrow> 'b poolState \<Rightarrow> bool" for val n where
  take: "ps_idle s = Suc k \<Longrightarrow> ps_nextIndex s < n \<Longrightarrow>
    pool_step val n s (s\<lparr>ps_idle := k, ps_nextIndex := ps_nextIndex s + 1,
      ps_inflight := ps_nextIndex s # ps_inflight s\<rparr>)"
| return: "ps_idle s = Suc k \<Longrightarrow> \<not> ps_nextIndex s < n \<Longrightarrow>
    pool_step val n s (s\<lparr>ps_idle := k, ps_nextIndex := ps_nextIndex s + 1\<rparr>)"
| complete: "i \<in> set (ps_inflight s) \<Longrightarrow>
    pool_step val n s (s\<lparr>ps_idle := Suc (ps_idle s), ps_inflight := remove1 i (ps_inflight s),
      ps_results := (ps_results s)[i := Some (val i)]\<rparr>)"

definition poolDone :: "'b poolState \<Rightarrow> bool" where
  "poolDone s = (ps_idle s = 0 \<and> ps_inflight s = [])"

inductive_cases pool_stepE: "pool_step val n s s'"

definition poolInv :: "(nat \<Rightarrow> 'b) \<Rightarrow> nat \<Rightarrow> rat \<Rightarrow> 'b poolState \<Rightarrow> bool" where
  "poolInv val n c s \<longleftrightarrow>
     length (ps_results s) = n \<and> distinct (ps_inflight s) \<and>
     (\<forall>i\<in>set (ps_inflight s). i < min n (ps_nextIndex s)) \<and>
     (\<forall>i<n. ps_results s ! i = (if i < ps_nextIndex s \<and> i \<notin> set (ps_inflight s) then Some (val i) else None)) \<and>
     ps_idle s + length (ps_inflight s) \<le> workerCount n c \<and>
     (ps_nextIndex s \<le> n \<longrightarrow> ps_idle s + length (ps_inflight s) = workerCount n c)"

lemma poolInv_init: "poolInv val n c (poolInit n c)"
  by (simp add: poolInv_def poolInit_def)

lemma poolInv_step: "pool_step val n s s' \<Longrightarrow> poolInv val n c s \<Longrightarrow> poolInv val n c s'"
proof (induction rule: pool_step.induct)
  case (take s k)
  then show ?case by (auto simp: poolInv_def less_Suc_eq)
next
  case (return s k)
  then show ?case by (auto simp: poolInv_def less_Suc_eq)
next
  case (complete i s)
  then have "length (remove1 i (ps_inflight s)) + 1 = length (ps_inflight s)"
    by (simp add: length_remove1) (metis Suc_pred length_pos_if_in_set)
  with complete show ?case by (auto simp: poolInv_def nth_list_update)
qed

definition poolMeasure :: "nat \<Rightarrow> 'b poolState \<Rightarrow> nat" where
  "poolMeasure n s = 3 * (n - ps_nextIndex s) + 2 * length (ps_inflight s) + ps_idle s"

lemma poolMeasure_step: "pool_step val n s s' \<Longrightarrow> poolMeasure n s' < poolMeasure n s"
proof (induction rule: pool_step.induct)
  case (complete i s)
  then have "length (remove1 i (ps_inflight s)) + 1 = length (ps_inflight s)"
    by (simp add: length_remove1) (metis Suc_pred length_pos_if_in_set)
  then show ?case by (simp add: poolMeasure_def)
qed (auto simp: poolMeasure_def)

lemma pool_progress: "\<not> poolDone s \<Longrightarrow> \<exists>s'. pool_step val n s s'"
proof -
  assume "\<not> poolDone s"
  then consider k where "ps_idle s = Suc k" | i where "i \<in> set (ps_inflight s)"
    by (cases "ps_idle s"; cases "ps_inflight s") (auto simp: poolDone_def)
  then show ?thesis
    by cases (metis pool_step.take pool_step.return, metis pool_step.complete)
qed

lemma poolInv_reachable:
  "(pool_step val n)\<^sup>*\<^sup>* (poolInit n c) s \<Longrightarrow> poolInv val n c s"
  by (induction rule: rtranclp_induct) (auto intro: poolInv_init poolInv_step)

text \<open>The pool is a bounded parallel map: in every reachable state at most
  \<open>min n (max 1 (floor concurrency))\<close> mapper calls are in flight; the pool can always go on until
  it is done, every step brings it closer, and when it is done the results are the mapped values
  in input order.\<close>

lemma pool_is_ordered_map:
  assumes "(pool_step val n)\<^sup>*\<^sup>* (poolInit n c) s"
  shows "length (ps_inflight s) \<le> workerCount n c
    \<and> (\<forall>s'. pool_step val n s s' \<longrightarrow> poolMeasure n s' < poolMeasure n s)
    \<and> (poolDone s \<longrightarrow> ps_results s = map (\<lambda>i. Some (val i)) [0..<n])
    \<and> (\<not> poolDone s \<longrightarrow> (\<exists>s'. pool_step val n s s'))"
proof -
  have inv: "poolInv val n c s" using assms by (rule poolInv_reachable)
  moreover have "ps_results s = map (\<lambda>i. Some (val i)) [0..<n]" if d: "poolDone s"
  proof (rule nth_equalityI)
    show "length (ps_results s) = length (map (\<lambda>i. Some (val i)) [0..<n])"
      using inv by (simp add: poolInv_def)
    fix i assume "i < length (ps_results s)"
    then have i: "i < n" using inv by (simp add: poolInv_def)
    have "n \<le> ps_nextIndex s"
    proof (rule ccontr)
      assume "\<not> n \<le> ps_nextIndex s"
      with inv d have "workerCount n c = 0" by (simp add: poolInv_def poolDone_def)
      with i show False by (auto simp: workerCount_def split: if_splits)
    qed
    with i inv d show "ps_results s ! i = map (\<lambda>i. Some (val i)) [0..<n] ! i"
      by (simp add: poolInv_def poolDone_def)
  qed
  ultimately show ?thesis
    using poolMeasure_step pool_progress by (auto simp: poolInv_def)
qed

lemma pool_is_ordered_map_example:
  "length (ps_inflight (poolInit 3 16 :: nat poolState)) \<le> workerCount 3 16
    \<and> (\<exists>s'. pool_step (\<lambda>i. i * i) 3 (poolInit 3 16) s')"
proof -
  have "\<not> poolDone (poolInit 3 16 :: nat poolState)"
    by (simp add: poolDone_def poolInit_def workerCount_def)
  with pool_is_ordered_map [where val = "\<lambda>i. i * i", OF rtranclp.rtrancl_refl, of 3 16] show ?thesis by simp
qed

section \<open>Writers that interleave\<close>

datatype writer =
    WPending runBundle writeOptions
  | WChecked storedRecord
  | WRecordWritten storedRecord
  | WDone storedRecord
  | WFailed js_error

text \<open>One \<open>await\<close>-to-\<open>await\<close> stretch of \<open>writeExecutionRunStoredRecord\<close>.\<close>

fun writerStep :: "runFs \<Rightarrow> writer \<Rightarrow> runFs \<times> writer" where
  "writerStep fs (WPending b opts) =
     (case readExecutionRunStoredRecord fs (run_id (bdl_run b)) of
        Inl e \<Rightarrow> (fs, WFailed e)
      | Inr existing \<Rightarrow> (case prepareRecord b opts existing of
          Inl e \<Rightarrow> (fs, WFailed e)
        | Inr r \<Rightarrow> (fs, WChecked r)))"
| "writerStep fs (WChecked r) = (writeRecordFile r (makeRunDir (rec_runId r) fs), WRecordWritten r)"
| "writerStep fs (WRecordWritten r) = (writeBundleFile (rec_bundle r) fs, WDone r)"
| "writerStep fs w = (fs, w)"

definition scheduleStep :: "runFs \<times> writer list \<Rightarrow> nat \<Rightarrow> runFs \<times> writer list" where
  "scheduleStep st i = (let (fs, ws) = st in
     if i < length ws then (let (fs', w') = writerStep fs (ws ! i) in (fs', ws[i := w'])) else st)"

definition runSchedule :: "nat list \<Rightarrow> runFs \<times> writer list \<Rightarrow> runFs \<times> writer list" where
  "runSchedule sched st = foldl scheduleStep st sched"

lemma prepareRecord_fields:
  "prepareRecord b opts cur = Inr r \<Longrightarrow> rec_bundle r = b \<and> rec_runId r = run_id (bdl_run b)"
  by (auto simp: prepareRecord_Inr)

text \<open>A writer scheduled to its end without interruption is the write of the sequential store.\<close>

lemma uninterrupted_writer:
  "runSchedule [0, 0, 0] (fs, [WPending b opts]) =
     (case writeExecutionRunStoredRecord b opts fs of
        (Inl e, fs') \<Rightarrow> (fs', [WFailed e]) | (Inr r, fs') \<Rightarrow> (fs', [WDone r]))"
  by (auto simp: runSchedule_def scheduleStep_def writeExecutionRunStoredRecord_def
      dest!: prepareRecord_fields split: sum.split)

definition writerOk :: "runBundle set \<Rightarrow> writer \<Rightarrow> bool" where
  "writerOk B w = (case w of
     WPending b opts \<Rightarrow> b \<in> B
   | WChecked r \<Rightarrow> rec_bundle r \<in> B \<and> rec_runId r = run_id (bdl_run (rec_bundle r))
   | WRecordWritten r \<Rightarrow> rec_bundle r \<in> B \<and> rec_runId r = run_id (bdl_run (rec_bundle r))
   | _ \<Rightarrow> True)"

fun requestedRead :: "runBundle set \<Rightarrow> string \<Rightarrow> storedRecord option result \<Rightarrow> bool" where
  "requestedRead B i (Inr (Some r)) =
     (rec_bundle r \<in> B \<and> rec_runId r = i \<and> run_id (bdl_run (rec_bundle r)) = i)"
| "requestedRead B i _ = False"

definition readsOk :: "runFs \<Rightarrow> runBundle set \<Rightarrow> runFs \<Rightarrow> bool" where
  "readsOk fs0 B fs = (\<forall>i. readExecutionRunStoredRecord fs i = readExecutionRunStoredRecord fs0 i \<or>
     requestedRead B i (readExecutionRunStoredRecord fs i))"

lemma read_makeRunDir [simp]: "readExecutionRunStoredRecord (makeRunDir j fs) i = readExecutionRunStoredRecord fs i"
  "readExecutionRunStoredRecord (writeBundleFile b fs) i = readExecutionRunStoredRecord fs i"
  by (simp_all add: readExecutionRunStoredRecord_eq makeRunDir_def writeBundleFile_def)

lemma read_writeRecordFile: "readExecutionRunStoredRecord (writeRecordFile r fs) i =
    (if i = rec_runId r then Inr (Some r) else readExecutionRunStoredRecord fs i)"
  by (simp add: readExecutionRunStoredRecord_eq writeRecordFile_def)

lemma writerStep_ok:
  assumes "writerStep fs w = (fs', w')" "writerOk B w" "readsOk fs0 B fs"
  shows "writerOk B w' \<and> readsOk fs0 B fs'"
proof (cases w)
  case (WPending b opts)
  with assms show ?thesis
    by (auto simp: writerOk_def prepareRecord_Inr split: sum.splits)
next
  case (WChecked r)
  with assms show ?thesis by (auto simp: writerOk_def readsOk_def read_writeRecordFile) metis
qed (use assms in \<open>auto simp: writerOk_def readsOk_def\<close>)

lemma schedule_ok:
  "\<forall>w\<in>set ws. writerOk B w \<Longrightarrow> readsOk fs0 B fs \<Longrightarrow> runSchedule sched (fs, ws) = (fs', ws') \<Longrightarrow>
   readsOk fs0 B fs'"
proof (induction sched arbitrary: fs ws)
  case Nil
  then show ?case by (simp add: runSchedule_def)
next
  case (Cons i sched)
  obtain fs1 ws1 where s: "scheduleStep (fs, ws) i = (fs1, ws1)" by (cases "scheduleStep (fs, ws) i")
  have "(\<forall>w\<in>set ws1. writerOk B w) \<and> readsOk fs0 B fs1"
  proof (cases "i < length ws")
    case True
    obtain fs2 w2 where w2: "writerStep fs (ws ! i) = (fs2, w2)" by (cases "writerStep fs (ws ! i)")
    with True s have "fs1 = fs2" "ws1 = ws[i := w2]" by (auto simp: scheduleStep_def)
    moreover have "writerOk B w2 \<and> readsOk fs0 B fs2"
      using writerStep_ok [OF w2 _ Cons.prems(2)] Cons.prems(1) True by simp
    ultimately show ?thesis using Cons.prems(1) set_update_subset_insert [of ws i w2] by auto
  next
    case False
    with s Cons.prems show ?thesis by (simp add: scheduleStep_def)
  qed
  then have ok: "\<forall>w\<in>set ws1. writerOk B w" "readsOk fs0 B fs1" by simp_all
  from Cons.prems(3) s have "runSchedule sched (fs1, ws1) = (fs', ws')" by (simp add: runSchedule_def)
  with Cons.IH [OF ok] show ?case by simp
qed

text \<open>No torn reads: under every interleaving of any writers, a reader of a run sees either the
  record that was there before or a complete record one of the writers was asked to store for that
  very run.\<close>

lemma interleaved_reads_are_whole:
  assumes "runSchedule sched (fs0, map (\<lambda>(b, opts). WPending b opts) reqs) = (fs, ws)"
    and "readExecutionRunStoredRecord fs i = Inr (Some r)"
  shows "readExecutionRunStoredRecord fs0 i = Inr (Some r)
    \<or> rec_bundle r \<in> fst ` set reqs \<and> rec_runId r = i \<and> run_id (bdl_run (rec_bundle r)) = i"
proof -
  have "\<forall>w\<in>set (map (\<lambda>(b, opts). WPending b opts) reqs). writerOk (fst ` set reqs) w"
    by (auto simp: writerOk_def image_iff Bex_def)
  from schedule_ok [OF this _ assms(1), of fs0] have "readsOk fs0 (fst ` set reqs) fs"
    by (simp add: readsOk_def)
  with assms(2) show ?thesis unfolding readsOk_def by (metis requestedRead.simps(1))
qed

lemma interleaved_reads_are_whole_example:
  "\<exists>fs ws r. runSchedule [0, 0] (emptyFs, [WPending (demoBundle [] []) (expecting 0)]) = (fs, ws)
     \<and> readExecutionRunStoredRecord fs ''r'' = Inr (Some r) \<and> rec_bundle r = demoBundle [] []"
proof -
  let ?r = "\<lparr>rec_runId = ''r'', rec_revision = 1, rec_persistedAt = ''t0'', rec_bundle = demoBundle [] []\<rparr>"
  have s: "runSchedule [0, 0] (emptyFs, map (\<lambda>(b, opts). WPending b opts) [(demoBundle [] [], expecting 0)])
      = (writeRecordFile ?r (makeRunDir ''r'' emptyFs), [WRecordWritten ?r])"
    by (simp add: runSchedule_def scheduleStep_def readExecutionRunStoredRecord_eq emptyFs_def
        prepareRecord_def expecting_def revisionOf_def demoBundle_def)
  have "readExecutionRunStoredRecord (writeRecordFile ?r (makeRunDir ''r'' emptyFs)) ''r'' = Inr (Some ?r)"
    by (simp add: read_writeRecordFile)
  from interleaved_reads_are_whole [OF s this] this s show ?thesis
    by (auto simp: readExecutionRunStoredRecord_eq emptyFs_def)
qed

text \<open>C40. The revision check does not make concurrent writers exclusive: the check and the file
  write are separate steps, so two writers that expect the same revision can both pass it and
  both report success with the same new revision, and the first one's bundle is gone.\<close>

theorem concurrent_writers_lose_an_update:
  assumes "readExecutionRunStoredRecord fs i = Inr cur"
    and "run_id (bdl_run b1) = i" "run_id (bdl_run b2) = i"
  shows "\<exists>fs' r1 r2.
      runSchedule [0, 1, 0, 0, 1, 1]
        (fs, [WPending b1 (expecting (revisionOf cur)), WPending b2 (expecting (revisionOf cur))])
        = (fs', [WDone r1, WDone r2])
    \<and> rec_bundle r1 = b1 \<and> rec_bundle r2 = b2 \<and> rec_revision r1 = rec_revision r2
    \<and> readExecutionRunStoredRecord fs' i = Inr (Some r2)"
  using assms
  by (simp add: runSchedule_def scheduleStep_def prepareRecord_def expecting_def read_writeRecordFile)

lemma concurrent_writers_lose_an_update_witness:
  "\<exists>fs' r1 r2.
      runSchedule [0, 1, 0, 0, 1, 1]
        (emptyFs, [WPending (demoBundle [] []) (expecting 0), WPending (demoBundle [demoStep ''s'' 1 StepPlanned []] []) (expecting 0)])
        = (fs', [WDone r1, WDone r2])
    \<and> rec_revision r1 = rec_revision r2 \<and> readExecutionRunStoredRecord fs' ''r'' = Inr (Some r2)"
proof -
  have "readExecutionRunStoredRecord emptyFs ''r'' = Inr None"
    by (simp add: readExecutionRunStoredRecord_eq emptyFs_def)
  from concurrent_writers_lose_an_update [OF this, of "demoBundle [] []" "demoBundle [demoStep ''s'' 1 StepPlanned []] []"]
  show ?thesis by (auto simp: revisionOf_def)
qed

end
