(* ===== verification/Normalize.thy ===== *)
theory Normalize
  imports Run_Model
begin

text \<open>
  The normalisers that read loosely typed data into the records of the runtime:
  \<open>src/runtime/artifactRef.ts\<close>, \<open>src/runtime/responseOutput.ts\<close>, \<open>src/runtime/taskTransfer.ts\<close>, and
  \<open>createTeamRunLocalActionRequest\<close> of \<open>src/teams/model.ts\<close>. Bad entries are dropped, never an
  error. The schema check of a response item comes from the zod library and is a parameter
  \<open>parseItem\<close>. The lemmas show that what a normaliser returns passes through it unchanged.
\<close>

section \<open>Artifact references\<close>

definition normalizeTeamRunArtifactRef :: "json \<Rightarrow> artifactRef option" where
  "normalizeTeamRunArtifactRef v =
     (case asRecord (Some v) of
        None \<Rightarrow> None
      | Some r \<Rightarrow>
          (case (asString (jprop r ''id''), asString (jprop r ''kind'')) of
             (Some i, Some k) \<Rightarrow> Some
               \<lparr>art_id = i, art_kind = k, art_path = asString (jprop r ''path''),
                art_uri = asString (jprop r ''uri''), art_title = asString (jprop r ''title''),
                art_metadata = None\<rparr>
           | _ \<Rightarrow> None))"

definition normalizeTeamRunArtifactRefs :: "json option \<Rightarrow> artifactRef list" where
  "normalizeTeamRunArtifactRefs v =
     (case asArray v of None \<Rightarrow> [] | Some xs \<Rightarrow> List.map_filter normalizeTeamRunArtifactRef xs)"

text \<open>Typed values as the JavaScript values the normalisers look at.\<close>

definition artifactJson :: "artifactRef \<Rightarrow> json" where
  "artifactJson a = JObj [(''id'', JStr (art_id a)), (''kind'', JStr (art_kind a)),
     (''path'', jsStrOrNull (art_path a)), (''uri'', jsStrOrNull (art_uri a)),
     (''title'', jsStrOrNull (art_title a)), (''metadata'', jsObjOrNull (art_metadata a))]"

definition artifactsJson :: "artifactRef list \<Rightarrow> json" where
  "artifactsJson arts = JArr (map artifactJson arts)"

lemma asString_jsStrOrNull [simp]: "asString (Some (jsStrOrNull s)) = s"
  by (cases s) (simp_all add: jsStrOrNull_def)

lemma map_filter_Some: "(\<And>x. x \<in> set xs \<Longrightarrow> f x = Some (g x)) \<Longrightarrow> List.map_filter f xs = map g xs"
  by (induction xs) (simp_all add: map_filter_simps)

lemma normalizeTeamRunArtifactRef_typed [simp]:
  "normalizeTeamRunArtifactRef (artifactJson a) = Some (a\<lparr>art_metadata := None\<rparr>)"
  by (simp add: normalizeTeamRunArtifactRef_def artifactJson_def)

lemma normalizeTeamRunArtifactRefs_typed [simp]:
  "normalizeTeamRunArtifactRefs (Some (artifactsJson arts)) = map (\<lambda>a. a\<lparr>art_metadata := None\<rparr>) arts"
  by (simp add: normalizeTeamRunArtifactRefs_def artifactsJson_def map_filter_Some
      [where g = "\<lambda>v. the (normalizeTeamRunArtifactRef v)"] comp_def) (simp add: List.map_filter_def comp_def)

section \<open>Structured outputs\<close>

definition RESPONSE_OUTPUT_KEY :: string where
  "RESPONSE_OUTPUT_KEY = ''response.output''"

definition normalizeExecutionResponseOutputItems :: "(json \<Rightarrow> json option) \<Rightarrow> json option \<Rightarrow> json list" where
  "normalizeExecutionResponseOutputItems parseItem v =
     (case asArray v of None \<Rightarrow> [] | Some xs \<Rightarrow> List.map_filter parseItem xs)"

definition normalizeStructuredOutput :: "(json \<Rightarrow> json option) \<Rightarrow> json \<Rightarrow> structuredOutput option" where
  "normalizeStructuredOutput parseItem v =
     (case asRecord (Some v) of
        None \<Rightarrow> None
      | Some r \<Rightarrow>
          (case asString (jprop r ''key'') of
             None \<Rightarrow> None
           | Some k \<Rightarrow>
               if k \<noteq> RESPONSE_OUTPUT_KEY
               then Some \<lparr>so_key = k, so_value = orElse (jprop r ''value'') JNull\<rparr>
               else (let output = normalizeExecutionResponseOutputItems parseItem (jprop r ''value'')
                     in if output \<noteq> [] then Some \<lparr>so_key = RESPONSE_OUTPUT_KEY, so_value = JArr output\<rparr>
                        else None)))"

definition normalizeRuntimeStructuredOutputs :: "(json \<Rightarrow> json option) \<Rightarrow> json option \<Rightarrow> structuredOutput list" where
  "normalizeRuntimeStructuredOutputs parseItem v =
     (case asArray v of None \<Rightarrow> [] | Some xs \<Rightarrow> List.map_filter (normalizeStructuredOutput parseItem) xs)"

definition structuredOutputJson :: "structuredOutput \<Rightarrow> json" where
  "structuredOutputJson x = JObj [(''key'', JStr (so_key x)), (''value'', so_value x)]"

definition structuredOutputsJson :: "structuredOutput list \<Rightarrow> json" where
  "structuredOutputsJson os = JArr (map structuredOutputJson os)"

lemma normalizeStructuredOutput_typed:
  "so_key x \<noteq> RESPONSE_OUTPUT_KEY \<Longrightarrow> normalizeStructuredOutput p (structuredOutputJson x) = Some x"
  by (simp add: normalizeStructuredOutput_def structuredOutputJson_def)

lemma map_filter_append [simp]: "List.map_filter f (xs @ ys) = List.map_filter f xs @ List.map_filter f ys"
  by (simp add: List.map_filter_def)

lemma normalizeRuntimeStructuredOutputs_append:
  "normalizeRuntimeStructuredOutputs p (Some (structuredOutputsJson (xs @ ys))) =
   normalizeRuntimeStructuredOutputs p (Some (structuredOutputsJson xs))
     @ normalizeRuntimeStructuredOutputs p (Some (structuredOutputsJson ys))"
  by (simp add: normalizeRuntimeStructuredOutputs_def structuredOutputsJson_def)

lemma map_filter_idem:
  "(\<And>x y. f x = Some y \<Longrightarrow> f (g y) = Some y) \<Longrightarrow>
   List.map_filter f (map g (List.map_filter f xs)) = List.map_filter f xs"
  by (induction xs) (auto simp: map_filter_simps split: option.split)

section \<open>Task transfers\<close>

record transferRequestedOutput =
  tro_label :: "string option"
  tro_kind :: "string option"
  tro_destination :: "string option"
  tro_required :: bool

record transferInputArtifact =
  tia_id :: "string option"
  tia_kind :: "string option"
  tia_title :: "string option"
  tia_path :: "string option"
  tia_uri :: "string option"

record taskTransfer =
  tt_title :: "string option"
  tt_objective :: "string option"
  tt_successCriteria :: "string list"
  tt_requestedOutputs :: "transferRequestedOutput list"
  tt_inputArtifacts :: "transferInputArtifact list"

definition normalizeRequestedOutput :: "json \<Rightarrow> transferRequestedOutput option" where
  "normalizeRequestedOutput v =
     (case asRecord (Some v) of None \<Rightarrow> None | Some r \<Rightarrow> Some
        \<lparr>tro_label = asString (jprop r ''label''), tro_kind = asString (jprop r ''kind''),
         tro_destination = asString (jprop r ''destination''),
         tro_required = (jprop r ''required'' = Some (JBool True))\<rparr>)"

definition normalizeInputArtifact :: "json \<Rightarrow> transferInputArtifact option" where
  "normalizeInputArtifact v =
     (case asRecord (Some v) of None \<Rightarrow> None | Some r \<Rightarrow> Some
        \<lparr>tia_id = asString (jprop r ''id''), tia_kind = asString (jprop r ''kind''),
         tia_title = asString (jprop r ''title''), tia_path = asString (jprop r ''path''),
         tia_uri = asString (jprop r ''uri'')\<rparr>)"

definition falsyText :: "string option \<Rightarrow> bool" where
  "falsyText s = (s = None \<or> s = Some [])"

definition normalizeTaskTransfer :: "json option \<Rightarrow> taskTransfer option" where
  "normalizeTaskTransfer v =
     (case asRecord v of
        None \<Rightarrow> None
      | Some r \<Rightarrow>
          (let n = \<lparr>tt_title = asString (jprop r ''title''),
               tt_objective = asString (jprop r ''objective''),
               tt_successCriteria = List.map_filter (\<lambda>c. asString (Some c)) (orElse (asArray (jprop r ''successCriteria'')) []),
               tt_requestedOutputs = List.map_filter normalizeRequestedOutput (orElse (asArray (jprop r ''requestedOutputs'')) []),
               tt_inputArtifacts = List.map_filter normalizeInputArtifact (orElse (asArray (jprop r ''inputArtifacts'')) [])\<rparr>
           in if falsyText (tt_title n) \<and> falsyText (tt_objective n) \<and> tt_successCriteria n = []
                 \<and> tt_requestedOutputs n = [] \<and> tt_inputArtifacts n = []
              then None else Some n))"

definition requestedOutputJson :: "transferRequestedOutput \<Rightarrow> json" where
  "requestedOutputJson x = JObj [(''label'', jsStrOrNull (tro_label x)), (''kind'', jsStrOrNull (tro_kind x)),
     (''destination'', jsStrOrNull (tro_destination x)), (''required'', JBool (tro_required x))]"

definition inputArtifactJson :: "transferInputArtifact \<Rightarrow> json" where
  "inputArtifactJson a = JObj [(''id'', jsStrOrNull (tia_id a)), (''kind'', jsStrOrNull (tia_kind a)),
     (''title'', jsStrOrNull (tia_title a)), (''path'', jsStrOrNull (tia_path a)), (''uri'', jsStrOrNull (tia_uri a))]"

definition taskTransferJson :: "taskTransfer \<Rightarrow> json" where
  "taskTransferJson t = JObj [(''title'', jsStrOrNull (tt_title t)), (''objective'', jsStrOrNull (tt_objective t)),
     (''successCriteria'', JArr (map JStr (tt_successCriteria t))),
     (''requestedOutputs'', JArr (map requestedOutputJson (tt_requestedOutputs t))),
     (''inputArtifacts'', JArr (map inputArtifactJson (tt_inputArtifacts t)))]"

lemma normalizeRequestedOutput_json [simp]: "normalizeRequestedOutput (requestedOutputJson x) = Some x"
  by (simp add: normalizeRequestedOutput_def requestedOutputJson_def)

lemma normalizeInputArtifact_json [simp]: "normalizeInputArtifact (inputArtifactJson a) = Some a"
  by (simp add: normalizeInputArtifact_def inputArtifactJson_def)

lemma map_filter_map_Some [simp]: "(\<And>x. f (g x) = Some x) \<Longrightarrow> List.map_filter f (map g xs) = xs"
  by (induction xs) (simp_all add: map_filter_simps)

text \<open>A normalised transfer reads back as itself.\<close>

lemma normalizeTaskTransfer_stable:
  assumes "normalizeTaskTransfer v = Some t"
  shows "normalizeTaskTransfer (Some (taskTransferJson t)) = Some t"
proof -
  have "\<not> (falsyText (tt_title t) \<and> falsyText (tt_objective t) \<and> tt_successCriteria t = []
      \<and> tt_requestedOutputs t = [] \<and> tt_inputArtifacts t = [])"
    using assms by (auto simp: normalizeTaskTransfer_def Let_def split: option.splits if_splits)
  then show ?thesis
    unfolding normalizeTaskTransfer_def taskTransferJson_def Let_def
    by (cases t) simp
qed

text \<open>Normalising structured outputs is idempotent when the schema check of response items is:
  outputs merged into a patch and normalised once more on the way into the shared state arrive
  unchanged.\<close>

lemma structured_outputs_normalised_once:
  assumes "\<And>v w. parseItem v = Some w \<Longrightarrow> parseItem w = Some w"
  shows "normalizeRuntimeStructuredOutputs parseItem
      (Some (structuredOutputsJson (normalizeRuntimeStructuredOutputs parseItem v)))
    = normalizeRuntimeStructuredOutputs parseItem v"
proof (cases "asArray v")
  case None
  then show ?thesis
    by (simp add: normalizeRuntimeStructuredOutputs_def structuredOutputsJson_def map_filter_simps)
next
  case (Some xs)
  have "normalizeStructuredOutput parseItem (structuredOutputJson y) = Some y"
    if y: "normalizeStructuredOutput parseItem x = Some y" for x y
  proof (cases "so_key y = RESPONSE_OUTPUT_KEY")
    case False
    then show ?thesis by (rule normalizeStructuredOutput_typed)
  next
    case True
    with y obtain items where items: "so_value y = JArr (List.map_filter parseItem items)"
      "List.map_filter parseItem items \<noteq> []"
      by (auto simp: normalizeStructuredOutput_def normalizeExecutionResponseOutputItems_def Let_def
          split: option.splits if_splits)
    have "List.map_filter parseItem (map (\<lambda>x. x) (List.map_filter parseItem items)) = List.map_filter parseItem items"
      by (rule map_filter_idem) (rule assms)
    with True items show ?thesis
      by (cases y) (simp add: normalizeStructuredOutput_def structuredOutputJson_def
          normalizeExecutionResponseOutputItems_def Let_def)
  qed
  then have "List.map_filter (normalizeStructuredOutput parseItem)
      (map structuredOutputJson (List.map_filter (normalizeStructuredOutput parseItem) xs))
    = List.map_filter (normalizeStructuredOutput parseItem) xs"
    by (rule map_filter_idem)
  with Some show ?thesis
    by (simp add: normalizeRuntimeStructuredOutputs_def structuredOutputsJson_def)
qed

lemma structured_outputs_normalised_once_example:
  "normalizeRuntimeStructuredOutputs Some (Some (structuredOutputsJson
      (normalizeRuntimeStructuredOutputs Some (Some (JArr [JObj [(''key'', JStr ''k'')], JNull])))))
    = normalizeRuntimeStructuredOutputs Some (Some (JArr [JObj [(''key'', JStr ''k'')], JNull]))"
  by (rule structured_outputs_normalised_once) simp

section \<open>Local action requests\<close>

record createLocalActionRequestInput =
  clr_id :: string
  clr_teamRunId :: string
  clr_ownerStepId :: string
  clr_kind :: string
  clr_summary :: string
  clr_command :: "string option"
  clr_args :: "string list option"
  clr_structuredPayload :: "jobj option"
  clr_notes :: "string list option"
  clr_status :: "localActionRequestStatus option"
  clr_createdAt :: string

definition createTeamRunLocalActionRequest :: "createLocalActionRequestInput \<Rightarrow> localActionRequest" where
  "createTeamRunLocalActionRequest inp =
     \<lparr>lar_id = clr_id inp, lar_teamRunId = clr_teamRunId inp, lar_ownerStepId = clr_ownerStepId inp,
      lar_kind = clr_kind inp, lar_summary = clr_summary inp, lar_command = clr_command inp,
      lar_args = orElse (clr_args inp) [], lar_structuredPayload = orElse (clr_structuredPayload inp) [],
      lar_notes = orElse (clr_notes inp) [], lar_status = orElse (clr_status inp) Requested,
      lar_createdAt = clr_createdAt inp, lar_approvedAt = None, lar_completedAt = None,
      lar_resultSummary = None, lar_resultPayload = None\<rparr>"

end
