(* ===== verification/Local_Actions.thy ===== *)
theory Local_Actions
  imports Normalize
begin

text \<open>
  Host-local actions of a step (\<open>src/runtime/runner.ts\<close>): the requests derived from a step's output
  under the step's policy, their resolution by the host's callback, the summary written to the
  shared state, the guidance later steps derive from it, and the decision to pause or fail a step
  when that guidance escalates. The lemmas state that a forbidding policy keeps the host callback
  from being called, that the guidance depends only on the recorded outcomes, and who is escalated.
\<close>

section \<open>Outcome summaries\<close>

definition localActionStatuses :: "localActionRequestStatus list" where
  "localActionStatuses = [Requested, Approved, Rejected, Executed, ActionFailed, ActionCancelled]"

definition countStatus :: "localActionRequestStatus \<Rightarrow> localActionRequest list \<Rightarrow> nat" where
  "countStatus st reqs = length (filter (\<lambda>r. lar_status r = st) reqs)"

definition localActionOutcomeKey :: "string \<Rightarrow> string" where
  "localActionOutcomeKey stepId = ''step.localActionOutcomes.'' @ stepId"

definition outcomeItemJson :: "localActionRequest \<Rightarrow> json" where
  "outcomeItemJson r = JObj
     [(''requestId'', JStr (lar_id r)), (''kind'', JStr (lar_kind r)),
      (''status'', JStr (actionStatusText (lar_status r))), (''summary'', JStr (lar_summary r)),
      (''command'', jsStrOrNull (lar_command r)), (''args'', JArr (map JStr (lar_args r))),
      (''resultSummary'', jsStrOrNull (lar_resultSummary r))]"

definition outcomeCountsJson :: "localActionRequest list \<Rightarrow> json" where
  "outcomeCountsJson reqs = JObj (map (\<lambda>st. (actionStatusText st, jsInt (int (countStatus st reqs)))) localActionStatuses)"

definition summarizeLocalActionRequestsForSharedState ::
  "string \<Rightarrow> localActionRequest list \<Rightarrow> string \<Rightarrow> structuredOutput option" where
  "summarizeLocalActionRequestsForSharedState stepId reqs generatedAt =
     (if reqs = [] then None
      else Some \<lparr>so_key = localActionOutcomeKey stepId,
        so_value = JObj
          [(''ownerStepId'', JStr stepId), (''generatedAt'', JStr generatedAt),
           (''total'', jsInt (int (length reqs))), (''counts'', outcomeCountsJson reqs),
           (''items'', JArr (map outcomeItemJson reqs))]\<rparr>)"

definition formatLocalActionOutcomeNote :: "string \<Rightarrow> localActionRequest list \<Rightarrow> string option" where
  "formatLocalActionOutcomeNote stepId reqs =
     (if reqs = [] then None
      else Some (''local action outcomes for '' @ stepId @ '': '' @
        joinWith '', '' (map (\<lambda>st. actionStatusText st @ ''='' @ natToStr (countStatus st reqs))
          (filter (\<lambda>st. countStatus st reqs > 0) localActionStatuses))))"

section \<open>Guidance for dependent steps\<close>

type_synonym outcomeEntry = "string \<times> json"

definition entryCount :: "json \<Rightarrow> string \<Rightarrow> js_num option" where
  "entryCount v status = asNumber (optProp (asRecord (optProp (asRecord (Some v)) ''counts'')) status)"

fun outcomeCount :: "string \<Rightarrow> outcomeEntry list \<Rightarrow> js_num \<Rightarrow> js_num" where
  "outcomeCount status [] acc = acc"
| "outcomeCount status ((k, v) # es) acc =
     outcomeCount status es (case entryCount v status of None \<Rightarrow> acc | Some n \<Rightarrow> jsAdd acc n)"

datatype guidanceAction = Continue | Steer | Escalate

fun guidanceActionText :: "guidanceAction \<Rightarrow> string" where
  "guidanceActionText Continue = ''continue''"
| "guidanceActionText Steer = ''steer''"
| "guidanceActionText Escalate = ''escalate''"

definition decideGuidance :: "(localActionRequestStatus \<Rightarrow> js_num) \<Rightarrow> guidanceAction \<times> string" where
  "decideGuidance c =
     (if jsPositive (c Rejected) \<or> jsPositive (c ActionFailed)
      then (Escalate, ''dependency host actions include rejected or failed outcomes'')
      else if jsPositive (c Requested) \<or> jsPositive (c ActionCancelled)
      then (Escalate, ''dependency host actions remain pending or inconclusive'')
      else if jsPositive (c Approved)
      then (Steer, ''dependency host actions are approved but not yet executed'')
      else (Continue, ''dependency host actions completed successfully''))"

definition steerContract :: "(localActionRequestStatus \<Rightarrow> js_num) \<Rightarrow> json" where
  "steerContract c = JObj
     [(''kind'', JStr ''host-action-steer''), (''recommendedAction'', JStr ''continue-with-caution''),
      (''promptAppend'', JStr (''Dependency host actions are not yet complete. Account for pending or ''
        @ ''approved-only host work before proceeding.'')),
      (''structuredContext'', JObj
        [(''pendingHostActions'', JNum (jsAdd (jsAdd (c Requested) (c Approved)) (c ActionCancelled))),
         (''approvedCount'', JNum (c Approved)), (''requestedCount'', JNum (c Requested)),
         (''cancelledCount'', JNum (c ActionCancelled))])]"

definition buildDependencyLocalActionDecisionGuidance :: "outcomeEntry list \<Rightarrow> jobj option" where
  "buildDependencyLocalActionDecisionGuidance entries =
     (if entries = [] then None
      else
        let c = (\<lambda>st. outcomeCount (actionStatusText st) entries (Fin 0));
            (action, rationale) = decideGuidance c
        in Some ([(''action'', JStr (guidanceActionText action)), (''rationale'', JStr rationale),
             (''counts'', JObj (map (\<lambda>st. (actionStatusText st, JNum (c st))) localActionStatuses))]
           @ (if action = Steer then [(''contract'', steerContract c)] else [])))"

section \<open>Escalation\<close>

datatype escalationAction = PauseRun | FailStep

record escalationBehavior =
  eb_action :: escalationAction
  eb_message :: string
  eb_guidance :: jobj

definition resolveEscalationControlBehavior :: "jobj \<Rightarrow> escalationBehavior option" where
  "resolveEscalationControlBehavior structuredData =
     (let context = asRecord (jprop structuredData ''sharedStateContext'');
          guidance = asRecord (optProp context ''dependencyLocalActionDecisionGuidance'')
      in case guidance of
           None \<Rightarrow> None
         | Some g \<Rightarrow>
             if jprop g ''action'' \<noteq> Some (JStr ''escalate'') then None
             else
               let policy = asRecord (jprop structuredData ''humanInteractionPolicy'');
                   resume = asRecord (jprop structuredData ''humanEscalationResume'');
                   defaultBehavior = orElse (asString (optProp policy ''defaultBehavior'')) ''pause'';
                   allowHumanEscalation = orElse (asBool (optProp policy ''allowHumanEscalation'')) True
               in if asString (optProp resume ''resumedAt'') \<noteq> None then None
                  else if defaultBehavior = ''continue'' then None
                  else if defaultBehavior = ''pause'' \<and> allowHumanEscalation
                  then Some \<lparr>eb_action = PauseRun,
                    eb_message = ''dependency host-action guidance escalated and requires human input'', eb_guidance = g\<rparr>
                  else Some \<lparr>eb_action = FailStep,
                    eb_message = ''dependency host-action guidance escalated and human escalation is not permitted'',
                    eb_guidance = g\<rparr>)"

section \<open>Deriving requests from a step's output\<close>

definition nonBlank :: "string \<Rightarrow> bool" where
  "nonBlank s = (trim s \<noteq> [])"

definition strings :: "json list \<Rightarrow> string list" where
  "strings xs = List.map_filter (\<lambda>v. asString (Some v)) xs"

definition isJStr :: "json \<Rightarrow> bool" where
  "isJStr v = (asString (Some v) \<noteq> None)"

definition candidateIsShell :: "jobj \<Rightarrow> bool" where
  "candidateIsShell c = (jprop c ''kind'' = Some (JStr ''shell'') \<or> jprop c ''actionType'' = Some (JStr ''shell'')
     \<or> jprop c ''type'' = Some (JStr ''shell''))"

definition candidateSummary :: "jobj \<Rightarrow> string" where
  "candidateSummary c =
     (case asString (jprop c ''summary'') of
        Some s \<Rightarrow> if nonBlank s then s
          else (case asString (jprop c ''command'') of Some cmd \<Rightarrow> ''Run bounded shell action: '' @ cmd
                | None \<Rightarrow> ''Run bounded shell action.'')
      | None \<Rightarrow> (case asString (jprop c ''command'') of Some cmd \<Rightarrow> ''Run bounded shell action: '' @ cmd
                | None \<Rightarrow> ''Run bounded shell action.''))"

definition requestOfCandidate :: "runBundle \<Rightarrow> executionRunStep \<Rightarrow> string \<Rightarrow> nat \<Rightarrow> jobj \<Rightarrow> localActionRequest" where
  "requestOfCandidate b s completedAt index c = createTeamRunLocalActionRequest
     \<lparr>clr_id = run_id (bdl_run b) @ '':action:'' @ step_id s @ '':'' @ natToStr (index + 1),
      clr_teamRunId = run_id (bdl_run b), clr_ownerStepId = step_id s, clr_kind = ''shell'',
      clr_summary = candidateSummary c, clr_command = asString (jprop c ''command''),
      clr_args = Some (case asArray (jprop c ''args'') of None \<Rightarrow> []
        | Some xs \<Rightarrow> if list_all isJStr xs then strings xs else []),
      clr_structuredPayload = Some (case asRecord (jprop c ''structuredPayload'') of Some p \<Rightarrow> p
        | None \<Rightarrow> (case asRecord (jprop c ''payload'') of Some p \<Rightarrow> p | None \<Rightarrow> [])),
      clr_notes = Some (case asArray (jprop c ''notes'') of None \<Rightarrow> [] | Some xs \<Rightarrow> strings xs),
      clr_status = None, clr_createdAt = completedAt\<rparr>"

definition rejectRequest :: "string \<Rightarrow> string \<Rightarrow> localActionRequest \<Rightarrow> localActionRequest" where
  "rejectRequest completedAt why r =
     r\<lparr>lar_status := Rejected, lar_completedAt := Some completedAt, lar_resultSummary := Some why\<rparr>"

definition deriveOne ::
  "runBundle \<Rightarrow> executionRunStep \<Rightarrow> string \<Rightarrow> string option \<Rightarrow> string list option \<Rightarrow> nat \<times> json \<Rightarrow>
   localActionRequest list" where
  "deriveOne b s completedAt policyMode allowedKinds ic =
     (let (index, candidate) = ic in
      case asRecord (Some candidate) of
        None \<Rightarrow> []
      | Some c \<Rightarrow>
          if \<not> candidateIsShell c then []
          else
            let request = requestOfCandidate b s completedAt index c
            in if policyMode = Some ''forbidden''
               then [rejectRequest completedAt ''local action rejected because step policy forbids host actions'' request]
               else (case allowedKinds of
                 Some ks \<Rightarrow>
                   if ks \<noteq> [] \<and> lar_kind request \<notin> set ks
                   then [rejectRequest completedAt (''local action rejected because kind '' @ lar_kind request
                     @ '' is not allowed by step policy'') request]
                   else [request]
               | None \<Rightarrow> [request]))"

definition stepPolicy :: "executionRunStep \<Rightarrow> jobj option" where
  "stepPolicy s = asRecord (jprop (in_structuredData (step_input s)) ''localActionPolicy'')"

definition policyAllowedKinds :: "jobj option \<Rightarrow> string list option" where
  "policyAllowedKinds policy =
     (case asArray (optProp policy ''allowedActionKinds'') of
        None \<Rightarrow> None
      | Some xs \<Rightarrow> if list_all isJStr xs then Some (strings xs) else None)"

definition deriveLocalActionRequestsFromStepOutput ::
  "runBundle \<Rightarrow> executionRunStep \<Rightarrow> string \<Rightarrow> stepOutput option \<Rightarrow> localActionRequest list" where
  "deriveLocalActionRequestsFromStepOutput b s completedAt out =
     (case out of
        None \<Rightarrow> []
      | Some o' \<Rightarrow>
          (case asArray (jprop (out_structuredData o') ''localActionRequests'') of
             None \<Rightarrow> []
           | Some xs \<Rightarrow>
               concat (map (deriveOne b s completedAt (asString (optProp (stepPolicy s) ''mode''))
                 (policyAllowedKinds (stepPolicy s))) (enumerate 0 xs))))"

section \<open>Resolving requests\<close>

record localActionCallbackResult =
  cb_status :: "localActionRequestStatus option"
  cb_summary :: "string option"
  cb_payload :: "jobj option"
  cb_notes :: "string list"
  cb_sharedState :: "sharedStatePatch"

definition emptyPatch :: sharedStatePatch where
  "emptyPatch = \<lparr>patch_artifacts = [], patch_structuredOutputs = [], patch_notes = []\<rparr>"

type_synonym 'w localActionCallback =
  "storedRecord \<Rightarrow> executionRunStep \<Rightarrow> localActionRequest \<Rightarrow> ('w, localActionCallbackResult option) io"

record localActionResolution =
  lr_requests :: "localActionRequest list"
  lr_resolvedRequests :: "localActionRequest list"
  lr_events :: "executionRunEvent list"
  lr_sharedState :: sharedStatePatch

definition requestEvent :: "storedRecord \<Rightarrow> executionRunStep \<Rightarrow> localActionRequest \<Rightarrow> executionRunEvent" where
  "requestEvent rec s r = createExecutionRunEvent
     (rec_runId rec @ '':event:'' @ lar_id r @ '':requested'') (rec_runId rec) EvNoteAdded (lar_createdAt r)
     (Some (step_id s)) None (Some (''local action requested: '' @ lar_kind r))
     (Some [(''requestId'', JStr (lar_id r)), (''requestStatus'', JStr (actionStatusText (lar_status r)))])"

definition applyCallbackResult :: "string \<Rightarrow> localActionRequest \<Rightarrow> localActionCallbackResult \<Rightarrow> localActionRequest" where
  "applyCallbackResult resolvedAt r cb =
     r\<lparr>lar_status := orElse (cb_status cb) Executed,
       lar_approvedAt := (if cb_status cb = Some Approved \<or> cb_status cb = Some Executed
         then Some resolvedAt else lar_approvedAt r),
       lar_completedAt := (if cb_status cb \<in> {Some Executed, Some ActionFailed, Some Rejected, Some ActionCancelled}
         then Some resolvedAt else lar_completedAt r),
       lar_resultSummary := cb_summary cb,
       lar_resultPayload := cb_payload cb,
       lar_notes := lar_notes r @ cb_notes cb\<rparr>"

definition resolutionEvent :: "storedRecord \<Rightarrow> executionRunStep \<Rightarrow> string \<Rightarrow> localActionRequest \<Rightarrow> executionRunEvent" where
  "resolutionEvent rec s resolvedAt r = createExecutionRunEvent
     (rec_runId rec @ '':event:'' @ lar_id r @ '':'' @ actionStatusText (lar_status r)) (rec_runId rec)
     EvNoteAdded resolvedAt (Some (step_id s)) None
     (Some (orElse (lar_resultSummary r) (''local action '' @ actionStatusText (lar_status r))))
     (Some [(''requestId'', JStr (lar_id r)), (''requestStatus'', JStr (actionStatusText (lar_status r)))])"

definition appendPatch :: "(json \<Rightarrow> json option) \<Rightarrow> sharedStatePatch \<Rightarrow> sharedStatePatch \<Rightarrow> sharedStatePatch" where
  "appendPatch parseItem acc p =
     \<lparr>patch_artifacts = patch_artifacts acc
        @ normalizeTeamRunArtifactRefs (Some (artifactsJson (patch_artifacts p))),
      patch_structuredOutputs = patch_structuredOutputs acc
        @ normalizeRuntimeStructuredOutputs parseItem (Some (structuredOutputsJson (patch_structuredOutputs p))),
      patch_notes = patch_notes acc @ patch_notes p\<rparr>"

text \<open>The loop over the derived requests, in order, one callback at a time.\<close>

fun resolveRequestLoop ::
  "(json \<Rightarrow> json option) \<Rightarrow> storedRecord \<Rightarrow> executionRunStep \<Rightarrow> string \<Rightarrow> 'w localActionCallback option \<Rightarrow>
   localActionRequest list \<Rightarrow> localActionRequest list \<Rightarrow> executionRunEvent list \<Rightarrow> sharedStatePatch \<Rightarrow>
   ('w, localActionRequest list \<times> executionRunEvent list \<times> sharedStatePatch) io" where
  "resolveRequestLoop parseItem rec s completedAt execute [] resolved events patch = ioReturn (resolved, events, patch)"
| "resolveRequestLoop parseItem rec s completedAt execute (r # rs) resolved events patch =
     (let events' = events @ [requestEvent rec s r];
          keep = resolveRequestLoop parseItem rec s completedAt execute rs (resolved @ [r]) events' patch
      in if lar_status r \<noteq> Requested then keep
         else case execute of
           None \<Rightarrow> keep
         | Some call \<Rightarrow> ioBind (call rec s r) (\<lambda>res.
             case res of
               None \<Rightarrow> keep
             | Some cb \<Rightarrow>
                 if cb_status cb = Some Requested then keep
                 else
                   let r' = applyCallbackResult completedAt r cb
                   in resolveRequestLoop parseItem rec s completedAt execute rs (resolved @ [r'])
                        (events' @ [resolutionEvent rec s completedAt r'])
                        (appendPatch parseItem patch (cb_sharedState cb))))"

definition optList :: "'a option \<Rightarrow> 'a list" where
  "optList x = (case x of None \<Rightarrow> [] | Some v \<Rightarrow> [v])"

definition resolveLocalActionRequests ::
  "(json \<Rightarrow> json option) \<Rightarrow> storedRecord \<Rightarrow> executionRunStep \<Rightarrow> string \<Rightarrow> stepOutput option \<Rightarrow>
   'w localActionCallback option \<Rightarrow> ('w, localActionResolution) io" where
  "resolveLocalActionRequests parseItem rec s completedAt out execute =
     (let requests = deriveLocalActionRequestsFromStepOutput (rec_bundle rec) s completedAt out
      in if requests = []
         then ioReturn \<lparr>lr_requests = bdl_localActionRequests (rec_bundle rec), lr_resolvedRequests = [],
                lr_events = [], lr_sharedState = emptyPatch\<rparr>
         else ioBind (resolveRequestLoop parseItem rec s completedAt execute requests [] [] emptyPatch)
           (\<lambda>(resolved, events, patch). ioReturn
              \<lparr>lr_requests = bdl_localActionRequests (rec_bundle rec) @ resolved,
               lr_resolvedRequests = resolved, lr_events = events,
               lr_sharedState = patch
                 \<lparr>patch_structuredOutputs := patch_structuredOutputs patch
                    @ optList (summarizeLocalActionRequestsForSharedState (step_id s) resolved completedAt),
                  patch_notes := patch_notes patch
                    @ optList (formatLocalActionOutcomeNote (step_id s) resolved)\<rparr>\<rparr>))"

section \<open>Policy\<close>

lemma derive_forbidden:
  assumes "asString (optProp (stepPolicy s) ''mode'') = Some ''forbidden''"
    and "r \<in> set (deriveLocalActionRequestsFromStepOutput b s t0 out)"
  shows "lar_status r = Rejected \<and> lar_completedAt r = Some t0"
  using assms
  by (auto simp: deriveLocalActionRequestsFromStepOutput_def deriveOne_def Let_def rejectRequest_def
      split: option.splits if_splits)

lemma derive_disallowed:
  assumes "policyAllowedKinds (stepPolicy s) = Some ks" "ks \<noteq> []" "''shell'' \<notin> set ks"
    and "r \<in> set (deriveLocalActionRequestsFromStepOutput b s t0 out)"
  shows "lar_status r = Rejected \<and> lar_completedAt r = Some t0"
proof -
  have "lar_kind (requestOfCandidate b s t0 i c) = ''shell''" for i c
    by (simp add: requestOfCandidate_def createTeamRunLocalActionRequest_def)
  with assms show ?thesis
    by (auto simp: deriveLocalActionRequestsFromStepOutput_def deriveOne_def Let_def rejectRequest_def
        split: option.splits if_splits)
qed

text \<open>Requests that are settled already pass the loop without a call.\<close>

lemma loop_settled:
  "\<forall>r\<in>set rs. lar_status r \<noteq> Requested \<Longrightarrow>
   resolveRequestLoop p rec s t0 execute rs resolved events patch w
     = (Inr (resolved @ rs, events @ map (requestEvent rec s) rs, patch), w)"
  by (induction rs arbitrary: resolved events) (simp_all add: ioReturn_def Let_def)

lemma loop_no_callback:
  "resolveRequestLoop p rec s t0 None rs resolved events patch w
     = (Inr (resolved @ rs, events @ map (requestEvent rec s) rs, patch), w)"
  by (induction rs arbitrary: resolved events) (simp_all add: ioReturn_def Let_def)

lemma resolve_settled:
  assumes "\<forall>r\<in>set (deriveLocalActionRequestsFromStepOutput (rec_bundle rec) s t0 out). lar_status r \<noteq> Requested"
  shows "\<exists>res. resolveLocalActionRequests p rec s t0 out execute w = (Inr res, w)
    \<and> lr_resolvedRequests res = deriveLocalActionRequestsFromStepOutput (rec_bundle rec) s t0 out"
  using assms
  by (auto simp: resolveLocalActionRequests_def Let_def ioBind_def loop_settled ioReturn_def)


text \<open>A step with one shell request in its output, under a policy.\<close>

definition demoActionStep :: "jobj \<Rightarrow> executionRunStep" where
  "demoActionStep policy = (demoStep ''s'' 1 StepRunning [])
     \<lparr>step_input := (step_input (demoStep ''s'' 1 StepRunning []))
        \<lparr>in_structuredData := [(''localActionPolicy'', JObj policy)]\<rparr>\<rparr>"

definition demoActionOutput :: stepOutput where
  "demoActionOutput = \<lparr>out_summary = None, out_artifacts = [],
     out_structuredData = [(''localActionRequests'', JArr [JObj [(''kind'', JStr ''shell''), (''command'', JStr ''ls'')]])],
     out_notes = []\<rparr>"

definition demoActionRecord :: storedRecord where
  "demoActionRecord = \<lparr>rec_runId = ''r'', rec_revision = 1, rec_persistedAt = ''t0'', rec_bundle = demoBundle [] []\<rparr>"

lemma demoAction_requests:
  "map lar_id (deriveLocalActionRequestsFromStepOutput (demoBundle [] []) (demoActionStep policy) ''t1'' (Some demoActionOutput))
   = [''r:action:s:1'']"
  by (simp add: deriveLocalActionRequestsFromStepOutput_def deriveOne_def demoActionOutput_def candidateIsShell_def
      demoActionStep_def demoStep_def requestOfCandidate_def createTeamRunLocalActionRequest_def rejectRequest_def
      natToStr.simps Let_def split: option.split)


section \<open>Every request is accounted for\<close>

lemma applyCallbackResult_id [simp]: "lar_id (applyCallbackResult t0 r cb) = lar_id r"
  by (simp add: applyCallbackResult_def)

lemma loop_ids:
  "resolveRequestLoop p rec s t0 execute rs resolved events patch w = (Inr (resolved', events', patch'), w') \<Longrightarrow>
   map lar_id resolved' = map lar_id resolved @ map lar_id rs"
proof (induction rs arbitrary: resolved events patch w)
  case Nil
  then show ?case by (simp add: ioReturn_def)
next
  case (Cons r rs)
  note IH = Cons.IH
  show ?case
  proof (cases "lar_status r = Requested \<and> execute \<noteq> None")
    case False
    then have "resolveRequestLoop p rec s t0 execute (r # rs) resolved events patch
        = resolveRequestLoop p rec s t0 execute rs (resolved @ [r]) (events @ [requestEvent rec s r]) patch"
      by (auto simp: Let_def)
    with Cons.prems IH show ?thesis by fastforce
  next
    case True
    then obtain call where call: "execute = Some call" "lar_status r = Requested" by auto
    from Cons.prems call obtain res w1 where res: "call rec s r w = (Inr res, w1)"
      by (auto simp: Let_def ioBind_def split: prod.splits sum.splits)
    show ?thesis
    proof (cases "res = None \<or> (\<exists>cb. res = Some cb \<and> cb_status cb = Some Requested)")
      case True
      with Cons.prems call res have "resolveRequestLoop p rec s t0 execute rs (resolved @ [r])
          (events @ [requestEvent rec s r]) patch w1 = (Inr (resolved', events', patch'), w')"
        by (auto simp: Let_def ioBind_def)
      from IH [OF this] show ?thesis by simp
    next
      case False
      then obtain cb where "res = Some cb" "cb_status cb \<noteq> Some Requested" by auto
      with Cons.prems call res have "resolveRequestLoop p rec s t0 execute rs (resolved @ [applyCallbackResult t0 r cb])
          ((events @ [requestEvent rec s r]) @ [resolutionEvent rec s t0 (applyCallbackResult t0 r cb)])
          (appendPatch p patch (cb_sharedState cb)) w1 = (Inr (resolved', events', patch'), w')"
        by (simp add: Let_def ioBind_def)
      from IH [OF this] show ?thesis by simp
    qed
  qed
qed

lemma deriveOne_ids:
  "r \<in> set (deriveOne b s t0 mode kinds (i, c)) \<Longrightarrow>
   lar_id r = run_id (bdl_run b) @ '':action:'' @ step_id s @ '':'' @ natToStr (i + 1)"
  by (auto simp: deriveOne_def Let_def rejectRequest_def requestOfCandidate_def createTeamRunLocalActionRequest_def
      split: option.splits if_splits)

lemma deriveOne_le1: "length (deriveOne b s t0 mode kinds ic) \<le> 1"
  by (auto simp: deriveOne_def Let_def split: option.splits prod.splits)

lemma derive_ids_distinct_from:
  "distinct (map lar_id (concat (map (deriveOne b s t0 mode kinds) (enumerate n xs))))
   \<and> (\<forall>r\<in>set (concat (map (deriveOne b s t0 mode kinds) (enumerate n xs))).
        \<exists>i\<ge>n. lar_id r = run_id (bdl_run b) @ '':action:'' @ step_id s @ '':'' @ natToStr (i + 1))"
proof (induction xs arbitrary: n)
  case Nil
  then show ?case by simp
next
  case (Cons x xs)
  let ?here = "deriveOne b s t0 mode kinds (n, x)"
  let ?later = "concat (map (deriveOne b s t0 mode kinds) (enumerate (Suc n) xs))"
  have "distinct (map lar_id ?here)"
    using deriveOne_le1 [of b s t0 mode kinds "(n, x)"] by (cases ?here) auto
  moreover have "set (map lar_id ?here) \<inter> set (map lar_id ?later) = {}"
    using deriveOne_ids [of _ b s t0 mode kinds n x] Cons.IH [of "Suc n"] by fastforce
  ultimately show ?case
    using deriveOne_ids [of _ b s t0 mode kinds n x] Cons.IH [of "Suc n"]
    by (auto simp: enumerate_simps) (metis Suc_leD)
qed

lemma derive_ids_distinct: "distinct (map lar_id (deriveLocalActionRequestsFromStepOutput b s t0 out))"
  using derive_ids_distinct_from [of b s t0 _ _ 0]
  by (auto simp: deriveLocalActionRequestsFromStepOutput_def split: option.splits)

text \<open>No request is lost or resolved twice: when the resolution succeeds, whatever the host
  callback answered, there is exactly one resolved request per derived one, in order, all with
  different identifiers, and they are appended to the requests of the run.\<close>

lemma every_request_is_resolved_once:
  assumes "resolveLocalActionRequests p rec s t0 out execute w = (Inr res, w')"
  shows "map lar_id (lr_resolvedRequests res)
      = map lar_id (deriveLocalActionRequestsFromStepOutput (rec_bundle rec) s t0 out)
    \<and> distinct (map lar_id (lr_resolvedRequests res))
    \<and> lr_requests res = bdl_localActionRequests (rec_bundle rec) @ lr_resolvedRequests res"
proof (cases "deriveLocalActionRequestsFromStepOutput (rec_bundle rec) s t0 out = []")
  case True
  with assms show ?thesis by (auto simp: resolveLocalActionRequests_def ioReturn_def)
next
  case False
  let ?rs = "deriveLocalActionRequestsFromStepOutput (rec_bundle rec) s t0 out"
  from False assms obtain resolved events patch where
    l: "resolveRequestLoop p rec s t0 execute ?rs [] [] emptyPatch w = (Inr (resolved, events, patch), w')"
    and r: "lr_resolvedRequests res = resolved" "lr_requests res = bdl_localActionRequests (rec_bundle rec) @ resolved"
    by (auto simp: resolveLocalActionRequests_def Let_def ioBind_def ioReturn_def split: prod.splits sum.splits)
  from loop_ids [OF l] r derive_ids_distinct [of "rec_bundle rec" s t0 out] show ?thesis by simp
qed

lemma every_request_is_resolved_once_example:
  "\<exists>res. resolveLocalActionRequests Some demoActionRecord (demoActionStep []) ''t1'' (Some demoActionOutput)
      (None :: nat localActionCallback option) 0 = (Inr res, 0)
    \<and> map lar_id (lr_resolvedRequests res) = [''r:action:s:1'']"
proof -
  have "deriveLocalActionRequestsFromStepOutput (demoBundle [] []) (demoActionStep []) ''t1'' (Some demoActionOutput) \<noteq> []"
    using demoAction_requests [of "[]"] by auto
  then obtain res where res: "resolveLocalActionRequests Some demoActionRecord (demoActionStep []) ''t1'' (Some demoActionOutput)
      (None :: nat localActionCallback option) 0 = (Inr res, 0)"
    by (simp add: resolveLocalActionRequests_def ioBind_def ioReturn_def loop_no_callback demoActionRecord_def Let_def)
  from every_request_is_resolved_once [OF res] res show ?thesis
    using demoAction_requests [of "[]"] by (auto simp: demoActionRecord_def)
qed

text \<open>A callback that answers without a status is recorded as executed but never completed: the
  default status is filled in, while the approval and completion times look at the missing status
  and stay empty.\<close>

lemma default_status_has_no_completion_time:
  assumes "lar_status r = Requested" "lar_completedAt r = None" "lar_approvedAt r = None"
    and "call rec s r w = (Inr (Some cb), w')" "cb_status cb = None"
  shows "\<exists>r' events patch. resolveRequestLoop p rec s t0 (Some call) [r] [] [] emptyPatch w = (Inr ([r'], events, patch), w')
    \<and> lar_status r' = Executed \<and> lar_completedAt r' = None \<and> lar_approvedAt r' = None"
  using assms by (simp add: ioBind_def ioReturn_def Let_def applyCallbackResult_def)

lemma default_status_has_no_completion_time_example:
  "\<exists>r' events patch. resolveRequestLoop Some demoActionRecord (demoActionStep []) ''t1''
      (Some (\<lambda>_ _ _ n. (Inr (Some \<lparr>cb_status = None, cb_summary = None, cb_payload = None, cb_notes = [],
         cb_sharedState = emptyPatch\<rparr>), Suc n)))
      [requestOfCandidate (demoBundle [] []) (demoActionStep []) ''t1'' 0 [(''kind'', JStr ''shell'')]] [] [] emptyPatch 0
      = (Inr ([r'], events, patch), Suc 0)
    \<and> lar_status r' = Executed \<and> lar_completedAt r' = None"
  using default_status_has_no_completion_time
    [of "requestOfCandidate (demoBundle [] []) (demoActionStep []) ''t1'' 0 [(''kind'', JStr ''shell'')]"
      "\<lambda>_ _ _ n. (Inr (Some \<lparr>cb_status = None, cb_summary = None, cb_payload = None, cb_notes = [],
         cb_sharedState = emptyPatch\<rparr>), Suc n)" demoActionRecord "demoActionStep []" 0
      "\<lparr>cb_status = None, cb_summary = None, cb_payload = None, cb_notes = [], cb_sharedState = emptyPatch\<rparr>"
      "Suc 0" Some "''t1''"]
  by (auto simp: requestOfCandidate_def createTeamRunLocalActionRequest_def)

section \<open>From outcomes to guidance\<close>

lemma actionStatusText_inj [simp]: "actionStatusText x = actionStatusText y \<longleftrightarrow> x = y"
  by (cases x; cases y) simp_all

lemma entryCount_summary:
  assumes "summarizeLocalActionRequestsForSharedState i reqs t0 = Some out"
  shows "entryCount (so_value out) (actionStatusText st) = Some (Fin (of_nat (countStatus st reqs)))"
  using assms
  by (cases st) (auto simp: summarizeLocalActionRequestsForSharedState_def entryCount_def optProp_def
      outcomeCountsJson_def localActionStatuses_def jsInt_def split: if_splits)

lemma countStatus_pos: "0 < countStatus st reqs \<longleftrightarrow> (\<exists>r\<in>set reqs. lar_status r = st)"
  by (auto simp: countStatus_def filter_empty_conv)

text \<open>Guidance follows the outcomes: from the summary a step's resolved host actions leave in the
  shared state, a dependent step derives \<open>escalate\<close> if any action was rejected, failed, cancelled or
  is still requested, otherwise \<open>steer\<close> if any was only approved, and \<open>continue\<close> when all were
  executed.\<close>

lemma guidance_follows_outcomes:
  assumes "summarizeLocalActionRequestsForSharedState i reqs t0 = Some out"
  shows "\<exists>g. buildDependencyLocalActionDecisionGuidance [(so_key out, so_value out)] = Some g
    \<and> jprop g ''action'' = Some (JStr (
        if \<exists>r\<in>set reqs. lar_status r \<in> {Rejected, ActionFailed, Requested, ActionCancelled} then ''escalate''
        else if \<exists>r\<in>set reqs. lar_status r = Approved then ''steer'' else ''continue''))"
proof -
  have c: "outcomeCount (actionStatusText st) [(so_key out, so_value out)] (Fin 0) = Fin (of_nat (countStatus st reqs))" for st
    using entryCount_summary [OF assms] by simp
  have "(\<exists>r\<in>set reqs. lar_status r \<in> {Rejected, ActionFailed, Requested, ActionCancelled}) \<longleftrightarrow>
      0 < countStatus Rejected reqs \<or> 0 < countStatus ActionFailed reqs \<or> 0 < countStatus Requested reqs
      \<or> 0 < countStatus ActionCancelled reqs"
    unfolding countStatus_pos by blast
  then show ?thesis
    by (auto simp: buildDependencyLocalActionDecisionGuidance_def c decideGuidance_def Let_def
        countStatus_pos [symmetric] simp del: outcomeCount.simps)
qed

lemma guidance_follows_outcomes_example:
  "\<exists>g. buildDependencyLocalActionDecisionGuidance
      [(''step.localActionOutcomes.s'', so_value (the (summarizeLocalActionRequestsForSharedState ''s''
         [requestOfCandidate (demoBundle [] []) (demoActionStep []) ''t1'' 0 []] ''t1'')))] = Some g
    \<and> jprop g ''action'' = Some (JStr ''escalate'')"
  using guidance_follows_outcomes [of "''s''" "[requestOfCandidate (demoBundle [] []) (demoActionStep []) ''t1'' 0 []]" "''t1''"]
  by (simp add: summarizeLocalActionRequestsForSharedState_def localActionOutcomeKey_def requestOfCandidate_def createTeamRunLocalActionRequest_def)

end
