(* ===== verification/Runner_Steps.thy ===== *)
theory Runner_Steps
  imports Local_Actions Dispatcher
begin

text \<open>
  The mutations a runner applies to the bundle of a run (\<open>src/runtime/runner.ts\<close>): starting,
  completing, failing and cancelling a step, pausing for and resuming after a human escalation,
  cancelling the run, and recovering steps left running by a runner that is gone. Each returns the
  whole new bundle with the event in both logs, or the exception of its guard.

  The lemmas show that these mutations keep bundles well formed, that steps only move forward and
  finished ones never change, and that under the dispatcher's choices execution is sequential,
  respects the dependencies and stops at the first failure.
\<close>

section \<open>The common mutation\<close>

definition applyBundleMutation ::
  "runBundle \<Rightarrow> string \<Rightarrow> executionRunEvent \<Rightarrow> executionRunStatus \<Rightarrow> sharedStateStatus \<Rightarrow>
   (executionRunStep \<Rightarrow> executionRunStep) \<Rightarrow> (sharedState \<Rightarrow> sharedState) \<Rightarrow> runBundle" where
  "applyBundleMutation b updatedAt event runStatus stateStatus stepUpdater appender =
     (let shared = appender (bdl_sharedState b) in
      b\<lparr>bdl_run := (bdl_run b)\<lparr>run_status := runStatus, run_updatedAt := updatedAt\<rparr>,
        bdl_steps := map stepUpdater (bdl_steps b),
        bdl_events := bdl_events b @ [event],
        bdl_sharedState := shared\<lparr>ss_status := stateStatus, ss_history := ss_history shared @ [event],
          ss_lastUpdatedAt := updatedAt\<rparr>\<rparr>)"

definition requireStep :: "runBundle \<Rightarrow> string \<Rightarrow> executionRunStep result" where
  "requireStep b stepId =
     (case find (\<lambda>s. step_id s = stepId) (bdl_steps b) of
        None \<Rightarrow> Inl (PlainError (''Execution step '' @ stepId @ '' was not found in run '' @ run_id (bdl_run b)))
      | Some s \<Rightarrow> Inr s)"

definition updateStep :: "string \<Rightarrow> (executionRunStep \<Rightarrow> executionRunStep) \<Rightarrow> executionRunStep \<Rightarrow> executionRunStep" where
  "updateStep stepId f s = (if step_id s = stepId then f s else s)"

definition appendNormalized ::
  "(json \<Rightarrow> json option) \<Rightarrow> sharedStatePatch option \<Rightarrow> sharedState \<Rightarrow> sharedState" where
  "appendNormalized parseItem patch ss =
     (let p = orElse patch emptyPatch in
      ss\<lparr>ss_artifacts := ss_artifacts ss
           @ normalizeTeamRunArtifactRefs (Some (artifactsJson (patch_artifacts p))),
         ss_structuredOutputs := ss_structuredOutputs ss
           @ normalizeRuntimeStructuredOutputs parseItem (Some (structuredOutputsJson (patch_structuredOutputs p))),
         ss_notes := ss_notes ss @ patch_notes p\<rparr>)"

section \<open>Starting a step\<close>

definition startExecutionRunStep :: "runBundle \<Rightarrow> string \<Rightarrow> string \<Rightarrow> runBundle result" where
  "startExecutionRunStep b stepId startedAt =
     (case requireStep b stepId of
        Inl e \<Rightarrow> Inl e
      | Inr s \<Rightarrow>
          if step_status s \<noteq> StepPlanned \<and> step_status s \<noteq> StepRunnable
          then Inl (PlainError (''Execution step '' @ stepId @ '' is not runnable''))
          else Inr (applyBundleMutation b startedAt
            (createExecutionRunEvent (run_id (bdl_run b) @ '':event:'' @ stepId @ '':started:'' @ startedAt)
               (run_id (bdl_run b)) EvStepStarted startedAt (Some stepId) None
               (Some ''step started by local runner'') None)
            RunRunning StateActive
            (updateStep stepId (\<lambda>c. c\<lparr>step_status := StepRunning, step_startedAt := Some startedAt,
               step_completedAt := None, step_failure := None\<rparr>))
            id))"

section \<open>Handoffs\<close>

record dependencyTaskTransfer =
  dtt_handoffId :: string
  dtt_fromStepId :: string
  dtt_fromAgentId :: string
  dtt_summary :: string
  dtt_taskTransfer :: taskTransfer

definition extractDependencyTaskTransfers :: "handoff list \<Rightarrow> executionRunStep \<Rightarrow> dependencyTaskTransfer list" where
  "extractDependencyTaskTransfers handoffs s =
     List.map_filter (\<lambda>h.
       if ho_toStepId h \<noteq> step_id s \<or> ho_fromStepId h \<notin> set (step_dependsOnStepIds s) then None
       else map_option (\<lambda>t. \<lparr>dtt_handoffId = ho_id h, dtt_fromStepId = ho_fromStepId h,
              dtt_fromAgentId = ho_fromAgentId h, dtt_summary = ho_summary h, dtt_taskTransfer = t\<rparr>)
            (normalizeTaskTransfer (jprop (ho_structuredData h) ''taskTransfer''))) handoffs"

definition consumedEvent :: "runBundle \<Rightarrow> string \<Rightarrow> string \<Rightarrow> dependencyTaskTransfer \<Rightarrow> executionRunEvent" where
  "consumedEvent b stepId completedAt t = createExecutionRunEvent
     (run_id (bdl_run b) @ '':event:'' @ dtt_handoffId t @ '':consumed:'' @ completedAt)
     (run_id (bdl_run b)) EvHandoffConsumed completedAt (Some stepId) None
     (Some (''handoff consumed from '' @ dtt_fromStepId t @ '' by '' @ stepId))
     (Some [(''handoffId'', JStr (dtt_handoffId t)), (''fromStepId'', JStr (dtt_fromStepId t)),
            (''fromAgentId'', JStr (dtt_fromAgentId t))])"

definition consumeHandoff :: "string \<Rightarrow> handoff \<Rightarrow> handoff" where
  "consumeHandoff stepId h =
     h\<lparr>ho_status := Consumed, ho_notes := ho_notes h @ [''handoff consumed by '' @ stepId]\<rparr>"

definition applyConsumedTaskTransferLifecycle ::
  "runBundle \<Rightarrow> executionRunStep \<Rightarrow> string \<Rightarrow> string \<Rightarrow> handoff list \<times> executionRunEvent list" where
  "applyConsumedTaskTransferLifecycle b s stepId completedAt =
     (let consumed = extractDependencyTaskTransfers (bdl_handoffs b) s;
          ids = set (map dtt_handoffId consumed)
      in if consumed = [] then (bdl_handoffs b, [])
         else (map (\<lambda>h. if ho_id h \<in> ids then consumeHandoff stepId h else h) (bdl_handoffs b),
               map (consumedEvent b stepId completedAt) consumed))"

definition applyResolvedLocalActionOutcomeContextToHandoffs ::
  "handoff list \<Rightarrow> string \<Rightarrow> string \<Rightarrow> localActionRequest list \<Rightarrow> handoff list" where
  "applyResolvedLocalActionOutcomeContextToHandoffs handoffs stepId completedAt resolved =
     (case summarizeLocalActionRequestsForSharedState stepId resolved completedAt of
        None \<Rightarrow> handoffs
      | Some summary \<Rightarrow>
          let guidance = buildDependencyLocalActionDecisionGuidance
                [(localActionOutcomeKey stepId, so_value summary)]
          in map (\<lambda>h. if ho_fromStepId h = stepId
               then h\<lparr>ho_structuredData :=
                        objSet ''localActionDecisionGuidance'' (jsObjOrNull guidance)
                          (objSet ''localActionOutcomeSummaryKey'' (JStr (localActionOutcomeKey stepId))
                            (objSet ''localActionOutcomeContext'' (so_value summary) (ho_structuredData h))),
                      ho_notes := ho_notes h
                        @ [''handoff payload updated with dependency-scoped local action outcome context'']\<rparr>
               else h) handoffs)"

section \<open>Completing a step\<close>

definition defaultStepOutput :: stepOutput where
  "defaultStepOutput = \<lparr>out_summary = Some ''bounded local runner pass completed'', out_artifacts = [],
     out_structuredData = [], out_notes = []\<rparr>"

record completion =
  cp_output :: "stepOutput option"
  cp_sharedState :: "sharedStatePatch option"
  cp_localActionRequests :: "localActionRequest list option"
  cp_localActionEvents :: "executionRunEvent list"
  cp_resolvedRequests :: "localActionRequest list"

definition plainCompletion :: completion where
  "plainCompletion = \<lparr>cp_output = None, cp_sharedState = None, cp_localActionRequests = None,
     cp_localActionEvents = [], cp_resolvedRequests = []\<rparr>"

definition succeedProvisional ::
  "(json \<Rightarrow> json option) \<Rightarrow> runBundle \<Rightarrow> string \<Rightarrow> string \<Rightarrow> completion \<Rightarrow> runBundle" where
  "succeedProvisional parseItem b stepId completedAt cp =
     applyBundleMutation b completedAt
       (createExecutionRunEvent (run_id (bdl_run b) @ '':event:'' @ stepId @ '':succeeded:'' @ completedAt)
          (run_id (bdl_run b)) EvStepSucceeded completedAt (Some stepId) None
          (Some ''step completed by local runner'') None)
       RunRunning StateActive
       (updateStep stepId (\<lambda>c. c\<lparr>step_status := StepSucceeded, step_completedAt := Some completedAt,
          step_output := Some (orElse (cp_output cp) defaultStepOutput), step_failure := None\<rparr>))
       (appendNormalized parseItem (cp_sharedState cp))"

definition succeedExecutionRunStep ::
  "(json \<Rightarrow> json option) \<Rightarrow> runBundle \<Rightarrow> string \<Rightarrow> string \<Rightarrow> completion \<Rightarrow> runBundle result" where
  "succeedExecutionRunStep parseItem b stepId completedAt cp =
     (case requireStep b stepId of
        Inl e \<Rightarrow> Inl e
      | Inr s \<Rightarrow>
          if step_status s \<noteq> StepRunning
          then Inl (PlainError (''Execution step '' @ stepId @ '' is not running''))
          else
            let provisional = succeedProvisional parseItem b stepId completedAt cp;
                plan = createExecutionRunDispatchPlan provisional;
                allSucceeded = list_all (\<lambda>c. step_status c = StepSucceeded) (bdl_steps provisional)
            in case requireStep provisional stepId of
                 Inl e \<Rightarrow> Inl e
               | Inr s' \<Rightarrow>
                   let (consumed, consumedEvents) =
                         applyConsumedTaskTransferLifecycle provisional s' stepId completedAt;
                       handoffs = applyResolvedLocalActionOutcomeContextToHandoffs consumed stepId completedAt
                         (cp_resolvedRequests cp);
                       appended = cp_localActionEvents cp @ consumedEvents
                   in Inr (provisional
                     \<lparr>bdl_handoffs := handoffs,
                      bdl_localActionRequests :=
                        orElse (cp_localActionRequests cp) (bdl_localActionRequests provisional),
                      bdl_events := bdl_events provisional @ appended,
                      bdl_run := (bdl_run provisional)\<lparr>run_status :=
                        (if allSucceeded then RunSucceeded
                         else if dp_runningStepIds plan \<noteq> [] then RunRunning
                         else run_status (bdl_run provisional))\<rparr>,
                      bdl_sharedState := (bdl_sharedState provisional)
                        \<lparr>ss_status := (if allSucceeded then StateSucceeded
                            else ss_status (bdl_sharedState provisional)),
                         ss_history := ss_history (bdl_sharedState provisional) @ appended\<rparr>\<rparr>))"

definition failExecutionRunStep ::
  "(json \<Rightarrow> json option) \<Rightarrow> runBundle \<Rightarrow> string \<Rightarrow> string \<Rightarrow> completion \<Rightarrow> failure option \<Rightarrow> runBundle result" where
  "failExecutionRunStep parseItem b stepId failedAt cp fail =
     (case requireStep b stepId of
        Inl e \<Rightarrow> Inl e
      | Inr s \<Rightarrow>
          if step_status s \<noteq> StepRunning \<and> step_status s \<noteq> StepRunnable \<and> step_status s \<noteq> StepPlanned
          then Inl (PlainError (''Execution step '' @ stepId @ '' cannot fail from status ''
                 @ stepStatusText (step_status s)))
          else
            let provisional = applyBundleMutation b failedAt
                  (createExecutionRunEvent (run_id (bdl_run b) @ '':event:'' @ stepId @ '':failed:'' @ failedAt)
                     (run_id (bdl_run b)) EvStepFailed failedAt (Some stepId) None
                     (Some (case fail of None \<Rightarrow> ''step failed'' | Some f \<Rightarrow> fail_message f))
                     (Some [(''code'', JStr (case fail of None \<Rightarrow> ''runner_execution_failed'' | Some f \<Rightarrow> fail_code f))]))
                  RunFailed StateFailed
                  (updateStep stepId (\<lambda>c. c\<lparr>step_status := StepFailed, step_completedAt := Some failedAt,
                     step_output := (case cp_output cp of None \<Rightarrow> step_output c | Some out \<Rightarrow> Some out), step_failure := fail\<rparr>))
                  (appendNormalized parseItem (cp_sharedState cp))
            in Inr (provisional
                 \<lparr>bdl_localActionRequests :=
                    orElse (cp_localActionRequests cp) (bdl_localActionRequests provisional),
                  bdl_events := bdl_events provisional @ cp_localActionEvents cp,
                  bdl_sharedState := (bdl_sharedState provisional)
                    \<lparr>ss_history := ss_history (bdl_sharedState provisional) @ cp_localActionEvents cp\<rparr>\<rparr>))"

section \<open>Human escalation\<close>

definition escalationOutput :: "string \<Rightarrow> jobj \<Rightarrow> stepOutput" where
  "escalationOutput cancelledAt guidance =
     \<lparr>out_summary = Some ''paused for human escalation'', out_artifacts = [],
      out_structuredData = [(''humanEscalation'', JObj [(''requestedAt'', JStr cancelledAt), (''guidance'', JObj guidance)])],
      out_notes = [''dependency host-action guidance escalated; runner paused for human input'']\<rparr>"

definition cancelExecutionRunStepForHumanEscalation ::
  "runBundle \<Rightarrow> string \<Rightarrow> string \<Rightarrow> jobj \<Rightarrow> runBundle result" where
  "cancelExecutionRunStepForHumanEscalation b stepId cancelledAt guidance =
     (case requireStep b stepId of
        Inl e \<Rightarrow> Inl e
      | Inr s \<Rightarrow>
          if step_status s \<noteq> StepRunning
          then Inl (PlainError (''Execution step '' @ stepId @ '' is not running''))
          else Inr (applyBundleMutation b cancelledAt
            (createExecutionRunEvent (run_id (bdl_run b) @ '':event:'' @ stepId @ '':human-escalation:'' @ cancelledAt)
               (run_id (bdl_run b)) EvNoteAdded cancelledAt (Some stepId) None
               (Some ''step paused for human escalation after dependency host-action guidance escalated'')
               (Some [(''guidance'', JObj guidance)]))
            RunCancelled StateCancelled
            (updateStep stepId (\<lambda>c. c\<lparr>step_status := StepCancelled, step_completedAt := Some cancelledAt,
               step_output := Some (escalationOutput cancelledAt guidance), step_failure := None\<rparr>))
            (\<lambda>ss. ss\<lparr>ss_structuredOutputs := ss_structuredOutputs ss @
                 [\<lparr>so_key = ''human.escalation.'' @ stepId, so_value = JObj
                    [(''stepId'', JStr stepId), (''requestedAt'', JStr cancelledAt),
                     (''reason'', JStr ''dependency-local-action-escalate''), (''guidance'', JObj guidance)]\<rparr>],
               ss_notes := ss_notes ss @ [''run paused for human escalation'']\<rparr>)))"

definition isEscalatedStep :: "executionRunStep \<Rightarrow> bool" where
  "isEscalatedStep s =
     (step_status s = StepCancelled \<and>
      (case step_output s of None \<Rightarrow> False
       | Some out \<Rightarrow> isRecord (jprop (out_structuredData out) ''humanEscalation'')))"

record resumeInput =
  ri_note :: "string option"
  ri_guidance :: "jobj option"
  ri_override :: "jobj option"

definition resumeFields :: "string \<Rightarrow> resumeInput \<Rightarrow> jobj" where
  "resumeFields resumedAt inp =
     [(''resumedAt'', JStr resumedAt), (''note'', jsStrOrNull (ri_note inp)),
      (''guidance'', jsObjOrNull (ri_guidance inp)), (''override'', jsObjOrNull (ri_override inp))]"

definition resumeStep :: "string \<Rightarrow> resumeInput \<Rightarrow> executionRunStep \<Rightarrow> executionRunStep" where
  "resumeStep resumedAt inp c =
     c\<lparr>step_status := StepRunnable, step_completedAt := None, step_output := None, step_failure := None,
       step_input := (step_input c)\<lparr>in_structuredData :=
         objSet ''humanEscalationResume'' (JObj (resumeFields resumedAt inp)) (in_structuredData (step_input c))\<rparr>\<rparr>"

definition resumeExecutionRunAfterHumanEscalation ::
  "runBundle \<Rightarrow> string \<Rightarrow> resumeInput \<Rightarrow> runBundle result" where
  "resumeExecutionRunAfterHumanEscalation b resumedAt inp =
     (case find isEscalatedStep (bdl_steps b) of
        None \<Rightarrow> Inl (PlainError (''Execution run '' @ run_id (bdl_run b)
                 @ '' has no cancelled human-escalation step to resume''))
      | Some c \<Rightarrow>
          let note = orElse (ri_note inp) ''run resumed after human escalation'';
              event = createExecutionRunEvent
                (run_id (bdl_run b) @ '':event:'' @ step_id c @ '':human-resume:'' @ resumedAt)
                (run_id (bdl_run b)) EvNoteAdded resumedAt (Some (step_id c)) None (Some note)
                (Some [(''resumedStepId'', JStr (step_id c)), (''source'', JStr ''human-escalation-resume'')])
          in Inr (applyBundleMutation b resumedAt event RunRunning StateActive
               (updateStep (step_id c) (resumeStep resumedAt inp))
               (\<lambda>ss. ss\<lparr>ss_structuredOutputs := ss_structuredOutputs ss @
                    [\<lparr>so_key = ''human.resume.'' @ step_id c,
                      so_value = JObj ((''stepId'', JStr (step_id c)) # resumeFields resumedAt inp)\<rparr>],
                  ss_notes := ss_notes ss @ [note]\<rparr>)))"

section \<open>Cancelling the run\<close>

definition isMutableStep :: "executionRunStep \<Rightarrow> bool" where
  "isMutableStep s = (step_status s \<in> {StepPlanned, StepRunnable, StepRunning, StepBlocked})"

definition cancelExecutionRun :: "runBundle \<Rightarrow> string \<Rightarrow> string option \<Rightarrow> string option \<Rightarrow> runBundle result" where
  "cancelExecutionRun b cancelledAt noteOpt sourceOpt =
     (if \<not> list_ex isMutableStep (bdl_steps b)
      then Inl (PlainError (''Execution run '' @ run_id (bdl_run b) @ '' has no active or pending steps to cancel''))
      else
        let note = orElse noteOpt ''run cancelled by local operator control'';
            source = orElse sourceOpt ''operator'';
            cancelledOutput = \<lparr>out_summary = Some note, out_artifacts = [],
              out_structuredData = [(''cancellation'', JObj [(''cancelledAt'', JStr cancelledAt), (''source'', JStr source)])],
              out_notes = [note]\<rparr>
        in Inr (applyBundleMutation b cancelledAt
          (createExecutionRunEvent (run_id (bdl_run b) @ '':event:run-cancelled:'' @ cancelledAt)
             (run_id (bdl_run b)) EvNoteAdded cancelledAt None None (Some note)
             (Some [(''source'', JStr source), (''status'', JStr ''cancelled'')]))
          RunCancelled StateCancelled
          (\<lambda>c. if isMutableStep c
             then c\<lparr>step_status := StepCancelled,
                    step_completedAt := Some (orElse (step_completedAt c) cancelledAt),
                    step_failure := None,
                    step_output := Some (orElse (step_output c) cancelledOutput)\<rparr>
             else c)
          (\<lambda>ss. ss\<lparr>ss_notes := ss_notes ss @ [note]\<rparr>)))"

section \<open>Recovering stranded steps\<close>

text \<open>The timestamps the clock gives for the successive steps are passed along with their ids.\<close>

fun recoverSteps :: "storedRecord \<Rightarrow> (string \<times> string) list \<Rightarrow> runBundle \<Rightarrow> string list \<Rightarrow> runBundle \<times> string list" where
  "recoverSteps rec [] b recovered = (b, recovered)"
| "recoverSteps rec ((stepId, now) # todo) b recovered =
     (let b' = applyBundleMutation b now
            (createExecutionRunEvent (rec_runId rec @ '':event:'' @ stepId @ '':recovered-no-lease:'' @ now)
               (rec_runId rec) EvNoteAdded now (Some stepId) None
               (Some ''recovered stranded running step for host replay'')
               (Some [(''stepId'', JStr stepId), (''fromStatus'', JStr ''running''),
                      (''toStatus'', JStr ''runnable''), (''source'', JStr ''service-host'')]))
            RunRunning StateActive
            (\<lambda>c. if step_id c \<noteq> stepId \<or> step_status c \<noteq> StepRunning then c
               else c\<lparr>step_status := StepRunnable, step_startedAt := None, step_completedAt := None,
                      step_failure := None\<rparr>)
            id
      in if list_ex (\<lambda>c. step_id c = stepId \<and> step_status c = StepRunning) (bdl_steps b)
         then recoverSteps rec todo b' (recovered @ [stepId])
         else recoverSteps rec todo b recovered)"

definition recoverStrandedRunningExecutionRun ::
  "storedRecord \<Rightarrow> (nat \<Rightarrow> string) \<Rightarrow> (runBundle \<times> string list) option" where
  "recoverStrandedRunningExecutionRun rec clock =
     (let running = dp_runningStepIds (createExecutionRunDispatchPlan (rec_bundle rec))
      in if running = [] then None
         else let (b, recovered) = recoverSteps rec (zip running (map clock [0..<length running])) (rec_bundle rec) []
              in if recovered = [] then None else Some (b, recovered))"

section \<open>Field lemmas\<close>

lemma mutation_simps [simp]:
  "bdl_steps (applyBundleMutation b t0 e rs st f app) = map f (bdl_steps b)"
  "bdl_leases (applyBundleMutation b t0 e rs st f app) = bdl_leases b"
  "bdl_events (applyBundleMutation b t0 e rs st f app) = bdl_events b @ [e]"
  "bdl_handoffs (applyBundleMutation b t0 e rs st f app) = bdl_handoffs b"
  "bdl_localActionRequests (applyBundleMutation b t0 e rs st f app) = bdl_localActionRequests b"
  "run_id (bdl_run (applyBundleMutation b t0 e rs st f app)) = run_id (bdl_run b)"
  "run_status (bdl_run (applyBundleMutation b t0 e rs st f app)) = rs"
  "run_policy (bdl_run (applyBundleMutation b t0 e rs st f app)) = run_policy (bdl_run b)"
  "ss_status (bdl_sharedState (applyBundleMutation b t0 e rs st f app)) = st"
  "ss_history (bdl_sharedState (applyBundleMutation b t0 e rs st f app)) = ss_history (app (bdl_sharedState b)) @ [e]"
  by (simp_all add: applyBundleMutation_def Let_def)

lemma appendNormalized_history [simp]: "ss_history (appendNormalized p patch ss) = ss_history ss"
  by (simp add: appendNormalized_def Let_def)

lemma requireStep_Inr: "requireStep b i = Inr s \<Longrightarrow> s \<in> set (bdl_steps b) \<and> step_id s = i"
  by (auto simp: requireStep_def split: option.splits dest: find_SomeD)

lemma requireStep_unique:
  "distinct (map step_id (bdl_steps b)) \<Longrightarrow> requireStep b i = Inr s \<Longrightarrow> t \<in> set (bdl_steps b) \<Longrightarrow>
   step_id t = i \<Longrightarrow> t = s"
  by (metis distinct_map inj_on_eq_iff requireStep_Inr)

lemma requireStep_ok:
  "distinct (map step_id (bdl_steps b)) \<Longrightarrow> s \<in> set (bdl_steps b) \<Longrightarrow> requireStep b (step_id s) = Inr s"
  by (simp add: requireStep_def find_key_unique)

text \<open>What the shapes of all results have in common.\<close>

definition sameShape :: "runBundle \<Rightarrow> (executionRunStep \<Rightarrow> executionRunStep) \<Rightarrow> executionRunEvent list \<Rightarrow> runBundle \<Rightarrow> bool" where
  "sameShape b f es b' \<longleftrightarrow>
     bdl_steps b' = map f (bdl_steps b) \<and> bdl_leases b' = bdl_leases b \<and> bdl_events b' = bdl_events b @ es \<and>
     run_id (bdl_run b') = run_id (bdl_run b) \<and> run_policy (bdl_run b') = run_policy (bdl_run b) \<and>
     ss_history (bdl_sharedState b') = ss_history (bdl_sharedState b) @ es \<and>
     (\<forall>e\<in>set es. ev_runId e = run_id (bdl_run b)) \<and>
     (\<forall>s. step_id (f s) = step_id s \<and> step_order (f s) = step_order s
        \<and> step_dependsOnStepIds (f s) = step_dependsOnStepIds s)"

lemma sameShape_wf:
  assumes "sameShape b f es b'" "wfBundle b"
  shows "wfBundle b'"
proof -
  have "map step_id (bdl_steps b') = map step_id (bdl_steps b)"
    using assms(1) by (simp add: sameShape_def)
  with assms show ?thesis
    by (auto simp: sameShape_def wfBundle_def activeLeases_def subseq_append_both comp_def)
qed

definition startedStep :: "string \<Rightarrow> executionRunStep \<Rightarrow> executionRunStep" where
  "startedStep t0 c = c\<lparr>step_status := StepRunning, step_startedAt := Some t0, step_completedAt := None,
     step_failure := None\<rparr>"

lemma start_Inr:
  assumes "startExecutionRunStep b i t0 = Inr b'"
  obtains s e where "requireStep b i = Inr s" "step_status s \<in> {StepPlanned, StepRunnable}"
    "sameShape b (updateStep i (startedStep t0)) [e] b'" "run_status (bdl_run b') = RunRunning"
  using assms
  by (auto simp: startExecutionRunStep_def sameShape_def updateStep_def startedStep_def [abs_def]
      split: sum.splits if_splits)

definition completedStep :: "string \<Rightarrow> completion \<Rightarrow> executionRunStep \<Rightarrow> executionRunStep" where
  "completedStep t0 cp c = c\<lparr>step_status := StepSucceeded, step_completedAt := Some t0,
     step_output := Some (orElse (cp_output cp) defaultStepOutput), step_failure := None\<rparr>"

lemma consumedEvents_runId:
  "(hs, es) = applyConsumedTaskTransferLifecycle b s i t0 \<Longrightarrow> e \<in> set es \<Longrightarrow> ev_runId e = run_id (bdl_run b)"
  by (auto simp: applyConsumedTaskTransferLifecycle_def Let_def consumedEvent_def split: if_splits)

lemma succeed_Inr:
  assumes "succeedExecutionRunStep p b i t0 cp = Inr b'"
    and "\<forall>e\<in>set (cp_localActionEvents cp). ev_runId e = run_id (bdl_run b)"
  obtains s es where "requireStep b i = Inr s" "step_status s = StepRunning"
    "sameShape b (updateStep i (completedStep t0 cp)) es b'"
    "run_status (bdl_run b') = (if \<forall>c\<in>set (bdl_steps b'). step_status c = StepSucceeded then RunSucceeded else RunRunning)"
proof -
  from assms(1) obtain s where s: "requireStep b i = Inr s" "step_status s = StepRunning"
    by (auto simp: succeedExecutionRunStep_def split: sum.splits if_splits)
  let ?q = "succeedProvisional p b i t0 cp"
  have q: "bdl_steps ?q = map (updateStep i (completedStep t0 cp)) (bdl_steps b)"
    "run_id (bdl_run ?q) = run_id (bdl_run b)" "run_policy (bdl_run ?q) = run_policy (bdl_run b)"
    "bdl_leases ?q = bdl_leases b" "run_status (bdl_run ?q) = RunRunning"
    "\<exists>e. ev_runId e = run_id (bdl_run b) \<and> bdl_events ?q = bdl_events b @ [e]
      \<and> ss_history (bdl_sharedState ?q) = ss_history (bdl_sharedState b) @ [e]"
    by (simp_all add: succeedProvisional_def completedStep_def [abs_def])
  from q(6) obtain e where e: "ev_runId e = run_id (bdl_run b)" "bdl_events ?q = bdl_events b @ [e]"
    "ss_history (bdl_sharedState ?q) = ss_history (bdl_sharedState b) @ [e]" by blast
  from assms(1) s obtain s' where s': "requireStep ?q i = Inr s'"
    by (auto simp: succeedExecutionRunStep_def Let_def split: sum.splits)
  obtain hs es where hs: "applyConsumedTaskTransferLifecycle ?q s' i t0 = (hs, es)" by fastforce
  let ?es = "e # cp_localActionEvents cp @ es"
  have es: "\<forall>e\<in>set es. ev_runId e = run_id (bdl_run b)"
    using consumedEvents_runId [OF hs [symmetric]] q(2) by simp
  have b': "bdl_steps b' = bdl_steps ?q" "bdl_leases b' = bdl_leases ?q"
    "bdl_events b' = bdl_events ?q @ cp_localActionEvents cp @ es"
    "run_id (bdl_run b') = run_id (bdl_run ?q)" "run_policy (bdl_run b') = run_policy (bdl_run ?q)"
    "ss_history (bdl_sharedState b') = ss_history (bdl_sharedState ?q) @ cp_localActionEvents cp @ es"
    "run_status (bdl_run b') = (if \<forall>c\<in>set (bdl_steps ?q). step_status c = StepSucceeded then RunSucceeded else RunRunning)"
    using assms(1) s s' hs q(5) by (auto simp: succeedExecutionRunStep_def Let_def list_all_iff)
  have "sameShape b (updateStep i (completedStep t0 cp)) ?es b'"
    using b' q e es assms(2) by (auto simp: sameShape_def updateStep_def completedStep_def)
  with s b'(1,7) show thesis by (intro that) simp_all
qed

definition failedStep :: "string \<Rightarrow> completion \<Rightarrow> failure option \<Rightarrow> executionRunStep \<Rightarrow> executionRunStep" where
  "failedStep t0 cp fail c = c\<lparr>step_status := StepFailed, step_completedAt := Some t0,
     step_output := (case cp_output cp of None \<Rightarrow> step_output c | Some out \<Rightarrow> Some out), step_failure := fail\<rparr>"

lemma fail_Inr:
  assumes "failExecutionRunStep p b i t0 cp fail = Inr b'"
    and "\<forall>e\<in>set (cp_localActionEvents cp). ev_runId e = run_id (bdl_run b)"
  obtains s es where "requireStep b i = Inr s" "step_status s \<in> {StepPlanned, StepRunnable, StepRunning}"
    "sameShape b (updateStep i (failedStep t0 cp fail)) es b'" "run_status (bdl_run b') = RunFailed"
proof -
  from assms(1) obtain s where s: "requireStep b i = Inr s" "step_status s \<in> {StepPlanned, StepRunnable, StepRunning}"
    by (auto simp: failExecutionRunStep_def split: sum.splits if_splits)
  obtain e where "ev_runId e = run_id (bdl_run b)"
    "sameShape b (updateStep i (failedStep t0 cp fail)) (e # cp_localActionEvents cp) b' \<and> run_status (bdl_run b') = RunFailed"
    using assms s
    by (fastforce simp: failExecutionRunStep_def Let_def sameShape_def updateStep_def failedStep_def [abs_def]
        split: if_splits)
  with s show thesis using that by blast
qed

definition escalatedStep :: "string \<Rightarrow> jobj \<Rightarrow> executionRunStep \<Rightarrow> executionRunStep" where
  "escalatedStep t0 g c = c\<lparr>step_status := StepCancelled, step_completedAt := Some t0,
     step_output := Some (escalationOutput t0 g), step_failure := None\<rparr>"

lemma escalate_Inr:
  assumes "cancelExecutionRunStepForHumanEscalation b i t0 g = Inr b'"
  obtains s e where "requireStep b i = Inr s" "step_status s = StepRunning"
    "sameShape b (updateStep i (escalatedStep t0 g)) [e] b'" "run_status (bdl_run b') = RunCancelled"
  using assms
  by (auto simp: cancelExecutionRunStepForHumanEscalation_def sameShape_def updateStep_def escalatedStep_def [abs_def]
      split: sum.splits if_splits)

definition cancelledStep :: "string \<Rightarrow> stepOutput \<Rightarrow> executionRunStep \<Rightarrow> executionRunStep" where
  "cancelledStep t0 out c = (if isMutableStep c
     then c\<lparr>step_status := StepCancelled, step_completedAt := Some (orElse (step_completedAt c) t0),
            step_failure := None, step_output := Some (orElse (step_output c) out)\<rparr>
     else c)"

lemma cancelRun_Inr:
  assumes "cancelExecutionRun b t0 n src = Inr b'"
  obtains out e where "\<exists>s\<in>set (bdl_steps b). isMutableStep s" "sameShape b (cancelledStep t0 out) [e] b'"
    "run_status (bdl_run b') = RunCancelled"
proof -
  have m: "\<exists>s\<in>set (bdl_steps b). isMutableStep s"
    using assms by (auto simp: cancelExecutionRun_def list_ex_iff split: if_splits)
  show thesis
    using assms by (intro that [OF m])
      (auto simp: cancelExecutionRun_def sameShape_def cancelledStep_def [abs_def] Let_def split: if_splits)
qed

lemma resume_Inr:
  assumes "resumeExecutionRunAfterHumanEscalation b t0 inp = Inr b'"
  obtains c e where "find isEscalatedStep (bdl_steps b) = Some c"
    "sameShape b (updateStep (step_id c) (resumeStep t0 inp)) [e] b'" "run_status (bdl_run b') = RunRunning"
  using assms
  by (auto simp: resumeExecutionRunAfterHumanEscalation_def sameShape_def updateStep_def resumeStep_def Let_def
      split: option.splits)

section \<open>Moves of a run\<close>

text \<open>
  What a runner and its operator do to a run between human interventions: the dispatcher's next
  step is started, a running step completes, a step fails, a step is paused for escalation, the run
  is cancelled. The events a host adds for its actions name the run.
\<close>

inductive run_move :: "(json \<Rightarrow> json option) \<Rightarrow> runBundle \<Rightarrow> runBundle \<Rightarrow> bool" for p where
  start: "dp_nextRunnableStepId (createExecutionRunDispatchPlan b) = Some i \<Longrightarrow>
    startExecutionRunStep b i t0 = Inr b' \<Longrightarrow> run_move p b b'"
| succeed: "succeedExecutionRunStep p b i t0 cp = Inr b' \<Longrightarrow>
    \<forall>e\<in>set (cp_localActionEvents cp). ev_runId e = run_id (bdl_run b) \<Longrightarrow> run_move p b b'"
| fail: "failExecutionRunStep p b i t0 cp f = Inr b' \<Longrightarrow>
    \<forall>e\<in>set (cp_localActionEvents cp). ev_runId e = run_id (bdl_run b) \<Longrightarrow> run_move p b b'"
| escalate: "cancelExecutionRunStepForHumanEscalation b i t0 g = Inr b' \<Longrightarrow> run_move p b b'"
| cancel: "cancelExecutionRun b t0 n src = Inr b' \<Longrightarrow> run_move p b b'"

text \<open>A move rewrites the steps one by one, forward only.\<close>

definition forwardStep :: "executionRunStep \<Rightarrow> executionRunStep \<Rightarrow> bool" where
  "forwardStep s s' = (step_id s' = step_id s \<and> step_dependsOnStepIds s' = step_dependsOnStepIds s
     \<and> step_status s \<le> step_status s' \<and> (isTerminalStep s \<longrightarrow> s' = s))"

lemma forward_refl [simp]: "forwardStep s s"
  by (simp add: forwardStep_def)

lemma updateStep_forward:
  assumes "distinct (map step_id (bdl_steps b))" "requireStep b i = Inr s" "t \<in> set (bdl_steps b)"
    and "forwardStep s (f s)"
  shows "forwardStep t (updateStep i f t)"
  using assms requireStep_unique [OF assms(1,2,3)] by (auto simp: updateStep_def)

lemma run_move_forward:
  assumes "run_move p b b'" "distinct (map step_id (bdl_steps b))"
  shows "\<exists>f es. sameShape b f es b' \<and> (\<forall>s\<in>set (bdl_steps b). forwardStep s (f s))"
  using assms
proof (induction rule: run_move.induct)
  case (start b i t0 b')
  from start.hyps(2) obtain s e where s: "requireStep b i = Inr s" "step_status s \<in> {StepPlanned, StepRunnable}"
    "sameShape b (updateStep i (startedStep t0)) [e] b'" by (rule start_Inr)
  then have "forwardStep s (startedStep t0 s)"
    by (auto simp: forwardStep_def startedStep_def isTerminalStep_def less_eq_executionRunStepStatus_def)
  with updateStep_forward [OF start.prems s(1)] s(3) show ?case by blast
next
  case (succeed b i t0 cp b')
  from succeed.hyps obtain s es where s: "requireStep b i = Inr s" "step_status s = StepRunning"
    "sameShape b (updateStep i (completedStep t0 cp)) es b'" by (rule succeed_Inr)
  then have "forwardStep s (completedStep t0 cp s)"
    by (auto simp: forwardStep_def completedStep_def isTerminalStep_def less_eq_executionRunStepStatus_def)
  with updateStep_forward [OF succeed.prems s(1)] s(3) show ?case by blast
next
  case (fail b i t0 cp f b')
  from fail.hyps obtain s es where s: "requireStep b i = Inr s" "step_status s \<in> {StepPlanned, StepRunnable, StepRunning}"
    "sameShape b (updateStep i (failedStep t0 cp f)) es b'" by (rule fail_Inr)
  then have "forwardStep s (failedStep t0 cp f s)"
    by (auto simp: forwardStep_def failedStep_def isTerminalStep_def less_eq_executionRunStepStatus_def)
  with updateStep_forward [OF fail.prems s(1)] s(3) show ?case by blast
next
  case (escalate b i t0 g b')
  from escalate.hyps obtain s e where s: "requireStep b i = Inr s" "step_status s = StepRunning"
    "sameShape b (updateStep i (escalatedStep t0 g)) [e] b'" by (rule escalate_Inr)
  then have "forwardStep s (escalatedStep t0 g s)"
    by (auto simp: forwardStep_def escalatedStep_def isTerminalStep_def less_eq_executionRunStepStatus_def)
  with updateStep_forward [OF escalate.prems s(1)] s(3) show ?case by blast
next
  case (cancel b t0 n src b')
  from cancel.hyps obtain out e where c: "sameShape b (cancelledStep t0 out) [e] b'" by (rule cancelRun_Inr)
  have "forwardStep s (cancelledStep t0 out s)" for s
    by (cases "step_status s")
      (simp_all add: forwardStep_def cancelledStep_def isMutableStep_def isTerminalStep_def less_eq_executionRunStepStatus_def)
  with c show ?case by blast
qed

section \<open>Nothing goes backwards\<close>

lemma run_moves_forward:
  assumes "(run_move p)\<^sup>*\<^sup>* b b'" "wfBundle b"
  shows "wfBundle b' \<and> bdl_leases b' = bdl_leases b
    \<and> (\<exists>f. bdl_steps b' = map f (bdl_steps b) \<and> (\<forall>s\<in>set (bdl_steps b). forwardStep s (f s)))
    \<and> (\<exists>es. bdl_events b' = bdl_events b @ es)"
  using assms
proof (induction rule: rtranclp_induct)
  case base
  then show ?case by (auto intro: exI [of _ id])
next
  case (step y z)
  then obtain f es where y: "wfBundle y" "bdl_leases y = bdl_leases b" "bdl_steps y = map f (bdl_steps b)"
    "\<forall>s\<in>set (bdl_steps b). forwardStep s (f s)" "bdl_events y = bdl_events b @ es" by blast
  from y(1) have "distinct (map step_id (bdl_steps y))" by (simp add: wfBundle_def)
  with run_move_forward step.hyps(2) obtain g es' where
    g: "sameShape y g es' z" "\<forall>s\<in>set (bdl_steps y). forwardStep s (g s)" by metis
  have "bdl_steps z = map (g \<circ> f) (bdl_steps b)" "bdl_leases z = bdl_leases b"
    "bdl_events z = bdl_events b @ es @ es'"
    using g(1) y by (simp_all add: sameShape_def)
  moreover have "\<forall>s\<in>set (bdl_steps b). forwardStep s ((g \<circ> f) s)"
  proof
    fix s assume s: "s \<in> set (bdl_steps b)"
    with y(3,4) g(2) have "forwardStep s (f s)" "forwardStep (f s) (g (f s))" by auto
    then show "forwardStep s ((g \<circ> f) s)"
      by (auto simp: forwardStep_def intro: order_trans)
  qed
  moreover have "wfBundle z" using sameShape_wf g(1) y(1) by blast
  ultimately show ?case by blast
qed

text \<open>C4. Steps only move forward: along any sequence of moves the bundle stays well formed, the
  leases are untouched, every step keeps its identity and dependencies, its status never goes back
  in the order blocked, planned, runnable, running, finished, a finished step is never modified
  again, and the event log only grows.\<close>

theorem steps_only_move_forward:
  assumes "wfBundle b" "(run_move p)\<^sup>*\<^sup>* b b'" "s \<in> set (bdl_steps b)"
  shows "wfBundle b' \<and> bdl_leases b' = bdl_leases b \<and> (\<exists>es. bdl_events b' = bdl_events b @ es)
    \<and> (\<exists>s'\<in>set (bdl_steps b'). step_id s' = step_id s \<and> step_dependsOnStepIds s' = step_dependsOnStepIds s
         \<and> step_status s \<le> step_status s')
    \<and> (isTerminalStep s \<longrightarrow> s \<in> set (bdl_steps b'))"
proof -
  from run_moves_forward [OF assms(2,1)] obtain f where
    f: "wfBundle b'" "bdl_leases b' = bdl_leases b" "bdl_steps b' = map f (bdl_steps b)"
    "\<forall>s\<in>set (bdl_steps b). forwardStep s (f s)" and es: "\<exists>es. bdl_events b' = bdl_events b @ es" by blast
  with assms(3) have "f s \<in> set (bdl_steps b')" "forwardStep s (f s)" by auto
  then show ?thesis using f(1,2) es unfolding forwardStep_def by metis
qed

lemma demo_start:
  "\<exists>b'. startExecutionRunStep demoTwoSteps ''b'' ''t1'' = Inr b' \<and> bdl_steps b' =
     [startedStep ''t1'' (demoStep ''b'' 2 StepPlanned [''a'']), demoStep ''a'' 1 StepSucceeded []]"
  by (simp add: startExecutionRunStep_def requireStep_def demoTwoSteps_def demo_simps updateStep_def startedStep_def)

lemma demoTwoSteps_wf: "wfBundle demoTwoSteps"
  unfolding demoTwoSteps_def by (rule demoBundle_wf) (simp_all add: demo_simps)

lemma demo_move:
  obtains b' where "run_move p demoTwoSteps b'" "bdl_steps b' =
     [startedStep ''t1'' (demoStep ''b'' 2 StepPlanned [''a'']), demoStep ''a'' 1 StepSucceeded []]"
  using demo_start run_move.start [OF demoTwoSteps_next] by blast

lemma steps_only_move_forward_witness:
  "\<exists>b'. run_move Some demoTwoSteps b' \<and> demoStep ''a'' 1 StepSucceeded [] \<in> set (bdl_steps b') \<and> wfBundle b'"
proof -
  obtain b' where b': "run_move Some demoTwoSteps b'" by (rule demo_move)
  have a: "demoStep ''a'' 1 StepSucceeded [] \<in> set (bdl_steps demoTwoSteps)" "isTerminalStep (demoStep ''a'' 1 StepSucceeded [])"
    by (simp_all add: demoTwoSteps_def demo_simps isTerminalStep_def)
  from steps_only_move_forward [OF demoTwoSteps_wf r_into_rtranclp [of "run_move Some", OF b'] a(1)] a(2) b' show ?thesis
    by blast
qed

section \<open>Execution is sequential and respects the dependencies\<close>

definition runningSteps :: "runBundle \<Rightarrow> executionRunStep list" where
  "runningSteps b = filter (\<lambda>s. step_status s = StepRunning) (bdl_steps b)"

definition dependenciesDone :: "runBundle \<Rightarrow> executionRunStep \<Rightarrow> bool" where
  "dependenciesDone b s = (\<forall>d\<in>set (step_dependsOnStepIds s).
     \<exists>t\<in>set (bdl_steps b). step_id t = d \<and> step_status t = StepSucceeded)"

definition executionOk :: "runBundle \<Rightarrow> bool" where
  "executionOk b = (distinct (map step_id (bdl_steps b)) \<and> length (runningSteps b) \<le> 1 \<and>
     (\<forall>s\<in>set (bdl_steps b). step_status s \<in> {StepRunning, StepSucceeded} \<longrightarrow> dependenciesDone b s))"

lemma running_after_update:
  assumes "\<And>s. s \<in> set xs \<Longrightarrow> step_status (f s) = StepRunning \<Longrightarrow> step_status s = StepRunning"
  shows "length (filter (\<lambda>s. step_status s = StepRunning) (map f xs)) \<le> length (filter (\<lambda>s. step_status s = StepRunning) xs)"
  using assms by (induction xs) (auto simp: le_SucI)

lemma dependenciesDone_mono:
  assumes "bdl_steps b' = map f (bdl_steps b)" "\<forall>s\<in>set (bdl_steps b). forwardStep s (f s)" "dependenciesDone b s"
    and "step_dependsOnStepIds s' = step_dependsOnStepIds s"
  shows "dependenciesDone b' s'"
proof -
  have "t \<in> set (bdl_steps b')" if "t \<in> set (bdl_steps b)" "step_status t = StepSucceeded" for t
    using assms(1,2) that by (force simp: forwardStep_def isTerminalStep_def image_iff)
  with assms(3,4) show ?thesis unfolding dependenciesDone_def by metis
qed

text \<open>A move other than a start makes no step running, and only a running step succeeds.\<close>

lemma executionOk_keep:
  assumes ok: "executionOk b" and shape: "sameShape b f es b'" "\<forall>s\<in>set (bdl_steps b). forwardStep s (f s)"
    and newst: "\<And>s. s \<in> set (bdl_steps b) \<Longrightarrow> step_status (f s) \<in> {StepRunning, StepSucceeded} \<Longrightarrow>
      step_status s \<in> {StepRunning, StepSucceeded}"
    and running: "\<And>s. s \<in> set (bdl_steps b) \<Longrightarrow> step_status (f s) = StepRunning \<Longrightarrow> step_status s = StepRunning"
  shows "executionOk b'"
proof -
  have steps: "bdl_steps b' = map f (bdl_steps b)" and ids: "map step_id (bdl_steps b') = map step_id (bdl_steps b)"
    using shape(1) by (simp_all add: sameShape_def)
  have len: "length (runningSteps b') \<le> length (runningSteps b)"
    unfolding runningSteps_def steps by (rule running_after_update) (rule running)
  have "dependenciesDone b' (f s)" if s: "s \<in> set (bdl_steps b)" "step_status (f s) \<in> {StepRunning, StepSucceeded}" for s
  proof (rule dependenciesDone_mono [OF steps shape(2)])
    show "dependenciesDone b s" using ok s newst by (auto simp: executionOk_def)
    show "step_dependsOnStepIds (f s) = step_dependsOnStepIds s"
      using shape(2) s by (simp add: forwardStep_def)
  qed
  then have "\<forall>s\<in>set (bdl_steps b'). step_status s \<in> {StepRunning, StepSucceeded} \<longrightarrow> dependenciesDone b' s"
    using steps by auto
  moreover have "distinct (map step_id (bdl_steps b'))" unfolding ids using ok by (simp add: executionOk_def)
  ultimately show ?thesis using ok len unfolding executionOk_def by simp
qed

lemma one_key_length: "distinct (map k xs) \<Longrightarrow> (\<And>x. x \<in> set xs \<Longrightarrow> k x = i) \<Longrightarrow> length xs \<le> 1"
proof (cases xs)
  case (Cons x ys)
  assume "distinct (map k xs)" "\<And>x. x \<in> set xs \<Longrightarrow> k x = i"
  with Cons show ?thesis by (cases ys) auto
qed simp

lemma executionOk_start:
  assumes ok: "executionOk b" and nxt: "dp_nextRunnableStepId (createExecutionRunDispatchPlan b) = Some i"
    and st: "startExecutionRunStep b i t0 = Inr b'"
  shows "executionOk b'"
proof -
  from dispatch_next_ready [OF nxt] obtain s where s: "s \<in> set (bdl_steps b)" "step_id s = i" "dependenciesDone b s"
    and none: "\<forall>t\<in>set (bdl_steps b). step_status t \<noteq> StepRunning" by (auto simp: dependenciesDone_def)
  have dist: "distinct (map step_id (bdl_steps b))" using ok by (simp add: executionOk_def)
  from st obtain s0 e where s0: "requireStep b i = Inr s0" "step_status s0 \<in> {StepPlanned, StepRunnable}" and shape: "sameShape b (updateStep i (startedStep t0)) [e] b'"
    by (rule start_Inr)
  have steps: "bdl_steps b' = map (updateStep i (startedStep t0)) (bdl_steps b)"
    using shape by (simp add: sameShape_def)
  have f0: "forwardStep s0 (startedStep t0 s0)"
    using s0(2) by (auto simp: forwardStep_def startedStep_def isTerminalStep_def less_eq_executionRunStepStatus_def)
  have fwd: "\<forall>t\<in>set (bdl_steps b). forwardStep t (updateStep i (startedStep t0) t)"
    using updateStep_forward [where f = "startedStep t0", OF dist s0(1) _ f0] by blast
  have len: "length (runningSteps b') \<le> 1"
  proof -
    have "step_id t = i" if "t \<in> set (runningSteps b')" for t
    proof (rule ccontr)
      assume i: "step_id t \<noteq> i"
      from that obtain u where u: "u \<in> set (bdl_steps b)" "t = updateStep i (startedStep t0) u" "step_status t = StepRunning"
        by (auto simp: runningSteps_def steps)
      from shape u(2) have "step_id t = step_id u" by (simp add: sameShape_def)
      with i u(2) have "t = u" by (simp add: updateStep_def)
      with u(1,3) none show False by simp
    qed
    moreover have "distinct (map step_id (runningSteps b'))"
      using dist shape unfolding runningSteps_def steps
      by (intro distinct_map_filter) (simp add: sameShape_def comp_def)
    ultimately show ?thesis by (rule one_key_length [rotated])
  qed
  have "dependenciesDone b' (updateStep i (startedStep t0) t)"
    if t: "t \<in> set (bdl_steps b)" "step_status (updateStep i (startedStep t0) t) \<in> {StepRunning, StepSucceeded}" for t
  proof (rule dependenciesDone_mono [OF steps fwd])
    show "step_dependsOnStepIds (updateStep i (startedStep t0) t) = step_dependsOnStepIds t"
      using fwd t by (simp add: forwardStep_def)
    show "dependenciesDone b t"
    proof (cases "step_id t = i")
      case True
      then have "t = s0" using requireStep_unique [OF dist s0(1) t(1)] by simp
      with s(3) requireStep_unique [OF dist s0(1) s(1,2)] show ?thesis by simp
    next
      case False
      with t ok show ?thesis by (auto simp: updateStep_def executionOk_def)
    qed
  qed
  then have "\<forall>s\<in>set (bdl_steps b'). step_status s \<in> {StepRunning, StepSucceeded} \<longrightarrow> dependenciesDone b' s"
    using steps by auto
  moreover have "distinct (map step_id (bdl_steps b'))"
    using dist shape by (simp add: sameShape_def comp_def)
  ultimately show ?thesis using len unfolding executionOk_def by simp
qed

lemma updateStep_shape:
  assumes ok: "executionOk b" and s: "requireStep b i = Inr s"
    and shape: "sameShape b (updateStep i f) es b'" and fwd: "forwardStep s (f s)"
    and st: "step_status (f s) \<noteq> StepRunning" "step_status (f s) = StepSucceeded \<Longrightarrow> step_status s = StepRunning"
  shows "executionOk b'"
proof (rule executionOk_keep [OF ok shape])
  have dist: "distinct (map step_id (bdl_steps b))" using ok by (simp add: executionOk_def)
  then show "\<forall>t\<in>set (bdl_steps b). forwardStep t (updateStep i f t)"
    using updateStep_forward [where f = f, OF dist s _ fwd] by blast
  fix t assume t: "t \<in> set (bdl_steps b)"
  show "step_status (updateStep i f t) \<in> {StepRunning, StepSucceeded} \<Longrightarrow> step_status t \<in> {StepRunning, StepSucceeded}"
    using requireStep_unique [OF dist s t] st by (auto simp: updateStep_def split: if_splits)
  show "step_status (updateStep i f t) = StepRunning \<Longrightarrow> step_status t = StepRunning"
    using requireStep_unique [OF dist s t] st by (auto simp: updateStep_def split: if_splits)
qed

lemma executionOk_move: "run_move p b b' \<Longrightarrow> executionOk b \<Longrightarrow> executionOk b'"
proof (induction rule: run_move.induct)
  case (start b i t0 b')
  then show ?case using executionOk_start by blast
next
  case (succeed b i t0 cp b')
  from succeed.hyps obtain s es where s: "requireStep b i = Inr s" "step_status s = StepRunning"
    "sameShape b (updateStep i (completedStep t0 cp)) es b'" by (rule succeed_Inr)
  show ?case
    by (rule updateStep_shape [OF succeed.prems s(1,3)])
      (use s(2) in \<open>auto simp: forwardStep_def completedStep_def isTerminalStep_def less_eq_executionRunStepStatus_def\<close>)
next
  case (fail b i t0 cp f b')
  from fail.hyps obtain s es where s: "requireStep b i = Inr s" "step_status s \<in> {StepPlanned, StepRunnable, StepRunning}"
    "sameShape b (updateStep i (failedStep t0 cp f)) es b'" by (rule fail_Inr)
  show ?case
    by (rule updateStep_shape [OF fail.prems s(1,3)])
      (use s(2) in \<open>auto simp: forwardStep_def failedStep_def isTerminalStep_def less_eq_executionRunStepStatus_def\<close>)
next
  case (escalate b i t0 g b')
  from escalate.hyps obtain s e where s: "requireStep b i = Inr s" "step_status s = StepRunning"
    "sameShape b (updateStep i (escalatedStep t0 g)) [e] b'" by (rule escalate_Inr)
  show ?case
    by (rule updateStep_shape [OF escalate.prems s(1,3)])
      (use s(2) in \<open>auto simp: forwardStep_def escalatedStep_def isTerminalStep_def less_eq_executionRunStepStatus_def\<close>)
next
  case (cancel b t0 n src b')
  from cancel.hyps obtain out e where c: "sameShape b (cancelledStep t0 out) [e] b'" by (rule cancelRun_Inr)
  show ?case
  proof (rule executionOk_keep [OF cancel.prems c])
    show "\<forall>s\<in>set (bdl_steps b). forwardStep s (cancelledStep t0 out s)"
    proof
      fix s show "forwardStep s (cancelledStep t0 out s)"
        by (cases "step_status s")
          (simp_all add: forwardStep_def cancelledStep_def isMutableStep_def isTerminalStep_def less_eq_executionRunStepStatus_def)
    qed
  qed (auto simp: cancelledStep_def isMutableStep_def split: if_splits)
qed

text \<open>C1. Execution is sequential and respects the dependencies: starting from a run none of whose
  steps has been started, in every state the moves can reach at most one step is running, and all
  dependencies of a step that is running or has succeeded are steps that have succeeded.\<close>

theorem execution_respects_dependencies:
  assumes "distinct (map step_id (bdl_steps b))"
    and "\<forall>s\<in>set (bdl_steps b). step_status s \<notin> {StepRunning, StepSucceeded}"
    and "(run_move p)\<^sup>*\<^sup>* b b'"
  shows "length (filter (\<lambda>s. step_status s = StepRunning) (bdl_steps b')) \<le> 1
    \<and> (\<forall>s\<in>set (bdl_steps b'). step_status s \<in> {StepRunning, StepSucceeded} \<longrightarrow>
         (\<forall>d\<in>set (step_dependsOnStepIds s). \<exists>t\<in>set (bdl_steps b'). step_id t = d \<and> step_status t = StepSucceeded))"
proof -
  have "runningSteps b = []" using assms(2) by (auto simp: runningSteps_def filter_empty_conv)
  then have "executionOk b" using assms(1,2) by (auto simp: executionOk_def)
  with assms(3) have "executionOk b'"
    by (induction rule: rtranclp_induct) (auto intro: executionOk_move)
  then show ?thesis by (simp add: executionOk_def runningSteps_def dependenciesDone_def)
qed

definition demoFresh :: runBundle where
  "demoFresh = demoBundle [demoStep ''a'' 1 StepPlanned [], demoStep ''b'' 2 StepPlanned [''a'']] []"

lemma demoFresh_start:
  "\<exists>b'. run_move p demoFresh b' \<and> length (filter (\<lambda>s. step_status s = StepRunning) (bdl_steps b')) = 1"
proof -
  have n: "dp_nextRunnableStepId (createExecutionRunDispatchPlan demoFresh) = Some ''a''"
    by (simp add: plan_next plan_running eligibleSteps_def demoFresh_def demo_simps stepLe_def
      eligibleStep_def pendingStep_def hasTerminalFailure_def canDispatchStep_def isTerminalStep_def
      dependenciesSatisfied_def stepsByIdOf_def)
  have "\<exists>b'. startExecutionRunStep demoFresh ''a'' ''t1'' = Inr b'
      \<and> length (filter (\<lambda>s. step_status s = StepRunning) (bdl_steps b')) = 1"
    by (simp add: startExecutionRunStep_def requireStep_def demoFresh_def demo_simps updateStep_def)
  with n run_move.start show ?thesis by blast
qed

lemma execution_respects_dependencies_witness:
  "\<exists>b'. run_move Some demoFresh b' \<and> length (filter (\<lambda>s. step_status s = StepRunning) (bdl_steps b')) = 1
    \<and> (\<forall>s\<in>set (bdl_steps b'). step_status s \<in> {StepRunning, StepSucceeded} \<longrightarrow>
         (\<forall>d\<in>set (step_dependsOnStepIds s). \<exists>t\<in>set (bdl_steps b'). step_id t = d \<and> step_status t = StepSucceeded))"
proof -
  obtain b' where b': "run_move Some demoFresh b'" "length (filter (\<lambda>s. step_status s = StepRunning) (bdl_steps b')) = 1"
    using demoFresh_start by blast
  have "distinct (map step_id (bdl_steps demoFresh))"
    "\<forall>s\<in>set (bdl_steps demoFresh). step_status s \<notin> {StepRunning, StepSucceeded}"
    by (simp_all add: demoFresh_def demo_simps)
  from execution_respects_dependencies [OF this r_into_rtranclp [of "run_move Some", OF b'(1)]] b' show ?thesis by blast
qed

text \<open>Fail fast: once a step of a run has failed or been cancelled, the dispatcher offers no step
  in any state the moves can reach, so no further step is started.\<close>

lemma no_start_after_failure:
  assumes "wfBundle b" "s \<in> set (bdl_steps b)" "step_status s \<in> {StepFailed, StepCancelled}"
    and "(run_move p)\<^sup>*\<^sup>* b b'"
  shows "dp_nextRunnableStepId (createExecutionRunDispatchPlan b') = None"
proof (rule ccontr)
  assume "dp_nextRunnableStepId (createExecutionRunDispatchPlan b') \<noteq> None"
  then obtain i where "dp_nextRunnableStepId (createExecutionRunDispatchPlan b') = Some i" by blast
  from dispatch_next_ready [OF this] have "\<forall>t\<in>set (bdl_steps b'). step_status t \<notin> {StepFailed, StepCancelled}"
    by blast
  moreover from run_moves_forward [OF assms(4,1)] obtain f where
    "bdl_steps b' = map f (bdl_steps b)" "\<forall>s\<in>set (bdl_steps b). forwardStep s (f s)" by blast
  then have "s \<in> set (bdl_steps b')"
    using assms(2,3) by (force simp: forwardStep_def isTerminalStep_def image_iff)
  ultimately show False using assms(3) by blast
qed

lemma no_start_after_failure_example:
  "dp_nextRunnableStepId (createExecutionRunDispatchPlan
     (demoBundle [demoStep ''a'' 1 StepFailed [], demoStep ''b'' 2 StepPlanned []] [])) = None"
proof (rule no_start_after_failure [where p = Some])
  show "wfBundle (demoBundle [demoStep ''a'' 1 StepFailed [], demoStep ''b'' 2 StepPlanned []] [])"
    by (rule demoBundle_wf) (simp_all add: demo_simps)
  show "demoStep ''a'' 1 StepFailed [] \<in> set (bdl_steps (demoBundle [demoStep ''a'' 1 StepFailed [], demoStep ''b'' 2 StepPlanned []] []))"
    by simp
  show "step_status (demoStep ''a'' 1 StepFailed []) \<in> {StepFailed, StepCancelled}" by (simp add: demo_simps)
qed simp

section \<open>Runs finish\<close>

text \<open>
  A pass of a runner whose step executes without failing: the dispatcher's next step is started and
  completed. \<open>runPasses\<close> performs passes as long as there is a next step, at most one per timestamp
  pair.
\<close>

fun runPasses :: "(json \<Rightarrow> json option) \<Rightarrow> (string \<times> string) list \<Rightarrow> runBundle \<Rightarrow> runBundle" where
  "runPasses p [] b = b"
| "runPasses p ((t0, t1) # ts) b =
     (case dp_nextRunnableStepId (createExecutionRunDispatchPlan b) of
        None \<Rightarrow> b
      | Some i \<Rightarrow>
          (case Option.bind (case startExecutionRunStep b i t0 of Inl _ \<Rightarrow> None | Inr b1 \<Rightarrow> Some b1)
             (\<lambda>b1. case succeedExecutionRunStep p b1 i t1 plainCompletion of Inl _ \<Rightarrow> None | Inr b2 \<Rightarrow> Some b2) of
             None \<Rightarrow> b
           | Some b2 \<Rightarrow> runPasses p ts b2))"

definition plannedOk :: "runBundle \<Rightarrow> bool" where
  "plannedOk b = (distinct (map step_id (bdl_steps b)) \<and>
     (\<forall>s\<in>set (bdl_steps b). \<forall>d\<in>set (step_dependsOnStepIds s).
        \<exists>t\<in>set (bdl_steps b). step_id t = d \<and> step_order t < step_order s) \<and>
     (\<forall>s\<in>set (bdl_steps b). step_status s \<in> {StepPlanned, StepRunnable, StepSucceeded}))"

definition openSteps :: "runBundle \<Rightarrow> executionRunStep list" where
  "openSteps b = filter (\<lambda>s. step_status s \<noteq> StepSucceeded) (bdl_steps b)"

lemma plannedOk_cong:
  assumes "plannedOk b" "bdl_steps b' = map f (bdl_steps b)"
    and "\<And>s. step_id (f s) = step_id s \<and> step_order (f s) = step_order s \<and> step_dependsOnStepIds (f s) = step_dependsOnStepIds s"
    and "\<And>s. s \<in> set (bdl_steps b) \<Longrightarrow> step_status (f s) \<in> {StepPlanned, StepRunnable, StepSucceeded}"
  shows "plannedOk b'"
  using assms unfolding plannedOk_def by (auto simp: comp_def)

lemma start_succeeds:
  assumes "distinct (map step_id (bdl_steps b))" "s \<in> set (bdl_steps b)" "step_status s \<in> {StepPlanned, StepRunnable}"
  obtains b' e where "startExecutionRunStep b (step_id s) t0 = Inr b'"
    "sameShape b (updateStep (step_id s) (startedStep t0)) [e] b'"
proof -
  have "\<exists>b'. startExecutionRunStep b (step_id s) t0 = Inr b'"
    using requireStep_ok [OF assms(1,2)] assms(3) by (auto simp: startExecutionRunStep_def)
  with that start_Inr show thesis by metis
qed

lemma succeed_ok:
  assumes "distinct (map step_id (bdl_steps b))" "s \<in> set (bdl_steps b)" "step_status s = StepRunning"
    and ev: "\<forall>e\<in>set (cp_localActionEvents cp). ev_runId e = run_id (bdl_run b)"
  obtains b' es where "succeedExecutionRunStep p b (step_id s) t0 cp = Inr b'"
    "sameShape b (updateStep (step_id s) (completedStep t0 cp)) es b'"
    "run_status (bdl_run b') = (if \<forall>c\<in>set (bdl_steps b'). step_status c = StepSucceeded then RunSucceeded else RunRunning)"
proof -
  let ?q = "succeedProvisional p b (step_id s) t0 cp"
  have steps: "bdl_steps ?q = map (updateStep (step_id s) (completedStep t0 cp)) (bdl_steps b)"
    by (simp add: succeedProvisional_def completedStep_def [abs_def])
  have "step_id (updateStep (step_id s) (completedStep t0 cp) x) = step_id x" for x
    by (simp add: updateStep_def completedStep_def)
  then have "distinct (map step_id (bdl_steps ?q))"
    using assms(1) by (simp add: steps comp_def)
  moreover have "completedStep t0 cp s \<in> set (bdl_steps ?q)"
    using assms(2) by (force simp: steps updateStep_def)
  ultimately have "requireStep ?q (step_id s) = Inr (completedStep t0 cp s)"
    using requireStep_ok by (fastforce simp: completedStep_def)
  then have "\<exists>b'. succeedExecutionRunStep p b (step_id s) t0 cp = Inr b'"
    using requireStep_ok [OF assms(1,2)] assms(3)
    by (auto simp: succeedExecutionRunStep_def Let_def split: prod.split)
  then obtain b' where b': "succeedExecutionRunStep p b (step_id s) t0 cp = Inr b'" by blast
  from succeed_Inr [OF b' ev] b' that show thesis by metis
qed

lemma succeed_succeeds:
  assumes "distinct (map step_id (bdl_steps b))" "s \<in> set (bdl_steps b)" "step_status s = StepRunning"
  obtains b' es where "succeedExecutionRunStep p b (step_id s) t0 plainCompletion = Inr b'"
    "sameShape b (updateStep (step_id s) (completedStep t0 plainCompletion)) es b'"
    "run_status (bdl_run b') = (if \<forall>c\<in>set (bdl_steps b'). step_status c = StepSucceeded then RunSucceeded else RunRunning)"
  using succeed_ok [OF assms, of plainCompletion] that by (auto simp: plainCompletion_def)

lemma one_pass:
  assumes ok: "plannedOk b" and nxt: "dp_nextRunnableStepId (createExecutionRunDispatchPlan b) = Some i"
  obtains b1 b2 where "startExecutionRunStep b i t0 = Inr b1" "succeedExecutionRunStep p b1 i t1 plainCompletion = Inr b2"
    "plannedOk b2" "length (openSteps b2) < length (openSteps b)"
    "run_status (bdl_run b2) = (if \<forall>c\<in>set (bdl_steps b2). step_status c = StepSucceeded then RunSucceeded else RunRunning)"
proof -
  have dist: "distinct (map step_id (bdl_steps b))" using ok by (simp add: plannedOk_def)
  from dispatch_next_ready [OF nxt] obtain s where s: "s \<in> set (bdl_steps b)" "step_id s = i"
    "step_status s \<in> {StepPlanned, StepRunnable}" by auto
  obtain b1 e where b1: "startExecutionRunStep b i t0 = Inr b1" "sameShape b (updateStep i (startedStep t0)) [e] b1"
    using start_succeeds [OF dist s(1,3)] s(2) by metis
  have steps1: "bdl_steps b1 = map (updateStep i (startedStep t0)) (bdl_steps b)" using b1(2) by (simp add: sameShape_def)
  have dist1: "distinct (map step_id (bdl_steps b1))" using dist b1(2) by (simp add: sameShape_def comp_def)
  have s1: "startedStep t0 s \<in> set (bdl_steps b1)" "step_status (startedStep t0 s) = StepRunning" "step_id (startedStep t0 s) = i"
    using s by (force simp: steps1 updateStep_def, simp_all add: startedStep_def)
  obtain b2 es where b2: "succeedExecutionRunStep p b1 i t1 plainCompletion = Inr b2"
    "sameShape b1 (updateStep i (completedStep t1 plainCompletion)) es b2"
    "run_status (bdl_run b2) = (if \<forall>c\<in>set (bdl_steps b2). step_status c = StepSucceeded then RunSucceeded else RunRunning)"
    using succeed_succeeds [OF dist1 s1(1,2), of p t1] s1(3) by metis
  let ?f = "\<lambda>t. updateStep i (completedStep t1 plainCompletion) (updateStep i (startedStep t0) t)"
  have f: "step_id (?f t) = step_id t" "step_order (?f t) = step_order t"
    "step_dependsOnStepIds (?f t) = step_dependsOnStepIds t"
    "step_status (?f t) = (if step_id t = i then StepSucceeded else step_status t)" for t
    by (simp_all add: updateStep_def completedStep_def startedStep_def)
  have steps2: "bdl_steps b2 = map ?f (bdl_steps b)" using b2(2) steps1 by (simp add: sameShape_def)
  have "plannedOk b2"
    by (rule plannedOk_cong [OF ok steps2]) (use ok f in \<open>auto simp: plannedOk_def\<close>)
  moreover have "length (openSteps b2) < length (openSteps b)"
  proof -
    have "openSteps b2 = map ?f (filter (\<lambda>t. step_status (?f t) \<noteq> StepSucceeded) (bdl_steps b))"
      by (simp add: openSteps_def steps2 filter_map comp_def)
    moreover have "filter (\<lambda>t. step_status (?f t) \<noteq> StepSucceeded) (bdl_steps b)
        = filter (\<lambda>t. step_id t \<noteq> i) (openSteps b)"
      unfolding openSteps_def filter_filter by (rule filter_cong) (auto simp: f)
    ultimately have "length (openSteps b2) = length (filter (\<lambda>t. step_id t \<noteq> i) (openSteps b))"
      by simp
    also have "\<dots> < length (openSteps b)"
      by (rule length_filter_less [of s]) (use s in \<open>auto simp: openSteps_def\<close>)
    finally show ?thesis .
  qed
  ultimately show thesis using that b1(1) b2(1,3) by blast
qed

lemma runPasses_finish:
  "plannedOk b \<Longrightarrow> openSteps b \<noteq> [] \<Longrightarrow> length (openSteps b) \<le> length ts \<Longrightarrow>
   (\<forall>s\<in>set (bdl_steps (runPasses p ts b)). step_status s = StepSucceeded)
   \<and> run_status (bdl_run (runPasses p ts b)) = RunSucceeded"
proof (induction ts arbitrary: b)
  case Nil
  then show ?case by simp
next
  case (Cons tt ts)
  obtain t0 t1 where tt: "tt = (t0, t1)" by (cases tt)
  have "\<exists>s\<in>set (bdl_steps b). step_status s \<noteq> StepSucceeded"
    using Cons.prems(2) by (auto simp: openSteps_def filter_empty_conv)
  with Cons.prems(1) obtain i where i: "dp_nextRunnableStepId (createExecutionRunDispatchPlan b) = Some i"
    using dispatch_offers_next [of b] unfolding plannedOk_def by blast
  obtain b1 b2 where b2: "startExecutionRunStep b i t0 = Inr b1" "succeedExecutionRunStep p b1 i t1 plainCompletion = Inr b2"
    "plannedOk b2" "length (openSteps b2) < length (openSteps b)"
    "run_status (bdl_run b2) = (if \<forall>c\<in>set (bdl_steps b2). step_status c = StepSucceeded then RunSucceeded else RunRunning)"
    using one_pass [OF Cons.prems(1) i] by metis
  have run: "runPasses p (tt # ts) b = runPasses p ts b2" using tt i b2(1,2) by simp
  show ?case
  proof (cases "openSteps b2 = []")
    case True
    then have all: "\<forall>c\<in>set (bdl_steps b2). step_status c = StepSucceeded"
      by (auto simp: openSteps_def filter_empty_conv)
    have "runPasses p ts b2 = b2"
    proof (cases ts)
      case (Cons uu us)
      have "dp_nextRunnableStepId (createExecutionRunDispatchPlan b2) = None"
      proof (rule ccontr)
        assume "dp_nextRunnableStepId (createExecutionRunDispatchPlan b2) \<noteq> None"
        then obtain j where "dp_nextRunnableStepId (createExecutionRunDispatchPlan b2) = Some j" by blast
        from dispatch_next_ready [OF this] all show False by auto
      qed
      with Cons show ?thesis by (cases uu) simp
    qed simp
    with run all b2(5) show ?thesis by simp
  next
    case False
    with Cons.IH [OF b2(3)] b2(4) Cons.prems(3) run show ?thesis by simp
  qed
qed

text \<open>C7. Runs finish: if the steps of a planned run depend only on earlier steps and each pass
  executes the dispatched step without a failure, then as many passes as there are open steps, or
  more, leave every step succeeded and the run itself marked as succeeded.\<close>

theorem runs_finish:
  assumes "distinct (map step_id (bdl_steps b))"
    and "\<forall>s\<in>set (bdl_steps b). \<forall>d\<in>set (step_dependsOnStepIds s).
      \<exists>t\<in>set (bdl_steps b). step_id t = d \<and> step_order t < step_order s"
    and "\<forall>s\<in>set (bdl_steps b). step_status s \<in> {StepPlanned, StepRunnable, StepSucceeded}"
    and "\<exists>s\<in>set (bdl_steps b). step_status s \<noteq> StepSucceeded"
    and "length (bdl_steps b) \<le> length ts"
  shows "(\<forall>s\<in>set (bdl_steps (runPasses p ts b)). step_status s = StepSucceeded)
    \<and> run_status (bdl_run (runPasses p ts b)) = RunSucceeded"
proof (rule runPasses_finish)
  show "plannedOk b" using assms(1-3) by (simp add: plannedOk_def)
  show "openSteps b \<noteq> []" using assms(4) by (auto simp: openSteps_def filter_empty_conv)
  show "length (openSteps b) \<le> length ts"
    using assms(5) length_filter_le order_trans unfolding openSteps_def by blast
qed

lemma runs_finish_witness:
  "run_status (bdl_run (runPasses Some [(''t1'', ''t2''), (''t3'', ''t4'')] demoFresh)) = RunSucceeded"
  using runs_finish [of demoFresh "[(''t1'', ''t2''), (''t3'', ''t4'')]" Some]
  by (simp add: demoFresh_def demo_simps)

section \<open>Resuming and recovering\<close>

lemma eligible_next:
  assumes "distinct (map step_id (bdl_steps b))" "s \<in> set (bdl_steps b)" "step_status s \<in> {StepPlanned, StepRunnable}"
    and "dependenciesDone b s" "\<forall>t\<in>set (bdl_steps b). step_status t \<notin> {StepRunning, StepFailed, StepCancelled}"
  shows "dp_nextRunnableStepId (createExecutionRunDispatchPlan b) \<noteq> None"
proof -
  have d2: "distinct (map step_id (planSteps b))" using assms(1) by simp
  have "stepsByIdOf (planSteps b) d = Some t" if "t \<in> set (bdl_steps b)" "step_id t = d" for d t
    using stepsByIdOf_unique [OF d2, of d] find_key_unique [OF d2, of t] that by simp
  then have "dependenciesSatisfied (stepsByIdOf (planSteps b)) s"
    using assms(4) by (fastforce simp: dependenciesSatisfied_def dependenciesDone_def list_all_iff Let_def)
  moreover have "\<not> planFailed b" using assms(5) by (auto simp: hasTerminalFailure_def list_ex_iff)
  ultimately have "s \<in> set (eligibleSteps b)"
    using assms(2,3) by (auto simp: eligibleSteps_def eligibleStep_def pendingStep_iff canDispatchStep_def)
  moreover have "dp_runningStepIds (createExecutionRunDispatchPlan b) = []"
    using assms(5) by (auto simp: plan_running filter_empty_conv)
  ultimately show ?thesis by (cases "eligibleSteps b") (simp_all add: plan_next)
qed

text \<open>Resuming after an escalation puts the paused step back in play, but it does not undo other
  failures: the run is marked running again in every case, and the dispatcher offers a step
  exactly when no other step of the run has failed or been cancelled.\<close>

lemma resume_offers_step_iff_no_other_failure:
  assumes wf: "wfBundle b" and c: "find isEscalatedStep (bdl_steps b) = Some c"
    and deps: "dependenciesDone b c" and idle: "\<forall>s\<in>set (bdl_steps b). step_status s \<noteq> StepRunning"
  shows "\<exists>b'. resumeExecutionRunAfterHumanEscalation b t0 inp = Inr b' \<and> wfBundle b'
    \<and> run_status (bdl_run b') = RunRunning
    \<and> (dp_nextRunnableStepId (createExecutionRunDispatchPlan b') \<noteq> None \<longleftrightarrow>
        (\<forall>s\<in>set (bdl_steps b). step_id s \<noteq> step_id c \<longrightarrow> step_status s \<notin> {StepFailed, StepCancelled}))"
proof -
  have dist: "distinct (map step_id (bdl_steps b))" using wf by (simp add: wfBundle_def)
  have cin: "c \<in> set (bdl_steps b)" "step_status c = StepCancelled"
    using find_SomeD [OF c] by (simp_all add: isEscalatedStep_def)
  have only: "t = c" if "t \<in> set (bdl_steps b)" "step_id t = step_id c" for t
    using dist cin(1) that by (metis distinct_map inj_on_eq_iff)
  obtain b' where res: "resumeExecutionRunAfterHumanEscalation b t0 inp = Inr b'"
    using c by (simp add: resumeExecutionRunAfterHumanEscalation_def Let_def)
  then obtain e where shape: "sameShape b (updateStep (step_id c) (resumeStep t0 inp)) [e] b'"
    and run: "run_status (bdl_run b') = RunRunning"
    using c by (elim resume_Inr) simp
  let ?f = "updateStep (step_id c) (resumeStep t0 inp)"
  have steps: "bdl_steps b' = map ?f (bdl_steps b)" using shape by (simp add: sameShape_def)
  have wf': "wfBundle b'" using sameShape_wf shape wf by blast
  have st: "step_status (?f s) = (if s = c then StepRunnable else step_status s)" if "s \<in> set (bdl_steps b)" for s
    using only [OF that] by (auto simp: updateStep_def resumeStep_def)
  have "dp_nextRunnableStepId (createExecutionRunDispatchPlan b') \<noteq> None"
    if clean: "\<forall>s\<in>set (bdl_steps b). step_id s \<noteq> step_id c \<longrightarrow> step_status s \<notin> {StepFailed, StepCancelled}"
  proof (rule eligible_next)
    show "distinct (map step_id (bdl_steps b'))" using wf' by (simp add: wfBundle_def)
    show "?f c \<in> set (bdl_steps b')" using cin by (simp add: steps)
    show "step_status (?f c) \<in> {StepPlanned, StepRunnable}" using st cin by simp
    show "dependenciesDone b' (?f c)"
      unfolding dependenciesDone_def
    proof
      fix d assume "d \<in> set (step_dependsOnStepIds (?f c))"
      then have "d \<in> set (step_dependsOnStepIds c)" using shape by (simp add: sameShape_def)
      with deps obtain t where t: "t \<in> set (bdl_steps b)" "step_id t = d" "step_status t = StepSucceeded"
        unfolding dependenciesDone_def by blast
      then have "?f t = t" using cin(2) only [OF t(1)] by (auto simp: updateStep_def)
      with t show "\<exists>t\<in>set (bdl_steps b'). step_id t = d \<and> step_status t = StepSucceeded"
        unfolding steps by (metis image_eqI set_map)
    qed
    show "\<forall>t\<in>set (bdl_steps b'). step_status t \<notin> {StepRunning, StepFailed, StepCancelled}"
      using clean idle st only by (auto simp: steps)
  qed
  moreover have "step_status s \<notin> {StepFailed, StepCancelled}"
    if "dp_nextRunnableStepId (createExecutionRunDispatchPlan b') \<noteq> None" "s \<in> set (bdl_steps b)" "step_id s \<noteq> step_id c" for s
  proof -
    from that(1) obtain i where "dp_nextRunnableStepId (createExecutionRunDispatchPlan b') = Some i" by blast
    from dispatch_next_ready [OF this] have "\<forall>t\<in>set (bdl_steps b'). step_status t \<notin> {StepFailed, StepCancelled}" by blast
    moreover have "s \<in> set (bdl_steps b')" using that(2,3) by (force simp: steps updateStep_def)
    ultimately show ?thesis by blast
  qed
  ultimately show ?thesis using res run wf' by blast
qed

lemma resume_offers_step_iff_no_other_failure_example:
  "\<exists>b b'. cancelExecutionRunStepForHumanEscalation (demoBundle [demoStep ''a'' 1 StepRunning []] []) ''a'' ''t1'' [] = Inr b
     \<and> resumeExecutionRunAfterHumanEscalation b ''t2'' \<lparr>ri_note = None, ri_guidance = None, ri_override = None\<rparr> = Inr b'
     \<and> dp_nextRunnableStepId (createExecutionRunDispatchPlan b') \<noteq> None"
proof -
  let ?b0 = "demoBundle [demoStep ''a'' 1 StepRunning []] []"
  let ?c = "escalatedStep ''t1'' [] (demoStep ''a'' 1 StepRunning [])"
  obtain b where b: "cancelExecutionRunStepForHumanEscalation ?b0 ''a'' ''t1'' [] = Inr b"
    by (simp add: cancelExecutionRunStepForHumanEscalation_def requireStep_def demo_simps)
  then obtain e where shape: "sameShape ?b0 (updateStep ''a'' (escalatedStep ''t1'' [])) [e] b" by (rule escalate_Inr)
  have "wfBundle ?b0" by (rule demoBundle_wf) (simp_all add: demo_simps)
  then have wf: "wfBundle b" using sameShape_wf shape by blast
  have steps: "bdl_steps b = [?c]" using shape by (simp add: sameShape_def updateStep_def demo_simps)
  have "find isEscalatedStep (bdl_steps b) = Some ?c"
    by (simp add: steps isEscalatedStep_def escalatedStep_def escalationOutput_def isRecord_def)
  moreover have "dependenciesDone b ?c" by (simp add: dependenciesDone_def escalatedStep_def demo_simps)
  moreover have "\<forall>s\<in>set (bdl_steps b). step_status s \<noteq> StepRunning" by (simp add: steps escalatedStep_def)
  ultimately show ?thesis
    using resume_offers_step_iff_no_other_failure [OF wf, of ?c "''t2''" "\<lparr>ri_note = None, ri_guidance = None, ri_override = None\<rparr>"]
      b steps by fastforce
qed

definition recoveredStep :: "string set \<Rightarrow> executionRunStep \<Rightarrow> executionRunStep" where
  "recoveredStep stranded c = (if step_id c \<notin> stranded \<or> step_status c \<noteq> StepRunning then c
     else c\<lparr>step_status := StepRunnable, step_startedAt := None, step_completedAt := None, step_failure := None\<rparr>)"

lemma sameShape_trans:
  assumes "sameShape b f es b1" "sameShape b1 g es' b2" "\<And>c. g (f c) = h c"
  shows "sameShape b h (es @ es') b2"
proof -
  have "h = (\<lambda>c. g (f c))" using assms(3) by (simp add: fun_eq_iff)
  with assms(1,2) show ?thesis by (auto simp: sameShape_def)
qed

lemma recoverSteps_shape:
  "distinct (map fst todo) \<Longrightarrow> \<forall>i\<in>fst ` set todo. \<exists>c\<in>set (bdl_steps b). step_id c = i \<and> step_status c = StepRunning \<Longrightarrow>
   rec_runId rec = run_id (bdl_run b) \<Longrightarrow>
   \<exists>b' es. recoverSteps rec todo b acc = (b', acc @ map fst todo) \<and> sameShape b (recoveredStep (fst ` set todo)) es b'"
proof (induction todo arbitrary: b acc)
  case Nil
  have "sameShape b (recoveredStep {}) [] b" by (simp add: sameShape_def recoveredStep_def [abs_def])
  then show ?case by auto
next
  case (Cons x todo)
  obtain i now where x: "x = (i, now)" by (cases x)
  define e where "e = createExecutionRunEvent (rec_runId rec @ '':event:'' @ i @ '':recovered-no-lease:'' @ now)
              (rec_runId rec) EvNoteAdded now (Some i) None
               (Some ''recovered stranded running step for host replay'')
               (Some [(''stepId'', JStr i), (''fromStatus'', JStr ''running''),
                      (''toStatus'', JStr ''runnable''), (''source'', JStr ''service-host'')])"
  define b1 where "b1 = applyBundleMutation b now e RunRunning StateActive
    (\<lambda>c. if step_id c \<noteq> i \<or> step_status c \<noteq> StepRunning then c
      else c\<lparr>step_status := StepRunnable, step_startedAt := None, step_completedAt := None, step_failure := None\<rparr>) id"
  have steps1: "bdl_steps b1 = map (recoveredStep {i}) (bdl_steps b)"
    by (simp add: b1_def recoveredStep_def [abs_def])
  have "list_ex (\<lambda>c. step_id c = i \<and> step_status c = StepRunning) (bdl_steps b)"
    using Cons.prems(2) x by (auto simp: list_ex_iff)
  then have rec: "recoverSteps rec (x # todo) b acc = recoverSteps rec todo b1 (acc @ [i])"
    by (simp add: x b1_def e_def)
  have "\<forall>j\<in>fst ` set todo. \<exists>c\<in>set (bdl_steps b1). step_id c = j \<and> step_status c = StepRunning"
  proof
    fix j assume j: "j \<in> fst ` set todo"
    with Cons.prems(2) obtain c where c: "c \<in> set (bdl_steps b)" "step_id c = j" "step_status c = StepRunning" by auto
    from j Cons.prems(1) x have "j \<noteq> i" by auto
    with c have "recoveredStep {i} c = c" by (simp add: recoveredStep_def)
    with c show "\<exists>c\<in>set (bdl_steps b1). step_id c = j \<and> step_status c = StepRunning"
      unfolding steps1 by (metis image_eqI set_map)
  qed
  moreover have "rec_runId rec = run_id (bdl_run b1)" using Cons.prems(3) by (simp add: b1_def)
  ultimately obtain b' es where b': "recoverSteps rec todo b1 (acc @ [i]) = (b', acc @ [i] @ map fst todo)"
    "sameShape b1 (recoveredStep (fst ` set todo)) es b'"
    using Cons.IH [of b1 "acc @ [i]"] Cons.prems(1) by auto
  have "recoveredStep (fst ` set todo) (recoveredStep {i} c) = recoveredStep (fst ` set (x # todo)) c" for c
    by (cases "step_id c = i"; cases "step_id c \<in> fst ` set todo"; cases "step_status c = StepRunning")
      (simp_all add: recoveredStep_def x)
  moreover have "sameShape b (recoveredStep {i}) [e] b1"
    using Cons.prems(3) by (simp add: sameShape_def steps1) (simp add: b1_def e_def recoveredStep_def)
  ultimately have "sameShape b (recoveredStep (fst ` set (x # todo))) ([e] @ es) b'"
    using b'(2) sameShape_trans by blast
  with rec b'(1) x show ?case by auto
qed

lemma recover_stranded:
  assumes wf: "wfBundle (rec_bundle rec)" and rid: "rec_runId rec = run_id (bdl_run (rec_bundle rec))"
  shows "(\<forall>s\<in>set (bdl_steps (rec_bundle rec)). step_status s \<noteq> StepRunning)
      \<and> recoverStrandedRunningExecutionRun rec clock = None
    \<or> (\<exists>b'. recoverStrandedRunningExecutionRun rec clock
          = Some (b', dp_runningStepIds (createExecutionRunDispatchPlan (rec_bundle rec)))
        \<and> wfBundle b'
        \<and> bdl_steps b' = map (\<lambda>s. if step_status s = StepRunning
              then s\<lparr>step_status := StepRunnable, step_startedAt := None, step_completedAt := None, step_failure := None\<rparr>
              else s) (bdl_steps (rec_bundle rec)))"
proof -
  let ?b = "rec_bundle rec"
  let ?run = "dp_runningStepIds (createExecutionRunDispatchPlan ?b)"
  have ids: "set ?run = {step_id s |s. s \<in> set (bdl_steps ?b) \<and> step_status s = StepRunning}"
    by (auto simp: plan_running)
  show ?thesis
  proof (cases "?run = []")
    case True
    then have "\<forall>s\<in>set (bdl_steps ?b). step_status s \<noteq> StepRunning"
      using ids by auto
    with True show ?thesis by (simp add: recoverStrandedRunningExecutionRun_def)
  next
    case False
    let ?todo = "zip ?run (map clock [0..<length ?run])"
    have fsts: "map fst ?todo = ?run" by simp
    have "distinct (map step_id (planSteps ?b))" using wf by (simp add: wfBundle_def)
    then have "distinct ?run" unfolding plan_running by (rule distinct_map_filter)
    then have d: "distinct (map fst ?todo)" by (simp only: fsts)
    have setf: "fst ` set ?todo = set ?run" using fsts by (metis set_map)
    have r: "\<forall>i\<in>fst ` set ?todo. \<exists>c\<in>set (bdl_steps ?b). step_id c = i \<and> step_status c = StepRunning"
      unfolding setf ids by auto
    obtain b' es where b': "recoverSteps rec ?todo ?b [] = (b', [] @ map fst ?todo)"
      "sameShape ?b (recoveredStep (fst ` set ?todo)) es b'"
      using recoverSteps_shape [OF d r rid, of "[]"] by blast
    have "recoverStrandedRunningExecutionRun rec clock = Some (b', ?run)"
      using False b'(1) fsts by (simp add: recoverStrandedRunningExecutionRun_def)
    moreover have "wfBundle b'" using sameShape_wf b'(2) wf by blast
    moreover have "bdl_steps b' = map (\<lambda>s. if step_status s = StepRunning
              then s\<lparr>step_status := StepRunnable, step_startedAt := None, step_completedAt := None, step_failure := None\<rparr>
              else s) (bdl_steps ?b)"
      using b'(2) unfolding sameShape_def setf ids by (auto simp: recoveredStep_def)
    ultimately show ?thesis by blast
  qed
qed

text \<open>Recovery is complete: when a record holds steps left running, recovery returns a well-formed
  bundle in which exactly those steps are runnable again, no step is running, all other steps are as
  they were, and it reports them in dispatch order; it declines exactly when no step is running.\<close>

lemma recovery_requeues_stranded_steps:
  assumes wf: "wfBundle (rec_bundle rec)" and rid: "rec_runId rec = run_id (bdl_run (rec_bundle rec))"
  shows "(\<forall>s\<in>set (bdl_steps (rec_bundle rec)). step_status s \<noteq> StepRunning)
      \<and> recoverStrandedRunningExecutionRun rec clock = None
    \<or> (\<exists>b'. recoverStrandedRunningExecutionRun rec clock
          = Some (b', dp_runningStepIds (createExecutionRunDispatchPlan (rec_bundle rec)))
        \<and> wfBundle b'
        \<and> bdl_steps b' = map (\<lambda>s. if step_status s = StepRunning
              then s\<lparr>step_status := StepRunnable, step_startedAt := None, step_completedAt := None, step_failure := None\<rparr>
              else s) (bdl_steps (rec_bundle rec)))"
  using assms by (rule recover_stranded)

lemma recovery_requeues_stranded_steps_example:
  "\<exists>b'. recoverStrandedRunningExecutionRun
      \<lparr>rec_runId = ''r'', rec_revision = 1, rec_persistedAt = ''t0'',
       rec_bundle = demoBundle [demoStep ''a'' 1 StepRunning []] []\<rparr> (\<lambda>_. ''t1'') = Some (b', [''a''])
    \<and> wfBundle b'"
proof -
  let ?r = "\<lparr>rec_runId = ''r'', rec_revision = 1, rec_persistedAt = ''t0'',
       rec_bundle = demoBundle [demoStep ''a'' 1 StepRunning []] []\<rparr>"
  have "wfBundle (rec_bundle ?r)" by (simp, rule demoBundle_wf) (simp_all add: demo_simps)
  moreover have "rec_runId ?r = run_id (bdl_run (rec_bundle ?r))" by simp
  ultimately show ?thesis
    using recovery_requeues_stranded_steps [of ?r "\<lambda>_. ''t1''"] by (auto simp: plan_running demo_simps)
qed

end
