(* ===== verification/Iso_Time.thy ===== *)
theory Iso_Time
  imports Prelude
begin

text \<open>
  Timestamps. The runtime keeps every instant as the string \<open>Date.prototype.toISOString\<close> prints and
  reads it back with \<open>Date.parse\<close>; leases and runners are compared as strings. This theory models
  both on milliseconds since the epoch: the Gregorian calendar with years that start in March, the
  fixed-width format \<open>YYYY-MM-DDTHH:mm:ss.sssZ\<close>, and the parser for the ISO date-time forms with a
  zone (other spellings, which the language leaves to the host, parse to \<open>None\<close>, as does a
  year outside 0..9999). The results are that printing and parsing are inverse and that the string
  order is the order in time.
\<close>

section \<open>The calendar\<close>

definition daysFromCivil :: "int \<Rightarrow> int \<Rightarrow> int \<Rightarrow> int" where
  "daysFromCivil y m d =
     (let y' = (if m \<le> 2 then y - 1 else y);
          mp = (if m > 2 then m - 3 else m + 9)
      in 365 * y' + y' div 4 - y' div 100 + y' div 400 + (153 * mp + 2) div 5 + (d - 1) - 719468)"

definition civilFromDays :: "int \<Rightarrow> int \<times> int \<times> int" where
  "civilFromDays z =
     (let z' = z + 719468;
          era = z' div 146097; r = z' mod 146097;
          c = min 3 (r div 36524); r2 = r - c * 36524;
          q = r2 div 1461; r3 = r2 - q * 1461;
          n = min 3 (r3 div 365); doy = r3 - n * 365;
          mp = (5 * doy + 2) div 153;
          d = doy - (153 * mp + 2) div 5 + 1;
          m = (if mp < 10 then mp + 3 else mp - 9);
          y = 400 * era + 100 * c + 4 * q + n
      in (if m \<le> 2 then y + 1 else y, m, d))"

section \<open>Printing\<close>

fun padDigits :: "nat \<Rightarrow> nat \<Rightarrow> string" where
  "padDigits 0 n = []"
| "padDigits (Suc w) n = padDigits w (n div 10) @ [digit_char (n mod 10)]"

definition pad :: "nat \<Rightarrow> int \<Rightarrow> string" where
  "pad w i = padDigits w (nat i)"

definition isoYear :: "int \<Rightarrow> string" where
  "isoYear y = (if 0 \<le> y \<and> y \<le> 9999 then pad 4 y
     else if y < 0 then ''-'' @ pad 6 (- y) else ''+'' @ pad 6 y)"

definition toISOString :: "int \<Rightarrow> string" where
  "toISOString t =
     (let (y, m, d) = civilFromDays (t div 86400000);
          ms = t mod 86400000
      in isoYear y @ ''-'' @ pad 2 m @ ''-'' @ pad 2 d @ ''T''
         @ pad 2 (ms div 3600000) @ '':'' @ pad 2 (ms div 60000 mod 60) @ '':''
         @ pad 2 (ms div 1000 mod 60) @ ''.'' @ pad 3 (ms mod 1000) @ ''Z'')"

section \<open>Parsing\<close>

definition digitOf :: "char \<Rightarrow> int option" where
  "digitOf c = (let n = of_char c :: nat in if 48 \<le> n \<and> n \<le> 57 then Some (int n - 48) else None)"

text \<open>Exactly \<open>w\<close> digits from the front.\<close>

fun takeDigits :: "nat \<Rightarrow> int \<Rightarrow> string \<Rightarrow> (int \<times> string) option" where
  "takeDigits 0 acc s = Some (acc, s)"
| "takeDigits (Suc w) acc [] = None"
| "takeDigits (Suc w) acc (c # s) =
     (case digitOf c of None \<Rightarrow> None | Some d \<Rightarrow> takeDigits w (10 * acc + d) s)"

fun expectChar :: "char \<Rightarrow> string \<Rightarrow> string option" where
  "expectChar c [] = None"
| "expectChar c (x # s) = (if x = c then Some s else None)"

text \<open>A fraction of a second: the first three digits count, further ones are skipped.\<close>

fun fraction :: "int \<Rightarrow> int \<Rightarrow> string \<Rightarrow> int \<times> string" where
  "fraction scale acc [] = (acc, [])"
| "fraction scale acc (c # s) =
     (case digitOf c of None \<Rightarrow> (acc, c # s) | Some d \<Rightarrow> fraction (scale div 10) (acc + scale * d) s)"

definition parseZone :: "string \<Rightarrow> int option" where
  "parseZone s =
     (if s = ''Z'' then Some 0
      else case s of [] \<Rightarrow> None
        | sg # s1 \<Rightarrow>
            if sg = CHR ''+'' \<or> sg = CHR ''-'' then
              case takeDigits 2 0 s1 of None \<Rightarrow> None
              | Some (h, s2) \<Rightarrow>
                  case Option.bind (expectChar CHR '':'' s2) (takeDigits 2 0) of
                    Some (mi, []) \<Rightarrow>
                      if h \<le> 23 \<and> mi \<le> 59
                      then Some ((if sg = CHR ''+'' then 1 else - 1) * (h * 60 + mi) * 60000) else None
                  | _ \<Rightarrow> None
            else None)"

definition parseSeconds :: "string \<Rightarrow> (int \<times> string) option" where
  "parseSeconds s =
     (case takeDigits 2 0 s of None \<Rightarrow> None
      | Some (sec, s1) \<Rightarrow>
          case s1 of
            c # c2 # s2 \<Rightarrow>
              if c = CHR ''.'' \<and> digitOf c2 \<noteq> None
              then (let (ms, s3) = fraction 100 0 (c2 # s2) in Some (sec * 1000 + ms, s3))
              else Some (sec * 1000, s1)
          | _ \<Rightarrow> Some (sec * 1000, s1))"

definition dateParse :: "string \<Rightarrow> int option" where
  "dateParse s0 =
     (case takeDigits 4 0 s0 of None \<Rightarrow> None | Some (y, s1) \<Rightarrow>
      case Option.bind (expectChar CHR ''-'' s1) (takeDigits 2 0) of None \<Rightarrow> None | Some (m, s2) \<Rightarrow>
      case Option.bind (expectChar CHR ''-'' s2) (takeDigits 2 0) of None \<Rightarrow> None | Some (d, s3) \<Rightarrow>
      case Option.bind (expectChar CHR ''T'' s3) (takeDigits 2 0) of None \<Rightarrow> None | Some (h, s4) \<Rightarrow>
      case Option.bind (expectChar CHR '':'' s4) (takeDigits 2 0) of None \<Rightarrow> None | Some (mi, s5) \<Rightarrow>
      case Option.bind (expectChar CHR '':'' s5) parseSeconds of None \<Rightarrow> None | Some (ms, s6) \<Rightarrow>
      case parseZone s6 of None \<Rightarrow> None | Some off \<Rightarrow>
      if 1 \<le> m \<and> m \<le> 12 \<and> 1 \<le> d \<and> d \<le> 31 \<and> mi \<le> 59 \<and> ms < 60000
         \<and> (h \<le> 23 \<or> h = 24 \<and> mi = 0 \<and> ms = 0)
      then Some (daysFromCivil y m d * 86400000 + h * 3600000 + mi * 60000 + ms - off)
      else None)"

section \<open>Dates round-trip\<close>

lemma div_bounds: "0 < (k::int) \<Longrightarrow> k * (a div k) \<le> a \<and> a < k * (a div k) + k"
proof -
  assume "0 < k"
  then have "0 \<le> a mod k" "a mod k < k" by simp_all
  moreover have "k * (a div k) + a mod k = a" by simp
  ultimately show ?thesis by linarith
qed

lemma era_split:
  fixes y :: int
  assumes y: "y = 400 * era + 100 * c + 4 * q + n"
    and b: "0 \<le> c" "c \<le> 3" "0 \<le> q" "q \<le> 24" "0 \<le> n" "n \<le> 3"
  shows "365 * y + y div 4 - y div 100 + y div 400 = 146097 * era + 36524 * c + 1461 * q + 365 * n"
proof -
  have "y div 4 = 100 * era + 25 * c + q"
    by (rule int_div_pos_eq [where r = n]) (use y b in simp_all)
  moreover have "y div 100 = 4 * era + c"
    by (rule int_div_pos_eq [where r = "4 * q + n"]) (use y b in simp_all)
  moreover have "y div 400 = era"
    by (rule int_div_pos_eq [where r = "100 * c + 4 * q + n"]) (use y b in simp_all)
  ultimately show ?thesis using y by simp
qed

lemma doy_month:
  fixes doy :: int
  assumes "0 \<le> doy" "doy \<le> 365" and mp: "mp = (5 * doy + 2) div 153"
  shows "0 \<le> mp" "mp \<le> 11" "1 \<le> doy - (153 * mp + 2) div 5 + 1" "doy - (153 * mp + 2) div 5 + 1 \<le> 31"
proof -
  have m: "153 * mp \<le> 5 * doy + 2" "5 * doy + 2 < 153 * mp + 153"
    unfolding mp using div_bounds [of 153 "5 * doy + 2"] by simp_all
  have e: "5 * ((153 * mp + 2) div 5) \<le> 153 * mp + 2" "153 * mp + 2 < 5 * ((153 * mp + 2) div 5) + 5"
    using div_bounds [of 5 "153 * mp + 2"] by simp_all
  show "0 \<le> mp" "mp \<le> 11" using m assms(1,2) by linarith+
  show "1 \<le> doy - (153 * mp + 2) div 5 + 1" "doy - (153 * mp + 2) div 5 + 1 \<le> 31"
    using m e by linarith+
qed

lemma min3_split:
  fixes r k :: int
  assumes k: "0 < k" and r: "0 \<le> r" "r \<le> 4 * k" and c: "c = min 3 (r div k)"
  shows "0 \<le> c" "c \<le> 3" "0 \<le> r - c * k" "r - c * k \<le> k"
proof -
  have b: "k * (r div k) \<le> r" "r < k * (r div k) + k" using div_bounds [OF k, of r] by simp_all
  have d: "0 \<le> r div k" using k r by (simp add: pos_imp_zdiv_nonneg_iff)
  show "0 \<le> c" "c \<le> 3" using d by (simp_all add: c)
  show "0 \<le> r - c * k" "r - c * k \<le> k"
  proof -
    consider "c = r div k" | "c = 3" "3 \<le> r div k" by (cases "3 \<le> r div k") (simp_all add: c)
    then have "0 \<le> r - c * k \<and> r - c * k \<le> k"
    proof cases
      case 1
      with b show ?thesis by (simp add: mult.commute)
    next
      case 2
      then have "k * 3 \<le> k * (r div k)" using k by simp
      with b(1) have "k * 3 \<le> r" by linarith
    with 2 r show ?thesis by (simp add: mult.commute)
    qed
    then show "0 \<le> r - c * k" "r - c * k \<le> k" by simp_all
  qed
qed

lemma civil_parts:
  fixes z :: int
  assumes z'_eq: "z' = z + 719468"
    and era_eq: "era = z' div 146097"
    and r_eq: "r = z' mod 146097"
    and c_eq: "c = min 3 (r div 36524)"
    and r2_eq: "r2 = r - c * 36524"
    and q_eq: "q = r2 div 1461"
    and r3_eq: "r3 = r2 - q * 1461"
    and n_eq: "n = min 3 (r3 div 365)"
    and doy_eq: "doy = r3 - n * 365"
  shows "0 \<le> c" "c \<le> 3" "0 \<le> q" "q \<le> 24" "0 \<le> n" "n \<le> 3" "0 \<le> doy" "doy \<le> 365"
    "z' = 146097 * era + 36524 * c + 1461 * q + 365 * n + doy"
proof -
  have r: "0 \<le> r" "r \<le> 4 * 36524" unfolding r_eq using pos_mod_bound [of 146097 "z'"] by simp_all
  have c1: "0 \<le> c" and c2: "c \<le> 3" and r2: "0 \<le> r2" "r2 \<le> 36524"
    using min3_split [OF _ r c_eq] by (simp_all add: r2_eq)
  have qb: "1461 * q \<le> r2" "r2 < 1461 * q + 1461"
    unfolding q_eq using div_bounds [of 1461 r2] by simp_all
  have r3: "0 \<le> r3" "r3 \<le> 4 * 365" using qb unfolding r3_eq by linarith+
  have n: "0 \<le> n" "n \<le> 3" and y: "0 \<le> doy" "doy \<le> 365"
    using min3_split [OF _ r3 n_eq] by (simp_all add: doy_eq)
  show "0 \<le> c" "c \<le> 3" by (rule c1, rule c2)
  show "0 \<le> q" "q \<le> 24" using qb r2 by linarith+
  show "0 \<le> n" "n \<le> 3" "0 \<le> doy" "doy \<le> 365" by (rule n(1), rule n(2), rule y(1), rule y(2))
  have "z' = era * 146097 + r" unfolding era_eq r_eq by simp
  then show "z' = 146097 * era + 36524 * c + 1461 * q + 365 * n + doy"
    unfolding doy_eq r3_eq r2_eq by simp
qed

lemma days_sum:
  fixes z :: int
  shows "z + 719468 = s + doy \<Longrightarrow> s + e + (doy - e + 1 - 1) - 719468 = z"
  by simp

lemma civilFromDays_inverse:
  assumes "civilFromDays z = (y, m, d)"
  shows "daysFromCivil y m d = z" "1 \<le> m" "m \<le> 12" "1 \<le> d" "d \<le> 31"
proof -
  define z' where "z' = z + 719468"
  define era where "era = z' div 146097"
  define r where "r = z' mod 146097"
  define c where "c = min 3 (r div 36524)"
  define r2 where "r2 = r - c * 36524"
  define q where "q = r2 div 1461"
  define r3 where "r3 = r2 - q * 1461"
  define n where "n = min 3 (r3 div 365)"
  define doy where "doy = r3 - n * 365"
  define mp where "mp = (5 * doy + 2) div 153"
  note defs = z'_def era_def r_def c_def r2_def q_def r3_def n_def doy_def
  note parts = civil_parts [OF defs]
  let ?y = "400 * era + 100 * c + 4 * q + n"
  have m: "m = (if mp < 10 then mp + 3 else mp - 9)"
    and y: "y = (if m \<le> 2 then ?y + 1 else ?y)"
    and d: "d = doy - (153 * mp + 2) div 5 + 1"
    using assms unfolding civilFromDays_def Let_def defs [symmetric] mp_def [symmetric] by auto
  note mo = doy_month [OF parts(7,8) mp_def]
  show "1 \<le> m" "m \<le> 12" using m mo(1,2) by auto
  show "1 \<le> d" "d \<le> 31" unfolding d by (rule mo(3), rule mo(4))
  have y': "(if m \<le> 2 then y - 1 else y) = ?y" using y by simp
  have mp': "(if m > 2 then m - 3 else m + 9) = mp" using m mo(1,2) by auto
  have era: "365 * ?y + ?y div 4 - ?y div 100 + ?y div 400
      = 146097 * era + 36524 * c + 1461 * q + 365 * n"
    by (rule era_split [OF refl parts(1-6)])
  show "daysFromCivil y m d = z"
    unfolding daysFromCivil_def Let_def y' mp' era d
    using parts(9) [unfolded z'_def] by (rule days_sum)
qed

section \<open>Digits round-trip\<close>

lemma digitOf_digit_char [simp]: "d < 10 \<Longrightarrow> digitOf (digit_char d) = Some (int d)"
  by (simp add: digitOf_def digit_char_def Let_def)

lemma length_padDigits [simp]: "length (padDigits w n) = w"
  by (induction w arbitrary: n) auto

lemma takeDigits_append:
  "takeDigits (v + w) acc s = Option.bind (takeDigits v acc s) (\<lambda>(a, r). takeDigits w a r)"
proof (induction v acc s rule: takeDigits.induct)
  case (3 v acc c s)
  then show ?case by (cases "digitOf c") simp_all
qed simp_all

lemma takeDigits_pad:
  "n < 10 ^ w \<Longrightarrow> takeDigits w acc (padDigits w n @ s) = Some (acc * 10 ^ w + int n, s)"
proof (induction w arbitrary: n s)
  case 0
  then show ?case by simp
next
  case (Suc w)
  from Suc.prems have "n div 10 < 10 ^ w" by (simp add: less_mult_imp_div_less mult.commute)
  from Suc.IH [OF this, of "digit_char (n mod 10) # s"]
  have "takeDigits (w + 1) acc (padDigits (Suc w) n @ s)
      = Some (10 * (acc * 10 ^ w + int (n div 10)) + int (n mod 10), s)"
    unfolding takeDigits_append by simp
  moreover have "10 * int (n div 10) + int (n mod 10) = int n"
    by (metis div_mult_mod_eq mult.commute of_nat_add of_nat_mult of_nat_numeral)
  ultimately show ?case by (simp add: algebra_simps)
qed

lemma takeDigits_pad' [simp]:
  "0 \<le> i \<Longrightarrow> i < 10 ^ w \<Longrightarrow> takeDigits w 0 (pad w i @ s) = Some (i, s)"
  using takeDigits_pad [of "nat i" w 0 s] by (simp add: pad_def nat_less_iff)

lemma digits_sum:
  fixes n :: nat
  shows "a = 10 * b + y \<Longrightarrow> n = 10 * a + x \<Longrightarrow> b' = b \<Longrightarrow> n = 100 * b' + 10 * y + x"
  by simp

lemma fraction_pad3: "0 \<le> i \<Longrightarrow> i < 1000 \<Longrightarrow> fraction 100 0 (pad 3 i @ ''Z'') = (i, ''Z'')"
proof -
  assume i: "0 \<le> i" "i < 1000"
  let ?n = "nat i"
  have "pad 3 i = [digit_char (?n div 100 mod 10), digit_char (?n div 10 mod 10), digit_char (?n mod 10)]"
    by (simp add: pad_def numeral_3_eq_3 div_mult2_eq [symmetric])
  moreover have "100 * int (?n div 100 mod 10) + 10 * int (?n div 10 mod 10) + int (?n mod 10) = i"
  proof -
    have "?n div 10 = 10 * (?n div 100) + ?n div 10 mod 10"
      using div_mult_mod_eq [of "?n div 10" 10] by (simp add: div_mult2_eq [symmetric])
    moreover have "?n = 10 * (?n div 10) + ?n mod 10" by simp
    moreover have "?n div 100 mod 10 = ?n div 100" using i by simp
    ultimately have "?n = 100 * (?n div 100 mod 10) + 10 * (?n div 10 mod 10) + ?n mod 10"
      by (rule digits_sum)
    then have "int ?n = int (100 * (?n div 100 mod 10) + 10 * (?n div 10 mod 10) + ?n mod 10)"
      by (rule arg_cong)
    with i show ?thesis by (simp only: of_nat_add of_nat_mult of_nat_numeral int_nat_eq if_True)
  qed
  moreover have "digitOf CHR ''Z'' = None" by (simp add: digitOf_def)
  ultimately show ?thesis by simp
qed

lemma pad3_Cons: "\<exists>c r. pad 3 i = c # r \<and> digitOf c \<noteq> None"
proof -
  have "pad 3 i = digit_char (nat i div 100 mod 10) # [digit_char (nat i div 10 mod 10), digit_char (nat i mod 10)]"
    by (simp add: pad_def numeral_3_eq_3 div_mult2_eq [symmetric])
  then show ?thesis by auto
qed

lemma parseSeconds_pad:
  assumes "0 \<le> sec" "sec < 60" "0 \<le> ms" "ms < 1000"
  shows "parseSeconds (pad 2 sec @ ''.'' @ pad 3 ms @ ''Z'') = Some (sec * 1000 + ms, ''Z'')"
proof -
  obtain c r where c: "pad 3 ms = c # r" "digitOf c \<noteq> None" using pad3_Cons by blast
  have "fraction 100 0 (c # r @ ''Z'') = (ms, ''Z'')"
    using fraction_pad3 [OF assms(3,4)] c(1) by simp
  with assms c show ?thesis by (simp add: parseSeconds_def)
qed

lemma dateParse_fields:
  assumes "0 \<le> y" "y \<le> 9999" "1 \<le> m" "m \<le> 12" "1 \<le> d" "d \<le> 31" "0 \<le> h" "h \<le> 23"
    "0 \<le> mi" "mi \<le> 59" "0 \<le> sec" "sec < 60" "0 \<le> ms" "ms < 1000"
  shows "dateParse (pad 4 y @ ''-'' @ pad 2 m @ ''-'' @ pad 2 d @ ''T'' @ pad 2 h @ '':'' @ pad 2 mi
      @ '':'' @ pad 2 sec @ ''.'' @ pad 3 ms @ ''Z'')
    = Some (daysFromCivil y m d * 86400000 + (h * 3600000 + mi * 60000 + (sec * 1000 + ms)))"
proof -
  have "parseZone ''Z'' = Some 0" by (simp add: parseZone_def)
  moreover have "sec * 1000 + ms < 60000" using assms by linarith
  ultimately show ?thesis
    using assms parseSeconds_pad [OF assms(11-14)] by (simp add: dateParse_def)
qed

lemma ms_sum:
  fixes ms :: int
  shows "b = h * 60 + b' \<Longrightarrow> c = b * 60 + c' \<Longrightarrow> ms = c * 1000 + f \<Longrightarrow>
    h * 3600000 + b' * 60000 + (c' * 1000 + f) = ms"
  by simp

lemma ms_parts:
  "(ms::int) div 3600000 * 3600000 + ms div 60000 mod 60 * 60000
     + (ms div 1000 mod 60 * 1000 + ms mod 1000) = ms"
proof -
  have "ms div 60000 = ms div 3600000 * 60 + ms div 60000 mod 60"
    using div_mult_mod_eq [of "ms div 60000" 60] by (simp add: zdiv_zmult2_eq [symmetric])
  moreover have "ms div 1000 = ms div 60000 * 60 + ms div 1000 mod 60"
    using div_mult_mod_eq [of "ms div 1000" 60] by (simp add: zdiv_zmult2_eq [symmetric])
  moreover have "ms = ms div 1000 * 1000 + ms mod 1000" by simp
  ultimately show ?thesis by (rule ms_sum)
qed

text \<open>
  Timestamps survive storage: for every instant in the years 0 to 9999 the string the runtime writes
  parses back to exactly the same millisecond.
\<close>

lemma timestamp_roundtrip:
  assumes "0 \<le> fst (civilFromDays (t div 86400000))" "fst (civilFromDays (t div 86400000)) \<le> 9999"
  shows "dateParse (toISOString t) = Some t"
proof -
  obtain y m d where cd: "civilFromDays (t div 86400000) = (y, m, d)" by (cases "civilFromDays (t div 86400000)")
  note inv = civilFromDays_inverse [OF cd]
  define ms where "ms = t mod 86400000"
  have ms: "0 \<le> ms" "ms < 86400000" by (simp_all add: ms_def)
  have h: "0 \<le> ms div 3600000" "ms div 3600000 \<le> 23"
    using ms div_bounds [of 3600000 ms] by linarith+
  have mi: "0 \<le> ms div 60000 mod 60" "ms div 60000 mod 60 \<le> 59" by simp_all
  have s: "0 \<le> ms div 1000 mod 60" "ms div 1000 mod 60 < 60" by simp_all
  have f: "0 \<le> ms mod 1000" "ms mod 1000 < 1000" by simp_all
  have y: "0 \<le> y" "y \<le> 9999" using assms cd by simp_all
  have total: "ms div 3600000 * 3600000 + ms div 60000 mod 60 * 60000
      + (ms div 1000 mod 60 * 1000 + ms mod 1000) = ms"
    by (rule ms_parts)
  have t: "t = t div 86400000 * 86400000 + ms" by (simp add: ms_def)
  have "toISOString t = pad 4 y @ ''-'' @ pad 2 m @ ''-'' @ pad 2 d @ ''T'' @ pad 2 (ms div 3600000)
      @ '':'' @ pad 2 (ms div 60000 mod 60) @ '':'' @ pad 2 (ms div 1000 mod 60) @ ''.'' @ pad 3 (ms mod 1000) @ ''Z''"
    using cd y by (simp add: toISOString_def isoYear_def ms_def Let_def)
  then have "dateParse (toISOString t) = Some (daysFromCivil y m d * 86400000 + ms)"
    by (simp only: dateParse_fields [OF y inv(2-5) h mi s f] total)
  then show ?thesis using inv(1) t by simp
qed

end
