(* ===== verification/Step_Limits.thy ===== *)
theory Step_Limits
  imports Runner_Steps Iso_Time
begin

text \<open>
  The limits a task puts on its steps and the outputs it requires (\<open>src/runtime/runner.ts\<close>): turn,
  runtime and provider budgets read from the step's structured data, the usage accounted so far, and
  the check that a completed step produced what the task asked for. Each limit is absent unless it
  is a positive number of the right kind. \<open>JSON.parse\<close> is the argument \<open>parseJson\<close>.
\<close>

section \<open>Limits\<close>

definition dataOf :: "executionRunStep \<Rightarrow> jobj" where
  "dataOf s = in_structuredData (step_input s)"

definition positiveInteger :: "json option \<Rightarrow> int option" where
  "positiveInteger v = (case asNumber v of
     Some (Fin q) \<Rightarrow> if isIntegral q \<and> q > 0 then Some \<lfloor>q\<rfloor> else None
   | _ \<Rightarrow> None)"

definition resolveStepTurnPolicyMaxTurns :: "executionRunStep \<Rightarrow> int option" where
  "resolveStepTurnPolicyMaxTurns s =
     positiveInteger (optProp (asRecord (jprop (dataOf s) ''turnPolicy'')) ''maxTurns'')"

definition resolveStepMaxRuntimeMinutes :: "executionRunStep \<Rightarrow> rat option" where
  "resolveStepMaxRuntimeMinutes s =
     (case asNumber (optProp (asRecord (jprop (dataOf s) ''constraints'')) ''maxRuntimeMinutes'') of
        Some (Fin q) \<Rightarrow> if q > 0 then Some q else None
      | _ \<Rightarrow> None)"

definition providerBudget :: "executionRunStep \<Rightarrow> jobj option" where
  "providerBudget s = asRecord (optProp (asRecord (jprop (dataOf s) ''constraints'')) ''providerBudget'')"

definition resolveStepProviderBudgetMaxRequests :: "executionRunStep \<Rightarrow> int option" where
  "resolveStepProviderBudgetMaxRequests s = positiveInteger (optProp (providerBudget s) ''maxRequests'')"

definition resolveStepProviderBudgetMaxTokens :: "executionRunStep \<Rightarrow> int option" where
  "resolveStepProviderBudgetMaxTokens s = positiveInteger (optProp (providerBudget s) ''maxTokens'')"

definition readNonNegativeRunnerInt :: "json option \<Rightarrow> int" where
  "readNonNegativeRunnerInt v = (case asNumber v of Some (Fin q) \<Rightarrow> max 0 (jsTrunc q) | _ \<Rightarrow> 0)"

definition usageOf :: "structuredOutput \<Rightarrow> int" where
  "usageOf e = readNonNegativeRunnerInt (optProp (asRecord (Some (so_value e))) ''totalTokens'')"

definition readStoredProviderUsageTotalTokens :: "runBundle \<Rightarrow> int" where
  "readStoredProviderUsageTotalTokens b = foldl (\<lambda>sum e. sum + usageOf e) 0
     (filter (\<lambda>e. startsWith (so_key e) ''step.providerUsage.'') (ss_structuredOutputs (bdl_sharedState b)))"

definition calculateElapsedRuntimeMinutes :: "string \<Rightarrow> string \<Rightarrow> int option" where
  "calculateElapsedRuntimeMinutes startedAt now =
     (case (dateParse startedAt, dateParse now) of
        (Some st, Some n) \<Rightarrow> if n < st then None else Some ((n - st) div 60000)
      | _ \<Rightarrow> None)"

text \<open>\<open>addMillisecondsToIsoTimestamp\<close>, which computes the expiry of a lease.\<close>

definition addMillisecondsToIsoTimestamp :: "string \<Rightarrow> int \<Rightarrow> string" where
  "addMillisecondsToIsoTimestamp timestamp milliseconds =
     (case dateParse timestamp of None \<Rightarrow> timestamp | Some t \<Rightarrow> toISOString (t + milliseconds))"

definition yearOfMs :: "int \<Rightarrow> int" where
  "yearOfMs t = fst (civilFromDays (t div 86400000))"

text \<open>Lease arithmetic is exact: from any timestamp that denotes an instant, adding a number of
  milliseconds gives a timestamp that denotes exactly that much later, within the years the
  four-digit format covers.\<close>

lemma lease_expiry_is_ttl_later:
  assumes "dateParse timestamp = Some t" "0 \<le> yearOfMs (t + ms)" "yearOfMs (t + ms) \<le> 9999"
  shows "dateParse (addMillisecondsToIsoTimestamp timestamp ms) = Some (t + ms)"
  using assms timestamp_roundtrip [of "t + ms"] by (simp add: addMillisecondsToIsoTimestamp_def yearOfMs_def)

lemma lease_expiry_is_ttl_later_example:
  "dateParse (addMillisecondsToIsoTimestamp ''2026-04-08T12:00:00.000Z'' 15000) = Some 1775649615000"
proof -
  have p: "dateParse ''2026-04-08T12:00:00.000Z'' = Some 1775649600000" by code_simp
  have "civilFromDays ((1775649600000 + 15000) div 86400000) = (2026, 4, 8)" by code_simp
  then have "yearOfMs (1775649600000 + 15000) = 2026" by (simp only: yearOfMs_def fst_conv)
  with lease_expiry_is_ttl_later [OF p, of 15000] show ?thesis by simp
qed

section \<open>Required outputs\<close>

text \<open>The first block fenced by three backquotes after \<open>opening\<close> (which ignores case when asked to).\<close>

fun afterFirst :: "bool \<Rightarrow> string \<Rightarrow> string \<Rightarrow> string option" where
  "afterFirst ci needle [] = (if needle = [] then Some [] else None)"
| "afterFirst ci needle (c # s) =
     (if startsWith (if ci then toLowerCase (c # s) else c # s) needle
      then Some (drop (length needle) (c # s)) else afterFirst ci needle s)"

fun beforeFirst :: "string \<Rightarrow> string \<Rightarrow> string option" where
  "beforeFirst needle [] = (if needle = [] then Some [] else None)"
| "beforeFirst needle (c # s) =
     (if startsWith (c # s) needle then Some [] else map_option ((#) c) (beforeFirst needle s))"

definition fenced :: "bool \<Rightarrow> string \<Rightarrow> string \<Rightarrow> string option" where
  "fenced ci opening text =
     (case afterFirst ci opening text of
        None \<Rightarrow> None
      | Some rest \<Rightarrow> map_option trim (beforeFirst ''```'' rest))"

definition isObjectText :: "(string \<Rightarrow> json option) \<Rightarrow> string \<Rightarrow> bool" where
  "isObjectText parseJson text = isRecord (parseJson text)"

definition isParseableJsonObjectText :: "(string \<Rightarrow> json option) \<Rightarrow> string \<Rightarrow> bool" where
  "isParseableJsonObjectText parseJson text =
     (let trimmed = trim text in
      if trimmed = [] then False
      else
        let block = (case fenced True ''```json'' trimmed of Some t \<Rightarrow> Some t | None \<Rightarrow> fenced False ''```'' trimmed);
            candidates = trimmed # (case block of None \<Rightarrow> [] | Some t \<Rightarrow> if t = [] then [] else [t])
        in list_ex (isObjectText parseJson) candidates)"

definition isInternalStepStructuredDataKey :: "string \<Rightarrow> bool" where
  "isInternalStepStructuredDataKey k = (k = ''browserRun'' \<or> k = ''localActionRequests'' \<or> k = ''routing'')"

definition hasNonInternalStepStructuredData :: "jobj \<Rightarrow> bool" where
  "hasNonInternalStepStructuredData d = list_ex (\<lambda>k. \<not> isInternalStepStructuredDataKey k) (map fst d)"

definition isInternalStructuredOutputKey :: "string \<Rightarrow> bool" where
  "isInternalStructuredOutputKey k =
     (k = ''response.output'' \<or> startsWith k ''step.localActionOutcomes.''
      \<or> startsWith k ''step.consumedTaskTransfers.'' \<or> startsWith k ''human.resume.'')"

record outputEvidence =
  oe_message :: bool
  oe_json :: bool
  oe_artifact :: bool
  oe_structured :: bool

definition isRequiredRequestedOutputMissing :: "outputEvidence \<Rightarrow> json \<Rightarrow> bool" where
  "isRequiredRequestedOutputMissing ev requested =
     (let c = orElse (asRecord (Some requested)) [];
          kind = asString (jprop c ''kind'');
          format = asString (jprop c ''format'');
          destination = asString (jprop c ''destination'')
      in if jprop c ''required'' \<noteq> Some (JBool True) then False
         else if kind = Some ''artifact-bundle'' \<or> destination = Some ''artifact-store'' \<or> format = Some ''bundle''
         then \<not> oe_artifact ev
         else if kind = Some ''structured-report'' \<or> format = Some ''json''
         then \<not> oe_structured ev \<and> \<not> oe_json ev
         else \<not> oe_message ev \<and> \<not> oe_artifact ev \<and> \<not> oe_structured ev)"

definition requestedOutputLabel :: "json \<Rightarrow> string" where
  "requestedOutputLabel requested =
     (let c = orElse (asRecord (Some requested)) [] in
      case asString (jprop c ''label'') of Some l \<Rightarrow> l
      | None \<Rightarrow> (case asString (jprop c ''kind'') of Some k \<Rightarrow> k | None \<Rightarrow> ''unnamed-output''))"

definition outputEvidenceOf ::
  "(string \<Rightarrow> json option) \<Rightarrow> stepOutput \<Rightarrow> artifactRef list \<Rightarrow> structuredOutput list \<Rightarrow> outputEvidence" where
  "outputEvidenceOf parseJson out arts outs =
     \<lparr>oe_message = (case out_summary out of None \<Rightarrow> False | Some s \<Rightarrow> trim s \<noteq> []),
      oe_json = (case out_summary out of None \<Rightarrow> False | Some s \<Rightarrow> isParseableJsonObjectText parseJson s),
      oe_artifact = (out_artifacts out \<noteq> [] \<or> arts \<noteq> []),
      oe_structured = (hasNonInternalStepStructuredData (out_structuredData out)
        \<or> list_ex (\<lambda>e. \<not> isInternalStructuredOutputKey (so_key e)) outs)\<rparr>"

text \<open>The labels that are missing; the status is \<open>satisfied\<close> when there are none.\<close>

definition evaluateRequiredRequestedOutputsForStoredRuntime ::
  "(string \<Rightarrow> json option) \<Rightarrow> executionRunStep \<Rightarrow> stepOutput \<Rightarrow> artifactRef list \<Rightarrow> structuredOutput list \<Rightarrow>
   string list" where
  "evaluateRequiredRequestedOutputsForStoredRuntime parseJson s out arts outs =
     (let requested = orElse (asArray (jprop (dataOf s) ''requestedOutputs'')) []
      in if requested = [] then []
         else map requestedOutputLabel
           (filter (isRequiredRequestedOutputMissing (outputEvidenceOf parseJson out arts outs)) requested))"

definition missingOutputsMessage :: "string list \<Rightarrow> string" where
  "missingOutputsMessage labels = ''missing required requested outputs: '' @ joinWith '', '' labels"

text \<open>More evidence never makes an output missing.\<close>

definition lessEvidence :: "outputEvidence \<Rightarrow> outputEvidence \<Rightarrow> bool" where
  "lessEvidence e e' = ((oe_message e \<longrightarrow> oe_message e') \<and> (oe_json e \<longrightarrow> oe_json e') \<and>
     (oe_artifact e \<longrightarrow> oe_artifact e') \<and> (oe_structured e \<longrightarrow> oe_structured e'))"

lemma missing_antimono:
  "lessEvidence e e' \<Longrightarrow> isRequiredRequestedOutputMissing e' r \<Longrightarrow> isRequiredRequestedOutputMissing e r"
  by (auto simp: lessEvidence_def isRequiredRequestedOutputMissing_def Let_def split: if_splits)

lemma evidence_of_shared_state:
  "lessEvidence (outputEvidenceOf p out arts outs) (outputEvidenceOf p out (arts @ arts') (outs @ outs'))"
  by (auto simp: lessEvidence_def outputEvidenceOf_def list_ex_iff split: option.split)

text \<open>Enforcement is monotone and only about required outputs: a step that passed the check still
  passes when the shared state has gained artifacts or structured outputs, and a request that is
  not marked as required is never reported missing.\<close>

lemma required_outputs_monotone:
  assumes "evaluateRequiredRequestedOutputsForStoredRuntime p s out arts outs = []"
  shows "evaluateRequiredRequestedOutputsForStoredRuntime p s out (arts @ arts') (outs @ outs') = []
    \<and> (\<forall>l\<in>set (evaluateRequiredRequestedOutputsForStoredRuntime p s out' arts'' outs'').
      \<exists>c. JObj c \<in> set (orElse (asArray (jprop (dataOf s) ''requestedOutputs'')) [])
        \<and> jprop c ''required'' = Some (JBool True) \<and> l = requestedOutputLabel (JObj c))"
proof (intro conjI ballI)
  let ?req = "orElse (asArray (jprop (dataOf s) ''requestedOutputs'')) []"
  have "\<forall>r\<in>set ?req. \<not> isRequiredRequestedOutputMissing (outputEvidenceOf p out arts outs) r"
    using assms by (auto simp: evaluateRequiredRequestedOutputsForStoredRuntime_def Let_def filter_empty_conv split: if_splits)
  then have "\<forall>r\<in>set ?req. \<not> isRequiredRequestedOutputMissing (outputEvidenceOf p out (arts @ arts') (outs @ outs')) r"
    using missing_antimono [OF evidence_of_shared_state] by blast
  then show "evaluateRequiredRequestedOutputsForStoredRuntime p s out (arts @ arts') (outs @ outs') = []"
    by (simp add: evaluateRequiredRequestedOutputsForStoredRuntime_def Let_def filter_empty_conv)
  fix l
  assume "l \<in> set (evaluateRequiredRequestedOutputsForStoredRuntime p s out' arts'' outs'')"
  then obtain r where r: "r \<in> set ?req" "isRequiredRequestedOutputMissing (outputEvidenceOf p out' arts'' outs'') r"
    "l = requestedOutputLabel r"
    by (auto simp: evaluateRequiredRequestedOutputsForStoredRuntime_def Let_def split: if_splits)
  then have "jprop (orElse (asRecord (Some r)) []) ''required'' = Some (JBool True)"
    by (auto simp: isRequiredRequestedOutputMissing_def Let_def split: if_splits)
  then obtain c where "asRecord (Some r) = Some c" "jprop c ''required'' = Some (JBool True)"
    by (cases "asRecord (Some r)") auto
  with r show "\<exists>c. JObj c \<in> set ?req \<and> jprop c ''required'' = Some (JBool True) \<and> l = requestedOutputLabel (JObj c)"
    by (auto simp: asRecord_Some_iff)
qed

definition reportStep :: executionRunStep where
  "reportStep = (demoStep ''a'' 1 StepRunning [])\<lparr>step_input :=
     \<lparr>in_prompt = None, in_handoffIds = [], in_artifacts = [],
      in_structuredData = [(''requestedOutputs'',
        JArr [JObj [(''label'', JStr ''report''), (''kind'', JStr ''structured-report''), (''required'', JBool True)],
              JObj [(''label'', JStr ''extra''), (''kind'', JStr ''artifact-bundle'')]])], in_notes = []\<rparr>\<rparr>"

definition reportOutput :: stepOutput where
  "reportOutput = \<lparr>out_summary = Some ''all good'', out_artifacts = [],
     out_structuredData = [(''report'', JBool True)], out_notes = []\<rparr>"

lemma required_outputs_monotone_example:
  "evaluateRequiredRequestedOutputsForStoredRuntime (\<lambda>_. None) reportStep reportOutput [] [] = []
   \<and> evaluateRequiredRequestedOutputsForStoredRuntime (\<lambda>_. None) reportStep reportOutput []
        [\<lparr>so_key = ''k'', so_value = JNull\<rparr>] = []"
proof -
  have "evaluateRequiredRequestedOutputsForStoredRuntime (\<lambda>_. None) reportStep reportOutput [] [] = []"
    by code_simp
  from this required_outputs_monotone [OF this, of "[]" "[\<lparr>so_key = ''k'', so_value = JNull\<rparr>]"] show ?thesis by simp
qed

end
