(* ===== verification/Step_Context.thy ===== *)
theory Step_Context
  imports Step_Limits
begin

text \<open>
  What a runner hands to the executor of a step and what it does with the answer
  (\<open>src/runtime/runner.ts\<close>): the context step with the prompt texts and the structured data drawn
  from the handoffs, the outcomes of local actions, a human resume and the task, the patches to the
  shared state for provider usage and consumed task transfers, and their merge. \<open>JSON.stringify\<close> and
  template printing of numbers are modelled here; the digits of a number that is not an integer
  below \<open>10^21\<close> are the argument \<open>fracText\<close>.
\<close>

section \<open>Printing values\<close>

definition newline :: string where
  "newline = [CHR 0x0A]"

definition numText :: "(rat \<Rightarrow> string) \<Rightarrow> js_num \<Rightarrow> string" where
  "numText fracText n = (case n of
     Fin q \<Rightarrow> if isIntegral q \<and> \<bar>q\<bar> < 10 ^ 21 then intToStr \<lfloor>q\<rfloor> else fracText q
   | PosInf \<Rightarrow> ''Infinity'' | NegInf \<Rightarrow> ''-Infinity'' | NaN \<Rightarrow> ''NaN'')"

definition hexDigit :: "nat \<Rightarrow> char" where
  "hexDigit d = (if d < 10 then digit_char d else char_of (87 + d))"

definition escapeChar :: "char \<Rightarrow> string" where
  "escapeChar c = (let n = of_char c :: nat in
     if n = 34 \<or> n = 92 then [CHR 0x5C, c]
     else if n = 8 then [CHR 0x5C, CHR ''b'']
     else if n = 9 then [CHR 0x5C, CHR ''t'']
     else if n = 10 then [CHR 0x5C, CHR ''n'']
     else if n = 12 then [CHR 0x5C, CHR ''f'']
     else if n = 13 then [CHR 0x5C, CHR ''r'']
     else if n < 32 then [CHR 0x5C] @ ''u00'' @ [hexDigit (n div 16), hexDigit (n mod 16)]
     else [c])"

definition quoteText :: "string \<Rightarrow> string" where
  "quoteText s = [CHR 0x22] @ concat (map escapeChar s) @ [CHR 0x22]"

fun jsonStringify :: "(rat \<Rightarrow> string) \<Rightarrow> json \<Rightarrow> string" where
  "jsonStringify fracText JNull = ''null''"
| "jsonStringify fracText (JBool b) = (if b then ''true'' else ''false'')"
| "jsonStringify fracText (JNum n) = (case n of Fin q \<Rightarrow> numText fracText n | _ \<Rightarrow> ''null'')"
| "jsonStringify fracText (JStr s) = quoteText s"
| "jsonStringify fracText (JArr xs) = ''['' @ joinWith '','' (map (jsonStringify fracText) xs) @ '']''"
| "jsonStringify fracText (JObj kvs) =
     ''{'' @ joinWith '','' (map (\<lambda>(k, v). quoteText k @ '':'' @ jsonStringify fracText v) kvs) @ ''}''"

definition upperText :: "char \<Rightarrow> string" where
  "upperText c = (let n = of_char c :: nat in
     if 97 \<le> n \<and> n \<le> 122 \<or> 224 \<le> n \<and> n \<le> 254 \<and> n \<noteq> 247 then [char_of (n - 32)]
     else if n = 223 then ''SS'' else [c])"

definition toUpperCase :: "string \<Rightarrow> string" where
  "toUpperCase s = concat (map upperText s)"

section \<open>Prompt texts\<close>

definition truthyText :: "string option \<Rightarrow> string option" where
  "truthyText s = (if s = Some [] then None else s)"

definition appendPromptContext :: "string option \<Rightarrow> string option \<Rightarrow> string option" where
  "appendPromptContext prompt promptContext =
     (case truthyText prompt of
        None \<Rightarrow> promptContext
      | Some p \<Rightarrow> (case truthyText promptContext of
          None \<Rightarrow> Some p
        | Some c \<Rightarrow> Some (p @ newline @ newline @ c)))"

definition formatTaskStructuredContextPromptContext :: "(rat \<Rightarrow> string) \<Rightarrow> jobj option \<Rightarrow> string option" where
  "formatTaskStructuredContextPromptContext fracText c = (case c of None \<Rightarrow> None
     | Some r \<Rightarrow> Some (''Task structured context:'' @ newline @ ''- '' @ jsonStringify fracText (JObj r)))"

definition formatTaskContextPromptContext :: "(rat \<Rightarrow> string) \<Rightarrow> jobj option \<Rightarrow> string option" where
  "formatTaskContextPromptContext fracText c = (case c of None \<Rightarrow> None
     | Some r \<Rightarrow> Some (''Task context:'' @ newline @ ''- '' @ jsonStringify fracText (JObj r)))"

definition artifactIdentity :: "artifactRef \<Rightarrow> string" where
  "artifactIdentity a = orElse (art_title a) (orElse (art_path a) (orElse (art_uri a) (art_id a)))"

definition formatTaskInputArtifactsPromptContext :: "artifactRef list \<Rightarrow> string option" where
  "formatTaskInputArtifactsPromptContext arts =
     (if arts = [] then None
      else Some (joinWith newline
        ([''Task input artifacts:'']
         @ map (\<lambda>a. ''- '' @ art_kind a @ '':'' @ artifactIdentity a) (take 5 arts)
         @ (if length arts > 5 then [''- ... +'' @ natToStr (length arts - 5) @ '' more''] else []))))"

definition taskTransferLines :: "(rat \<Rightarrow> string) \<Rightarrow> dependencyTaskTransfer \<Rightarrow> string list" where
  "taskTransferLines fracText t =
     (let tt = dtt_taskTransfer t in
      [''- '' @ dtt_fromStepId t
         @ (if dtt_fromAgentId t \<noteq> [] then '' ('' @ dtt_fromAgentId t @ '')'' else [])
         @ '': '' @ orElse (tt_title tt) (dtt_summary t)]
      @ (case truthyText (tt_objective tt) of None \<Rightarrow> [] | Some ob \<Rightarrow> [''  objective: '' @ ob])
      @ (if tt_requestedOutputs tt \<noteq> []
         then [''  requestedOutputs: '' @ jsonStringify fracText (JArr (map requestedOutputJson (tt_requestedOutputs tt)))]
         else [])
      @ (if tt_inputArtifacts tt \<noteq> []
         then [''  inputArtifacts: '' @ jsonStringify fracText (JArr (map inputArtifactJson (tt_inputArtifacts tt)))]
         else []))"

definition formatDependencyTaskTransferPromptContext ::
  "(rat \<Rightarrow> string) \<Rightarrow> dependencyTaskTransfer list \<Rightarrow> string option" where
  "formatDependencyTaskTransferPromptContext fracText ts =
     (if ts = [] then None
      else Some (joinWith newline (''Dependency task transfers:'' # concat (map (taskTransferLines fracText) ts))))"

definition formatConsumedTaskTransferNote :: "string \<Rightarrow> nat \<Rightarrow> string" where
  "formatConsumedTaskTransferNote stepId n =
     ''consumed task transfers for '' @ stepId @ '': total='' @ natToStr n"

definition localActionOutcomePrefix :: string where
  "localActionOutcomePrefix = ''step.localActionOutcomes.''"

definition normalizeStepIdFromLocalActionOutcomeKey :: "string \<Rightarrow> string" where
  "normalizeStepIdFromLocalActionOutcomeKey key =
     (if startsWith key localActionOutcomePrefix then drop (length localActionOutcomePrefix) key else [])"

definition positiveCounts :: "(rat \<Rightarrow> string) \<Rightarrow> jobj \<Rightarrow> string" where
  "positiveCounts fracText counts = joinWith '', ''
     (List.map_filter (\<lambda>st. case asNumber (jprop counts (actionStatusText st)) of
         None \<Rightarrow> None
       | Some n \<Rightarrow> if jsPositive n then Some (actionStatusText st @ ''='' @ numText fracText n) else None)
       localActionStatuses)"

definition outcomeLine :: "(rat \<Rightarrow> string) \<Rightarrow> outcomeEntry \<Rightarrow> string option" where
  "outcomeLine fracText e =
     (let (key, v) = e in
      case asRecord (Some v) of
        None \<Rightarrow> None
      | Some r \<Rightarrow>
          (let fromKey = normalizeStepIdFromLocalActionOutcomeKey key;
               owner = (case asString (jprop r ''ownerStepId'') of Some s \<Rightarrow> s
                 | None \<Rightarrow> if fromKey = [] then ''unknown-step'' else fromKey);
               counts = orElse (asRecord (jprop r ''counts'')) [];
               items = orElse (asArray (jprop r ''items'')) [];
               latest = (if items = [] then None else asRecord (Some (last items)));
               summary = (case asString (optProp latest ''resultSummary'') of Some s \<Rightarrow> Some s
                 | None \<Rightarrow> asString (optProp latest ''summary''));
               countText = (if positiveCounts fracText counts = [] then ''no terminal outcomes recorded''
                 else positiveCounts fracText counts)
           in Some (case truthyText summary of
                Some s \<Rightarrow> ''- '' @ owner @ '': '' @ countText @ ''; latest='' @ s
              | None \<Rightarrow> ''- '' @ owner @ '': '' @ countText)))"

definition formatDependencyLocalActionOutcomePromptContext ::
  "(rat \<Rightarrow> string) \<Rightarrow> outcomeEntry list \<Rightarrow> string option" where
  "formatDependencyLocalActionOutcomePromptContext fracText entries =
     (if entries = [] then None
      else let lines = ''Dependency local action outcomes:'' # List.map_filter (outcomeLine fracText) entries
           in if length lines > 1 then Some (joinWith newline lines) else None)"

definition formatDependencyLocalActionDecisionPromptContext :: "jobj option \<Rightarrow> string option" where
  "formatDependencyLocalActionDecisionPromptContext guidance =
     (case (truthyText (asString (optProp guidance ''action'')), truthyText (asString (optProp guidance ''rationale''))) of
        (Some action, Some rationale) \<Rightarrow>
          Some (''Dependency local action decision guidance: '' @ toUpperCase action @ '' - '' @ rationale)
      | _ \<Rightarrow> None)"

definition extractDependencyLocalActionSteerContract :: "jobj option \<Rightarrow> jobj option" where
  "extractDependencyLocalActionSteerContract guidance =
     (if optProp guidance ''action'' = Some (JStr ''steer'')
      then asRecord (optProp guidance ''contract'') else None)"

definition textLine :: "string \<Rightarrow> string option \<Rightarrow> string list" where
  "textLine label s = (case truthyText s of None \<Rightarrow> [] | Some t \<Rightarrow> [''- '' @ label @ '': '' @ t])"

definition objLine :: "(rat \<Rightarrow> string) \<Rightarrow> string \<Rightarrow> jobj option \<Rightarrow> string list" where
  "objLine fracText label r =
     (case r of None \<Rightarrow> [] | Some kvs \<Rightarrow> [''- '' @ label @ '': '' @ jsonStringify fracText (JObj kvs)])"

definition formatDependencyLocalActionSteerPromptContext :: "(rat \<Rightarrow> string) \<Rightarrow> jobj option \<Rightarrow> string option" where
  "formatDependencyLocalActionSteerPromptContext fracText contract =
     (case contract of None \<Rightarrow> None
      | Some c \<Rightarrow>
          let lines = [''Dependency local action steer contract:'']
                @ textLine ''recommendedAction'' (asString (jprop c ''recommendedAction''))
                @ textLine ''promptAppend'' (asString (jprop c ''promptAppend''))
                @ objLine fracText ''structuredContext'' (asRecord (jprop c ''structuredContext''))
          in if length lines > 1 then Some (joinWith newline lines) else None)"

definition formatHumanEscalationResumePromptContext :: "(rat \<Rightarrow> string) \<Rightarrow> jobj option \<Rightarrow> string option" where
  "formatHumanEscalationResumePromptContext fracText resume =
     (case resume of None \<Rightarrow> None
      | Some r \<Rightarrow>
          let lines = [''Human resume guidance:'']
                @ textLine ''resumedAt'' (asString (jprop r ''resumedAt''))
                @ textLine ''note'' (asString (jprop r ''note''))
                @ objLine fracText ''guidance'' (asRecord (jprop r ''guidance''))
          in if length lines > 1 then Some (joinWith newline lines) else None)"

definition extractHumanEscalationResumeOverride :: "jobj option \<Rightarrow> jobj option" where
  "extractHumanEscalationResumeOverride resume = asRecord (optProp resume ''override'')"

definition formatHumanEscalationResumeOverridePromptContext :: "jobj option \<Rightarrow> string option" where
  "formatHumanEscalationResumeOverridePromptContext override =
     (case truthyText (asString (optProp override ''promptAppend'')) of
        None \<Rightarrow> None
      | Some t \<Rightarrow> Some (''Human resume override:'' @ newline @ ''- promptAppend: '' @ t))"

definition extractHumanEscalationResumeOverrideStructuredContext :: "jobj option \<Rightarrow> jobj option" where
  "extractHumanEscalationResumeOverrideStructuredContext override = asRecord (optProp override ''structuredContext'')"

definition formatHumanEscalationResumeOverrideStructuredContextPromptContext ::
  "(rat \<Rightarrow> string) \<Rightarrow> jobj option \<Rightarrow> string option" where
  "formatHumanEscalationResumeOverrideStructuredContextPromptContext fracText c = (case c of None \<Rightarrow> None
     | Some r \<Rightarrow> Some (''Human resume structured context:'' @ newline @ ''- '' @ jsonStringify fracText (JObj r)))"

section \<open>The context step\<close>

definition dependencyTaskTransferJson :: "dependencyTaskTransfer \<Rightarrow> json" where
  "dependencyTaskTransferJson t = JObj
     [(''handoffId'', JStr (dtt_handoffId t)), (''fromStepId'', JStr (dtt_fromStepId t)),
      (''fromAgentId'', JStr (dtt_fromAgentId t)), (''summary'', JStr (dtt_summary t)),
      (''taskTransfer'', taskTransferJson (dtt_taskTransfer t))]"

definition outcomeEntryOf :: "structuredOutput \<Rightarrow> outcomeEntry" where
  "outcomeEntryOf e = (so_key e, so_value e)"

definition outcomeEntryJson :: "outcomeEntry \<Rightarrow> json" where
  "outcomeEntryJson e = JObj [(''key'', JStr (fst e)), (''value'', snd e)]"

definition dependencyLocalActionOutcomes :: "runBundle \<Rightarrow> executionRunStep \<Rightarrow> outcomeEntry list" where
  "dependencyLocalActionOutcomes b s = map outcomeEntryOf
     (filter (\<lambda>e. normalizeStepIdFromLocalActionOutcomeKey (so_key e) \<in> set (step_dependsOnStepIds s))
       (ss_structuredOutputs (bdl_sharedState b)))"

definition upstreamLocalActionOutcomes :: "runBundle \<Rightarrow> outcomeEntry list" where
  "upstreamLocalActionOutcomes b = map outcomeEntryOf
     (filter (\<lambda>e. startsWith (so_key e) localActionOutcomePrefix) (ss_structuredOutputs (bdl_sharedState b)))"

record stepContext =
  sc_transfers :: "dependencyTaskTransfer list"
  sc_transfersText :: "string option"
  sc_outcomes :: "outcomeEntry list"
  sc_upstream :: "outcomeEntry list"
  sc_guidance :: "jobj option"
  sc_outcomesText :: "string option"
  sc_guidanceText :: "string option"
  sc_steer :: "jobj option"
  sc_steerText :: "string option"
  sc_resume :: "jobj option"
  sc_resumeText :: "string option"
  sc_override :: "jobj option"
  sc_overrideText :: "string option"
  sc_overrideContext :: "jobj option"
  sc_overrideContextText :: "string option"
  sc_task :: "jobj option"
  sc_taskText :: "string option"
  sc_artifacts :: "artifactRef list"
  sc_artifactsText :: "string option"
  sc_taskStructured :: "jobj option"
  sc_taskStructuredText :: "string option"

definition collectStepContext :: "(rat \<Rightarrow> string) \<Rightarrow> runBundle \<Rightarrow> executionRunStep \<Rightarrow> stepContext" where
  "collectStepContext fracText b s =
     (let transfers = extractDependencyTaskTransfers (bdl_handoffs b) s;
          outcomes = dependencyLocalActionOutcomes b s;
          guidance = buildDependencyLocalActionDecisionGuidance outcomes;
          steer = extractDependencyLocalActionSteerContract guidance;
          resume = asRecord (jprop (dataOf s) ''humanEscalationResume'');
          override = extractHumanEscalationResumeOverride resume;
          overrideContext = extractHumanEscalationResumeOverrideStructuredContext override;
          task = asRecord (jprop (dataOf s) ''taskContext'');
          artifacts = in_artifacts (step_input s);
          taskStructured = asRecord (jprop (dataOf s) ''taskOverrideStructuredContext'')
      in \<lparr>sc_transfers = transfers,
          sc_transfersText = formatDependencyTaskTransferPromptContext fracText transfers,
          sc_outcomes = outcomes,
          sc_upstream = upstreamLocalActionOutcomes b,
          sc_guidance = guidance,
          sc_outcomesText = formatDependencyLocalActionOutcomePromptContext fracText outcomes,
          sc_guidanceText = formatDependencyLocalActionDecisionPromptContext guidance,
          sc_steer = steer,
          sc_steerText = formatDependencyLocalActionSteerPromptContext fracText steer,
          sc_resume = resume,
          sc_resumeText = formatHumanEscalationResumePromptContext fracText resume,
          sc_override = override,
          sc_overrideText = formatHumanEscalationResumeOverridePromptContext override,
          sc_overrideContext = overrideContext,
          sc_overrideContextText =
            formatHumanEscalationResumeOverrideStructuredContextPromptContext fracText overrideContext,
          sc_task = task,
          sc_taskText = formatTaskContextPromptContext fracText task,
          sc_artifacts = artifacts,
          sc_artifactsText = formatTaskInputArtifactsPromptContext artifacts,
          sc_taskStructured = taskStructured,
          sc_taskStructuredText = formatTaskStructuredContextPromptContext fracText taskStructured\<rparr>)"

definition stepContextJson :: "executionRunStep \<Rightarrow> stepContext \<Rightarrow> json" where
  "stepContextJson s c = JObj
     [(''dependencyStepIds'', JArr (map JStr (step_dependsOnStepIds s))),
      (''dependencyTaskTransfers'', JArr (map dependencyTaskTransferJson (sc_transfers c))),
      (''dependencyTaskTransferPromptContext'', jsStrOrNull (sc_transfersText c)),
      (''dependencyLocalActionOutcomes'', JArr (map outcomeEntryJson (sc_outcomes c))),
      (''upstreamLocalActionOutcomes'', JArr (map outcomeEntryJson (sc_upstream c))),
      (''dependencyLocalActionDecisionGuidance'', jsObjOrNull (sc_guidance c)),
      (''dependencyLocalActionOutcomePromptContext'', jsStrOrNull (sc_outcomesText c)),
      (''dependencyLocalActionDecisionPromptContext'', jsStrOrNull (sc_guidanceText c)),
      (''dependencyLocalActionSteerContract'', jsObjOrNull (sc_steer c)),
      (''dependencyLocalActionSteerPromptContext'', jsStrOrNull (sc_steerText c)),
      (''humanEscalationResume'', jsObjOrNull (sc_resume c)),
      (''humanEscalationResumePromptContext'', jsStrOrNull (sc_resumeText c)),
      (''humanEscalationResumeOverride'', jsObjOrNull (sc_override c)),
      (''humanEscalationResumeOverridePromptContext'', jsStrOrNull (sc_overrideText c)),
      (''humanEscalationResumeOverrideStructuredContext'', jsObjOrNull (sc_overrideContext c)),
      (''humanEscalationResumeOverrideStructuredContextPromptContext'', jsStrOrNull (sc_overrideContextText c)),
      (''taskContext'', jsObjOrNull (sc_task c)),
      (''taskContextPromptContext'', jsStrOrNull (sc_taskText c)),
      (''taskInputArtifacts'', artifactsJson (sc_artifacts c)),
      (''taskInputArtifactsPromptContext'', jsStrOrNull (sc_artifactsText c)),
      (''taskStructuredContext'', jsObjOrNull (sc_taskStructured c)),
      (''taskStructuredContextPromptContext'', jsStrOrNull (sc_taskStructuredText c))]"

definition contextPrompt :: "string option \<Rightarrow> stepContext \<Rightarrow> string option" where
  "contextPrompt prompt c =
     appendPromptContext
       (appendPromptContext
         (appendPromptContext
           (appendPromptContext (appendPromptContext prompt (sc_transfersText c)) (sc_outcomesText c))
           (appendPromptContext (sc_guidanceText c) (sc_steerText c)))
         (appendPromptContext
           (appendPromptContext (sc_resumeText c) (sc_overrideText c)) (sc_overrideContextText c)))
       (appendPromptContext
         (appendPromptContext (sc_taskText c) (sc_artifactsText c)) (sc_taskStructuredText c))"

definition buildExecutionContextStep :: "(rat \<Rightarrow> string) \<Rightarrow> runBundle \<Rightarrow> executionRunStep \<Rightarrow> executionRunStep" where
  "buildExecutionContextStep fracText b s =
     (let c = collectStepContext fracText b s in
      s\<lparr>step_input := (step_input s)
        \<lparr>in_prompt := contextPrompt (in_prompt (step_input s)) c,
         in_structuredData := objSet ''sharedStateContext'' (stepContextJson s c) (dataOf s)\<rparr>\<rparr>)"

section \<open>Patches to the shared state\<close>

definition mergeSharedStatePatch ::
  "(json \<Rightarrow> json option) \<Rightarrow> sharedStatePatch option \<Rightarrow> sharedStatePatch option \<Rightarrow> sharedStatePatch option" where
  "mergeSharedStatePatch parseItem left right =
     (if left = None \<and> right = None then None
      else let l = orElse left emptyPatch; r = orElse right emptyPatch in Some
        \<lparr>patch_artifacts = normalizeTeamRunArtifactRefs (Some (artifactsJson (patch_artifacts l)))
           @ normalizeTeamRunArtifactRefs (Some (artifactsJson (patch_artifacts r))),
         patch_structuredOutputs =
           normalizeRuntimeStructuredOutputs parseItem (Some (structuredOutputsJson (patch_structuredOutputs l)))
           @ normalizeRuntimeStructuredOutputs parseItem (Some (structuredOutputsJson (patch_structuredOutputs r))),
         patch_notes = patch_notes l @ patch_notes r\<rparr>)"

definition normalizeExecutionRunStepOutput :: "stepOutput \<Rightarrow> stepOutput" where
  "normalizeExecutionRunStepOutput out =
     out\<lparr>out_artifacts := normalizeTeamRunArtifactRefs (Some (artifactsJson (out_artifacts out)))\<rparr>"

record providerUsage =
  us_inputTokens :: js_num
  us_outputTokens :: js_num
  us_reasoningTokens :: js_num
  us_totalTokens :: js_num

definition providerUsageOutput :: "string \<Rightarrow> string \<Rightarrow> providerUsage \<Rightarrow> structuredOutput" where
  "providerUsageOutput stepId generatedAt u =
     \<lparr>so_key = ''step.providerUsage.'' @ stepId, so_value = JObj
        [(''ownerStepId'', JStr stepId), (''generatedAt'', JStr generatedAt),
         (''inputTokens'', JNum (us_inputTokens u)), (''outputTokens'', JNum (us_outputTokens u)),
         (''reasoningTokens'', JNum (us_reasoningTokens u)), (''totalTokens'', JNum (us_totalTokens u))]\<rparr>"

definition buildProviderUsageSharedStatePatch ::
  "(rat \<Rightarrow> string) \<Rightarrow> string \<Rightarrow> string \<Rightarrow> providerUsage option \<Rightarrow> sharedStatePatch option" where
  "buildProviderUsageSharedStatePatch fracText stepId generatedAt usage =
     (case usage of None \<Rightarrow> None
      | Some u \<Rightarrow> Some
          \<lparr>patch_artifacts = [], patch_structuredOutputs = [providerUsageOutput stepId generatedAt u],
           patch_notes = [''provider usage i/o/r/t: '' @ numText fracText (us_inputTokens u) @ ''/''
             @ numText fracText (us_outputTokens u) @ ''/'' @ numText fracText (us_reasoningTokens u) @ ''/''
             @ numText fracText (us_totalTokens u)]\<rparr>)"

definition contextTransfers :: "executionRunStep \<Rightarrow> jobj list" where
  "contextTransfers s = List.map_filter (\<lambda>v. asRecord (Some v))
     (orElse (asArray (optProp (asRecord (jprop (dataOf s) ''sharedStateContext'')) ''dependencyTaskTransfers'')) [])"

definition consumedTransferItem :: "jobj \<Rightarrow> json" where
  "consumedTransferItem transfer =
     (let t = normalizeTaskTransfer (jprop transfer ''taskTransfer'') in JObj
       [(''handoffId'', jsStrOrNull (asString (jprop transfer ''handoffId''))),
        (''fromStepId'', jsStrOrNull (asString (jprop transfer ''fromStepId''))),
        (''fromAgentId'', jsStrOrNull (asString (jprop transfer ''fromAgentId''))),
        (''title'', jsStrOrNull (Option.bind t tt_title)),
        (''objective'', jsStrOrNull (Option.bind t tt_objective)),
        (''requestedOutputCount'', jsInt (case t of None \<Rightarrow> 0 | Some x \<Rightarrow> int (length (tt_requestedOutputs x)))),
        (''inputArtifactCount'', jsInt (case t of None \<Rightarrow> 0 | Some x \<Rightarrow> int (length (tt_inputArtifacts x))))])"

definition buildConsumedTaskTransfersSharedStatePatch ::
  "executionRunStep \<Rightarrow> string \<Rightarrow> sharedStatePatch option" where
  "buildConsumedTaskTransfersSharedStatePatch s generatedAt =
     (let transfers = contextTransfers s in
      if transfers = [] then None
      else Some
        \<lparr>patch_artifacts = [],
         patch_structuredOutputs =
           [\<lparr>so_key = ''step.consumedTaskTransfers.'' @ step_id s, so_value = JObj
              [(''ownerStepId'', JStr (step_id s)), (''generatedAt'', JStr generatedAt),
               (''total'', jsInt (int (length transfers))), (''items'', JArr (map consumedTransferItem transfers))]\<rparr>],
         patch_notes = [formatConsumedTaskTransferNote (step_id s) (length transfers)]\<rparr>)"

definition extractFailureRecoverySharedState ::
  "(json \<Rightarrow> json option) \<Rightarrow> jobj option \<Rightarrow> sharedStatePatch option" where
  "extractFailureRecoverySharedState parseItem details =
     (case asRecord (optProp details ''recoverySharedState'') of
        None \<Rightarrow> None
      | Some raw \<Rightarrow>
          (let artifacts = normalizeTeamRunArtifactRefs (jprop raw ''artifacts'');
               outputs = normalizeRuntimeStructuredOutputs parseItem (jprop raw ''structuredOutputs'');
               notes = filter nonBlank (strings (orElse (asArray (jprop raw ''notes'')) []))
           in if artifacts = [] \<and> outputs = [] \<and> notes = [] then None
              else Some \<lparr>patch_artifacts = artifacts, patch_structuredOutputs = outputs, patch_notes = notes\<rparr>))"

definition requiresConfiguredStoredStepExecutor :: "runBundle \<Rightarrow> bool" where
  "requiresConfiguredStoredStepExecutor b =
     (case asRecord (jprop (run_initialInputs (bdl_run b)) ''auracall'') of
        None \<Rightarrow> False
      | Some a \<Rightarrow>
          (let service = asString (jprop a ''service'');
               agent = trim (orElse (asString (jprop a ''agent'')) [])
           in jprop a ''transport'' = Some (JStr ''browser'')
              \<or> agent \<noteq> [] \<and> service \<in> {Some ''chatgpt'', Some ''gemini'', Some ''grok''}))"

section \<open>What the context says\<close>

lemma dataOf_context [simp]:
  "dataOf (buildExecutionContextStep fracText b s) =
     objSet ''sharedStateContext'' (stepContextJson s (collectStepContext fracText b s)) (dataOf s)"
  by (simp add: buildExecutionContextStep_def dataOf_def Let_def)

lemma context_simps [simp]:
  "sc_guidance (collectStepContext fracText b s)
     = buildDependencyLocalActionDecisionGuidance (dependencyLocalActionOutcomes b s)"
  "sc_transfers (collectStepContext fracText b s) = extractDependencyTaskTransfers (bdl_handoffs b) s"
  by (simp_all add: collectStepContext_def Let_def)

lemma appendPromptContext_prefix: "p \<noteq> [] \<Longrightarrow> \<exists>t. appendPromptContext (Some (p @ q)) c = Some (p @ t)"
  by (simp add: appendPromptContext_def truthyText_def split: option.split)

lemma contextPrompt_prefix:
  assumes "p \<noteq> []"
  shows "\<exists>t. contextPrompt (Some p) c = Some (p @ t)"
proof -
  have "\<exists>t. appendPromptContext (Some p) x = Some (p @ t)" for x
    using appendPromptContext_prefix [OF assms, of "[]" x] by simp
  then show ?thesis
    unfolding contextPrompt_def by (metis appendPromptContext_prefix [OF assms])
qed

definition resumedByHuman :: "executionRunStep \<Rightarrow> bool" where
  "resumedByHuman s = (asString (optProp (asRecord (jprop (dataOf s) ''humanEscalationResume'')) ''resumedAt'') \<noteq> None)"

definition interactionDefault :: "executionRunStep \<Rightarrow> string" where
  "interactionDefault s = orElse (asString (optProp (asRecord (jprop (dataOf s) ''humanInteractionPolicy'')) ''defaultBehavior'')) ''pause''"

definition unsettledOutcomes :: "runBundle \<Rightarrow> executionRunStep \<Rightarrow> bool" where
  "unsettledOutcomes b s = list_ex (\<lambda>st. jsPositive (outcomeCount (actionStatusText st) (dependencyLocalActionOutcomes b s) (Fin 0)))
     [Rejected, ActionFailed, Requested, ActionCancelled]"

lemma guidance_escalates:
  "(\<exists>g. buildDependencyLocalActionDecisionGuidance es = Some g \<and> jprop g ''action'' = Some (JStr ''escalate'')) \<longleftrightarrow>
   list_ex (\<lambda>st. jsPositive (outcomeCount (actionStatusText st) es (Fin 0))) [Rejected, ActionFailed, Requested, ActionCancelled]"
  by (auto simp: buildDependencyLocalActionDecisionGuidance_def decideGuidance_def Let_def)

lemma escalation_guidance:
  "asRecord (optProp (asRecord (jprop (dataOf (buildExecutionContextStep fracText b s)) ''sharedStateContext''))
     ''dependencyLocalActionDecisionGuidance'') = buildDependencyLocalActionDecisionGuidance (dependencyLocalActionOutcomes b s)"
  by (simp add: stepContextJson_def optProp_def jsObjOrNull_def split: option.split)

definition humanAllowed :: "executionRunStep \<Rightarrow> bool" where
  "humanAllowed s = orElse (asBool (optProp (asRecord (jprop (dataOf s) ''humanInteractionPolicy'')) ''allowHumanEscalation'')) True"

lemma escalation_iff:
  "resolveEscalationControlBehavior (dataOf (buildExecutionContextStep fracText b s)) \<noteq> None \<longleftrightarrow>
   unsettledOutcomes b s \<and> \<not> resumedByHuman s \<and> interactionDefault s \<noteq> ''continue''"
proof -
  let ?d = "dataOf (buildExecutionContextStep fracText b s)"
  let ?g = "buildDependencyLocalActionDecisionGuidance (dependencyLocalActionOutcomes b s)"
  have same: "jprop ?d ''humanInteractionPolicy'' = jprop (dataOf s) ''humanInteractionPolicy''"
    "jprop ?d ''humanEscalationResume'' = jprop (dataOf s) ''humanEscalationResume''" by simp_all
  have "resolveEscalationControlBehavior ?d \<noteq> None \<longleftrightarrow>
      (\<exists>g. ?g = Some g \<and> jprop g ''action'' = Some (JStr ''escalate'')) \<and> \<not> resumedByHuman s \<and> interactionDefault s \<noteq> ''continue''"
    unfolding resolveEscalationControlBehavior_def escalation_guidance same Let_def resumedByHuman_def interactionDefault_def
    by (simp split: option.split)
  then show ?thesis by (simp only: guidance_escalates unsettledOutcomes_def)
qed

lemma escalation_pauses:
  assumes "unsettledOutcomes b s" "\<not> resumedByHuman s" "interactionDefault s = ''pause''" "humanAllowed s"
  obtains eb where "resolveEscalationControlBehavior (dataOf (buildExecutionContextStep fracText b s)) = Some eb"
    "eb_action eb = PauseRun"
proof -
  let ?d = "dataOf (buildExecutionContextStep fracText b s)"
  have same: "jprop ?d ''humanInteractionPolicy'' = jprop (dataOf s) ''humanInteractionPolicy''"
    "jprop ?d ''humanEscalationResume'' = jprop (dataOf s) ''humanEscalationResume''" by simp_all
  from assms(1) obtain g where g: "buildDependencyLocalActionDecisionGuidance (dependencyLocalActionOutcomes b s) = Some g"
    "jprop g ''action'' = Some (JStr ''escalate'')" using guidance_escalates by (metis unsettledOutcomes_def)
  show thesis
    by (rule that [of "\<lparr>eb_action = PauseRun,
        eb_message = ''dependency host-action guidance escalated and requires human input'', eb_guidance = g\<rparr>"])
      (use assms(2-4) g in \<open>unfold resolveEscalationControlBehavior_def escalation_guidance same Let_def
        resumedByHuman_def interactionDefault_def humanAllowed_def, simp_all\<close>)
qed


text \<open>Extracted transfers come back from the context as they were.\<close>

lemma contextTransfers_context:
  "contextTransfers (buildExecutionContextStep fracText b s) =
     map (\<lambda>t. [(''handoffId'', JStr (dtt_handoffId t)), (''fromStepId'', JStr (dtt_fromStepId t)),
        (''fromAgentId'', JStr (dtt_fromAgentId t)), (''summary'', JStr (dtt_summary t)),
        (''taskTransfer'', taskTransferJson (dtt_taskTransfer t))])
       (extractDependencyTaskTransfers (bdl_handoffs b) s)"
  unfolding contextTransfers_def
  by (simp add: stepContextJson_def optProp_def dependencyTaskTransferJson_def List.map_filter_def comp_def)

definition transferItem :: "dependencyTaskTransfer \<Rightarrow> json" where
  "transferItem t = JObj
     [(''handoffId'', JStr (dtt_handoffId t)), (''fromStepId'', JStr (dtt_fromStepId t)),
      (''fromAgentId'', JStr (dtt_fromAgentId t)), (''title'', jsStrOrNull (tt_title (dtt_taskTransfer t))),
      (''objective'', jsStrOrNull (tt_objective (dtt_taskTransfer t))),
      (''requestedOutputCount'', jsInt (int (length (tt_requestedOutputs (dtt_taskTransfer t))))),
      (''inputArtifactCount'', jsInt (int (length (tt_inputArtifacts (dtt_taskTransfer t)))))]"

lemma extracted_normal:
  "t \<in> set (extractDependencyTaskTransfers hs s) \<Longrightarrow>
   normalizeTaskTransfer (Some (taskTransferJson (dtt_taskTransfer t))) = Some (dtt_taskTransfer t)"
  by (auto simp: extractDependencyTaskTransfers_def List.map_filter_def normalizeTaskTransfer_stable split: if_splits)

text \<open>Consumed transfers are reported as they were handed over: the summary a step leaves for the task
  transfers its prompt was built from lists exactly the transfers extracted from the handoffs of its
  dependencies, in order, each with its own title, objective and sizes.\<close>

lemma consumed_transfers_reported:
  assumes "extractDependencyTaskTransfers (bdl_handoffs b) s = ts" "ts \<noteq> []"
  shows "\<exists>patch. buildConsumedTaskTransfersSharedStatePatch (buildExecutionContextStep fracText b s) t0 = Some patch
    \<and> patch_structuredOutputs patch = [\<lparr>so_key = ''step.consumedTaskTransfers.'' @ step_id s, so_value = JObj
         [(''ownerStepId'', JStr (step_id s)), (''generatedAt'', JStr t0), (''total'', jsInt (int (length ts))),
          (''items'', JArr (map transferItem ts))]\<rparr>]"
proof -
  have "consumedTransferItem [(''handoffId'', JStr (dtt_handoffId t)), (''fromStepId'', JStr (dtt_fromStepId t)),
        (''fromAgentId'', JStr (dtt_fromAgentId t)), (''summary'', JStr (dtt_summary t)),
        (''taskTransfer'', taskTransferJson (dtt_taskTransfer t))] = transferItem t" if "t \<in> set ts" for t
    using extracted_normal [of t "bdl_handoffs b" s] that assms(1)
    by (simp add: consumedTransferItem_def transferItem_def Let_def jsStrOrNull_def)
  moreover have "step_id (buildExecutionContextStep fracText b s) = step_id s"
    by (simp add: buildExecutionContextStep_def Let_def)
  ultimately show ?thesis
    using assms(2)
    by (simp add: buildConsumedTaskTransfersSharedStatePatch_def contextTransfers_context assms(1) Let_def)
qed

definition handoffBundle :: runBundle where
  "handoffBundle = (demoBundle [demoStep ''a'' 1 StepSucceeded [], demoStep ''b'' 2 StepPlanned [''a'']] [])
     \<lparr>bdl_handoffs := [\<lparr>ho_id = ''h'', ho_teamRunId = ''r'', ho_fromStepId = ''a'', ho_toStepId = ''b'',
        ho_fromAgentId = ''x'', ho_toAgentId = ''y'', ho_summary = ''s'', ho_artifacts = [],
        ho_structuredData = [(''taskTransfer'', JObj [(''title'', JStr ''plan'')])], ho_notes = [],
        ho_status = Prepared, ho_createdAt = ''t0''\<rparr>]\<rparr>"

lemma consumed_transfers_reported_example:
  "\<exists>patch. buildConsumedTaskTransfersSharedStatePatch
      (buildExecutionContextStep (\<lambda>_. []) handoffBundle (demoStep ''b'' 2 StepPlanned [''a''])) ''t1'' = Some patch
    \<and> length (patch_structuredOutputs patch) = 1"
proof -
  have "extractDependencyTaskTransfers (bdl_handoffs handoffBundle) (demoStep ''b'' 2 StepPlanned [''a'']) =
      [\<lparr>dtt_handoffId = ''h'', dtt_fromStepId = ''a'', dtt_fromAgentId = ''x'', dtt_summary = ''s'',
        dtt_taskTransfer = \<lparr>tt_title = Some ''plan'', tt_objective = None, tt_successCriteria = [],
          tt_requestedOutputs = [], tt_inputArtifacts = []\<rparr>\<rparr>]"
    by (simp add: handoffBundle_def extractDependencyTaskTransfers_def demoStep_def map_filter_simps
        normalizeTaskTransfer_def falsyText_def)
  from consumed_transfers_reported [OF this, of "\<lambda>_. []" "''t1''"] show ?thesis by auto
qed

text \<open>Context never displaces the task: the prompt of the context step starts with the step's own prompt,
  and every other field of the step and of its structured data is unchanged.\<close>

lemma context_keeps_own_prompt:
  assumes "in_prompt (step_input s) = Some p" "p \<noteq> []"
  shows "\<exists>t data. buildExecutionContextStep fracText b s
      = s\<lparr>step_input := (step_input s)\<lparr>in_prompt := Some (p @ t), in_structuredData := data\<rparr>\<rparr>
    \<and> (\<forall>k. k \<noteq> ''sharedStateContext'' \<longrightarrow> jprop data k = jprop (in_structuredData (step_input s)) k)"
proof -
  obtain t where "contextPrompt (in_prompt (step_input s)) (collectStepContext fracText b s) = Some (p @ t)"
    using contextPrompt_prefix [OF assms(2)] assms(1) by metis
  then show ?thesis
    by (auto simp: buildExecutionContextStep_def Let_def dataOf_def
        intro!: exI [of _ t] exI [of _ "objSet ''sharedStateContext'' (stepContextJson s (collectStepContext fracText b s)) (in_structuredData (step_input s))"])
qed

definition promptStep :: executionRunStep where
  "promptStep = (demoStep ''b'' 2 StepPlanned [''a''])\<lparr>step_input :=
     \<lparr>in_prompt = Some ''go'', in_handoffIds = [], in_artifacts = [], in_structuredData = [], in_notes = []\<rparr>\<rparr>"

lemma context_keeps_own_prompt_example:
  "\<exists>t. in_prompt (step_input (buildExecutionContextStep (\<lambda>_. []) handoffBundle promptStep)) = Some (''go'' @ t)"
proof -
  have "in_prompt (step_input promptStep) = Some ''go''" by (simp add: promptStep_def)
  from context_keeps_own_prompt [OF this, of "\<lambda>_. []" handoffBundle] obtain t data where
    "buildExecutionContextStep (\<lambda>_. []) handoffBundle promptStep = promptStep\<lparr>step_input := (step_input promptStep)
      \<lparr>in_prompt := Some (''go'' @ t), in_structuredData := data\<rparr>\<rparr>" by auto
  then show ?thesis by simp
qed

end
