(* ===== verification/Runners.thy ===== *)
theory Runners
  imports Record_Store
begin

text \<open>
  The registry of runner processes: its file store (\<open>src/runtime/runnersStore.ts\<close>) and the control
  operations on it (\<open>src/runtime/runnersControl.ts\<close>). Unlike the run store, writes to one runner
  pass a per-process queue, and updates that lose the revision race read again and retry.
  The lemmas show that the queue makes the writes of a process behave as if executed one after
  the other, that a retried heartbeat builds on what the other writer stored, and what the expiry
  and compaction passes change.
\<close>

section \<open>The store\<close>

record runnerRecord =
  rr_runnerId :: string
  rr_revision :: nat
  rr_persistedAt :: string
  rr_runner :: executionRunner

record runnerFs =
  nf_now :: rat
  nf_dirExists :: bool
  nf_dirs :: "string list"
  nf_record :: "string \<Rightarrow> runnerRecord jsonFile"
  nf_runner :: "string \<Rightarrow> executionRunner jsonFile"

definition ensureExecutionRunnerStorage :: "(runnerFs, unit) io" where
  "ensureExecutionRunnerStorage = (\<lambda>fs. (Inr (), fs\<lparr>nf_dirExists := True\<rparr>))"

definition readLegacyRunnerRecordAsStoredRecord :: "runnerFs \<Rightarrow> string \<Rightarrow> runnerRecord option result" where
  "readLegacyRunnerRecordAsStoredRecord fs runnerId =
     (case nf_runner fs runnerId of
        NoFile \<Rightarrow> Inr None
      | File _ BadJson \<Rightarrow> Inr None
      | File _ BadShape \<Rightarrow> Inl shapeError
      | File _ (Json r) \<Rightarrow> Inr (Some \<lparr>rr_runnerId = rnr_id r, rr_revision = 0,
          rr_persistedAt = rnr_lastHeartbeatAt r, rr_runner = r\<rparr>))"

definition readExecutionRunnerStoredRecord :: "runnerFs \<Rightarrow> string \<Rightarrow> runnerRecord option result" where
  "readExecutionRunnerStoredRecord fs runnerId =
     (case nf_record fs runnerId of
        NoFile \<Rightarrow> Inr None
      | File _ BadJson \<Rightarrow> readLegacyRunnerRecordAsStoredRecord fs runnerId
      | File _ BadShape \<Rightarrow> Inl shapeError
      | File _ (Json r) \<Rightarrow> Inr (Some r))"

definition readExecutionRunnerRecord :: "runnerFs \<Rightarrow> string \<Rightarrow> executionRunner option result" where
  "readExecutionRunnerRecord fs runnerId =
     (case readExecutionRunnerStoredRecord fs runnerId of
        Inl e \<Rightarrow> Inl e
      | Inr (Some r) \<Rightarrow> Inr (Some (rr_runner r))
      | Inr None \<Rightarrow>
          (case nf_runner fs runnerId of
             NoFile \<Rightarrow> Inr None
           | File _ BadJson \<Rightarrow> Inr None
           | File _ BadShape \<Rightarrow> Inl shapeError
           | File _ (Json r) \<Rightarrow> Inr (Some r)))"

definition runnerRevisionOf :: "runnerRecord option \<Rightarrow> nat" where
  "runnerRevisionOf r = (case r of None \<Rightarrow> 0 | Some x \<Rightarrow> rr_revision x)"

definition runnerMismatch :: "string \<Rightarrow> nat \<Rightarrow> nat \<Rightarrow> js_error" where
  "runnerMismatch runnerId expected found =
     PlainError (''Execution runner '' @ runnerId @ '' revision mismatch: expected ''
       @ natToStr expected @ '', found '' @ natToStr found)"

definition prepareRunner :: "executionRunner \<Rightarrow> writeOptions \<Rightarrow> runnerRecord option \<Rightarrow> runnerRecord result" where
  "prepareRunner r opts existing =
     (let next = \<lparr>rr_runnerId = rnr_id r, rr_revision = runnerRevisionOf existing + 1,
          rr_persistedAt = orElse (wo_persistedAt opts) (rnr_lastHeartbeatAt r), rr_runner = r\<rparr>
      in case wo_expectedRevision opts of
           None \<Rightarrow> Inr next
         | Some expected \<Rightarrow>
             if runnerRevisionOf existing \<noteq> expected
             then Inl (runnerMismatch (rnr_id r) expected (runnerRevisionOf existing))
             else Inr next)"

definition makeRunnerDir :: "string \<Rightarrow> runnerFs \<Rightarrow> runnerFs" where
  "makeRunnerDir i fs = fs\<lparr>nf_dirExists := True,
     nf_dirs := (if i \<in> set (nf_dirs fs) then nf_dirs fs else nf_dirs fs @ [i])\<rparr>"

definition writeRunnerRecordFile :: "runnerRecord \<Rightarrow> runnerFs \<Rightarrow> runnerFs" where
  "writeRunnerRecordFile r fs =
     fs\<lparr>nf_record := (nf_record fs)(rr_runnerId r := File (nf_now fs) (Json r))\<rparr>"

definition writeRunnerFile :: "executionRunner \<Rightarrow> runnerFs \<Rightarrow> runnerFs" where
  "writeRunnerFile r fs = fs\<lparr>nf_runner := (nf_runner fs)(rnr_id r := File (nf_now fs) (Json r))\<rparr>"

definition writeExecutionRunnerStoredRecordNow ::
  "executionRunner \<Rightarrow> writeOptions \<Rightarrow> (runnerFs, runnerRecord) io" where
  "writeExecutionRunnerStoredRecordNow r opts = (\<lambda>fs.
     (case readExecutionRunnerStoredRecord fs (rnr_id r) of
        Inl e \<Rightarrow> (Inl e, fs)
      | Inr existing \<Rightarrow>
          (case prepareRunner r opts existing of
             Inl e \<Rightarrow> (Inl e, fs)
           | Inr next \<Rightarrow>
               (Inr next, writeRunnerFile r (writeRunnerRecordFile next (makeRunnerDir (rnr_id r) fs))))))"

record runnerListOptions =
  nl_limit :: "js_num option"
  nl_status :: "executionRunnerStatus option"
  nl_hostId :: "string option"
  nl_serviceId :: "serviceId option"

definition runnerMatches :: "runnerListOptions \<Rightarrow> executionRunner \<Rightarrow> bool" where
  "runnerMatches opts r =
     ((case nl_status opts of None \<Rightarrow> True | Some s \<Rightarrow> rnr_status r = s) \<and>
      (case nl_hostId opts of None \<Rightarrow> True | Some h \<Rightarrow> h = [] \<or> rnr_hostId r = h) \<and>
      (case nl_serviceId opts of None \<Rightarrow> True | Some s \<Rightarrow> s \<in> set (rnr_serviceIds r)))"

definition listExecutionRunnerRecords ::
  "(string \<Rightarrow> string \<Rightarrow> bool) \<Rightarrow> runnerListOptions \<Rightarrow> runnerFs \<Rightarrow> executionRunner list result" where
  "listExecutionRunnerRecords le opts fs =
     (if \<not> nf_dirExists fs then Inr []
      else case traverse (readExecutionRunnerRecord fs) (nf_dirs fs) of
        Inl e \<Rightarrow> Inl e
      | Inr found \<Rightarrow> Inr (sliceLimit (nl_limit opts)
          (sortBy (newestFirst le rnr_lastHeartbeatAt) (filter (runnerMatches opts) (somes found)))))"

definition deleteExecutionRunnerRecord :: "string \<Rightarrow> (runnerFs, unit) io" where
  "deleteExecutionRunnerRecord i = (\<lambda>fs. (Inr (),
     fs\<lparr>nf_dirs := filter (\<lambda>d. d \<noteq> i) (nf_dirs fs), nf_record := (nf_record fs)(i := NoFile),
        nf_runner := (nf_runner fs)(i := NoFile)\<rparr>))"

section \<open>The write queue of a process\<close>

text \<open>
  \<open>withRunnerWriteQueue\<close> chains each write on the previous one of the same runner
  (\<open>previous.then(write, write)\<close>): a write starts when its predecessor has settled, failed or
  not. The queue below is that chain for one runner; its head is cut at its \<open>await\<close>s, and
  \<open>rq_submitted\<close> records the calls in the order they were made.
\<close>

datatype runnerWrite =
    RWQueued executionRunner writeOptions
  | RWChecked runnerRecord
  | RWRecordWritten runnerRecord

record runnerQueue =
  rq_fs :: runnerFs
  rq_pending :: "runnerWrite list"
  rq_settled :: "runnerRecord result list"
  rq_submitted :: "(executionRunner \<times> writeOptions) list"

inductive queue_step :: "runnerQueue \<Rightarrow> runnerQueue \<Rightarrow> bool" where
  read_broken: "rq_pending q = RWQueued r opts # ws \<Longrightarrow>
    readExecutionRunnerStoredRecord (rq_fs q) (rnr_id r) = Inl e \<Longrightarrow>
    queue_step q (q\<lparr>rq_pending := ws, rq_settled := rq_settled q @ [Inl e]\<rparr>)"
| refused: "rq_pending q = RWQueued r opts # ws \<Longrightarrow>
    readExecutionRunnerStoredRecord (rq_fs q) (rnr_id r) = Inr cur \<Longrightarrow> prepareRunner r opts cur = Inl e \<Longrightarrow>
    queue_step q (q\<lparr>rq_pending := ws, rq_settled := rq_settled q @ [Inl e]\<rparr>)"
| checked: "rq_pending q = RWQueued r opts # ws \<Longrightarrow>
    readExecutionRunnerStoredRecord (rq_fs q) (rnr_id r) = Inr cur \<Longrightarrow> prepareRunner r opts cur = Inr x \<Longrightarrow>
    queue_step q (q\<lparr>rq_pending := RWChecked x # ws\<rparr>)"
| record_written: "rq_pending q = RWChecked x # ws \<Longrightarrow>
    queue_step q (q\<lparr>rq_fs := writeRunnerRecordFile x (makeRunnerDir (rr_runnerId x) (rq_fs q)),
      rq_pending := RWRecordWritten x # ws\<rparr>)"
| settled: "rq_pending q = RWRecordWritten x # ws \<Longrightarrow>
    queue_step q (q\<lparr>rq_fs := writeRunnerFile (rr_runner x) (rq_fs q), rq_pending := ws,
      rq_settled := rq_settled q @ [Inr x]\<rparr>)"
| enqueue: "queue_step q (q\<lparr>rq_pending := rq_pending q @ [RWQueued r opts],
      rq_submitted := rq_submitted q @ [(r, opts)]\<rparr>)"

inductive_cases queue_stepE: "queue_step q q'"

text \<open>The specification: the writes executed one after the other.\<close>

fun writeAll :: "(executionRunner \<times> writeOptions) list \<Rightarrow> runnerFs \<Rightarrow> runnerRecord result list \<times> runnerFs" where
  "writeAll [] fs = ([], fs)"
| "writeAll ((r, opts) # ws) fs =
     (let (res, fs') = writeExecutionRunnerStoredRecordNow r opts fs; (rs, fs'') = writeAll ws fs'
      in (res # rs, fs''))"

lemma writeAll_append:
  "writeAll (xs @ ys) fs = (let (rs, fs') = writeAll xs fs; (ss, fs'') = writeAll ys fs' in (rs @ ss, fs''))"
  by (induction xs arbitrary: fs) (auto simp: Let_def split: prod.split)

text \<open>
  Where a queue can be: the settled writes have been executed in order, and the head of the rest
  may be in flight.
\<close>

abbreviation (input) queuedWrites :: "(executionRunner \<times> writeOptions) list \<Rightarrow> runnerWrite list" where
  "queuedWrites ws \<equiv> map (\<lambda>(r, opts). RWQueued r opts) ws"

inductive queueAt :: "runnerFs \<Rightarrow> runnerQueue \<Rightarrow> bool" for fs0 where
  idle: "writeAll past fs0 = (rs, fs) \<Longrightarrow> queueAt fs0
    \<lparr>rq_fs = fs, rq_pending = queuedWrites rest, rq_settled = rs, rq_submitted = past @ rest\<rparr>"
| checked: "writeAll past fs0 = (rs, fs) \<Longrightarrow>
    readExecutionRunnerStoredRecord fs (rnr_id r) = Inr cur \<Longrightarrow> prepareRunner r opts cur = Inr x \<Longrightarrow>
    queueAt fs0 \<lparr>rq_fs = fs, rq_pending = RWChecked x # queuedWrites rest, rq_settled = rs,
      rq_submitted = past @ (r, opts) # rest\<rparr>"
| written: "writeAll past fs0 = (rs, fs) \<Longrightarrow>
    readExecutionRunnerStoredRecord fs (rnr_id r) = Inr cur \<Longrightarrow> prepareRunner r opts cur = Inr x \<Longrightarrow>
    queueAt fs0 \<lparr>rq_fs = writeRunnerRecordFile x (makeRunnerDir (rr_runnerId x) fs),
      rq_pending = RWRecordWritten x # queuedWrites rest, rq_settled = rs,
      rq_submitted = past @ (r, opts) # rest\<rparr>"

lemma prepareRunner_Inr:
  "prepareRunner r opts cur = Inr x \<longleftrightarrow> wo_expectedRevision opts \<in> {None, Some (runnerRevisionOf cur)} \<and>
     x = \<lparr>rr_runnerId = rnr_id r, rr_revision = runnerRevisionOf cur + 1,
       rr_persistedAt = orElse (wo_persistedAt opts) (rnr_lastHeartbeatAt r), rr_runner = r\<rparr>"
  by (auto simp: prepareRunner_def Let_def split: option.splits)

lemma writeAll_snoc:
  "writeAll past fs0 = (rs, fs) \<Longrightarrow> writeExecutionRunnerStoredRecordNow r opts fs = (res, fs') \<Longrightarrow>
   writeAll (past @ [(r, opts)]) fs0 = (rs @ [res], fs')"
  by (simp add: writeAll_append)

lemma queueAt_snoc:
  assumes "writeAll past fs0 = (rs, fs)" "writeExecutionRunnerStoredRecordNow r opts fs = (res, fs')"
  shows "queueAt fs0 \<lparr>rq_fs = fs', rq_pending = queuedWrites rest, rq_settled = rs @ [res],
    rq_submitted = past @ (r, opts) # rest\<rparr>"
  using queueAt.idle [OF writeAll_snoc [OF assms], of rest] by simp

lemma queuedWrites_Cons:
  "queuedWrites rest = RWQueued r opts # ws \<longleftrightarrow> (\<exists>rest'. rest = (r, opts) # rest' \<and> ws = queuedWrites rest')"
  by (cases rest) auto

lemma prepareRunner_fields:
  "prepareRunner r opts cur = Inr x \<Longrightarrow> rr_runnerId x = rnr_id r \<and> rr_runner x = r
     \<and> rr_revision x = runnerRevisionOf cur + 1"
  by (auto simp: prepareRunner_Inr)

lemma writeNow_split:
  "readExecutionRunnerStoredRecord fs (rnr_id r) = Inl e \<Longrightarrow> writeExecutionRunnerStoredRecordNow r opts fs = (Inl e, fs)"
  "readExecutionRunnerStoredRecord fs (rnr_id r) = Inr cur \<Longrightarrow> prepareRunner r opts cur = Inl e \<Longrightarrow>
    writeExecutionRunnerStoredRecordNow r opts fs = (Inl e, fs)"
  "readExecutionRunnerStoredRecord fs (rnr_id r) = Inr cur \<Longrightarrow> prepareRunner r opts cur = Inr x \<Longrightarrow>
    writeExecutionRunnerStoredRecordNow r opts fs =
      (Inr x, writeRunnerFile (rr_runner x) (writeRunnerRecordFile x (makeRunnerDir (rr_runnerId x) fs)))"
  by (simp_all add: writeExecutionRunnerStoredRecordNow_def prepareRunner_fields)

lemma queueAt_step: "queueAt fs0 q \<Longrightarrow> queue_step q q' \<Longrightarrow> queueAt fs0 q'"
proof (induction rule: queueAt.induct)
  case (idle past rs fs rest)
  from idle.prems show ?case
  proof (cases rule: queue_step.cases)
    case (read_broken r opts ws e)
    then obtain rest' where r: "rest = (r, opts) # rest'" "ws = queuedWrites rest'"
      by (auto simp: queuedWrites_Cons)
    from queueAt_snoc [OF idle.hyps writeNow_split(1)] read_broken r show ?thesis by simp
  next
    case (refused r opts ws cur e)
    then obtain rest' where r: "rest = (r, opts) # rest'" "ws = queuedWrites rest'"
      by (auto simp: queuedWrites_Cons)
    from queueAt_snoc [OF idle.hyps writeNow_split(2)] refused r show ?thesis by simp
  next
    case (checked r opts ws cur x)
    then obtain rest' where r: "rest = (r, opts) # rest'" "ws = queuedWrites rest'"
      by (auto simp: queuedWrites_Cons)
    from queueAt.checked [OF idle.hyps] checked r show ?thesis by simp
  next
    case (enqueue r opts)
    from queueAt.idle [OF idle.hyps, of "rest @ [(r, opts)]"] enqueue show ?thesis by simp
  qed auto
next
  case (checked past rs fs r cur opts x rest)
  from checked.prems show ?case
  proof (cases rule: queue_step.cases)
    case (record_written x' ws)
    then have "x' = x" "ws = queuedWrites rest" by simp_all
    with record_written queueAt.written [OF checked.hyps, of rest] show ?thesis by simp
  next
    case (enqueue r' opts')
    from queueAt.checked [OF checked.hyps, of "rest @ [(r', opts')]"] enqueue show ?thesis by simp
  qed auto
next
  case (written past rs fs r cur opts x rest)
  from written.prems show ?case
  proof (cases rule: queue_step.cases)
    case settled
    with queueAt_snoc [OF written.hyps(1) writeNow_split(3) [OF written.hyps(2,3)], of rest]
    show ?thesis by simp
  next
    case (enqueue r' opts')
    from queueAt.written [OF written.hyps, of "rest @ [(r', opts')]"] enqueue show ?thesis by simp
  qed auto
qed

definition queueInit :: "runnerFs \<Rightarrow> runnerQueue" where
  "queueInit fs = \<lparr>rq_fs = fs, rq_pending = [], rq_settled = [], rq_submitted = []\<rparr>"

lemma queueAt_reachable: "queue_step\<^sup>*\<^sup>* (queueInit fs0) q \<Longrightarrow> queueAt fs0 q"
proof (induction rule: rtranclp_induct)
  case base
  show ?case using queueAt.idle [of "[]" fs0 "[]" fs0 "[]"] by (simp add: queueInit_def)
next
  case (step y z)
  then show ?case using queueAt_step by blast
qed

text \<open>C14. The write queue linearises a process's writes to a runner: whenever it has drained, the
  files and the outcome of every call, refusals included, are exactly those of executing the
  submitted writes one after the other in the order they were made.\<close>

theorem runner_writes_are_serialised:
  assumes "queue_step\<^sup>*\<^sup>* (queueInit fs0) q" "rq_pending q = []"
  shows "writeAll (rq_submitted q) fs0 = (rq_settled q, rq_fs q)"
  using queueAt_reachable [OF assms(1)] assms(2) by (cases rule: queueAt.cases) auto

definition demoRunner :: "string \<Rightarrow> executionRunnerStatus \<Rightarrow> string \<Rightarrow> string \<Rightarrow> executionRunner" where
  "demoRunner i st hb ex =
     \<lparr>rnr_id = i, rnr_hostId = ''h'', rnr_status = st, rnr_startedAt = ''t0'', rnr_lastHeartbeatAt = hb,
      rnr_expiresAt = ex, rnr_lastActivityAt = None, rnr_lastClaimedRunId = None, rnr_serviceIds = [],
      rnr_runtimeProfileIds = [], rnr_browserProfileIds = [], rnr_serviceAccountIds = [],
      rnr_browserCapable = False, rnr_eligibilityNote = None\<rparr>"

definition emptyRunnerFs :: runnerFs where
  "emptyRunnerFs = \<lparr>nf_now = 0, nf_dirExists = False, nf_dirs = [], nf_record = (\<lambda>_. NoFile), nf_runner = (\<lambda>_. NoFile)\<rparr>"

lemma runner_writes_are_serialised_witness:
  "\<exists>q. queue_step\<^sup>*\<^sup>* (queueInit emptyRunnerFs) q \<and> rq_pending q = [] \<and> length (rq_settled q) = 1
     \<and> writeAll [(demoRunner ''a'' RunnerActive ''t1'' ''t2'', expecting 0)] emptyRunnerFs = (rq_settled q, rq_fs q)"
proof -
  let ?r = "demoRunner ''a'' RunnerActive ''t1'' ''t2''"
  let ?q0 = "queueInit emptyRunnerFs"
  let ?q1 = "?q0\<lparr>rq_pending := rq_pending ?q0 @ [RWQueued ?r (expecting 0)],
      rq_submitted := rq_submitted ?q0 @ [(?r, expecting 0)]\<rparr>"
  obtain x where x: "prepareRunner ?r (expecting 0) None = Inr x"
    by (simp add: prepareRunner_def expecting_def runnerRevisionOf_def)
  let ?q2 = "?q1\<lparr>rq_pending := [RWChecked x]\<rparr>"
  let ?q3 = "?q2\<lparr>rq_fs := writeRunnerRecordFile x (makeRunnerDir (rr_runnerId x) (rq_fs ?q2)),
      rq_pending := [RWRecordWritten x]\<rparr>"
  let ?q4 = "?q3\<lparr>rq_fs := writeRunnerFile (rr_runner x) (rq_fs ?q3), rq_pending := [],
      rq_settled := rq_settled ?q3 @ [Inr x]\<rparr>"
  have "queue_step ?q0 ?q1" by (rule queue_step.enqueue)
  moreover have "queue_step ?q1 ?q2"
    by (rule queue_step.checked [where ws = "[]", OF _ _ x])
      (simp_all add: queueInit_def readExecutionRunnerStoredRecord_def emptyRunnerFs_def)
  moreover have "queue_step ?q2 ?q3" by (rule queue_step.record_written) simp
  moreover have "queue_step ?q3 ?q4" by (rule queue_step.settled) simp
  ultimately have r: "queue_step\<^sup>*\<^sup>* ?q0 ?q4" by (meson converse_rtranclp_into_rtranclp rtranclp.rtrancl_refl)
  from runner_writes_are_serialised [OF r] r show ?thesis
    by (intro exI [of _ ?q4]) (simp add: queueInit_def)
qed

section \<open>Control operations\<close>

record 'w runnerStore =
  ns_ensureStorage :: "('w, unit) io"
  ns_writeRunner :: "executionRunner \<Rightarrow> writeOptions \<Rightarrow> ('w, runnerRecord) io"
  ns_readRecord :: "string \<Rightarrow> ('w, runnerRecord option) io"
  ns_listRunners :: "runnerListOptions \<Rightarrow> ('w, executionRunner list) io"
  ns_deleteRunner :: "string \<Rightarrow> ('w, unit) io"

text \<open>Calls made one after the other find the write queue empty.\<close>

definition createExecutionRunnerRecordStore :: "(string \<Rightarrow> string \<Rightarrow> bool) \<Rightarrow> runnerFs runnerStore" where
  "createExecutionRunnerRecordStore le =
     \<lparr>ns_ensureStorage = ensureExecutionRunnerStorage,
      ns_writeRunner = writeExecutionRunnerStoredRecordNow,
      ns_readRecord = (\<lambda>i fs. (readExecutionRunnerStoredRecord fs i, fs)),
      ns_listRunners = (\<lambda>opts fs. (listExecutionRunnerRecords le opts fs, fs)),
      ns_deleteRunner = deleteExecutionRunnerRecord\<rparr>"

definition registerRunner :: "'w runnerStore \<Rightarrow> executionRunner \<Rightarrow> ('w, runnerRecord) io" where
  "registerRunner N r = ioBind (ns_ensureStorage N) (\<lambda>_. ns_writeRunner N r (expecting 0))"

definition requireStoredRunnerRecord :: "'w runnerStore \<Rightarrow> string \<Rightarrow> ('w, runnerRecord) io" where
  "requireStoredRunnerRecord N i = ioBind (ns_readRecord N i) (\<lambda>r. case r of
     None \<Rightarrow> ioThrow (PlainError (''Execution runner '' @ i @ '' was not found''))
   | Some rec \<Rightarrow> ioReturn rec)"

definition isRunnerRevisionMismatchError :: "js_error \<Rightarrow> string \<Rightarrow> bool" where
  "isRunnerRevisionMismatchError e i =
     str_includes (error_message e) (''Execution runner '' @ i @ '' revision mismatch'')"

definition RUNNER_UPDATE_MAX_ATTEMPTS :: nat where
  "RUNNER_UPDATE_MAX_ATTEMPTS = 3"

text \<open>The loop with \<open>n\<close> attempts left; \<open>build\<close> is given the record just read.\<close>

fun updateRunnerAttempts ::
  "'w runnerStore \<Rightarrow> string \<Rightarrow> (runnerRecord \<Rightarrow> executionRunner \<times> string option) \<Rightarrow> nat \<Rightarrow>
   js_error \<Rightarrow> ('w, runnerRecord) io" where
  "updateRunnerAttempts N i build 0 lastMismatch = ioThrow lastMismatch"
| "updateRunnerAttempts N i build (Suc n) lastMismatch =
     ioBind (requireStoredRunnerRecord N i) (\<lambda>rec.
       (let (r, persistedAt) = build rec in
        ioCatch (ns_writeRunner N r \<lparr>wo_expectedRevision = Some (rr_revision rec), wo_persistedAt = persistedAt\<rparr>)
          (\<lambda>e. if isRunnerRevisionMismatchError e i then updateRunnerAttempts N i build n e
               else ioThrow e)))"

declare updateRunnerAttempts.simps [simp del]

definition updateRunnerWithRevisionRetry ::
  "'w runnerStore \<Rightarrow> string \<Rightarrow> (runnerRecord \<Rightarrow> executionRunner \<times> string option) \<Rightarrow> ('w, runnerRecord) io" where
  "updateRunnerWithRevisionRetry N i build = updateRunnerAttempts N i build RUNNER_UPDATE_MAX_ATTEMPTS
     (PlainError (''Execution runner '' @ i @ '' revision mismatch after retry''))"

record heartbeatRunnerInput =
  hr_runnerId :: string
  hr_heartbeatAt :: string
  hr_expiresAt :: string
  hr_serviceIds :: "serviceId list option"
  hr_runtimeProfileIds :: "string list option"
  hr_browserProfileIds :: "string list option"
  hr_serviceAccountIds :: "string list option"
  hr_browserCapable :: "bool option"
  hr_eligibilityNote :: "string option"

definition orElseOpt :: "'a option \<Rightarrow> 'a option \<Rightarrow> 'a option" where
  "orElseOpt x y = (case x of None \<Rightarrow> y | Some v \<Rightarrow> Some v)"

definition heartbeatOf :: "heartbeatRunnerInput \<Rightarrow> executionRunner \<Rightarrow> executionRunner" where
  "heartbeatOf inp r = createExecutionRunnerRecord ((runnerInputOf r)
     \<lparr>cni_status := Some RunnerActive,
      cni_lastHeartbeatAt := Some (hr_heartbeatAt inp),
      cni_expiresAt := hr_expiresAt inp,
      cni_serviceIds := Some (orElse (hr_serviceIds inp) (rnr_serviceIds r)),
      cni_runtimeProfileIds := Some (orElse (hr_runtimeProfileIds inp) (rnr_runtimeProfileIds r)),
      cni_browserProfileIds := Some (orElse (hr_browserProfileIds inp) (rnr_browserProfileIds r)),
      cni_serviceAccountIds := Some (orElse (hr_serviceAccountIds inp) (rnr_serviceAccountIds r)),
      cni_browserCapable := Some (orElse (hr_browserCapable inp) (rnr_browserCapable r)),
      cni_eligibilityNote := orElseOpt (hr_eligibilityNote inp) (rnr_eligibilityNote r)\<rparr>)"

definition heartbeatRunner :: "'w runnerStore \<Rightarrow> heartbeatRunnerInput \<Rightarrow> ('w, runnerRecord) io" where
  "heartbeatRunner N inp =
     updateRunnerWithRevisionRetry N (hr_runnerId inp) (\<lambda>rec. (heartbeatOf inp (rr_runner rec), None))"

definition staleOf :: "string \<Rightarrow> string option \<Rightarrow> executionRunner \<Rightarrow> executionRunner" where
  "staleOf staleAt note r = createExecutionRunnerRecord ((runnerInputOf r)
     \<lparr>cni_status := Some RunnerStale, cni_expiresAt := staleAt,
      cni_eligibilityNote := orElseOpt note (rnr_eligibilityNote r)\<rparr>)"

definition markRunnerStale :: "'w runnerStore \<Rightarrow> string \<Rightarrow> string \<Rightarrow> string option \<Rightarrow> ('w, runnerRecord) io" where
  "markRunnerStale N i staleAt note = ioBind (requireStoredRunnerRecord N i) (\<lambda>rec.
     ns_writeRunner N (staleOf staleAt note (rr_runner rec))
       \<lparr>wo_expectedRevision = Some (rr_revision rec), wo_persistedAt = Some staleAt\<rparr>)"

definition recordRunnerActivity ::
  "'w runnerStore \<Rightarrow> string \<Rightarrow> string \<Rightarrow> string \<Rightarrow> string option \<Rightarrow> ('w, runnerRecord) io" where
  "recordRunnerActivity N i activityAt runId note =
     updateRunnerWithRevisionRetry N i (\<lambda>rec.
       (createExecutionRunnerRecord ((runnerInputOf (rr_runner rec))
          \<lparr>cni_lastActivityAt := Some activityAt, cni_lastClaimedRunId := Some runId,
           cni_eligibilityNote := orElseOpt note (rnr_eligibilityNote (rr_runner rec))\<rparr>),
        Some activityAt))"

fun readRunnerRecords :: "'w runnerStore \<Rightarrow> executionRunner list \<Rightarrow> ('w, runnerRecord option list) io" where
  "readRunnerRecords N [] = ioReturn []"
| "readRunnerRecords N (r # rs) = ioBind (ns_readRecord N (rnr_id r)) (\<lambda>x.
     ioBind (readRunnerRecords N rs) (\<lambda>xs. ioReturn (x # xs)))"

definition controlListRunners :: "'w runnerStore \<Rightarrow> runnerListOptions \<Rightarrow> ('w, runnerRecord list) io" where
  "controlListRunners N opts = ioBind (ns_listRunners N opts) (\<lambda>rs.
     ioBind (readRunnerRecords N rs) (\<lambda>xs. ioReturn (somes xs)))"

fun markDueRunners :: "'w runnerStore \<Rightarrow> string \<Rightarrow> string option \<Rightarrow> runnerRecord list \<Rightarrow> ('w, runnerRecord list) io" where
  "markDueRunners N now note [] = ioReturn []"
| "markDueRunners N now note (rec # recs) =
     (if rnr_status (rr_runner rec) \<noteq> RunnerActive then markDueRunners N now note recs
      else if rnr_expiresAt (rr_runner rec) > now then markDueRunners N now note recs
      else ioBind (markRunnerStale N (rr_runnerId rec) now
             (Some (orElse (orElseOpt note (rnr_eligibilityNote (rr_runner rec))) ''runner heartbeat expired'')))
           (\<lambda>u. ioBind (markDueRunners N now note recs) (\<lambda>us. ioReturn (u # us))))"

definition allRunners :: runnerListOptions where
  "allRunners = \<lparr>nl_limit = None, nl_status = None, nl_hostId = None, nl_serviceId = None\<rparr>"

definition expireRunners :: "'w runnerStore \<Rightarrow> string \<Rightarrow> string option \<Rightarrow> ('w, string list \<times> runnerRecord list) io" where
  "expireRunners N now note = ioBind (controlListRunners N allRunners) (\<lambda>recs.
     ioBind (markDueRunners N now note recs) (\<lambda>us. ioReturn (map rr_runnerId us, us)))"

fun deleteRunners :: "'w runnerStore \<Rightarrow> string list \<Rightarrow> ('w, unit) io" where
  "deleteRunners N [] = ioReturn ()"
| "deleteRunners N (i # is) = ioBind (ns_deleteRunner N i) (\<lambda>_. deleteRunners N is)"

record compactResult =
  cr_scanned :: nat
  cr_retained :: "string list"
  cr_deleted :: "string list"

definition compactStaleRunners :: "'w runnerStore \<Rightarrow> rat \<Rightarrow> ('w, compactResult) io" where
  "compactStaleRunners N keep = ioBind (ns_ensureStorage N) (\<lambda>_.
     ioBind (ns_listRunners N (allRunners\<lparr>nl_status := Some RunnerStale\<rparr>)) (\<lambda>stale.
       (let keepNewest = nat (max 0 \<lfloor>keep\<rfloor>);
            retained = map rnr_id (take keepNewest stale);
            deleted = map rnr_id (drop keepNewest stale)
        in ioBind (deleteRunners N deleted) (\<lambda>_.
             ioReturn \<lparr>cr_scanned = length stale, cr_retained = retained, cr_deleted = deleted\<rparr>))))"

section \<open>What the runner store owes its callers\<close>

locale runnerContract =
  fixes N :: "'w runnerStore" and peek :: "'w \<Rightarrow> string \<Rightarrow> runnerRecord option result"
  assumes read_eq: "ns_readRecord N i w = (peek w i, w)"
    and write_mismatch: "peek w (rnr_id r) = Inr cur \<Longrightarrow> runnerRevisionOf cur \<noteq> n \<Longrightarrow>
      ns_writeRunner N r \<lparr>wo_expectedRevision = Some n, wo_persistedAt = t0\<rparr> w
        = (Inl (runnerMismatch (rnr_id r) n (runnerRevisionOf cur)), w)"
    and write_match: "peek w (rnr_id r) = Inr cur \<Longrightarrow>
      \<exists>rec w'. ns_writeRunner N r \<lparr>wo_expectedRevision = Some (runnerRevisionOf cur), wo_persistedAt = t0\<rparr> w
          = (Inr rec, w')
        \<and> rec = \<lparr>rr_runnerId = rnr_id r, rr_revision = runnerRevisionOf cur + 1,
             rr_persistedAt = orElse t0 (rnr_lastHeartbeatAt r), rr_runner = r\<rparr>
        \<and> (\<forall>i. peek w' i = (if i = rnr_id r then Inr (Some rec) else peek w i))"
begin

lemma require_ok: "peek w i = Inr (Some rec) \<Longrightarrow> requireStoredRunnerRecord N i w = (Inr rec, w)"
  by (simp add: requireStoredRunnerRecord_def io_defs read_eq)

lemma markRunnerStale_ok:
  assumes "peek w i = Inr (Some rec)" "rnr_id (rr_runner rec) = i"
  obtains u w' where "markRunnerStale N i now note w = (Inr u, w')" "rr_runnerId u = i"
    "rr_runner u = staleOf now note (rr_runner rec)" "rr_revision u = rr_revision rec + 1"
    "\<And>j. peek w' j = (if j = i then Inr (Some u) else peek w j)"
proof -
  let ?r = "staleOf now note (rr_runner rec)"
  have i: "rnr_id ?r = i" using assms(2) by (simp add: staleOf_def createExecutionRunnerRecord_def runnerInputOf_def)
  obtain u w' where w: "ns_writeRunner N ?r \<lparr>wo_expectedRevision = Some (rr_revision rec), wo_persistedAt = Some now\<rparr> w
        = (Inr u, w')"
    and u: "u = \<lparr>rr_runnerId = i, rr_revision = rr_revision rec + 1, rr_persistedAt = now, rr_runner = ?r\<rparr>"
    and p: "\<And>j. peek w' j = (if j = i then Inr (Some u) else peek w j)"
    using write_match [of w ?r "Some rec" "Some now"] assms(1) i by (auto simp: runnerRevisionOf_def)
  from w have "markRunnerStale N i now note w = (Inr u, w')"
    using require_ok [OF assms(1)] by (simp add: markRunnerStale_def ioBind_def)
  moreover have "rr_runnerId u = i" "rr_runner u = ?r" "rr_revision u = rr_revision rec + 1"
    by (simp_all add: u)
  ultimately show thesis using p by (rule that)
qed

definition dueRunner :: "string \<Rightarrow> runnerRecord \<Rightarrow> bool" where
  "dueRunner now rec = (rnr_status (rr_runner rec) = RunnerActive \<and> \<not> rnr_expiresAt (rr_runner rec) > now)"

lemma markDueRunners_ok:
  assumes "distinct (map rr_runnerId recs)"
    and "\<And>rec. rec \<in> set recs \<Longrightarrow> peek w (rr_runnerId rec) = Inr (Some rec) \<and> rnr_id (rr_runner rec) = rr_runnerId rec"
  shows "\<exists>us w'. markDueRunners N now note recs w = (Inr us, w')
    \<and> map rr_runnerId us = map rr_runnerId (filter (dueRunner now) recs)
    \<and> (\<forall>u\<in>set us. peek w' (rr_runnerId u) = Inr (Some u) \<and> rnr_status (rr_runner u) = RunnerStale
         \<and> rnr_expiresAt (rr_runner u) = now)
    \<and> (\<forall>i. i \<notin> set (map rr_runnerId us) \<longrightarrow> peek w' i = peek w i)"
  using assms
proof (induction recs arbitrary: w)
  case Nil
  then show ?case by (simp add: ioReturn_def)
next
  case (Cons rec recs)
  show ?case
  proof (cases "dueRunner now rec")
    case False
    then have "markDueRunners N now note (rec # recs) = markDueRunners N now note recs"
      by (auto simp: dueRunner_def)
    with False Cons.IH [of w] Cons.prems show ?thesis by simp
  next
    case True
    let ?note = "Some (orElse (orElseOpt note (rnr_eligibilityNote (rr_runner rec))) ''runner heartbeat expired'')"
    from Cons.prems(2) [of rec] have "peek w (rr_runnerId rec) = Inr (Some rec)"
      "rnr_id (rr_runner rec) = rr_runnerId rec" by simp_all
    then obtain u w1 where u: "markRunnerStale N (rr_runnerId rec) now ?note w = (Inr u, w1)"
      "rr_runnerId u = rr_runnerId rec" "rr_runner u = staleOf now ?note (rr_runner rec)"
      and p: "\<And>j. peek w1 j = (if j = rr_runnerId rec then Inr (Some u) else peek w j)"
      using markRunnerStale_ok [of w "rr_runnerId rec" rec now ?note] by metis
    have later: "\<And>x. x \<in> set recs \<Longrightarrow> peek w1 (rr_runnerId x) = Inr (Some x) \<and> rnr_id (rr_runner x) = rr_runnerId x"
      using Cons.prems p by (auto simp: image_iff)
    from Cons.prems(1) have dist: "distinct (map rr_runnerId recs)" by simp
    from Cons.IH [OF dist later] obtain us w' where
      us: "markDueRunners N now note recs w1 = (Inr us, w')"
        "map rr_runnerId us = map rr_runnerId (filter (dueRunner now) recs)"
        "\<forall>u\<in>set us. peek w' (rr_runnerId u) = Inr (Some u) \<and> rnr_status (rr_runner u) = RunnerStale
         \<and> rnr_expiresAt (rr_runner u) = now"
        "\<forall>i. i \<notin> set (map rr_runnerId us) \<longrightarrow> peek w' i = peek w1 i" by blast
    have "rr_runnerId rec \<notin> set (map rr_runnerId us)"
      using us(2) Cons.prems(1) by auto
    with us(4) p u(2) have pu: "peek w' (rr_runnerId u) = Inr (Some u)" by simp
    have stale: "rnr_status (rr_runner u) = RunnerStale" "rnr_expiresAt (rr_runner u) = now"
      by (simp_all add: u(3) staleOf_def createExecutionRunnerRecord_def)
    have "markDueRunners N now note (rec # recs) w = (Inr (u # us), w')"
      using True u(1) us(1) by (simp add: dueRunner_def ioBind_def ioReturn_def)
    moreover have "map rr_runnerId (u # us) = map rr_runnerId (filter (dueRunner now) (rec # recs))"
      using True us(2) u(2) by simp
    moreover have "\<forall>x\<in>set (u # us). peek w' (rr_runnerId x) = Inr (Some x)
        \<and> rnr_status (rr_runner x) = RunnerStale \<and> rnr_expiresAt (rr_runner x) = now"
      using us(3) pu stale by simp
    moreover have "\<forall>i. i \<notin> set (map rr_runnerId (u # us)) \<longrightarrow> peek w' i = peek w i"
      using us(4) p u(2) by simp
    ultimately show ?thesis by blast
  qed
qed

end

lemma readRunner_eq:
  "readExecutionRunnerStoredRecord (writeRunnerFile r (writeRunnerRecordFile x (makeRunnerDir d fs))) i =
     (if i = rr_runnerId x then Inr (Some x) else
      if i = rnr_id r \<and> (\<exists>t0. nf_record fs i = File t0 BadJson)
      then Inr (Some \<lparr>rr_runnerId = i, rr_revision = 0, rr_persistedAt = rnr_lastHeartbeatAt r, rr_runner = r\<rparr>)
      else readExecutionRunnerStoredRecord fs i)"
  by (simp add: readExecutionRunnerStoredRecord_def readLegacyRunnerRecordAsStoredRecord_def
      writeRunnerFile_def writeRunnerRecordFile_def makeRunnerDir_def split: jsonFile.split content.split)

lemma runnerFileStore_simps [simp]:
  "ns_readRecord (createExecutionRunnerRecordStore le) i fs = (readExecutionRunnerStoredRecord fs i, fs)"
  "ns_writeRunner (createExecutionRunnerRecordStore le) = writeExecutionRunnerStoredRecordNow"
  "ns_ensureStorage (createExecutionRunnerRecordStore le) = ensureExecutionRunnerStorage"
  "ns_listRunners (createExecutionRunnerRecordStore le) opts fs = (listExecutionRunnerRecords le opts fs, fs)"
  "ns_deleteRunner (createExecutionRunnerRecordStore le) = deleteExecutionRunnerRecord"
  by (simp_all add: createExecutionRunnerRecordStore_def)

interpretation runnerFiles: runnerContract "createExecutionRunnerRecordStore le" readExecutionRunnerStoredRecord for le
proof unfold_locales
  fix fs :: runnerFs and r :: executionRunner and cur t0
  assume cur: "readExecutionRunnerStoredRecord fs (rnr_id r) = Inr cur"
  let ?x = "\<lparr>rr_runnerId = rnr_id r, rr_revision = runnerRevisionOf cur + 1,
             rr_persistedAt = orElse t0 (rnr_lastHeartbeatAt r), rr_runner = r\<rparr>"
  let ?opts = "\<lparr>wo_expectedRevision = Some (runnerRevisionOf cur), wo_persistedAt = t0\<rparr>"
  have "prepareRunner r ?opts cur = Inr ?x" by (simp add: prepareRunner_Inr)
  with writeNow_split(3) [OF cur this]
  show "\<exists>rec fs'. ns_writeRunner (createExecutionRunnerRecordStore le) r ?opts fs = (Inr rec, fs') \<and> rec = ?x
    \<and> (\<forall>i. readExecutionRunnerStoredRecord fs' i = (if i = rnr_id r then Inr (Some rec) else readExecutionRunnerStoredRecord fs i))"
    by (auto simp: readRunner_eq)
qed (simp_all add: writeExecutionRunnerStoredRecordNow_def prepareRunner_def)

section \<open>Expiry and compaction\<close>

text \<open>A registry whose every directory holds a readable record filed under the runner's identifier.\<close>

definition runnerFsOk :: "runnerFs \<Rightarrow> bool" where
  "runnerFsOk fs = (nf_dirExists fs \<and> distinct (nf_dirs fs) \<and>
     (\<forall>d\<in>set (nf_dirs fs). \<exists>t0 r. nf_record fs d = File t0 (Json r) \<and> rr_runnerId r = d \<and> rnr_id (rr_runner r) = d))"

definition recordAt :: "runnerFs \<Rightarrow> string \<Rightarrow> runnerRecord" where
  "recordAt fs d = (case readExecutionRunnerStoredRecord fs d of Inr (Some r) \<Rightarrow> r)"

lemma runnerFsOk_read:
  assumes "runnerFsOk fs" "d \<in> set (nf_dirs fs)"
  shows "readExecutionRunnerStoredRecord fs d = Inr (Some (recordAt fs d))"
    "readExecutionRunnerRecord fs d = Inr (Some (rr_runner (recordAt fs d)))"
    "rr_runnerId (recordAt fs d) = d" "rnr_id (rr_runner (recordAt fs d)) = d"
proof -
  from assms obtain t0 r where "nf_record fs d = File t0 (Json r)" "rr_runnerId r = d" "rnr_id (rr_runner r) = d"
    by (auto simp: runnerFsOk_def)
  then show "readExecutionRunnerStoredRecord fs d = Inr (Some (recordAt fs d))"
    "readExecutionRunnerRecord fs d = Inr (Some (rr_runner (recordAt fs d)))"
    "rr_runnerId (recordAt fs d) = d" "rnr_id (rr_runner (recordAt fs d)) = d"
    by (simp_all add: readExecutionRunnerStoredRecord_def readExecutionRunnerRecord_def recordAt_def)
qed

lemma traverse_total: "(\<And>x. x \<in> set xs \<Longrightarrow> f x = Inr (g x)) \<Longrightarrow> traverse f xs = Inr (map g xs)"
  by (induction xs) auto

lemma somes_Some [simp]: "somes (map (\<lambda>x. Some (f x)) xs) = map f xs"
  by (induction xs) (simp_all add: somes_def)

lemma list_runners_eq:
  assumes "runnerFsOk fs"
  shows "listExecutionRunnerRecords le opts fs = Inr (sliceLimit (nl_limit opts)
    (sortBy (newestFirst le rnr_lastHeartbeatAt)
      (filter (runnerMatches opts) (map (\<lambda>d. rr_runner (recordAt fs d)) (nf_dirs fs)))))"
  using assms traverse_total [of "nf_dirs fs" "readExecutionRunnerRecord fs" "\<lambda>d. Some (rr_runner (recordAt fs d))"]
  by (simp add: listExecutionRunnerRecords_def runnerFsOk_read runnerFsOk_def)

lemma readRunnerRecords_eq:
  "(\<And>r. r \<in> set rs \<Longrightarrow> readExecutionRunnerStoredRecord fs (rnr_id r) = Inr (Some (recordAt fs (rnr_id r)))) \<Longrightarrow>
   readRunnerRecords (createExecutionRunnerRecordStore le) rs fs
     = (Inr (map (\<lambda>r. Some (recordAt fs (rnr_id r))) rs), fs)"
  by (induction rs) (simp_all add: io_defs)

lemma controlListRunners_all:
  assumes ok: "runnerFsOk fs"
  obtains recs where "controlListRunners (createExecutionRunnerRecordStore le) allRunners fs = (Inr recs, fs)"
    "mset recs = mset (map (recordAt fs) (nf_dirs fs))"
proof -
  let ?runners = "map (\<lambda>d. rr_runner (recordAt fs d)) (nf_dirs fs)"
  let ?rs = "sortBy (newestFirst le rnr_lastHeartbeatAt) ?runners"
  have list: "listExecutionRunnerRecords le allRunners fs = Inr ?rs"
    by (simp add: list_runners_eq [OF ok] allRunners_def runnerMatches_def sliceLimit_def)
  have ids: "\<And>r. r \<in> set ?rs \<Longrightarrow>
      readExecutionRunnerStoredRecord fs (rnr_id r) = Inr (Some (recordAt fs (rnr_id r)))"
    using runnerFsOk_read [OF ok] by auto
  have "controlListRunners (createExecutionRunnerRecordStore le) allRunners fs
      = (Inr (map (\<lambda>r. recordAt fs (rnr_id r)) ?rs), fs)"
    using readRunnerRecords_eq [where rs = ?rs and fs = fs and le = le, OF ids]
    by (simp add: controlListRunners_def io_defs list comp_def del: set_sortBy)
  moreover have "mset (map (\<lambda>r. recordAt fs (rnr_id r)) ?rs) = mset (map (recordAt fs) (nf_dirs fs))"
  proof -
    have "mset (map (\<lambda>r. recordAt fs (rnr_id r)) ?rs) = mset (map (\<lambda>r. recordAt fs (rnr_id r)) ?runners)"
      by (metis mset_map mset_sortBy)
    also have "map (\<lambda>r. recordAt fs (rnr_id r)) ?runners = map (recordAt fs) (nf_dirs fs)"
      using runnerFsOk_read [OF ok] by simp
    finally show ?thesis .
  qed
  ultimately show thesis by (rule that)
qed

text \<open>Expiry is exact: on a sound registry the pass succeeds, the reported runners are precisely
  the active ones whose expiry timestamp has been reached, each of them is stored as stale with the
  expiry set to the time of the pass, and every other runner keeps its record.\<close>

lemma expire_runners_exact:
  assumes ok: "runnerFsOk fs"
  shows "\<exists>ids us fs'. expireRunners (createExecutionRunnerRecordStore le) now note fs = (Inr (ids, us), fs')
    \<and> set ids = {d \<in> set (nf_dirs fs). rnr_status (rr_runner (recordAt fs d)) = RunnerActive
         \<and> rnr_expiresAt (rr_runner (recordAt fs d)) \<le> now}
    \<and> (\<forall>d\<in>set ids. rnr_status (rr_runner (recordAt fs' d)) = RunnerStale
         \<and> rnr_expiresAt (rr_runner (recordAt fs' d)) = now)
    \<and> (\<forall>d. d \<notin> set ids \<longrightarrow> readExecutionRunnerStoredRecord fs' d = readExecutionRunnerStoredRecord fs d)"
proof -
  let ?N = "createExecutionRunnerRecordStore le"
  obtain recs where list: "controlListRunners ?N allRunners fs = (Inr recs, fs)"
    and recs: "mset recs = mset (map (recordAt fs) (nf_dirs fs))"
    by (rule controlListRunners_all [OF ok])
  have set_recs: "set recs = recordAt fs ` set (nf_dirs fs)"
    using recs by (metis set_map set_mset_mset)
  have "mset (map rr_runnerId recs) = mset (nf_dirs fs)"
  proof -
    have "mset (map rr_runnerId recs) = mset (map rr_runnerId (map (recordAt fs) (nf_dirs fs)))"
      using recs by (metis mset_map)
    also have "map rr_runnerId (map (recordAt fs) (nf_dirs fs)) = nf_dirs fs"
      using runnerFsOk_read(3) [OF ok] by (simp add: map_idI)
    finally show ?thesis .
  qed
  then have dist: "distinct (map rr_runnerId recs)"
    using ok mset_eq_imp_distinct_iff [of "map rr_runnerId recs" "nf_dirs fs"] by (simp add: runnerFsOk_def)
  have good: "\<And>rec. rec \<in> set recs \<Longrightarrow>
      readExecutionRunnerStoredRecord fs (rr_runnerId rec) = Inr (Some rec) \<and> rnr_id (rr_runner rec) = rr_runnerId rec"
    using runnerFsOk_read [OF ok] by (auto simp: set_recs)
  from runnerFiles.markDueRunners_ok [OF dist good, of le now "note"] obtain us fs' where
    run: "markDueRunners ?N now note recs fs = (Inr us, fs')"
    and ids: "map rr_runnerId us = map rr_runnerId (filter (runnerFiles.dueRunner now) recs)"
    and stale: "\<forall>u\<in>set us. readExecutionRunnerStoredRecord fs' (rr_runnerId u) = Inr (Some u)
       \<and> rnr_status (rr_runner u) = RunnerStale \<and> rnr_expiresAt (rr_runner u) = now"
    and frame: "\<forall>i. i \<notin> set (map rr_runnerId us) \<longrightarrow>
       readExecutionRunnerStoredRecord fs' i = readExecutionRunnerStoredRecord fs i" by blast
  have "expireRunners ?N now note fs = (Inr (map rr_runnerId us, us), fs')"
    using list run by (simp add: expireRunners_def io_defs)
  moreover have "set (map rr_runnerId us) = {d \<in> set (nf_dirs fs). rnr_status (rr_runner (recordAt fs d)) = RunnerActive
         \<and> rnr_expiresAt (rr_runner (recordAt fs d)) \<le> now}"
    unfolding ids using runnerFsOk_read(3) [OF ok]
    by (auto simp: set_recs runnerFiles.dueRunner_def image_iff not_less) metis
  moreover have "\<forall>d\<in>set (map rr_runnerId us). rnr_status (rr_runner (recordAt fs' d)) = RunnerStale
         \<and> rnr_expiresAt (rr_runner (recordAt fs' d)) = now"
    using stale by (auto simp: recordAt_def)
  ultimately show ?thesis using frame by blast
qed

definition demoRunnerFs :: runnerFs where
  "demoRunnerFs = emptyRunnerFs\<lparr>nf_dirExists := True, nf_dirs := [''a''],
     nf_record := (\<lambda>_. NoFile)(''a'' := File 0 (Json \<lparr>rr_runnerId = ''a'', rr_revision = 1,
       rr_persistedAt = ''t1'', rr_runner = demoRunner ''a'' RunnerActive ''t1'' ''t2''\<rparr>))\<rparr>"

lemma demoRunnerFs_ok: "runnerFsOk demoRunnerFs"
  by (simp add: runnerFsOk_def demoRunnerFs_def demoRunner_def)

lemma expire_runners_exact_example:
  "\<exists>ids us fs'. expireRunners (createExecutionRunnerRecordStore (\<le>)) ''t5'' None demoRunnerFs = (Inr (ids, us), fs')
     \<and> set ids = {''a''} \<and> rnr_status (rr_runner (recordAt fs' ''a'')) = RunnerStale"
proof -
  have "nf_dirs demoRunnerFs = [''a'']" "rr_runner (recordAt demoRunnerFs ''a'') = demoRunner ''a'' RunnerActive ''t1'' ''t2''"
    by (simp_all add: demoRunnerFs_def recordAt_def readExecutionRunnerStoredRecord_def)
  with expire_runners_exact [OF demoRunnerFs_ok, of "(\<le>)" "''t5''" None] show ?thesis
    by (fastforce simp: demoRunner_def)
qed

lemma deleteRunners_eq:
  "deleteRunners (createExecutionRunnerRecordStore le) ds fs =
     (Inr (), fs\<lparr>nf_dirs := filter (\<lambda>d. d \<notin> set ds) (nf_dirs fs),
        nf_record := (\<lambda>i. if i \<in> set ds then NoFile else nf_record fs i),
        nf_runner := (\<lambda>i. if i \<in> set ds then NoFile else nf_runner fs i)\<rparr>)"
proof (induction ds arbitrary: fs)
  case Nil
  then show ?case by (simp add: ioReturn_def)
next
  case (Cons d ds)
  show ?case
    by (simp add: ioBind_def deleteExecutionRunnerRecord_def Cons.IH)
      (auto simp: fun_eq_iff intro: filter_cong)
qed

text \<open>Compaction only removes the oldest stale runners: on a sound registry it deletes stale
  runners alone, keeps \<open>keepNewest\<close> of them (or all, if there are fewer), no deleted runner has a
  later heartbeat than a retained one, and the records of all other runners are untouched.\<close>

lemma compaction_keeps_the_newest:
  assumes ok: "runnerFsOk fs" and le: "comparator le"
  shows "\<exists>res fs'. compactStaleRunners (createExecutionRunnerRecordStore le) keep fs = (Inr res, fs')
    \<and> set (cr_retained res) \<union> set (cr_deleted res)
        = {d \<in> set (nf_dirs fs). rnr_status (rr_runner (recordAt fs d)) = RunnerStale}
    \<and> length (cr_retained res) = min (nat (max 0 \<lfloor>keep\<rfloor>)) (cr_scanned res)
    \<and> (\<forall>k\<in>set (cr_retained res). \<forall>d\<in>set (cr_deleted res).
         le (rnr_lastHeartbeatAt (rr_runner (recordAt fs d))) (rnr_lastHeartbeatAt (rr_runner (recordAt fs k))))
    \<and> (\<forall>i. readExecutionRunnerStoredRecord fs' i =
         (if i \<in> set (cr_deleted res) then Inr None else readExecutionRunnerStoredRecord fs i))"
proof -
  let ?N = "createExecutionRunnerRecordStore le"
  have ensure: "ensureExecutionRunnerStorage fs = (Inr (), fs)"
    using ok by (simp add: ensureExecutionRunnerStorage_def runnerFsOk_def)
  let ?all = "filter (\<lambda>r. rnr_status r = RunnerStale) (map (\<lambda>d. rr_runner (recordAt fs d)) (nf_dirs fs))"
  define stale where "stale = sortBy (newestFirst le rnr_lastHeartbeatAt) ?all"
  define n where "n = nat (max 0 \<lfloor>keep\<rfloor>)"
  have list: "listExecutionRunnerRecords le (allRunners\<lparr>nl_status := Some RunnerStale\<rparr>) fs = Inr stale"
    by (simp add: list_runners_eq [OF ok] stale_def allRunners_def runnerMatches_def [abs_def] sliceLimit_def)
  define res where "res = \<lparr>cr_scanned = length stale, cr_retained = map rnr_id (take n stale),
    cr_deleted = map rnr_id (drop n stale)\<rparr>"
  define fs' where "fs' = snd (deleteRunners ?N (cr_deleted res) fs)"
  have run: "compactStaleRunners ?N keep fs = (Inr res, fs')"
    unfolding fs'_def
    by (simp add: compactStaleRunners_def io_defs ensure list Let_def
        n_def [symmetric] res_def deleteRunners_eq)
  have rid: "\<And>r. r \<in> set stale \<Longrightarrow> rr_runner (recordAt fs (rnr_id r)) = r
      \<and> rnr_id r \<in> set (nf_dirs fs) \<and> rnr_status r = RunnerStale"
    using runnerFsOk_read(4) [OF ok] by (auto simp: stale_def)
  have "set (cr_retained res) \<union> set (cr_deleted res) = rnr_id ` set stale"
    unfolding res_def by (simp flip: image_Un set_append)
  moreover have "rnr_id ` set stale = {d \<in> set (nf_dirs fs). rnr_status (rr_runner (recordAt fs d)) = RunnerStale}"
    using runnerFsOk_read(4) [OF ok] by (force simp: stale_def)
  ultimately have "set (cr_retained res) \<union> set (cr_deleted res)
        = {d \<in> set (nf_dirs fs). rnr_status (rr_runner (recordAt fs d)) = RunnerStale}" by simp
  moreover have "length (cr_retained res) = min n (cr_scanned res)"
    by (simp add: res_def)
  moreover have "\<forall>k\<in>set (cr_retained res). \<forall>d\<in>set (cr_deleted res).
       le (rnr_lastHeartbeatAt (rr_runner (recordAt fs d))) (rnr_lastHeartbeatAt (rr_runner (recordAt fs k)))"
  proof -
    have "sorted_wrt (newestFirst le rnr_lastHeartbeatAt) (take n stale @ drop n stale)"
      by (simp add: stale_def comparator.sorted_sortBy [OF newestFirst_comparator [OF le]])
    then have "\<forall>k\<in>set (take n stale). \<forall>d\<in>set (drop n stale).
        le (rnr_lastHeartbeatAt d) (rnr_lastHeartbeatAt k)"
      unfolding sorted_wrt_append newestFirst_def by blast
    moreover have "rr_runner (recordAt fs k) \<in> set (take n stale)" if k: "k \<in> set (cr_retained res)" for k
    proof -
      from k obtain r where "r \<in> set (take n stale)" "k = rnr_id r" by (auto simp: res_def)
      with rid [of r] in_set_takeD [of r n stale] show ?thesis by simp
    qed
    moreover have "rr_runner (recordAt fs d) \<in> set (drop n stale)" if d: "d \<in> set (cr_deleted res)" for d
    proof -
      from d obtain r where "r \<in> set (drop n stale)" "d = rnr_id r" by (auto simp: res_def)
      with rid [of r] in_set_dropD [of r n stale] show ?thesis by simp
    qed
    ultimately show ?thesis by blast
  qed
  moreover have "\<forall>i. readExecutionRunnerStoredRecord fs' i =
       (if i \<in> set (cr_deleted res) then Inr None else readExecutionRunnerStoredRecord fs i)"
    by (simp add: fs'_def deleteRunners_eq readExecutionRunnerStoredRecord_def
        readLegacyRunnerRecordAsStoredRecord_def split: jsonFile.split content.split)
  ultimately show ?thesis using run unfolding n_def by blast
qed

lemma compaction_keeps_the_newest_example:
  "\<exists>res fs'. compactStaleRunners (createExecutionRunnerRecordStore (\<le>)) 0 demoRunnerFs = (Inr res, fs')
     \<and> cr_retained res = []"
proof -
  have "comparator ((\<le>) :: string \<Rightarrow> string \<Rightarrow> bool)" by unfold_locales auto
  from compaction_keeps_the_newest [OF demoRunnerFs_ok this, of 0] show ?thesis by auto
qed

section \<open>Losing the revision race\<close>

text \<open>
  The store as a process sees it while other processes write: after each read of this one, the next
  foreign write of the list is carried out.
\<close>

definition racing :: "runnerFs runnerStore \<Rightarrow> (runnerFs \<times> (runnerFs \<Rightarrow> runnerFs) list) runnerStore" where
  "racing N =
     \<lparr>ns_ensureStorage = (\<lambda>(fs, gs). let (r, fs') = ns_ensureStorage N fs in (r, fs', gs)),
      ns_writeRunner = (\<lambda>r opts (fs, gs). let (x, fs') = ns_writeRunner N r opts fs in (x, fs', gs)),
      ns_readRecord = (\<lambda>i (fs, gs). let (r, fs') = ns_readRecord N i fs in
        case gs of [] \<Rightarrow> (r, fs', []) | g # gs' \<Rightarrow> (r, g fs', gs')),
      ns_listRunners = (\<lambda>opts (fs, gs). let (r, fs') = ns_listRunners N opts fs in (r, fs', gs)),
      ns_deleteRunner = (\<lambda>i (fs, gs). let (r, fs') = ns_deleteRunner N i fs in (r, fs', gs))\<rparr>"

lemma heartbeatOf_id [simp]: "rnr_id (heartbeatOf inp r) = rnr_id r"
  by (simp add: heartbeatOf_def createExecutionRunnerRecord_def runnerInputOf_def)

lemma mismatch_recognised [simp]: "isRunnerRevisionMismatchError (runnerMismatch i m n) i"
proof -
  have "error_message (runnerMismatch i m n) = [] @ (''Execution runner '' @ i @ '' revision mismatch'')
      @ ('': expected '' @ natToStr m @ '', found '' @ natToStr n)"
    by (simp add: runnerMismatch_def)
  then show ?thesis unfolding isRunnerRevisionMismatchError_def by (metis str_includes_mid)
qed

lemma racing_attempt:
  assumes read: "readExecutionRunnerStoredRecord fs i = Inr (Some r0)" "rnr_id (rr_runner r0) = i"
    and after: "readExecutionRunnerStoredRecord (g fs) i = Inr cur"
  shows "updateRunnerAttempts (racing (createExecutionRunnerRecordStore le)) i
      (\<lambda>rec. (heartbeatOf inp (rr_runner rec), None)) (Suc n) e0 (fs, g # gs) =
    (if runnerRevisionOf cur = rr_revision r0
     then (let (x, fs') = writeExecutionRunnerStoredRecordNow (heartbeatOf inp (rr_runner r0)) (expecting (rr_revision r0)) (g fs)
           in (x, fs', gs))
     else updateRunnerAttempts (racing (createExecutionRunnerRecordStore le)) i
      (\<lambda>rec. (heartbeatOf inp (rr_runner rec), None)) n (runnerMismatch i (rr_revision r0) (runnerRevisionOf cur)) (g fs, gs))"
proof -
  let ?r = "heartbeatOf inp (rr_runner r0)"
  have i: "rnr_id ?r = i" using read(2) by simp
  have "runnerRevisionOf cur \<noteq> rr_revision r0 \<Longrightarrow>
      writeExecutionRunnerStoredRecordNow ?r (expecting (rr_revision r0)) (g fs)
        = (Inl (runnerMismatch i (rr_revision r0) (runnerRevisionOf cur)), g fs)"
    using runnerFiles.write_mismatch [of "g fs" ?r cur "rr_revision r0" le None] after i
    by (simp add: expecting_def)
  moreover have "runnerRevisionOf cur = rr_revision r0 \<Longrightarrow>
      \<exists>x fs'. writeExecutionRunnerStoredRecordNow ?r (expecting (rr_revision r0)) (g fs) = (Inr x, fs')"
    using runnerFiles.write_match [of "g fs" ?r cur le None] after i by (auto simp: expecting_def)
  ultimately show ?thesis
    using read by (auto simp: updateRunnerAttempts.simps requireStoredRunnerRecord_def racing_def io_defs
        expecting_def [symmetric])
qed

text \<open>A heartbeat that loses the revision race rebuilds itself on the winner's record: with two
  foreign writes slipping in between its reads and writes it still succeeds on the third attempt,
  and what it stores is the heartbeat applied to the runner as the second foreign write left it.\<close>

lemma heartbeat_survives_two_races:
  assumes "readExecutionRunnerStoredRecord fs (hr_runnerId inp) = Inr (Some r0)" "rnr_id (rr_runner r0) = hr_runnerId inp"
    and "readExecutionRunnerStoredRecord (g1 fs) (hr_runnerId inp) = Inr (Some r1)" "rnr_id (rr_runner r1) = hr_runnerId inp"
      "rr_revision r1 \<noteq> rr_revision r0"
    and "readExecutionRunnerStoredRecord (g2 (g1 fs)) (hr_runnerId inp) = Inr (Some r2)" "rnr_id (rr_runner r2) = hr_runnerId inp"
      "rr_revision r2 \<noteq> rr_revision r1"
  shows "\<exists>x fs'. heartbeatRunner (racing (createExecutionRunnerRecordStore le)) inp (fs, [g1, g2, id]) = (Inr x, fs', [])
    \<and> rr_runner x = heartbeatOf inp (rr_runner r2) \<and> rr_revision x = rr_revision r2 + 1
    \<and> readExecutionRunnerStoredRecord fs' (hr_runnerId inp) = Inr (Some x)"
proof -
  obtain x fs' where x: "writeExecutionRunnerStoredRecordNow (heartbeatOf inp (rr_runner r2)) (expecting (rr_revision r2)) (g2 (g1 fs))
      = (Inr x, fs')" "rr_runner x = heartbeatOf inp (rr_runner r2)" "rr_revision x = rr_revision r2 + 1"
    "readExecutionRunnerStoredRecord fs' (hr_runnerId inp) = Inr (Some x)"
    using runnerFiles.write_match [of "g2 (g1 fs)" "heartbeatOf inp (rr_runner r2)" "Some r2" le None] assms(6,7)
    by (auto simp: runnerRevisionOf_def expecting_def)
  moreover have "heartbeatRunner (racing (createExecutionRunnerRecordStore le)) inp (fs, [g1, g2, id]) = (Inr x, fs', [])"
    unfolding heartbeatRunner_def updateRunnerWithRevisionRetry_def RUNNER_UPDATE_MAX_ATTEMPTS_def numeral_3_eq_3
    using assms x(1) by (simp only: racing_attempt) (simp add: runnerRevisionOf_def racing_attempt)
  ultimately show ?thesis by blast
qed

text \<open>A foreign write in the races below: another process stores revision \<open>n\<close> of runner \<open>a\<close>.\<close>

definition demoForeign :: "nat \<Rightarrow> runnerFs \<Rightarrow> runnerFs" where
  "demoForeign n fs = writeRunnerRecordFile \<lparr>rr_runnerId = ''a'', rr_revision = n,
     rr_persistedAt = ''t1'', rr_runner = demoRunner ''a'' RunnerActive ''t1'' ''t2''\<rparr> fs"

definition demoHeartbeat :: heartbeatRunnerInput where
  "demoHeartbeat = \<lparr>hr_runnerId = ''a'', hr_heartbeatAt = ''t8'', hr_expiresAt = ''t9'', hr_serviceIds = None,
     hr_runtimeProfileIds = None, hr_browserProfileIds = None, hr_serviceAccountIds = None,
     hr_browserCapable = None, hr_eligibilityNote = None\<rparr>"

lemma demoForeign_read:
  "readExecutionRunnerStoredRecord (demoForeign n fs) ''a'' = Inr (Some \<lparr>rr_runnerId = ''a'', rr_revision = n,
     rr_persistedAt = ''t1'', rr_runner = demoRunner ''a'' RunnerActive ''t1'' ''t2''\<rparr>)"
  by (simp add: demoForeign_def readExecutionRunnerStoredRecord_def writeRunnerRecordFile_def)

lemma heartbeat_survives_two_races_example:
  "\<exists>x fs'. heartbeatRunner (racing (createExecutionRunnerRecordStore (\<le>))) demoHeartbeat
      (demoForeign 1 emptyRunnerFs, [demoForeign 2, demoForeign 3, id]) = (Inr x, fs', [])
    \<and> rr_revision x = 4"
  using heartbeat_survives_two_races [of "demoForeign 1 emptyRunnerFs" demoHeartbeat _ "demoForeign 2" _ "demoForeign 3" _ "(\<le>)"]
  by (fastforce simp: demoHeartbeat_def demoForeign_read demoRunner_def)

text \<open>Retrying is bounded: when a foreign write changes the revision in each of the three
  attempts, the heartbeat is rejected with the last mismatch and leaves the store exactly as the
  foreign writes left it.\<close>

lemma heartbeat_gives_up_after_three_races:
  assumes "readExecutionRunnerStoredRecord fs (hr_runnerId inp) = Inr (Some r0)" "rnr_id (rr_runner r0) = hr_runnerId inp"
    and "readExecutionRunnerStoredRecord (g1 fs) (hr_runnerId inp) = Inr (Some r1)" "rnr_id (rr_runner r1) = hr_runnerId inp"
      "rr_revision r1 \<noteq> rr_revision r0"
    and "readExecutionRunnerStoredRecord (g2 (g1 fs)) (hr_runnerId inp) = Inr (Some r2)" "rnr_id (rr_runner r2) = hr_runnerId inp"
      "rr_revision r2 \<noteq> rr_revision r1"
    and "readExecutionRunnerStoredRecord (g3 (g2 (g1 fs))) (hr_runnerId inp) = Inr (Some r3)" "rr_revision r3 \<noteq> rr_revision r2"
  shows "heartbeatRunner (racing (createExecutionRunnerRecordStore le)) inp (fs, g1 # g2 # g3 # gs)
    = (Inl (runnerMismatch (hr_runnerId inp) (rr_revision r2) (rr_revision r3)), g3 (g2 (g1 fs)), gs)"
  unfolding heartbeatRunner_def updateRunnerWithRevisionRetry_def RUNNER_UPDATE_MAX_ATTEMPTS_def numeral_3_eq_3
  using assms by (simp only: racing_attempt) (simp add: runnerRevisionOf_def racing_attempt updateRunnerAttempts.simps ioThrow_def)

lemma heartbeat_gives_up_after_three_races_example:
  "fst (heartbeatRunner (racing (createExecutionRunnerRecordStore (\<le>))) demoHeartbeat
      (demoForeign 1 emptyRunnerFs, [demoForeign 2, demoForeign 3, demoForeign 4])) = Inl (runnerMismatch ''a'' 3 4)"
  using heartbeat_gives_up_after_three_races [of "demoForeign 1 emptyRunnerFs" demoHeartbeat _ "demoForeign 2" _
      "demoForeign 3" _ "demoForeign 4" _ "(\<le>)" "[]"]
  by (simp add: demoHeartbeat_def demoForeign_read demoRunner_def)

end
