(* ===== verification/Scheduling.thy ===== *)
theory Scheduling
  imports Runner_Steps Runners
begin

text \<open>
  Who may work on a run. \<open>src/runtime/projection.ts\<close> classifies a stored run for the queue,
  \<open>src/runtime/claims.ts\<close> matches it against the registered runners,
  \<open>src/runtime/schedulerAuthority.ts\<close> decides which runner could take it (without ever changing
  anything), and \<open>src/runtime/reconciliation.ts\<close> with \<open>src/runtime/repair.ts\<close> take a run back
  from a runner that stopped renewing its lease. The two stores live in one world as a pair.
  \<open>cmp\<close> is \<open>String.prototype.localeCompare\<close>.
\<close>

section \<open>The queue projection\<close>

type_synonym inspection = "storedRecord \<times> dispatchPlan"

datatype queueState = QRunnable | QWaiting | QActiveLease | QRecoverableStranded | QStranded | QIdle

datatype claimState = Claimable | HeldByLease | BlockedAffinity | NotReady | ClaimIdle

datatype affinityStatus = NotEvaluated | AffEligible | BlockedMismatch

record affinityProjection =
  ap_status :: affinityStatus
  ap_reason :: "string option"
  ap_requiredService :: "serviceId option"
  ap_requiredServiceAccountId :: "string option"
  ap_browserRequired :: bool
  ap_requiredRuntimeProfileId :: "string option"
  ap_requiredBrowserProfileId :: "string option"
  ap_hostRequirement :: hostRequirement
  ap_requiredHostId :: "string option"
  ap_eligibilityNote :: "string option"

record queueProjection =
  qp_runId :: string
  qp_sourceKind :: executionRunSourceKind
  qp_runStatus :: executionRunStatus
  qp_createdAt :: string
  qp_updatedAt :: string
  qp_queueState :: queueState
  qp_claimState :: claimState
  qp_nextRunnableStepId :: "string option"
  qp_runningStepIds :: "string list"
  qp_waitingStepIds :: "string list"
  qp_deferredStepIds :: "string list"
  qp_blockedStepIds :: "string list"
  qp_blockedByFailureStepIds :: "string list"
  qp_terminalStepIds :: "string list"
  qp_missingDependencyStepIds :: "string list"
  qp_activeLeaseId :: "string option"
  qp_activeLeaseOwnerId :: "string option"
  qp_affinity :: affinityProjection

text \<open>\<open>Partial<ExecutionRunAffinityProjection>\<close>: the outer option is the presence of the key.\<close>

record affinityPatch =
  pp_status :: "affinityStatus option"
  pp_reason :: "string option"
  pp_requiredService :: "serviceId option option"
  pp_requiredServiceAccountId :: "string option option"
  pp_browserRequired :: "bool option"
  pp_requiredRuntimeProfileId :: "string option option"
  pp_requiredBrowserProfileId :: "string option option"
  pp_hostRequirement :: "hostRequirement option"
  pp_requiredHostId :: "string option option"
  pp_eligibilityNote :: "string option option"

record projectionOptions =
  po_affinity :: "affinityRecord option"
  po_runner :: "executionRunner option"
  po_evaluateAffinity :: "(inspection \<Rightarrow> affinityPatch option) option"

text \<open>The truth value of a string that may be \<open>null\<close>.\<close>

definition truthy :: "string option \<Rightarrow> bool" where
  "truthy s = (case s of None \<Rightarrow> False | Some t \<Rightarrow> t \<noteq> [])"

definition firstActiveStep :: "dispatchPlan \<Rightarrow> executionRunStep option" where
  "firstActiveStep p =
     orElseOpt (find (\<lambda>s. Some (step_id s) = dp_nextRunnableStepId p) (dp_steps p))
       (find (\<lambda>s. step_id s \<in> set (dp_runningStepIds p)) (dp_steps p))"

text \<open>The requirements of a run: its affinity record, and the active step where that is silent.\<close>

definition baseAffinity :: "inspection \<Rightarrow> affinityRecord option \<Rightarrow> affinityProjection" where
  "baseAffinity insp aff =
     (let active = firstActiveStep (snd insp);
          fromStep = (\<lambda>f. Option.bind active f);
          fromAff = (\<lambda>f. Option.bind aff f)
      in \<lparr>ap_status = NotEvaluated,
          ap_reason = None,
          ap_requiredService = orElseOpt (Option.bind aff aff_service) (Option.bind active step_service),
          ap_requiredServiceAccountId = fromAff aff_serviceAccountId,
          ap_browserRequired = (case aff of Some a \<Rightarrow> aff_browserRequired a
             | None \<Rightarrow> truthy (fromStep step_browserProfileId)),
          ap_requiredRuntimeProfileId = orElseOpt (fromAff aff_runtimeProfileId) (fromStep step_runtimeProfileId),
          ap_requiredBrowserProfileId = orElseOpt (fromAff aff_browserProfileId) (fromStep step_browserProfileId),
          ap_hostRequirement = (case aff of Some a \<Rightarrow> aff_hostRequirement a | None \<Rightarrow> AnyHost),
          ap_requiredHostId = fromAff aff_requiredHostId,
          ap_eligibilityNote = fromAff aff_eligibilityNote\<rparr>)"

text \<open>\<open>required && !offered.includes(required)\<close>.\<close>

definition lacks :: "string list \<Rightarrow> string option \<Rightarrow> bool" where
  "lacks offered required = (truthy required \<and> the required \<notin> set offered)"

definition otherHost :: "affinityProjection \<Rightarrow> executionRunner \<Rightarrow> bool" where
  "otherHost a r = (truthy (ap_requiredHostId a) \<and> Some (rnr_hostId r) \<noteq> ap_requiredHostId a)"

definition evaluateRunnerAffinity ::
  "affinityProjection \<Rightarrow> executionRunner option \<Rightarrow> (affinityStatus \<times> string option) option" where
  "evaluateRunnerAffinity a runner =
     (case runner of None \<Rightarrow> None
      | Some r \<Rightarrow> Some (
        if rnr_status r \<noteq> RunnerActive
        then (BlockedMismatch, Some (''runner '' @ rnr_id r @ '' heartbeat is not active''))
        else if otherHost a r
        then (BlockedMismatch, Some (''runner host '' @ rnr_hostId r @ '' does not match required host ''
               @ the (ap_requiredHostId a)))
        else if ap_requiredService a \<noteq> None \<and> the (ap_requiredService a) \<notin> set (rnr_serviceIds r)
        then (BlockedMismatch, Some (''runner '' @ rnr_id r @ '' does not support service ''
               @ serviceText (the (ap_requiredService a))))
        else if lacks (rnr_runtimeProfileIds r) (ap_requiredRuntimeProfileId a)
        then (BlockedMismatch, Some (''runner '' @ rnr_id r @ '' does not expose runtime profile ''
               @ the (ap_requiredRuntimeProfileId a)))
        else if ap_browserRequired a \<and> \<not> rnr_browserCapable r
        then (BlockedMismatch, Some (''runner '' @ rnr_id r @ '' is not browser-capable''))
        else if lacks (rnr_browserProfileIds r) (ap_requiredBrowserProfileId a)
        then (BlockedMismatch, Some (''runner '' @ rnr_id r @ '' does not expose browser profile ''
               @ the (ap_requiredBrowserProfileId a)))
        else if lacks (rnr_serviceAccountIds r) (ap_requiredServiceAccountId a)
        then (BlockedMismatch, Some (''runner '' @ rnr_id r @ '' does not expose service account ''
               @ the (ap_requiredServiceAccountId a)))
        else if ap_hostRequirement a = SameHost \<and> otherHost a r
        then (BlockedMismatch, Some (''runner '' @ rnr_id r @ '' is not on the required host''))
        else (AffEligible, None)))"

definition mergeAffinityPatch :: "affinityProjection \<Rightarrow> affinityPatch \<Rightarrow> affinityProjection" where
  "mergeAffinityPatch a p =
     \<lparr>ap_status = orElse (pp_status p) (ap_status a),
      ap_reason = orElseOpt (pp_reason p) (ap_reason a),
      ap_requiredService = orElse (pp_requiredService p) (ap_requiredService a),
      ap_requiredServiceAccountId = orElse (pp_requiredServiceAccountId p) (ap_requiredServiceAccountId a),
      ap_browserRequired = orElse (pp_browserRequired p) (ap_browserRequired a),
      ap_requiredRuntimeProfileId = orElse (pp_requiredRuntimeProfileId p) (ap_requiredRuntimeProfileId a),
      ap_requiredBrowserProfileId = orElse (pp_requiredBrowserProfileId p) (ap_requiredBrowserProfileId a),
      ap_hostRequirement = orElse (pp_hostRequirement p) (ap_hostRequirement a),
      ap_requiredHostId = orElse (pp_requiredHostId p) (ap_requiredHostId a),
      ap_eligibilityNote = orElse (pp_eligibilityNote p) (ap_eligibilityNote a)\<rparr>"

definition createExecutionRunAffinityProjection :: "inspection \<Rightarrow> projectionOptions \<Rightarrow> affinityProjection" where
  "createExecutionRunAffinityProjection insp opts =
     (let base = baseAffinity insp (po_affinity opts);
          merged = (case evaluateRunnerAffinity base (po_runner opts) of
             None \<Rightarrow> base
           | Some (st, why) \<Rightarrow> base\<lparr>ap_status := st, ap_reason := why\<rparr>)
      in case po_evaluateAffinity opts of
           None \<Rightarrow> merged
         | Some evaluate \<Rightarrow> (case evaluate insp of
             None \<Rightarrow> merged
           | Some p \<Rightarrow> mergeAffinityPatch merged p))"

text \<open>The clock only stamps the recovered bundle, which is discarded here (\<open>recovered_ids_clock\<close>).\<close>

definition canRecoverStrandedExecutionRun :: "inspection \<Rightarrow> bool" where
  "canRecoverStrandedExecutionRun insp =
     (case recoverStrandedRunningExecutionRun (fst insp) (\<lambda>_. []) of
        None \<Rightarrow> False
      | Some (_, recovered) \<Rightarrow> recovered \<noteq> [])"

definition classifyExecutionRunQueueState :: "inspection \<Rightarrow> queueState" where
  "classifyExecutionRunQueueState insp =
     (let p = snd insp in
      if getActiveExecutionRunLease (fst insp) \<noteq> None then QActiveLease
      else if truthy (dp_nextRunnableStepId p) then QRunnable
      else if dp_runningStepIds p \<noteq> []
      then (if canRecoverStrandedExecutionRun insp then QRecoverableStranded else QStranded)
      else if dp_waitingStepIds p \<noteq> [] \<or> dp_blockedStepIds p \<noteq> [] \<or> dp_blockedByFailureStepIds p \<noteq> []
        \<or> dp_deferredStepIds p \<noteq> []
      then QWaiting
      else QIdle)"

definition classifyExecutionRunClaimState :: "queueState \<Rightarrow> affinityProjection \<Rightarrow> claimState" where
  "classifyExecutionRunClaimState q a =
     (if q = QActiveLease then HeldByLease
      else if (q = QRunnable \<or> q = QRecoverableStranded) \<and> ap_status a = BlockedMismatch then BlockedAffinity
      else if q = QRunnable \<or> q = QRecoverableStranded then Claimable
      else if q = QIdle then ClaimIdle
      else NotReady)"

definition createExecutionRunQueueProjection :: "inspection \<Rightarrow> projectionOptions \<Rightarrow> queueProjection" where
  "createExecutionRunQueueProjection insp opts =
     (let (rec, plan) = insp;
          run = bdl_run (rec_bundle rec);
          activeLease = getActiveExecutionRunLease rec;
          affinity = createExecutionRunAffinityProjection insp opts;
          q = classifyExecutionRunQueueState insp
      in \<lparr>qp_runId = rec_runId rec,
          qp_sourceKind = run_sourceKind run,
          qp_runStatus = run_status run,
          qp_createdAt = run_createdAt run,
          qp_updatedAt = run_updatedAt run,
          qp_queueState = q,
          qp_claimState = classifyExecutionRunClaimState q affinity,
          qp_nextRunnableStepId = dp_nextRunnableStepId plan,
          qp_runningStepIds = dp_runningStepIds plan,
          qp_waitingStepIds = dp_waitingStepIds plan,
          qp_deferredStepIds = dp_deferredStepIds plan,
          qp_blockedStepIds = dp_blockedStepIds plan,
          qp_blockedByFailureStepIds = dp_blockedByFailureStepIds plan,
          qp_terminalStepIds = dp_terminalStepIds plan,
          qp_missingDependencyStepIds = dp_missingDependencyStepIds plan,
          qp_activeLeaseId = map_option lease_id activeLease,
          qp_activeLeaseOwnerId = map_option lease_ownerId activeLease,
          qp_affinity = affinity\<rparr>)"

section \<open>Claims\<close>

datatype claimCandidateStatus = CandEligible | CandBlockedAffinity | CandStaleRunner | CandNotReady

record claimCandidate =
  cc_runnerId :: string
  cc_hostId :: string
  cc_runnerLastHeartbeatAt :: string
  cc_status :: claimCandidateStatus
  cc_reason :: "string option"
  cc_projection :: queueProjection

fun claimStateText :: "claimState \<Rightarrow> string" where
  "claimStateText Claimable = ''claimable''"
| "claimStateText HeldByLease = ''held-by-lease''"
| "claimStateText BlockedAffinity = ''blocked-affinity''"
| "claimStateText NotReady = ''not-ready''"
| "claimStateText ClaimIdle = ''idle''"

definition classifyExecutionRunClaimCandidateStatus ::
  "queueProjection \<Rightarrow> executionRunner \<Rightarrow> queueProjection \<Rightarrow> claimCandidateStatus" where
  "classifyExecutionRunClaimCandidateStatus queue runner proj =
     (if qp_claimState queue \<noteq> Claimable then CandNotReady
      else if rnr_status runner \<noteq> RunnerActive then CandStaleRunner
      else if qp_claimState proj = Claimable \<and> ap_status (qp_affinity proj) = AffEligible then CandEligible
      else CandBlockedAffinity)"

definition createExecutionRunClaimCandidateReason ::
  "queueProjection \<Rightarrow> executionRunner \<Rightarrow> queueProjection \<Rightarrow> string option" where
  "createExecutionRunClaimCandidateReason queue runner proj =
     (if qp_claimState queue \<noteq> Claimable then Some (''run is '' @ claimStateText (qp_claimState queue))
      else if rnr_status runner \<noteq> RunnerActive
      then Some (''runner '' @ rnr_id runner @ '' heartbeat is not active'')
      else ap_reason (qp_affinity proj))"

fun claimCandidateRank :: "claimCandidateStatus \<Rightarrow> int" where
  "claimCandidateRank CandEligible = 0"
| "claimCandidateRank CandBlockedAffinity = 1"
| "claimCandidateRank CandStaleRunner = 2"
| "claimCandidateRank CandNotReady = 3"

definition compareExecutionRunClaimCandidates ::
  "(string \<Rightarrow> string \<Rightarrow> int) \<Rightarrow> claimCandidate \<Rightarrow> claimCandidate \<Rightarrow> int" where
  "compareExecutionRunClaimCandidates cmp l r =
     (let rankDifference = claimCandidateRank (cc_status l) - claimCandidateRank (cc_status r) in
      if rankDifference \<noteq> 0 then rankDifference
      else
        let heartbeatDifference = cmp (cc_runnerLastHeartbeatAt r) (cc_runnerLastHeartbeatAt l) in
        if heartbeatDifference \<noteq> 0 then heartbeatDifference
        else cmp (cc_runnerId l) (cc_runnerId r))"

definition claimOptions :: "affinityRecord option \<Rightarrow> executionRunner option \<Rightarrow> projectionOptions" where
  "claimOptions aff runner = \<lparr>po_affinity = aff, po_runner = runner, po_evaluateAffinity = None\<rparr>"

definition claimCandidateOf ::
  "queueProjection \<Rightarrow> inspection \<Rightarrow> affinityRecord option \<Rightarrow> executionRunner \<Rightarrow> claimCandidate" where
  "claimCandidateOf queue insp aff runner =
     (let proj = createExecutionRunQueueProjection insp (claimOptions aff (Some runner))
      in \<lparr>cc_runnerId = rnr_id runner,
          cc_hostId = rnr_hostId runner,
          cc_runnerLastHeartbeatAt = rnr_lastHeartbeatAt runner,
          cc_status = classifyExecutionRunClaimCandidateStatus queue runner proj,
          cc_reason = createExecutionRunClaimCandidateReason queue runner proj,
          cc_projection = proj\<rparr>)"

definition createExecutionRunClaimCandidates ::
  "(string \<Rightarrow> string \<Rightarrow> int) \<Rightarrow> queueProjection \<Rightarrow> inspection \<Rightarrow> affinityRecord option \<Rightarrow> executionRunner list \<Rightarrow>
   claimCandidate list" where
  "createExecutionRunClaimCandidates cmp queue insp aff runners =
     sortBy (\<lambda>l r. compareExecutionRunClaimCandidates cmp l r \<le> 0) (map (claimCandidateOf queue insp aff) runners)"

record claimCandidatesResult =
  ccr_runId :: string
  ccr_queue :: queueProjection
  ccr_candidates :: "claimCandidate list"

definition evaluateStoredExecutionRunClaimCandidates ::
  "(string \<Rightarrow> string \<Rightarrow> int) \<Rightarrow> 'w recordStore \<Rightarrow> 'w runnerStore \<Rightarrow> string \<Rightarrow> affinityRecord option \<Rightarrow>
   ('w, claimCandidatesResult option) io" where
  "evaluateStoredExecutionRunClaimCandidates cmp S N runId aff =
     ioBind (controlInspectRun S runId) (\<lambda>i. case i of
       None \<Rightarrow> ioReturn None
     | Some insp \<Rightarrow> ioBind (controlListRunners N allRunners) (\<lambda>runners.
         (let queue = createExecutionRunQueueProjection insp (claimOptions aff None)
          in ioReturn (Some \<lparr>ccr_runId = rec_runId (fst insp), ccr_queue = queue,
               ccr_candidates = createExecutionRunClaimCandidates cmp queue insp aff (map rr_runner runners)\<rparr>))))"

section \<open>The local claim\<close>

datatype localClaimStatus = LcEligible | LcBlockedAffinity | LcStaleRunner | LcOwnerUnavailable | LcNotReady

record localClaimResult =
  lc_runId :: string
  lc_runnerId :: string
  lc_hostId :: "string option"
  lc_status :: localClaimStatus
  lc_selected :: bool
  lc_reason :: "string option"
  lc_projection :: queueProjection

definition heartbeatExpired :: "executionRunner \<Rightarrow> string option \<Rightarrow> bool" where
  "heartbeatExpired runner now = (case now of None \<Rightarrow> False | Some t \<Rightarrow> rnr_expiresAt runner \<le> t)"

definition classifyExecutionRunLocalClaimStatus ::
  "queueProjection \<Rightarrow> executionRunner \<Rightarrow> queueProjection \<Rightarrow> string option \<Rightarrow> localClaimStatus" where
  "classifyExecutionRunLocalClaimStatus queue runner proj now =
     (if qp_claimState queue \<noteq> Claimable then LcNotReady
      else if rnr_status runner \<noteq> RunnerActive \<or> heartbeatExpired runner now then LcStaleRunner
      else if qp_claimState proj = Claimable \<and> ap_status (qp_affinity proj) = AffEligible then LcEligible
      else LcBlockedAffinity)"

definition createExecutionRunLocalClaimReason ::
  "queueProjection \<Rightarrow> executionRunner \<Rightarrow> queueProjection \<Rightarrow> string option \<Rightarrow> string option" where
  "createExecutionRunLocalClaimReason queue runner proj now =
     (if qp_claimState queue \<noteq> Claimable then Some (''run is '' @ claimStateText (qp_claimState queue))
      else if rnr_status runner \<noteq> RunnerActive
      then Some (''runner '' @ rnr_id runner @ '' heartbeat is not active'')
      else if heartbeatExpired runner now
      then Some (''runner '' @ rnr_id runner @ '' heartbeat expired at '' @ rnr_expiresAt runner)
      else ap_reason (qp_affinity proj))"

definition evaluateExecutionRunLocalClaim ::
  "string \<Rightarrow> string option \<Rightarrow> affinityRecord option \<Rightarrow> inspection \<Rightarrow> executionRunner option \<Rightarrow> localClaimResult" where
  "evaluateExecutionRunLocalClaim runnerId now aff insp runner =
     (let queue = createExecutionRunQueueProjection insp (claimOptions aff None) in
      case runner of
        None \<Rightarrow> \<lparr>lc_runId = rec_runId (fst insp), lc_runnerId = runnerId, lc_hostId = None,
          lc_status = LcOwnerUnavailable, lc_selected = False,
          lc_reason = Some (''runner '' @ runnerId @ '' has no persisted runner record''),
          lc_projection = queue\<rparr>
      | Some r \<Rightarrow>
          (let proj = createExecutionRunQueueProjection insp (claimOptions aff (Some r)) in
           \<lparr>lc_runId = rec_runId (fst insp), lc_runnerId = rnr_id r, lc_hostId = Some (rnr_hostId r),
            lc_status = classifyExecutionRunLocalClaimStatus queue r proj now, lc_selected = False,
            lc_reason = createExecutionRunLocalClaimReason queue r proj now, lc_projection = proj\<rparr>))"

definition selectExecutionRunLocalClaim ::
  "string \<Rightarrow> string option \<Rightarrow> affinityRecord option \<Rightarrow> inspection \<Rightarrow> executionRunner option \<Rightarrow> localClaimResult" where
  "selectExecutionRunLocalClaim runnerId now aff insp runner =
     (let evaluated = evaluateExecutionRunLocalClaim runnerId now aff insp runner
      in evaluated\<lparr>lc_selected := (lc_status evaluated = LcEligible)\<rparr>)"

definition evaluateStoredExecutionRunLocalClaim ::
  "'w recordStore \<Rightarrow> 'w runnerStore \<Rightarrow> string \<Rightarrow> string \<Rightarrow> string option \<Rightarrow> affinityRecord option \<Rightarrow>
   ('w, localClaimResult option) io" where
  "evaluateStoredExecutionRunLocalClaim S N runId runnerId now aff =
     ioBind (controlInspectRun S runId) (\<lambda>i. case i of
       None \<Rightarrow> ioReturn None
     | Some insp \<Rightarrow> ioBind (ns_readRecord N runnerId) (\<lambda>r.
         ioReturn (Some (evaluateExecutionRunLocalClaim runnerId now aff insp (map_option rr_runner r)))))"

definition selectStoredExecutionRunLocalClaim ::
  "'w recordStore \<Rightarrow> 'w runnerStore \<Rightarrow> string \<Rightarrow> string \<Rightarrow> string option \<Rightarrow> affinityRecord option \<Rightarrow>
   ('w, localClaimResult option) io" where
  "selectStoredExecutionRunLocalClaim S N runId runnerId now aff =
     ioBind (evaluateStoredExecutionRunLocalClaim S N runId runnerId now aff) (\<lambda>e.
       ioReturn (map_option (\<lambda>evaluated. evaluated\<lparr>lc_selected := (lc_status evaluated = LcEligible)\<rparr>) e))"

section \<open>Scheduler authority\<close>

datatype authorityDecision =
    NoOp | ClaimableByLocalRunner | ClaimableByOtherRunner | ReassignableAfterExpiredLease
  | BlockedByActiveLease | BlockedByAffinity | BlockedMissingCapability | BlockedHumanState | AuthorityNotReady

datatype ownerFreshness = OwnerFresh | OwnerExpired | OwnerStale | OwnerMissing

datatype futureMutation = MutNone | MutLocalClaim | MutSchedulerClaim | MutReassignExpiredLease

record authorityLease =
  al_leaseId :: string
  al_ownerId :: string
  al_expiresAt :: string
  al_ownerStatus :: "executionRunnerStatus option"
  al_ownerFreshness :: ownerFreshness

record authorityEvaluation =
  au_runId :: string
  au_decision :: authorityDecision
  au_reason :: string
  au_mutationAllowed :: bool
  au_selectedRunnerId :: "string option"
  au_localRunnerId :: "string option"
  au_queue :: queueProjection
  au_activeLease :: "authorityLease option"
  au_candidates :: "claimCandidate list"
  au_futureMutation :: futureMutation

record authorityInput =
  ai_runId :: string
  ai_now :: string
  ai_localRunnerId :: "string option"
  ai_affinity :: "affinityRecord option"

definition classifyLeaseOwnerFreshness :: "executionRunner option \<Rightarrow> string \<Rightarrow> string \<Rightarrow> ownerFreshness" where
  "classifyLeaseOwnerFreshness leaseOwner leaseExpiresAt now =
     (case leaseOwner of
        None \<Rightarrow> OwnerMissing
      | Some r \<Rightarrow> if rnr_status r \<noteq> RunnerActive then OwnerStale
          else if leaseExpiresAt \<le> now then OwnerExpired else OwnerFresh)"

fun createActiveLeaseBlockedReason :: "string \<Rightarrow> string \<Rightarrow> ownerFreshness \<Rightarrow> string" where
  "createActiveLeaseBlockedReason leaseId ownerId OwnerFresh =
     ''active lease '' @ leaseId @ '' is owned by active runner '' @ ownerId"
| "createActiveLeaseBlockedReason leaseId ownerId OwnerExpired =
     ''active lease '' @ leaseId @ '' is expired but owner '' @ ownerId @ '' is still active''"
| "createActiveLeaseBlockedReason leaseId ownerId OwnerStale =
     ''active lease '' @ leaseId @ '' owner '' @ ownerId @ '' is stale but the lease is not expired''"
| "createActiveLeaseBlockedReason leaseId ownerId OwnerMissing =
     ''active lease '' @ leaseId @ '' owner '' @ ownerId @ '' is missing but the lease is not expired''"

definition isCapabilityReason :: "string option \<Rightarrow> bool" where
  "isCapabilityReason why = (case why of None \<Rightarrow> False | Some r \<Rightarrow>
     str_includes r ''does not support service''
     \<or> str_includes r ''does not expose runtime profile''
     \<or> str_includes r ''does not expose browser profile''
     \<or> str_includes r ''does not expose service account''
     \<or> str_includes r ''is not browser-capable'')"

definition withExpiredLease :: "string \<Rightarrow> inspection \<Rightarrow> inspection" where
  "withExpiredLease leaseId insp =
     (let (rec, plan) = insp; b = rec_bundle rec in
      (rec\<lparr>rec_bundle := b\<lparr>bdl_leases :=
         map (\<lambda>l. if lease_id l = leaseId then l\<lparr>lease_status := LeaseExpired\<rparr> else l) (bdl_leases b)\<rparr>\<rparr>, plan))"

definition createReassignmentClaimCandidates ::
  "(string \<Rightarrow> string \<Rightarrow> int) \<Rightarrow> inspection \<Rightarrow> string \<Rightarrow> affinityRecord option \<Rightarrow> executionRunner list \<Rightarrow>
   claimCandidate list" where
  "createReassignmentClaimCandidates cmp insp activeLeaseId aff runners =
     (let insp' = withExpiredLease activeLeaseId insp
      in createExecutionRunClaimCandidates cmp
           (createExecutionRunQueueProjection insp' (claimOptions aff None)) insp' aff runners)"

definition createNoMutationEvaluation ::
  "authorityDecision \<Rightarrow> string \<Rightarrow> string option \<Rightarrow> futureMutation \<Rightarrow> authorityInput \<Rightarrow> queueProjection \<Rightarrow>
   claimCandidate list \<Rightarrow> authorityEvaluation" where
  "createNoMutationEvaluation d why selected mut inp queue candidates =
     \<lparr>au_runId = qp_runId queue, au_decision = d, au_reason = why, au_mutationAllowed = False,
      au_selectedRunnerId = selected, au_localRunnerId = ai_localRunnerId inp, au_queue = queue,
      au_activeLease = None, au_candidates = candidates, au_futureMutation = mut\<rparr>"

definition firstWith :: "claimCandidateStatus \<Rightarrow> claimCandidate list \<Rightarrow> claimCandidate option" where
  "firstWith st cs = find (\<lambda>c. cc_status c = st) cs"

text \<open>The two halves of the evaluator: a run with an active lease, and one without.\<close>

definition authorityWithLease ::
  "(string \<Rightarrow> string \<Rightarrow> int) \<Rightarrow> authorityInput \<Rightarrow> inspection \<Rightarrow> executionRunner list \<Rightarrow> queueProjection \<Rightarrow>
   claimCandidate list \<Rightarrow> executionRunLease \<Rightarrow> authorityEvaluation" where
  "authorityWithLease cmp inp insp runners queue candidates lease =
     (let owner = find (\<lambda>r. rnr_id r = lease_ownerId lease) runners;
          freshness = classifyLeaseOwnerFreshness owner (lease_expiresAt lease) (ai_now inp);
          projected = \<lparr>al_leaseId = lease_id lease, al_ownerId = lease_ownerId lease,
            al_expiresAt = lease_expiresAt lease, al_ownerStatus = map_option rnr_status owner,
            al_ownerFreshness = freshness\<rparr>
      in if lease_expiresAt lease \<le> ai_now inp \<and> (freshness = OwnerStale \<or> freshness = OwnerMissing)
         then \<lparr>au_runId = rec_runId (fst insp), au_decision = ReassignableAfterExpiredLease,
           au_reason = ''active lease '' @ lease_id lease @ '' is expired and owner '' @ lease_ownerId lease
             @ (if owner \<noteq> None then '' is stale'' else '' is missing''),
           au_mutationAllowed = False,
           au_selectedRunnerId = map_option cc_runnerId (firstWith CandEligible
             (createReassignmentClaimCandidates cmp insp (lease_id lease) (ai_affinity inp) runners)),
           au_localRunnerId = ai_localRunnerId inp, au_queue = queue, au_activeLease = Some projected,
           au_candidates = candidates, au_futureMutation = MutReassignExpiredLease\<rparr>
         else \<lparr>au_runId = rec_runId (fst insp), au_decision = BlockedByActiveLease,
           au_reason = createActiveLeaseBlockedReason (lease_id lease) (lease_ownerId lease) freshness,
           au_mutationAllowed = False, au_selectedRunnerId = Some (lease_ownerId lease),
           au_localRunnerId = ai_localRunnerId inp, au_queue = queue, au_activeLease = Some projected,
           au_candidates = candidates, au_futureMutation = MutNone\<rparr>)"

definition authorityOthers ::
  "authorityInput \<Rightarrow> queueProjection \<Rightarrow> claimCandidate list \<Rightarrow> authorityEvaluation" where
  "authorityOthers inp queue candidates =
     (case firstWith CandEligible candidates of
        Some c \<Rightarrow> createNoMutationEvaluation ClaimableByOtherRunner
          (''runner '' @ cc_runnerId c
            @ '' is eligible, but this evaluator has no scheduler authority to assign it'')
          (Some (cc_runnerId c)) MutSchedulerClaim inp queue candidates
      | None \<Rightarrow> (case firstWith CandBlockedAffinity candidates of
          Some c \<Rightarrow> createNoMutationEvaluation
            (if isCapabilityReason (cc_reason c) then BlockedMissingCapability else BlockedByAffinity)
            (orElse (cc_reason c) ''no eligible runner satisfies run affinity'') None MutNone inp queue candidates
        | None \<Rightarrow>
            if list_ex (\<lambda>c. cc_status c = CandStaleRunner) candidates
            then createNoMutationEvaluation BlockedMissingCapability ''no active eligible runner is available''
              None MutNone inp queue candidates
            else createNoMutationEvaluation BlockedMissingCapability ''no runner candidates are available''
              None MutNone inp queue candidates))"

definition authorityWithoutLease ::
  "authorityInput \<Rightarrow> queueProjection \<Rightarrow> claimCandidate list \<Rightarrow> authorityEvaluation" where
  "authorityWithoutLease inp queue candidates =
     (if qp_claimState queue = ClaimIdle
      then createNoMutationEvaluation NoOp ''run is idle'' None MutNone inp queue candidates
      else if qp_claimState queue \<noteq> Claimable
      then createNoMutationEvaluation
        (if qp_claimState queue = BlockedAffinity then BlockedByAffinity else AuthorityNotReady)
        (''run is '' @ claimStateText (qp_claimState queue)) None MutNone inp queue candidates
      else
        let localCandidate = (if truthy (ai_localRunnerId inp)
              then find (\<lambda>c. Some (cc_runnerId c) = ai_localRunnerId inp) candidates else None)
        in case localCandidate of
          Some c \<Rightarrow>
            if cc_status c = CandEligible
            then createNoMutationEvaluation ClaimableByLocalRunner
              (''local runner '' @ cc_runnerId c @ '' is eligible to claim the run'')
              (Some (cc_runnerId c)) MutLocalClaim inp queue candidates
            else authorityOthers inp queue candidates
        | None \<Rightarrow> authorityOthers inp queue candidates)"

definition authorityOn ::
  "(string \<Rightarrow> string \<Rightarrow> int) \<Rightarrow> authorityInput \<Rightarrow> inspection \<Rightarrow> executionRunner list \<Rightarrow> authorityEvaluation" where
  "authorityOn cmp inp insp runners =
     (let queue = createExecutionRunQueueProjection insp (claimOptions (ai_affinity inp) None);
          candidates = createExecutionRunClaimCandidates cmp queue insp (ai_affinity inp) runners
      in case getActiveExecutionRunLease (fst insp) of
           Some lease \<Rightarrow> authorityWithLease cmp inp insp runners queue candidates lease
         | None \<Rightarrow> authorityWithoutLease inp queue candidates)"

definition evaluateStoredExecutionRunSchedulerAuthority ::
  "(string \<Rightarrow> string \<Rightarrow> int) \<Rightarrow> 'w recordStore \<Rightarrow> 'w runnerStore \<Rightarrow> authorityInput \<Rightarrow>
   ('w, authorityEvaluation option) io" where
  "evaluateStoredExecutionRunSchedulerAuthority cmp S N inp =
     ioBind (controlInspectRun S (ai_runId inp)) (\<lambda>i. case i of
       None \<Rightarrow> ioReturn None
     | Some insp \<Rightarrow> ioBind (controlListRunners N allRunners) (\<lambda>recs.
         ioReturn (Some (authorityOn cmp inp insp (map rr_runner recs)))))"

section \<open>Reconciliation and repair\<close>

datatype reconciliationStatus = NoActiveLease | ActiveRunner | StaleRunner | MissingRunner

record reconciliation =
  rc_runId :: string
  rc_leaseId :: "string option"
  rc_leaseOwnerId :: "string option"
  rc_leaseExpiresAt :: "string option"
  rc_status :: reconciliationStatus
  rc_reason :: "string option"
  rc_runner :: "executionRunner option"

definition reconcileExecutionRunLeaseRunner ::
  "string \<Rightarrow> string option \<Rightarrow> string option \<Rightarrow> string option \<Rightarrow> executionRunner option \<Rightarrow> reconciliation" where
  "reconcileExecutionRunLeaseRunner runId leaseId leaseOwnerId leaseExpiresAt runner =
     (if \<not> truthy leaseId \<or> \<not> truthy leaseOwnerId
      then \<lparr>rc_runId = runId, rc_leaseId = None, rc_leaseOwnerId = None, rc_leaseExpiresAt = None,
        rc_status = NoActiveLease, rc_reason = Some ''run has no active lease'', rc_runner = None\<rparr>
      else
        let base = \<lparr>rc_runId = runId, rc_leaseId = leaseId, rc_leaseOwnerId = leaseOwnerId,
              rc_leaseExpiresAt = leaseExpiresAt, rc_status = ActiveRunner, rc_reason = None, rc_runner = runner\<rparr>
        in case runner of
          None \<Rightarrow> base\<lparr>rc_status := MissingRunner,
            rc_reason := Some (''lease owner '' @ the leaseOwnerId @ '' has no persisted runner record'')\<rparr>
        | Some r \<Rightarrow> if rnr_status r \<noteq> RunnerActive
            then base\<lparr>rc_status := StaleRunner,
              rc_reason := Some (''lease owner '' @ the leaseOwnerId @ '' is stale'')\<rparr>
            else base)"

definition evaluateStoredExecutionRunLeaseRunnerReconciliation ::
  "'w recordStore \<Rightarrow> 'w runnerStore \<Rightarrow> string \<Rightarrow> ('w, reconciliation option) io" where
  "evaluateStoredExecutionRunLeaseRunnerReconciliation S N runId =
     ioBind (st_readRecord S runId) (\<lambda>r. case r of
       None \<Rightarrow> ioReturn None
     | Some rec \<Rightarrow> (case getActiveExecutionRunLease rec of
         None \<Rightarrow> ioReturn (Some (reconcileExecutionRunLeaseRunner runId None None None None))
       | Some lease \<Rightarrow> ioBind (ns_readRecord N (lease_ownerId lease)) (\<lambda>runner.
           ioReturn (Some (reconcileExecutionRunLeaseRunner runId (Some (lease_id lease))
             (Some (lease_ownerId lease)) (Some (lease_expiresAt lease)) (map_option rr_runner runner))))))"

datatype repairPosture = InspectOnly | LocallyReclaimable | NotReclaimable

record repairClassification =
  rp_runId :: string
  rp_posture :: repairPosture
  rp_reason :: string
  rp_reconciliation :: reconciliation

definition reconciledLeaseExpired :: "reconciliation \<Rightarrow> string \<Rightarrow> bool" where
  "reconciledLeaseExpired rc now = (truthy (rc_leaseExpiresAt rc) \<and> the (rc_leaseExpiresAt rc) \<le> now)"

definition classifyExecutionRunRepairPosture :: "reconciliation \<Rightarrow> string \<Rightarrow> repairClassification" where
  "classifyExecutionRunRepairPosture rc now =
     (let answer = (\<lambda>p why. \<lparr>rp_runId = rc_runId rc, rp_posture = p, rp_reason = why, rp_reconciliation = rc\<rparr>)
      in case rc_status rc of
           NoActiveLease \<Rightarrow> answer NotReclaimable ''run has no active lease to reclaim''
         | ActiveRunner \<Rightarrow>
             if reconciledLeaseExpired rc now
             then answer LocallyReclaimable ''active lease owner stopped renewing the expired lease''
             else answer NotReclaimable ''active lease is still owned by an active runner''
         | _ \<Rightarrow>
             if reconciledLeaseExpired rc now
             then answer LocallyReclaimable ''active lease owner is unavailable and the lease is expired''
             else answer InspectOnly ''active lease owner is unavailable but the lease has not expired yet'')"

definition evaluateStoredExecutionRunRepairClassification ::
  "'w recordStore \<Rightarrow> 'w runnerStore \<Rightarrow> string \<Rightarrow> string \<Rightarrow> ('w, repairClassification option) io" where
  "evaluateStoredExecutionRunRepairClassification S N runId now =
     ioBind (evaluateStoredExecutionRunLeaseRunnerReconciliation S N runId) (\<lambda>rc.
       ioReturn (map_option (\<lambda>x. classifyExecutionRunRepairPosture x now) rc))"

text \<open>The result and whether the lease was repaired.\<close>

definition repairStoredExecutionRunLease ::
  "'w recordStore \<Rightarrow> 'w runnerStore \<Rightarrow> string \<Rightarrow> string \<Rightarrow> ('w, (repairClassification \<times> bool) option) io" where
  "repairStoredExecutionRunLease S N runId now =
     ioBind (evaluateStoredExecutionRunRepairClassification S N runId now) (\<lambda>c. case c of
       None \<Rightarrow> ioReturn None
     | Some classification \<Rightarrow>
         if rp_posture classification \<noteq> LocallyReclaimable then ioReturn (Some (classification, False))
         else ioBind (controlExpireLeases S runId now) (\<lambda>_. ioReturn (Some (classification, True))))"

section \<open>Two stores in one world\<close>

definition leftIo :: "('a, 'x) io \<Rightarrow> ('a \<times> 'b, 'x) io" where
  "leftIo m = (\<lambda>(a, b). case m a of (r, a') \<Rightarrow> (r, (a', b)))"

definition rightIo :: "('b, 'x) io \<Rightarrow> ('a \<times> 'b, 'x) io" where
  "rightIo m = (\<lambda>(a, b). case m b of (r, b') \<Rightarrow> (r, (a, b')))"

definition leftStore :: "'a recordStore \<Rightarrow> ('a \<times> 'b) recordStore" where
  "leftStore S = \<lparr>st_ensureStorage = leftIo (st_ensureStorage S),
     st_readRecord = (\<lambda>i. leftIo (st_readRecord S i)),
     st_writeRecord = (\<lambda>b opts. leftIo (st_writeRecord S b opts)),
     st_listBundles = (\<lambda>opts. leftIo (st_listBundles S opts)),
     st_listRecords = map_option (\<lambda>f opts. leftIo (f opts)) (st_listRecords S)\<rparr>"

definition rightStore :: "'b runnerStore \<Rightarrow> ('a \<times> 'b) runnerStore" where
  "rightStore N = \<lparr>ns_ensureStorage = rightIo (ns_ensureStorage N),
     ns_writeRunner = (\<lambda>r opts. rightIo (ns_writeRunner N r opts)),
     ns_readRecord = (\<lambda>i. rightIo (ns_readRecord N i)),
     ns_listRunners = (\<lambda>opts. rightIo (ns_listRunners N opts)),
     ns_deleteRunner = (\<lambda>i. rightIo (ns_deleteRunner N i))\<rparr>"

lemma leftIo_Pair [simp]: "leftIo m (a, b) = (case m a of (r, a') \<Rightarrow> (r, (a', b)))"
  by (simp add: leftIo_def)

lemma rightIo_Pair [simp]: "rightIo m (a, b) = (case m b of (r, b') \<Rightarrow> (r, (a, b')))"
  by (simp add: rightIo_def)

lemma leftIo_fst: "fst (leftIo m w) = fst (m (fst w))"
  by (cases w) (simp split: prod.split)

lemma leftIo_eq: "leftIo m w = (r, w') \<longleftrightarrow> m (fst w) = (r, fst w') \<and> snd w' = snd w"
  by (cases w; cases w') (auto split: prod.split)

lemma leftStore_simps [simp]:
  "st_readRecord (leftStore S) i = leftIo (st_readRecord S i)"
  "st_writeRecord (leftStore S) b opts = leftIo (st_writeRecord S b opts)"
  "st_ensureStorage (leftStore S) = leftIo (st_ensureStorage S)"
  by (simp_all add: leftStore_def)

lemma rightStore_simps [simp]:
  "ns_readRecord (rightStore N) i = rightIo (ns_readRecord N i)"
  "ns_listRunners (rightStore N) opts = rightIo (ns_listRunners N opts)"
  by (simp_all add: rightStore_def)

interpretation runStore: revisionStore "leftStore (createExecutionRunRecordStore parse le)" for parse le
proof unfold_locales
  fix i and w :: "runFs \<times> 'a"
  show "snd (st_readRecord (leftStore (createExecutionRunRecordStore parse le)) i w) = w"
    by (cases w) simp
next
  fix b :: runBundle and w :: "runFs \<times> 'a" and cur n and opts :: writeOptions
  assume "fst (st_readRecord (leftStore (createExecutionRunRecordStore parse le)) (run_id (bdl_run b)) w) = Inr cur"
    "wo_expectedRevision opts = Some n" "revisionOf cur \<noteq> n"
  then show "st_writeRecord (leftStore (createExecutionRunRecordStore parse le)) b opts w
      = (Inl (revisionMismatch (run_id (bdl_run b)) n (revisionOf cur)), w)"
    using fileStore.write_guard [of parse le b "fst w" cur opts n] by (simp add: leftIo_fst leftIo_eq)
next
  fix b :: runBundle and w :: "runFs \<times> 'a" and cur and opts :: writeOptions
  assume "fst (st_readRecord (leftStore (createExecutionRunRecordStore parse le)) (run_id (bdl_run b)) w) = Inr cur"
    "wo_expectedRevision opts \<in> {None, Some (revisionOf cur)}"
  then obtain fs' where "writeExecutionRunStoredRecord b opts (fst w)
    = (Inr \<lparr>rec_runId = run_id (bdl_run b), rec_revision = revisionOf cur + 1,
        rec_persistedAt = orElse (wo_persistedAt opts) (run_updatedAt (bdl_run b)), rec_bundle = b\<rparr>, fs')"
    using fileStore.write_result [of parse le b "fst w" cur opts] by (auto simp: leftIo_fst)
  then have "st_writeRecord (leftStore (createExecutionRunRecordStore parse le)) b opts w
    = (Inr \<lparr>rec_runId = run_id (bdl_run b), rec_revision = revisionOf cur + 1,
        rec_persistedAt = orElse (wo_persistedAt opts) (run_updatedAt (bdl_run b)), rec_bundle = b\<rparr>, (fs', snd w))"
    by (simp add: leftIo_eq)
  then show "\<exists>w'. st_writeRecord (leftStore (createExecutionRunRecordStore parse le)) b opts w
    = (Inr \<lparr>rec_runId = run_id (bdl_run b), rec_revision = revisionOf cur + 1,
        rec_persistedAt = orElse (wo_persistedAt opts) (run_updatedAt (bdl_run b)), rec_bundle = b\<rparr>, w')" by blast
next
  fix b :: runBundle and w :: "runFs \<times> 'a" and opts :: writeOptions and e
  assume "fst (st_readRecord (leftStore (createExecutionRunRecordStore parse le)) (run_id (bdl_run b)) w) = Inl e"
  then show "st_writeRecord (leftStore (createExecutionRunRecordStore parse le)) b opts w = (Inl e, w)"
    using fileStore.write_broken [of parse le b "fst w" e opts] by (simp add: leftIo_fst leftIo_eq)
next
  fix b :: runBundle and opts :: writeOptions and w w' :: "runFs \<times> 'a" and r
  assume w: "st_writeRecord (leftStore (createExecutionRunRecordStore parse le)) b opts w = (Inr r, w')"
  then show "fst (st_readRecord (leftStore (createExecutionRunRecordStore parse le)) (run_id (bdl_run b)) w') = Inr (Some r)"
    using fileStore.read_after_write [of parse le b opts "fst w" r "fst w'"] by (simp add: leftIo_fst leftIo_eq)
  fix i assume "i \<noteq> run_id (bdl_run b)"
  with w show "fst (st_readRecord (leftStore (createExecutionRunRecordStore parse le)) i w')
      = fst (st_readRecord (leftStore (createExecutionRunRecordStore parse le)) i w)"
    using fileStore.write_frame [of parse le b opts "fst w" r "fst w'" i] by (simp add: leftIo_fst leftIo_eq)
next
  fix w :: "runFs \<times> 'a" and i
  show "\<exists>w'. st_ensureStorage (leftStore (createExecutionRunRecordStore parse le)) w = (Inr (), w') \<and>
      fst (st_readRecord (leftStore (createExecutionRunRecordStore parse le)) i w')
        = fst (st_readRecord (leftStore (createExecutionRunRecordStore parse le)) i w)"
    using fileStore.ensure_frame [of parse le "fst w" i] by (cases w) (auto simp: leftIo_fst leftIo_eq)
qed

section \<open>Repair\<close>

text \<open>Expiring the leases of a stored run, in the terms of the store contract.\<close>

context revisionStore
begin

lemma controlExpireLeases_ok:
  assumes "peek w runId = Inr (Some r)" "run_id (bdl_run (rec_bundle r)) = runId"
    and "el_expiredLeaseIds (expireExecutionRunLeases (rec_bundle r) now) \<noteq> []"
  obtains r' w' where "controlExpireLeases S runId now w = (Inr (Some r'), w')"
    "peek w' runId = Inr (Some r')" "rec_revision r' = rec_revision r + 1"
    "rec_bundle r' = el_bundle (expireExecutionRunLeases (rec_bundle r) now)"
    "\<And>i. i \<noteq> runId \<Longrightarrow> peek w' i = peek w i"
proof -
  let ?b = "el_bundle (expireExecutionRunLeases (rec_bundle r) now)"
  have id: "run_id (bdl_run ?b) = runId"
    using assms(2) by (simp add: expireExecutionRunLeases_def Let_def)
  obtain r' w' where w': "st_writeRecord S ?b (expecting (rec_revision r)) w = (Inr r', w')"
    using write_ok_iff [of w ?b "Some r" "expecting (rec_revision r)"] assms(1) id
    by (auto simp: expecting_def revisionOf_def)
  have "rec_revision r' = rec_revision r + 1 \<and> rec_bundle r' = ?b \<and> peek w' runId = Inr (Some r')
    \<and> (\<forall>i. i \<noteq> runId \<longrightarrow> peek w' i = peek w i)"
  proof (rule write_cases [of ?b "expecting (rec_revision r)" w])
    fix e assume "st_writeRecord S ?b (expecting (rec_revision r)) w = (Inl e, w)"
    with w' show ?thesis by simp
  next
    fix cur r1 w1
    assume *: "st_writeRecord S ?b (expecting (rec_revision r)) w = (Inr r1, w1)"
      "peek w (run_id (bdl_run ?b)) = Inr cur" "rec_revision r1 = revisionOf cur + 1"
      "rec_bundle r1 = ?b" "peek w1 (run_id (bdl_run ?b)) = Inr (Some r1)"
      "\<And>i. i \<noteq> run_id (bdl_run ?b) \<Longrightarrow> peek w1 i = peek w i"
    from w' *(1) have "r1 = r'" "w1 = w'" by simp_all
    moreover from *(2) assms(1) id have "cur = Some r" by simp
    ultimately show ?thesis using *(3-6) id by (simp add: revisionOf_def)
  qed
  moreover have "controlExpireLeases S runId now w = (Inr (Some r'), w')"
    using assms(1,3) w' by (simp add: controlExpireLeases_def io_defs st_readRecord_eq)
  ultimately show thesis using that by blast
qed

end

lemma expired_no_active:
  assumes "wfBundle b" "activeLeaseOf b = Some l" "lease_expiresAt l \<le> now"
  shows "activeLeaseOf (el_bundle (expireExecutionRunLeases b now)) = None"
    "el_expiredLeaseIds (expireExecutionRunLeases b now) \<noteq> []"
proof -
  have l: "l \<in> set (bdl_leases b)" "leaseDue now l"
    using activeLeaseOf_Some [OF assms(2)] assms(3) by (simp_all add: leaseDue_def)
  then have "filter (leaseDue now) (bdl_leases b) \<noteq> []" by (auto simp: filter_empty_conv)
  then show "el_expiredLeaseIds (expireExecutionRunLeases b now) \<noteq> []"
    by (simp add: expireExecutionRunLeases_def Let_def)
  show "activeLeaseOf (el_bundle (expireExecutionRunLeases b now)) = None"
    using active_after_expire [OF assms(1,2), of now] l(2) by simp
qed

lemma expire_keeps_steps [simp]:
  "bdl_steps (el_bundle (expireExecutionRunLeases b now)) = bdl_steps b"
  by (simp add: expireExecutionRunLeases_def Let_def)

text \<open>The posture for a stored run with an active lease.\<close>

lemma repair_posture:
  assumes "lease_id l \<noteq> []" "lease_ownerId l \<noteq> []" "lease_expiresAt l \<noteq> []"
  shows "rp_posture (classifyExecutionRunRepairPosture (reconcileExecutionRunLeaseRunner runId
      (Some (lease_id l)) (Some (lease_ownerId l)) (Some (lease_expiresAt l)) runner) now) = LocallyReclaimable
    \<longleftrightarrow> lease_expiresAt l \<le> now"
  using assms
  by (cases runner) (auto simp: classifyExecutionRunRepairPosture_def reconcileExecutionRunLeaseRunner_def Let_def
    truthy_def reconciledLeaseExpired_def)

text \<open>Expiring the leases of a stored run whose active lease has run out frees it.\<close>

lemma expire_frees_run:
  assumes "storedRecordOk runId rec" "getActiveExecutionRunLease rec = Some l" "lease_expiresAt l \<le> now"
    and "readExecutionRunStoredRecord (fst w) runId = Inr (Some rec)"
  obtains r' w' where
    "controlExpireLeases (leftStore (createExecutionRunRecordStore parse le)) runId now w = (Inr (Some r'), w')"
    "snd w' = snd w" "readExecutionRunStoredRecord (fst w') runId = Inr (Some r')" "getActiveExecutionRunLease r' = None"
    "rec_revision r' = rec_revision rec + 1" "bdl_steps (rec_bundle r') = bdl_steps (rec_bundle rec)"
proof -
  have wf: "wfBundle (rec_bundle rec)" and rid: "run_id (bdl_run (rec_bundle rec)) = runId"
    using assms(1) by (simp_all add: storedRecordOk_def)
  have active: "activeLeaseOf (rec_bundle rec) = Some l"
    using assms(2) by (simp add: getActiveExecutionRunLease_def)
  have peek: "runStore.peek parse le w runId = Inr (Some rec)"
    using assms(4) by (simp add: runStore.peek_def leftIo_fst)
  obtain r' w' where r': "controlExpireLeases (leftStore (createExecutionRunRecordStore parse le)) runId now w = (Inr (Some r'), w')"
    "runStore.peek parse le w' runId = Inr (Some r')" "rec_revision r' = rec_revision rec + 1"
    "rec_bundle r' = el_bundle (expireExecutionRunLeases (rec_bundle rec) now)"
    by (rule runStore.controlExpireLeases_ok [OF peek rid expired_no_active(2) [OF wf active assms(3)]])
  have "snd w' = snd w"
    using r'(1) by (auto simp: controlExpireLeases_def ioBind_Inr ioReturn_def leftIo_eq Let_def
      split: option.splits if_splits)
  moreover have "readExecutionRunStoredRecord (fst w') runId = Inr (Some r')"
    using r'(2) by (simp add: runStore.peek_def leftIo_fst)
  moreover have "getActiveExecutionRunLease r' = None"
    using r'(4) expired_no_active(1) [OF wf active assms(3)] by (simp add: getActiveExecutionRunLease_def)
  ultimately show thesis using that r'(1,3,4) by simp
qed

text \<open>What reconciliation and classification find for a stored run with an active lease.\<close>

lemma repair_classified:
  assumes "getActiveExecutionRunLease rec = Some l"
    and "lease_id l \<noteq> []" "lease_ownerId l \<noteq> []" "lease_expiresAt l \<noteq> []"
    and "readExecutionRunStoredRecord (fst w) runId = Inr (Some rec)"
    and "readExecutionRunnerStoredRecord (snd w) (lease_ownerId l) = Inr runner"
  obtains c where
    "evaluateStoredExecutionRunRepairClassification (leftStore (createExecutionRunRecordStore parse le))
       (rightStore (createExecutionRunnerRecordStore le')) runId now w = (Inr (Some c), w)"
    "rp_posture c = LocallyReclaimable \<longleftrightarrow> lease_expiresAt l \<le> now"
proof -
  let ?S = "leftStore (createExecutionRunRecordStore parse le) :: (runFs \<times> runnerFs) recordStore"
  let ?N = "rightStore (createExecutionRunnerRecordStore le') :: (runFs \<times> runnerFs) runnerStore"
  define rc where "rc = reconcileExecutionRunLeaseRunner runId (Some (lease_id l)) (Some (lease_ownerId l))
    (Some (lease_expiresAt l)) (map_option rr_runner runner)"
  define c where "c = classifyExecutionRunRepairPosture rc now"
  have "evaluateStoredExecutionRunLeaseRunnerReconciliation ?S ?N runId w = (Inr (Some rc), w)"
    using assms(1,5,6) by (cases w) (simp add: evaluateStoredExecutionRunLeaseRunnerReconciliation_def io_defs
      rc_def createExecutionRunnerRecordStore_def)
  then have "evaluateStoredExecutionRunRepairClassification ?S ?N runId now w = (Inr (Some c), w)"
    by (simp add: evaluateStoredExecutionRunRepairClassification_def io_defs c_def)
  moreover have "rp_posture c = LocallyReclaimable \<longleftrightarrow> lease_expiresAt l \<le> now"
    unfolding c_def rc_def using assms(2-4) by (rule repair_posture)
  ultimately show thesis by (rule that)
qed

definition leasedRecord :: storedRecord where
  "leasedRecord = \<lparr>rec_runId = ''r'', rec_revision = 3, rec_persistedAt = ''t0'',
     rec_bundle = demoBundle [demoStep ''a'' 1 StepRunning []] [demoLease ''l'' ''n1'' LeaseActive ''t5'']\<rparr>"

definition leasedFs :: runFs where
  "leasedFs = emptyFs\<lparr>rf_runsDir := True, rf_dirs := [''r''], rf_record := (\<lambda>_. NoFile)(''r'' := File 0 (Json leasedRecord))\<rparr>"

lemma leasedFs_read: "readExecutionRunStoredRecord leasedFs i = Inr (if i = ''r'' then Some leasedRecord else None)"
  by (simp add: readExecutionRunStoredRecord_eq leasedFs_def emptyFs_def)

lemma leasedRecord_ok: "storedRecordOk ''r'' leasedRecord"
  by (simp add: storedRecordOk_def leasedRecord_def)
    (rule demoBundle_wf, simp_all add: demo_simps demoLease_def isActiveLease_def)

lemma leasedRecord_lease: "getActiveExecutionRunLease leasedRecord = Some (demoLease ''l'' ''n1'' LeaseActive ''t5'')"
  by (simp add: getActiveExecutionRunLease_def activeLeaseOf_def leasedRecord_def isActiveLease_def demoLease_def)

section \<open>What it takes to claim a run\<close>

text \<open>The specification: a runner meets the requirements of a run.\<close>

definition offers :: "'a list \<Rightarrow> 'a option \<Rightarrow> bool" where
  "offers xs x = (case x of None \<Rightarrow> True | Some y \<Rightarrow> y \<in> set xs)"

definition nonEmptyRequirement :: "string option \<Rightarrow> string option" where
  "nonEmptyRequirement x = (if x = Some [] then None else x)"

definition runnerMeets :: "affinityProjection \<Rightarrow> executionRunner \<Rightarrow> bool" where
  "runnerMeets a r \<longleftrightarrow>
     offers [rnr_hostId r] (nonEmptyRequirement (ap_requiredHostId a)) \<and>
     offers (rnr_serviceIds r) (ap_requiredService a) \<and>
     offers (rnr_runtimeProfileIds r) (nonEmptyRequirement (ap_requiredRuntimeProfileId a)) \<and>
     (ap_browserRequired a \<longrightarrow> rnr_browserCapable r) \<and>
     offers (rnr_browserProfileIds r) (nonEmptyRequirement (ap_requiredBrowserProfileId a)) \<and>
     offers (rnr_serviceAccountIds r) (nonEmptyRequirement (ap_requiredServiceAccountId a))"

lemma lacks_offers: "lacks xs x \<longleftrightarrow> \<not> offers xs (nonEmptyRequirement x)"
  by (cases x) (auto simp: lacks_def offers_def truthy_def nonEmptyRequirement_def)

lemma otherHost_offers: "otherHost a r \<longleftrightarrow> \<not> offers [rnr_hostId r] (nonEmptyRequirement (ap_requiredHostId a))"
  by (cases "ap_requiredHostId a") (auto simp: otherHost_def offers_def truthy_def nonEmptyRequirement_def)

lemma evaluateRunnerAffinity_eligible:
  "fst (the (evaluateRunnerAffinity a (Some r))) = AffEligible \<longleftrightarrow> rnr_status r = RunnerActive \<and> runnerMeets a r"
proof -
  have "ap_requiredService a \<noteq> None \<and> the (ap_requiredService a) \<notin> set (rnr_serviceIds r)
      \<longleftrightarrow> \<not> offers (rnr_serviceIds r) (ap_requiredService a)"
    by (cases "ap_requiredService a") (simp_all add: offers_def)
  then show ?thesis
    by (simp add: evaluateRunnerAffinity_def lacks_offers otherHost_offers runnerMeets_def)
qed

lemma evaluateRunnerAffinity_status:
  "fst (the (evaluateRunnerAffinity a (Some r))) = (if rnr_status r = RunnerActive \<and> runnerMeets a r then AffEligible else BlockedMismatch)"
proof -
  have "fst (the (evaluateRunnerAffinity a (Some r))) \<in> {AffEligible, BlockedMismatch}"
    by (simp add: evaluateRunnerAffinity_def)
  with evaluateRunnerAffinity_eligible show ?thesis by auto
qed

lemma affinity_status:
  "ap_status (createExecutionRunAffinityProjection insp (claimOptions aff runner)) = (case runner of
     None \<Rightarrow> NotEvaluated
   | Some r \<Rightarrow> if rnr_status r = RunnerActive \<and> runnerMeets (baseAffinity insp aff) r then AffEligible else BlockedMismatch)"
proof (cases runner)
  case None
  then show ?thesis
    by (simp add: createExecutionRunAffinityProjection_def claimOptions_def evaluateRunnerAffinity_def baseAffinity_def Let_def)
next
  case (Some r)
  obtain st why where e: "evaluateRunnerAffinity (baseAffinity insp aff) (Some r) = Some (st, why)"
    by (cases "evaluateRunnerAffinity (baseAffinity insp aff) (Some r)") (auto simp: evaluateRunnerAffinity_def)
  with evaluateRunnerAffinity_status [of "baseAffinity insp aff" r] Some show ?thesis
    by (simp add: createExecutionRunAffinityProjection_def claimOptions_def Let_def)
qed

lemma projection_simps [simp]:
  "qp_queueState (createExecutionRunQueueProjection insp opts) = classifyExecutionRunQueueState insp"
  "qp_affinity (createExecutionRunQueueProjection insp opts) = createExecutionRunAffinityProjection insp opts"
  "qp_claimState (createExecutionRunQueueProjection insp opts)
     = classifyExecutionRunClaimState (classifyExecutionRunQueueState insp) (createExecutionRunAffinityProjection insp opts)"
  "qp_runId (createExecutionRunQueueProjection insp opts) = rec_runId (fst insp)"
  by (simp_all add: createExecutionRunQueueProjection_def split_beta Let_def)

lemma queue_claimable:
  "classifyExecutionRunClaimState (classifyExecutionRunQueueState insp) (createExecutionRunAffinityProjection insp (claimOptions aff None))
     = Claimable \<longleftrightarrow> classifyExecutionRunQueueState insp \<in> {QRunnable, QRecoverableStranded}"
  by (auto simp: classifyExecutionRunClaimState_def affinity_status)

lemma candidate_eligible:
  "classifyExecutionRunClaimCandidateStatus (createExecutionRunQueueProjection insp (claimOptions aff None)) r
     (createExecutionRunQueueProjection insp (claimOptions aff (Some r))) = CandEligible
   \<longleftrightarrow> classifyExecutionRunQueueState insp \<in> {QRunnable, QRecoverableStranded} \<and> rnr_status r = RunnerActive
     \<and> runnerMeets (baseAffinity insp aff) r"
  by (auto simp: classifyExecutionRunClaimCandidateStatus_def classifyExecutionRunClaimState_def affinity_status)

lemma local_eligible:
  "lc_status (evaluateExecutionRunLocalClaim i now aff insp runner) = LcEligible
   \<longleftrightarrow> (\<exists>r. runner = Some r \<and> classifyExecutionRunQueueState insp \<in> {QRunnable, QRecoverableStranded}
     \<and> rnr_status r = RunnerActive \<and> \<not> heartbeatExpired r now \<and> runnerMeets (baseAffinity insp aff) r)"
  by (cases runner) (auto simp: evaluateExecutionRunLocalClaim_def Let_def classifyExecutionRunLocalClaimStatus_def
    classifyExecutionRunClaimState_def affinity_status)

text \<open>A stored run with running steps and no active lease can always be recovered.\<close>

lemma stored_queue_claimable:
  assumes "storedRecordOk i rec"
  shows "classifyExecutionRunQueueState (rec, createExecutionRunDispatchPlan (rec_bundle rec)) \<in> {QRunnable, QRecoverableStranded}
    \<longleftrightarrow> (\<forall>l\<in>set (bdl_leases (rec_bundle rec)). lease_status l \<noteq> LeaseActive)
      \<and> (truthy (dp_nextRunnableStepId (createExecutionRunDispatchPlan (rec_bundle rec)))
         \<or> (\<exists>s\<in>set (bdl_steps (rec_bundle rec)). step_status s = StepRunning))"
proof -
  let ?plan = "createExecutionRunDispatchPlan (rec_bundle rec)"
  have wf: "wfBundle (rec_bundle rec)" and rid: "rec_runId rec = run_id (bdl_run (rec_bundle rec))"
    using assms by (simp_all add: storedRecordOk_def)
  have running: "dp_runningStepIds ?plan \<noteq> [] \<longleftrightarrow> (\<exists>s\<in>set (bdl_steps (rec_bundle rec)). step_status s = StepRunning)"
    by (auto simp: plan_running filter_empty_conv)
  have "canRecoverStrandedExecutionRun (rec, ?plan)" if "dp_runningStepIds ?plan \<noteq> []"
    using recover_stranded [OF wf rid, of "\<lambda>_. []"] that running
    by (auto simp: canRecoverStrandedExecutionRun_def)
  with running show ?thesis
    by (auto simp: classifyExecutionRunQueueState_def Let_def getActiveExecutionRunLease_def activeLeaseOf_None)
qed

text \<open>A local runner may claim a stored run exactly when no lease holds the run, the run has a step to
  run or one left running by a lost runner, the runner is registered as active with a heartbeat that has
  not expired at the given time, and it meets every requirement of the run (host, service, profiles,
  browser, service account).\<close>

lemma local_claim_eligible_iff:
  assumes "storedRecordOk i rec" and "insp = (rec, createExecutionRunDispatchPlan (rec_bundle rec))"
  shows "lc_selected (selectExecutionRunLocalClaim rid (Some now) aff insp runner)
    \<longleftrightarrow> (\<forall>l\<in>set (bdl_leases (rec_bundle rec)). lease_status l \<noteq> LeaseActive)
      \<and> (truthy (dp_nextRunnableStepId (snd insp)) \<or> (\<exists>s\<in>set (bdl_steps (rec_bundle rec)). step_status s = StepRunning))
      \<and> (\<exists>r. runner = Some r \<and> rnr_status r = RunnerActive \<and> now < rnr_expiresAt r
           \<and> runnerMeets (baseAffinity insp aff) r)"
  using local_eligible [of rid "Some now" aff insp runner] stored_queue_claimable [OF assms(1)]
  by (auto simp: assms(2) selectExecutionRunLocalClaim_def Let_def heartbeatExpired_def)

lemma firstActiveStep_mem: "firstActiveStep p = Some s \<Longrightarrow> s \<in> set (dp_steps p)"
  by (auto simp: firstActiveStep_def orElseOpt_def split: option.splits dest: find_SomeD)

text \<open>A run without an affinity record whose steps name no service or profile can run anywhere.\<close>

lemma plain_step_meets:
  assumes "\<And>s. firstActiveStep (snd insp) = Some s \<Longrightarrow>
      step_service s = None \<and> step_runtimeProfileId s = None \<and> step_browserProfileId s = None"
  shows "runnerMeets (baseAffinity insp None) r"
proof (cases "firstActiveStep (snd insp)")
  case None
  then show ?thesis
    by (simp add: runnerMeets_def baseAffinity_def offers_def nonEmptyRequirement_def orElseOpt_def truthy_def Let_def)
next
  case (Some s)
  with assms [OF Some] show ?thesis
    by (simp add: runnerMeets_def baseAffinity_def offers_def nonEmptyRequirement_def orElseOpt_def truthy_def Let_def)
qed

definition idleRecord :: storedRecord where
  "idleRecord = leasedRecord\<lparr>rec_bundle := demoBundle [demoStep ''a'' 1 StepRunning []] []\<rparr>"

lemma idleRecord_ok: "storedRecordOk ''r'' idleRecord"
  by (simp add: storedRecordOk_def idleRecord_def leasedRecord_def) (rule demoBundle_wf, simp_all)

lemma local_claim_eligible_iff_example:
  "lc_selected (selectExecutionRunLocalClaim ''n1'' (Some ''t1'') None
     (idleRecord, createExecutionRunDispatchPlan (rec_bundle idleRecord))
     (Some (demoRunner ''n1'' RunnerActive ''t0'' ''t9'')))"
proof -
  let ?b = "rec_bundle idleRecord"
  have b: "bdl_leases ?b = []" "bdl_steps ?b = [demoStep ''a'' 1 StepRunning []]" by (simp_all add: idleRecord_def)
  have steps: "dp_steps (createExecutionRunDispatchPlan ?b) = [demoStep ''a'' 1 StepRunning []]"
    by (simp add: createExecutionRunDispatchPlan_def Let_def b)
  have "\<And>s. s \<in> set (dp_steps (createExecutionRunDispatchPlan ?b)) \<Longrightarrow>
      step_service s = None \<and> step_runtimeProfileId s = None \<and> step_browserProfileId s = None"
    by (simp add: steps demo_simps)
  then have "\<And>s. firstActiveStep (createExecutionRunDispatchPlan ?b) = Some s \<Longrightarrow>
      step_service s = None \<and> step_runtimeProfileId s = None \<and> step_browserProfileId s = None"
    using firstActiveStep_mem by blast
  then have "runnerMeets (baseAffinity (idleRecord, createExecutionRunDispatchPlan ?b) None) r" for r
    by (intro plain_step_meets) simp
  moreover have "\<exists>s\<in>set (bdl_steps ?b). step_status s = StepRunning" by (simp add: b demo_simps)
  moreover have "rnr_status (demoRunner ''n1'' RunnerActive ''t0'' ''t9'') = RunnerActive"
    "''t1'' < rnr_expiresAt (demoRunner ''n1'' RunnerActive ''t0'' ''t9'')" by (simp_all add: demoRunner_def)
  ultimately show ?thesis
    using local_claim_eligible_iff [OF idleRecord_ok refl, of "''n1''" "''t1''" None] b by simp
qed

section \<open>What the scheduler authority promises\<close>

text \<open>\<open>localeCompare\<close> orders strings: its sign flips with its arguments, and it is transitive.\<close>

definition localeOrder :: "(string \<Rightarrow> string \<Rightarrow> int) \<Rightarrow> bool" where
  "localeOrder cmp \<longleftrightarrow> (\<forall>x y. cmp x y < 0 \<longleftrightarrow> 0 < cmp y x) \<and>
     (\<forall>x y z. cmp x y \<le> 0 \<longrightarrow> cmp y z \<le> 0 \<longrightarrow> cmp x z \<le> 0)"

lemma localeOrder_flip: "localeOrder cmp \<Longrightarrow> cmp x y < 0 \<longleftrightarrow> 0 < cmp y x"
  by (simp add: localeOrder_def)

lemma localeOrder_trans: "localeOrder cmp \<Longrightarrow> cmp x y \<le> 0 \<Longrightarrow> cmp y z \<le> 0 \<Longrightarrow> cmp x z \<le> 0"
  unfolding localeOrder_def by blast

lemma localeOrder_cases:
  assumes "localeOrder cmp"
  shows "cmp x y = 0 \<longleftrightarrow> cmp y x = 0" "0 < cmp x y \<longleftrightarrow> cmp y x < 0"
proof -
  note f = localeOrder_flip [OF assms]
  show "0 < cmp x y \<longleftrightarrow> cmp y x < 0" using f [of y x] by simp
  show "cmp x y = 0 \<longleftrightarrow> cmp y x = 0" using f [of y x] f [of x y] by linarith
qed

lemma localeOrder_strict:
  "localeOrder cmp \<Longrightarrow> cmp x y < 0 \<Longrightarrow> cmp y z \<le> 0 \<Longrightarrow> cmp x z < 0"
  "localeOrder cmp \<Longrightarrow> cmp x y \<le> 0 \<Longrightarrow> cmp y z < 0 \<Longrightarrow> cmp x z < 0"
proof -
  assume l: "localeOrder cmp" "cmp x y < 0" "cmp y z \<le> 0"
  show "cmp x z < 0"
  proof (rule ccontr)
    assume "\<not> cmp x z < 0"
    then have "cmp z x \<le> 0" using localeOrder_cases [OF l(1), of z x] by linarith
    with l(3) have "cmp y x \<le> 0" by (rule localeOrder_trans [OF l(1)])
    with l(2) localeOrder_flip [OF l(1), of x y] show False by linarith
  qed
next
  assume l: "localeOrder cmp" "cmp x y \<le> 0" "cmp y z < 0"
  show "cmp x z < 0"
  proof (rule ccontr)
    assume "\<not> cmp x z < 0"
    then have "cmp z x \<le> 0" using localeOrder_cases [OF l(1), of z x] by linarith
    then have "cmp z y \<le> 0" using l(2) by (rule localeOrder_trans [OF l(1)])
    with l(3) localeOrder_flip [OF l(1), of y z] show False by linarith
  qed
qed

abbreviation (input) candidateLe :: "(string \<Rightarrow> string \<Rightarrow> int) \<Rightarrow> claimCandidate \<Rightarrow> claimCandidate \<Rightarrow> bool" where
  "candidateLe cmp l r \<equiv> compareExecutionRunClaimCandidates cmp l r \<le> 0"

lemma candidateLe_iff:
  "candidateLe cmp l r \<longleftrightarrow>
     (let a = claimCandidateRank (cc_status l); b = claimCandidateRank (cc_status r);
          h = cmp (cc_runnerLastHeartbeatAt r) (cc_runnerLastHeartbeatAt l)
      in a < b \<or> a = b \<and> (h < 0 \<or> h = 0 \<and> cmp (cc_runnerId l) (cc_runnerId r) \<le> 0))"
  by (auto simp: compareExecutionRunClaimCandidates_def Let_def)

lemma candidate_comparator: "localeOrder cmp \<Longrightarrow> comparator (candidateLe cmp)"
proof
  assume l: "localeOrder cmp"
  fix x y z
  note f = localeOrder_cases [OF l] localeOrder_flip [OF l]
  show "candidateLe cmp x y \<or> candidateLe cmp y x"
    unfolding candidateLe_iff Let_def
    using f(1,2) [of "cc_runnerLastHeartbeatAt x" "cc_runnerLastHeartbeatAt y"] f(2) [of "cc_runnerId x" "cc_runnerId y"]
    by linarith
  assume xy: "candidateLe cmp x y" and yz: "candidateLe cmp y z"
  let ?r = "\<lambda>c. claimCandidateRank (cc_status c)"
  let ?h = "\<lambda>a b. cmp (cc_runnerLastHeartbeatAt b) (cc_runnerLastHeartbeatAt a)"
  let ?i = "\<lambda>a b. cmp (cc_runnerId a) (cc_runnerId b)"
  note s = localeOrder_strict [OF l] and t = localeOrder_trans [OF l]
  consider "?r x < ?r z" | "?r x = ?r y" "?r y = ?r z" "?h x y < 0 \<or> ?h x y = 0 \<and> ?i x y \<le> 0"
      "?h y z < 0 \<or> ?h y z = 0 \<and> ?i y z \<le> 0"
    using xy yz unfolding candidateLe_iff Let_def by linarith
  then show "candidateLe cmp x z"
  proof cases
    case 1
    then show ?thesis by (simp add: candidateLe_iff)
  next
    case 2
    have "?h x z < 0 \<or> ?h x z = 0 \<and> ?i x z \<le> 0"
    proof (cases "?h x y < 0 \<or> ?h y z < 0")
      case True
      with 2(3,4) s(1) [of "cc_runnerLastHeartbeatAt z" "cc_runnerLastHeartbeatAt y" "cc_runnerLastHeartbeatAt x"]
        s(2) [of "cc_runnerLastHeartbeatAt z" "cc_runnerLastHeartbeatAt y" "cc_runnerLastHeartbeatAt x"]
      show ?thesis by linarith
    next
      case False
      with 2(3,4) have z: "?h x y = 0" "?i x y \<le> 0" "?h y z = 0" "?i y z \<le> 0" by auto
      from z(2,4) have "?i x z \<le> 0" by (rule t)
      moreover have "?h x z \<le> 0" using z(1,3) t [of "cc_runnerLastHeartbeatAt z" "cc_runnerLastHeartbeatAt y"] by simp
      ultimately show ?thesis by linarith
    qed
    with 2(1,2) show ?thesis by (simp add: candidateLe_iff)
  qed
qed

lemma set_candidates:
  "set (createExecutionRunClaimCandidates cmp queue insp aff runners) = claimCandidateOf queue insp aff ` set runners"
  by (simp add: createExecutionRunClaimCandidates_def)

lemma sorted_candidates:
  "localeOrder cmp \<Longrightarrow> sorted_wrt (candidateLe cmp) (createExecutionRunClaimCandidates cmp queue insp aff runners)"
  unfolding createExecutionRunClaimCandidates_def by (rule comparator.sorted_sortBy [OF candidate_comparator])

text \<open>The first eligible candidate of a sorted list heads it, with the newest heartbeat of all.\<close>

lemma firstWith_least:
  assumes "localeOrder cmp" "sorted_wrt (candidateLe cmp) cs" "firstWith CandEligible cs = Some c" "d \<in> set cs"
    "cc_status d = CandEligible"
  shows "cmp (cc_runnerLastHeartbeatAt d) (cc_runnerLastHeartbeatAt c) \<le> 0"
proof -
  have c: "cc_status c = CandEligible" using assms(3) by (auto simp: firstWith_def dest: find_SomeD)
  have "candidateLe cmp c d"
    using assms(2-4)
  proof (induction cs)
    case Nil
    then show ?case by simp
  next
    case (Cons e es)
    show ?case
    proof (cases "cc_status e = CandEligible")
      case True
      with Cons.prems have "e = c" by (simp add: firstWith_def)
      moreover have "candidateLe cmp c c"
        using comparator.refl [OF candidate_comparator [OF assms(1)], of c] by simp
      moreover have "d = e \<or> candidateLe cmp e d"
        using Cons.prems(1,3) by (simp only: sorted_wrt.simps list.set insert_iff) blast
      ultimately show ?thesis by blast
    next
      case False
      with Cons.prems assms(5) have "d \<in> set es" "firstWith CandEligible es = Some c" by (auto simp: firstWith_def)
      with Cons show ?thesis by simp
    qed
  qed
  with c assms(5) show ?thesis by (simp add: candidateLe_iff Let_def) linarith
qed

lemma readRunnerRecords_pure:
  "readRunnerRecords (rightStore (createExecutionRunnerRecordStore le)) rs w = (x, w') \<Longrightarrow> w' = w"
proof (induction rs arbitrary: x w')
  case Nil
  then show ?case by (simp add: ioReturn_def)
next
  case (Cons r rs)
  obtain fs ns where w: "w = (fs, ns)" by (cases w)
  obtain y v where rest: "readRunnerRecords (rightStore (createExecutionRunnerRecordStore le)) rs w = (y, v)"
    by (cases "readRunnerRecords (rightStore (createExecutionRunnerRecordStore le)) rs w")
  with Cons.IH have "v = w" by blast
  with rest Cons.prems w show ?case
    by (auto simp: io_defs createExecutionRunnerRecordStore_def split: sum.splits)
qed

lemma controlListRunners_pure:
  assumes "controlListRunners (rightStore (createExecutionRunnerRecordStore le)) opts w = (x, w')"
  shows "w' = w"
proof -
  obtain fs ns where w: "w = (fs, ns)" by (cases w)
  show ?thesis
  proof (cases "listExecutionRunnerRecords le opts ns")
    case (Inl e)
    with assms w show ?thesis by (simp add: controlListRunners_def io_defs createExecutionRunnerRecordStore_def)
  next
    case (Inr rs)
    obtain y v where rest: "readRunnerRecords (rightStore (createExecutionRunnerRecordStore le)) rs w = (y, v)"
      by (cases "readRunnerRecords (rightStore (createExecutionRunnerRecordStore le)) rs w")
    then have "v = w" by (rule readRunnerRecords_pure)
    moreover have "ns_listRunners (rightStore (createExecutionRunnerRecordStore le)) opts w = (Inr rs, w)"
      using Inr w by (simp add: createExecutionRunnerRecordStore_def)
    ultimately show ?thesis using rest assms
      by (auto simp: controlListRunners_def io_defs split: sum.splits)
  qed
qed

text \<open>What an evaluation is made of.\<close>

lemma authority_cases:
  fixes w :: "runFs \<times> runnerFs"
  assumes "evaluateStoredExecutionRunSchedulerAuthority cmp (leftStore (createExecutionRunRecordStore parse le))
      (rightStore (createExecutionRunnerRecordStore le')) inp w = (Inr (Some au), w')"
  obtains rec recs where "w' = w"
    "readExecutionRunStoredRecord (fst w) (ai_runId inp) = Inr (Some rec)"
    "controlListRunners (rightStore (createExecutionRunnerRecordStore le')) allRunners w = (Inr recs, w)"
    "au = authorityOn cmp inp (rec, createExecutionRunDispatchPlan (rec_bundle rec)) (map rr_runner recs)"
proof -
  let ?S = "leftStore (createExecutionRunRecordStore parse le) :: (runFs \<times> runnerFs) recordStore"
  let ?N = "rightStore (createExecutionRunnerRecordStore le') :: (runFs \<times> runnerFs) runnerStore"
  obtain i w1 where i: "controlInspectRun ?S (ai_runId inp) w = (Inr i, w1)"
    and rest: "(case i of None \<Rightarrow> ioReturn None | Some insp \<Rightarrow> ioBind (controlListRunners ?N allRunners) (\<lambda>recs.
         ioReturn (Some (authorityOn cmp inp insp (map rr_runner recs))))) w1 = (Inr (Some au), w')"
    using assms unfolding evaluateStoredExecutionRunSchedulerAuthority_def ioBind_Inr by blast
  from i obtain r where r: "readExecutionRunStoredRecord (fst w) (ai_runId inp) = Inr r" "w1 = w"
    "i = map_option (\<lambda>rec. (rec, createExecutionRunDispatchPlan (rec_bundle rec))) r"
    by (cases w) (auto simp: controlInspectRun_def ioBind_Inr ioReturn_def split: option.splits)
  from rest r(3) obtain rec where rec: "r = Some rec" by (cases r) (auto simp: ioReturn_def)
  with rest r obtain recs w2 where recs: "controlListRunners ?N allRunners w = (Inr recs, w2)"
    and au: "ioReturn (Some (authorityOn cmp inp (rec, createExecutionRunDispatchPlan (rec_bundle rec)) (map rr_runner recs))) w2
        = (Inr (Some au), w')"
    by (auto simp: ioBind_Inr)
  have "w2 = w" by (rule controlListRunners_pure [OF recs])
  with recs au r(1,2) rec show thesis
    by (intro that) (auto simp: ioReturn_def)
qed

lemma noMutation_simps [simp]:
  "au_decision (createNoMutationEvaluation d why sel mut inp queue cs) = d"
  "au_selectedRunnerId (createNoMutationEvaluation d why sel mut inp queue cs) = sel"
  "au_mutationAllowed (createNoMutationEvaluation d why sel mut inp queue cs) = False"
  by (simp_all add: createNoMutationEvaluation_def)

lemma authorityWithLease_decision:
  "au_decision (authorityWithLease cmp inp insp runners queue cs lease) \<in> {ReassignableAfterExpiredLease, BlockedByActiveLease}"
  "au_mutationAllowed (authorityWithLease cmp inp insp runners queue cs lease) = False"
  by (simp_all add: authorityWithLease_def Let_def)

lemma authorityOthers_result:
  "au_mutationAllowed (authorityOthers inp queue cs) = False"
  "au_decision (authorityOthers inp queue cs) \<in> {ClaimableByOtherRunner, BlockedMissingCapability, BlockedByAffinity}"
  "au_decision (authorityOthers inp queue cs) = ClaimableByOtherRunner \<Longrightarrow>
   \<exists>c. firstWith CandEligible cs = Some c \<and> au_selectedRunnerId (authorityOthers inp queue cs) = Some (cc_runnerId c)"
  by (cases "firstWith CandEligible cs"; cases "firstWith CandBlockedAffinity cs"; simp add: authorityOthers_def split: if_splits)+

lemma authorityWithoutLease_result:
  assumes "a = authorityWithoutLease inp queue cs"
  shows "au_mutationAllowed a = False" "au_decision a \<noteq> ReassignableAfterExpiredLease" "au_decision a \<noteq> BlockedHumanState"
    "au_decision a = ClaimableByLocalRunner \<Longrightarrow> \<exists>c\<in>set cs. cc_status c = CandEligible
       \<and> au_selectedRunnerId a = Some (cc_runnerId c) \<and> Some (cc_runnerId c) = ai_localRunnerId inp"
    "au_decision a = ClaimableByOtherRunner \<Longrightarrow> \<exists>c. firstWith CandEligible cs = Some c
       \<and> au_selectedRunnerId a = Some (cc_runnerId c)"
proof -
  let ?local = "if truthy (ai_localRunnerId inp)
              then find (\<lambda>c. Some (cc_runnerId c) = ai_localRunnerId inp) cs else None"
  note other = authorityOthers_result [of inp queue cs]
  consider (plain) d why mut where "a = createNoMutationEvaluation d why None mut inp queue cs"
      "d \<in> {NoOp, BlockedByAffinity, AuthorityNotReady}"
    | (local) c why where "?local = Some c" "cc_status c = CandEligible"
      "a = createNoMutationEvaluation ClaimableByLocalRunner why (Some (cc_runnerId c)) MutLocalClaim inp queue cs"
    | (others) "a = authorityOthers inp queue cs"
  proof -
    consider "qp_claimState queue \<noteq> Claimable" | "qp_claimState queue = Claimable" "?local = None"
      | c where "qp_claimState queue = Claimable" "?local = Some c" by (cases ?local) auto
    then show thesis
    proof cases
      case 1
      then have "a = (if qp_claimState queue = ClaimIdle
          then createNoMutationEvaluation NoOp ''run is idle'' None MutNone inp queue cs
          else createNoMutationEvaluation (if qp_claimState queue = BlockedAffinity then BlockedByAffinity else AuthorityNotReady)
            (''run is '' @ claimStateText (qp_claimState queue)) None MutNone inp queue cs)"
        by (simp only: assms authorityWithoutLease_def not_False_eq_True if_True)
      then show thesis using plain by (cases "qp_claimState queue = ClaimIdle"; cases "qp_claimState queue = BlockedAffinity") auto
    next
      case 2
      then show thesis by (intro others) (simp only: assms authorityWithoutLease_def Let_def, simp)
    next
      case (3 c)
      then have "a = (if cc_status c = CandEligible then createNoMutationEvaluation ClaimableByLocalRunner
              (''local runner '' @ cc_runnerId c @ '' is eligible to claim the run'')
              (Some (cc_runnerId c)) MutLocalClaim inp queue cs else authorityOthers inp queue cs)"
        unfolding assms authorityWithoutLease_def Let_def by (simp only: option.case) simp
      with 3 show thesis using local others by (cases "cc_status c = CandEligible") auto
    qed
  qed
  note cases = this
  show "au_mutationAllowed a = False" using cases other(1) by cases simp_all
  show "au_decision a \<noteq> ReassignableAfterExpiredLease" using cases other(2) by cases auto
  show "au_decision a \<noteq> BlockedHumanState" using cases other(2) by cases auto
  show "\<exists>c\<in>set cs. cc_status c = CandEligible
       \<and> au_selectedRunnerId a = Some (cc_runnerId c) \<and> Some (cc_runnerId c) = ai_localRunnerId inp"
    if "au_decision a = ClaimableByLocalRunner"
    using cases
  proof cases
    case plain
    with that show ?thesis by auto
  next
    case (local c why)
    then show ?thesis by (auto split: if_splits dest!: find_SomeD)
  next
    case others
    with that other(2) show ?thesis by simp
  qed
  show "\<exists>c. firstWith CandEligible cs = Some c \<and> au_selectedRunnerId a = Some (cc_runnerId c)"
    if "au_decision a = ClaimableByOtherRunner"
    using cases that other(3) by cases auto
qed

lemma find_by_key_iff:
  "distinct (map key xs) \<Longrightarrow>
   (case find (\<lambda>x. key x = k) xs of None \<Rightarrow> True | Some x \<Rightarrow> \<not> P x) \<longleftrightarrow> \<not> (\<exists>x\<in>set xs. key x = k \<and> P x)"
  by (induction xs) (auto simp: image_iff)

definition mayClaim :: "affinityRecord option \<Rightarrow> inspection \<Rightarrow> executionRunner \<Rightarrow> bool" where
  "mayClaim aff insp r \<longleftrightarrow> lc_status (evaluateExecutionRunLocalClaim (rnr_id r) None aff insp (Some r)) = LcEligible"

lemma candidate_mayClaim:
  "cc_status (claimCandidateOf (createExecutionRunQueueProjection insp (claimOptions aff None)) insp aff r) = CandEligible
   \<longleftrightarrow> mayClaim aff insp r"
  unfolding mayClaim_def local_eligible claimCandidateOf_def Let_def
  by (simp add: candidate_eligible heartbeatExpired_def)

lemma claimCandidateOf_simps [simp]:
  "cc_runnerId (claimCandidateOf queue insp aff r) = rnr_id r"
  "cc_runnerLastHeartbeatAt (claimCandidateOf queue insp aff r) = rnr_lastHeartbeatAt r"
  by (simp_all add: claimCandidateOf_def Let_def)

lemma authorityOn_points:
  assumes order: "localeOrder cmp" and au: "au = authorityOn cmp inp insp runners"
  shows "\<not> au_mutationAllowed au"
    and "au_decision au = ClaimableByLocalRunner \<Longrightarrow> \<exists>r\<in>set runners. mayClaim (ai_affinity inp) insp r
      \<and> au_selectedRunnerId au = Some (rnr_id r) \<and> Some (rnr_id r) = ai_localRunnerId inp"
    and "au_decision au = ClaimableByOtherRunner \<Longrightarrow> \<exists>r\<in>set runners. mayClaim (ai_affinity inp) insp r
      \<and> au_selectedRunnerId au = Some (rnr_id r)
      \<and> (\<forall>q\<in>set runners. mayClaim (ai_affinity inp) insp q \<longrightarrow> cmp (rnr_lastHeartbeatAt q) (rnr_lastHeartbeatAt r) \<le> 0)"
proof -
  let ?aff = "ai_affinity inp"
  define queue where "queue = createExecutionRunQueueProjection insp (claimOptions ?aff None)"
  define cs where "cs = createExecutionRunClaimCandidates cmp queue insp ?aff runners"
  have set_cs: "set cs = claimCandidateOf queue insp ?aff ` set runners" by (simp add: cs_def set_candidates)
  have may: "cc_status (claimCandidateOf queue insp ?aff r) = CandEligible \<longleftrightarrow> mayClaim ?aff insp r" for r
    unfolding queue_def by (rule candidate_mayClaim)
  have sorted: "sorted_wrt (candidateLe cmp) cs" unfolding cs_def by (rule sorted_candidates [OF order])
  consider (leased) l where "au = authorityWithLease cmp inp insp runners queue cs l"
    | (free) "au = authorityWithoutLease inp queue cs"
    by (cases "getActiveExecutionRunLease (fst insp)") (auto simp: au authorityOn_def queue_def cs_def Let_def)
  note cases = this
  show "\<not> au_mutationAllowed au"
    using cases authorityWithLease_decision(2) authorityWithoutLease_result(1) by metis
  have free: "au = authorityWithoutLease inp queue cs" if "au_decision au \<in> {ClaimableByLocalRunner, ClaimableByOtherRunner}"
    using cases
  proof cases
    case (leased l)
    with that authorityWithLease_decision(1) [of cmp inp insp runners queue cs l] show ?thesis by auto
  qed
  show "\<exists>r\<in>set runners. mayClaim ?aff insp r \<and> au_selectedRunnerId au = Some (rnr_id r) \<and> Some (rnr_id r) = ai_localRunnerId inp"
    if local: "au_decision au = ClaimableByLocalRunner"
    using authorityWithoutLease_result(4) [OF free local] local set_cs may by auto
  show "\<exists>r\<in>set runners. mayClaim ?aff insp r \<and> au_selectedRunnerId au = Some (rnr_id r)
      \<and> (\<forall>q\<in>set runners. mayClaim ?aff insp q \<longrightarrow> cmp (rnr_lastHeartbeatAt q) (rnr_lastHeartbeatAt r) \<le> 0)"
    if other: "au_decision au = ClaimableByOtherRunner"
  proof -
    obtain c where c: "firstWith CandEligible cs = Some c" "au_selectedRunnerId au = Some (cc_runnerId c)"
      using authorityWithoutLease_result(5) [OF free other] other by auto
    then have "c \<in> set cs" "cc_status c = CandEligible" by (auto simp: firstWith_def dest: find_SomeD)
    then obtain r where r: "r \<in> set runners" "c = claimCandidateOf queue insp ?aff r" "mayClaim ?aff insp r"
      using set_cs may by auto
    moreover have "cmp (rnr_lastHeartbeatAt q) (rnr_lastHeartbeatAt r) \<le> 0" if "q \<in> set runners" "mayClaim ?aff insp q" for q
      using firstWith_least [OF order sorted c(1), of "claimCandidateOf queue insp ?aff q"] that set_cs r(2) may by auto
    ultimately show ?thesis using c(2) by auto
  qed
qed

text \<open>C13. The scheduler authority only points, and only at a runner that may claim: an evaluation over the
  file stores changes nothing and never allows a mutation; when it calls a run claimable, the runner it
  names is a registered one whose local claim on that run is eligible; a local claim names the local
  runner, and of the other runners it names an eligible one whose heartbeat is the newest.\<close>

theorem authority_selects_eligible_runner:
  fixes w :: "runFs \<times> runnerFs"
  assumes "localeOrder cmp"
    and "evaluateStoredExecutionRunSchedulerAuthority cmp (leftStore (createExecutionRunRecordStore parse le))
      (rightStore (createExecutionRunnerRecordStore le')) inp w = (Inr (Some au), w')"
  shows "w' = w \<and> \<not> au_mutationAllowed au \<and> (\<exists>rec recs.
      readExecutionRunStoredRecord (fst w) (ai_runId inp) = Inr (Some rec)
    \<and> controlListRunners (rightStore (createExecutionRunnerRecordStore le')) allRunners w = (Inr recs, w)
    \<and> (let may = mayClaim (ai_affinity inp) (rec, createExecutionRunDispatchPlan (rec_bundle rec));
           runners = rr_runner ` set recs
       in (au_decision au = ClaimableByLocalRunner \<longrightarrow>
             (\<exists>r\<in>runners. may r \<and> au_selectedRunnerId au = Some (rnr_id r) \<and> Some (rnr_id r) = ai_localRunnerId inp))
        \<and> (au_decision au = ClaimableByOtherRunner \<longrightarrow>
             (\<exists>r\<in>runners. may r \<and> au_selectedRunnerId au = Some (rnr_id r)
               \<and> (\<forall>q\<in>runners. may q \<longrightarrow> cmp (rnr_lastHeartbeatAt q) (rnr_lastHeartbeatAt r) \<le> 0)))))"
proof (rule authority_cases [OF assms(2)])
  fix rec recs
  assume w: "w' = w" "readExecutionRunStoredRecord (fst w) (ai_runId inp) = Inr (Some rec)"
    "controlListRunners (rightStore (createExecutionRunnerRecordStore le')) allRunners w = (Inr recs, w)"
    and au: "au = authorityOn cmp inp (rec, createExecutionRunDispatchPlan (rec_bundle rec)) (map rr_runner recs)"
  note points = authorityOn_points [OF assms(1) au]
  show ?thesis
    unfolding Let_def using w points(1) points(2,3) [unfolded set_map] by blast
qed

text \<open>A comparison of strings by code unit is such an order.\<close>

definition codeUnitOrder :: "string \<Rightarrow> string \<Rightarrow> int" where
  "codeUnitOrder x y = (if x < y then - 1 else if x = y then 0 else 1)"

lemma codeUnitOrder_ok: "localeOrder codeUnitOrder"
  by (auto simp: localeOrder_def codeUnitOrder_def)

definition demoInput :: authorityInput where
  "demoInput = \<lparr>ai_runId = ''r'', ai_now = ''t7'', ai_localRunnerId = None, ai_affinity = None\<rparr>"

lemma demo_runners:
  "controlListRunners (rightStore (createExecutionRunnerRecordStore (\<le>))) allRunners (fs, emptyRunnerFs)
     = (Inr [], (fs, emptyRunnerFs))"
  by (simp add: controlListRunners_def io_defs createExecutionRunnerRecordStore_def listExecutionRunnerRecords_def
    emptyRunnerFs_def somes_def)

lemma demo_authority:
  "\<exists>au. evaluateStoredExecutionRunSchedulerAuthority codeUnitOrder
      (leftStore (createExecutionRunRecordStore (\<lambda>_. None) (\<le>))) (rightStore (createExecutionRunnerRecordStore (\<le>)))
      demoInput (leasedFs, emptyRunnerFs) = (Inr (Some au), (leasedFs, emptyRunnerFs))"
  unfolding evaluateStoredExecutionRunSchedulerAuthority_def
  by (simp add: controlInspectRun_def ioBind_def ioReturn_def leasedFs_read demo_runners demoInput_def)

lemma authority_selects_eligible_runner_witness:
  "\<exists>au. evaluateStoredExecutionRunSchedulerAuthority codeUnitOrder
      (leftStore (createExecutionRunRecordStore (\<lambda>_. None) (\<le>))) (rightStore (createExecutionRunnerRecordStore (\<le>)))
      demoInput (leasedFs, emptyRunnerFs) = (Inr (Some au), (leasedFs, emptyRunnerFs)) \<and> \<not> au_mutationAllowed au"
  using demo_authority authority_selects_eligible_runner [OF codeUnitOrder_ok] by blast

text \<open>A run is taken from its owner only when the owner is gone: over the file stores the authority
  answers that a leased run can be reassigned exactly when its active lease has expired and the owner is
  not registered or no longer active; it never answers \<open>blocked-human-state\<close>.\<close>

lemma authority_reassigns_only_from_lost_owner:
  fixes w :: "runFs \<times> runnerFs"
  assumes "evaluateStoredExecutionRunSchedulerAuthority cmp (leftStore (createExecutionRunRecordStore parse le))
      (rightStore (createExecutionRunnerRecordStore le')) inp w = (Inr (Some au), w')"
    and "readExecutionRunStoredRecord (fst w) (ai_runId inp) = Inr (Some rec)"
    and "controlListRunners (rightStore (createExecutionRunnerRecordStore le')) allRunners w = (Inr recs, w)"
    and "distinct (map (\<lambda>rec. rnr_id (rr_runner rec)) recs)"
  shows "au_decision au \<noteq> BlockedHumanState \<and>
    (au_decision au = ReassignableAfterExpiredLease \<longleftrightarrow> (\<exists>l. getActiveExecutionRunLease rec = Some l
       \<and> lease_expiresAt l \<le> ai_now inp
       \<and> \<not> (\<exists>r\<in>rr_runner ` set recs. rnr_id r = lease_ownerId l \<and> rnr_status r = RunnerActive)))"
proof (rule authority_cases [OF assms(1)])
  fix rec' recs'
  assume "readExecutionRunStoredRecord (fst w) (ai_runId inp) = Inr (Some rec')"
    "controlListRunners (rightStore (createExecutionRunnerRecordStore le')) allRunners w = (Inr recs', w)"
    "au = authorityOn cmp inp (rec', createExecutionRunDispatchPlan (rec_bundle rec')) (map rr_runner recs')"
  with assms(2,3) have au: "au = authorityOn cmp inp (rec, createExecutionRunDispatchPlan (rec_bundle rec)) (map rr_runner recs)"
    by simp
  show ?thesis
  proof (cases "getActiveExecutionRunLease rec")
    case None
    then obtain q cs where "au = authorityWithoutLease inp q cs" by (simp add: au authorityOn_def Let_def)
    from authorityWithoutLease_result(2,3) [OF this] None show ?thesis by simp
  next
    case (Some l)
    let ?owner = "find (\<lambda>r. rnr_id r = lease_ownerId l) (map rr_runner recs)"
    have decision: "au_decision au = (if lease_expiresAt l \<le> ai_now inp \<and>
        (case ?owner of None \<Rightarrow> True | Some r \<Rightarrow> rnr_status r \<noteq> RunnerActive)
        then ReassignableAfterExpiredLease else BlockedByActiveLease)"
      using Some by (cases ?owner) (simp_all add: au authorityOn_def authorityWithLease_def Let_def classifyLeaseOwnerFreshness_def)
    have "(case ?owner of None \<Rightarrow> True | Some r \<Rightarrow> rnr_status r \<noteq> RunnerActive)
      \<longleftrightarrow> \<not> (\<exists>r\<in>rr_runner ` set recs. rnr_id r = lease_ownerId l \<and> rnr_status r = RunnerActive)"
    proof -
      have "distinct (map rnr_id (map rr_runner recs))" using assms(4) by (simp add: comp_def)
      from find_by_key_iff [OF this, where k = "lease_ownerId l" and P = "\<lambda>r. rnr_status r = RunnerActive"] show ?thesis by simp
    qed
    with decision Some show ?thesis by simp
  qed
qed

lemma authority_reassigns_only_from_lost_owner_example:
  "\<exists>au. evaluateStoredExecutionRunSchedulerAuthority codeUnitOrder
      (leftStore (createExecutionRunRecordStore (\<lambda>_. None) (\<le>))) (rightStore (createExecutionRunnerRecordStore (\<le>)))
      demoInput (leasedFs, emptyRunnerFs) = (Inr (Some au), (leasedFs, emptyRunnerFs))
    \<and> au_decision au = ReassignableAfterExpiredLease"
proof -
  obtain au where au: "evaluateStoredExecutionRunSchedulerAuthority codeUnitOrder
      (leftStore (createExecutionRunRecordStore (\<lambda>_. None) (\<le>))) (rightStore (createExecutionRunnerRecordStore (\<le>)))
      demoInput (leasedFs, emptyRunnerFs) = (Inr (Some au), (leasedFs, emptyRunnerFs))"
    using demo_authority by blast
  have read: "readExecutionRunStoredRecord (fst (leasedFs, emptyRunnerFs)) (ai_runId demoInput) = Inr (Some leasedRecord)"
    by (simp add: leasedFs_read demoInput_def)
  have "au_decision au = ReassignableAfterExpiredLease"
    using authority_reassigns_only_from_lost_owner [OF au read demo_runners]
    by (simp add: leasedRecord_lease demoLease_def demoInput_def)
  with au show ?thesis by blast
qed

end
