(* ===== verification/Execution.thy ===== *)
theory Execution
  imports Step_Context Scheduling
begin

text \<open>
  One pass of a runner over a stored run (\<open>executeStoredExecutionRunOnce\<close> of
  \<open>src/runtime/runner.ts\<close>): inspect the run, enforce the limits of the next step, take or renew the
  lease, run the step under \<open>try ... catch ... finally\<close>, and give the lease back. The world holds the
  run store; the clock, the executor of a step, the host's local actions and the heartbeat observer
  are fields of an environment. The timer's heartbeats are among the heartbeat calls of the
  executor, since it is the only await during which they matter.
\<close>

section \<open>Environment\<close>

record runtimeEvidence =
  re_observedAt :: "string option"
  re_state :: "string option"
  re_source :: "string option"
  re_evidenceRef :: "string option"
  re_confidence :: "string option"
  re_details :: "jobj option"

record stepResult =
  sr_output :: "stepOutput option"
  sr_usage :: "providerUsage option"
  sr_sharedState :: "sharedStatePatch option"

record leaseHeartbeatInput =
  lh_runId :: string
  lh_leaseId :: string
  lh_ownerId :: string
  lh_heartbeatAt :: string
  lh_runtimeEvidence :: "runtimeEvidence option"

type_synonym 'w stepExecutor =
  "storedRecord \<Rightarrow> executionRunStep \<Rightarrow> (runtimeEvidence option \<Rightarrow> ('w, unit) io) \<Rightarrow> ('w, stepResult option) io"

record 'w runOnceOptions =
  ro_runId :: string
  ro_ownerId :: string
  ro_leaseId :: "string option"
  ro_existingLeaseId :: "string option"
  ro_leaseHeartbeatTtlMs :: "int option"
  ro_store :: "'w recordStore"
  ro_now :: "'w \<Rightarrow> string \<times> 'w"
  ro_executeStep :: "'w stepExecutor option"
  ro_executeLocalActionRequest :: "'w localActionCallback option"
  ro_onLeaseHeartbeat :: "(leaseHeartbeatInput \<Rightarrow> ('w, unit) io) option"
  ro_parseItem :: "json \<Rightarrow> json option"
  ro_parseJson :: "string \<Rightarrow> json option"
  ro_fracText :: "rat \<Rightarrow> string"

definition nowIo :: "'w runOnceOptions \<Rightarrow> ('w, string) io" where
  "nowIo opts = (\<lambda>w. case ro_now opts w of (t, w') \<Rightarrow> (Inr t, w'))"

definition leaseTtl :: "'w runOnceOptions \<Rightarrow> int" where
  "leaseTtl opts = max 1 (orElse (ro_leaseHeartbeatTtlMs opts) 15000)"

definition passLeaseId :: "'w runOnceOptions \<Rightarrow> string" where
  "passLeaseId opts = orElse (ro_existingLeaseId opts)
     (orElse (ro_leaseId opts) (ro_runId opts @ '':lease:local-runner''))"

section \<open>Heartbeats\<close>

definition nonBlankEntry :: "string \<Rightarrow> string option \<Rightarrow> jobj" where
  "nonBlankEntry k v = (case v of None \<Rightarrow> [] | Some s \<Rightarrow> if nonBlank s then [(k, JStr s)] else [])"

definition normalizeRuntimeEvidenceForLeaseEvent :: "runtimeEvidence option \<Rightarrow> jobj option" where
  "normalizeRuntimeEvidenceForLeaseEvent evidence =
     (case evidence of None \<Rightarrow> None
      | Some ev \<Rightarrow>
          (let normalized = nonBlankEntry ''observedAt'' (re_observedAt ev) @ nonBlankEntry ''state'' (re_state ev)
                 @ nonBlankEntry ''source'' (re_source ev) @ nonBlankEntry ''evidenceRef'' (re_evidenceRef ev)
                 @ nonBlankEntry ''confidence'' (re_confidence ev)
                 @ (case re_details ev of None \<Rightarrow> [] | Some d \<Rightarrow> [(''details'', JObj d)])
           in if normalized = [] then None else Some normalized))"

definition normalizeRuntimeEvidenceTimestamp :: "string option \<Rightarrow> string option" where
  "normalizeRuntimeEvidenceTimestamp timestamp =
     (case truthyText timestamp of None \<Rightarrow> None | Some t \<Rightarrow> map_option toISOString (dateParse t))"

definition resolveRuntimeEvidenceHeartbeatAt :: "'w runOnceOptions \<Rightarrow> jobj \<Rightarrow> ('w, string) io" where
  "resolveRuntimeEvidenceHeartbeatAt opts evidence =
     (case normalizeRuntimeEvidenceTimestamp (asString (jprop evidence ''observedAt'')) of
        Some t \<Rightarrow> ioReturn t
      | None \<Rightarrow> nowIo opts)"

definition notifyHeartbeat :: "'w runOnceOptions \<Rightarrow> string \<Rightarrow> runtimeEvidence option \<Rightarrow> ('w, unit) io" where
  "notifyHeartbeat opts heartbeatAt evidence =
     (case ro_onLeaseHeartbeat opts of
        None \<Rightarrow> ioReturn ()
      | Some f \<Rightarrow> f \<lparr>lh_runId = ro_runId opts, lh_leaseId = passLeaseId opts, lh_ownerId = ro_ownerId opts,
          lh_heartbeatAt = heartbeatAt, lh_runtimeEvidence = evidence\<rparr>)"

text \<open>
  A heartbeat of the loop before \<open>stop\<close>: it renews the lease and tells the observer, and swallows the
  exceptions of both.
\<close>

definition leaseHeartbeat :: "'w runOnceOptions \<Rightarrow> runtimeEvidence option \<Rightarrow> ('w, unit) io" where
  "leaseHeartbeat opts evidenceInput =
     (let runtimeEvidence = normalizeRuntimeEvidenceForLeaseEvent evidenceInput in
      ioBind (case runtimeEvidence of
          None \<Rightarrow> nowIo opts
        | Some ev \<Rightarrow> resolveRuntimeEvidenceHeartbeatAt opts ev) (\<lambda>heartbeatAt.
      ioCatch
        (ioBind (controlHeartbeatLease (ro_store opts) (ro_runId opts) (passLeaseId opts) heartbeatAt
            (addMillisecondsToIsoTimestamp heartbeatAt (leaseTtl opts)) runtimeEvidence) (\<lambda>_.
         notifyHeartbeat opts heartbeatAt evidenceInput))
        (\<lambda>_. ioReturn ())))"

section \<open>Limits\<close>

definition limitFailure :: "string \<Rightarrow> string \<Rightarrow> string \<Rightarrow> jobj \<Rightarrow> failure" where
  "limitFailure stepId code message details =
     \<lparr>fail_code = code, fail_message = message, fail_ownerStepId = Some stepId, fail_details = Some details\<rparr>"

definition tokenLimitFailure :: "runBundle \<Rightarrow> executionRunStep \<Rightarrow> string \<Rightarrow> failure option" where
  "tokenLimitFailure b s stepId =
     (case resolveStepProviderBudgetMaxTokens s of
        None \<Rightarrow> None
      | Some maxTokens \<Rightarrow>
          (let consumed = readStoredProviderUsageTotalTokens b in
           if consumed > maxTokens
           then Some (limitFailure stepId ''task_provider_token_limit_exceeded''
             (''stored provider token usage '' @ intToStr consumed @ '' exceeds task provider token limit ''
               @ intToStr maxTokens)
             [(''maxTokens'', jsInt maxTokens), (''consumedTokens'', jsInt consumed)])
           else None))"

definition requestLimitFailure :: "executionRunStep \<Rightarrow> string \<Rightarrow> failure option" where
  "requestLimitFailure s stepId =
     (case resolveStepProviderBudgetMaxRequests s of
        None \<Rightarrow> None
      | Some maxRequests \<Rightarrow>
          if step_order s > maxRequests
          then Some (limitFailure stepId ''task_provider_request_limit_exceeded''
            (''step order '' @ intToStr (step_order s) @ '' exceeds task provider request limit '' @ intToStr maxRequests)
            [(''maxRequests'', jsInt maxRequests), (''stepOrder'', jsInt (step_order s))])
          else None)"

definition runtimeLimitFailure ::
  "(rat \<Rightarrow> string) \<Rightarrow> runBundle \<Rightarrow> string \<Rightarrow> rat \<Rightarrow> string \<Rightarrow> failure option" where
  "runtimeLimitFailure fracText b stepId maxRuntimeMinutes now =
     (case calculateElapsedRuntimeMinutes (run_createdAt (bdl_run b)) now of
        None \<Rightarrow> None
      | Some elapsed \<Rightarrow>
          if of_int elapsed > maxRuntimeMinutes
          then Some (limitFailure stepId ''task_runtime_limit_exceeded''
            (''elapsed runtime '' @ intToStr elapsed @ '' minutes exceeds task runtime limit ''
              @ numText fracText (Fin maxRuntimeMinutes))
            [(''maxRuntimeMinutes'', JNum (Fin maxRuntimeMinutes)), (''elapsedRuntimeMinutes'', jsInt elapsed)])
          else None)"

definition turnLimitFailure :: "executionRunStep \<Rightarrow> string \<Rightarrow> failure option" where
  "turnLimitFailure s stepId =
     (case resolveStepTurnPolicyMaxTurns s of
        None \<Rightarrow> None
      | Some maxTurns \<Rightarrow>
          if step_order s > maxTurns
          then Some (limitFailure stepId ''task_turn_limit_exceeded''
            (''step order '' @ intToStr (step_order s) @ '' exceeds task turn limit '' @ intToStr maxTurns)
            [(''maxTurns'', jsInt maxTurns), (''stepOrder'', jsInt (step_order s))])
          else None)"

text \<open>The record of the failed step when a limit is exceeded, else nothing.\<close>

definition failAtLimit :: "'w runOnceOptions \<Rightarrow> storedRecord \<Rightarrow> string \<Rightarrow> failure \<Rightarrow> ('w, storedRecord option) io" where
  "failAtLimit opts rec stepId f =
     ioBind (nowIo opts) (\<lambda>failedAt.
     ioBind (ioLift (failExecutionRunStep (ro_parseItem opts) (rec_bundle rec) stepId failedAt plainCompletion (Some f))) (\<lambda>b.
     ioBind (st_writeRecord (ro_store opts) b (expecting (rec_revision rec))) (\<lambda>r. ioReturn (Some r))))"

definition enforceTurnLimit ::
  "'w runOnceOptions \<Rightarrow> storedRecord \<Rightarrow> executionRunStep \<Rightarrow> string \<Rightarrow> ('w, storedRecord option) io" where
  "enforceTurnLimit opts rec s stepId =
     (case turnLimitFailure s stepId of
        Some f \<Rightarrow> failAtLimit opts rec stepId f
      | None \<Rightarrow> ioReturn None)"

definition enforceStepLimits ::
  "'w runOnceOptions \<Rightarrow> storedRecord \<Rightarrow> executionRunStep \<Rightarrow> string \<Rightarrow> ('w, storedRecord option) io" where
  "enforceStepLimits opts rec s stepId =
     (case tokenLimitFailure (rec_bundle rec) s stepId of
        Some f \<Rightarrow> failAtLimit opts rec stepId f
      | None \<Rightarrow>
     (case requestLimitFailure s stepId of
        Some f \<Rightarrow> failAtLimit opts rec stepId f
      | None \<Rightarrow>
     (case resolveStepMaxRuntimeMinutes s of
        None \<Rightarrow> enforceTurnLimit opts rec s stepId
      | Some maxRuntimeMinutes \<Rightarrow>
          ioBind (nowIo opts) (\<lambda>now.
          case runtimeLimitFailure (ro_fracText opts) (rec_bundle rec) stepId maxRuntimeMinutes now of
            Some f \<Rightarrow> failAtLimit opts rec stepId f
          | None \<Rightarrow> enforceTurnLimit opts rec s stepId))))"

section \<open>Taking the lease\<close>

definition renewExistingLease :: "'w runOnceOptions \<Rightarrow> storedRecord \<Rightarrow> string \<Rightarrow> ('w, storedRecord) io" where
  "renewExistingLease opts rec existing =
     (let missing = PlainError (''Execution run '' @ ro_runId opts @ '' does not have active lease '' @ existing) in
      case getActiveExecutionRunLease rec of
        None \<Rightarrow> ioThrow missing
      | Some l \<Rightarrow>
          if lease_id l \<noteq> existing then ioThrow missing
          else if lease_ownerId l \<noteq> ro_ownerId opts
          then ioThrow (PlainError (''Execution run '' @ ro_runId opts @ '' active lease '' @ existing
                 @ '' is owned by '' @ lease_ownerId l))
          else
            ioBind (nowIo opts) (\<lambda>heartbeatAt.
            ioBind (controlHeartbeatLease (ro_store opts) (ro_runId opts) existing heartbeatAt
              (addMillisecondsToIsoTimestamp heartbeatAt (leaseTtl opts)) None) (\<lambda>r.
            ioBind (notifyHeartbeat opts heartbeatAt None) (\<lambda>_. ioReturn r))))"

definition acquireNewLease :: "'w runOnceOptions \<Rightarrow> ('w, storedRecord) io" where
  "acquireNewLease opts =
     ioBind (nowIo opts) (\<lambda>acquiredAt.
     ioBind (controlAcquireLease (ro_store opts) (ro_runId opts) (passLeaseId opts) (ro_ownerId opts) acquiredAt
       (Some acquiredAt) (addMillisecondsToIsoTimestamp acquiredAt (leaseTtl opts))) (\<lambda>r.
     ioBind (notifyHeartbeat opts acquiredAt None) (\<lambda>_. ioReturn r)))"

text \<open>\<open>if (existingLeaseId)\<close> is false on the empty string too.\<close>

definition takeLease :: "'w runOnceOptions \<Rightarrow> storedRecord \<Rightarrow> ('w, storedRecord) io" where
  "takeLease opts rec = (case truthyText (ro_existingLeaseId opts) of
       Some existing \<Rightarrow> renewExistingLease opts rec existing
     | None \<Rightarrow> acquireNewLease opts)"

section \<open>The guarded part\<close>

text \<open>The variables the \<open>try\<close>, \<open>catch\<close> and \<open>finally\<close> blocks share, and how a block is left.\<close>

record passLocals =
  pl_current :: storedRecord
  pl_releaseReason :: "string option"
  pl_final :: "storedRecord option"

datatype flow = FallThrough | ReturnNow storedRecord

type_synonym ('w, 'a) pass = "('w \<times> passLocals, 'a) io"

definition locals :: "('w, passLocals) pass" where
  "locals = (\<lambda>w. (Inr (snd w), w))"

definition assign :: "(passLocals \<Rightarrow> passLocals) \<Rightarrow> ('w, unit) pass" where
  "assign f = (\<lambda>w. (Inr (), (fst w, f (snd w))))"

text \<open>\<open>try ... finally\<close>: the outcome stands unless the \<open>finally\<close> block throws.\<close>

definition ioFinally :: "('w, 'a) io \<Rightarrow> ('w, unit) io \<Rightarrow> ('w, 'a) io" where
  "ioFinally m fin = (\<lambda>w. case m w of (res, w1) \<Rightarrow>
     (case fin w1 of (Inl e, w2) \<Rightarrow> (Inl e, w2) | (Inr _, w2) \<Rightarrow> (res, w2)))"

definition storeCurrent :: "'w runOnceOptions \<Rightarrow> runBundle \<Rightarrow> ('w, storedRecord) pass" where
  "storeCurrent opts b =
     ioBind locals (\<lambda>l.
     ioBind (leftIo (st_writeRecord (ro_store opts) b (expecting (rec_revision (pl_current l))))) (\<lambda>r.
     ioBind (assign (\<lambda>l. l\<lparr>pl_current := r\<rparr>)) (\<lambda>_. ioReturn r)))"

definition setReason :: "string \<Rightarrow> ('w, unit) pass" where
  "setReason why = assign (\<lambda>l. l\<lparr>pl_releaseReason := Some why\<rparr>)"

text \<open>\<open>finalRecord = currentRecord; return finalRecord;\<close>\<close>

definition returnCurrent :: "('w, flow) pass" where
  "returnCurrent =
     ioBind (assign (\<lambda>l. l\<lparr>pl_final := Some (pl_current l)\<rparr>)) (\<lambda>_.
     ioBind locals (\<lambda>l. ioReturn (ReturnNow (pl_current l))))"

definition finishCurrent :: "('w, flow) pass" where
  "finishCurrent = ioBind (assign (\<lambda>l. l\<lparr>pl_final := Some (pl_current l)\<rparr>)) (\<lambda>_. ioReturn FallThrough)"

definition isCancelledPass :: "runBundle \<Rightarrow> string \<Rightarrow> bool result" where
  "isCancelledPass b stepId =
     (if run_status (bdl_run b) = RunCancelled then Inr True
      else case requireStep b stepId of Inl e \<Rightarrow> Inl e | Inr s \<Rightarrow> Inr (step_status s = StepCancelled))"

text \<open>\<open>currentRecord = (await control.readRun(runId)) ?? currentRecord\<close>, then the cancellation check.\<close>

definition refreshCurrent :: "'w runOnceOptions \<Rightarrow> string \<Rightarrow> ('w, storedRecord \<times> bool) pass" where
  "refreshCurrent opts stepId =
     ioBind (leftIo (st_readRecord (ro_store opts) (ro_runId opts))) (\<lambda>r.
     ioBind (assign (\<lambda>l. l\<lparr>pl_current := orElse r (pl_current l)\<rparr>)) (\<lambda>_.
     ioBind locals (\<lambda>l.
     ioBind (ioLift (isCancelledPass (rec_bundle (pl_current l)) stepId)) (\<lambda>c.
     ioReturn (pl_current l, c)))))"

definition pausePass :: "'w runOnceOptions \<Rightarrow> storedRecord \<Rightarrow> string \<Rightarrow> jobj \<Rightarrow> ('w, flow) pass" where
  "pausePass opts rec stepId guidance =
     ioBind (leftIo (nowIo opts)) (\<lambda>cancelledAt.
     ioBind (ioLift (cancelExecutionRunStepForHumanEscalation (rec_bundle rec) stepId cancelledAt guidance)) (\<lambda>b.
     ioBind (storeCurrent opts b) (\<lambda>_.
     ioBind (setReason ''cancelled'') (\<lambda>_. returnCurrent))))"

definition failEscalatedPass ::
  "'w runOnceOptions \<Rightarrow> storedRecord \<Rightarrow> string \<Rightarrow> escalationBehavior \<Rightarrow> ('w, flow) pass" where
  "failEscalatedPass opts rec stepId eb =
     ioBind (setReason ''failed'') (\<lambda>_.
     ioBind (leftIo (nowIo opts)) (\<lambda>failedAt.
     ioBind (ioLift (failExecutionRunStep (ro_parseItem opts) (rec_bundle rec) stepId failedAt plainCompletion
       (Some (limitFailure stepId ''human_escalation_required'' (eb_message eb) [(''guidance'', JObj (eb_guidance eb))])))) (\<lambda>b.
     ioBind (storeCurrent opts b) (\<lambda>_. returnCurrent))))"

definition completionPatch ::
  "(json \<Rightarrow> json option) \<Rightarrow> (rat \<Rightarrow> string) \<Rightarrow> string \<Rightarrow> executionRunStep \<Rightarrow> string \<Rightarrow> stepResult \<Rightarrow>
   sharedStatePatch \<Rightarrow> sharedStatePatch" where
  "completionPatch parseItem fracText stepId contextStep completedAt res resolved =
     orElse (mergeSharedStatePatch parseItem
       (mergeSharedStatePatch parseItem
         (mergeSharedStatePatch parseItem (sr_sharedState res)
           (buildProviderUsageSharedStatePatch fracText stepId completedAt (sr_usage res)))
         (buildConsumedTaskTransfersSharedStatePatch contextStep completedAt))
       (Some resolved)) emptyPatch"

definition missingFailure :: "string \<Rightarrow> string list \<Rightarrow> failure" where
  "missingFailure stepId missing = limitFailure stepId ''requested_output_required_missing''
     (missingOutputsMessage missing) [(''missingRequiredLabels'', JArr (map JStr missing))]"

definition completePass ::
  "'w runOnceOptions \<Rightarrow> storedRecord \<Rightarrow> string \<Rightarrow> executionRunStep \<Rightarrow> executionRunStep \<Rightarrow> stepResult \<Rightarrow> stepOutput \<Rightarrow>
   ('w, flow) pass" where
  "completePass opts rec stepId runningStep contextStep res output =
     ioBind (leftIo (nowIo opts)) (\<lambda>resolvedAt.
     ioBind (leftIo (resolveLocalActionRequests (ro_parseItem opts) rec runningStep resolvedAt (Some output)
       (ro_executeLocalActionRequest opts))) (\<lambda>outcome.
     ioBind (leftIo (nowIo opts)) (\<lambda>completedAt.
     let patch = completionPatch (ro_parseItem opts) (ro_fracText opts) stepId contextStep completedAt res
           (lr_sharedState outcome);
         shared = bdl_sharedState (rec_bundle rec);
         missing = evaluateRequiredRequestedOutputsForStoredRuntime (ro_parseJson opts) runningStep output
           (ss_artifacts shared @ patch_artifacts patch) (ss_structuredOutputs shared @ patch_structuredOutputs patch);
         cp = \<lparr>cp_output = Some output, cp_sharedState = Some patch,
           cp_localActionRequests = Some (lr_requests outcome), cp_localActionEvents = lr_events outcome,
           cp_resolvedRequests = lr_resolvedRequests outcome\<rparr>
     in if missing \<noteq> []
        then
          ioBind (setReason ''failed'') (\<lambda>_.
          ioBind (ioLift (failExecutionRunStep (ro_parseItem opts) (rec_bundle rec) stepId completedAt cp
            (Some (missingFailure stepId missing)))) (\<lambda>b.
          ioBind (storeCurrent opts b) (\<lambda>_. returnCurrent)))
        else
          ioBind (ioLift (succeedExecutionRunStep (ro_parseItem opts) (rec_bundle rec) stepId completedAt cp)) (\<lambda>b.
          ioBind (storeCurrent opts b) (\<lambda>_. finishCurrent)))))"

definition executePass ::
  "'w runOnceOptions \<Rightarrow> bool \<Rightarrow> storedRecord \<Rightarrow> string \<Rightarrow> executionRunStep \<Rightarrow> executionRunStep \<Rightarrow> ('w, flow) pass" where
  "executePass opts requiresExecutor rec stepId runningStep contextStep =
     ioBind (case ro_executeStep opts of
         None \<Rightarrow> ioReturn None
       | Some call \<Rightarrow> leftIo (call rec contextStep (leaseHeartbeat opts))) (\<lambda>result.
     if result = None \<and> requiresExecutor
     then ioThrow (PlainError (''No configured stored-step executor is attached for browser-backed run ''
            @ run_id (bdl_run (rec_bundle rec)) @ ''.''))
     else
       let res = orElse result \<lparr>sr_output = Some defaultStepOutput, sr_usage = None, sr_sharedState = None\<rparr>;
           output = normalizeExecutionRunStepOutput (orElse (sr_output res) defaultStepOutput)
       in ioBind (refreshCurrent opts stepId) (\<lambda>(current, cancelled).
          if cancelled then ioBind (setReason ''cancelled'') (\<lambda>_. returnCurrent)
          else completePass opts current stepId runningStep contextStep res output))"

definition tryPass :: "'w runOnceOptions \<Rightarrow> bool \<Rightarrow> string \<Rightarrow> ('w, flow) pass" where
  "tryPass opts requiresExecutor stepId =
     ioBind (leftIo (nowIo opts)) (\<lambda>startedAt.
     ioBind locals (\<lambda>l.
     ioBind (ioLift (startExecutionRunStep (rec_bundle (pl_current l)) stepId startedAt)) (\<lambda>b.
     ioBind (storeCurrent opts b) (\<lambda>rec.
     ioBind (ioLift (requireStep (rec_bundle rec) stepId)) (\<lambda>runningStep.
     let contextStep = buildExecutionContextStep (ro_fracText opts) (rec_bundle rec) runningStep
     in case resolveEscalationControlBehavior (dataOf contextStep) of
          Some eb \<Rightarrow>
            if eb_action eb = PauseRun then pausePass opts rec stepId (eb_guidance eb)
            else failEscalatedPass opts rec stepId eb
        | None \<Rightarrow> executePass opts requiresExecutor rec stepId runningStep contextStep)))))"

definition recoveryOutput :: "sharedStatePatch \<Rightarrow> stepOutput" where
  "recoveryOutput p =
     \<lparr>out_summary = Some ''Provider run failed, but AuraCall captured a recoverable diagnostic artifact.'',
      out_artifacts = patch_artifacts p,
      out_structuredData = [(''recovery'', structuredOutputsJson (patch_structuredOutputs p))],
      out_notes = patch_notes p\<rparr>"

definition catchPass :: "'w runOnceOptions \<Rightarrow> string \<Rightarrow> js_error \<Rightarrow> ('w, flow) pass" where
  "catchPass opts stepId err =
     ioBind (refreshCurrent opts stepId) (\<lambda>(current, cancelled).
     if cancelled then ioBind (setReason ''cancelled'') (\<lambda>_. returnCurrent)
     else
       ioBind (setReason ''failed'') (\<lambda>_.
       ioBind (leftIo (nowIo opts)) (\<lambda>failedAt.
       let details = asOracleUserErrorDetails err;
           recovery = extractFailureRecoverySharedState (ro_parseItem opts) details
       in ioBind (ioLift (failExecutionRunStep (ro_parseItem opts) (rec_bundle current) stepId failedAt
            (plainCompletion\<lparr>cp_output := map_option recoveryOutput recovery, cp_sharedState := recovery\<rparr>)
            (Some \<lparr>fail_code = ''runner_execution_failed'', fail_message = error_message err,
               fail_ownerStepId = Some stepId, fail_details = details\<rparr>))) (\<lambda>b.
          ioBind (storeCurrent opts b) (\<lambda>_. finishCurrent)))))"

definition releaseExecutionRunLeaseIfStillActive ::
  "'w recordStore \<Rightarrow> storedRecord \<Rightarrow> string \<Rightarrow> string \<Rightarrow> string \<Rightarrow> string option \<Rightarrow> ('w, storedRecord) io" where
  "releaseExecutionRunLeaseIfStillActive S current runId leaseId releasedAt reason =
     ioBind (st_readRecord S runId) (\<lambda>r.
     let latest = orElse r current in
     case getActiveExecutionRunLease latest of
       None \<Rightarrow> ioReturn latest
     | Some l \<Rightarrow>
         if lease_id l \<noteq> leaseId then ioReturn latest
         else ioCatch (controlReleaseLease S runId leaseId releasedAt reason) (\<lambda>err.
           ioBind (st_readRecord S runId) (\<lambda>refreshed. case refreshed of
             Some rec \<Rightarrow> if getActiveExecutionRunLease rec = None then ioReturn rec else ioThrow err
           | None \<Rightarrow> ioThrow err)))"

definition finallyPass :: "'w runOnceOptions \<Rightarrow> ('w, unit) pass" where
  "finallyPass opts =
     ioBind locals (\<lambda>l.
     ioBind (leftIo (nowIo opts)) (\<lambda>releasedAt.
     ioBind (leftIo (releaseExecutionRunLeaseIfStillActive (ro_store opts) (orElse (pl_final l) (pl_current l))
       (ro_runId opts) (passLeaseId opts) releasedAt (pl_releaseReason l))) (\<lambda>r.
     assign (\<lambda>l. l\<lparr>pl_final := Some r\<rparr>))))"

definition guardedPass :: "'w runOnceOptions \<Rightarrow> bool \<Rightarrow> string \<Rightarrow> ('w, flow) pass" where
  "guardedPass opts requiresExecutor stepId =
     ioFinally (ioCatch (tryPass opts requiresExecutor stepId) (catchPass opts stepId)) (finallyPass opts)"

definition runGuarded :: "'w runOnceOptions \<Rightarrow> bool \<Rightarrow> string \<Rightarrow> storedRecord \<Rightarrow> ('w, storedRecord) io" where
  "runGuarded opts requiresExecutor stepId rec = (\<lambda>w.
     case guardedPass opts requiresExecutor stepId
         (w, \<lparr>pl_current = rec, pl_releaseReason = Some ''completed'', pl_final = None\<rparr>) of
       (Inl e, w', l) \<Rightarrow> (Inl e, w')
     | (Inr (ReturnNow r), w', l) \<Rightarrow> (Inr r, w')
     | (Inr FallThrough, w', l) \<Rightarrow>
         (case pl_final l of
            None \<Rightarrow> (Inl (PlainError (''Execution run '' @ ro_runId opts @ '' did not produce a final stored record'')), w')
          | Some r \<Rightarrow> (Inr r, w')))"

section \<open>The pass\<close>

definition executeStoredExecutionRunOnce :: "'w runOnceOptions \<Rightarrow> ('w, storedRecord) io" where
  "executeStoredExecutionRunOnce opts =
     ioBind (controlInspectRun (ro_store opts) (ro_runId opts)) (\<lambda>inspection.
     case inspection of
       None \<Rightarrow> ioThrow (PlainError (''Execution run '' @ ro_runId opts @ '' was not found''))
     | Some (rec, plan) \<Rightarrow>
         (case truthyText (dp_nextRunnableStepId plan) of
            None \<Rightarrow> ioReturn rec
          | Some stepId \<Rightarrow>
              ioBind (ioLift (requireStep (rec_bundle rec) stepId)) (\<lambda>s.
              ioBind (enforceStepLimits opts rec s stepId) (\<lambda>limited.
              case limited of
                Some r \<Rightarrow> ioReturn r
              | None \<Rightarrow>
                  ioBind (takeLease opts rec) (\<lambda>leased.
                  runGuarded opts (requiresConfiguredStoredStepExecutor (rec_bundle rec)) stepId leased)))))"

text \<open>\<open>resumeHumanEscalation\<close> of the control layer, the way back from a paused pass.\<close>

definition controlResumeHumanEscalation ::
  "'w recordStore \<Rightarrow> string \<Rightarrow> string \<Rightarrow> resumeInput \<Rightarrow> ('w, storedRecord) io" where
  "controlResumeHumanEscalation S runId resumedAt inp =
     ioBind (requireStoredRecord S runId) (\<lambda>rec.
     ioBind (ioLift (resumeExecutionRunAfterHumanEscalation (rec_bundle rec) resumedAt inp)) (\<lambda>b.
     st_writeRecord S b (expecting (rec_revision rec))))"

end
