(* ===== verification/Execution_Safety.thy ===== *)
theory Execution_Safety
  imports Execution
begin

text \<open>
  What a pass (\<open>Execution\<close>) does to the stored run, whatever its host does meanwhile. A triple over
  asynchronous functions has a normal and an exceptional postcondition; the host (clock, executor,
  local actions, heartbeat observer) is a rely: it may move the run on, as any other client of the
  store may. The pass then moves the stored run by steps of the runner's own relations only, and
  gives its lease back on every path.
\<close>

section \<open>Triples\<close>

named_theorems triple_rules "rules that follow the structure of a program"

definition triple ::
  "('w \<Rightarrow> bool) \<Rightarrow> ('w, 'a) io \<Rightarrow> ('a \<Rightarrow> 'w \<Rightarrow> bool) \<Rightarrow> ('w \<Rightarrow> bool) \<Rightarrow> bool" where
  "triple P m Q E = (\<forall>w. P w \<longrightarrow> (case m w of (Inr a, w') \<Rightarrow> Q a w' | (Inl e, w') \<Rightarrow> E w'))"

lemma tripleI: "(\<And>w res w'. P w \<Longrightarrow> m w = (res, w') \<Longrightarrow> (case res of Inr a \<Rightarrow> Q a w' | Inl e \<Rightarrow> E w')) \<Longrightarrow> triple P m Q E"
  unfolding triple_def by (metis (no_types, lifting) case_prod_conv old.prod.exhaust)

lemma tripleD: "triple P m Q E \<Longrightarrow> P w \<Longrightarrow> m w = (res, w') \<Longrightarrow> (case res of Inr a \<Rightarrow> Q a w' | Inl e \<Rightarrow> E w')"
  unfolding triple_def by fastforce

lemma triple_weaken:
  "triple P m Q E \<Longrightarrow> (\<And>w. P' w \<Longrightarrow> P w) \<Longrightarrow> (\<And>a w. Q a w \<Longrightarrow> Q' a w) \<Longrightarrow> (\<And>w. E w \<Longrightarrow> E' w) \<Longrightarrow>
   triple P' m Q' E'"
  unfolding triple_def by (fastforce split: prod.splits sum.splits)

lemma triple_pre: "triple P m Q E \<Longrightarrow> (\<And>w. P' w \<Longrightarrow> P w) \<Longrightarrow> triple P' m Q E"
  by (rule triple_weaken)

lemma triple_bind [triple_rules]:
  "triple P m Q E \<Longrightarrow> (\<And>a. triple (Q a) (k a) R E) \<Longrightarrow> triple P (ioBind m k) R E"
  unfolding triple_def ioBind_def by (fastforce split: prod.splits sum.splits)

lemma triple_return [triple_rules]: "(\<And>w. P w \<Longrightarrow> Q a w) \<Longrightarrow> triple P (ioReturn a) Q E"
  by (simp add: triple_def ioReturn_def)

lemma triple_throw [triple_rules]: "(\<And>w. P w \<Longrightarrow> E w) \<Longrightarrow> triple P (ioThrow e) Q E"
  by (simp add: triple_def ioThrow_def)

lemma triple_lift:
  "(\<And>w. P w \<Longrightarrow> E w) \<Longrightarrow> (\<And>a w. r = Inr a \<Longrightarrow> P w \<Longrightarrow> Q a w) \<Longrightarrow> triple P (ioLift r) Q E"
  by (auto simp: triple_def ioLift_def split: sum.split)

lemma triple_bindLift:
  "(\<And>w. P w \<Longrightarrow> E w) \<Longrightarrow> (\<And>a. r = Inr a \<Longrightarrow> triple P (k a) R E) \<Longrightarrow> triple P (ioBind (ioLift r) k) R E"
  by (cases r) (auto intro: triple_throw)

lemma triple_catch [triple_rules]:
  "triple P m Q E' \<Longrightarrow> (\<And>e. triple E' (h e) Q E) \<Longrightarrow> triple P (ioCatch m h) Q E"
  unfolding triple_def ioCatch_def by (fastforce split: prod.splits sum.splits)

lemma triple_finally:
  "triple P m (\<lambda>_. I) I \<Longrightarrow> triple I fin (\<lambda>_. R) F \<Longrightarrow> (\<And>w. F w \<Longrightarrow> R w) \<Longrightarrow> triple P (ioFinally m fin) (\<lambda>_. R) R"
  unfolding triple_def ioFinally_def by (fastforce split: prod.splits sum.splits)

lemma triple_locals [triple_rules]: "(\<And>w. P w \<Longrightarrow> Q (snd w) w) \<Longrightarrow> triple P locals Q E"
  by (simp add: triple_def locals_def)

lemma triple_assign [triple_rules]: "(\<And>w l. P (w, l) \<Longrightarrow> Q () (w, f l)) \<Longrightarrow> triple P (assign f) Q E"
  by (simp add: triple_def assign_def)

lemma triple_if [triple_rules]:
  "(c \<Longrightarrow> triple P m Q E) \<Longrightarrow> (\<not> c \<Longrightarrow> triple P n Q E) \<Longrightarrow> triple P (if c then m else n) Q E"
  by simp

lemma triple_option [triple_rules]:
  "(x = None \<Longrightarrow> triple P m Q E) \<Longrightarrow> (\<And>y. x = Some y \<Longrightarrow> triple P (k y) Q E) \<Longrightarrow>
   triple P (case x of None \<Rightarrow> m | Some y \<Rightarrow> k y) Q E"
  by (cases x) simp_all

section \<open>Steps of a run\<close>

text \<open>Everything that may happen to a stored run while a pass is on.\<close>

definition evolve :: "(json \<Rightarrow> json option) \<Rightarrow> runBundle \<Rightarrow> runBundle \<Rightarrow> bool" where
  "evolve p b b' = (run_move p b b' \<or> lease_step b b')"

definition laterRecord :: "(json \<Rightarrow> json option) \<Rightarrow> string \<Rightarrow> storedRecord \<Rightarrow> storedRecord \<Rightarrow> bool" where
  "laterRecord p runId r r' \<longleftrightarrow>
     storedRecordOk runId r' \<and> (evolve p)\<^sup>*\<^sup>* (rec_bundle r) (rec_bundle r') \<and>
     rec_revision r \<le> rec_revision r' \<and> (rec_revision r' = rec_revision r \<longrightarrow> r' = r)"

definition keepsRun :: "(json \<Rightarrow> json option) \<Rightarrow> 'w recordStore \<Rightarrow> string \<Rightarrow> ('w, 'a) io \<Rightarrow> bool" where
  "keepsRun p S runId m \<longleftrightarrow>
     (\<forall>w r. fst (st_readRecord S runId w) = Inr (Some r) \<longrightarrow> storedRecordOk runId r \<longrightarrow>
        (\<exists>r'. fst (st_readRecord S runId (snd (m w))) = Inr (Some r') \<and> laterRecord p runId r r'))"

lemma laterRecord_refl: "storedRecordOk i r \<Longrightarrow> laterRecord p i r r"
  by (simp add: laterRecord_def)

lemma laterRecord_trans: "laterRecord p i r1 r2 \<Longrightarrow> laterRecord p i r2 r3 \<Longrightarrow> laterRecord p i r1 r3"
  unfolding laterRecord_def by (auto intro: rtranclp_trans)

lemma laterRecord_ok: "laterRecord p i r r' \<Longrightarrow> storedRecordOk i r'"
  by (simp add: laterRecord_def)

lemma lease_step_run_id: "lease_step b b' \<Longrightarrow> run_id (bdl_run b') = run_id (bdl_run b)"
  by (induction rule: lease_step.induct)
    (auto dest!: acquire_Inr heartbeat_Inr release_Inr
      simp: appendLeaseMutation_def replaceLeaseMutation_def expireExecutionRunLeases_def Let_def)

lemma lease_step_policy: "lease_step b b' \<Longrightarrow> run_policy (bdl_run b') = run_policy (bdl_run b)"
  by (induction rule: lease_step.induct)
    (auto dest!: acquire_Inr heartbeat_Inr release_Inr
      simp: appendLeaseMutation_def replaceLeaseMutation_def expireExecutionRunLeases_def Let_def logEvents_def)

lemma lease_step_status: "lease_step b b' \<Longrightarrow> run_status (bdl_run b') = run_status (bdl_run b)"
  by (induction rule: lease_step.induct)
    (auto dest!: acquire_Inr heartbeat_Inr release_Inr
      simp: appendLeaseMutation_def replaceLeaseMutation_def expireExecutionRunLeases_def Let_def logEvents_def)

lemma evolve_ok: "evolve p b b' \<Longrightarrow> wfBundle b \<Longrightarrow> wfBundle b' \<and> run_id (bdl_run b') = run_id (bdl_run b)"
proof -
  assume e: "evolve p b b'" and wf: "wfBundle b"
  show ?thesis
  proof (cases "run_move p b b'")
    case True
    with wf run_move_forward obtain f es where "sameShape b f es b'" by (metis wfBundle_def)
    with wf show ?thesis using sameShape_wf by (auto simp: sameShape_def)
  next
    case False
    with e wf show ?thesis by (auto simp: evolve_def lease_step_wf lease_step_run_id)
  qed
qed

lemma next_step_cong:
  "bdl_steps b' = bdl_steps b \<Longrightarrow> run_policy (bdl_run b') = run_policy (bdl_run b) \<Longrightarrow>
   dp_nextRunnableStepId (createExecutionRunDispatchPlan b') = dp_nextRunnableStepId (createExecutionRunDispatchPlan b)"
  by (simp add: createExecutionRunDispatchPlan_def hasTerminalFailure_def Let_def)

lemma lease_step_next:
  "lease_step b b' \<Longrightarrow> dp_nextRunnableStepId (createExecutionRunDispatchPlan b')
     = dp_nextRunnableStepId (createExecutionRunDispatchPlan b)"
  by (rule next_step_cong) (simp_all add: lease_step_steps lease_step_policy)

section \<open>The contract between a pass and its host\<close>

definition behind :: "storedRecord \<Rightarrow> storedRecord \<Rightarrow> bool" where
  "behind c r = (rec_revision c \<le> rec_revision r \<and> (rec_revision c = rec_revision r \<longrightarrow> c = r))"

text \<open>
  Between any two statements of the guarded part: the stored record comes from \<open>b\<close> by such steps, and
  the record at hand was the stored one at its revision.
\<close>

definition passInv ::
  "(json \<Rightarrow> json option) \<Rightarrow> 'w recordStore \<Rightarrow> string \<Rightarrow> storedRecord \<Rightarrow> 'w \<times> passLocals \<Rightarrow> bool" where
  "passInv p S runId b wl \<longleftrightarrow>
     (\<exists>r. fst (st_readRecord S runId (fst wl)) = Inr (Some r) \<and> laterRecord p runId b r \<and>
        storedRecordOk runId (pl_current (snd wl)) \<and> behind (pl_current (snd wl)) r)"

text \<open>The observer of heartbeats never throws.\<close>

definition quietObserver :: "'w runOnceOptions \<Rightarrow> bool" where
  "quietObserver opts \<longleftrightarrow> (\<forall>f x w. ro_onLeaseHeartbeat opts = Some f \<longrightarrow> \<not> isl (fst (f x w)))"

text \<open>A lease identifier that no active lease of the record has.\<close>

definition notHeld :: "string \<Rightarrow> storedRecord \<Rightarrow> bool" where
  "notHeld i r \<longleftrightarrow> (\<forall>l. getActiveExecutionRunLease r = Some l \<longrightarrow> lease_id l \<noteq> i)"

lemma notHeld_fresh: "i \<notin> lease_id ` set (bdl_leases (rec_bundle r)) \<Longrightarrow> notHeld i r"
  by (force simp: notHeld_def getActiveExecutionRunLease_def dest!: activeLeaseOf_Some)

lemma truthyText_Some: "truthyText s = Some t \<Longrightarrow> s = Some t"
  by (simp add: truthyText_def split: if_splits)

text \<open>What a pass needs of its host at least: the clock leaves the run's record alone.\<close>

locale passStore = revisionStore S for S :: "'w recordStore" +
  fixes opts :: "'w runOnceOptions"
  assumes uses_store: "ro_store opts = S"
    and clock: "fst (st_readRecord S (ro_runId opts) (snd (ro_now opts w))) = fst (st_readRecord S (ro_runId opts) w)"
begin

abbreviation keeps :: "('w, 'a) io \<Rightarrow> bool" where
  "keeps \<equiv> keepsRun (ro_parseItem opts) S (ro_runId opts)"

abbreviation later :: "storedRecord \<Rightarrow> storedRecord \<Rightarrow> bool" where
  "later \<equiv> laterRecord (ro_parseItem opts) (ro_runId opts)"

abbreviation inv :: "storedRecord \<Rightarrow> 'w \<times> passLocals \<Rightarrow> bool" where
  "inv \<equiv> passInv (ro_parseItem opts) S (ro_runId opts)"

abbreviation isAt :: "storedRecord \<Rightarrow> 'w \<Rightarrow> bool" where
  "isAt r \<equiv> (\<lambda>w. peek w (ro_runId opts) = Inr (Some r))"

lemma keepsI:
  "(\<And>w r. peek w (ro_runId opts) = Inr (Some r) \<Longrightarrow> storedRecordOk (ro_runId opts) r \<Longrightarrow>
     \<exists>r'. peek (snd (m w)) (ro_runId opts) = Inr (Some r') \<and> later r r') \<Longrightarrow> keeps m"
  by (simp add: keepsRun_def peek_def)

lemma keepsD:
  "keeps m \<Longrightarrow> peek w (ro_runId opts) = Inr (Some r) \<Longrightarrow> storedRecordOk (ro_runId opts) r \<Longrightarrow>
   \<exists>r'. peek (snd (m w)) (ro_runId opts) = Inr (Some r') \<and> later r r'"
  by (simp add: keepsRun_def peek_def)

lemma keeps_later:
  "keeps m \<Longrightarrow> peek w (ro_runId opts) = Inr (Some r1) \<Longrightarrow> later r r1 \<Longrightarrow>
   \<exists>r'. peek (snd (m w)) (ro_runId opts) = Inr (Some r') \<and> later r r'"
  by (meson keepsD laterRecord_ok laterRecord_trans)

lemma keeps_same: "(\<And>w. peek (snd (m w)) (ro_runId opts) = peek w (ro_runId opts)) \<Longrightarrow> keeps m"
  by (rule keepsI) (simp add: laterRecord_refl)

lemma keeps_return: "keeps (ioReturn a)" and keeps_throw: "keeps (ioThrow e)" and keeps_lift: "keeps (ioLift r)"
  by (rule keeps_same, simp add: io_defs)+

lemma keeps_clock: "keeps (nowIo opts)"
  by (rule keeps_same) (simp add: nowIo_def peek_def clock case_prod_beta)

lemma keeps_read: "keeps (st_readRecord S i)"
  by (rule keeps_same) (simp add: st_readRecord_eq)

lemma keeps_bind: "keeps m \<Longrightarrow> (\<And>a. keeps (k a)) \<Longrightarrow> keeps (ioBind m k)"
proof (rule keepsI)
  fix w r
  assume m: "keeps m" and k: "\<And>a. keeps (k a)"
    and r: "peek w (ro_runId opts) = Inr (Some r)" "storedRecordOk (ro_runId opts) r"
  from keepsD [OF m r] obtain r1 where
    r1: "peek (snd (m w)) (ro_runId opts) = Inr (Some r1)" "later r r1" by blast
  show "\<exists>r'. peek (snd (ioBind m k w)) (ro_runId opts) = Inr (Some r') \<and> later r r'"
  proof (cases "m w")
    case (Pair res w1)
    show ?thesis
    proof (cases res)
      case (Inl e)
      with Pair r1 show ?thesis by (simp add: ioBind_def)
    next
      case (Inr a)
      with Pair r1 keeps_later [OF k, of w1 r1 r a] show ?thesis by (simp add: ioBind_def)
    qed
  qed
qed

lemma keeps_catch: "keeps m \<Longrightarrow> (\<And>e. keeps (h e)) \<Longrightarrow> keeps (ioCatch m h)"
proof (rule keepsI)
  fix w r
  assume m: "keeps m" and h: "\<And>e. keeps (h e)"
    and r: "peek w (ro_runId opts) = Inr (Some r)" "storedRecordOk (ro_runId opts) r"
  from keepsD [OF m r] obtain r1 where
    r1: "peek (snd (m w)) (ro_runId opts) = Inr (Some r1)" "later r r1" by blast
  show "\<exists>r'. peek (snd (ioCatch m h w)) (ro_runId opts) = Inr (Some r') \<and> later r r'"
  proof (cases "m w")
    case (Pair res w1)
    show ?thesis
    proof (cases res)
      case (Inr e)
      with Pair r1 show ?thesis by (simp add: ioCatch_def)
    next
      case (Inl a)
      with Pair r1 keeps_later [OF h, of w1 r1 r a] show ?thesis by (simp add: ioCatch_def)
    qed
  qed
qed

lemmas keeps_rules = keeps_return keeps_throw keeps_lift keeps_clock keeps_read

text \<open>One step of the runner's relations, written under the revision it was computed from.\<close>

lemma write_step:
  assumes cur: "peek w (ro_runId opts) = Inr (Some cur)" "storedRecordOk (ro_runId opts) cur"
    and c: "behind c cur" and step: "evolve (ro_parseItem opts) (rec_bundle c) b" "storedRecordOk (ro_runId opts) c"
  obtains (refused) e where "st_writeRecord S b (expecting (rec_revision c)) w = (Inl e, w)"
  | (stored) r w' where "st_writeRecord S b (expecting (rec_revision c)) w = (Inr r, w')"
      "peek w' (ro_runId opts) = Inr (Some r)" "rec_bundle r = b" "c = cur" "later cur r"
      "storedRecordOk (ro_runId opts) r" "rec_revision r = rec_revision cur + 1"
proof (rule write_cases [of b "expecting (rec_revision c)" w])
  fix e assume "st_writeRecord S b (expecting (rec_revision c)) w = (Inl e, w)"
  then show thesis by (rule refused)
next
  fix cur' r w'
  assume *: "st_writeRecord S b (expecting (rec_revision c)) w = (Inr r, w')"
    "peek w (run_id (bdl_run b)) = Inr cur'"
    "wo_expectedRevision (expecting (rec_revision c)) \<in> {None, Some (revisionOf cur')}"
    "rec_revision r = revisionOf cur' + 1" "rec_bundle r = b" "rec_runId r = run_id (bdl_run b)"
    "peek w' (run_id (bdl_run b)) = Inr (Some r)"
  from evolve_ok [OF step(1)] step(2) have b: "wfBundle b" "run_id (bdl_run b) = ro_runId opts"
    by (simp_all add: storedRecordOk_def)
  with * cur have rev: "cur' = Some cur" "rec_revision c = rec_revision cur"
    by (auto simp: expecting_def revisionOf_def)
  with c have "c = cur" by (simp add: behind_def)
  moreover from b * have "storedRecordOk (ro_runId opts) r" by (simp add: storedRecordOk_def)
  ultimately show thesis
    using * b rev step(1) by (intro stored [of r w']) (auto simp: laterRecord_def revisionOf_def)
qed

lemma keeps_update:
  assumes "\<And>b x. f b = Inr x \<Longrightarrow> evolve (ro_parseItem opts) b (g x)"
  shows "keeps (ioBind (requireStoredRecord S (ro_runId opts)) (\<lambda>rec. ioBind (ioLift (f (rec_bundle rec)))
    (\<lambda>m. st_writeRecord S (g m) (expecting (rec_revision rec)))))" (is "keeps ?m")
proof (rule keepsI)
  fix w r
  assume r: "peek w (ro_runId opts) = Inr (Some r)" "storedRecordOk (ro_runId opts) r"
  show "\<exists>r'. peek (snd (?m w)) (ro_runId opts) = Inr (Some r') \<and> later r r'"
  proof (cases "f (rec_bundle r)")
    case (Inl e)
    with r show ?thesis by (simp add: io_defs requireStoredRecord_def st_readRecord_eq laterRecord_refl)
  next
    case (Inr x)
    have m: "?m w = st_writeRecord S (g x) (expecting (rec_revision r)) w"
      using Inr r by (simp add: io_defs requireStoredRecord_def st_readRecord_eq)
    have "behind r r" by (simp add: behind_def)
    from r this assms [OF Inr] r(2) show ?thesis
      by (rule write_step) (use r in \<open>auto simp: m laterRecord_refl\<close>)
  qed
qed

lemma release_run:
  assumes r: "isAt r w" "storedRecordOk (ro_runId opts) r"
    and l: "getActiveExecutionRunLease r = Some l" "lease_id l = i"
  obtains r' w' where "releaseExecutionRunLeaseIfStillActive S cur (ro_runId opts) i t0 why w = (Inr r', w')"
    "isAt r' w'" "later r r'" "getActiveExecutionRunLease r' = None" "rec_revision r' = rec_revision r + 1"
    "bdl_steps (rec_bundle r') = bdl_steps (rec_bundle r)"
    "run_status (bdl_run (rec_bundle r')) = run_status (bdl_run (rec_bundle r))"
proof -
  from l have act: "activeLeaseOf (rec_bundle r) = Some l" by (simp add: getActiveExecutionRunLease_def)
  from r(2) have wf: "wfBundle (rec_bundle r)" by (simp add: storedRecordOk_def)
  from release_active [OF wf act, of t0 why] l(2) obtain m where
    m: "releaseExecutionRunLease (rec_bundle r) i t0 why = Inr m" "activeLeaseOf (lm_bundle m) = None" by auto
  have step: "lease_step (rec_bundle r) (lm_bundle m)" by (rule lease_step.release [OF m(1)])
  from r(2) have id: "run_id (bdl_run (lm_bundle m)) = ro_runId opts"
    using lease_step_run_id [OF step] by (simp add: storedRecordOk_def)
  have b: "behind r r" and ev: "evolve (ro_parseItem opts) (rec_bundle r) (lm_bundle m)"
    using step by (simp_all add: behind_def evolve_def)
  from r b ev r(2) show thesis
  proof (rule write_step [where b = "lm_bundle m"])
    fix e assume "st_writeRecord S (lm_bundle m) (expecting (rec_revision r)) w = (Inl e, w)"
    with write_ok_iff [of w "lm_bundle m" "Some r" "expecting (rec_revision r)"] r id show thesis
      by (simp add: expecting_def revisionOf_def)
  next
    fix r' w'
    assume *: "st_writeRecord S (lm_bundle m) (expecting (rec_revision r)) w = (Inr r', w')"
      "isAt r' w'" "rec_bundle r' = lm_bundle m" "later r r'" "rec_revision r' = rec_revision r + 1"
    with r m l have run: "releaseExecutionRunLeaseIfStillActive S cur (ro_runId opts) i t0 why w = (Inr r', w')"
      by (simp add: releaseExecutionRunLeaseIfStillActive_def controlReleaseLease_def
          requireStoredRecord_def io_defs st_readRecord_eq)
    show thesis
      using that [OF run *(2,4)] m(2) *(3,5) lease_step_steps [OF step] lease_step_status [OF step]
      by (simp add: getActiveExecutionRunLease_def)
  qed
qed

lemma release_if_active:
  assumes r: "isAt r w" "storedRecordOk (ro_runId opts) r"
  obtains r' w' where "releaseExecutionRunLeaseIfStillActive S cur (ro_runId opts) i t0 why w = (Inr r', w')"
    "isAt r' w'" "later r r'" "notHeld i r'"
proof (cases "\<exists>l. getActiveExecutionRunLease r = Some l \<and> lease_id l = i")
  case False
  then have "releaseExecutionRunLeaseIfStillActive S cur (ro_runId opts) i t0 why w = (Inr r, w)"
    using r by (auto simp: releaseExecutionRunLeaseIfStillActive_def io_defs st_readRecord_eq Let_def split: option.split)
  with False r show thesis by (intro that [of r w]) (auto simp: laterRecord_refl notHeld_def)
next
  case True
  then obtain l where "getActiveExecutionRunLease r = Some l" "lease_id l = i" by blast
  with r show thesis
    by (rule release_run [where cur = cur and ?t0.0 = t0 and why = why]) (rule that, auto simp: notHeld_def)
qed

end

text \<open>The events of resolved local actions name the run of the record.\<close>

lemma resolveLoop_events:
  "resolveRequestLoop p rec s t0 ex reqs resolved events patch w = (Inr (resolved', events', patch'), w') \<Longrightarrow>
   \<forall>e\<in>set events. ev_runId e = rec_runId rec \<Longrightarrow> \<forall>e\<in>set events'. ev_runId e = rec_runId rec"
proof (induction reqs arbitrary: resolved events patch w)
  case Nil
  then show ?case by (simp add: ioReturn_def)
next
  case (Cons r rs)
  let ?keep = "resolveRequestLoop p rec s t0 ex rs (resolved @ [r]) (events @ [requestEvent rec s r]) patch"
  have ev: "\<forall>e\<in>set (events @ [requestEvent rec s r]). ev_runId e = rec_runId rec"
    using Cons.prems(2) by (simp add: requestEvent_def)
  show ?case
  proof (cases "lar_status r \<noteq> Requested \<or> ex = None")
    case True
    with Cons.prems(1) have "?keep w = (Inr (resolved', events', patch'), w')"
      by (auto simp: Let_def split: if_splits option.splits)
    from Cons.IH [OF this ev] show ?thesis .
  next
    case False
    then obtain call where c: "lar_status r = Requested" "ex = Some call" by auto
    with Cons.prems(1) obtain res w1 where res: "call rec s r w = (Inr res, w1)"
      by (auto simp: Let_def ioBind_def split: prod.splits sum.splits)
    show ?thesis
    proof (cases "res = None \<or> cb_status (the res) = Some Requested")
      case True
      with Cons.prems(1) c res have "?keep w1 = (Inr (resolved', events', patch'), w')"
        by (auto simp: Let_def ioBind_def split: option.splits)
      from Cons.IH [OF this ev] show ?thesis .
    next
      case False
      then obtain cb where cb: "res = Some cb" "cb_status cb \<noteq> Some Requested" by auto
      let ?r = "applyCallbackResult t0 r cb"
      have "resolveRequestLoop p rec s t0 ex rs (resolved @ [?r])
          ((events @ [requestEvent rec s r]) @ [resolutionEvent rec s t0 ?r])
          (appendPatch p patch (cb_sharedState cb)) w1 = (Inr (resolved', events', patch'), w')"
        using Cons.prems(1) c res cb by (simp add: Let_def ioBind_def)
      from Cons.IH [OF this] ev show ?thesis by (simp add: resolutionEvent_def)
    qed
  qed
qed

lemma resolve_events:
  "resolveLocalActionRequests p rec s t0 out ex w = (Inr outcome, w') \<Longrightarrow>
   \<forall>e\<in>set (lr_events outcome). ev_runId e = rec_runId rec"
  by (auto simp: resolveLocalActionRequests_def Let_def io_defs dest!: resolveLoop_events
      split: if_splits prod.splits sum.splits)

text \<open>And what it needs to keep to the run's own steps throughout: so do the host's callbacks.\<close>

locale passHost = passStore S opts for S :: "'w recordStore" and opts :: "'w runOnceOptions" +
  assumes executor: "ro_executeStep opts = Some call \<Longrightarrow>
      (\<And>ev. keepsRun (ro_parseItem opts) S (ro_runId opts) (hb ev)) \<Longrightarrow>
      keepsRun (ro_parseItem opts) S (ro_runId opts) (call rec s hb)"
    and action: "ro_executeLocalActionRequest opts = Some act \<Longrightarrow>
      keepsRun (ro_parseItem opts) S (ro_runId opts) (act rec s req)"
    and observer: "ro_onLeaseHeartbeat opts = Some f \<Longrightarrow>
      keepsRun (ro_parseItem opts) S (ro_runId opts) (f x)"
begin

lemma keeps_notify: "keeps (notifyHeartbeat opts t ev)"
  by (simp add: notifyHeartbeat_def keeps_return observer split: option.split)

lemma keeps_controlHeartbeat: "keeps (controlHeartbeatLease S (ro_runId opts) i hb ex ev)"
  unfolding controlHeartbeatLease_def
  by (rule keeps_update [where f = "\<lambda>b. heartbeatExecutionRunLease b i hb ex ev"])
    (simp add: evolve_def lease_step.heartbeat)

lemma keeps_leaseHeartbeat: "keeps (leaseHeartbeat opts ev)"
  unfolding leaseHeartbeat_def Let_def resolveRuntimeEvidenceHeartbeatAt_def uses_store
  by (intro keeps_bind keeps_catch keeps_controlHeartbeat keeps_notify)
    (simp_all add: keeps_rules split: option.split)

lemma keeps_executor: "ro_executeStep opts = Some call \<Longrightarrow> keeps (call rec s (leaseHeartbeat opts))"
  by (erule executor) (rule keeps_leaseHeartbeat)

lemma triple_inv_host:
  assumes "keeps m" "\<And>w a w'. m w = (Inr a, w') \<Longrightarrow> R a"
  shows "triple (\<lambda>wl. inv b wl \<and> L (snd wl)) (leftIo m) (\<lambda>a wl. (inv b wl \<and> L (snd wl)) \<and> R a) (inv b)"
proof (rule tripleI)
  fix wl res wl'
  assume pre: "inv b wl \<and> L (snd wl)" and run: "leftIo m wl = (res, wl')"
  then have m: "m (fst wl) = (res, fst wl')" "snd wl' = snd wl" by (simp_all add: leftIo_eq)
  from pre obtain r where r: "peek (fst wl) (ro_runId opts) = Inr (Some r)" "later b r"
    "storedRecordOk (ro_runId opts) (pl_current (snd wl))"
    "behind (pl_current (snd wl)) r" by (auto simp: passInv_def peek_def)
  from keepsD [OF assms(1) r(1) laterRecord_ok [OF r(2)]] m(1) obtain r' where
    r': "peek (fst wl') (ro_runId opts) = Inr (Some r')" "later r r'" by auto
  from r(4) r'(2) have "behind (pl_current (snd wl)) r'" by (auto simp: behind_def laterRecord_def)
  with r r' m(2) have "inv b wl'"
    unfolding passInv_def by (auto simp: peek_def intro!: exI [of _ r'] intro: laterRecord_trans)
  with pre m assms(2) show "case res of Inr a \<Rightarrow> (inv b wl' \<and> L (snd wl')) \<and> R a | Inl e \<Rightarrow> inv b wl'"
    by (auto split: sum.split)
qed

lemma triple_host:
  "keeps m \<Longrightarrow> triple (\<lambda>wl. inv b wl \<and> L (snd wl)) (leftIo m) (\<lambda>a wl. inv b wl \<and> L (snd wl)) (inv b)"
  using triple_inv_host [where R = "\<lambda>_. True"] by simp

lemma triple_store:
  assumes step: "evolve (ro_parseItem opts) (rec_bundle rec) b'"
  shows "triple (\<lambda>wl. inv b wl \<and> pl_current (snd wl) = rec) (storeCurrent opts b')
    (\<lambda>r wl. (inv b wl \<and> pl_current (snd wl) = r) \<and> rec_bundle r = b') (inv b)"
proof (rule tripleI)
  fix wl res wl'
  assume pre: "inv b wl \<and> pl_current (snd wl) = rec" and run: "storeCurrent opts b' wl = (res, wl')"
  from pre obtain cur where cur: "peek (fst wl) (ro_runId opts) = Inr (Some cur)" "storedRecordOk (ro_runId opts) cur"
    "later b cur" "storedRecordOk (ro_runId opts) rec"
    "behind rec cur" by (auto simp: passInv_def peek_def dest: laterRecord_ok)
  from cur(1,2,5) step cur(4)
  show "case res of Inr r \<Rightarrow> (inv b wl' \<and> pl_current (snd wl') = r) \<and> rec_bundle r = b' | Inl e \<Rightarrow> inv b wl'"
  proof (cases rule: write_step)
    case (refused e)
    with pre run show ?thesis
      by (cases wl) (auto simp: storeCurrent_def locals_def assign_def io_defs uses_store)
  next
    case (stored r w')
    then have "res = Inr r" "fst wl' = w'" "pl_current (snd wl') = r"
      using pre run by (auto simp: storeCurrent_def locals_def assign_def io_defs uses_store leftIo_def split: prod.splits)
    moreover from stored cur(3) have "later b r" by (blast intro: laterRecord_trans)
    ultimately show ?thesis
      using stored by (auto simp: passInv_def peek_def behind_def)
  qed
qed

lemma triple_refresh:
  "triple (inv b) (refreshCurrent opts stepId) (\<lambda>rc wl. inv b wl \<and> pl_current (snd wl) = fst rc) (inv b)"
proof (rule tripleI)
  fix wl res wl'
  assume pre: "inv b wl" and run: "refreshCurrent opts stepId wl = (res, wl')"
  from pre obtain cur where cur: "peek (fst wl) (ro_runId opts) = Inr (Some cur)" "storedRecordOk (ro_runId opts) cur"
    "later b cur" by (auto simp: passInv_def peek_def dest: laterRecord_ok)
  with run have "wl' = (fst wl, (snd wl)\<lparr>pl_current := cur\<rparr>)"
      "\<And>a. res = Inr a \<Longrightarrow> fst a = cur"
    by (cases wl, auto simp: refreshCurrent_def locals_def assign_def io_defs uses_store st_readRecord_eq leftIo_def
        split: sum.splits)+
  with cur show "case res of Inr rc \<Rightarrow> inv b wl' \<and> pl_current (snd wl') = fst rc | Inl e \<Rightarrow> inv b wl'"
    by (auto simp: passInv_def peek_def behind_def split: sum.split)
qed

lemma inv_locals [simp]:
  "inv b (w, l\<lparr>pl_releaseReason := x\<rparr>) = inv b (w, l)" "inv b (w, l\<lparr>pl_final := y\<rparr>) = inv b (w, l)"
  by (simp_all add: passInv_def)

lemma triple_reason:
  "triple (\<lambda>wl. inv b wl \<and> pl_current (snd wl) = rec) (setReason why)
     (\<lambda>_ wl. inv b wl \<and> pl_current (snd wl) = rec) (inv b)"
  unfolding setReason_def by (rule triple_assign) simp

lemma triple_return_current: "triple (inv b) returnCurrent (\<lambda>_. inv b) E"
  and triple_finish_current: "triple (inv b) finishCurrent (\<lambda>_. inv b) E"
  by (auto simp: triple_def returnCurrent_def finishCurrent_def locals_def assign_def io_defs)

lemma triple_fact: "(R \<Longrightarrow> triple P m Q E) \<Longrightarrow> triple (\<lambda>wl. P wl \<and> R) m Q E"
  by (auto simp: triple_def)

text \<open>The blocks of the guarded part keep the invariant, whether they return or throw.\<close>

abbreviation atRecord :: "storedRecord \<Rightarrow> storedRecord \<Rightarrow> 'w \<times> passLocals \<Rightarrow> bool" where
  "atRecord b rec \<equiv> (\<lambda>wl. inv b wl \<and> pl_current (snd wl) = rec)"

abbreviation keepsInv :: "storedRecord \<Rightarrow> storedRecord \<Rightarrow> ('w, 'a) pass \<Rightarrow> bool" where
  "keepsInv b rec m \<equiv> triple (atRecord b rec) m (\<lambda>_. inv b) (inv b)"

lemma at_clock: "triple (atRecord b rec) (leftIo (nowIo opts)) (\<lambda>_. atRecord b rec) (inv b)"
  by (rule triple_host [where L = "\<lambda>l. pl_current l = rec"]) (rule keeps_clock)

lemma at_inv: "atRecord b rec wl \<Longrightarrow> inv b wl"
  by simp

lemma keepsInv_store:
  "evolve (ro_parseItem opts) (rec_bundle rec) b' \<Longrightarrow> (\<And>r. keepsInv b r (k r)) \<Longrightarrow>
   keepsInv b rec (ioBind (storeCurrent opts b') k)"
  by (rule triple_bind [OF triple_store], assumption) (rule triple_fact, blast)

lemma keepsInv_return: "keepsInv b rec returnCurrent" and keepsInv_finish: "keepsInv b rec finishCurrent"
  by (rule triple_pre [OF triple_return_current], simp) (rule triple_pre [OF triple_finish_current], simp)

lemma keepsInv_bind:
  "triple (atRecord b rec) m (\<lambda>_. atRecord b rec) (inv b) \<Longrightarrow> (\<And>a. keepsInv b rec (k a)) \<Longrightarrow>
   keepsInv b rec (ioBind m k)"
  by (rule triple_bind)

lemma keepsInv_lift: "(\<And>a. r = Inr a \<Longrightarrow> keepsInv b rec (k a)) \<Longrightarrow> keepsInv b rec (ioBind (ioLift r) k)"
  by (rule triple_bindLift) auto

lemma keepsInv_pause: "keepsInv b rec (pausePass opts rec stepId g)"
  unfolding pausePass_def
  by (intro keepsInv_bind [OF at_clock] keepsInv_lift keepsInv_store keepsInv_bind [OF triple_reason] keepsInv_return)
    (simp add: evolve_def run_move.escalate)

lemma keepsInv_failEscalated: "keepsInv b rec (failEscalatedPass opts rec stepId eb)"
  unfolding failEscalatedPass_def
  by (intro keepsInv_bind [OF triple_reason] keepsInv_bind [OF at_clock] keepsInv_lift keepsInv_store keepsInv_return)
    (auto simp: evolve_def plainCompletion_def intro: run_move.fail)

lemma keeps_resolveLoop:
  "(\<And>call req. ex = Some call \<Longrightarrow> keeps (call rec s req)) \<Longrightarrow>
   keeps (resolveRequestLoop p rec s t0 ex reqs resolved events patch)"
proof (induction reqs arbitrary: resolved events patch)
  case Nil
  then show ?case by (simp add: keeps_return)
next
  case (Cons r rs)
  then show ?case
    by (auto simp: Let_def split: option.split intro!: keeps_bind)
qed

lemma keeps_resolve: "keeps (resolveLocalActionRequests p rec s t0 out (ro_executeLocalActionRequest opts))"
  unfolding resolveLocalActionRequests_def Let_def
  by (auto intro!: keeps_return keeps_bind keeps_resolveLoop action simp: case_prod_beta)

lemma inv_current: "inv b wl \<Longrightarrow> storedRecordOk (ro_runId opts) (pl_current (snd wl))"
  by (auto simp: passInv_def)

lemma keepsInv_ok:
  assumes "storedRecordOk (ro_runId opts) rec \<Longrightarrow> keepsInv b rec m"
  shows "keepsInv b rec m"
proof (rule tripleI)
  fix wl res wl'
  assume pre: "atRecord b rec wl" and run: "m wl = (res, wl')"
  then have "storedRecordOk (ro_runId opts) rec" by (auto dest: inv_current)
  from tripleD [OF assms [OF this] pre run]
  show "case res of Inr a \<Rightarrow> inv b wl' | Inl e \<Rightarrow> inv b wl'" .
qed

lemma at_resolve:
  "triple (atRecord b rec) (leftIo (resolveLocalActionRequests (ro_parseItem opts) rec s t0 out (ro_executeLocalActionRequest opts)))
     (\<lambda>outcome wl. atRecord b rec wl \<and> (\<forall>e\<in>set (lr_events outcome). ev_runId e = rec_runId rec)) (inv b)"
  by (rule triple_inv_host [OF keeps_resolve, where L = "\<lambda>l. pl_current l = rec"]) (rule resolve_events)

lemma evolve_fail:
  "failExecutionRunStep (ro_parseItem opts) b i t0 cp f = Inr b' \<Longrightarrow>
   \<forall>e\<in>set (cp_localActionEvents cp). ev_runId e = run_id (bdl_run b) \<Longrightarrow> evolve (ro_parseItem opts) b b'"
  by (auto simp: evolve_def intro: run_move.fail)

lemma keepsInv_complete: "keepsInv b rec (completePass opts rec stepId s ctx res out)"
proof (rule keepsInv_ok)
  assume ok: "storedRecordOk (ro_runId opts) rec"
  then have ids: "rec_runId rec = run_id (bdl_run (rec_bundle rec))" by (simp add: storedRecordOk_def)
  show ?thesis
    unfolding completePass_def Let_def
    by (intro keepsInv_bind [OF at_clock] triple_bind [OF at_resolve] triple_fact triple_if
        keepsInv_bind [OF triple_reason] keepsInv_lift keepsInv_store keepsInv_return keepsInv_finish)
      (auto simp: evolve_def ids intro: run_move.fail run_move.succeed)
qed

lemma triple_at_refresh:
  assumes "\<And>r c. keepsInv b r (k (r, c))"
  shows "triple (inv b) (ioBind (refreshCurrent opts stepId) k) (\<lambda>_. inv b) (inv b)"
proof (rule triple_bind [OF triple_refresh])
  fix rc
  show "triple (\<lambda>wl. inv b wl \<and> pl_current (snd wl) = fst rc) (k rc) (\<lambda>_. inv b) (inv b)"
    using assms [of "fst rc" "snd rc"] by simp
qed

lemma keepsInv_execute: "keepsInv b rec (executePass opts req rec stepId s ctx)"
proof -
  have call: "triple (atRecord b rec) (case ro_executeStep opts of None \<Rightarrow> ioReturn None
      | Some call \<Rightarrow> leftIo (call rec ctx (leaseHeartbeat opts))) (\<lambda>_. inv b) (inv b)"
    by (rule triple_option) (auto intro: triple_return
        triple_weaken [OF triple_host [OF keeps_executor, where L = "\<lambda>l. pl_current l = rec"]])
  show ?thesis
    unfolding executePass_def Let_def
    by (rule triple_bind [OF call], rule triple_if, rule triple_throw, simp, rule triple_at_refresh)
      (auto intro: keepsInv_bind [OF triple_reason] keepsInv_return keepsInv_complete)
qed

lemma keepsInv_start:
  assumes "dp_nextRunnableStepId (createExecutionRunDispatchPlan (rec_bundle rec)) = Some stepId"
    and "\<And>r s. keepsInv b r (k r s)"
  shows "keepsInv b rec (ioBind (ioLift (startExecutionRunStep (rec_bundle rec) stepId t0)) (\<lambda>b.
     ioBind (storeCurrent opts b) (\<lambda>rec. ioBind (ioLift (requireStep (rec_bundle rec) stepId)) (k rec))))"
  by (intro keepsInv_lift keepsInv_store assms(2)) (simp add: evolve_def run_move.start [OF assms(1)])

lemma at_locals: "triple (atRecord b rec) locals (\<lambda>l wl. atRecord b rec wl \<and> pl_current l = rec) (inv b)"
  by (rule triple_locals) simp

lemma triple_try:
  assumes "dp_nextRunnableStepId (createExecutionRunDispatchPlan (rec_bundle rec)) = Some stepId"
  shows "keepsInv b rec (tryPass opts req stepId)"
  unfolding tryPass_def Let_def
  apply (rule keepsInv_bind [OF at_clock], rule triple_bind [OF at_locals], rule triple_fact)
  apply (simp only:)
  apply (rule keepsInv_start [OF assms])
  apply (auto split: option.split intro: keepsInv_pause keepsInv_failEscalated keepsInv_execute)
  done

lemma triple_catch_pass: "triple (inv b) (catchPass opts stepId err) (\<lambda>_. inv b) (inv b)"
  unfolding catchPass_def Let_def
  apply (rule triple_at_refresh)
  apply (simp only: prod.case)
  apply (intro triple_if keepsInv_bind [OF triple_reason] keepsInv_bind [OF at_clock] keepsInv_lift keepsInv_store
      keepsInv_return keepsInv_finish)
  apply (erule evolve_fail)
  apply (simp add: plainCompletion_def)
  done

text \<open>The \<open>finally\<close> block never throws, and afterwards the lease of the pass is not active.\<close>

definition released :: "'w \<times> passLocals \<Rightarrow> bool" where
  "released wl \<longleftrightarrow> (\<exists>r. peek (fst wl) (ro_runId opts) = Inr (Some r) \<and> pl_final (snd wl) = Some r
     \<and> notHeld (passLeaseId opts) r)"

lemma triple_finally_pass:
  "triple (inv b) (finallyPass opts) (\<lambda>_ wl. inv b wl \<and> released wl) (\<lambda>_. False)"
proof (rule tripleI)
  fix wl res wl'
  assume pre: "inv b wl" and run: "finallyPass opts wl = (res, wl')"
  obtain t0 w1 where t0: "ro_now opts (fst wl) = (t0, w1)" by fastforce
  from pre obtain r where r: "peek (fst wl) (ro_runId opts) = Inr (Some r)" "later b r"
    "storedRecordOk (ro_runId opts) (pl_current (snd wl))" "behind (pl_current (snd wl)) r"
    by (auto simp: passInv_def peek_def)
  have "peek w1 (ro_runId opts) = Inr (Some r)" using clock [of "fst wl"] t0 r(1) by (simp add: peek_def)
  from this laterRecord_ok [OF r(2)] obtain r' w' where
    rel: "releaseExecutionRunLeaseIfStillActive S (orElse (pl_final (snd wl)) (pl_current (snd wl)))
       (ro_runId opts) (passLeaseId opts) t0 (pl_releaseReason (snd wl)) w1 = (Inr r', w')"
    and r': "peek w' (ro_runId opts) = Inr (Some r')" "later r r'"
      "notHeld (passLeaseId opts) r'"
    by (rule release_if_active [where cur = "orElse (pl_final (snd wl)) (pl_current (snd wl))"
          and i = "passLeaseId opts" and ?t0.0 = t0 and why = "pl_releaseReason (snd wl)"])
  have "res = Inr ()" "wl' = (w', (snd wl)\<lparr>pl_final := Some r'\<rparr>)"
    using run rel t0
    by (cases wl, simp add: finallyPass_def locals_def assign_def nowIo_def io_defs uses_store)+
  moreover from r(4) r'(2) have "behind (pl_current (snd wl)) r'" by (auto simp: behind_def laterRecord_def)
  moreover have "later b r'" by (rule laterRecord_trans [OF r(2) r'(2)])
  ultimately show "case res of Inr a \<Rightarrow> inv b wl' \<and> released wl' | Inl e \<Rightarrow> False"
    using r r' by (auto simp: passInv_def released_def peek_def)
qed

lemma triple_guarded:
  assumes "dp_nextRunnableStepId (createExecutionRunDispatchPlan (rec_bundle rec)) = Some stepId"
  shows "triple (atRecord b rec) (guardedPass opts req stepId) (\<lambda>_ wl. inv b wl \<and> released wl)
    (\<lambda>wl. inv b wl \<and> released wl)"
  unfolding guardedPass_def
  by (rule triple_finally [OF triple_catch [OF triple_try [OF assms] triple_catch_pass] triple_finally_pass]) simp

lemma runGuarded_ok:
  assumes r: "peek w (ro_runId opts) = Inr (Some r)" "later r0 r" "storedRecordOk (ro_runId opts) rec" "behind rec r"
    and nxt: "dp_nextRunnableStepId (createExecutionRunDispatchPlan (rec_bundle rec)) = Some stepId"
    and run: "runGuarded opts req stepId rec w = (res, w')"
  shows "\<exists>r'. peek w' (ro_runId opts) = Inr (Some r') \<and> later r0 r' \<and> notHeld (passLeaseId opts) r'"
proof -
  let ?l = "\<lparr>pl_current = rec, pl_releaseReason = Some ''completed'', pl_final = None\<rparr>"
  obtain res1 w1 l1 where g: "guardedPass opts req stepId (w, ?l) = (res1, (w1, l1))"
    by (metis prod.exhaust)
  have "atRecord r0 rec (w, ?l)" using r by (auto simp: passInv_def peek_def)
  from tripleD [OF triple_guarded [OF nxt] this g] have "inv r0 (w1, l1)" "released (w1, l1)"
    by (cases res1; simp)+
  moreover have "w' = w1" using run g
    by (auto simp: runGuarded_def split: sum.splits flow.splits option.splits)
  ultimately show ?thesis by (auto simp: passInv_def released_def peek_def)
qed

text \<open>Before the guarded part: limits change no lease, and the lease is taken under a new identifier.\<close>

definition limited :: "storedRecord \<Rightarrow> 'w \<Rightarrow> bool" where
  "limited r w \<longleftrightarrow> (\<exists>r'. isAt r' w \<and> later r r' \<and> bdl_leases (rec_bundle r') = bdl_leases (rec_bundle r))"

lemma limited_same: "storedRecordOk (ro_runId opts) r \<Longrightarrow> isAt r w \<Longrightarrow> limited r w"
  by (auto simp: limited_def laterRecord_refl)

lemma triple_clock: "(\<And>w. isAt r w \<Longrightarrow> P w) \<Longrightarrow> triple (isAt r) (nowIo opts) (\<lambda>_. P) E"
  using clock by (auto simp: triple_def nowIo_def peek_def split: prod.split) (metis snd_conv)

definition limitPost :: "storedRecord \<Rightarrow> storedRecord option \<Rightarrow> 'w \<Rightarrow> bool" where
  "limitPost r x w \<longleftrightarrow> (if x = None then isAt r w else limited r w)"

lemma triple_failAtLimit:
  assumes "storedRecordOk (ro_runId opts) r"
  shows "triple (isAt r) (failAtLimit opts r stepId f) (limitPost r) (limited r)"
proof -
  have wr: "triple (isAt r) (st_writeRecord S b (expecting (rec_revision r))) (\<lambda>_. limited r) (limited r)"
    if f: "failExecutionRunStep (ro_parseItem opts) (rec_bundle r) stepId t0 plainCompletion f' = Inr b" for b t0 f'
  proof (rule tripleI)
    fix w res w'
    assume here: "isAt r w" and run: "st_writeRecord S b (expecting (rec_revision r)) w = (res, w')"
    have ev: "evolve (ro_parseItem opts) (rec_bundle r) b" by (rule evolve_fail [OF f]) (simp add: plainCompletion_def)
    have leases: "bdl_leases b = bdl_leases (rec_bundle r)"
      using f by (auto simp: failExecutionRunStep_def Let_def split: sum.splits if_splits)
    have "behind r r" by (simp add: behind_def)
    from here assms this ev assms show "case res of Inr a \<Rightarrow> limited r w' | Inl e \<Rightarrow> limited r w'"
      by (rule write_step)
        (use here run leases assms in \<open>auto simp: limited_def laterRecord_refl split: sum.split\<close>)
  qed
  show ?thesis
    unfolding failAtLimit_def uses_store
    by (rule triple_bind [OF triple_clock], assumption, rule triple_bindLift, erule limited_same [OF assms],
      rule triple_bind, erule wr, rule triple_return, simp add: limitPost_def)
qed

lemma triple_limits:
  assumes "storedRecordOk (ro_runId opts) r"
  shows "triple (isAt r) (enforceStepLimits opts r s stepId) (limitPost r) (limited r)"
proof -
  note limit = triple_failAtLimit [OF assms, of stepId]
  have turn: "triple (isAt r) (enforceTurnLimit opts r s stepId) (limitPost r) (limited r)"
    unfolding enforceTurnLimit_def
    by (rule triple_option) (auto simp: limitPost_def intro: triple_return limit)
  show ?thesis
    unfolding enforceStepLimits_def
    by (intro triple_option triple_bind [OF triple_clock [where r = r and P = "isAt r"]] turn limit)
qed

definition moved :: "storedRecord \<Rightarrow> 'w \<Rightarrow> bool" where
  "moved r w \<longleftrightarrow> (\<exists>r'. isAt r' w \<and> later r r')"

definition leasedAt :: "storedRecord \<Rightarrow> storedRecord \<Rightarrow> 'w \<Rightarrow> bool" where
  "leasedAt r leased w \<longleftrightarrow> (\<exists>r'. isAt r' w \<and> later r r' \<and> storedRecordOk (ro_runId opts) leased \<and> behind leased r' \<and>
     dp_nextRunnableStepId (createExecutionRunDispatchPlan (rec_bundle leased))
       = dp_nextRunnableStepId (createExecutionRunDispatchPlan (rec_bundle r)))"

definition newlyLeased :: "storedRecord \<Rightarrow> storedRecord \<Rightarrow> 'w \<Rightarrow> bool" where
  "newlyLeased r leased w \<longleftrightarrow> isAt leased w \<and> later r leased \<and>
     dp_nextRunnableStepId (createExecutionRunDispatchPlan (rec_bundle leased))
       = dp_nextRunnableStepId (createExecutionRunDispatchPlan (rec_bundle r))"

lemma triple_leaseUpdate:
  assumes ok: "storedRecordOk (ro_runId opts) r"
    and step: "\<And>m. f (rec_bundle r) = Inr m \<Longrightarrow> lease_step (rec_bundle r) (lm_bundle m)"
  shows "triple (isAt r) (ioBind (requireStoredRecord S (ro_runId opts)) (\<lambda>rec. ioBind (ioLift (f (rec_bundle rec)))
    (\<lambda>m. st_writeRecord S (lm_bundle m) (expecting (rec_revision rec))))) (newlyLeased r) (isAt r)"
    (is "triple _ ?m _ _")
proof (rule tripleI)
  fix w res w'
  assume here: "isAt r w" and run: "?m w = (res, w')"
  show "case res of Inr a \<Rightarrow> newlyLeased r a w' | Inl e \<Rightarrow> isAt r w'"
  proof (cases "f (rec_bundle r)")
    case (Inl e)
    with here run show ?thesis by (auto simp: io_defs requireStoredRecord_def st_readRecord_eq)
  next
    case (Inr m)
    with here run have wr: "st_writeRecord S (lm_bundle m) (expecting (rec_revision r)) w = (res, w')"
      by (simp add: io_defs requireStoredRecord_def st_readRecord_eq)
    have e: "evolve (ro_parseItem opts) (rec_bundle r) (lm_bundle m)" and b: "behind r r"
      using step [OF Inr] by (simp_all add: evolve_def behind_def)
    from here ok b e ok show ?thesis
      by (rule write_step) (use here wr lease_step_next [OF step [OF Inr]] in \<open>auto simp: newlyLeased_def\<close>)
  qed
qed

lemma triple_notify:
  "triple (newlyLeased r leased) (notifyHeartbeat opts t0 ev) (\<lambda>_. leasedAt r leased)
     (\<lambda>w. \<not> quietObserver opts \<and> moved r w)"
proof (rule tripleI)
  fix w res w'
  assume at0: "newlyLeased r leased w" and run: "notifyHeartbeat opts t0 ev w = (res, w')"
  from at0 have l: "isAt leased w" "storedRecordOk (ro_runId opts) leased" "later r leased"
    by (auto simp: newlyLeased_def dest: laterRecord_ok)
  from keepsD [OF keeps_notify [of t0 ev] l(1,2)] run obtain r' where r': "isAt r' w'" "later leased r'" by auto
  then have "behind leased r'" "later r r'"
    using l(3) by (auto simp: behind_def laterRecord_def intro: rtranclp_trans)
  with at0 l r' have "leasedAt r leased w'" "moved r w'" by (auto simp: leasedAt_def moved_def newlyLeased_def)
  moreover have "\<not> quietObserver opts" if "isl res"
    using that run by (auto simp: notifyHeartbeat_def quietObserver_def ioReturn_def split: option.splits) (metis fst_conv)
  ultimately show "case res of Inr a \<Rightarrow> leasedAt r leased w' | Inl e \<Rightarrow> \<not> quietObserver opts \<and> moved r w'"
    by (cases res) auto
qed

lemma triple_acquire:
  assumes ok: "storedRecordOk (ro_runId opts) r" and fresh: "passLeaseId opts \<notin> lease_id ` set (bdl_leases (rec_bundle r))"
  shows "triple (isAt r) (acquireNewLease opts) (leasedAt r)
    (\<lambda>w. isAt r w \<or> \<not> quietObserver opts \<and> moved r w)"
proof -
  have upd: "triple (isAt r) (controlAcquireLease S (ro_runId opts) (passLeaseId opts) (ro_ownerId opts) t0 (Some t0) t1)
      (newlyLeased r) (isAt r)" for t0 t1
    unfolding controlAcquireLease_def
    by (rule triple_leaseUpdate [where f = "\<lambda>b. acquireExecutionRunLease b (passLeaseId opts) (ro_ownerId opts) t0 (Some t0) t1",
          OF ok]) (erule lease_step.acquire [OF _ fresh])
  show ?thesis
    unfolding acquireNewLease_def uses_store
    by (rule triple_bind [OF triple_clock [where r = r and P = "isAt r"]], assumption,
      rule triple_bind [OF triple_weaken [OF upd]], assumption, assumption, simp,
      rule triple_bind [OF triple_weaken [OF triple_notify]], assumption, assumption, simp,
      rule triple_return, assumption)
qed

lemma triple_renew:
  assumes ok: "storedRecordOk (ro_runId opts) r"
  shows "triple (isAt r) (renewExistingLease opts r i) (leasedAt r) (moved r)"
proof -
  have stay: "isAt r w \<Longrightarrow> moved r w" for w using ok by (auto simp: moved_def laterRecord_refl)
  have upd: "triple (isAt r) (controlHeartbeatLease S (ro_runId opts) i t0 t1 ev) (newlyLeased r) (isAt r)" for t0 t1 ev
    unfolding controlHeartbeatLease_def
    by (rule triple_leaseUpdate [where f = "\<lambda>b. heartbeatExecutionRunLease b i t0 t1 ev", OF ok]) (erule lease_step.heartbeat)
  have renew: "triple (isAt r) (ioBind (nowIo opts) (\<lambda>t0.
      ioBind (controlHeartbeatLease S (ro_runId opts) i t0 (addMillisecondsToIsoTimestamp t0 (leaseTtl opts)) None) (\<lambda>x.
      ioBind (notifyHeartbeat opts t0 None) (\<lambda>_. ioReturn x)))) (leasedAt r) (moved r)"
    by (rule triple_bind [OF triple_clock [where r = r and P = "isAt r"]], assumption,
      rule triple_bind [OF triple_weaken [OF upd]], assumption, assumption, erule stay,
      rule triple_bind [OF triple_weaken [OF triple_notify]], assumption, assumption, simp,
      rule triple_return, assumption)
  show ?thesis
    unfolding renewExistingLease_def uses_store Let_def
    by (intro triple_option triple_if triple_throw renew) (simp_all add: stay)
qed

definition passPost :: "storedRecord \<Rightarrow> 'w \<Rightarrow> bool" where
  "passPost r w \<longleftrightarrow> (\<exists>r'. isAt r' w \<and> later r r' \<and>
     (truthyText (ro_existingLeaseId opts) = None \<longrightarrow> quietObserver opts \<longrightarrow> notHeld (passLeaseId opts) r'))"

lemma triple_guardedRun:
  assumes "dp_nextRunnableStepId (createExecutionRunDispatchPlan (rec_bundle r)) = Some stepId"
  shows "triple (leasedAt r leased) (runGuarded opts req stepId leased) (\<lambda>_. passPost r) (passPost r)"
proof (rule tripleI)
  fix w res w'
  assume l: "leasedAt r leased w" and run: "runGuarded opts req stepId leased w = (res, w')"
  from l obtain r1 where r1: "isAt r1 w" "later r r1" "storedRecordOk (ro_runId opts) leased" "behind leased r1"
    "dp_nextRunnableStepId (createExecutionRunDispatchPlan (rec_bundle leased)) = Some stepId"
    using assms by (auto simp: leasedAt_def)
  from runGuarded_ok [OF r1 run] have "passPost r w'" by (auto simp: passPost_def)
  then show "case res of Inr a \<Rightarrow> passPost r w' | Inl e \<Rightarrow> passPost r w'" by (simp split: sum.split)
qed

lemma triple_takeLease:
  assumes ok: "storedRecordOk (ro_runId opts) r"
    and fresh: "truthyText (ro_existingLeaseId opts) = None \<Longrightarrow>
      passLeaseId opts \<notin> lease_id ` set (bdl_leases (rec_bundle r))"
  shows "triple (isAt r) (takeLease opts r) (leasedAt r) (passPost r)"
proof (cases "truthyText (ro_existingLeaseId opts)")
  case (Some i)
  then show ?thesis
    using triple_weaken [OF triple_renew [OF ok, of i]] by (auto simp: takeLease_def moved_def passPost_def)
next
  case None
  from fresh [OF None] have n: "notHeld (passLeaseId opts) r" by (rule notHeld_fresh)
  show ?thesis
    unfolding takeLease_def None option.case
    by (rule triple_weaken [OF triple_acquire [OF ok fresh [OF None]]])
      (use ok n in \<open>auto simp: passPost_def moved_def laterRecord_refl\<close>)
qed

lemma pass_ok:
  assumes here: "isAt r w" and ok: "storedRecordOk (ro_runId opts) r"
    and fresh: "truthyText (ro_existingLeaseId opts) = None \<Longrightarrow>
      passLeaseId opts \<notin> lease_id ` set (bdl_leases (rec_bundle r))"
  shows "passPost r (snd (executeStoredExecutionRunOnce opts w))"
proof -
  let ?plan = "createExecutionRunDispatchPlan (rec_bundle r)"
  have n: "notHeld (passLeaseId opts) r" if "truthyText (ro_existingLeaseId opts) = None"
    using fresh [OF that] by (rule notHeld_fresh)
  have stay: "isAt r w \<Longrightarrow> passPost r w" for w
    using ok n by (auto simp: passPost_def laterRecord_refl)
  have lim: "passPost r w" if "limited r w" for w
  proof -
    from that obtain r' where r': "isAt r' w" "later r r'" "bdl_leases (rec_bundle r') = bdl_leases (rec_bundle r)"
      by (auto simp: limited_def)
    with n show ?thesis by (auto simp: passPost_def notHeld_def getActiveExecutionRunLease_def activeLeaseOf_def)
  qed
  have inspect: "triple (isAt r) (controlInspectRun S (ro_runId opts)) (\<lambda>x w. isAt r w \<and> x = Some (r, ?plan)) (\<lambda>_. False)"
    by (auto simp: triple_def controlInspectRun_def io_defs st_readRecord_eq)
  have limits: "triple (isAt r) (enforceStepLimits opts r s stepId) (limitPost r) (passPost r)" for s stepId
    by (rule triple_weaken [OF triple_limits [OF ok]]) (simp_all add: lim)
  have "triple (isAt r) (executeStoredExecutionRunOnce opts) (\<lambda>_. passPost r) (passPost r)"
    unfolding executeStoredExecutionRunOnce_def uses_store
  proof (rule triple_bind [OF triple_weaken [OF inspect]], assumption, assumption, simp,
      rule triple_fact, simp only: option.case prod.case, rule triple_option, rule triple_return, erule stay,
      rule triple_bindLift, erule stay, rule triple_bind [OF limits])
    fix stepId s limit
    assume "truthyText (dp_nextRunnableStepId ?plan) = Some stepId"
    then have nxt: "dp_nextRunnableStepId ?plan = Some stepId" by (rule truthyText_Some)
    show "triple (limitPost r limit) (case limit of
          None \<Rightarrow> ioBind (takeLease opts r) (\<lambda>leased.
            runGuarded opts (requiresConfiguredStoredStepExecutor (rec_bundle r)) stepId leased)
        | Some r \<Rightarrow> ioReturn r) (\<lambda>_. passPost r) (passPost r)"
    proof (rule triple_option)
      assume "limit = None"
      then show "triple (limitPost r limit) (ioBind (takeLease opts r) (\<lambda>leased.
            runGuarded opts (requiresConfiguredStoredStepExecutor (rec_bundle r)) stepId leased))
          (\<lambda>_. passPost r) (passPost r)"
        by (intro triple_pre [OF triple_bind [OF triple_takeLease [OF ok fresh] triple_guardedRun [OF nxt]]])
          (simp_all add: limitPost_def)
    next
      fix x assume "limit = Some x"
      then show "triple (limitPost r limit) (ioReturn x) (\<lambda>_. passPost r) (passPost r)"
        by (intro triple_return lim) (simp add: limitPost_def)
    qed
  qed
  from tripleD [OF this here prod.collapse [symmetric]] show ?thesis by (simp split: sum.splits)
qed

end

section \<open>The bounded local runner\<close>

text \<open>
  The runner without executor, local actions and observer: every field that may be absent is absent.
  Its world is the run directory and the number of times the clock was read.
\<close>

definition localRunnerOptions ::
  "(string \<Rightarrow> int option) \<Rightarrow> (string \<Rightarrow> string \<Rightarrow> bool) \<Rightarrow> (nat \<Rightarrow> string) \<Rightarrow> (json \<Rightarrow> json option) \<Rightarrow>
   (string \<Rightarrow> json option) \<Rightarrow> (rat \<Rightarrow> string) \<Rightarrow> string \<Rightarrow> string \<Rightarrow> string option \<Rightarrow> (runFs \<times> nat) runOnceOptions" where
  "localRunnerOptions parse le clock parseItem parseJson fracText runId ownerId leaseId =
     \<lparr>ro_runId = runId, ro_ownerId = ownerId, ro_leaseId = leaseId, ro_existingLeaseId = None,
      ro_leaseHeartbeatTtlMs = None, ro_store = leftStore (createExecutionRunRecordStore parse le),
      ro_now = (\<lambda>(fs, n). (clock n, (fs, n + 1))), ro_executeStep = None, ro_executeLocalActionRequest = None,
      ro_onLeaseHeartbeat = None, ro_parseItem = parseItem, ro_parseJson = parseJson, ro_fracText = fracText\<rparr>"

interpretation localClock: passStore "leftStore (createExecutionRunRecordStore parse le)"
    "localRunnerOptions parse le clock parseItem parseJson fracText runId ownerId leaseId"
  for parse le clock parseItem parseJson fracText runId ownerId leaseId
  by unfold_locales (auto simp: localRunnerOptions_def leftIo_def split: prod.splits)

interpretation localRunner: passHost "leftStore (createExecutionRunRecordStore parse le)"
    "localRunnerOptions parse le clock parseItem parseJson fracText runId ownerId leaseId"
  for parse le clock parseItem parseJson fracText runId ownerId leaseId
  by unfold_locales (auto simp: localRunnerOptions_def leftIo_def split: prod.splits)

section \<open>Any host that respects the store\<close>

definition hostKeepsRun :: "'w runOnceOptions \<Rightarrow> bool" where
  "hostKeepsRun opts \<longleftrightarrow>
     (\<forall>w. fst (st_readRecord (ro_store opts) (ro_runId opts) (snd (ro_now opts w)))
        = fst (st_readRecord (ro_store opts) (ro_runId opts) w)) \<and>
     (\<forall>call rec s hb. ro_executeStep opts = Some call \<longrightarrow>
        (\<forall>ev. keepsRun (ro_parseItem opts) (ro_store opts) (ro_runId opts) (hb ev)) \<longrightarrow>
        keepsRun (ro_parseItem opts) (ro_store opts) (ro_runId opts) (call rec s hb)) \<and>
     (\<forall>act rec s req. ro_executeLocalActionRequest opts = Some act \<longrightarrow>
        keepsRun (ro_parseItem opts) (ro_store opts) (ro_runId opts) (act rec s req)) \<and>
     (\<forall>f x. ro_onLeaseHeartbeat opts = Some f \<longrightarrow>
        keepsRun (ro_parseItem opts) (ro_store opts) (ro_runId opts) (f x))"

lemma passHost_of:
  fixes opts :: "(runFs \<times> 'h) runOnceOptions"
  assumes "ro_store opts = leftStore (createExecutionRunRecordStore parse le)" "hostKeepsRun opts"
  shows "passHost (leftStore (createExecutionRunRecordStore parse le)) opts"
proof (intro passHost.intro passStore.intro runStore.revisionStore_axioms passStore_axioms.intro passHost_axioms.intro)
qed (use assms in \<open>auto simp: hostKeepsRun_def Let_def\<close>)

lemma localRunner_keeps: "hostKeepsRun (localRunnerOptions parse le clock pI pJ ft i ow l)"
  by (auto simp: hostKeepsRun_def localRunnerOptions_def leftIo_def split: prod.splits)

lemma evolve_executionOk: "(evolve p)\<^sup>*\<^sup>* b b' \<Longrightarrow> executionOk b \<Longrightarrow> executionOk b'"
proof (induction rule: rtranclp_induct)
  case (step y z)
  then show ?case
    by (auto simp: evolve_def executionOk_def runningSteps_def dependenciesDone_def lease_step_steps
        dest: executionOk_move [unfolded executionOk_def runningSteps_def dependenciesDone_def])
qed simp

lemma storedAt:
  fixes opts :: "(runFs \<times> 'h) runOnceOptions"
  assumes S: "ro_store opts = leftStore (createExecutionRunRecordStore parse le)" and host: "hostKeepsRun opts"
    and r: "fst (st_readRecord (ro_store opts) (ro_runId opts) w) = Inr (Some r)" "storedRecordOk (ro_runId opts) r"
    and fresh: "truthyText (ro_existingLeaseId opts) = None \<Longrightarrow>
      passLeaseId opts \<notin> lease_id ` set (bdl_leases (rec_bundle r))"
  shows "\<exists>r'. fst (st_readRecord (ro_store opts) (ro_runId opts) (snd (executeStoredExecutionRunOnce opts w))) = Inr (Some r')
    \<and> laterRecord (ro_parseItem opts) (ro_runId opts) r r'
    \<and> (truthyText (ro_existingLeaseId opts) = None \<longrightarrow> quietObserver opts \<longrightarrow> notHeld (passLeaseId opts) r')"
proof -
  have p: "passHost (leftStore (createExecutionRunRecordStore parse le)) opts" by (rule passHost_of [OF S host])
  have "runStore.peek parse le w (ro_runId opts) = Inr (Some r)" using r(1) S by (simp add: runStore.peek_def)
  from passHost.pass_ok [OF p this r(2) fresh] show ?thesis
    by (simp add: passHost.passPost_def [OF p] runStore.peek_def S)
qed


definition fsWith :: "storedRecord \<Rightarrow> runFs" where
  "fsWith r = emptyFs\<lparr>rf_runsDir := True, rf_dirs := [rec_runId r],
     rf_record := (\<lambda>_. NoFile)(rec_runId r := File 0 (Json r))\<rparr>"

lemma fsWith_read: "readExecutionRunStoredRecord (fsWith r) i = Inr (if i = rec_runId r then Some r else None)"
  by (simp add: readExecutionRunStoredRecord_eq fsWith_def emptyFs_def)

definition freshRecord :: storedRecord where
  "freshRecord = \<lparr>rec_runId = ''r'', rec_revision = 1, rec_persistedAt = ''t0'', rec_bundle = demoFresh\<rparr>"

lemma freshRecord_ok: "storedRecordOk ''r'' freshRecord"
  by (simp add: storedRecordOk_def freshRecord_def demoFresh_def) (rule demoBundle_wf, simp_all add: demo_simps)

definition demoRunner :: "(runFs \<times> nat) runOnceOptions" where
  "demoRunner = localRunnerOptions dateParse (\<le>) (\<lambda>n. toISOString (1775649600000 + int n)) Some (\<lambda>_. None)
     (\<lambda>_. ''?'') ''r'' ''me'' None"

lemma demoRunner_simps [simp]:
  "ro_store demoRunner = leftStore (createExecutionRunRecordStore dateParse (\<le>))" "ro_runId demoRunner = ''r''"
  "ro_existingLeaseId demoRunner = None" "ro_parseItem demoRunner = Some" "ro_onLeaseHeartbeat demoRunner = None"
  "hostKeepsRun demoRunner"
  by (simp_all add: demoRunner_def localRunner_keeps) (simp_all add: localRunnerOptions_def)

lemma freshRecord_read:
  "fst (st_readRecord (leftStore (createExecutionRunRecordStore parse le)) ''r'' (fsWith freshRecord, n)) = Inr (Some freshRecord)"
  "rec_runId freshRecord = ''r''" "bdl_leases (rec_bundle freshRecord) = []"
  by (simp_all add: leftIo_fst createExecutionRunRecordStore_def fsWith_read freshRecord_def demoFresh_def)

lemma demo_read:
  "fst (st_readRecord (ro_store demoRunner) (ro_runId demoRunner) (fsWith freshRecord, 0)) = Inr (Some freshRecord)"
  "storedRecordOk (ro_runId demoRunner) freshRecord"
  by (simp_all only: demoRunner_simps freshRecord_read freshRecord_ok)


text \<open>C3. The lease goes back: a pass that acquires a new lease, under an identifier the run has not used,
  and whose heartbeat observer does not throw, leaves the run without that lease being active,
  whether it completes the step, fails it, pauses it or throws.\<close>

theorem pass_gives_lease_back:
  fixes opts :: "(runFs \<times> 'h) runOnceOptions"
  assumes "ro_store opts = leftStore (createExecutionRunRecordStore parse le)" "hostKeepsRun opts"
    and "fst (st_readRecord (ro_store opts) (ro_runId opts) w) = Inr (Some r)" "storedRecordOk (ro_runId opts) r"
    and "truthyText (ro_existingLeaseId opts) = None" "passLeaseId opts \<notin> lease_id ` set (bdl_leases (rec_bundle r))"
    and "quietObserver opts"
  shows "\<exists>r'. fst (st_readRecord (ro_store opts) (ro_runId opts) (snd (executeStoredExecutionRunOnce opts w))) = Inr (Some r')
    \<and> (\<forall>l. getActiveExecutionRunLease r' = Some l \<longrightarrow> lease_id l \<noteq> passLeaseId opts)"
  using storedAt [OF assms(1-4)] assms(5-7) by (auto simp: notHeld_def)

lemma pass_gives_lease_back_witness:
  "\<exists>r'. readExecutionRunStoredRecord (fst (snd (executeStoredExecutionRunOnce demoRunner (fsWith freshRecord, 0)))) ''r'' = Inr (Some r')
     \<and> (\<forall>l. getActiveExecutionRunLease r' = Some l \<longrightarrow> lease_id l \<noteq> ''r:lease:local-runner'')"
proof -
  have l: "truthyText (ro_existingLeaseId demoRunner) = None" "passLeaseId demoRunner = ''r:lease:local-runner''"
    "passLeaseId demoRunner \<notin> lease_id ` set (bdl_leases (rec_bundle freshRecord))" "quietObserver demoRunner"
    by (simp_all add: truthyText_def freshRecord_read quietObserver_def)
      (simp add: passLeaseId_def demoRunner_def localRunnerOptions_def)
  from pass_gives_lease_back [OF demoRunner_simps(1,6) demo_read l(1,3,4)] l(2) show ?thesis
    by (auto simp: leftIo_fst createExecutionRunRecordStore_def)
qed



end
