(* ===== verification/Execution_Results.thy ===== *)
theory Execution_Results
  imports Execution_Safety
begin

text \<open>
  What single passes do: provider usage is accounted exactly, an exhausted budget fails the step
  without touching the host, and a step held back by its dependencies is paused. Two results are
  about what a caller may not expect: usage bookkeeping counts as a structured output, and a pass
  that returns early returns the record from before the lease was given back.
\<close>

section \<open>Provider usage\<close>

definition isUsageKey :: "structuredOutput \<Rightarrow> bool" where
  "isUsageKey e = startsWith (so_key e) ''step.providerUsage.''"

definition usageTotal :: "structuredOutput list \<Rightarrow> int" where
  "usageTotal outs = sum_list (map usageOf (filter isUsageKey outs))"

lemma readStored_usageTotal: "readStoredProviderUsageTotalTokens b = usageTotal (ss_structuredOutputs (bdl_sharedState b))"
proof -
  have "foldl (\<lambda>sum e. sum + usageOf e) n xs = n + sum_list (map usageOf xs)" for n xs
    by (induction xs arbitrary: n) simp_all
  then show ?thesis by (simp add: readStoredProviderUsageTotalTokens_def usageTotal_def isUsageKey_def [abs_def])
qed

lemma usageTotal_append [simp]: "usageTotal (xs @ ys) = usageTotal xs + usageTotal ys" "usageTotal [] = 0"
  by (simp_all add: usageTotal_def)

lemma usageTotal_normalize [simp]:
  "usageTotal (normalizeRuntimeStructuredOutputs p (Some (structuredOutputsJson outs))) = usageTotal outs"
proof (induction outs)
  case Nil
  then show ?case by (simp add: normalizeRuntimeStructuredOutputs_def structuredOutputsJson_def map_filter_simps)
next
  case (Cons e outs)
  have resp: "\<not> isUsageKey x" if "so_key x = RESPONSE_OUTPUT_KEY" for x
    using that by (simp add: isUsageKey_def RESPONSE_OUTPUT_KEY_def)
  have "usageTotal (normalizeRuntimeStructuredOutputs p (Some (structuredOutputsJson [e]))) = usageTotal [e]"
  proof (cases "so_key e = RESPONSE_OUTPUT_KEY")
    case True
    then have "\<forall>x\<in>set (normalizeRuntimeStructuredOutputs p (Some (structuredOutputsJson [e]))). so_key x = RESPONSE_OUTPUT_KEY"
      by (auto simp: normalizeRuntimeStructuredOutputs_def structuredOutputsJson_def structuredOutputJson_def
          normalizeStructuredOutput_def Let_def map_filter_simps split: option.splits)
    with True resp show ?thesis by (auto simp: usageTotal_def filter_empty_conv)
  next
    case False
    then show ?thesis
      by (simp add: normalizeRuntimeStructuredOutputs_def structuredOutputsJson_def map_filter_simps
          normalizeStructuredOutput_typed)
  qed
  with Cons.IH normalizeRuntimeStructuredOutputs_append [of p "[e]" outs] show ?case
    by (simp add: usageTotal_def)
qed

definition patchUsage :: "sharedStatePatch option \<Rightarrow> int" where
  "patchUsage p = (case p of None \<Rightarrow> 0 | Some x \<Rightarrow> usageTotal (patch_structuredOutputs x))"

lemma patchUsage_merge [simp]: "patchUsage (mergeSharedStatePatch p l r) = patchUsage l + patchUsage r"
  by (cases l; cases r)
    (simp_all add: patchUsage_def mergeSharedStatePatch_def Let_def emptyPatch_def)

definition reportedTokens :: "providerUsage option \<Rightarrow> int" where
  "reportedTokens u = (case u of None \<Rightarrow> 0 | Some x \<Rightarrow> readNonNegativeRunnerInt (Some (JNum (us_totalTokens x))))"

lemma patchUsage_provider: "patchUsage (buildProviderUsageSharedStatePatch f i t0 u) = reportedTokens u"
  by (cases u) (simp_all add: patchUsage_def buildProviderUsageSharedStatePatch_def reportedTokens_def usageTotal_def
      isUsageKey_def providerUsageOutput_def usageOf_def optProp_def)

lemma patchUsage_consumed: "patchUsage (buildConsumedTaskTransfersSharedStatePatch s t0) = 0"
  by (simp add: buildConsumedTaskTransfersSharedStatePatch_def Let_def patchUsage_def usageTotal_def isUsageKey_def)

lemma completionPatch_usage:
  "usageTotal (patch_structuredOutputs (completionPatch p f i ctx t0 res resolved)) =
   patchUsage (sr_sharedState res) + reportedTokens (sr_usage res) + usageTotal (patch_structuredOutputs resolved)"
proof -
  have "mergeSharedStatePatch p l (Some resolved) = None \<Longrightarrow> False" for l
    by (simp add: mergeSharedStatePatch_def Let_def)
  then have "usageTotal (patch_structuredOutputs (orElse (mergeSharedStatePatch p l (Some resolved)) emptyPatch))
      = patchUsage (mergeSharedStatePatch p l (Some resolved))" for l
    by (cases "mergeSharedStatePatch p l (Some resolved)") (auto simp: patchUsage_def)
  then show ?thesis
    by (simp add: completionPatch_def patchUsage_provider patchUsage_consumed) (simp add: patchUsage_def)
qed

lemma succeed_outputs:
  "succeedExecutionRunStep p b i t0 cp = Inr b' \<Longrightarrow>
   ss_structuredOutputs (bdl_sharedState b') = ss_structuredOutputs (bdl_sharedState b)
     @ normalizeRuntimeStructuredOutputs p (Some (structuredOutputsJson (patch_structuredOutputs (orElse (cp_sharedState cp) emptyPatch))))"
  by (auto simp: succeedExecutionRunStep_def succeedProvisional_def applyBundleMutation_def appendNormalized_def Let_def
      split: sum.splits if_splits prod.splits)

text \<open>Token accounting is exact: when a step completes, the total the budget of later steps is compared
  with grows by what the executor reported for this step, by what its own patch and the patches of
  the host's actions book under usage keys, and by nothing else.\<close>

lemma provider_usage_accounted:
  assumes "succeedExecutionRunStep p b i t0 cp = Inr b'"
    and "cp_sharedState cp = Some (completionPatch p f i ctx t1 res resolved)"
  shows "readStoredProviderUsageTotalTokens b' = readStoredProviderUsageTotalTokens b
    + reportedTokens (sr_usage res) + patchUsage (sr_sharedState res) + usageTotal (patch_structuredOutputs resolved)"
  using succeed_outputs [OF assms(1)] assms(2) by (simp add: readStored_usageTotal completionPatch_usage)

definition runningBundle :: runBundle where
  "runningBundle = demoBundle [demoStep ''a'' 1 StepRunning []] []"

definition usageResult :: stepResult where
  "usageResult = \<lparr>sr_output = None, sr_usage = Some \<lparr>us_inputTokens = Fin 10, us_outputTokens = Fin 5,
     us_reasoningTokens = Fin 0, us_totalTokens = Fin 15\<rparr>, sr_sharedState = None\<rparr>"

definition usageCompletion :: completion where
  "usageCompletion = plainCompletion\<lparr>cp_sharedState :=
     Some (completionPatch Some (\<lambda>_. []) ''a'' (demoStep ''a'' 1 StepRunning []) ''t1'' usageResult emptyPatch)\<rparr>"

lemma running_succeeds: "\<exists>b'. succeedExecutionRunStep p runningBundle ''a'' ''t1'' cp = Inr b'"
  by (simp add: succeedExecutionRunStep_def succeedProvisional_def runningBundle_def requireStep_def demo_simps
      applyBundleMutation_def updateStep_def Let_def split: prod.split)

lemma provider_usage_accounted_example:
  "\<exists>b'. succeedExecutionRunStep Some runningBundle ''a'' ''t1'' usageCompletion = Inr b'
     \<and> readStoredProviderUsageTotalTokens b' = 15"
proof -
  obtain b' where b': "succeedExecutionRunStep Some runningBundle ''a'' ''t1'' usageCompletion = Inr b'"
    using running_succeeds by blast
  have "cp_sharedState usageCompletion
      = Some (completionPatch Some (\<lambda>_. []) ''a'' (demoStep ''a'' 1 StepRunning []) ''t1'' usageResult emptyPatch)"
    by (simp add: usageCompletion_def)
  from provider_usage_accounted [OF b' this] have "readStoredProviderUsageTotalTokens b' = 15"
    by (simp add: readStored_usageTotal runningBundle_def demoBundle_def usageTotal_def emptyPatch_def usageResult_def
        reportedTokens_def patchUsage_def readNonNegativeRunnerInt_def jsTrunc_def)
  with b' show ?thesis by blast
qed

text \<open>Bookkeeping passes for a result: a step that was required to deliver a structured report and
  produced nothing at all is reported as missing it, unless the provider reported token usage, whose
  bookkeeping entry satisfies the requirement.\<close>

lemma usage_entry_satisfies_required_report:
  "evaluateRequiredRequestedOutputsForStoredRuntime parseJson reportStep
     \<lparr>out_summary = None, out_artifacts = [], out_structuredData = [], out_notes = []\<rparr> []
     (patch_structuredOutputs (completionPatch p f i reportStep t0
       \<lparr>sr_output = None, sr_usage = usage, sr_sharedState = None\<rparr> emptyPatch))
   = (case usage of None \<Rightarrow> [''report''] | Some _ \<Rightarrow> [])"
proof -
  have ctx: "buildConsumedTaskTransfersSharedStatePatch reportStep t0 = None"
    by (simp add: buildConsumedTaskTransfersSharedStatePatch_def contextTransfers_def reportStep_def dataOf_def
        optProp_def map_filter_simps)
  have key: "normalizeRuntimeStructuredOutputs p (Some (structuredOutputsJson [providerUsageOutput i t0 u])) = [providerUsageOutput i t0 u]" for u
    by (simp add: normalizeRuntimeStructuredOutputs_def structuredOutputsJson_def map_filter_simps
        normalizeStructuredOutput_typed providerUsageOutput_def RESPONSE_OUTPUT_KEY_def)
  have nil: "normalizeRuntimeStructuredOutputs p (Some (structuredOutputsJson [])) = []"
    by (simp add: normalizeRuntimeStructuredOutputs_def structuredOutputsJson_def map_filter_simps)
  have "patch_structuredOutputs (completionPatch p f i reportStep t0
       \<lparr>sr_output = None, sr_usage = usage, sr_sharedState = None\<rparr> emptyPatch)
     = (case usage of None \<Rightarrow> [] | Some u \<Rightarrow> [providerUsageOutput i t0 u])"
    by (cases usage) (simp_all add: completionPatch_def mergeSharedStatePatch_def ctx buildProviderUsageSharedStatePatch_def
        Let_def emptyPatch_def key nil)
  then show ?thesis
    by (simp add: evaluateRequiredRequestedOutputsForStoredRuntime_def outputEvidenceOf_def reportStep_def dataOf_def
        isRequiredRequestedOutputMissing_def hasNonInternalStepStructuredData_def requestedOutputLabel_def Let_def
        isInternalStructuredOutputKey_def providerUsageOutput_def split: option.split)
qed

section \<open>Exhausted budgets\<close>

context passStore
begin

lemma write_ok:
  assumes "isAt r w" "run_id (bdl_run b) = ro_runId opts"
  obtains w' where "st_writeRecord S b (expecting (rec_revision r)) w
      = (Inr \<lparr>rec_runId = ro_runId opts, rec_revision = rec_revision r + 1, rec_persistedAt = run_updatedAt (bdl_run b),
          rec_bundle = b\<rparr>, w')"
    "isAt \<lparr>rec_runId = ro_runId opts, rec_revision = rec_revision r + 1, rec_persistedAt = run_updatedAt (bdl_run b),
          rec_bundle = b\<rparr> w'"
proof -
  have "fst (st_readRecord S (run_id (bdl_run b)) w) = Inr (Some r)" using assms by (simp add: peek_def)
  from write_result [OF this, of "expecting (rec_revision r)"] obtain w' where
    w': "st_writeRecord S b (expecting (rec_revision r)) w
      = (Inr \<lparr>rec_runId = ro_runId opts, rec_revision = rec_revision r + 1, rec_persistedAt = run_updatedAt (bdl_run b),
          rec_bundle = b\<rparr>, w')"
    using assms(2) by (auto simp: expecting_def revisionOf_def)
  from read_after_write [OF w'] assms(2) have "isAt \<lparr>rec_runId = ro_runId opts, rec_revision = rec_revision r + 1,
      rec_persistedAt = run_updatedAt (bdl_run b), rec_bundle = b\<rparr> w'" by (simp add: peek_def)
  with w' show thesis by (rule that)
qed

lemma clock_at:
  assumes "isAt r w"
  obtains t0 w' where "ro_now opts w = (t0, w')" "isAt r w'"
  using clock [of w] assms by (cases "ro_now opts w") (auto simp: peek_def)

lemma fail_next_step:
  assumes ok: "storedRecordOk (ro_runId opts) r" and here: "isAt r w"
    and s: "requireStep (rec_bundle r) i = Inr s" "step_status s \<in> {StepPlanned, StepRunnable}"
  obtains r' w' where "failAtLimit opts r i f w = (Inr (Some r'), w')" "isAt r' w'" "rec_revision r' = rec_revision r + 1"
    "bdl_leases (rec_bundle r') = bdl_leases (rec_bundle r)" "run_status (bdl_run (rec_bundle r')) = RunFailed"
    "\<exists>s'\<in>set (bdl_steps (rec_bundle r')). step_id s' = i \<and> step_status s' = StepFailed \<and> step_failure s' = Some f"
proof -
  from here obtain t0 w1 where t0: "ro_now opts w = (t0, w1)" "isAt r w1" by (rule clock_at)
  from s obtain b where b: "failExecutionRunStep (ro_parseItem opts) (rec_bundle r) i t0 plainCompletion (Some f) = Inr b"
    by (auto simp: failExecutionRunStep_def Let_def)
  from b obtain t es where shape: "requireStep (rec_bundle r) i = Inr t"
    "sameShape (rec_bundle r) (updateStep i (failedStep t0 plainCompletion (Some f))) es b" "run_status (bdl_run b) = RunFailed"
    by (rule fail_Inr) (auto simp: plainCompletion_def)
  from shape(2) ok have id: "run_id (bdl_run b) = ro_runId opts" by (simp add: sameShape_def storedRecordOk_def)
  from t0(2) id obtain w' where w': "st_writeRecord S b (expecting (rec_revision r)) w1
      = (Inr \<lparr>rec_runId = ro_runId opts, rec_revision = rec_revision r + 1, rec_persistedAt = run_updatedAt (bdl_run b),
          rec_bundle = b\<rparr>, w')"
    "isAt \<lparr>rec_runId = ro_runId opts, rec_revision = rec_revision r + 1, rec_persistedAt = run_updatedAt (bdl_run b),
          rec_bundle = b\<rparr> w'" by (rule write_ok)
  from requireStep_Inr [OF s(1)] have "updateStep i (failedStep t0 plainCompletion (Some f)) s \<in> set (bdl_steps b)"
    using shape(2) by (auto simp: sameShape_def)
  then have "\<exists>s'\<in>set (bdl_steps b). step_id s' = i \<and> step_status s' = StepFailed \<and> step_failure s' = Some f"
    by (rule bexI [rotated]) (use requireStep_Inr [OF s(1)] in \<open>simp add: updateStep_def failedStep_def\<close>)
  moreover have "failAtLimit opts r i f w = (Inr (Some \<lparr>rec_runId = ro_runId opts, rec_revision = rec_revision r + 1,
      rec_persistedAt = run_updatedAt (bdl_run b), rec_bundle = b\<rparr>), w')"
    using w'(1) t0(1) b by (simp add: failAtLimit_def nowIo_def io_defs uses_store)
  ultimately show thesis
    using that [OF _ w'(2)] shape by (simp add: sameShape_def)
qed

end

context revisionStore
begin

lemma pass_limited:
  assumes S: "ro_store opts = S" and here: "peek w (ro_runId opts) = Inr (Some r)"
    and nxt: "dp_nextRunnableStepId (createExecutionRunDispatchPlan (rec_bundle r)) = Some i" "i \<noteq> []"
    and s: "requireStep (rec_bundle r) i = Inr s"
    and hit: "tokenLimitFailure (rec_bundle r) s i = Some f \<or>
      tokenLimitFailure (rec_bundle r) s i = None \<and> requestLimitFailure s i = Some f"
    and run: "failAtLimit opts r i f w = (Inr (Some r'), w')"
  shows "executeStoredExecutionRunOnce opts w = (Inr r', w')"
proof -
  have "enforceStepLimits opts r s i = failAtLimit opts r i f"
    using hit by (auto simp: enforceStepLimits_def)
  with here nxt s run show ?thesis
    by (simp add: executeStoredExecutionRunOnce_def controlInspectRun_def io_defs S st_readRecord_eq truthyText_def)
qed

end

text \<open>C10. An exhausted budget costs nothing more: when the tokens booked so far exceed the budget of the next
  step, or its position exceeds the number of requests allowed, the pass fails that step with the
  reason, in one write at the next revision, without taking a lease and without consulting the
  executor, the host's actions or the observer.\<close>

theorem exhausted_budget_fails_step:
  fixes opts :: "(runFs \<times> 'h) runOnceOptions"
  assumes "ro_store opts = leftStore (createExecutionRunRecordStore parse le)" "hostKeepsRun opts"
    and "fst (st_readRecord (ro_store opts) (ro_runId opts) w) = Inr (Some r)" "storedRecordOk (ro_runId opts) r"
    and "dp_nextRunnableStepId (createExecutionRunDispatchPlan (rec_bundle r)) = Some i" "i \<noteq> []"
    and "requireStep (rec_bundle r) i = Inr s"
    and "tokenLimitFailure (rec_bundle r) s i = Some f \<or>
      tokenLimitFailure (rec_bundle r) s i = None \<and> requestLimitFailure s i = Some f"
  shows "\<exists>r' w'. (\<forall>e a h. executeStoredExecutionRunOnce (opts\<lparr>ro_executeStep := e, ro_executeLocalActionRequest := a,
        ro_onLeaseHeartbeat := h\<rparr>) w = (Inr r', w'))
    \<and> fst (st_readRecord (ro_store opts) (ro_runId opts) w') = Inr (Some r') \<and> rec_revision r' = rec_revision r + 1
    \<and> bdl_leases (rec_bundle r') = bdl_leases (rec_bundle r) \<and> run_status (bdl_run (rec_bundle r')) = RunFailed
    \<and> (\<exists>s'\<in>set (bdl_steps (rec_bundle r')). step_id s' = i \<and> step_status s' = StepFailed \<and> step_failure s' = Some f)"
proof -
  have p: "passHost (leftStore (createExecutionRunRecordStore parse le)) opts" by (rule passHost_of [OF assms(1,2)])
  have r: "runStore.peek parse le w (ro_runId opts) = Inr (Some r)" using assms(1,3) by (simp add: runStore.peek_def)
  have dist: "distinct (map step_id (bdl_steps (rec_bundle r)))"
    using assms(4) by (simp add: storedRecordOk_def wfBundle_def)
  have st: "step_status s \<in> {StepPlanned, StepRunnable}"
    using dispatch_next_ready [OF assms(5)] requireStep_unique [OF dist assms(7)] by blast
  from passStore.fail_next_step [OF passHost.axioms(1) [OF p] assms(4) r assms(7) st, of f] obtain r' w' where
    r': "failAtLimit opts r i f w = (Inr (Some r'), w')" "runStore.peek parse le w' (ro_runId opts) = Inr (Some r')"
    "rec_revision r' = rec_revision r + 1" "bdl_leases (rec_bundle r') = bdl_leases (rec_bundle r)"
    "run_status (bdl_run (rec_bundle r')) = RunFailed"
    "\<exists>s'\<in>set (bdl_steps (rec_bundle r')). step_id s' = i \<and> step_status s' = StepFailed \<and> step_failure s' = Some f"
    by blast
  have "executeStoredExecutionRunOnce (opts\<lparr>ro_executeStep := e, ro_executeLocalActionRequest := a,
      ro_onLeaseHeartbeat := h\<rparr>) w = (Inr r', w')" for e a h
    by (rule runStore.pass_limited [OF _ _ assms(5-8)]) (use r r' assms(1) in \<open>simp_all add: failAtLimit_def nowIo_def\<close>)
  with r' show ?thesis using assms(1) by (auto simp: runStore.peek_def)
qed

definition budgetStep :: executionRunStep where
  "budgetStep = (demoStep ''a'' 3 StepPlanned [])\<lparr>step_input := \<lparr>in_prompt = None, in_handoffIds = [], in_artifacts = [],
     in_structuredData = [(''constraints'', JObj [(''providerBudget'', JObj [(''maxRequests'', jsInt 2)])])],
     in_notes = []\<rparr>\<rparr>"

definition budgetRecord :: storedRecord where
  "budgetRecord = freshRecord\<lparr>rec_bundle := demoBundle [budgetStep] []\<rparr>"

lemma exhausted_budget_fails_step_witness:
  "\<exists>r' w'. executeStoredExecutionRunOnce demoRunner (fsWith budgetRecord, 0) = (Inr r', w')
     \<and> (\<exists>s'\<in>set (bdl_steps (rec_bundle r')). step_id s' = ''a'' \<and> step_status s' = StepFailed)"
proof -
  have r: "fst (st_readRecord (ro_store demoRunner) (ro_runId demoRunner) (fsWith budgetRecord, 0)) = Inr (Some budgetRecord)"
    "storedRecordOk (ro_runId demoRunner) budgetRecord"
    by (simp_all add: leftIo_fst createExecutionRunRecordStore_def fsWith_read budgetRecord_def freshRecord_def storedRecordOk_def)
      (rule demoBundle_wf, simp_all)
  have n: "dp_nextRunnableStepId (createExecutionRunDispatchPlan (rec_bundle budgetRecord)) = Some ''a''"
    by (simp add: plan_next plan_running eligibleSteps_def budgetRecord_def budgetStep_def demo_simps stepLe_def
      eligibleStep_def pendingStep_def hasTerminalFailure_def canDispatchStep_def isTerminalStep_def
      dependenciesSatisfied_def stepsByIdOf_def)
  have s: "requireStep (rec_bundle budgetRecord) ''a'' = Inr budgetStep"
    by (simp add: requireStep_def budgetRecord_def budgetStep_def demo_simps)
  have hit: "tokenLimitFailure (rec_bundle budgetRecord) budgetStep ''a'' = None"
    "\<exists>f. requestLimitFailure budgetStep ''a'' = Some f"
    by (simp_all add: tokenLimitFailure_def requestLimitFailure_def resolveStepProviderBudgetMaxTokens_def
        resolveStepProviderBudgetMaxRequests_def providerBudget_def positiveInteger_def dataOf_def optProp_def
        budgetStep_def jsInt_def isIntegral_def demoStep_def)
  then obtain f where f: "requestLimitFailure budgetStep ''a'' = Some f" by blast
  have same: "demoRunner\<lparr>ro_executeStep := None, ro_executeLocalActionRequest := None, ro_onLeaseHeartbeat := None\<rparr> = demoRunner"
    by (simp add: demoRunner_def localRunnerOptions_def)
  from exhausted_budget_fails_step [OF demoRunner_simps(1,6) r n _ s disjI2 [OF conjI [OF hit(1) f]]] obtain r' w' where
    r': "\<forall>e a h. executeStoredExecutionRunOnce (demoRunner\<lparr>ro_executeStep := e, ro_executeLocalActionRequest := a,
        ro_onLeaseHeartbeat := h\<rparr>) (fsWith budgetRecord, 0) = (Inr r', w')"
    "\<exists>s'\<in>set (bdl_steps (rec_bundle r')). step_id s' = ''a'' \<and> step_status s' = StepFailed" by blast
  from r'(1) [rule_format, of None None None] r'(2) show ?thesis unfolding same by blast
qed

section \<open>A pass that pauses\<close>

lemma start_keeps:
  "startExecutionRunStep b i t0 = Inr b' \<Longrightarrow>
   bdl_handoffs b' = bdl_handoffs b \<and> bdl_leases b' = bdl_leases b \<and> run_id (bdl_run b') = run_id (bdl_run b) \<and>
   ss_structuredOutputs (bdl_sharedState b') = ss_structuredOutputs (bdl_sharedState b)"
  by (auto simp: startExecutionRunStep_def applyBundleMutation_def Let_def split: sum.splits if_splits)

lemma lease_append_keeps [simp]:
  "bdl_steps (appendLeaseMutation b l e t0) = bdl_steps b"
  "bdl_leases (appendLeaseMutation b l e t0) = bdl_leases b @ [l]"
  "run_id (bdl_run (appendLeaseMutation b l e t0)) = run_id (bdl_run b)"
  "ss_structuredOutputs (bdl_sharedState (appendLeaseMutation b l e t0)) = ss_structuredOutputs (bdl_sharedState b)"
  by (simp_all add: appendLeaseMutation_def logEvents_def)

lemma unsettled_cong:
  "ss_structuredOutputs (bdl_sharedState b') = ss_structuredOutputs (bdl_sharedState b) \<Longrightarrow>
   unsettledOutcomes b' (startedStep t0 s) = unsettledOutcomes b s"
  by (simp add: unsettledOutcomes_def dependencyLocalActionOutcomes_def startedStep_def)

lemma started_policy [simp]:
  "resumedByHuman (startedStep t0 s) = resumedByHuman s" "interactionDefault (startedStep t0 s) = interactionDefault s"
  "humanAllowed (startedStep t0 s) = humanAllowed s"
  by (simp_all add: resumedByHuman_def interactionDefault_def humanAllowed_def dataOf_def startedStep_def)

definition heldBack :: "runBundle \<Rightarrow> executionRunStep \<Rightarrow> bool" where
  "heldBack b s = (unsettledOutcomes b s \<and> \<not> resumedByHuman s \<and> interactionDefault s = ''pause'' \<and> humanAllowed s)"

definition withinLimits :: "runBundle \<Rightarrow> executionRunStep \<Rightarrow> string \<Rightarrow> bool" where
  "withinLimits b s i = (tokenLimitFailure b s i = None \<and> requestLimitFailure s i = None \<and>
     resolveStepMaxRuntimeMinutes s = None \<and> turnLimitFailure s i = None)"

lemma active_append:
  "activeLeaseOf b = None \<Longrightarrow> lease_status l = LeaseActive \<Longrightarrow> bdl_leases b' = bdl_leases b @ [l] \<Longrightarrow>
   activeLeaseOf b' = Some l"
  by (simp add: activeLeaseOf_def find_append isActiveLease_def)

context passStore
begin

lemma storeCurrent_run:
  assumes "isAt (pl_current l) w" "run_id (bdl_run b) = ro_runId opts"
  obtains r' w' where "storeCurrent opts b (w, l) = (Inr r', (w', l\<lparr>pl_current := r'\<rparr>))" "isAt r' w'" "rec_bundle r' = b"
    "rec_revision r' = rec_revision (pl_current l) + 1" "rec_runId r' = ro_runId opts"
proof -
  from assms obtain w' where w': "st_writeRecord S b (expecting (rec_revision (pl_current l))) w
      = (Inr \<lparr>rec_runId = ro_runId opts, rec_revision = rec_revision (pl_current l) + 1,
          rec_persistedAt = run_updatedAt (bdl_run b), rec_bundle = b\<rparr>, w')"
    "isAt \<lparr>rec_runId = ro_runId opts, rec_revision = rec_revision (pl_current l) + 1,
          rec_persistedAt = run_updatedAt (bdl_run b), rec_bundle = b\<rparr> w'" by (rule write_ok)
  show thesis
    by (rule that [OF _ w'(2)]) (simp_all add: w'(1) storeCurrent_def locals_def assign_def io_defs uses_store)
qed

text \<open>The guarded part on a step that is held back: the step is started, cancelled and returned.\<close>

lemma try_pauses:
  assumes here: "isAt (pl_current l) w" and ok: "storedRecordOk (ro_runId opts) (pl_current l)"
    and s: "requireStep (rec_bundle (pl_current l)) i = Inr s" "step_status s \<in> {StepPlanned, StepRunnable}"
    and held: "heldBack (rec_bundle (pl_current l)) s"
  obtains r' w' where "tryPass opts req i (w, l)
      = (Inr (ReturnNow r'), (w', l\<lparr>pl_current := r', pl_releaseReason := Some ''cancelled'', pl_final := Some r'\<rparr>))"
    "isAt r' w'" "storedRecordOk (ro_runId opts) r'" "rec_revision r' = rec_revision (pl_current l) + 2"
    "bdl_leases (rec_bundle r') = bdl_leases (rec_bundle (pl_current l))"
    "run_status (bdl_run (rec_bundle r')) = RunCancelled"
    "\<exists>s'\<in>set (bdl_steps (rec_bundle r')). step_id s' = i \<and> isEscalatedStep s'"
proof -
  let ?b = "rec_bundle (pl_current l)"
  have wf: "wfBundle ?b" and id: "run_id (bdl_run ?b) = ro_runId opts" using ok by (simp_all add: storedRecordOk_def)
  from here obtain t1 w1 where t1: "ro_now opts w = (t1, w1)" "isAt (pl_current l) w1" by (rule clock_at)
  from s obtain b1 where b1: "startExecutionRunStep ?b i t1 = Inr b1"
    by (auto simp: startExecutionRunStep_def)
  from b1 obtain s0 e where shape1: "sameShape ?b (updateStep i (startedStep t1)) [e] b1" by (rule start_Inr)
  have wf1: "wfBundle b1" by (rule sameShape_wf [OF shape1 wf])
  from start_keeps [OF b1] id have id1: "run_id (bdl_run b1) = ro_runId opts" by simp
  from t1(2) id1 obtain r1 w2 where r1: "storeCurrent opts b1 (w1, l) = (Inr r1, (w2, l\<lparr>pl_current := r1\<rparr>))" "isAt r1 w2"
    "rec_bundle r1 = b1" "rec_revision r1 = rec_revision (pl_current l) + 1" "rec_runId r1 = ro_runId opts"
    by (rule storeCurrent_run)
  have mem: "startedStep t1 s \<in> set (bdl_steps b1)" and sid: "step_id (startedStep t1 s) = i"
    using requireStep_Inr [OF s(1)] shape1 by (auto simp: sameShape_def updateStep_def startedStep_def image_iff)
  then have s1: "requireStep b1 i = Inr (startedStep t1 s)"
    using requireStep_ok [of b1 "startedStep t1 s"] wf1 by (simp add: wfBundle_def)
  have "heldBack b1 (startedStep t1 s)"
    using held start_keeps [OF b1] by (simp add: heldBack_def unsettled_cong)
  then obtain eb where eb: "resolveEscalationControlBehavior
      (dataOf (buildExecutionContextStep (ro_fracText opts) b1 (startedStep t1 s))) = Some eb" "eb_action eb = PauseRun"
    unfolding heldBack_def by (elim conjE) (rule escalation_pauses)
  from r1(2) obtain t2 w3 where t2: "ro_now opts w2 = (t2, w3)" "isAt r1 w3" by (rule clock_at)
  have "step_status (startedStep t1 s) = StepRunning" by (simp add: startedStep_def)
  with s1 obtain b2 where b2: "cancelExecutionRunStepForHumanEscalation b1 i t2 (eb_guidance eb) = Inr b2"
    by (auto simp: cancelExecutionRunStepForHumanEscalation_def)
  then obtain s2 e2 where shape2: "sameShape b1 (updateStep i (escalatedStep t2 (eb_guidance eb))) [e2] b2"
    "run_status (bdl_run b2) = RunCancelled" by (rule escalate_Inr)
  have wf2: "wfBundle b2" by (rule sameShape_wf [OF shape2(1) wf1])
  have id2: "run_id (bdl_run b2) = ro_runId opts" using shape2(1) id1 by (simp add: sameShape_def)
  have "isAt (pl_current (l\<lparr>pl_current := r1\<rparr>)) w3" using t2(2) by simp
  from this id2 obtain r2 w4 where r2: "storeCurrent opts b2 (w3, l\<lparr>pl_current := r1\<rparr>) = (Inr r2, (w4, l\<lparr>pl_current := r2\<rparr>))"
    "isAt r2 w4" "rec_bundle r2 = b2" "rec_revision r2 = rec_revision r1 + 1" "rec_runId r2 = ro_runId opts"
    by (rule storeCurrent_run) simp
  have run: "tryPass opts req i (w, l)
      = (Inr (ReturnNow r2), (w4, l\<lparr>pl_current := r2, pl_releaseReason := Some ''cancelled'', pl_final := Some r2\<rparr>))"
    using t1(1) b1 r1(1,3) s1 eb t2(1) b2 r2(1)
    by (simp add: tryPass_def pausePass_def nowIo_def locals_def assign_def setReason_def returnCurrent_def io_defs Let_def)
  have "updateStep i (escalatedStep t2 (eb_guidance eb)) (startedStep t1 s) \<in> set (bdl_steps b2)"
    using mem shape2(1) by (simp add: sameShape_def)
  then have esc: "\<exists>s'\<in>set (bdl_steps b2). step_id s' = i \<and> isEscalatedStep s'"
    by (rule bexI [rotated]) (use sid in \<open>simp add: updateStep_def escalatedStep_def isEscalatedStep_def escalationOutput_def isRecord_def\<close>)
  show thesis
    by (rule that [OF run r2(2)])
      (use r1 r2 wf2 id2 esc shape2 start_keeps [OF b1] in \<open>simp_all add: storedRecordOk_def sameShape_def\<close>)
qed

lemma acquire_core:
  assumes here: "isAt r w" and ok: "storedRecordOk (ro_runId opts) r"
    and free: "getActiveExecutionRunLease r = None" and fresh: "passLeaseId opts \<notin> lease_id ` set (bdl_leases (rec_bundle r))"
  obtains r' w' l t0 where "acquireNewLease opts w = (case notifyHeartbeat opts t0 None w' of
      (Inl e, w2) \<Rightarrow> (Inl e, w2) | (Inr _, w2) \<Rightarrow> (Inr r', w2))" "isAt r' w'" "storedRecordOk (ro_runId opts) r'"
    "rec_revision r' = rec_revision r + 1" "lease_id l = passLeaseId opts" "lease_status l = LeaseActive"
    "bdl_leases (rec_bundle r') = bdl_leases (rec_bundle r) @ [l]" "bdl_steps (rec_bundle r') = bdl_steps (rec_bundle r)"
    "ss_structuredOutputs (bdl_sharedState (rec_bundle r')) = ss_structuredOutputs (bdl_sharedState (rec_bundle r))"
proof -
  from here obtain t0 w1 where t0: "ro_now opts w = (t0, w1)" "isAt r w1" by (rule clock_at)
  let ?acq = "acquireExecutionRunLease (rec_bundle r) (passLeaseId opts) (ro_ownerId opts) t0 (Some t0)
      (addMillisecondsToIsoTimestamp t0 (leaseTtl opts))"
  from free obtain m where m: "?acq = Inr m"
    by (auto simp: acquireExecutionRunLease_def getActiveExecutionRunLease_def Let_def)
  have step: "lease_step (rec_bundle r) (lm_bundle m)" by (rule lease_step.acquire [OF m fresh])
  from acquire_Inr [OF m] have b: "lm_bundle m = appendLeaseMutation (rec_bundle r) (lm_lease m) (lm_event m) t0"
    "lease_id (lm_lease m) = passLeaseId opts" "lease_status (lm_lease m) = LeaseActive" by blast+
  from ok b(1) have id: "run_id (bdl_run (lm_bundle m)) = ro_runId opts" by (simp add: storedRecordOk_def)
  from ok lease_step_wf [OF step] have wf: "wfBundle (lm_bundle m)" by (simp add: storedRecordOk_def)
  from t0(2) id obtain w' where w': "st_writeRecord S (lm_bundle m) (expecting (rec_revision r)) w1
      = (Inr \<lparr>rec_runId = ro_runId opts, rec_revision = rec_revision r + 1,
          rec_persistedAt = run_updatedAt (bdl_run (lm_bundle m)), rec_bundle = lm_bundle m\<rparr>, w')"
    "isAt \<lparr>rec_runId = ro_runId opts, rec_revision = rec_revision r + 1,
          rec_persistedAt = run_updatedAt (bdl_run (lm_bundle m)), rec_bundle = lm_bundle m\<rparr> w'" by (rule write_ok)
  have run: "acquireNewLease opts w = (case notifyHeartbeat opts t0 None w' of
      (Inl e, w2) \<Rightarrow> (Inl e, w2) | (Inr _, w2) \<Rightarrow> (Inr \<lparr>rec_runId = ro_runId opts, rec_revision = rec_revision r + 1,
          rec_persistedAt = run_updatedAt (bdl_run (lm_bundle m)), rec_bundle = lm_bundle m\<rparr>, w2))"
    using t0 m w'(1)
    by (simp add: acquireNewLease_def controlAcquireLease_def requireStoredRecord_def nowIo_def
        io_defs uses_store st_readRecord_eq split: prod.split sum.split)
  show thesis
    by (rule that [OF run w'(2), of "lm_lease m"]) (use b id wf in \<open>simp_all add: storedRecordOk_def\<close>)
qed

lemma acquire_run:
  assumes "isAt r w" "storedRecordOk (ro_runId opts) r" "getActiveExecutionRunLease r = None"
    "passLeaseId opts \<notin> lease_id ` set (bdl_leases (rec_bundle r))"
    and quiet: "ro_onLeaseHeartbeat opts = None"
  obtains r' w' l where "acquireNewLease opts w = (Inr r', w')" "isAt r' w'" "storedRecordOk (ro_runId opts) r'"
    "rec_revision r' = rec_revision r + 1" "lease_id l = passLeaseId opts" "lease_status l = LeaseActive"
    "bdl_leases (rec_bundle r') = bdl_leases (rec_bundle r) @ [l]" "bdl_steps (rec_bundle r') = bdl_steps (rec_bundle r)"
    "ss_structuredOutputs (bdl_sharedState (rec_bundle r')) = ss_structuredOutputs (bdl_sharedState (rec_bundle r))"
  using assms(1-4)
proof (rule acquire_core)
  fix r' w' l t0
  assume run: "acquireNewLease opts w = (case notifyHeartbeat opts t0 None w' of
      (Inl e, w2) \<Rightarrow> (Inl e, w2) | (Inr _, w2) \<Rightarrow> (Inr r', w2))"
    and rest: "isAt r' w'" "storedRecordOk (ro_runId opts) r'"
    "rec_revision r' = rec_revision r + 1" "lease_id l = passLeaseId opts" "lease_status l = LeaseActive"
    "bdl_leases (rec_bundle r') = bdl_leases (rec_bundle r) @ [l]" "bdl_steps (rec_bundle r') = bdl_steps (rec_bundle r)"
    "ss_structuredOutputs (bdl_sharedState (rec_bundle r')) = ss_structuredOutputs (bdl_sharedState (rec_bundle r))"
  have "acquireNewLease opts w = (Inr r', w')" using run quiet by (simp add: notifyHeartbeat_def ioReturn_def)
  from this rest show thesis by (rule that)
qed

lemma pass_begins:
  assumes here: "isAt r w"
    and nxt: "dp_nextRunnableStepId (createExecutionRunDispatchPlan (rec_bundle r)) = Some i" "i \<noteq> []"
    and s: "requireStep (rec_bundle r) i = Inr s" "withinLimits (rec_bundle r) s i"
    and lease: "truthyText (ro_existingLeaseId opts) = None"
  shows "executeStoredExecutionRunOnce opts w = (case acquireNewLease opts w of
      (Inl e, w') \<Rightarrow> (Inl e, w')
    | (Inr r1, w') \<Rightarrow> runGuarded opts (requiresConfiguredStoredStepExecutor (rec_bundle r)) i r1 w')"
proof -
  have "enforceStepLimits opts r s i = ioReturn None"
    using s(2) by (simp add: withinLimits_def enforceStepLimits_def enforceTurnLimit_def)
  with here nxt s(1) lease show ?thesis
    by (simp add: executeStoredExecutionRunOnce_def controlInspectRun_def takeLease_def io_defs uses_store
        st_readRecord_eq truthyText_def)
qed

text \<open>What follows a guarded part that ends with a current record: the release, and the record the caller gets.\<close>

lemma guarded_ends:
  assumes body: "tryPass opts req i (w, \<lparr>pl_current = r1, pl_releaseReason = Some ''completed'', pl_final = None\<rparr>)
      = (Inr fl, (w2, \<lparr>pl_current = r2, pl_releaseReason = reason, pl_final = Some r2\<rparr>))"
    and at: "isAt r2 w2" "storedRecordOk (ro_runId opts) r2"
    and act: "getActiveExecutionRunLease r2 = Some l" "lease_id l = passLeaseId opts"
  obtains r3 w4 where "runGuarded opts req i r1 w = (Inr (case fl of ReturnNow r \<Rightarrow> r | FallThrough \<Rightarrow> r3), w4)"
    "isAt r3 w4" "getActiveExecutionRunLease r3 = None" "rec_revision r3 = rec_revision r2 + 1"
    "bdl_steps (rec_bundle r3) = bdl_steps (rec_bundle r2)"
    "run_status (bdl_run (rec_bundle r3)) = run_status (bdl_run (rec_bundle r2))"
proof -
  from at(1) obtain t3 w3 where t3: "ro_now opts w2 = (t3, w3)" "isAt r2 w3" by (rule clock_at)
  from t3(2) at(2) act obtain r3 w4 where r3: "releaseExecutionRunLeaseIfStillActive S r2 (ro_runId opts)
      (passLeaseId opts) t3 reason w3 = (Inr r3, w4)"
    "isAt r3 w4" "getActiveExecutionRunLease r3 = None" "rec_revision r3 = rec_revision r2 + 1"
    "bdl_steps (rec_bundle r3) = bdl_steps (rec_bundle r2)"
    "run_status (bdl_run (rec_bundle r3)) = run_status (bdl_run (rec_bundle r2))"
    by (rule release_run)
  have "runGuarded opts req i r1 w = (Inr (case fl of ReturnNow r \<Rightarrow> r | FallThrough \<Rightarrow> r3), w4)"
    using body t3(1) r3(1)
    by (simp add: runGuarded_def guardedPass_def ioFinally_def finallyPass_def nowIo_def locals_def assign_def io_defs
        uses_store split: flow.split)
  from this r3(2-6) show thesis by (rule that)
qed

lemma pass_pauses:
  assumes here: "isAt r w" and ok: "storedRecordOk (ro_runId opts) r"
    and nxt: "dp_nextRunnableStepId (createExecutionRunDispatchPlan (rec_bundle r)) = Some i" "i \<noteq> []"
    and s: "requireStep (rec_bundle r) i = Inr s" "withinLimits (rec_bundle r) s i" "heldBack (rec_bundle r) s"
    and lease: "truthyText (ro_existingLeaseId opts) = None" "getActiveExecutionRunLease r = None"
      "passLeaseId opts \<notin> lease_id ` set (bdl_leases (rec_bundle r))" "ro_onLeaseHeartbeat opts = None"
  obtains ret r' w' l where "executeStoredExecutionRunOnce opts w = (Inr ret, w')" "isAt r' w'"
    "getActiveExecutionRunLease ret = Some l" "lease_id l = passLeaseId opts" "getActiveExecutionRunLease r' = None"
    "rec_revision r' = rec_revision ret + 1" "run_status (bdl_run (rec_bundle r')) = RunCancelled"
    "\<exists>s'\<in>set (bdl_steps (rec_bundle r')). step_id s' = i \<and> isEscalatedStep s'"
proof -
  have st: "step_status s \<in> {StepPlanned, StepRunnable}"
    using dispatch_next_ready [OF nxt(1)] requireStep_unique [OF _ s(1)] ok
    by (auto simp: storedRecordOk_def wfBundle_def)
  from here ok lease(2-4) obtain r1 w1 l where r1: "acquireNewLease opts w = (Inr r1, w1)" "isAt r1 w1"
    "storedRecordOk (ro_runId opts) r1" "lease_id l = passLeaseId opts" "lease_status l = LeaseActive"
    "bdl_leases (rec_bundle r1) = bdl_leases (rec_bundle r) @ [l]" "bdl_steps (rec_bundle r1) = bdl_steps (rec_bundle r)"
    "ss_structuredOutputs (bdl_sharedState (rec_bundle r1)) = ss_structuredOutputs (bdl_sharedState (rec_bundle r))"
    by (rule acquire_run)
  let ?l = "\<lparr>pl_current = r1, pl_releaseReason = Some ''completed'', pl_final = None\<rparr>"
  have cur: "isAt (pl_current ?l) w1" "storedRecordOk (ro_runId opts) (pl_current ?l)" using r1 by simp_all
  have s1: "requireStep (rec_bundle (pl_current ?l)) i = Inr s"
    using s(1) r1(7) by (simp add: requireStep_def split: option.splits)
  have held: "heldBack (rec_bundle (pl_current ?l)) s"
    using s(3) r1(8) by (simp add: heldBack_def unsettledOutcomes_def dependencyLocalActionOutcomes_def)
  let ?req = "requiresConfiguredStoredStepExecutor (rec_bundle r)"
  from cur s1 st held obtain r2 w2 where r2: "tryPass opts ?req i (w1, ?l)
      = (Inr (ReturnNow r2), (w2, ?l\<lparr>pl_current := r2, pl_releaseReason := Some ''cancelled'', pl_final := Some r2\<rparr>))"
    "isAt r2 w2" "storedRecordOk (ro_runId opts) r2" "bdl_leases (rec_bundle r2) = bdl_leases (rec_bundle r1)"
    "run_status (bdl_run (rec_bundle r2)) = RunCancelled"
    "\<exists>s'\<in>set (bdl_steps (rec_bundle r2)). step_id s' = i \<and> isEscalatedStep s'"
    by (rule try_pauses [where req = ?req]) simp
  have act: "getActiveExecutionRunLease r2 = Some l"
    using lease(2) r1(5,6) r2(4) unfolding getActiveExecutionRunLease_def by (intro active_append) simp_all
  from r2(1) have body: "tryPass opts ?req i (w1, ?l)
      = (Inr (ReturnNow r2), (w2, \<lparr>pl_current = r2, pl_releaseReason = Some ''cancelled'', pl_final = Some r2\<rparr>))" by simp
  from guarded_ends [OF body r2(2,3) act r1(4)] obtain r3 w4 where g: "runGuarded opts ?req i r1 w1 = (Inr r2, w4)"
    and r3: "isAt r3 w4" "getActiveExecutionRunLease r3 = None" "rec_revision r3 = rec_revision r2 + 1"
    "bdl_steps (rec_bundle r3) = bdl_steps (rec_bundle r2)"
    "run_status (bdl_run (rec_bundle r3)) = run_status (bdl_run (rec_bundle r2))"
    unfolding flow.case by blast
  have run: "executeStoredExecutionRunOnce opts w = (Inr r2, w4)"
    using pass_begins [OF here nxt s(1,2) lease(1)] r1(1) g by simp
  show thesis
    by (rule that [OF run r3(1) act r1(4) r3(2,3)]) (use r2 r3 in simp_all)
qed

end

text \<open>A held-back step is paused before anything of it runs: when the local actions of its dependencies
  are unsettled and its policy is to wait for a human, the pass cancels step and run and gives the
  lease back, for every executor and every host action. The caller, though, receives the record as
  it was before the release: the lease of the finished pass is still active in it, one revision
  behind the store.\<close>

lemma paused_pass_returns_record_before_release:
  fixes opts :: "(runFs \<times> 'h) runOnceOptions"
  assumes "ro_store opts = leftStore (createExecutionRunRecordStore parse le)" "hostKeepsRun opts"
    and "fst (st_readRecord (ro_store opts) (ro_runId opts) w) = Inr (Some r)" "storedRecordOk (ro_runId opts) r"
    and "dp_nextRunnableStepId (createExecutionRunDispatchPlan (rec_bundle r)) = Some i" "i \<noteq> []"
    and "requireStep (rec_bundle r) i = Inr s" "withinLimits (rec_bundle r) s i" "heldBack (rec_bundle r) s"
    and "truthyText (ro_existingLeaseId opts) = None" "getActiveExecutionRunLease r = None"
    and "passLeaseId opts \<notin> lease_id ` set (bdl_leases (rec_bundle r))" "ro_onLeaseHeartbeat opts = None"
  shows "\<exists>ret r' w' l. executeStoredExecutionRunOnce (opts\<lparr>ro_executeStep := e, ro_executeLocalActionRequest := a\<rparr>) w = (Inr ret, w')
    \<and> fst (st_readRecord (ro_store opts) (ro_runId opts) w') = Inr (Some r')
    \<and> run_status (bdl_run (rec_bundle r')) = RunCancelled
    \<and> (\<exists>s'\<in>set (bdl_steps (rec_bundle r')). step_id s' = i \<and> isEscalatedStep s')
    \<and> getActiveExecutionRunLease r' = None
    \<and> getActiveExecutionRunLease ret = Some l \<and> lease_id l = passLeaseId opts
    \<and> rec_revision r' = rec_revision ret + 1"
proof -
  let ?o = "opts\<lparr>ro_executeStep := e, ro_executeLocalActionRequest := a\<rparr>"
  have "passHost (leftStore (createExecutionRunRecordStore parse le)) opts" by (rule passHost_of [OF assms(1,2)])
  then have p: "passStore (leftStore (createExecutionRunRecordStore parse le)) ?o"
    by (auto simp: passHost_def passStore_def passStore_axioms_def)
  have id: "passLeaseId ?o = passLeaseId opts" by (simp add: passLeaseId_def)
  have here: "runStore.peek parse le w (ro_runId ?o) = Inr (Some r)" using assms(1,3) by (simp add: runStore.peek_def)
  show ?thesis
    by (rule passStore.pass_pauses [OF p here _ assms(5-9)])
      (use assms id in \<open>auto simp: runStore.peek_def intro!: exI\<close>)
qed

definition heldStep :: executionRunStep where
  "heldStep = demoStep ''b'' 2 StepPlanned [''a'']"

definition heldRecord :: storedRecord where
  "heldRecord = freshRecord\<lparr>rec_bundle := (demoBundle [demoStep ''a'' 1 StepSucceeded [], heldStep] [])
     \<lparr>bdl_sharedState := (bdl_sharedState (demoBundle [] []))\<lparr>ss_structuredOutputs :=
        [\<lparr>so_key = ''step.localActionOutcomes.a'', so_value = JObj [(''counts'', JObj [(''failed'', jsInt 1)])]\<rparr>]\<rparr>\<rparr>\<rparr>"

lemma heldRecord_facts:
  "storedRecordOk ''r'' heldRecord" "rec_runId heldRecord = ''r''" "bdl_leases (rec_bundle heldRecord) = []"
  "dp_nextRunnableStepId (createExecutionRunDispatchPlan (rec_bundle heldRecord)) = Some ''b''"
  "requireStep (rec_bundle heldRecord) ''b'' = Inr heldStep"
  by (simp_all add: heldRecord_def heldStep_def freshRecord_def storedRecordOk_def wfBundle_def activeLeases_def
      plan_next plan_running eligibleSteps_def demo_simps stepLe_def eligibleStep_def pendingStep_def hasTerminalFailure_def
      canDispatchStep_def isTerminalStep_def dependenciesSatisfied_def stepsByIdOf_def requireStep_def)

lemma heldRecord_held: "withinLimits (rec_bundle heldRecord) heldStep ''b''" "heldBack (rec_bundle heldRecord) heldStep"
proof -
  have d: "dataOf heldStep = []" by (simp add: dataOf_def heldStep_def demoStep_def)
  show "withinLimits (rec_bundle heldRecord) heldStep ''b''"
    by (simp add: withinLimits_def tokenLimitFailure_def requestLimitFailure_def turnLimitFailure_def
        resolveStepProviderBudgetMaxTokens_def resolveStepProviderBudgetMaxRequests_def resolveStepTurnPolicyMaxTurns_def
        resolveStepMaxRuntimeMinutes_def providerBudget_def positiveInteger_def optProp_def d)
  have "dependencyLocalActionOutcomes (rec_bundle heldRecord) heldStep
      = [(''step.localActionOutcomes.a'', JObj [(''counts'', JObj [(''failed'', jsInt 1)])])]"
    by (simp add: dependencyLocalActionOutcomes_def heldRecord_def heldStep_def demo_simps outcomeEntryOf_def
        normalizeStepIdFromLocalActionOutcomeKey_def localActionOutcomePrefix_def)
  then show "heldBack (rec_bundle heldRecord) heldStep"
    by (simp add: heldBack_def unsettledOutcomes_def entryCount_def optProp_def jsInt_def resumedByHuman_def
        interactionDefault_def humanAllowed_def d)
qed

lemma paused_pass_returns_record_before_release_example:
  "\<exists>ret w' l. executeStoredExecutionRunOnce demoRunner (fsWith heldRecord, 0) = (Inr ret, w')
     \<and> getActiveExecutionRunLease ret = Some l \<and> lease_id l = ''r:lease:local-runner''
     \<and> (\<exists>r'. readExecutionRunStoredRecord (fst w') ''r'' = Inr (Some r') \<and> getActiveExecutionRunLease r' = None)"
proof -
  have r: "fst (st_readRecord (ro_store demoRunner) (ro_runId demoRunner) (fsWith heldRecord, 0)) = Inr (Some heldRecord)"
    "storedRecordOk (ro_runId demoRunner) heldRecord"
    by (simp_all add: leftIo_fst createExecutionRunRecordStore_def fsWith_read heldRecord_facts)
  have l: "truthyText (ro_existingLeaseId demoRunner) = None" "getActiveExecutionRunLease heldRecord = None"
    "passLeaseId demoRunner \<notin> lease_id ` set (bdl_leases (rec_bundle heldRecord))"
    by (simp_all add: truthyText_def getActiveExecutionRunLease_def activeLeaseOf_def heldRecord_facts)
  have same: "demoRunner\<lparr>ro_executeStep := None, ro_executeLocalActionRequest := None\<rparr> = demoRunner"
    and id: "passLeaseId demoRunner = ''r:lease:local-runner''"
    by (simp_all add: demoRunner_def localRunnerOptions_def passLeaseId_def)
  from paused_pass_returns_record_before_release [OF demoRunner_simps(1,6) r heldRecord_facts(4) _ heldRecord_facts(5)
      heldRecord_held l demoRunner_simps(5), of None None] obtain ret r' w' l where
    "executeStoredExecutionRunOnce demoRunner (fsWith heldRecord, 0) = (Inr ret, w')"
    "fst (st_readRecord (ro_store demoRunner) (ro_runId demoRunner) w') = Inr (Some r')"
    "getActiveExecutionRunLease r' = None" "getActiveExecutionRunLease ret = Some l" "lease_id l = passLeaseId demoRunner"
    unfolding same by auto
  then show ?thesis by (auto simp: leftIo_fst createExecutionRunRecordStore_def id)
qed

section \<open>An observer that throws\<close>

text \<open>The first heartbeat is outside the guarded part: when the observer throws on it, the pass rejects
  with its exception, and the lease it has just acquired stays active in the store; the run is
  blocked until that lease expires.\<close>

lemma throwing_observer_leaks_lease:
  fixes opts :: "(runFs \<times> 'h) runOnceOptions"
  assumes "ro_store opts = leftStore (createExecutionRunRecordStore parse le)" "hostKeepsRun opts"
    and "fst (st_readRecord (ro_store opts) (ro_runId opts) w) = Inr (Some r)" "storedRecordOk (ro_runId opts) r"
    and "dp_nextRunnableStepId (createExecutionRunDispatchPlan (rec_bundle r)) = Some i" "i \<noteq> []"
    and "requireStep (rec_bundle r) i = Inr s" "withinLimits (rec_bundle r) s i"
    and "truthyText (ro_existingLeaseId opts) = None" "getActiveExecutionRunLease r = None"
    and "passLeaseId opts \<notin> lease_id ` set (bdl_leases (rec_bundle r))"
    and "ro_onLeaseHeartbeat opts = Some (\<lambda>_. ioThrow err)"
  shows "\<exists>r' w' l. executeStoredExecutionRunOnce opts w = (Inl err, w')
    \<and> fst (st_readRecord (ro_store opts) (ro_runId opts) w') = Inr (Some r')
    \<and> getActiveExecutionRunLease r' = Some l \<and> lease_id l = passLeaseId opts"
proof -
  have p: "passStore (leftStore (createExecutionRunRecordStore parse le)) opts"
    by (rule passHost.axioms(1) [OF passHost_of [OF assms(1,2)]])
  have here: "runStore.peek parse le w (ro_runId opts) = Inr (Some r)" using assms(1,3) by (simp add: runStore.peek_def)
  from p here assms(4,10,11) obtain r' w' l t0 where
    run: "acquireNewLease opts w = (case notifyHeartbeat opts t0 None w' of
      (Inl e, w2) \<Rightarrow> (Inl e, w2) | (Inr _, w2) \<Rightarrow> (Inr r', w2))"
    and r': "runStore.peek parse le w' (ro_runId opts) = Inr (Some r')" "lease_id l = passLeaseId opts" "lease_status l = LeaseActive"
      "bdl_leases (rec_bundle r') = bdl_leases (rec_bundle r) @ [l]" by (rule passStore.acquire_core)
  have "acquireNewLease opts w = (Inl err, w')" using run assms(12) by (simp add: notifyHeartbeat_def ioThrow_def)
  with passStore.pass_begins [OF p here assms(5-9)]
  have "executeStoredExecutionRunOnce opts w = (Inl err, w')" by simp
  moreover have "getActiveExecutionRunLease r' = Some l"
    using assms(10) r'(3,4) unfolding getActiveExecutionRunLease_def by (intro active_append) simp_all
  ultimately show ?thesis using r' assms(1) by (auto simp: runStore.peek_def)
qed

lemma throwing_observer_leaks_lease_example:
  "\<exists>w' l r'. executeStoredExecutionRunOnce (demoRunner\<lparr>ro_onLeaseHeartbeat := Some (\<lambda>_. ioThrow (PlainError ''gone''))\<rparr>)
       (fsWith heldRecord, 0) = (Inl (PlainError ''gone''), w')
     \<and> readExecutionRunStoredRecord (fst w') ''r'' = Inr (Some r') \<and> getActiveExecutionRunLease r' = Some l"
proof -
  let ?o = "demoRunner\<lparr>ro_onLeaseHeartbeat := Some (\<lambda>_. ioThrow (PlainError ''gone''))\<rparr>"
  have o1: "ro_store ?o = leftStore (createExecutionRunRecordStore dateParse (\<le>))" "ro_runId ?o = ''r''" by simp_all
  have keeps: "keepsRun Some (leftStore (createExecutionRunRecordStore dateParse (\<le>))) ''r''
      (ioThrow e :: (runFs \<times> nat, unit) io)" for e
    by (auto simp: keepsRun_def ioThrow_def laterRecord_refl)
  have o2: "hostKeepsRun ?o"
    using demoRunner_simps(6) keeps by (simp add: hostKeepsRun_def)
  have r: "fst (st_readRecord (ro_store ?o) (ro_runId ?o) (fsWith heldRecord, 0)) = Inr (Some heldRecord)"
    "storedRecordOk (ro_runId ?o) heldRecord"
    by (simp_all add: leftIo_fst createExecutionRunRecordStore_def fsWith_read heldRecord_facts)
  have l: "truthyText (ro_existingLeaseId ?o) = None" "getActiveExecutionRunLease heldRecord = None"
    "passLeaseId ?o \<notin> lease_id ` set (bdl_leases (rec_bundle heldRecord))"
    by (simp_all add: truthyText_def getActiveExecutionRunLease_def activeLeaseOf_def heldRecord_facts)
  have obs: "ro_onLeaseHeartbeat ?o = Some (\<lambda>_. ioThrow (PlainError ''gone''))" by simp
  from throwing_observer_leaks_lease [OF o1(1) o2 r heldRecord_facts(4) _ heldRecord_facts(5) heldRecord_held(1) l obs]
  show ?thesis by (auto simp: leftIo_fst createExecutionRunRecordStore_def)
qed

section \<open>A pass that completes its step\<close>

text \<open>An executor that answers, and leaves the run's record alone.\<close>

definition answers :: "'w runOnceOptions \<Rightarrow> 'w stepExecutor \<Rightarrow> (executionRunStep \<Rightarrow> stepResult) \<Rightarrow> bool" where
  "answers opts call res \<longleftrightarrow> (\<forall>rec s hb w. fst (call rec s hb w) = Inr (Some (res s)) \<and>
     fst (st_readRecord (ro_store opts) (ro_runId opts) (snd (call rec s hb w))) = fst (st_readRecord (ro_store opts) (ro_runId opts) w))"

definition noRequestedOutputs :: "executionRunStep \<Rightarrow> bool" where
  "noRequestedOutputs s = (asArray (jprop (dataOf s) ''requestedOutputs'') = None)"

lemma no_missing: "noRequestedOutputs s \<Longrightarrow> evaluateRequiredRequestedOutputsForStoredRuntime p s out arts outs = []"
  by (simp add: noRequestedOutputs_def evaluateRequiredRequestedOutputsForStoredRuntime_def Let_def)

lemma resolve_no_callback: "\<exists>outcome. resolveLocalActionRequests p rec s t0 out None w = (Inr outcome, w)"
  by (simp add: resolveLocalActionRequests_def io_defs loop_no_callback Let_def)

context passStore
begin

lemma try_completes:
  assumes here: "isAt (pl_current l) w" and ok: "storedRecordOk (ro_runId opts) (pl_current l)"
    and s: "requireStep (rec_bundle (pl_current l)) i = Inr s" "step_status s \<in> {StepPlanned, StepRunnable}"
    and free: "\<not> unsettledOutcomes (rec_bundle (pl_current l)) s" "noRequestedOutputs s"
    and host: "ro_executeStep opts = Some call" "answers opts call res" "ro_executeLocalActionRequest opts = None"
  obtains r' w' out where "tryPass opts req i (w, l)
      = (Inr FallThrough, (w', l\<lparr>pl_current := r', pl_final := Some r'\<rparr>))"
    "isAt r' w'" "storedRecordOk (ro_runId opts) r'" "bdl_leases (rec_bundle r') = bdl_leases (rec_bundle (pl_current l))"
    "\<exists>s'\<in>set (bdl_steps (rec_bundle r')). step_id s' = i \<and> step_status s' = StepSucceeded \<and> step_output s' = Some out"
proof -
  let ?b = "rec_bundle (pl_current l)"
  have wf: "wfBundle ?b" and id: "run_id (bdl_run ?b) = ro_runId opts" using ok by (simp_all add: storedRecordOk_def)
  from here obtain t1 w1 where t1: "ro_now opts w = (t1, w1)" "isAt (pl_current l) w1" by (rule clock_at)
  from s obtain b1 where b1: "startExecutionRunStep ?b i t1 = Inr b1"
    by (auto simp: startExecutionRunStep_def)
  from b1 obtain s0 e where shape1: "sameShape ?b (updateStep i (startedStep t1)) [e] b1" "run_status (bdl_run b1) = RunRunning"
    by (rule start_Inr)
  have wf1: "wfBundle b1" by (rule sameShape_wf [OF shape1(1) wf])
  from start_keeps [OF b1] id have id1: "run_id (bdl_run b1) = ro_runId opts" by simp
  from t1(2) id1 obtain r1 w2 where r1: "storeCurrent opts b1 (w1, l) = (Inr r1, (w2, l\<lparr>pl_current := r1\<rparr>))" "isAt r1 w2"
    "rec_bundle r1 = b1" "rec_revision r1 = rec_revision (pl_current l) + 1" "rec_runId r1 = ro_runId opts"
    by (rule storeCurrent_run)
  let ?s = "startedStep t1 s" and ?ctx = "buildExecutionContextStep (ro_fracText opts) b1 (startedStep t1 s)"
  have mem: "?s \<in> set (bdl_steps b1)" and sid: "step_id ?s = i" and run1: "step_status ?s = StepRunning"
    using requireStep_Inr [OF s(1)] shape1 by (auto simp: sameShape_def updateStep_def startedStep_def image_iff)
  then have s1: "requireStep b1 i = Inr ?s"
    using requireStep_ok [of b1 ?s] wf1 by (simp add: wfBundle_def)
  have esc: "resolveEscalationControlBehavior (dataOf ?ctx) = None"
    using free(1) start_keeps [OF b1] escalation_iff [of "ro_fracText opts" b1 ?s] by (auto simp: unsettled_cong)
  obtain w3 where w3: "call r1 ?ctx (leaseHeartbeat opts) w2 = (Inr (Some (res ?ctx)), w3)" "isAt r1 w3"
    using host(2) r1(2) unfolding answers_def uses_store peek_def by (metis prod.collapse)
  let ?res = "res ?ctx"
  let ?out = "normalizeExecutionRunStepOutput (orElse (sr_output ?res) defaultStepOutput)"
  from w3(2) obtain t2 w4 where t2: "ro_now opts w3 = (t2, w4)" "isAt r1 w4" by (rule clock_at)
  obtain outcome where oc: "resolveLocalActionRequests (ro_parseItem opts) r1 ?s t2 (Some ?out) None w4 = (Inr outcome, w4)"
    using resolve_no_callback [of "ro_parseItem opts" r1 ?s t2 "Some ?out" w4] by auto
  from t2(2) obtain t3 w5 where t3: "ro_now opts w4 = (t3, w5)" "isAt r1 w5" by (rule clock_at)
  let ?patch = "completionPatch (ro_parseItem opts) (ro_fracText opts) i ?ctx t3 ?res (lr_sharedState outcome)"
  let ?cp = "\<lparr>cp_output = Some ?out, cp_sharedState = Some ?patch, cp_localActionRequests = Some (lr_requests outcome),
     cp_localActionEvents = lr_events outcome, cp_resolvedRequests = lr_resolvedRequests outcome\<rparr>"
  have ev: "\<forall>e\<in>set (cp_localActionEvents ?cp). ev_runId e = run_id (bdl_run b1)"
    using resolve_events [OF oc] r1(5) id1 by simp
  have dist1: "distinct (map step_id (bdl_steps b1))" using wf1 by (simp add: wfBundle_def)
  from succeed_ok [OF dist1 mem run1 ev] sid obtain b2 es where
    b2: "succeedExecutionRunStep (ro_parseItem opts) b1 i t3 ?cp = Inr b2"
      "sameShape b1 (updateStep i (completedStep t3 ?cp)) es b2" by blast
  have wf2: "wfBundle b2" by (rule sameShape_wf [OF b2(2) wf1])
  have id2: "run_id (bdl_run b2) = ro_runId opts" using b2(2) id1 by (simp add: sameShape_def)
  have "isAt (pl_current (l\<lparr>pl_current := r1\<rparr>)) w5" using t3(2) by simp
  from this id2 obtain r2 w6 where r2: "storeCurrent opts b2 (w5, l\<lparr>pl_current := r1\<rparr>) = (Inr r2, (w6, l\<lparr>pl_current := r2\<rparr>))"
    "isAt r2 w6" "rec_bundle r2 = b2" "rec_revision r2 = rec_revision r1 + 1" "rec_runId r2 = ro_runId opts"
    by (rule storeCurrent_run) simp
  have data: "noRequestedOutputs ?s" using free(2) by (simp add: noRequestedOutputs_def dataOf_def startedStep_def)
  have cancelled: "isCancelledPass b1 i = Inr False" using shape1(2) s1 run1 by (simp add: isCancelledPass_def)
  have refresh: "refreshCurrent opts i (w3, l\<lparr>pl_current := r1\<rparr>) = (Inr (r1, False), (w3, l\<lparr>pl_current := r1\<rparr>))"
    using w3(2) cancelled r1(3) by (simp add: refreshCurrent_def locals_def assign_def io_defs uses_store st_readRecord_eq)
  have complete: "completePass opts r1 i ?s ?ctx ?res ?out (w3, l\<lparr>pl_current := r1\<rparr>)
      = (Inr FallThrough, (w6, l\<lparr>pl_current := r2, pl_final := Some r2\<rparr>))"
    using t2(1) t3(1) oc b2(1) r1(3) r2(1) host(3)
    by (simp add: completePass_def nowIo_def locals_def assign_def finishCurrent_def io_defs no_missing [OF data] Let_def)
  have execute: "executePass opts req r1 i ?s ?ctx (w2, l\<lparr>pl_current := r1\<rparr>)
      = (Inr FallThrough, (w6, l\<lparr>pl_current := r2, pl_final := Some r2\<rparr>))"
    using w3(1) refresh complete host(1) by (simp add: executePass_def io_defs Let_def)
  have run: "tryPass opts req i (w, l) = (Inr FallThrough, (w6, l\<lparr>pl_current := r2, pl_final := Some r2\<rparr>))"
    using t1(1) b1 r1(1,3) s1 esc execute by (simp add: tryPass_def nowIo_def locals_def io_defs Let_def)
  have "updateStep i (completedStep t3 ?cp) ?s \<in> set (bdl_steps b2)"
    using mem b2(2) by (simp add: sameShape_def)
  then have fin: "\<exists>s'\<in>set (bdl_steps b2). step_id s' = i \<and> step_status s' = StepSucceeded \<and> step_output s' = Some ?out"
    by (rule bexI [rotated]) (use sid in \<open>simp add: updateStep_def completedStep_def\<close>)
  show thesis
    by (rule that [OF run r2(2) _ _ fin [folded r2(3)]])
      (use r1 r2 wf2 id2 b2(2) start_keeps [OF b1] in \<open>simp_all add: storedRecordOk_def sameShape_def\<close>)
qed

lemma pass_completes:
  assumes here: "isAt r w" and ok: "storedRecordOk (ro_runId opts) r"
    and nxt: "dp_nextRunnableStepId (createExecutionRunDispatchPlan (rec_bundle r)) = Some i" "i \<noteq> []"
    and s: "requireStep (rec_bundle r) i = Inr s" "withinLimits (rec_bundle r) s i"
    and free: "\<not> unsettledOutcomes (rec_bundle r) s" "noRequestedOutputs s"
    and lease: "truthyText (ro_existingLeaseId opts) = None" "getActiveExecutionRunLease r = None"
      "passLeaseId opts \<notin> lease_id ` set (bdl_leases (rec_bundle r))" "ro_onLeaseHeartbeat opts = None"
    and host: "ro_executeStep opts = Some call" "answers opts call res" "ro_executeLocalActionRequest opts = None"
  obtains r' w' out where "executeStoredExecutionRunOnce opts w = (Inr r', w')" "isAt r' w'"
    "getActiveExecutionRunLease r' = None"
    "\<exists>s'\<in>set (bdl_steps (rec_bundle r')). step_id s' = i \<and> step_status s' = StepSucceeded \<and> step_output s' = Some out"
proof -
  have st: "step_status s \<in> {StepPlanned, StepRunnable}"
    using dispatch_next_ready [OF nxt(1)] requireStep_unique [OF _ s(1)] ok
    by (auto simp: storedRecordOk_def wfBundle_def)
  from here ok lease(2-4) obtain r1 w1 l where r1: "acquireNewLease opts w = (Inr r1, w1)" "isAt r1 w1"
    "storedRecordOk (ro_runId opts) r1" "lease_id l = passLeaseId opts" "lease_status l = LeaseActive"
    "bdl_leases (rec_bundle r1) = bdl_leases (rec_bundle r) @ [l]" "bdl_steps (rec_bundle r1) = bdl_steps (rec_bundle r)"
    "ss_structuredOutputs (bdl_sharedState (rec_bundle r1)) = ss_structuredOutputs (bdl_sharedState (rec_bundle r))"
    by (rule acquire_run)
  let ?l = "\<lparr>pl_current = r1, pl_releaseReason = Some ''completed'', pl_final = None\<rparr>"
  let ?req = "requiresConfiguredStoredStepExecutor (rec_bundle r)"
  have cur: "isAt (pl_current ?l) w1" "storedRecordOk (ro_runId opts) (pl_current ?l)" using r1 by simp_all
  have s1: "requireStep (rec_bundle (pl_current ?l)) i = Inr s"
    using s(1) r1(7) by (simp add: requireStep_def split: option.splits)
  have free1: "\<not> unsettledOutcomes (rec_bundle (pl_current ?l)) s"
    using free(1) r1(8) by (simp add: unsettledOutcomes_def dependencyLocalActionOutcomes_def)
  from cur s1 st free1 free(2) host obtain r2 w2 out where r2: "tryPass opts ?req i (w1, ?l)
      = (Inr FallThrough, (w2, ?l\<lparr>pl_current := r2, pl_final := Some r2\<rparr>))"
    "isAt r2 w2" "storedRecordOk (ro_runId opts) r2" "bdl_leases (rec_bundle r2) = bdl_leases (rec_bundle (pl_current ?l))"
    "\<exists>s'\<in>set (bdl_steps (rec_bundle r2)). step_id s' = i \<and> step_status s' = StepSucceeded \<and> step_output s' = Some out"
    by (rule try_completes [where req = ?req])
  have act: "getActiveExecutionRunLease r2 = Some l"
    using lease(2) r1(5,6) r2(4) unfolding getActiveExecutionRunLease_def by (intro active_append) simp_all
  from r2(1) have body: "tryPass opts ?req i (w1, ?l)
      = (Inr FallThrough, (w2, \<lparr>pl_current = r2, pl_releaseReason = Some ''completed'', pl_final = Some r2\<rparr>))" by simp
  from guarded_ends [OF body r2(2,3) act r1(4)] obtain r3 w4 where g: "runGuarded opts ?req i r1 w1 = (Inr r3, w4)"
    and r3: "isAt r3 w4" "getActiveExecutionRunLease r3 = None" "bdl_steps (rec_bundle r3) = bdl_steps (rec_bundle r2)"
    unfolding flow.case by blast
  have run: "executeStoredExecutionRunOnce opts w = (Inr r3, w4)"
    using pass_begins [OF here nxt s lease(1)] r1(1) g by simp
  from run r3(1,2) r2(5) [folded r3(3)] show thesis by (rule that)
qed

end


definition answeringRunner :: "(runFs \<times> nat) runOnceOptions" where
  "answeringRunner = demoRunner\<lparr>ro_executeStep := Some (\<lambda>rec s hb. ioReturn (Some usageResult))\<rparr>"

lemma answeringRunner_simps [simp]:
  "ro_store answeringRunner = leftStore (createExecutionRunRecordStore dateParse (\<le>))" "ro_runId answeringRunner = ''r''"
  "ro_existingLeaseId answeringRunner = None" "ro_onLeaseHeartbeat answeringRunner = None"
  "ro_executeStep answeringRunner = Some (\<lambda>rec s hb. ioReturn (Some usageResult))"
  "ro_executeLocalActionRequest answeringRunner = None" "passLeaseId answeringRunner = ''r:lease:local-runner''"
  by (simp_all add: answeringRunner_def) (simp_all add: demoRunner_def localRunnerOptions_def passLeaseId_def)

lemma answeringRunner_host: "hostKeepsRun answeringRunner"
  "answers answeringRunner (\<lambda>rec s hb. ioReturn (Some usageResult)) (\<lambda>_. usageResult)"
proof -
  have "keepsRun Some (leftStore (createExecutionRunRecordStore dateParse (\<le>))) ''r''
      (ioReturn a :: (runFs \<times> nat, stepResult option) io)" for a
    by (auto simp: keepsRun_def ioReturn_def laterRecord_refl)
  then show "hostKeepsRun answeringRunner"
    using demoRunner_simps(6) by (simp add: hostKeepsRun_def answeringRunner_def)
  show "answers answeringRunner (\<lambda>rec s hb. ioReturn (Some usageResult)) (\<lambda>_. usageResult)"
    by (simp add: answers_def ioReturn_def)
qed

lemma freshRecord_next:
  "dp_nextRunnableStepId (createExecutionRunDispatchPlan (rec_bundle freshRecord)) = Some ''a''"
  "requireStep (rec_bundle freshRecord) ''a'' = Inr (demoStep ''a'' 1 StepPlanned [])"
  by (simp_all add: plan_next plan_running eligibleSteps_def freshRecord_def demoFresh_def demo_simps stepLe_def
      eligibleStep_def pendingStep_def hasTerminalFailure_def canDispatchStep_def isTerminalStep_def
      dependenciesSatisfied_def stepsByIdOf_def requireStep_def)

lemma freshRecord_free:
  "withinLimits (rec_bundle freshRecord) (demoStep ''a'' 1 StepPlanned []) ''a''"
  "\<not> unsettledOutcomes (rec_bundle freshRecord) (demoStep ''a'' 1 StepPlanned [])"
  "noRequestedOutputs (demoStep ''a'' 1 StepPlanned [])"
proof -
  have d: "dataOf (demoStep ''a'' 1 StepPlanned []) = []" by (simp add: dataOf_def demoStep_def)
  show "withinLimits (rec_bundle freshRecord) (demoStep ''a'' 1 StepPlanned []) ''a''"
    by (simp add: withinLimits_def tokenLimitFailure_def requestLimitFailure_def turnLimitFailure_def
        resolveStepProviderBudgetMaxTokens_def resolveStepProviderBudgetMaxRequests_def resolveStepTurnPolicyMaxTurns_def
        resolveStepMaxRuntimeMinutes_def providerBudget_def positiveInteger_def optProp_def d)
  show "\<not> unsettledOutcomes (rec_bundle freshRecord) (demoStep ''a'' 1 StepPlanned [])"
    by (simp add: unsettledOutcomes_def dependencyLocalActionOutcomes_def freshRecord_def demoFresh_def demo_simps)
  show "noRequestedOutputs (demoStep ''a'' 1 StepPlanned [])" by (simp add: noRequestedOutputs_def d)
qed


end
