(* ===== verification/Service_Host.thy ===== *)
theory Service_Host
  imports Execution_Safety
begin

text \<open>
  The service host (\<open>src/runtime/serviceHost.ts\<close>): the loop that finds runs this host may work on,
  repairs leases whose owners are gone, recovers stranded steps, and executes a bounded number of
  passes. The world holds both stores and whatever the callbacks touch; the lease sequence, a
  variable of the host, is threaded separately.
\<close>

section \<open>The host\<close>

text \<open>\<open>None\<close> lets a run through, \<open>Some reason\<close> holds it back.\<close>

type_synonym 'w executionGate = "storedRecord \<Rightarrow> ('w, string option) io"

record 'w hostDeps =
  hd_control :: "'w recordStore"
  hd_runnersControl :: "'w runnerStore"
  hd_now :: "'w \<Rightarrow> string \<times> 'w"
  hd_ownerId :: "string option"
  hd_runnerId :: "string option"
  hd_executeStoredRunStep :: "'w stepExecutor option"
  hd_executionGate :: "'w executionGate option"
  hd_leaseHeartbeatTtlMs :: "int option"
  hd_executeLocalActionRequest :: "'w localActionCallback option"
  hd_builtInLocalAction :: "'w localActionCallback"
  hd_createRunAffinity :: "inspection \<Rightarrow> affinityRecord option"
  hd_refreshRunArchiveIndex :: "string \<Rightarrow> ('w, unit) io"
  hd_localeCompare :: "string \<Rightarrow> string \<Rightarrow> int"
  hd_parseItem :: "json \<Rightarrow> json option"
  hd_parseJson :: "string \<Rightarrow> json option"
  hd_fracText :: "rat \<Rightarrow> string"

definition hostNow :: "'w hostDeps \<Rightarrow> ('w, string) io" where
  "hostNow h = (\<lambda>w. case hd_now h w of (t, w') \<Rightarrow> (Inr t, w'))"

definition hostOwnerId :: "'w hostDeps \<Rightarrow> string" where
  "hostOwnerId h = orElse (hd_ownerId h) ''host:local-service''"

definition executionOwnerId :: "'w hostDeps \<Rightarrow> string" where
  "executionOwnerId h = orElse (hd_runnerId h) (hostOwnerId h)"

definition hostRunner :: "'w hostDeps \<Rightarrow> string option" where
  "hostRunner h = truthyText (hd_runnerId h)"

definition shouldRequireOperatorApprovalForLocalAction :: "executionRunStep \<Rightarrow> bool" where
  "shouldRequireOperatorApprovalForLocalAction s =
     (optProp (asRecord (jprop (dataOf s) ''localActionPolicy'')) ''mode'' = Some (JStr ''approval-required''))"

definition hostLocalAction :: "'w hostDeps \<Rightarrow> 'w localActionCallback" where
  "hostLocalAction h = orElse (hd_executeLocalActionRequest h) (\<lambda>rec s r.
     if shouldRequireOperatorApprovalForLocalAction s then ioReturn None else hd_builtInLocalAction h rec s r)"

record drainOptions =
  do_runId :: "string option"
  do_sourceKind :: "executionRunSourceKind option"
  do_candidateStatuses :: "executionRunStatus list"
  do_maxRuns :: "int option"

datatype drainReason =
    RunNotFound | LeaseIsActive | HeartbeatIsStale | ClaimOwnerUnavailable | NoRunnableStep
  | StrandedRunningNoLease | LimitReached | ExecutionGateClosed

record drainedRun =
  dr_runId :: string
  dr_executed :: bool
  dr_reason :: "drainReason option"
  dr_detailReason :: "string option"
  dr_record :: "storedRecord option"

section \<open>Health of an active lease\<close>

datatype leaseHealthStatus = HealthFresh | HealthStaleHeartbeat | HealthSuspiciouslyIdle

record activeLeaseHealth =
  alh_status :: leaseHealthStatus
  alh_reason :: string
  alh_leaseHeartbeatAt :: "string option"
  alh_leaseExpiresAt :: "string option"
  alh_runnerLastHeartbeatAt :: "string option"
  alh_runnerLastActivityAt :: "string option"

definition ACTIVE_LEASE_IDLE_ACTIVITY_THRESHOLD_MS :: int where
  "ACTIVE_LEASE_IDLE_ACTIVITY_THRESHOLD_MS = 60000"

definition safeParseTimestamp :: "string option \<Rightarrow> int option" where
  "safeParseTimestamp v = (case truthyText v of None \<Rightarrow> None | Some t \<Rightarrow> dateParse t)"

text \<open>Idle: acquired at least a minute ago, and nothing heard of the runner since.\<close>

definition leaseLooksIdle :: "executionRunLease \<Rightarrow> executionRunner option \<Rightarrow> string \<Rightarrow> bool" where
  "leaseLooksIdle lease runner now =
     (case (safeParseTimestamp (Some (lease_acquiredAt lease)), safeParseTimestamp (Some now)) of
        (Some acquired, Some t) \<Rightarrow>
          t - acquired \<ge> ACTIVE_LEASE_IDLE_ACTIVITY_THRESHOLD_MS \<and>
          (case safeParseTimestamp (Option.bind runner rnr_lastActivityAt) of
             None \<Rightarrow> True | Some active \<Rightarrow> active < acquired)
      | _ \<Rightarrow> False)"

definition activeSince :: "executionRunLease \<Rightarrow> executionRunner option \<Rightarrow> bool" where
  "activeSince lease runner =
     (case (safeParseTimestamp (Option.bind runner rnr_lastActivityAt), safeParseTimestamp (Some (lease_acquiredAt lease))) of
        (Some active, Some acquired) \<Rightarrow> active \<ge> acquired
      | _ \<Rightarrow> False)"

definition classifyActiveLeaseHealth ::
  "storedRecord \<Rightarrow> repairClassification option \<Rightarrow> string \<Rightarrow> activeLeaseHealth option" where
  "classifyActiveLeaseHealth rec repair now =
     (case getActiveExecutionRunLease rec of
        None \<Rightarrow> None
      | Some lease \<Rightarrow> Some
          (let answer = (\<lambda>status why runner.
                 \<lparr>alh_status = status, alh_reason = why, alh_leaseHeartbeatAt = Some (lease_heartbeatAt lease),
                  alh_leaseExpiresAt = Some (lease_expiresAt lease),
                  alh_runnerLastHeartbeatAt = map_option rnr_lastHeartbeatAt runner,
                  alh_runnerLastActivityAt = Option.bind runner rnr_lastActivityAt\<rparr>)
           in case repair of
                None \<Rightarrow> answer HealthStaleHeartbeat ''active lease has no repair classification context'' None
              | Some rp \<Rightarrow>
                  (let rc = rp_reconciliation rp; runner = rc_runner rc in
                   if rc_status rc \<noteq> ActiveRunner
                   then answer HealthStaleHeartbeat (orElse (rc_reason rc) ''lease owner heartbeat is unavailable'') runner
                   else if lease_expiresAt lease \<le> now
                   then answer HealthStaleHeartbeat (''lease heartbeat expired at '' @ lease_expiresAt lease) runner
                   else if leaseLooksIdle lease runner now
                   then answer HealthSuspiciouslyIdle
                     ''active lease has no observed runner activity since it was acquired'' runner
                   else answer HealthFresh
                     (if activeSince lease runner then ''runner activity has been observed during the active lease''
                      else ''lease and runner heartbeats are fresh'') runner)))"

section \<open>Repairing a lease whose heartbeat is stale\<close>

definition isTerminalExecutionRunStatus :: "executionRunStatus \<Rightarrow> bool" where
  "isTerminalExecutionRunStatus s = (s \<in> {RunSucceeded, RunFailed, RunCancelled})"

datatype staleHeartbeatStatus = Repaired | NotStaleHeartbeat | StaleNotReclaimable | StaleRunNotFound

record staleHeartbeatAction =
  sa_runId :: string
  sa_status :: staleHeartbeatStatus
  sa_repaired :: bool
  sa_reason :: string
  sa_leaseHealthStatus :: "leaseHealthStatus option"
  sa_repairPosture :: "repairPosture option"
  sa_reconciliationReason :: "string option"

type_synonym staleHeartbeatRepair = "staleHeartbeatAction \<times> repairClassification option"

definition reconciliationReason :: "repairClassification option \<Rightarrow> activeLeaseHealth option \<Rightarrow> string option" where
  "reconciliationReason repair health =
     orElseOpt (Option.bind repair (\<lambda>rp. rc_reason (rp_reconciliation rp))) (map_option alh_reason health)"

definition expireForRepair ::
  "'w hostDeps \<Rightarrow> string \<Rightarrow> string \<Rightarrow> staleHeartbeatAction \<Rightarrow> repairClassification option \<Rightarrow> ('w, staleHeartbeatRepair) io" where
  "expireForRepair h runId repairAt action repair =
     ioBind (controlExpireLeases (hd_control h) runId repairAt) (\<lambda>_. ioReturn (action, repair))"

definition repairReclaimable ::
  "'w hostDeps \<Rightarrow> string \<Rightarrow> string \<Rightarrow> activeLeaseHealth \<Rightarrow> repairClassification \<Rightarrow> ('w, staleHeartbeatRepair) io" where
  "repairReclaimable h runId repairAt health rp =
     ioBind (repairStoredExecutionRunLease (hd_control h) (hd_runnersControl h) runId repairAt) (\<lambda>repaired.
     ioReturn
       (\<lparr>sa_runId = runId,
         sa_status = (case repaired of Some (_, True) \<Rightarrow> Repaired | _ \<Rightarrow> StaleNotReclaimable),
         sa_repaired = (case repaired of None \<Rightarrow> False | Some (_, b) \<Rightarrow> b),
         sa_reason = (case repaired of None \<Rightarrow> rp_reason rp | Some (c, _) \<Rightarrow> rp_reason c),
         sa_leaseHealthStatus = Some (alh_status health),
         sa_repairPosture = Some (case repaired of None \<Rightarrow> rp_posture rp | Some (c, _) \<Rightarrow> rp_posture c),
         sa_reconciliationReason =
           orElseOpt (Option.bind repaired (\<lambda>(c, _). rc_reason (rp_reconciliation c))) (rc_reason (rp_reconciliation rp))\<rparr>,
        Some rp))"

text \<open>The lease of a run is active and its heartbeat is stale.\<close>

definition repairStale ::
  "'w hostDeps \<Rightarrow> string \<Rightarrow> string \<Rightarrow> bool \<Rightarrow> storedRecord \<Rightarrow> executionRunLease \<Rightarrow> activeLeaseHealth \<Rightarrow>
   repairClassification option \<Rightarrow> ('w, staleHeartbeatRepair) io" where
  "repairStale h runId repairAt force rec lease health repair =
     (let base = \<lparr>sa_runId = runId, sa_status = Repaired, sa_repaired = True, sa_reason = [],
            sa_leaseHealthStatus = Some (alh_status health), sa_repairPosture = map_option rp_posture repair,
            sa_reconciliationReason = reconciliationReason repair (Some health)\<rparr>
      in if isTerminalExecutionRunStatus (run_status (bdl_run (rec_bundle rec))) \<and> lease_expiresAt lease \<le> repairAt
         then expireForRepair h runId repairAt
           (base\<lparr>sa_reason := ''terminal run had an expired active lease'', sa_repairPosture := Some LocallyReclaimable\<rparr>) repair
         else if force \<and> lease_expiresAt lease \<le> repairAt
         then expireForRepair h runId repairAt
           (base\<lparr>sa_reason := ''operator forced repair of expired stale-heartbeat lease'',
              sa_repairPosture := Some (orElse (map_option rp_posture repair) InspectOnly)\<rparr>) repair
         else case repair of
             Some rp \<Rightarrow>
               if rp_posture rp = LocallyReclaimable then repairReclaimable h runId repairAt health rp
               else ioReturn (base\<lparr>sa_status := StaleNotReclaimable, sa_repaired := False, sa_reason := rp_reason rp\<rparr>, repair)
           | None \<Rightarrow> ioReturn (base\<lparr>sa_status := StaleNotReclaimable, sa_repaired := False,
               sa_reason := ''stale-heartbeat lease does not have a reclaimable repair posture''\<rparr>, repair))"

definition evaluateAndRepairStaleHeartbeatLease ::
  "'w hostDeps \<Rightarrow> string \<Rightarrow> string \<Rightarrow> bool \<Rightarrow> ('w, staleHeartbeatRepair) io" where
  "evaluateAndRepairStaleHeartbeatLease h runId repairAt force =
     ioBind (controlInspectRun (hd_control h) runId) (\<lambda>i.
     let none = \<lparr>sa_runId = runId, sa_status = StaleRunNotFound, sa_repaired = False,
           sa_reason = ''run '' @ runId @ '' was not found'', sa_leaseHealthStatus = None, sa_repairPosture = None,
           sa_reconciliationReason = None\<rparr>
     in case i of
          None \<Rightarrow> ioReturn (none, None)
        | Some (rec, _) \<Rightarrow>
            (case getActiveExecutionRunLease rec of
               None \<Rightarrow> ioReturn (none\<lparr>sa_status := NotStaleHeartbeat, sa_reason := ''run has no active lease''\<rparr>, None)
             | Some lease \<Rightarrow>
                 ioBind (evaluateStoredExecutionRunRepairClassification (hd_control h) (hd_runnersControl h) runId repairAt) (\<lambda>repair.
                 case classifyActiveLeaseHealth rec repair repairAt of
                   Some health \<Rightarrow>
                     if alh_status health = HealthStaleHeartbeat
                     then repairStale h runId repairAt force rec lease health repair
                     else ioReturn
                       (\<lparr>sa_runId = runId, sa_status = NotStaleHeartbeat, sa_repaired = False, sa_reason = alh_reason health,
                         sa_leaseHealthStatus = Some (alh_status health), sa_repairPosture = map_option rp_posture repair,
                         sa_reconciliationReason = reconciliationReason repair (Some health)\<rparr>, repair)
                 | None \<Rightarrow> ioReturn
                     (\<lparr>sa_runId = runId, sa_status = NotStaleHeartbeat, sa_repaired = False,
                       sa_reason = ''active lease is not classified as stale-heartbeat'', sa_leaseHealthStatus = None,
                       sa_repairPosture = map_option rp_posture repair,
                       sa_reconciliationReason = reconciliationReason repair None\<rparr>, repair))))"

text \<open>The record after the repair, if any, and whether the run counts among those with an expired lease.\<close>

definition repairLocallyReclaimableLease ::
  "'w hostDeps \<Rightarrow> string \<Rightarrow> string \<Rightarrow> ('w, storedRecord option \<times> bool) io" where
  "repairLocallyReclaimableLease h runId repairNow =
     ioBind (st_readRecord (hd_control h) runId) (\<lambda>r. case r of
       None \<Rightarrow> ioReturn (None, False)
     | Some rec \<Rightarrow>
         if getActiveExecutionRunLease rec = None then ioReturn (Some rec, False)
         else
           ioBind (evaluateAndRepairStaleHeartbeatLease h runId repairNow False) (\<lambda>(action, _).
           if \<not> sa_repaired action then ioReturn (Some rec, False)
           else ioBind (st_readRecord (hd_control h) runId) (\<lambda>r'. ioReturn (Some (orElse r' rec), True))))"

section \<open>Stranded steps\<close>

text \<open>The clock is read once per running step.\<close>

fun drawTimes :: "('w \<Rightarrow> string \<times> 'w) \<Rightarrow> nat \<Rightarrow> 'w \<Rightarrow> string list \<times> 'w" where
  "drawTimes now 0 w = ([], w)"
| "drawTimes now (Suc n) w = (case now w of (t, w1) \<Rightarrow> case drawTimes now n w1 of (ts, w2) \<Rightarrow> (t # ts, w2))"

definition recoverStrandedIo :: "'w hostDeps \<Rightarrow> storedRecord \<Rightarrow> ('w, (runBundle \<times> string list) option) io" where
  "recoverStrandedIo h rec = (\<lambda>w.
     case drawTimes (hd_now h) (length (dp_runningStepIds (createExecutionRunDispatchPlan (rec_bundle rec)))) w of
       (ts, w') \<Rightarrow> (Inr (recoverStrandedRunningExecutionRun rec (\<lambda>i. ts ! i)), w'))"

definition canRecoverStrandedRun :: "'w hostDeps \<Rightarrow> storedRecord \<Rightarrow> ('w, bool) io" where
  "canRecoverStrandedRun h rec = ioBind (recoverStrandedIo h rec) (\<lambda>r.
     ioReturn (case r of None \<Rightarrow> False | Some (_, recovered) \<Rightarrow> recovered \<noteq> []))"

definition persistRecovered :: "'w hostDeps \<Rightarrow> storedRecord \<Rightarrow> ('w, bool) io \<Rightarrow> ('w, bool) io" where
  "persistRecovered h rec onFailure =
     ioBind (recoverStrandedIo h rec) (\<lambda>r. case r of
       None \<Rightarrow> ioReturn False
     | Some (b, recovered) \<Rightarrow>
         if recovered = [] then ioReturn False
         else ioCatch
           (ioBind (controlPersistRun (hd_control h) (rec_runId rec) b (Some (rec_revision rec))) (\<lambda>_. ioReturn True))
           (\<lambda>_. onFailure))"

text \<open>\<open>n\<close> is the number of attempts that remain after this one.\<close>

fun recoverAndPersistStrandedRun :: "'w hostDeps \<Rightarrow> nat \<Rightarrow> storedRecord \<Rightarrow> ('w, bool) io" where
  "recoverAndPersistStrandedRun h 0 rec = persistRecovered h rec (ioReturn False)"
| "recoverAndPersistStrandedRun h (Suc n) rec = persistRecovered h rec
     (ioBind (st_readRecord (hd_control h) (rec_runId rec)) (\<lambda>r. case r of
        None \<Rightarrow> ioReturn False
      | Some reread \<Rightarrow>
          if getActiveExecutionRunLease reread \<noteq> None then ioReturn False
          else recoverAndPersistStrandedRun h n reread))"

declare recoverAndPersistStrandedRun.simps [simp del]

definition tryRecoverStrandedRun :: "'w hostDeps \<Rightarrow> storedRecord \<Rightarrow> ('w, bool) io" where
  "tryRecoverStrandedRun h rec = recoverAndPersistStrandedRun h 1 rec"

section \<open>What repairing a stale lease does\<close>

text \<open>
  One lease, one rule: the repair expires the leases of the run when its active lease has run out, and
  does nothing else, forced or not.
\<close>

lemma stale_repair:
  assumes stores: "hd_control h = leftStore (createExecutionRunRecordStore parse le)"
      "hd_runnersControl h = rightStore (createExecutionRunnerRecordStore le')"
    and rec: "storedRecordOk runId rec" "getActiveExecutionRunLease rec = Some l"
    and named: "lease_id l \<noteq> []" "lease_ownerId l \<noteq> []" "lease_expiresAt l \<noteq> []"
    and reads: "readExecutionRunStoredRecord (fst w) runId = Inr (Some rec)"
      "readExecutionRunnerStoredRecord (snd w) (lease_ownerId l) = Inr runner"
  obtains action repair where
    "evaluateAndRepairStaleHeartbeatLease h runId now force w = (Inr (action, repair),
       if lease_expiresAt l \<le> now then snd (controlExpireLeases (hd_control h) runId now w) else w)"
    "sa_repaired action \<longleftrightarrow> lease_expiresAt l \<le> now"
proof -
  let ?S = "hd_control h" and ?N = "hd_runnersControl h"
  obtain rp where rp: "evaluateStoredExecutionRunRepairClassification ?S ?N runId now w = (Inr (Some rp), w)"
    "rp_posture rp = LocallyReclaimable \<longleftrightarrow> lease_expiresAt l \<le> now"
    unfolding stores by (rule repair_classified [OF rec(2) named reads])
  have inspect: "controlInspectRun ?S runId w = (Inr (Some (rec, createExecutionRunDispatchPlan (rec_bundle rec))), w)"
    using reads(1) by (cases w) (simp add: controlInspectRun_def stores io_defs leftStore_def createExecutionRunRecordStore_def)
  obtain health where health: "classifyActiveLeaseHealth rec (Some rp) now = Some health"
    using rec(2) by (auto simp: classifyActiveLeaseHealth_def)
  have start: "evaluateAndRepairStaleHeartbeatLease h runId now force w =
      (if alh_status health = HealthStaleHeartbeat then repairStale h runId now force rec l health (Some rp) w
       else (Inr (\<lparr>sa_runId = runId, sa_status = NotStaleHeartbeat, sa_repaired = False, sa_reason = alh_reason health,
           sa_leaseHealthStatus = Some (alh_status health), sa_repairPosture = Some (rp_posture rp),
           sa_reconciliationReason = reconciliationReason (Some rp) (Some health)\<rparr>, Some rp), w))"
    by (simp add: evaluateAndRepairStaleHeartbeatLease_def io_defs inspect rec(2) rp(1) health Let_def)
  show thesis
  proof (cases "lease_expiresAt l \<le> now")
    case False
    with rp(2) have "repairStale h runId now force rec l health (Some rp) w = (Inr (\<lparr>sa_runId = runId,
        sa_status = StaleNotReclaimable, sa_repaired = False, sa_reason = rp_reason rp,
        sa_leaseHealthStatus = Some (alh_status health), sa_repairPosture = Some (rp_posture rp),
        sa_reconciliationReason = reconciliationReason (Some rp) (Some health)\<rparr>, Some rp), w)"
      by (simp add: repairStale_def Let_def io_defs)
    with start have "\<exists>action repair. evaluateAndRepairStaleHeartbeatLease h runId now force w = (Inr (action, repair), w)
        \<and> \<not> sa_repaired action"
      by (cases "alh_status health = HealthStaleHeartbeat") simp_all
    with False show thesis by (auto intro: that)
  next
    case True
    with health rec(2) have stale: "alh_status health = HealthStaleHeartbeat"
      by (auto simp: classifyActiveLeaseHealth_def Let_def)
    obtain r' w' where r': "controlExpireLeases ?S runId now w = (Inr (Some r'), w')"
      unfolding stores by (rule expire_frees_run [OF rec True reads(1)])
    then have "repairStoredExecutionRunLease ?S ?N runId now w = (Inr (Some (rp, True)), w')"
      using rp True by (simp add: repairStoredExecutionRunLease_def io_defs)
    with r' rp(2) True have "\<exists>action repair. repairStale h runId now force rec l health (Some rp) w
        = (Inr (action, repair), w') \<and> sa_repaired action"
      by (simp add: repairStale_def Let_def expireForRepair_def repairReclaimable_def io_defs)
    with True stale r' show thesis by (auto simp: start intro!: that)
  qed
qed

text \<open>The host repairs a stale lease exactly when it has run out: for a stored run whose active lease
  has an identifier, an owner and an expiry, the repair at time \<open>now\<close> reports success and frees the run
  (no lease active, steps untouched, one revision later) if the lease expires by then, and touches
  neither store otherwise. Whether the owner is registered or alive, whether the run is finished, and
  whether the operator forces the repair make no difference to that.\<close>

lemma stale_lease_repaired_iff_expired:
  assumes "hd_control h = leftStore (createExecutionRunRecordStore parse le)"
    and "hd_runnersControl h = rightStore (createExecutionRunnerRecordStore le')"
    and "storedRecordOk runId rec" "getActiveExecutionRunLease rec = Some l"
    and "lease_id l \<noteq> []" "lease_ownerId l \<noteq> []" "lease_expiresAt l \<noteq> []"
    and "readExecutionRunStoredRecord (fst w) runId = Inr (Some rec)"
    and "readExecutionRunnerStoredRecord (snd w) (lease_ownerId l) = Inr runner"
  shows "\<exists>action repair w'. evaluateAndRepairStaleHeartbeatLease h runId now force w = (Inr (action, repair), w')
    \<and> sa_repaired action = (lease_expiresAt l \<le> now)
    \<and> (if lease_expiresAt l \<le> now
       then snd w' = snd w \<and> (\<exists>rec'. readExecutionRunStoredRecord (fst w') runId = Inr (Some rec')
         \<and> getActiveExecutionRunLease rec' = None \<and> rec_revision rec' = rec_revision rec + 1
         \<and> bdl_steps (rec_bundle rec') = bdl_steps (rec_bundle rec))
       else w' = w)"
proof -
  obtain action repair where repaired: "evaluateAndRepairStaleHeartbeatLease h runId now force w = (Inr (action, repair),
      if lease_expiresAt l \<le> now then snd (controlExpireLeases (hd_control h) runId now w) else w)"
    "sa_repaired action \<longleftrightarrow> lease_expiresAt l \<le> now"
    by (rule stale_repair [OF assms])
  show ?thesis
  proof (cases "lease_expiresAt l \<le> now")
    case True
    obtain r' w' where "controlExpireLeases (hd_control h) runId now w = (Inr (Some r'), w')" "snd w' = snd w"
      "readExecutionRunStoredRecord (fst w') runId = Inr (Some r')" "getActiveExecutionRunLease r' = None"
      "rec_revision r' = rec_revision rec + 1" "bdl_steps (rec_bundle r') = bdl_steps (rec_bundle rec)"
      unfolding assms(1) by (rule expire_frees_run [OF assms(3,4) True assms(8)])
    with repaired True show ?thesis by auto
  next
    case False
    with repaired show ?thesis by auto
  qed
qed

lemma force_changes_no_store:
  assumes "hd_control h = leftStore (createExecutionRunRecordStore parse le)"
    and "hd_runnersControl h = rightStore (createExecutionRunnerRecordStore le')"
    and "storedRecordOk runId rec" "getActiveExecutionRunLease rec = Some l"
    and "lease_id l \<noteq> []" "lease_ownerId l \<noteq> []" "lease_expiresAt l \<noteq> []"
    and "readExecutionRunStoredRecord (fst w) runId = Inr (Some rec)"
    and "readExecutionRunnerStoredRecord (snd w) (lease_ownerId l) = Inr runner"
  shows "snd (evaluateAndRepairStaleHeartbeatLease h runId now True w)
    = snd (evaluateAndRepairStaleHeartbeatLease h runId now False w)"
  by (rule stale_repair [OF assms, of now True], rule stale_repair [OF assms, of now False]) simp

definition demoHost :: "(runFs \<times> runnerFs) hostDeps" where
  "demoHost = \<lparr>hd_control = leftStore (createExecutionRunRecordStore dateParse (\<le>)),
     hd_runnersControl = rightStore (createExecutionRunnerRecordStore (\<le>)), hd_now = (\<lambda>w. (''t5'', w)),
     hd_ownerId = None, hd_runnerId = None, hd_executeStoredRunStep = None, hd_executionGate = None,
     hd_leaseHeartbeatTtlMs = None, hd_executeLocalActionRequest = None, hd_builtInLocalAction = (\<lambda>rec s r. ioReturn None),
     hd_createRunAffinity = (\<lambda>_. None), hd_refreshRunArchiveIndex = (\<lambda>_. ioReturn ()), hd_localeCompare = (\<lambda>_ _. 0),
     hd_parseItem = Some, hd_parseJson = (\<lambda>_. None), hd_fracText = (\<lambda>_. ''?'')\<rparr>"

lemma demoHost_stores:
  "hd_control demoHost = leftStore (createExecutionRunRecordStore dateParse (\<le>))"
  "hd_runnersControl demoHost = rightStore (createExecutionRunnerRecordStore (\<le>))"
  by (simp_all add: demoHost_def)

lemma stale_lease_repaired_iff_expired_example:
  "\<exists>action repair w' rec'. evaluateAndRepairStaleHeartbeatLease demoHost ''r'' ''t7'' False (leasedFs, emptyRunnerFs)
       = (Inr (action, repair), w')
     \<and> sa_repaired action \<and> readExecutionRunStoredRecord (fst w') ''r'' = Inr (Some rec')
     \<and> getActiveExecutionRunLease rec' = None \<and> rec_revision rec' = 4"
proof -
  let ?w = "(leasedFs, emptyRunnerFs)" and ?l = "demoLease ''l'' ''n1'' LeaseActive ''t5''"
  have "readExecutionRunStoredRecord (fst ?w) ''r'' = Inr (Some leasedRecord)" by (simp add: leasedFs_read)
  moreover have "readExecutionRunnerStoredRecord (snd ?w) (lease_ownerId ?l) = Inr None"
    by (simp add: emptyRunnerFs_def readExecutionRunnerStoredRecord_def readLegacyRunnerRecordAsStoredRecord_def
      readJsonFileWithRetries_def JSON_READ_RETRY_DELAYS_MS_def)
  moreover have "lease_expiresAt ?l \<le> ''t7''" "lease_id ?l \<noteq> []" "lease_ownerId ?l \<noteq> []" "lease_expiresAt ?l \<noteq> []"
    by (simp_all add: demoLease_def)
  moreover have "rec_revision leasedRecord = 3" by (simp add: leasedRecord_def)
  ultimately show ?thesis
    using stale_lease_repaired_iff_expired [OF demoHost_stores leasedRecord_ok leasedRecord_lease, of ?w None "''t7''" False]
    by auto
qed

end
