(* ===== verification/Host_Drain.thy ===== *)
theory Host_Drain
  imports Service_Host
begin

text \<open>
  The drain of the service host (\<open>src/runtime/serviceHost.ts\<close>): candidate runs in order of
  priority, the plan of a drain, the loop over the candidates, and draining until idle. When
  more than one run may be executed, the code starts the pass of a browser run at once and awaits it at
  the end of the drain; here such passes run one after the other at the end. The lemmas and properties bound what a drain executes.
\<close>

section \<open>Candidates\<close>

datatype candidateKind = CandRunnable | CandRecoverable | CandActiveLease | CandStranded | CandIdle | CandMissing

record drainCandidate =
  hc_runId :: string
  hc_inspection :: "inspection option"
  hc_kind :: candidateKind
  hc_createdAt :: string

definition listCandidateRuns :: "'w hostDeps \<Rightarrow> drainOptions \<Rightarrow> ('w, storedRecord list) io" where
  "listCandidateRuns h opts = (case truthyText (do_runId opts) of
       Some i \<Rightarrow> ioBind (st_readRecord (hd_control h) i) (\<lambda>r. ioReturn (case r of None \<Rightarrow> [] | Some rec \<Rightarrow> [rec]))
     | None \<Rightarrow>
         ioBind (controlListRuns (hd_control h) \<lparr>lo_limit = None, lo_status = None, lo_statuses = do_candidateStatuses opts,
           lo_sourceKind = do_sourceKind opts, lo_updatedSince = None\<rparr>) (\<lambda>recs.
         ioReturn (sortBy (\<lambda>l r. hd_localeCompare h (run_createdAt (bdl_run (rec_bundle l)))
           (run_createdAt (bdl_run (rec_bundle r))) \<le> 0) recs)))"

definition classifyHostDrainCandidate :: "'w hostDeps \<Rightarrow> inspection \<Rightarrow> ('w, candidateKind) io" where
  "classifyHostDrainCandidate h insp =
     (if getActiveExecutionRunLease (fst insp) \<noteq> None then ioReturn CandActiveLease
      else if truthy (dp_nextRunnableStepId (snd insp)) then ioReturn CandRunnable
      else if dp_runningStepIds (snd insp) \<noteq> [] then
        ioBind (canRecoverStrandedRun h (fst insp)) (\<lambda>b. ioReturn (if b then CandRecoverable else CandStranded))
      else ioReturn CandIdle)"

fun hostDrainCandidatePriority :: "candidateKind \<Rightarrow> nat" where
  "hostDrainCandidatePriority CandRunnable = 0"
| "hostDrainCandidatePriority CandRecoverable = 1"
| "hostDrainCandidatePriority CandActiveLease = 2"
| "hostDrainCandidatePriority CandStranded = 3"
| "hostDrainCandidatePriority CandIdle = 4"
| "hostDrainCandidatePriority CandMissing = 5"

definition candidateBefore :: "'w hostDeps \<Rightarrow> drainCandidate \<Rightarrow> drainCandidate \<Rightarrow> bool" where
  "candidateBefore h l r =
     (let pl = hostDrainCandidatePriority (hc_kind l); pr = hostDrainCandidatePriority (hc_kind r)
      in pl < pr \<or> pl = pr \<and> hd_localeCompare h (hc_createdAt l) (hc_createdAt r) \<le> 0)"

definition inspectCandidate :: "'w hostDeps \<Rightarrow> string \<Rightarrow> storedRecord \<Rightarrow> ('w, drainCandidate \<times> bool) io" where
  "inspectCandidate h sweepAt candidate =
     ioBind (repairLocallyReclaimableLease h (rec_runId candidate) sweepAt) (\<lambda>(current, expired). case current of
       None \<Rightarrow> ioReturn (\<lparr>hc_runId = rec_runId candidate, hc_inspection = None, hc_kind = CandMissing,
         hc_createdAt = run_createdAt (bdl_run (rec_bundle candidate))\<rparr>, expired)
     | Some rec \<Rightarrow>
         ioBind (controlInspectRun (hd_control h) (rec_runId rec)) (\<lambda>i. case i of
           None \<Rightarrow> ioReturn (\<lparr>hc_runId = rec_runId rec, hc_inspection = None, hc_kind = CandMissing,
             hc_createdAt = run_createdAt (bdl_run (rec_bundle rec))\<rparr>, expired)
         | Some insp \<Rightarrow>
             ioBind (classifyHostDrainCandidate h insp) (\<lambda>kind.
             ioReturn (\<lparr>hc_runId = rec_runId rec, hc_inspection = Some insp, hc_kind = kind,
               hc_createdAt = run_createdAt (bdl_run (rec_bundle (fst insp)))\<rparr>, expired))))"

fun inspectCandidates :: "'w hostDeps \<Rightarrow> string \<Rightarrow> storedRecord list \<Rightarrow> ('w, (drainCandidate \<times> bool) list) io" where
  "inspectCandidates h sweepAt [] = ioReturn []"
| "inspectCandidates h sweepAt (r # rs) =
     ioBind (inspectCandidate h sweepAt r) (\<lambda>c. ioBind (inspectCandidates h sweepAt rs) (\<lambda>cs. ioReturn (c # cs)))"

text \<open>The candidates in order of priority, and the runs whose lease was expired on the way.\<close>

definition inspectHostDrainCandidates ::
  "'w hostDeps \<Rightarrow> drainOptions \<Rightarrow> ('w, drainCandidate list \<times> string list) io" where
  "inspectHostDrainCandidates h opts =
     ioBind (hostNow h) (\<lambda>sweepAt.
     ioBind (expireRunners (hd_runnersControl h) sweepAt (Some ''service host drain liveness sweep'')) (\<lambda>_.
     ioBind (listCandidateRuns h opts) (\<lambda>recs.
     ioBind (inspectCandidates h sweepAt recs) (\<lambda>found.
     ioReturn (sortBy (candidateBefore h) (map fst found), map (hc_runId \<circ> fst) (filter snd found))))))"

definition isActionable :: "drainCandidate \<Rightarrow> bool" where
  "isActionable c = (hc_kind c \<in> {CandRunnable, CandRecoverable})"

text \<open>The loop that fills the plan until it holds \<open>maxRuns\<close> runs; \<open>planned\<close> is a set.\<close>

fun planActionable :: "int \<Rightarrow> drainCandidate list \<Rightarrow> string list \<Rightarrow> string list" where
  "planActionable maxRuns [] planned = planned"
| "planActionable maxRuns (c # cs) planned =
     (if \<not> isActionable c then planActionable maxRuns cs planned
      else let planned' = List.insert (hc_runId c) planned
           in if int (length planned') \<ge> maxRuns then planned' else planActionable maxRuns cs planned')"

definition createActionableExecutionPlan :: "drainCandidate list \<Rightarrow> int \<Rightarrow> string list" where
  "createActionableExecutionPlan cs maxRuns =
     (if maxRuns \<le> 0 then []
      else
        let runnable = filter (\<lambda>c. hc_kind c = CandRunnable) cs;
            stranded = filter (\<lambda>c. hc_kind c = CandRecoverable) cs
        in if runnable \<noteq> [] \<and> stranded \<noteq> [] \<and> maxRuns > 1
           then List.insert (hc_runId (hd stranded))
             (foldl (\<lambda>planned c. List.insert (hc_runId c) planned) [] (take (nat (maxRuns - 1)) runnable))
           else planActionable maxRuns cs [])"

section \<open>Draining\<close>

record deferredRun =
  df_record :: storedRecord
  df_leaseId :: "string option"
  df_existingLeaseId :: "string option"

record drainLocals =
  dl_leaseSequence :: nat
  dl_drained :: "drainedRun list"
  dl_executedRunIds :: "string list"
  dl_executedCount :: int
  dl_deferred :: "deferredRun list"

type_synonym ('w, 'a) drain = "('w \<times> drainLocals, 'a) io"

definition drainState :: "('w, drainLocals) drain" where
  "drainState = (\<lambda>w. (Inr (snd w), w))"

definition updateDrain :: "(drainLocals \<Rightarrow> drainLocals) \<Rightarrow> ('w, unit) drain" where
  "updateDrain f = (\<lambda>w. (Inr (), (fst w, f (snd w))))"

definition pushDrained :: "drainedRun \<Rightarrow> ('w, unit) drain" where
  "pushDrained d = updateDrain (\<lambda>l. l\<lparr>dl_drained := dl_drained l @ [d]\<rparr>)"

definition skipRun :: "string \<Rightarrow> drainReason \<Rightarrow> string option \<Rightarrow> storedRecord option \<Rightarrow> ('w, unit) drain" where
  "skipRun runId why detail rec = pushDrained
     \<lparr>dr_runId = runId, dr_executed = False, dr_reason = Some why, dr_detailReason = detail, dr_record = rec\<rparr>"

definition pushExecuted :: "storedRecord \<Rightarrow> ('w, unit) drain" where
  "pushExecuted executed = updateDrain (\<lambda>l. l\<lparr>dl_executedRunIds := dl_executedRunIds l @ [rec_runId executed],
     dl_drained := dl_drained l @ [\<lparr>dr_runId = rec_runId executed, dr_executed = True, dr_reason = None,
       dr_detailReason = None, dr_record = Some executed\<rparr>]\<rparr>)"

definition recordHostActivity :: "'w hostDeps \<Rightarrow> string \<Rightarrow> ('w, string) io \<Rightarrow> string \<Rightarrow> ('w, unit) io" where
  "recordHostActivity h runId when text = (case hostRunner h of
       None \<Rightarrow> ioReturn ()
     | Some r \<Rightarrow> ioBind when (\<lambda>t.
         ioBind (recordRunnerActivity (hd_runnersControl h) r t runId (Some text)) (\<lambda>_. ioReturn ())))"

definition hostHeartbeat :: "'w hostDeps \<Rightarrow> leaseHeartbeatInput \<Rightarrow> ('w, unit) io" where
  "hostHeartbeat h hb = recordHostActivity h (lh_runId hb) (ioReturn (lh_heartbeatAt hb))
     (if lh_runtimeEvidence hb = None then ''service host refreshed local run lease''
      else ''service host observed browser runtime evidence'')"

definition hostRunOptions :: "'w hostDeps \<Rightarrow> string \<Rightarrow> string option \<Rightarrow> string option \<Rightarrow> 'w runOnceOptions" where
  "hostRunOptions h runId leaseId existingLeaseId =
     \<lparr>ro_runId = runId, ro_ownerId = executionOwnerId h, ro_leaseId = leaseId,
      ro_existingLeaseId = existingLeaseId, ro_leaseHeartbeatTtlMs = hd_leaseHeartbeatTtlMs h,
      ro_store = hd_control h, ro_now = hd_now h, ro_executeStep = hd_executeStoredRunStep h,
      ro_executeLocalActionRequest = Some (hostLocalAction h),
      ro_onLeaseHeartbeat = (if hostRunner h = None then None else Some (hostHeartbeat h)),
      ro_parseItem = hd_parseItem h, ro_parseJson = hd_parseJson h, ro_fracText = hd_fracText h\<rparr>"

definition executeCurrentRun :: "'w hostDeps \<Rightarrow> deferredRun \<Rightarrow> ('w, storedRecord) io" where
  "executeCurrentRun h d =
     (let runId = rec_runId (df_record d) in
      ioBind (recordHostActivity h runId (hostNow h) ''service host started local run'') (\<lambda>_.
      ioBind (executeStoredExecutionRunOnce (hostRunOptions h runId (df_leaseId d) (df_existingLeaseId d))) (\<lambda>executed.
      ioBind (recordHostActivity h (rec_runId executed) (ioReturn (run_updatedAt (bdl_run (rec_bundle executed))))
        ''service host executed local run'') (\<lambda>_.
      ioBind (hd_refreshRunArchiveIndex h (rec_runId executed)) (\<lambda>_. ioReturn executed)))))"

text \<open>The same test as \<open>requiresConfiguredStoredStepExecutor\<close> of the runner, line for line.\<close>

definition isBrowserBackedStoredExecutionRun :: "storedRecord \<Rightarrow> bool" where
  "isBrowserBackedStoredExecutionRun rec = requiresConfiguredStoredStepExecutor (rec_bundle rec)"

text \<open>The identifier for a new lease; the search always ends within this fuel.\<close>

definition assignLeaseId :: "'w hostDeps \<Rightarrow> storedRecord \<Rightarrow> ('w, string option) drain" where
  "assignLeaseId h rec = ioBind drainState (\<lambda>l.
     let existing = map lease_id (bdl_leases (rec_bundle rec)) in
     case nextUniqueExecutionLeaseId (Suc (length existing)) (rec_runId rec) (executionOwnerId h) existing (dl_leaseSequence l) of
       None \<Rightarrow> ioReturn None
     | Some (i, n) \<Rightarrow> ioBind (updateDrain (\<lambda>l. l\<lparr>dl_leaseSequence := n\<rparr>)) (\<lambda>_. ioReturn (Some i)))"

definition executeCandidate :: "'w hostDeps \<Rightarrow> int \<Rightarrow> storedRecord \<Rightarrow> string option \<Rightarrow> ('w, unit) drain" where
  "executeCandidate h maxRuns current existing =
     ioBind (updateDrain (\<lambda>l. l\<lparr>dl_executedCount := dl_executedCount l + 1\<rparr>)) (\<lambda>_.
     ioBind (if existing = None then assignLeaseId h current else ioReturn None) (\<lambda>leaseId.
     let d = \<lparr>df_record = current, df_leaseId = leaseId, df_existingLeaseId = existing\<rparr>
     in if maxRuns > 1 \<and> isBrowserBackedStoredExecutionRun current
        then updateDrain (\<lambda>l. l\<lparr>dl_deferred := dl_deferred l @ [d]\<rparr>)
        else ioBind (leftIo (executeCurrentRun h d)) pushExecuted))"

text \<open>\<open>current\<close> is the candidate as first inspected, \<open>insp\<close> the inspection after a recovery.\<close>

definition drainRunnable ::
  "'w hostDeps \<Rightarrow> 'w executionGate option \<Rightarrow> int \<Rightarrow> storedRecord \<Rightarrow> inspection \<Rightarrow> string option \<Rightarrow> ('w, unit) drain" where
  "drainRunnable h gate maxRuns current insp existing =
     (if dp_runningStepIds (snd insp) \<noteq> []
      then skipRun (rec_runId current) StrandedRunningNoLease None (Some (fst insp))
      else if \<not> truthy (dp_nextRunnableStepId (snd insp))
      then skipRun (rec_runId current) NoRunnableStep None (Some (fst insp))
      else ioBind (case gate of None \<Rightarrow> ioReturn None | Some g \<Rightarrow> leftIo (g current)) (\<lambda>held. case held of
          Some why \<Rightarrow> skipRun (rec_runId current) ExecutionGateClosed (Some why) (Some (fst insp))
        | None \<Rightarrow> executeCandidate h maxRuns current existing))"

definition drainRecovered ::
  "'w hostDeps \<Rightarrow> 'w executionGate option \<Rightarrow> int \<Rightarrow> inspection \<Rightarrow> string option \<Rightarrow> ('w, unit) drain" where
  "drainRecovered h gate maxRuns insp existing =
     (if dp_runningStepIds (snd insp) = [] then drainRunnable h gate maxRuns (fst insp) insp existing
      else ioBind (leftIo (tryRecoverStrandedRun h (fst insp))) (\<lambda>recovered.
        if \<not> recovered then skipRun (rec_runId (fst insp)) StrandedRunningNoLease None (Some (fst insp))
        else ioBind (leftIo (controlInspectRun (hd_control h) (rec_runId (fst insp)))) (\<lambda>repaired.
          drainRunnable h gate maxRuns (fst insp) (orElse repaired insp) existing)))"

definition evaluateLocalOwnedActiveLeaseReadiness ::
  "'w hostDeps \<Rightarrow> inspection \<Rightarrow> string \<Rightarrow> string \<Rightarrow> affinityRecord option \<Rightarrow> ('w, string option) io" where
  "evaluateLocalOwnedActiveLeaseReadiness h insp runnerId now aff =
     ioBind (ns_readRecord (hd_runnersControl h) runnerId) (\<lambda>r. ioReturn (case r of
       None \<Rightarrow> Some (''runner '' @ runnerId @ '' has no persisted runner record'')
     | Some rec \<Rightarrow>
         (let runner = rr_runner rec in
          if rnr_status runner \<noteq> RunnerActive then Some (''runner '' @ runnerId @ '' heartbeat is not active'')
          else if rnr_expiresAt runner \<le> now
          then Some (''runner '' @ runnerId @ '' heartbeat expired at '' @ rnr_expiresAt runner)
          else let proj = createExecutionRunQueueProjection insp (claimOptions aff (Some runner)) in
            if ap_status (qp_affinity proj) = BlockedMismatch
            then Some (orElse (ap_reason (qp_affinity proj)) (''runner '' @ runnerId @ '' does not match run affinity''))
            else None)))"

text \<open>Why the local runner may not work on the run, if it may not.\<close>

definition claimBlocker :: "'w hostDeps \<Rightarrow> inspection \<Rightarrow> string option \<Rightarrow> ('w, string option) io" where
  "claimBlocker h insp existing = (case hostRunner h of
       None \<Rightarrow> ioReturn None
     | Some r \<Rightarrow>
         ioBind (hostNow h) (\<lambda>now.
         if existing = None
         then ioBind (selectStoredExecutionRunLocalClaim (hd_control h) (hd_runnersControl h) (rec_runId (fst insp)) r
                (Some now) (hd_createRunAffinity h insp)) (\<lambda>claim. ioReturn (case claim of
              None \<Rightarrow> Some ''claim-owner-unavailable''
            | Some lc \<Rightarrow> if lc_selected lc then None else Some (orElse (lc_reason lc) ''claim-owner-unavailable'')))
         else evaluateLocalOwnedActiveLeaseReadiness h insp r now (hd_createRunAffinity h insp)))"

definition existingLocalLease :: "'w hostDeps \<Rightarrow> inspection \<Rightarrow> string option" where
  "existingLocalLease h insp = (case getActiveExecutionRunLease (fst insp) of
       None \<Rightarrow> None
     | Some l \<Rightarrow> if lease_ownerId l = executionOwnerId h \<and> truthy (dp_nextRunnableStepId (snd insp))
         then truthyText (Some (lease_id l)) else None)"

definition skipHeld :: "'w hostDeps \<Rightarrow> inspection \<Rightarrow> ('w, unit) drain" where
  "skipHeld h insp =
     ioBind (leftIo (hostNow h)) (\<lambda>repairNow.
     ioBind (leftIo (evaluateStoredExecutionRunRepairClassification (hd_control h) (hd_runnersControl h)
       (rec_runId (fst insp)) repairNow)) (\<lambda>repair.
     ioBind (leftIo (hostNow h)) (\<lambda>healthNow.
     skipRun (rec_runId (fst insp))
       (case classifyActiveLeaseHealth (fst insp) repair healthNow of
          Some health \<Rightarrow> if alh_status health = HealthStaleHeartbeat then HeartbeatIsStale else LeaseIsActive
        | None \<Rightarrow> LeaseIsActive) None (Some (fst insp)))))"

definition overLimitReason :: "drainCandidate \<Rightarrow> inspection \<Rightarrow> drainReason" where
  "overLimitReason c insp =
     (if truthy (dp_nextRunnableStepId (snd insp)) \<or> hc_kind c = CandRecoverable then LimitReached
      else if dp_runningStepIds (snd insp) \<noteq> [] then StrandedRunningNoLease else NoRunnableStep)"

definition drainOne ::
  "'w hostDeps \<Rightarrow> 'w executionGate option \<Rightarrow> int \<Rightarrow> string list \<Rightarrow> drainCandidate \<Rightarrow> ('w, unit) drain" where
  "drainOne h gate maxRuns planned c = (case hc_inspection c of
       None \<Rightarrow> skipRun (hc_runId c) RunNotFound None None
     | Some insp \<Rightarrow>
         (let current = fst insp; existing = existingLocalLease h insp in
          if getActiveExecutionRunLease current \<noteq> None \<and> existing = None then skipHeld h insp
          else ioBind drainState (\<lambda>l.
            if dl_executedCount l \<ge> maxRuns
            then skipRun (rec_runId current) (overLimitReason c insp) None (Some current)
            else if isActionable c \<and> hc_runId c \<notin> set planned
            then skipRun (rec_runId current) LimitReached None (Some current)
            else ioBind (leftIo (claimBlocker h insp existing)) (\<lambda>blocked. case blocked of
                Some why \<Rightarrow> skipRun (rec_runId current) ClaimOwnerUnavailable (Some why) (Some current)
              | None \<Rightarrow> drainRecovered h gate maxRuns insp existing))))"

fun drainAll ::
  "'w hostDeps \<Rightarrow> 'w executionGate option \<Rightarrow> int \<Rightarrow> string list \<Rightarrow> drainCandidate list \<Rightarrow> ('w, unit) drain" where
  "drainAll h gate maxRuns planned [] = ioReturn ()"
| "drainAll h gate maxRuns planned (c # cs) =
     ioBind (drainOne h gate maxRuns planned c) (\<lambda>_. drainAll h gate maxRuns planned cs)"

text \<open>
  \<open>Promise.all\<close> over the deferred passes: all of them run, and the first exception is the outcome.
\<close>

fun executeDeferred :: "'w hostDeps \<Rightarrow> deferredRun list \<Rightarrow> 'w \<Rightarrow> storedRecord result list \<times> 'w" where
  "executeDeferred h [] w = ([], w)"
| "executeDeferred h (d # ds) w = (case executeCurrentRun h d w of (r, w1) \<Rightarrow>
     (case executeDeferred h ds w1 of (rs, w2) \<Rightarrow> (r # rs, w2)))"

definition settleDeferred :: "'w hostDeps \<Rightarrow> deferredRun list \<Rightarrow> ('w, storedRecord list) io" where
  "settleDeferred h ds = (\<lambda>w. case executeDeferred h ds w of (rs, w') \<Rightarrow> (traverse id rs, w'))"

fun pushAllExecuted :: "storedRecord list \<Rightarrow> ('w, unit) drain" where
  "pushAllExecuted [] = ioReturn ()"
| "pushAllExecuted (r # rs) = ioBind (pushExecuted r) (\<lambda>_. pushAllExecuted rs)"

record drainResult =
  dn_ownerId :: string
  dn_expiredLeaseRunIds :: "string list"
  dn_executedRunIds :: "string list"
  dn_drained :: "drainedRun list"

definition drainLoop ::
  "'w hostDeps \<Rightarrow> 'w executionGate option \<Rightarrow> int \<Rightarrow> drainCandidate list \<Rightarrow> ('w, unit) drain" where
  "drainLoop h gate maxRuns cs =
     ioBind (drainAll h gate maxRuns (createActionableExecutionPlan cs maxRuns) cs) (\<lambda>_.
     ioBind drainState (\<lambda>l.
     ioBind (leftIo (settleDeferred h (dl_deferred l))) pushAllExecuted))"

text \<open>The world is paired with the lease sequence of the host.\<close>

definition drainRunsOnce ::
  "'w hostDeps \<Rightarrow> 'w executionGate option \<Rightarrow> drainOptions \<Rightarrow> ('w \<times> nat, drainResult) io" where
  "drainRunsOnce h gate opts =
     (let maxRuns = max 0 (orElse (do_maxRuns opts) 1) in
      ioBind (leftIo (inspectHostDrainCandidates h opts)) (\<lambda>(cs, expired) (w, n).
      case drainLoop h (orElseOpt gate (hd_executionGate h)) maxRuns cs
          (w, \<lparr>dl_leaseSequence = n, dl_drained = [], dl_executedRunIds = [], dl_executedCount = 0, dl_deferred = []\<rparr>) of
        (Inl e, w', l) \<Rightarrow> (Inl e, (w', dl_leaseSequence l))
      | (Inr _, w', l) \<Rightarrow>
          (Inr \<lparr>dn_ownerId = executionOwnerId h, dn_expiredLeaseRunIds = expired,
            dn_executedRunIds = dl_executedRunIds l, dn_drained = dl_drained l\<rparr>, (w', dl_leaseSequence l))))"

section \<open>Draining until idle\<close>

record idleOptions =
  io_drain :: drainOptions
  io_maxPasses :: "int option"

text \<open>
  The list of outcomes over all passes: an entry that a later pass replaces becomes \<open>None\<close>, so the
  positions in \<open>latestSkippedIndexByRunId\<close> stay valid.
\<close>

record idleLocals =
  il_remainingRuns :: int
  il_iterations :: nat
  il_drained :: "drainedRun option list"
  il_latestSkipped :: "string \<Rightarrow> nat option"
  il_executedSeen :: "string list"
  il_expiredLeaseRunIds :: "string list"
  il_executedRunIds :: "string list"

definition mergeEntry :: "idleLocals \<Rightarrow> drainedRun \<Rightarrow> idleLocals" where
  "mergeEntry l d =
     (let i = dr_runId d in
      if \<not> dr_executed d then
        if i \<in> set (il_executedSeen l) then l
        else case il_latestSkipped l i of
            Some k \<Rightarrow> l\<lparr>il_drained := (il_drained l)[k := Some d]\<rparr>
          | None \<Rightarrow> l\<lparr>il_drained := il_drained l @ [Some d],
              il_latestSkipped := (il_latestSkipped l)(i := Some (length (il_drained l)))\<rparr>
      else
        let l1 = (case il_latestSkipped l i of
              Some k \<Rightarrow> l\<lparr>il_drained := (il_drained l)[k := None], il_latestSkipped := (il_latestSkipped l)(i := None)\<rparr>
            | None \<Rightarrow> l)
        in l1\<lparr>il_executedSeen := List.insert i (il_executedSeen l1), il_drained := il_drained l1 @ [Some d]\<rparr>)"

definition mergePass :: "idleLocals \<Rightarrow> drainResult \<Rightarrow> idleLocals" where
  "mergePass l res =
     (let l1 = foldl mergeEntry (l\<lparr>il_iterations := il_iterations l + 1,
            il_expiredLeaseRunIds := il_expiredLeaseRunIds l @ dn_expiredLeaseRunIds res,
            il_executedRunIds := il_executedRunIds l @ dn_executedRunIds res\<rparr>) (dn_drained res)
      in l1\<lparr>il_remainingRuns := max 0 (il_remainingRuns l1 - int (length (dn_executedRunIds res)))\<rparr>)"

text \<open>The run the caller asked for is gone or finished.\<close>

definition targetSettled :: "'w hostDeps \<Rightarrow> string option \<Rightarrow> ('w, bool) io" where
  "targetSettled h runId = (case truthyText runId of
       None \<Rightarrow> ioReturn False
     | Some i \<Rightarrow> ioBind (st_readRecord (hd_control h) i) (\<lambda>r. ioReturn (case r of
         None \<Rightarrow> True
       | Some rec \<Rightarrow> isTerminalExecutionRunStatus (run_status (bdl_run (rec_bundle rec))))))"

text \<open>\<open>n\<close> passes are left; a pass is given the run, the source kind and the budget, nothing else.\<close>

fun drainPasses ::
  "'w hostDeps \<Rightarrow> 'w executionGate option \<Rightarrow> drainOptions \<Rightarrow> nat \<Rightarrow> idleLocals \<Rightarrow> ('w \<times> nat, idleLocals) io" where
  "drainPasses h gate opts 0 l = ioReturn l"
| "drainPasses h gate opts (Suc n) l =
     (if il_remainingRuns l \<le> 0 then ioReturn l
      else ioBind (drainRunsOnce h gate \<lparr>do_runId = do_runId opts, do_sourceKind = do_sourceKind opts,
          do_candidateStatuses = [], do_maxRuns = Some (il_remainingRuns l)\<rparr>) (\<lambda>res.
        ioBind (leftIo (targetSettled h (do_runId opts))) (\<lambda>settled.
        if settled \<or> dn_executedRunIds res = [] then ioReturn (mergePass l res)
        else drainPasses h gate opts n (mergePass l res))))"

declare drainPasses.simps [simp del]

record idleResult = drainResult +
  dn_iterations :: nat

definition drainRunsUntilIdle ::
  "'w hostDeps \<Rightarrow> 'w executionGate option \<Rightarrow> idleOptions \<Rightarrow> ('w \<times> nat, idleResult) io" where
  "drainRunsUntilIdle h gate opts =
     ioBind (drainPasses h gate (io_drain opts) (nat (max 1 (orElse (io_maxPasses opts) 8)))
       \<lparr>il_remainingRuns = orElse (do_maxRuns (io_drain opts)) 100, il_iterations = 0, il_drained = [],
        il_latestSkipped = (\<lambda>_. None), il_executedSeen = [], il_expiredLeaseRunIds = [], il_executedRunIds = []\<rparr>) (\<lambda>l.
     ioReturn \<lparr>dn_ownerId = executionOwnerId h, dn_expiredLeaseRunIds = il_expiredLeaseRunIds l,
       dn_executedRunIds = il_executedRunIds l, dn_drained = somes (il_drained l), dn_iterations = il_iterations l\<rparr>)"

section \<open>The budget of a drain\<close>

lemma triple_drainState [triple_rules]: "(\<And>wl. P wl \<Longrightarrow> Q (snd wl) wl) \<Longrightarrow> triple P drainState Q E"
  by (simp add: triple_def drainState_def)

lemma triple_updateDrain [triple_rules]: "(\<And>w l. P (w, l) \<Longrightarrow> Q () (w, f l)) \<Longrightarrow> triple P (updateDrain f) Q E"
  by (auto simp: triple_def updateDrain_def)

text \<open>What a call does to the stores does not touch the variables of the loop.\<close>

lemma triple_outside: "triple (\<lambda>wl. L (snd wl)) (leftIo m) (\<lambda>_ wl. L (snd wl)) (\<lambda>_. True)"
  by (auto simp: triple_def leftIo_def split: sum.split prod.splits)

definition withinBudget :: "int \<Rightarrow> int \<Rightarrow> 'w \<times> drainLocals \<Rightarrow> bool" where
  "withinBudget extra maxRuns wl \<longleftrightarrow>
     int (length (filter dr_executed (dl_drained (snd wl))) + length (dl_deferred (snd wl))) + extra = dl_executedCount (snd wl)
     \<and> dl_executedCount (snd wl) \<le> maxRuns
     \<and> dl_executedRunIds (snd wl) = map dr_runId (filter dr_executed (dl_drained (snd wl)))"

abbreviation budgeted :: "int \<Rightarrow> ('w, 'a) drain \<Rightarrow> bool" where
  "budgeted maxRuns m \<equiv> triple (withinBudget 0 maxRuns) m (\<lambda>_. withinBudget 0 maxRuns) (\<lambda>_. True)"

lemma budget_outside: "triple (withinBudget e m) (leftIo x) (\<lambda>_. withinBudget e m) (\<lambda>_. True)"
  unfolding withinBudget_def by (rule triple_outside)

lemma budget_bind:
  "triple P m (\<lambda>_. P') (\<lambda>_. True) \<Longrightarrow> (\<And>a. triple P' (k a) Q (\<lambda>_. True)) \<Longrightarrow> triple P (ioBind m k) Q (\<lambda>_. True)"
  by (rule triple_bind)

lemma budgeted_skip: "budgeted m (skipRun i why d r)"
  unfolding skipRun_def pushDrained_def by (rule triple_updateDrain) (simp add: withinBudget_def)

lemma budgeted_return: "budgeted m (ioReturn a)"
  by (rule triple_return)

lemma budget_pushExecuted: "triple (withinBudget 1 m) (pushExecuted r) (\<lambda>_. withinBudget 0 m) (\<lambda>_. True)"
  unfolding pushExecuted_def by (rule triple_updateDrain) (simp add: withinBudget_def)

lemma budget_bind_state:
  "(\<And>l. triple (\<lambda>wl. P wl \<and> snd wl = l) (k l) Q E) \<Longrightarrow> triple P (ioBind drainState k) Q E"
  by (fastforce simp: triple_def drainState_def ioBind_def)

lemma budget_lease: "triple (withinBudget e m) (if existing = None then assignLeaseId h c else ioReturn None)
    (\<lambda>_. withinBudget e m) (\<lambda>_. True)"
proof -
  have "triple (withinBudget e m) (assignLeaseId h c) (\<lambda>_. withinBudget e m) (\<lambda>_. True)"
    by (auto simp: triple_def assignLeaseId_def drainState_def updateDrain_def io_defs Let_def withinBudget_def
      simp del: nextUniqueExecutionLeaseId.simps split: option.splits prod.splits)
  then show ?thesis by (auto intro: triple_return)
qed

lemma budget_candidate:
  "triple (\<lambda>wl. withinBudget 0 m wl \<and> dl_executedCount (snd wl) < m) (executeCandidate h m c existing)
     (\<lambda>_. withinBudget 0 m) (\<lambda>_. True)"
proof -
  have run: "triple (withinBudget 1 m)
      (let d = \<lparr>df_record = c, df_leaseId = leaseId, df_existingLeaseId = existing\<rparr> in
       if m > 1 \<and> isBrowserBackedStoredExecutionRun c then updateDrain (\<lambda>l. l\<lparr>dl_deferred := dl_deferred l @ [d]\<rparr>)
       else ioBind (leftIo (executeCurrentRun h d)) pushExecuted) (\<lambda>_. withinBudget 0 m) (\<lambda>_. True)" for leaseId
    unfolding Let_def
    by (intro triple_if triple_updateDrain budget_bind [OF budget_outside budget_pushExecuted]) (simp add: withinBudget_def)
  show ?thesis
    unfolding executeCandidate_def
    by (rule budget_bind [OF _ budget_bind [OF budget_lease run]])
      (rule triple_updateDrain, simp add: withinBudget_def)
qed

lemma budgeted_runnable:
  "triple (\<lambda>wl. withinBudget 0 m wl \<and> dl_executedCount (snd wl) < m) (drainRunnable h gate m c insp existing)
     (\<lambda>_. withinBudget 0 m) (\<lambda>_. True)"
proof -
  have weak: "triple (\<lambda>wl. withinBudget 0 m wl \<and> dl_executedCount (snd wl) < m) p (\<lambda>_. withinBudget 0 m) (\<lambda>_. True)"
    if "budgeted m p" for p :: "('a, unit) drain"
    using that by (rule triple_pre) simp
  have keep: "triple (\<lambda>wl. withinBudget 0 m wl \<and> dl_executedCount (snd wl) < m)
      (case gate of None \<Rightarrow> ioReturn None | Some g \<Rightarrow> leftIo (g c))
      (\<lambda>_ wl. withinBudget 0 m wl \<and> dl_executedCount (snd wl) < m) (\<lambda>_. True)"
    unfolding withinBudget_def by (intro triple_option triple_return triple_outside)
  show ?thesis
    unfolding drainRunnable_def
    by (intro triple_if weak budgeted_skip budget_bind [OF keep] triple_option budget_candidate)
qed

lemma budgeted_recovered:
  "triple (\<lambda>wl. withinBudget 0 m wl \<and> dl_executedCount (snd wl) < m) (drainRecovered h gate m insp existing)
     (\<lambda>_. withinBudget 0 m) (\<lambda>_. True)"
proof -
  have keep: "triple (\<lambda>wl. withinBudget 0 m wl \<and> dl_executedCount (snd wl) < m) (leftIo x)
      (\<lambda>_ wl. withinBudget 0 m wl \<and> dl_executedCount (snd wl) < m) (\<lambda>_. True)" for x
    unfolding withinBudget_def by (rule triple_outside)
  have skip: "triple (\<lambda>wl. withinBudget 0 m wl \<and> dl_executedCount (snd wl) < m) (skipRun i why d r)
      (\<lambda>_. withinBudget 0 m) (\<lambda>_. True)" for i why d r
    by (rule triple_pre [OF budgeted_skip]) simp
  show ?thesis
    unfolding drainRecovered_def
    by (intro triple_if skip budgeted_runnable budget_bind [OF keep])
qed

lemma budgeted_held: "budgeted m (skipHeld h insp)"
  unfolding skipHeld_def by (intro budget_bind [OF budget_outside] budgeted_skip)

lemma budgeted_one: "budgeted m (drainOne h gate m planned c)"
proof -
  have keep: "triple (\<lambda>wl. withinBudget 0 m wl \<and> dl_executedCount (snd wl) < m) (leftIo x)
      (\<lambda>_ wl. withinBudget 0 m wl \<and> dl_executedCount (snd wl) < m) (\<lambda>_. True)" for x
    unfolding withinBudget_def by (rule triple_outside)
  have skip: "triple (\<lambda>wl. withinBudget 0 m wl \<and> Q wl) (skipRun i why d r)
      (\<lambda>_. withinBudget 0 m) (\<lambda>_. True)" for Q i why d r
    by (rule triple_pre [OF budgeted_skip]) simp
  have run: "triple (\<lambda>wl. withinBudget 0 m wl \<and> dl_executedCount (snd wl) < m)
      (ioBind (leftIo (claimBlocker h insp existing)) (\<lambda>blocked. case blocked of
         Some why \<Rightarrow> skipRun i ClaimOwnerUnavailable (Some why) r
       | None \<Rightarrow> drainRecovered h gate m insp existing)) (\<lambda>_. withinBudget 0 m) (\<lambda>_. True)" for insp existing i r
    by (intro budget_bind [OF keep] triple_option budgeted_recovered skip)
  show ?thesis
    unfolding drainOne_def Let_def
    by (intro triple_option budgeted_skip triple_if budgeted_held budget_bind_state triple_pre [OF run] skip) auto
qed

lemma budgeted_all: "budgeted m (drainAll h gate m planned cs)"
  by (induction cs) (auto intro: budgeted_return budget_bind [OF budgeted_one])

text \<open>Every deferred pass that settles counts once.\<close>

lemma traverse_length: "traverse f xs = Inr ys \<Longrightarrow> length ys = length xs"
  by (induction xs arbitrary: ys) (auto split: sum.splits)

lemma executeDeferred_length: "executeDeferred h ds w = (rs, w') \<Longrightarrow> length rs = length ds"
  by (induction ds arbitrary: w rs w') (auto split: prod.splits)

lemma settled_length: "settleDeferred h ds w = (Inr recs, w') \<Longrightarrow> length recs = length ds"
  by (auto simp: settleDeferred_def split: prod.splits dest!: traverse_length executeDeferred_length)

text \<open>At the end of a drain nothing is deferred any more.\<close>

definition settledBudget :: "int \<Rightarrow> drainLocals \<Rightarrow> bool" where
  "settledBudget maxRuns l \<longleftrightarrow> int (length (dl_executedRunIds l)) \<le> maxRuns
     \<and> dl_executedRunIds l = map dr_runId (filter dr_executed (dl_drained l))"

lemma pushAll_settles:
  "\<lbrakk>int (length (dl_executedRunIds l) + length recs) \<le> m;
    dl_executedRunIds l = map dr_runId (filter dr_executed (dl_drained l))\<rbrakk> \<Longrightarrow>
   \<exists>l'. pushAllExecuted recs (w, l) = (Inr (), (w, l')) \<and> settledBudget m l'"
proof (induction recs arbitrary: l)
  case Nil
  then show ?case by (simp add: ioReturn_def settledBudget_def)
next
  case (Cons r recs)
  then show ?case by (simp add: pushExecuted_def updateDrain_def io_defs)
qed

lemma drainLoop_settles:
  "triple (withinBudget 0 m) (drainLoop h gate m cs) (\<lambda>_ wl. settledBudget m (snd wl)) (\<lambda>_. True)"
proof -
  have finish: "triple (\<lambda>wl. withinBudget 0 m wl \<and> snd wl = l)
      (ioBind (leftIo (settleDeferred h (dl_deferred l))) pushAllExecuted) (\<lambda>_ wl. settledBudget m (snd wl)) (\<lambda>_. True)" for l
  proof (rule tripleI)
    fix wl res wl'
    assume pre: "withinBudget 0 m wl \<and> snd wl = l"
      and go: "ioBind (leftIo (settleDeferred h (dl_deferred l))) pushAllExecuted wl = (res, wl')"
    show "case res of Inr a \<Rightarrow> settledBudget m (snd wl') | Inl e \<Rightarrow> True"
    proof (cases "settleDeferred h (dl_deferred l) (fst wl)")
      case (Pair r w1)
      show ?thesis
      proof (cases r)
        case (Inl e)
        with go Pair pre show ?thesis by (cases wl) (auto simp: ioBind_def leftIo_def)
      next
        case (Inr recs)
        with Pair have "length recs = length (dl_deferred l)" by (auto dest: settled_length)
        with pre have "int (length (dl_executedRunIds l) + length recs) \<le> m"
          "dl_executedRunIds l = map dr_runId (filter dr_executed (dl_drained l))"
          by (auto simp: withinBudget_def)
        from pushAll_settles [OF this, of w1] go Pair Inr pre show ?thesis
          by (cases wl) (auto simp: ioBind_def leftIo_def)
      qed
    qed
  qed
  show ?thesis unfolding drainLoop_def by (intro budget_bind [OF budgeted_all] budget_bind_state finish)
qed

lemma drainRunsOnce_settles:
  assumes "drainRunsOnce h gate opts wn = (Inr res, wn')"
  shows "int (length (dn_executedRunIds res)) \<le> max 0 (orElse (do_maxRuns opts) 1)"
    and "dn_executedRunIds res = map dr_runId (filter dr_executed (dn_drained res))"
proof -
  define m where "m = max 0 (orElse (do_maxRuns opts) 1)"
  from assms obtain w n cs expired l0 w' l where
    run: "drainLoop h (orElseOpt gate (hd_executionGate h)) m cs (w, l0) = (Inr (), w', l)"
    and l0: "l0 = \<lparr>dl_leaseSequence = n, dl_drained = [], dl_executedRunIds = [], dl_executedCount = 0, dl_deferred = []\<rparr>"
    and res: "dn_executedRunIds res = dl_executedRunIds l" "dn_drained res = dl_drained l"
    unfolding drainRunsOnce_def Let_def m_def [symmetric]
    by (fastforce simp: ioBind_def split: prod.splits sum.splits)
  have "withinBudget 0 m (w, l0)" by (simp add: withinBudget_def l0 m_def)
  from tripleD [OF drainLoop_settles this run] have "settledBudget m l" by simp
  with res show "int (length (dn_executedRunIds res)) \<le> max 0 (orElse (do_maxRuns opts) 1)"
    and "dn_executedRunIds res = map dr_runId (filter dr_executed (dn_drained res))"
    by (auto simp: settledBudget_def m_def)
qed

section \<open>The report of draining until idle\<close>

lemma somes_Nil [simp]: "somes [] = []" and somes_None [simp]: "somes (None # xs) = somes xs"
  and somes_Some [simp]: "somes (Some x # xs) = x # somes xs" and somes_append [simp]: "somes (xs @ ys) = somes xs @ somes ys"
  by (simp_all add: somes_def)

lemma somes_replace:
  assumes "k < length xs" "xs ! k = Some d" "\<not> P d" "case y of None \<Rightarrow> True | Some e \<Rightarrow> \<not> P e"
  shows "filter P (somes (xs[k := y])) = filter P (somes xs)"
proof -
  have "xs = take k xs @ Some d # drop (Suc k) xs" "xs[k := y] = take k xs @ y # drop (Suc k) xs"
    using id_take_nth_drop [OF assms(1)] assms(1,2) by (simp_all add: upd_conv_take_nth_drop)
  then have "somes xs = somes (take k xs) @ d # somes (drop (Suc k) xs)"
    "somes (xs[k := y]) = somes (take k xs) @ (case y of None \<Rightarrow> [] | Some e \<Rightarrow> [e]) @ somes (drop (Suc k) xs)"
    by (metis somes_append somes_Some, cases y) simp_all
  with assms(3,4) show ?thesis by (cases y) simp_all
qed

lemma distinct_somes:
  "(\<And>j k d e. \<lbrakk>j < length xs; k < length xs; xs ! j = Some d; xs ! k = Some e; P d; P e; f d = f e\<rbrakk> \<Longrightarrow> j = k) \<Longrightarrow>
   distinct (map f (filter P (somes xs)))"
proof (induction xs)
  case Nil
  then show ?case by simp
next
  case (Cons x xs)
  have tail: "distinct (map f (filter P (somes xs)))"
  proof (rule Cons.IH)
    fix j k d e
    assume "j < length xs" "k < length xs" "xs ! j = Some d" "xs ! k = Some e" "P d" "P e" "f d = f e"
    with Cons.prems [of "Suc j" "Suc k" d e] show "j = k" by simp
  qed
  show ?case
  proof (cases x)
    case None
    with tail show ?thesis by simp
  next
    case (Some d)
    have "f d \<noteq> f e" if "P d" "e \<in> set (somes xs)" "P e" for e
    proof
      assume eq: "f d = f e"
      from that(2) have "Some e \<in> set xs" by (simp only: set_somes)
      then obtain k where "k < length xs" "xs ! k = Some e" by (metis in_set_conv_nth)
      with Cons.prems [of 0 "Suc k" d e] Some that eq show False by simp
    qed
    with tail Some show ?thesis by auto
  qed
qed

text \<open>
  The index points at the one skipped entry of each run, and a run that has been executed has none.
\<close>

definition mergeInv :: "string list \<Rightarrow> idleLocals \<Rightarrow> bool" where
  "mergeInv executed l \<longleftrightarrow>
     (\<forall>i k. il_latestSkipped l i = Some k \<longleftrightarrow>
        k < length (il_drained l) \<and> (\<exists>d. il_drained l ! k = Some d \<and> \<not> dr_executed d \<and> dr_runId d = i))
     \<and> (\<forall>i\<in>set (il_executedSeen l). il_latestSkipped l i = None)
     \<and> set (il_executedSeen l) = set executed
     \<and> executed = map dr_runId (filter dr_executed (somes (il_drained l)))"

lemma mergeInvI:
  assumes "\<And>i k. il_latestSkipped l i = Some k \<longleftrightarrow>
      k < length (il_drained l) \<and> (\<exists>d. il_drained l ! k = Some d \<and> \<not> dr_executed d \<and> dr_runId d = i)"
    and "\<And>i. i \<in> set (il_executedSeen l) \<Longrightarrow> il_latestSkipped l i = None"
    and "set (il_executedSeen l) = set executed"
    and "map dr_runId (filter dr_executed (somes (il_drained l))) = executed"
  shows "mergeInv executed l"
  using assms by (simp add: mergeInv_def)

lemma mergeInvD:
  assumes "mergeInv executed l"
  shows "il_latestSkipped l i = Some k \<longleftrightarrow>
      k < length (il_drained l) \<and> (\<exists>d. il_drained l ! k = Some d \<and> \<not> dr_executed d \<and> dr_runId d = i)"
    and "j \<in> set (il_executedSeen l) \<Longrightarrow> il_latestSkipped l j = None"
    and "set (il_executedSeen l) = set executed"
    and "map dr_runId (filter dr_executed (somes (il_drained l))) = executed"
  using assms unfolding mergeInv_def by (blast, blast, blast, metis)

lemma mergeEntry_skipped:
  assumes inv: "mergeInv executed l" and d: "\<not> dr_executed d"
  shows "mergeInv executed (mergeEntry l d)"
proof (cases "dr_runId d \<in> set (il_executedSeen l)")
  case True
  with assms show ?thesis by (simp add: mergeEntry_def)
next
  case new: False
  note old = mergeInvD [OF inv]
  show ?thesis
  proof (cases "il_latestSkipped l (dr_runId d)")
    case None
    have merged: "mergeEntry l d = l\<lparr>il_drained := il_drained l @ [Some d],
        il_latestSkipped := (il_latestSkipped l)(dr_runId d := Some (length (il_drained l)))\<rparr>"
      using None new d by (simp add: mergeEntry_def Let_def)
    have "((il_latestSkipped l)(dr_runId d := Some (length (il_drained l)))) i = Some k \<longleftrightarrow>
        k < length (il_drained l @ [Some d]) \<and>
        (\<exists>e. (il_drained l @ [Some d]) ! k = Some e \<and> \<not> dr_executed e \<and> dr_runId e = i)" for i k
      using None d old(1) [of i k] old(1) [of "dr_runId d" k] by (auto simp: nth_append less_Suc_eq)
    then show ?thesis
      unfolding merged using new d old(2-4) by (intro mergeInvI) (simp_all, metis)
  next
    case (Some m)
    then obtain e where e: "m < length (il_drained l)" "il_drained l ! m = Some e" "\<not> dr_executed e" "dr_runId e = dr_runId d"
      using old(1) [of "dr_runId d" m] by auto
    have merged: "mergeEntry l d = l\<lparr>il_drained := (il_drained l)[m := Some d]\<rparr>"
      using Some new d by (simp add: mergeEntry_def Let_def)
    have "il_latestSkipped l i = Some k \<longleftrightarrow> k < length ((il_drained l)[m := Some d]) \<and>
        (\<exists>e. (il_drained l)[m := Some d] ! k = Some e \<and> \<not> dr_executed e \<and> dr_runId e = i)" for i k
      using d e old(1) [of i k] by (auto simp: nth_list_update)
    then show ?thesis
      unfolding merged using d old(2-4) e somes_replace [OF e(1,2), of dr_executed "Some d"] by (intro mergeInvI) simp_all
  qed
qed

lemma mergeEntry_executed:
  assumes inv: "mergeInv executed l" and d: "dr_executed d"
  shows "mergeInv (executed @ [dr_runId d]) (mergeEntry l d)"
proof -
  note old = mergeInvD [OF inv]
  show ?thesis
  proof (cases "il_latestSkipped l (dr_runId d)")
    case None
    have merged: "mergeEntry l d =
        l\<lparr>il_executedSeen := List.insert (dr_runId d) (il_executedSeen l), il_drained := il_drained l @ [Some d]\<rparr>"
      using None d by (simp add: mergeEntry_def Let_def)
    have "il_latestSkipped l i = Some k \<longleftrightarrow> k < length (il_drained l @ [Some d]) \<and>
        (\<exists>e. (il_drained l @ [Some d]) ! k = Some e \<and> \<not> dr_executed e \<and> dr_runId e = i)" for i k
      using d old(1) [of i k] by (auto simp: nth_append less_Suc_eq)
    then show ?thesis
      unfolding merged using None d old(2-4) by (intro mergeInvI) auto
  next
    case (Some m)
    then obtain e where e: "m < length (il_drained l)" "il_drained l ! m = Some e" "\<not> dr_executed e" "dr_runId e = dr_runId d"
      using old(1) [of "dr_runId d" m] by auto
    have merged: "mergeEntry l d = l\<lparr>il_executedSeen := List.insert (dr_runId d) (il_executedSeen l),
        il_drained := (il_drained l)[m := None] @ [Some d], il_latestSkipped := (il_latestSkipped l)(dr_runId d := None)\<rparr>"
      using Some d by (simp add: mergeEntry_def Let_def)
    have "((il_latestSkipped l)(dr_runId d := None)) i = Some k \<longleftrightarrow> k < length ((il_drained l)[m := None] @ [Some d]) \<and>
        (\<exists>e. ((il_drained l)[m := None] @ [Some d]) ! k = Some e \<and> \<not> dr_executed e \<and> dr_runId e = i)" for i k
      using d e Some old(1) [of i k] old(1) [of i m] old(1) [of "dr_runId d" k]
      by (auto simp: nth_append nth_list_update less_Suc_eq)
    then show ?thesis
      unfolding merged using d old(2-4) e somes_replace [OF e(1,2), of dr_executed None] by (intro mergeInvI) auto
  qed
qed

lemma mergeEntries:
  "mergeInv executed l \<Longrightarrow> mergeInv (executed @ map dr_runId (filter dr_executed ds)) (foldl mergeEntry l ds)"
proof (induction ds arbitrary: executed l)
  case Nil
  then show ?case by simp
next
  case (Cons d ds)
  show ?case
  proof (cases "dr_executed d")
    case True
    from Cons.IH [OF mergeEntry_executed [OF Cons.prems True]] True show ?thesis by simp
  next
    case False
    from Cons.IH [OF mergeEntry_skipped [OF Cons.prems False]] False show ?thesis by simp
  qed
qed

text \<open>What holds between two passes: \<open>n\<close> of them are left of \<open>passes\<close>, and \<open>budget\<close> runs may be executed.\<close>

definition idleInv :: "int \<Rightarrow> nat \<Rightarrow> nat \<Rightarrow> idleLocals \<Rightarrow> bool" where
  "idleInv budget passes n l \<longleftrightarrow> mergeInv (il_executedRunIds l) l \<and> il_iterations l + n \<le> passes
     \<and> int (length (il_executedRunIds l)) \<le> max 0 budget
     \<and> (0 < il_remainingRuns l \<longrightarrow> int (length (il_executedRunIds l)) + il_remainingRuns l = budget)"

lemma mergeEntries_keep:
  "il_iterations (foldl mergeEntry l ds) = il_iterations l
   \<and> il_executedRunIds (foldl mergeEntry l ds) = il_executedRunIds l
   \<and> il_remainingRuns (foldl mergeEntry l ds) = il_remainingRuns l"
proof (induction ds arbitrary: l)
  case Nil
  then show ?case by simp
next
  case (Cons d ds)
  have "il_iterations (mergeEntry l d) = il_iterations l \<and> il_executedRunIds (mergeEntry l d) = il_executedRunIds l
      \<and> il_remainingRuns (mergeEntry l d) = il_remainingRuns l"
    by (simp add: mergeEntry_def Let_def split: option.split)
  with Cons.IH [of "mergeEntry l d"] show ?case by simp
qed

lemma mergeInv_cong:
  "\<lbrakk>il_drained l' = il_drained l; il_latestSkipped l' = il_latestSkipped l; il_executedSeen l' = il_executedSeen l\<rbrakk> \<Longrightarrow>
   mergeInv executed l' = mergeInv executed l"
  by (simp add: mergeInv_def)

lemma mergePass_inv:
  assumes inv: "idleInv budget passes (Suc n) l" and pos: "0 < il_remainingRuns l"
    and res: "int (length (dn_executedRunIds res)) \<le> il_remainingRuns l"
      "dn_executedRunIds res = map dr_runId (filter dr_executed (dn_drained res))"
  shows "idleInv budget passes n (mergePass l res)"
proof -
  define l0 where "l0 = l\<lparr>il_iterations := il_iterations l + 1,
      il_expiredLeaseRunIds := il_expiredLeaseRunIds l @ dn_expiredLeaseRunIds res,
      il_executedRunIds := il_executedRunIds l @ dn_executedRunIds res\<rparr>"
  define l1 where "l1 = foldl mergeEntry l0 (dn_drained res)"
  have l1: "il_iterations l1 = il_iterations l + 1" "il_executedRunIds l1 = il_executedRunIds l @ dn_executedRunIds res"
    "il_remainingRuns l1 = il_remainingRuns l"
    using mergeEntries_keep [of l0 "dn_drained res"] by (simp_all add: l1_def l0_def)
  have "mergeInv (il_executedRunIds l) l0" using inv mergeInv_cong [of l0 l] by (simp add: idleInv_def l0_def)
  from mergeEntries [OF this, of "dn_drained res"] have merged: "mergeInv (il_executedRunIds l1) l1"
    using l1(2) res(2) by (simp add: l1_def)
  have "mergePass l res = l1\<lparr>il_remainingRuns := max 0 (il_remainingRuns l1 - int (length (dn_executedRunIds res)))\<rparr>"
    by (simp add: mergePass_def l1_def l0_def Let_def)
  moreover have "mergeInv (il_executedRunIds l1) (l1\<lparr>il_remainingRuns := r\<rparr>)" for r
    using merged mergeInv_cong [of "l1\<lparr>il_remainingRuns := r\<rparr>" l1] by simp
  moreover have "int (length (il_executedRunIds l)) + il_remainingRuns l = budget" "il_iterations l + Suc n \<le> passes"
    using inv pos by (simp_all add: idleInv_def)
  ultimately show ?thesis using l1 pos res(1) by (simp add: idleInv_def)
qed

lemma idleInv_fewer: "idleInv budget passes (Suc n) l \<Longrightarrow> idleInv budget passes n l"
  by (auto simp: idleInv_def)

lemma idleInv_stop: "idleInv budget passes n l \<Longrightarrow> idleInv budget passes 0 l"
  by (auto simp: idleInv_def)

lemma drainPasses_inv:
  "\<lbrakk>idleInv budget passes n l; drainPasses h gate opts n l wn = (Inr l', wn')\<rbrakk> \<Longrightarrow> idleInv budget passes 0 l'"
proof (induction n arbitrary: l wn)
  case 0
  then show ?case by (simp add: drainPasses.simps io_defs)
next
  case (Suc n)
  show ?case
  proof (cases "il_remainingRuns l \<le> 0")
    case True
    with Suc.prems show ?thesis by (auto simp: drainPasses.simps io_defs intro: idleInv_stop)
  next
    case False
    let ?opts = "\<lparr>do_runId = do_runId opts, do_sourceKind = do_sourceKind opts, do_candidateStatuses = [],
      do_maxRuns = Some (il_remainingRuns l)\<rparr>"
    from Suc.prems(2) False obtain res wn1 settled wn2 where
      res: "drainRunsOnce h gate ?opts wn = (Inr res, wn1)"
      and rest: "(if settled \<or> dn_executedRunIds res = [] then ioReturn (mergePass l res)
        else drainPasses h gate opts n (mergePass l res)) wn2 = (Inr l', wn')"
      by (auto simp: drainPasses.simps(2) ioBind_def split: prod.splits sum.splits)
    from drainRunsOnce_settles [OF res] False Suc.prems(1)
    have inv: "idleInv budget passes n (mergePass l res)" by (intro mergePass_inv) simp_all
    from rest Suc.IH [OF inv, of wn2] idleInv_stop [OF inv] show ?thesis
      by (auto simp: ioReturn_def split: if_splits)
  qed
qed

lemma drainUntilIdle_inv:
  assumes "drainRunsUntilIdle h gate opts wn = (Inr res, wn')"
  obtains l where
    "idleInv (orElse (do_maxRuns (io_drain opts)) 100) (nat (max 1 (orElse (io_maxPasses opts) 8))) 0 l"
    "dn_executedRunIds res = il_executedRunIds l" "dn_iterations res = il_iterations l" "dn_drained res = somes (il_drained l)"
proof -
  let ?budget = "orElse (do_maxRuns (io_drain opts)) 100" and ?passes = "nat (max 1 (orElse (io_maxPasses opts) 8))"
  from assms obtain l l0 where run: "drainPasses h gate (io_drain opts) ?passes l0 wn = (Inr l, wn')"
    and l0: "idleInv ?budget ?passes ?passes l0"
    and res: "dn_executedRunIds res = il_executedRunIds l" "dn_iterations res = il_iterations l"
      "dn_drained res = somes (il_drained l)"
    unfolding drainRunsUntilIdle_def
    by (fastforce simp: ioBind_def ioReturn_def idleInv_def mergeInv_def split: prod.splits sum.splits)
  from that [OF drainPasses_inv [OF l0 run] res] show thesis .
qed

text \<open>C33. Draining until idle stays within its limits: it makes at most the given number of passes (one
  at least), and all passes together execute at most the given number of runs (none when the limit is
  negative), whatever the stores, the runners and the callbacks do.\<close>

theorem drain_stays_within_limits:
  assumes "drainRunsUntilIdle h gate opts wn = (Inr res, wn')"
  shows "int (length (dn_executedRunIds res)) \<le> max 0 (orElse (do_maxRuns (io_drain opts)) 100)
    \<and> int (dn_iterations res) \<le> max 1 (orElse (io_maxPasses opts) 8)"
  by (rule drainUntilIdle_inv [OF assms]) (auto simp: idleInv_def)

text \<open>The report of draining until idle is consistent: its executed entries are the executed runs in
  their order, and a run that was skipped has one entry, unless a pass executed it, in which case it
  has none: later passes replace the entry of a skipped run in place.\<close>

lemma drain_report_is_consistent:
  assumes "drainRunsUntilIdle h gate opts wn = (Inr res, wn')"
  shows "dn_executedRunIds res = map dr_runId (filter dr_executed (dn_drained res))
    \<and> distinct (map dr_runId (filter (\<lambda>d. \<not> dr_executed d) (dn_drained res)))
    \<and> set (map dr_runId (filter (\<lambda>d. \<not> dr_executed d) (dn_drained res))) \<inter> set (dn_executedRunIds res) = {}"
proof -
  from drainUntilIdle_inv [OF assms] obtain l where inv: "mergeInv (il_executedRunIds l) l"
    and res: "dn_executedRunIds res = il_executedRunIds l" "dn_drained res = somes (il_drained l)"
    by (auto simp: idleInv_def)
  note facts = mergeInvD [OF inv]
  have "distinct (map dr_runId (filter (\<lambda>d. \<not> dr_executed d) (somes (il_drained l))))"
  proof (rule distinct_somes)
    fix j k d e
    assume "j < length (il_drained l)" "k < length (il_drained l)" "il_drained l ! j = Some d" "il_drained l ! k = Some e"
      "\<not> dr_executed d" "\<not> dr_executed e" "dr_runId d = dr_runId e"
    with facts(1) [of "dr_runId d" j] facts(1) [of "dr_runId e" k] show "j = k" by simp
  qed
  moreover have "dr_runId d \<notin> set (il_executedRunIds l)" if d: "Some d \<in> set (il_drained l)" "\<not> dr_executed d" for d
  proof -
    from d(1) obtain k where "k < length (il_drained l)" "il_drained l ! k = Some d" by (metis in_set_conv_nth)
    with facts(1) [of "dr_runId d" k] d(2) have "il_latestSkipped l (dr_runId d) = Some k" by simp
    with facts(2) [of "dr_runId d"] facts(3) show ?thesis by auto
  qed
  ultimately show ?thesis using res facts(4) by auto
qed

section \<open>The plan of a drain\<close>

lemma insert_fold: "set (foldl (\<lambda>planned c. List.insert (f c) planned) acc cs) = set acc \<union> f ` set cs"
  by (induction cs arbitrary: acc) auto

lemma insert_fold_length: "length (foldl (\<lambda>planned c. List.insert (f c) planned) acc cs) \<le> length acc + length cs"
proof (induction cs arbitrary: acc)
  case Nil
  then show ?case by simp
next
  case (Cons c cs)
  have "length (List.insert (f c) acc) \<le> Suc (length acc)" by (simp add: List.insert_def)
  with Cons.IH [of "List.insert (f c) acc"] show ?case by simp
qed

lemma planActionable_length:
  "int (length planned) < maxRuns \<Longrightarrow> int (length (planActionable maxRuns cs planned)) \<le> maxRuns"
proof (induction cs arbitrary: planned)
  case Nil
  then show ?case by simp
next
  case (Cons c cs)
  have "length (List.insert (hc_runId c) planned) \<le> Suc (length planned)" by (simp add: List.insert_def)
  with Cons show ?case by (auto simp: Let_def)
qed

lemma planActionable_actionable:
  "set (planActionable maxRuns cs planned) \<subseteq> set planned \<union> hc_runId ` {c \<in> set cs. isActionable c}"
proof (induction cs arbitrary: planned)
  case Nil
  then show ?case by simp
next
  case (Cons c cs)
  from Cons.IH [of planned] Cons.IH [of "List.insert (hc_runId c) planned"] show ?case
    by (auto simp: Let_def)
qed

lemma planActionable_keeps: "set planned \<subseteq> set (planActionable maxRuns cs planned)"
proof (induction cs arbitrary: planned)
  case Nil
  then show ?case by simp
next
  case (Cons c cs)
  from Cons.IH [of planned] Cons.IH [of "List.insert (hc_runId c) planned"] show ?case
    by (auto simp: Let_def)
qed

lemma planActionable_first:
  "filter isActionable cs = c # rest \<Longrightarrow> hc_runId c \<in> set (planActionable maxRuns cs planned)"
proof (induction cs)
  case Nil
  then show ?case by simp
next
  case (Cons d cs)
  show ?case
  proof (cases "isActionable d")
    case True
    with Cons.prems have "c = d" by simp
    with True planActionable_keeps [of "List.insert (hc_runId d) planned" maxRuns cs] show ?thesis
      by (auto simp: Let_def)
  next
    case False
    with Cons show ?thesis by simp
  qed
qed


definition demoCandidate :: "string \<Rightarrow> candidateKind \<Rightarrow> drainCandidate" where
  "demoCandidate i kind = \<lparr>hc_runId = i, hc_inspection = None, hc_kind = kind, hc_createdAt = ''t0''\<rparr>"


text \<open>
  With a runnable run at hand the plan holds one stranded run only, however large the limit: a second
  one is skipped as \<open>limit-reached\<close> although the limit has not been reached.
\<close>

lemma second_stranded_run_waits:
  assumes "filter (\<lambda>c. hc_kind c = CandRecoverable) cs = s # t # rest" "\<exists>c\<in>set cs. hc_kind c = CandRunnable"
    and "distinct (map hc_runId cs)" "1 < maxRuns"
  shows "hc_runId t \<notin> set (createActionableExecutionPlan cs maxRuns)"
proof -
  let ?some = "take (nat (maxRuns - 1)) (filter (\<lambda>c. hc_kind c = CandRunnable) cs)"
  have t: "t \<in> set cs" "hc_kind t = CandRecoverable" "s \<in> set cs"
  proof -
    have "s \<in> set (filter (\<lambda>c. hc_kind c = CandRecoverable) cs)" "t \<in> set (filter (\<lambda>c. hc_kind c = CandRecoverable) cs)"
      unfolding assms(1) by simp_all
    then show "t \<in> set cs" "hc_kind t = CandRecoverable" "s \<in> set cs" by auto
  qed
  have "distinct (map hc_runId (filter (\<lambda>c. hc_kind c = CandRecoverable) cs))"
    using assms(3) by (rule distinct_map_filter)
  then have "hc_runId t \<noteq> hc_runId s" using assms(1) by auto
  moreover have "hc_runId t \<notin> hc_runId ` set ?some"
  proof
    assume "hc_runId t \<in> hc_runId ` set ?some"
    then obtain c where c: "c \<in> set cs" "hc_kind c = CandRunnable" "hc_runId t = hc_runId c"
      by (auto dest!: in_set_takeD)
    with assms(3) t(1) have "t = c" by (meson distinct_map inj_onD)
    with c(2) t(2) show False by simp
  qed
  ultimately show ?thesis
    using assms(1,2,4) by (auto simp: createActionableExecutionPlan_def Let_def insert_fold filter_empty_conv)
qed

text \<open>
  The statuses the caller asks for are not handed to the passes: draining until idle takes every run
  of the store for a candidate, whatever \<open>candidateStatuses\<close> says.
\<close>

lemma idle_drain_ignores_statuses:
  "drainRunsUntilIdle h gate (opts\<lparr>io_drain := (io_drain opts)\<lparr>do_candidateStatuses := ss\<rparr>\<rparr>) = drainRunsUntilIdle h gate opts"
proof -
  have "drainPasses h gate (d\<lparr>do_candidateStatuses := ss\<rparr>) n l = drainPasses h gate d n l" for d n l
    by (induction n arbitrary: l) (simp_all add: drainPasses.simps cong: if_cong)
  then show ?thesis by (simp add: drainRunsUntilIdle_def)
qed

section \<open>A host over the file stores\<close>

definition settledRecord :: storedRecord where
  "settledRecord = \<lparr>rec_runId = ''r'', rec_revision = 1, rec_persistedAt = ''t0'',
     rec_bundle = demoBundle [demoStep ''a'' 1 StepSucceeded []] []\<rparr>"

definition demoDrain :: idleOptions where
  "demoDrain = \<lparr>io_drain = \<lparr>do_runId = Some ''r'', do_sourceKind = None, do_candidateStatuses = [], do_maxRuns = Some 3\<rparr>,
     io_maxPasses = None\<rparr>"

lemma settledRecord_plan:
  "getActiveExecutionRunLease settledRecord = None"
  "dp_nextRunnableStepId (createExecutionRunDispatchPlan (rec_bundle settledRecord)) = None"
  "dp_runningStepIds (createExecutionRunDispatchPlan (rec_bundle settledRecord)) = []"
  "rec_runId settledRecord = ''r''"
  by (simp_all add: settledRecord_def getActiveExecutionRunLease_def activeLeaseOf_def plan_next plan_running
    eligibleSteps_def demo_simps eligibleStep_def pendingStep_def canDispatchStep_def isTerminalStep_def)

lemma sweep_no_runners:
  "expireRunners (rightStore (createExecutionRunnerRecordStore le)) now why (fs, emptyRunnerFs) = (Inr ([], []), (fs, emptyRunnerFs))"
proof -
  have "listExecutionRunnerRecords le allRunners emptyRunnerFs = Inr []"
    by (simp add: listExecutionRunnerRecords_def emptyRunnerFs_def)
  then have "controlListRunners (rightStore (createExecutionRunnerRecordStore le)) allRunners (fs, emptyRunnerFs)
      = (Inr [], (fs, emptyRunnerFs))"
    by (simp add: controlListRunners_def createExecutionRunnerRecordStore_def rightStore_def io_defs somes_def)
  then show ?thesis by (simp add: expireRunners_def io_defs)
qed

abbreviation demoWorld :: "runFs \<times> runnerFs" where
  "demoWorld \<equiv> (fsWith settledRecord, emptyRunnerFs)"

definition settledCandidate :: drainCandidate where
  "settledCandidate = \<lparr>hc_runId = ''r'', hc_inspection = Some (settledRecord, createExecutionRunDispatchPlan (rec_bundle settledRecord)),
     hc_kind = CandIdle, hc_createdAt = run_createdAt (bdl_run (rec_bundle settledRecord))\<rparr>"

lemma demoHost_read: "st_readRecord (hd_control demoHost) ''r'' demoWorld = (Inr (Some settledRecord), demoWorld)"
  by (simp add: demoHost_def leftStore_def createExecutionRunRecordStore_def fsWith_read settledRecord_plan)

lemma demoHost_candidates:
  "inspectHostDrainCandidates demoHost \<lparr>do_runId = Some ''r'', do_sourceKind = sk, do_candidateStatuses = ss, do_maxRuns = m\<rparr> demoWorld
     = (Inr ([settledCandidate], []), demoWorld)"
proof -
  have "hostNow demoHost demoWorld = (Inr ''t5'', demoWorld)" by (simp add: hostNow_def demoHost_def)
  moreover have "hd_runnersControl demoHost = rightStore (createExecutionRunnerRecordStore (\<le>))" by (simp add: demoHost_def)
  moreover have "inspectCandidate demoHost t settledRecord demoWorld = (Inr (settledCandidate, False), demoWorld)" for t
    by (simp add: inspectCandidate_def repairLocallyReclaimableLease_def controlInspectRun_def classifyHostDrainCandidate_def
        demoHost_read settledRecord_plan io_defs settledCandidate_def truthy_def)
  ultimately show ?thesis
    by (simp add: inspectHostDrainCandidates_def io_defs sweep_no_runners listCandidateRuns_def truthyText_def demoHost_read
        settledCandidate_def)
qed

lemma demoHost_drains:
  "drainRunsOnce demoHost None \<lparr>do_runId = Some ''r'', do_sourceKind = sk, do_candidateStatuses = ss, do_maxRuns = Some 3\<rparr> (demoWorld, n)
     = (Inr \<lparr>dn_ownerId = ''host:local-service'', dn_expiredLeaseRunIds = [], dn_executedRunIds = [],
         dn_drained = [\<lparr>dr_runId = ''r'', dr_executed = False, dr_reason = Some NoRunnableStep, dr_detailReason = None,
           dr_record = Some settledRecord\<rparr>]\<rparr>, (demoWorld, n))"
proof -
  have "claimBlocker demoHost i x w = (Inr None, w)" for i x w
    by (simp add: claimBlocker_def hostRunner_def demoHost_def truthyText_def io_defs)
  moreover have "existingLocalLease demoHost (settledRecord, p) = None" for p
    by (simp add: existingLocalLease_def settledRecord_plan)
  moreover have "executionOwnerId demoHost = ''host:local-service''"
    by (simp add: executionOwnerId_def hostOwnerId_def demoHost_def)
  ultimately show ?thesis
    by (simp add: drainRunsOnce_def demoHost_candidates io_defs drainLoop_def drainOne_def settledCandidate_def Let_def
        settledRecord_plan drainState_def isActionable_def drainRecovered_def drainRunnable_def truthy_def skipRun_def
        pushDrained_def updateDrain_def settleDeferred_def)
qed

lemma demoHost_idle:
  "\<exists>res. drainRunsUntilIdle demoHost None demoDrain (demoWorld, 0) = (Inr res, (demoWorld, 0))
     \<and> map dr_runId (dn_drained res) = [''r'']"
proof -
  have "run_status (bdl_run (rec_bundle settledRecord)) = RunPlanned" by (simp add: settledRecord_def demo_simps)
  then have "targetSettled demoHost (Some ''r'') demoWorld = (Inr False, demoWorld)"
    by (simp add: targetSettled_def truthyText_def demoHost_read io_defs isTerminalExecutionRunStatus_def)
  then show ?thesis
    by (simp add: drainRunsUntilIdle_def demoDrain_def numeral_eq_Suc drainPasses.simps io_defs demoHost_drains mergePass_def
        mergeEntry_def Let_def)
qed

lemma drain_stays_within_limits_witness:
  "\<exists>res. drainRunsUntilIdle demoHost None demoDrain (demoWorld, 0) = (Inr res, (demoWorld, 0))
     \<and> length (dn_executedRunIds res) \<le> 3 \<and> dn_iterations res \<le> 8"
proof -
  obtain res where res: "drainRunsUntilIdle demoHost None demoDrain (demoWorld, 0) = (Inr res, (demoWorld, 0))"
    using demoHost_idle by (elim exE conjE)
  have "do_maxRuns (io_drain demoDrain) = Some 3" "io_maxPasses demoDrain = None" by (simp_all add: demoDrain_def)
  note bounds = drain_stays_within_limits [OF res, unfolded this orElse_simps]
  have "length (dn_executedRunIds res) \<le> 3" "dn_iterations res \<le> 8" using bounds by linarith+
  then show ?thesis by (intro exI [of _ res] conjI res)
qed

lemma drain_report_is_consistent_example:
  "\<exists>res. drainRunsUntilIdle demoHost None demoDrain (demoWorld, 0) = (Inr res, (demoWorld, 0))
     \<and> map dr_runId (dn_drained res) = [''r'']
     \<and> dn_executedRunIds res = map dr_runId (filter dr_executed (dn_drained res))"
proof -
  obtain res where res: "drainRunsUntilIdle demoHost None demoDrain (demoWorld, 0) = (Inr res, (demoWorld, 0))"
    "map dr_runId (dn_drained res) = [''r'']" using demoHost_idle by (elim exE conjE)
  show ?thesis by (intro exI [of _ res] conjI res drain_report_is_consistent [OF res(1), THEN conjunct1])
qed

end
