(* ===== verification/Host_Control.thy ===== *)
theory Host_Control
  imports Host_Drain
begin

text \<open>
  What an operator may ask of the service host (\<open>src/runtime/serviceHost.ts\<close>): cancelling a run,
  resuming a run that waits for a human, draining one run, resolving a local action request, repairing
  a stale lease, and claiming a run for the local runner on the scheduler's authority; and the life of
  the local runner's own registration.
\<close>

section \<open>Cancelling a run\<close>

fun runStatusText :: "executionRunStatus \<Rightarrow> string" where
  "runStatusText RunPlanned = ''planned''"
| "runStatusText RunRunning = ''running''"
| "runStatusText RunSucceeded = ''succeeded''"
| "runStatusText RunFailed = ''failed''"
| "runStatusText RunCancelled = ''cancelled''"

datatype cancelStatus = CancelNotFound | CancelDone | CancelNotActive | CancelNotOwned

record cancelAction =
  ca_runId :: string
  ca_status :: cancelStatus
  ca_cancelled :: bool
  ca_reason :: string

definition hasCancelableExecutionRunWork :: "storedRecord \<Rightarrow> bool" where
  "hasCancelableExecutionRunWork rec = list_ex isMutableStep (bdl_steps (rec_bundle rec))"

definition createTerminalCancelRaceResult :: "storedRecord \<Rightarrow> cancelAction" where
  "createTerminalCancelRaceResult rec =
     (let st = run_status (bdl_run (rec_bundle rec)) in
      if st = RunCancelled
      then \<lparr>ca_runId = rec_runId rec, ca_status = CancelDone, ca_cancelled = True, ca_reason = ''run was already cancelled''\<rparr>
      else \<lparr>ca_runId = rec_runId rec, ca_status = CancelNotActive, ca_cancelled = False,
        ca_reason = ''run already '' @ runStatusText st @ ''; cancellation was not applied''\<rparr>)"

text \<open>Both branches persist the cancelled bundle the same way.\<close>

definition persistCancelled ::
  "'w hostDeps \<Rightarrow> string \<Rightarrow> storedRecord \<Rightarrow> runBundle \<Rightarrow> ('w, cancelAction) io \<Rightarrow> ('w, cancelAction) io" where
  "persistCancelled h runId rec b continue =
     ioBind (ioCatch
       (ioBind (controlPersistRun (hd_control h) runId b (Some (rec_revision rec))) (\<lambda>_. ioReturn None))
       (\<lambda>e. ioBind (st_readRecord (hd_control h) runId) (\<lambda>latest. case latest of
          Some r \<Rightarrow> if isTerminalExecutionRunStatus (run_status (bdl_run (rec_bundle r)))
            then ioReturn (Some (createTerminalCancelRaceResult r)) else ioThrow e
        | None \<Rightarrow> ioThrow e)))
     (\<lambda>raced. case raced of Some res \<Rightarrow> ioReturn res | None \<Rightarrow> continue)"

definition cancelUnleased :: "'w hostDeps \<Rightarrow> string \<Rightarrow> string option \<Rightarrow> string \<Rightarrow> storedRecord \<Rightarrow> ('w, cancelAction) io" where
  "cancelUnleased h runId note cancelledAt rec =
     (let st = run_status (bdl_run (rec_bundle rec));
          answer = (\<lambda>status ok why. \<lparr>ca_runId = runId, ca_status = status, ca_cancelled = ok, ca_reason = why\<rparr>)
      in if st = RunCancelled then ioReturn (answer CancelDone True ''run was already cancelled'')
         else if isTerminalExecutionRunStatus st
         then ioReturn (answer CancelNotActive False (''run already '' @ runStatusText st @ ''; cancellation was not applied''))
         else if hasCancelableExecutionRunWork rec
         then
           let why = orElse note (if st = RunPlanned then ''planned run cancelled by service host operator control''
                 else ''run without active lease cancelled by service host operator control'')
           in ioBind (ioLift (cancelExecutionRun (rec_bundle rec) cancelledAt (Some why) (Some ''operator''))) (\<lambda>b.
              persistCancelled h runId rec b (ioReturn (answer CancelDone True why)))
         else ioReturn (answer CancelNotActive False ''run has no active lease to cancel''))"

definition releaseCancelled :: "'w hostDeps \<Rightarrow> string \<Rightarrow> executionRunLease \<Rightarrow> string \<Rightarrow> string \<Rightarrow> ('w, cancelAction) io" where
  "releaseCancelled h runId lease cancelledAt why =
     (let cancelled = \<lparr>ca_runId = runId, ca_status = CancelDone, ca_cancelled = True, ca_reason = why\<rparr> in
      ioBind (ioCatch
        (ioBind (controlReleaseLease (hd_control h) runId (lease_id lease) cancelledAt (Some ''cancelled'')) (\<lambda>_. ioReturn ()))
        (\<lambda>e. ioBind (st_readRecord (hd_control h) runId) (\<lambda>latest. case latest of
           Some r \<Rightarrow> if run_status (bdl_run (rec_bundle r)) = RunCancelled \<and> getActiveExecutionRunLease r = None
             then ioReturn () else ioThrow e
         | None \<Rightarrow> ioThrow e)))
      (\<lambda>_. ioReturn cancelled))"

definition cancelLeased ::
  "'w hostDeps \<Rightarrow> string \<Rightarrow> string option \<Rightarrow> string \<Rightarrow> storedRecord \<Rightarrow> executionRunLease \<Rightarrow> ('w, cancelAction) io" where
  "cancelLeased h runId note cancelledAt rec lease =
     (let why = orElse note ''run cancelled by service host operator control'' in
      if lease_ownerId lease \<noteq> executionOwnerId h
      then ioReturn \<lparr>ca_runId = runId, ca_status = CancelNotOwned, ca_cancelled = False,
        ca_reason = ''active lease is owned by '' @ lease_ownerId lease @ '', not '' @ executionOwnerId h\<rparr>
      else ioBind (ioLift (cancelExecutionRun (rec_bundle rec) cancelledAt (Some why) (Some ''operator''))) (\<lambda>b.
        persistCancelled h runId rec b (releaseCancelled h runId lease cancelledAt why)))"

definition cancelOwnedRun :: "'w hostDeps \<Rightarrow> string \<Rightarrow> string option \<Rightarrow> ('w, cancelAction) io" where
  "cancelOwnedRun h runId note =
     ioBind (hostNow h) (\<lambda>cancelledAt.
     ioBind (st_readRecord (hd_control h) runId) (\<lambda>r. case r of
       None \<Rightarrow> ioReturn \<lparr>ca_runId = runId, ca_status = CancelNotFound, ca_cancelled = False,
         ca_reason = ''run '' @ runId @ '' was not found''\<rparr>
     | Some rec \<Rightarrow> (case getActiveExecutionRunLease rec of
         None \<Rightarrow> cancelUnleased h runId note cancelledAt rec
       | Some lease \<Rightarrow> cancelLeased h runId note cancelledAt rec lease)))"

section \<open>Resuming after a human escalation\<close>

datatype resumeStatus = ResumeNotFound | NotPaused | Resumed

record resumeAction =
  ra_runId :: string
  ra_status :: resumeStatus
  ra_resumed :: bool
  ra_reason :: string
  ra_resumedAt :: "string option"
  ra_resumedStepId :: "string option"

definition pausedForHuman :: "executionRunStep \<Rightarrow> bool" where
  "pausedForHuman s \<longleftrightarrow> step_status s = StepCancelled
     \<and> isRecord (optProp (map_option out_structuredData (step_output s)) ''humanEscalation'')"

definition hostResumeHumanEscalation :: "'w hostDeps \<Rightarrow> string \<Rightarrow> resumeInput \<Rightarrow> ('w, resumeAction) io" where
  "hostResumeHumanEscalation h runId inp =
     ioBind (hostNow h) (\<lambda>resumedAt.
     ioBind (st_readRecord (hd_control h) runId) (\<lambda>r. case r of
       None \<Rightarrow> ioReturn \<lparr>ra_runId = runId, ra_status = ResumeNotFound, ra_resumed = False,
         ra_reason = ''run '' @ runId @ '' was not found'', ra_resumedAt = None, ra_resumedStepId = None\<rparr>
     | Some rec \<Rightarrow> (case find pausedForHuman (bdl_steps (rec_bundle rec)) of
         None \<Rightarrow> ioReturn \<lparr>ra_runId = runId, ra_status = NotPaused, ra_resumed = False,
           ra_reason = ''run '' @ runId @ '' has no cancelled human-escalation step to resume'',
           ra_resumedAt = None, ra_resumedStepId = None\<rparr>
       | Some paused \<Rightarrow>
           ioBind (controlResumeHumanEscalation (hd_control h) runId resumedAt inp) (\<lambda>_.
           ioReturn \<lparr>ra_runId = runId, ra_status = Resumed, ra_resumed = True,
             ra_reason = orElse (ri_note inp) ''run resumed after human escalation'',
             ra_resumedAt = Some resumedAt, ra_resumedStepId = Some (step_id paused)\<rparr>))))"

section \<open>Draining one run\<close>

fun drainReasonText :: "drainReason \<Rightarrow> string" where
  "drainReasonText RunNotFound = ''not-found''"
| "drainReasonText LeaseIsActive = ''active-lease''"
| "drainReasonText HeartbeatIsStale = ''stale-heartbeat''"
| "drainReasonText ClaimOwnerUnavailable = ''claim-owner-unavailable''"
| "drainReasonText NoRunnableStep = ''no-runnable-step''"
| "drainReasonText StrandedRunningNoLease = ''stranded-running-no-lease''"
| "drainReasonText LimitReached = ''limit-reached''"
| "drainReasonText ExecutionGateClosed = ''execution-gate''"

datatype drainStatus = DrainNotFound | DrainExecuted | DrainSkipped

record drainAction =
  da_runId :: string
  da_status :: drainStatus
  da_drained :: bool
  da_reason :: string
  da_skipReason :: "drainReason option"

definition drainEventBundle :: "string \<Rightarrow> string \<Rightarrow> string \<Rightarrow> string \<Rightarrow> drainReason option \<Rightarrow> runBundle \<Rightarrow> runBundle" where
  "drainEventBundle runId eventAt status why skip b =
     (let event = createExecutionRunEvent (runId @ '':event:drain-run:'' @ status @ '':'' @ eventAt) runId EvNoteAdded
            eventAt None None (Some why)
            (Some [(''source'', JStr ''operator''), (''action'', JStr ''drain-run''), (''status'', JStr status),
              (''skipReason'', jsStrOrNull (map_option drainReasonText skip))]);
          ss = bdl_sharedState b
      in b\<lparr>bdl_run := (bdl_run b)\<lparr>run_updatedAt := eventAt\<rparr>, bdl_events := bdl_events b @ [event],
           bdl_sharedState := ss\<lparr>ss_notes := ss_notes ss @ [why], ss_history := ss_history ss @ [event],
             ss_lastUpdatedAt := eventAt\<rparr>\<rparr>)"

definition persistOperatorDrainEvent ::
  "'w hostDeps \<Rightarrow> string \<Rightarrow> string \<Rightarrow> string \<Rightarrow> string \<Rightarrow> drainReason option \<Rightarrow> ('w, unit) io" where
  "persistOperatorDrainEvent h runId eventAt status why skip =
     ioBind (st_readRecord (hd_control h) runId) (\<lambda>r. case r of
       None \<Rightarrow> ioReturn ()
     | Some rec \<Rightarrow> ioBind (controlPersistRun (hd_control h) runId
         (drainEventBundle runId eventAt status why skip (rec_bundle rec)) (Some (rec_revision rec))) (\<lambda>_. ioReturn ()))"

definition drainRun :: "'w hostDeps \<Rightarrow> string \<Rightarrow> ('w \<times> nat, drainAction) io" where
  "drainRun h runId =
     (let missing = \<lparr>da_runId = runId, da_status = DrainNotFound, da_drained = False,
            da_reason = ''run '' @ runId @ '' was not found'', da_skipReason = None\<rparr> in
      ioBind (leftIo (st_readRecord (hd_control h) runId)) (\<lambda>r. case r of
        None \<Rightarrow> ioReturn missing
      | Some rec \<Rightarrow>
          ioBind (drainRunsOnce h None \<lparr>do_runId = Some runId, do_sourceKind = Some (run_sourceKind (bdl_run (rec_bundle rec))),
            do_candidateStatuses = [], do_maxRuns = Some 1\<rparr>) (\<lambda>res. case dn_drained res of
            [] \<Rightarrow> ioReturn missing
          | entry # _ \<Rightarrow>
              ioBind (leftIo (hostNow h)) (\<lambda>eventAt.
              if dr_executed entry
              then
                let why = ''run executed through targeted host drain'' in
                ioBind (leftIo (persistOperatorDrainEvent h runId eventAt ''executed'' why None)) (\<lambda>_.
                ioReturn \<lparr>da_runId = runId, da_status = DrainExecuted, da_drained = True, da_reason = why, da_skipReason = None\<rparr>)
              else
                let why = orElse (dr_detailReason entry) (orElse (map_option drainReasonText (dr_reason entry))
                      ''run was skipped by targeted host drain'') in
                ioBind (leftIo (persistOperatorDrainEvent h runId eventAt ''skipped'' why (dr_reason entry))) (\<lambda>_.
                ioReturn \<lparr>da_runId = runId, da_status = DrainSkipped, da_drained = False, da_reason = why,
                  da_skipReason = dr_reason entry\<rparr>)))))"

section \<open>Resolving a local action request\<close>

datatype requestResolution = ResolveApproved | ResolveRejected | ResolveCancelled

fun resolutionStatus :: "requestResolution \<Rightarrow> localActionRequestStatus" where
  "resolutionStatus ResolveApproved = Approved"
| "resolutionStatus ResolveRejected = Rejected"
| "resolutionStatus ResolveCancelled = ActionCancelled"

fun defaultLocalActionResolutionReason :: "requestResolution \<Rightarrow> string" where
  "defaultLocalActionResolutionReason ResolveApproved = ''local action approved by service host operator control''"
| "defaultLocalActionResolutionReason ResolveRejected = ''local action rejected by service host operator control''"
| "defaultLocalActionResolutionReason ResolveCancelled = ''local action cancelled by service host operator control''"

datatype resolveStatus = RequestResolved | RequestNotFound | RequestNotPending

record resolveAction =
  va_runId :: string
  va_requestId :: string
  va_resolution :: requestResolution
  va_status :: resolveStatus
  va_resolved :: bool
  va_reason :: string
  va_resolvedAt :: "string option"
  va_ownerStepId :: "string option"

definition resolvedRequestOf :: "requestResolution \<Rightarrow> string option \<Rightarrow> string \<Rightarrow> localActionRequest \<Rightarrow> localActionRequest" where
  "resolvedRequestOf resolution note resolvedAt r = r\<lparr>lar_status := resolutionStatus resolution,
     lar_approvedAt := (if resolution = ResolveApproved then Some resolvedAt else lar_approvedAt r),
     lar_completedAt := (if resolution = ResolveApproved then lar_completedAt r else Some resolvedAt),
     lar_resultSummary := Some (orElse note (defaultLocalActionResolutionReason resolution)),
     lar_resultPayload := Some [(''source'', JStr ''operator'')]\<rparr>"

definition resolvedBundle ::
  "string \<Rightarrow> requestResolution \<Rightarrow> string option \<Rightarrow> string \<Rightarrow> localActionRequest \<Rightarrow> runBundle \<Rightarrow> runBundle" where
  "resolvedBundle runId resolution note resolvedAt existing b =
     (let requests = map (\<lambda>r. if lar_id r = lar_id existing then resolvedRequestOf resolution note resolvedAt existing else r)
            (bdl_localActionRequests b);
          owner = lar_ownerStepId existing;
          known = list_ex (\<lambda>s. step_id s = owner) (bdl_steps b);
          ownerRequests = filter (\<lambda>r. lar_ownerStepId r = owner) requests;
          summary = (if known then summarizeLocalActionRequestsForSharedState owner ownerRequests resolvedAt else None);
          outcomeNote = (if known then formatLocalActionOutcomeNote owner ownerRequests else None);
          event = createExecutionRunEvent
            (runId @ '':event:'' @ lar_id existing @ '':'' @ actionStatusText (resolutionStatus resolution) @ '':operator:'' @ resolvedAt)
            runId EvNoteAdded resolvedAt (Some owner) None (Some (orElse note (defaultLocalActionResolutionReason resolution)))
            (Some [(''requestId'', JStr (lar_id existing)),
              (''requestStatus'', JStr (actionStatusText (resolutionStatus resolution))), (''source'', JStr ''operator'')]);
          ss = bdl_sharedState b
      in b\<lparr>bdl_run := (bdl_run b)\<lparr>run_updatedAt := resolvedAt\<rparr>, bdl_localActionRequests := requests,
           bdl_events := bdl_events b @ [event],
           bdl_sharedState := ss\<lparr>
             ss_structuredOutputs := filter (\<lambda>x. so_key x \<noteq> localActionOutcomeKey owner) (ss_structuredOutputs ss)
               @ (case summary of None \<Rightarrow> [] | Some x \<Rightarrow> [x]),
             ss_notes := ss_notes ss @ (case outcomeNote of None \<Rightarrow> [] | Some n \<Rightarrow> [n]),
             ss_history := ss_history ss @ [event], ss_lastUpdatedAt := resolvedAt\<rparr>\<rparr>)"

definition resolveLocalActionRequest ::
  "'w hostDeps \<Rightarrow> string \<Rightarrow> string \<Rightarrow> requestResolution \<Rightarrow> string option \<Rightarrow> ('w, resolveAction) io" where
  "resolveLocalActionRequest h runId requestId resolution note =
     ioBind (hostNow h) (\<lambda>resolvedAt.
     ioBind (st_readRecord (hd_control h) runId) (\<lambda>r.
     let missing = (\<lambda>why. \<lparr>va_runId = runId, va_requestId = requestId, va_resolution = resolution,
           va_status = RequestNotFound, va_resolved = False, va_reason = why, va_resolvedAt = None, va_ownerStepId = None\<rparr>)
     in case r of
       None \<Rightarrow> ioReturn (missing (''run '' @ runId @ '' was not found''))
     | Some rec \<Rightarrow> (case find (\<lambda>x. lar_id x = requestId) (bdl_localActionRequests (rec_bundle rec)) of
         None \<Rightarrow> ioReturn (missing (''local action request '' @ requestId @ '' was not found''))
       | Some existing \<Rightarrow>
           if lar_status existing \<noteq> Requested
           then ioReturn ((missing (''local action request '' @ requestId @ '' is already '' @ actionStatusText (lar_status existing)))
             \<lparr>va_status := RequestNotPending, va_ownerStepId := Some (lar_ownerStepId existing)\<rparr>)
           else
             ioBind (controlPersistRun (hd_control h) runId
               (resolvedBundle runId resolution note resolvedAt existing (rec_bundle rec)) (Some (rec_revision rec))) (\<lambda>_.
             ioReturn \<lparr>va_runId = runId, va_requestId = requestId, va_resolution = resolution, va_status = RequestResolved,
               va_resolved = True, va_reason = orElse note (defaultLocalActionResolutionReason resolution),
               va_resolvedAt = Some resolvedAt, va_ownerStepId = Some (lar_ownerStepId existing)\<rparr>))))"

section \<open>Claiming a run on the scheduler's authority\<close>

record schedulerInput =
  sc_runId :: string
  sc_schedulerId :: string

datatype claimStatus = ClaimNotFound | ClaimBlocked | ClaimConflict | ClaimClaimed | ClaimReassigned

record claimAction =
  cl_runId :: string
  cl_schedulerId :: string
  cl_status :: claimStatus
  cl_claimed :: bool
  cl_mutationAllowed :: bool
  cl_reason :: string
  cl_decision :: "authorityDecision option"
  cl_selectedRunnerId :: "string option"
  cl_localRunnerId :: "string option"
  cl_previousLeaseId :: "string option"
  cl_previousLeaseOwnerId :: "string option"
  cl_newLeaseId :: "string option"
  cl_newLeaseOwnerId :: "string option"

fun authorityDecisionText :: "authorityDecision \<Rightarrow> string" where
  "authorityDecisionText NoOp = ''no-op''"
| "authorityDecisionText ClaimableByLocalRunner = ''claimable-by-local-runner''"
| "authorityDecisionText ClaimableByOtherRunner = ''claimable-by-other-runner''"
| "authorityDecisionText ReassignableAfterExpiredLease = ''reassignable-after-expired-lease''"
| "authorityDecisionText BlockedByActiveLease = ''blocked-active-lease''"
| "authorityDecisionText BlockedByAffinity = ''blocked-affinity''"
| "authorityDecisionText BlockedMissingCapability = ''blocked-missing-capability''"
| "authorityDecisionText BlockedHumanState = ''blocked-human-state''"
| "authorityDecisionText AuthorityNotReady = ''not-ready''"

text \<open>The same replacement as for lease owners, then without leading and trailing dashes.\<close>

definition sanitizeIdFragment :: "string \<Rightarrow> string" where
  "sanitizeIdFragment v =
     (let dash = (\<lambda>c. c = CHR ''-'');
          s = rev (dropWhile dash (rev (dropWhile dash (sanitizeFrom False v))))
      in if s = [] then ''scheduler'' else s)"

definition activeLeasesMatch :: "executionRunLease option \<Rightarrow> executionRunLease option \<Rightarrow> bool" where
  "activeLeasesMatch left right = (case (left, right) of
       (Some l, Some r) \<Rightarrow> lease_id l = lease_id r \<and> lease_ownerId l = lease_ownerId r
         \<and> lease_status l = lease_status r \<and> lease_expiresAt l = lease_expiresAt r
     | (None, None) \<Rightarrow> True
     | _ \<Rightarrow> False)"

definition createBlockedSchedulerClaimResult ::
  "schedulerInput \<Rightarrow> authorityEvaluation \<Rightarrow> string \<Rightarrow> executionRunLease option \<Rightarrow> string \<Rightarrow> claimAction" where
  "createBlockedSchedulerClaimResult inp ev localRunnerId previous why =
     \<lparr>cl_runId = sc_runId inp, cl_schedulerId = sc_schedulerId inp, cl_status = ClaimBlocked, cl_claimed = False,
      cl_mutationAllowed = False, cl_reason = why, cl_decision = Some (au_decision ev),
      cl_selectedRunnerId = au_selectedRunnerId ev, cl_localRunnerId = Some localRunnerId,
      cl_previousLeaseId = map_option lease_id previous, cl_previousLeaseOwnerId = map_option lease_ownerId previous,
      cl_newLeaseId = None, cl_newLeaseOwnerId = None\<rparr>"

definition createConflictSchedulerClaimResult ::
  "schedulerInput \<Rightarrow> authorityEvaluation \<Rightarrow> string \<Rightarrow> executionRunLease option \<Rightarrow> string \<Rightarrow> claimAction" where
  "createConflictSchedulerClaimResult inp ev localRunnerId previous why =
     (createBlockedSchedulerClaimResult inp ev localRunnerId previous why)\<lparr>cl_status := ClaimConflict\<rparr>"

definition appendExecutionRunSchedulerControlEvent ::
  "schedulerInput \<Rightarrow> string \<Rightarrow> executionRunLease option \<Rightarrow> executionRunLease \<Rightarrow> authorityDecision \<Rightarrow> bool \<Rightarrow>
   runBundle \<Rightarrow> runBundle" where
  "appendExecutionRunSchedulerControlEvent inp claimAt previous newLease decision reassigning b =
     (let event = createExecutionRunEvent
            (run_id (bdl_run b) @ '':event:scheduler:'' @ sanitizeIdFragment (sc_schedulerId inp) @ '':'' @ lease_id newLease
              @ '':claim-local-run'')
            (run_id (bdl_run b)) EvNoteAdded claimAt None (Some (lease_id newLease))
            (Some (if reassigning then ''scheduler reassigned expired lease to '' @ lease_ownerId newLease
              else ''scheduler claimed local run for '' @ lease_ownerId newLease))
            (Some [(''source'', JStr ''service-host''), (''operatorControl'', JStr ''scheduler-control''),
              (''action'', JStr ''claim-local-run''), (''schedulerId'', JStr (sc_schedulerId inp)),
              (''decision'', JStr (authorityDecisionText decision)),
              (''futureMutation'', JStr (if reassigning then ''scheduler-reassign-expired-lease'' else ''local-claim'')),
              (''previousLeaseId'', jsStrOrNull (map_option lease_id previous)),
              (''previousLeaseOwnerId'', jsStrOrNull (map_option lease_ownerId previous)),
              (''previousLeaseExpiresAt'', jsStrOrNull (map_option lease_expiresAt previous)),
              (''newLeaseId'', JStr (lease_id newLease)), (''newLeaseOwnerId'', JStr (lease_ownerId newLease)),
              (''newLeaseExpiresAt'', JStr (lease_expiresAt newLease))]);
          ss = bdl_sharedState b
      in b\<lparr>bdl_run := (bdl_run b)\<lparr>run_updatedAt := claimAt\<rparr>, bdl_events := bdl_events b @ [event],
           bdl_sharedState := ss\<lparr>ss_history := ss_history ss @ [event], ss_lastUpdatedAt := claimAt\<rparr>\<rparr>)"

text \<open>The bundle the lease is taken on, or why the previous lease cannot be taken over.\<close>

definition bundleForClaim ::
  "string \<Rightarrow> bool \<Rightarrow> string \<Rightarrow> executionRunLease option \<Rightarrow> runBundle \<Rightarrow> string + runBundle" where
  "bundleForClaim runId reassigning claimAt previous b =
     (if \<not> reassigning then Inr b
      else case previous of
          None \<Rightarrow> Inl (''run '' @ runId @ '' no longer has an expired active lease to reassign'')
        | Some p \<Rightarrow>
            if lease_expiresAt p > claimAt
            then Inl (''run '' @ runId @ '' no longer has an expired active lease to reassign'')
            else let expired = expireExecutionRunLeases b claimAt in
              if lease_id p \<notin> set (el_expiredLeaseIds expired)
              then Inl (''run '' @ runId @ '' active lease '' @ lease_id p @ '' could not be expired for scheduler reassignment'')
              else Inr (el_bundle expired))"

definition persistClaim ::
  "'w hostDeps \<Rightarrow> schedulerInput \<Rightarrow> string \<Rightarrow> string \<Rightarrow> authorityEvaluation \<Rightarrow> executionRunLease option \<Rightarrow> bool \<Rightarrow>
   storedRecord \<Rightarrow> runBundle \<Rightarrow> ('w, claimAction) io" where
  "persistClaim h inp localRunnerId claimAt ev previous reassigning latest b =
     ioBind (ioLift (acquireExecutionRunLease b
       (sc_runId inp @ '':lease:scheduler:'' @ sanitizeIdFragment (sc_schedulerId inp) @ '':'' @ natToStr (rec_revision latest + 1))
       localRunnerId claimAt None
       (addMillisecondsToIsoTimestamp claimAt (orElse (hd_leaseHeartbeatTtlMs h) 15000)))) (\<lambda>acquired.
     ioBind (ioCatch
       (ioBind (controlPersistRun (hd_control h) (sc_runId inp)
          (appendExecutionRunSchedulerControlEvent inp claimAt previous (lm_lease acquired) (au_decision ev) reassigning
            (lm_bundle acquired)) (Some (rec_revision latest))) (\<lambda>r. ioReturn (Inr r)))
       (\<lambda>e. ioReturn (Inl e))) (\<lambda>persisted. case persisted of
       Inl e \<Rightarrow> ioReturn (createConflictSchedulerClaimResult inp ev localRunnerId previous (error_message e))
     | Inr r \<Rightarrow>
         ioBind (recordRunnerActivity (hd_runnersControl h) localRunnerId claimAt (rec_runId r)
           (Some ''service host scheduler claimed local run'')) (\<lambda>_.
         ioReturn \<lparr>cl_runId = sc_runId inp, cl_schedulerId = sc_schedulerId inp,
           cl_status = (if reassigning then ClaimReassigned else ClaimClaimed), cl_claimed = True, cl_mutationAllowed = True,
           cl_reason = (if reassigning
             then ''scheduler reassigned expired lease '' @ orElse (map_option lease_id previous) ''unknown''
               @ '' to local runner '' @ localRunnerId
             else ''scheduler claimed run for local runner '' @ localRunnerId),
           cl_decision = Some (au_decision ev), cl_selectedRunnerId = au_selectedRunnerId ev,
           cl_localRunnerId = Some localRunnerId, cl_previousLeaseId = map_option lease_id previous,
           cl_previousLeaseOwnerId = map_option lease_ownerId previous,
           cl_newLeaseId = Some (lease_id (lm_lease acquired)),
           cl_newLeaseOwnerId = Some (lease_ownerId (lm_lease acquired))\<rparr>)))"

text \<open>The run is read again after the evaluation, and must be the one that was evaluated.\<close>

definition claimLatest ::
  "'w hostDeps \<Rightarrow> schedulerInput \<Rightarrow> string \<Rightarrow> string \<Rightarrow> inspection \<Rightarrow> authorityEvaluation \<Rightarrow> bool \<Rightarrow> ('w, claimAction) io" where
  "claimLatest h inp localRunnerId claimAt insp ev reassigning =
     (let runId = sc_runId inp; previous = getActiveExecutionRunLease (fst insp);
          conflict = (\<lambda>why. ioReturn (createConflictSchedulerClaimResult inp ev localRunnerId previous why))
      in ioBind (st_readRecord (hd_control h) runId) (\<lambda>r. case r of
           None \<Rightarrow> ioReturn ((createBlockedSchedulerClaimResult inp ev localRunnerId previous (''run '' @ runId @ '' was not found''))
             \<lparr>cl_status := ClaimNotFound\<rparr>)
         | Some latest \<Rightarrow>
             if rec_revision latest \<noteq> rec_revision (fst insp)
             then conflict (''run '' @ runId @ '' changed from revision '' @ natToStr (rec_revision (fst insp)) @ '' to ''
               @ natToStr (rec_revision latest) @ '' before scheduler claim'')
             else if \<not> activeLeasesMatch previous (getActiveExecutionRunLease latest)
             then conflict (''run '' @ runId @ '' active lease changed before scheduler claim'')
             else case bundleForClaim runId reassigning claimAt previous (rec_bundle latest) of
                 Inl why \<Rightarrow> conflict why
               | Inr b \<Rightarrow> persistClaim h inp localRunnerId claimAt ev previous reassigning latest b))"

definition claimLocalRunWithSchedulerAuthority :: "'w hostDeps \<Rightarrow> schedulerInput \<Rightarrow> ('w, claimAction) io" where
  "claimLocalRunWithSchedulerAuthority h inp =
     (let runId = sc_runId inp;
          nothing = \<lparr>cl_runId = runId, cl_schedulerId = sc_schedulerId inp, cl_status = ClaimNotFound, cl_claimed = False,
            cl_mutationAllowed = False, cl_reason = ''run '' @ runId @ '' was not found'', cl_decision = None,
            cl_selectedRunnerId = None, cl_localRunnerId = hostRunner h, cl_previousLeaseId = None,
            cl_previousLeaseOwnerId = None, cl_newLeaseId = None, cl_newLeaseOwnerId = None\<rparr>
      in case hostRunner h of
           None \<Rightarrow> ioReturn (nothing\<lparr>cl_status := ClaimBlocked, cl_reason := ''scheduler claim requires a configured server-local runner''\<rparr>)
         | Some localRunnerId \<Rightarrow>
             ioBind (hostNow h) (\<lambda>claimAt.
             ioBind (expireRunners (hd_runnersControl h) claimAt (Some ''service host scheduler claim liveness sweep'')) (\<lambda>_.
             ioBind (controlInspectRun (hd_control h) runId) (\<lambda>i. case i of
               None \<Rightarrow> ioReturn nothing
             | Some insp \<Rightarrow>
                 ioBind (evaluateStoredExecutionRunSchedulerAuthority (hd_localeCompare h) (hd_control h) (hd_runnersControl h)
                   \<lparr>ai_runId = runId, ai_now = claimAt, ai_localRunnerId = Some localRunnerId,
                    ai_affinity = hd_createRunAffinity h insp\<rparr>) (\<lambda>evaluation. case evaluation of
                   None \<Rightarrow> ioReturn nothing
                 | Some ev \<Rightarrow>
                     if au_futureMutation ev \<notin> {MutLocalClaim, MutReassignExpiredLease} \<or> au_selectedRunnerId ev \<noteq> Some localRunnerId
                     then ioReturn (createBlockedSchedulerClaimResult inp ev localRunnerId (getActiveExecutionRunLease (fst insp))
                       (case truthyText (au_selectedRunnerId ev) of
                          Some selected \<Rightarrow> if selected \<noteq> localRunnerId
                            then ''scheduler authority selected '' @ selected @ '', but v1 can only claim local runner '' @ localRunnerId
                            else au_reason ev
                        | None \<Rightarrow> au_reason ev))
                     else claimLatest h inp localRunnerId claimAt insp ev (au_futureMutation ev = MutReassignExpiredLease))))))"

section \<open>Operator controls\<close>

datatype runControl =
    CancelRun string "string option"
  | DrainRun string
  | ResumeHuman string resumeInput

datatype runControlResult = RanCancel cancelAction | RanDrain drainAction | RanResume resumeAction

definition controlRun :: "'w hostDeps \<Rightarrow> runControl \<Rightarrow> ('w \<times> nat, runControlResult) io" where
  "controlRun h inp = (case inp of
       ResumeHuman runId opts \<Rightarrow> ioBind (leftIo (hostResumeHumanEscalation h runId opts)) (\<lambda>r. ioReturn (RanResume r))
     | DrainRun runId \<Rightarrow> ioBind (drainRun h runId) (\<lambda>r. ioReturn (RanDrain r))
     | CancelRun runId note \<Rightarrow> ioBind (leftIo (cancelOwnedRun h runId note)) (\<lambda>r. ioReturn (RanCancel r)))"

definition repairStaleHeartbeatLease :: "'w hostDeps \<Rightarrow> string \<Rightarrow> bool \<Rightarrow> ('w, staleHeartbeatAction) io" where
  "repairStaleHeartbeatLease h runId force =
     ioBind (hostNow h) (\<lambda>repairAt.
     ioBind (expireRunners (hd_runnersControl h) repairAt (Some ''service host stale-heartbeat repair liveness sweep'')) (\<lambda>_.
     ioBind (evaluateAndRepairStaleHeartbeatLease h runId repairAt force) (\<lambda>(action, _). ioReturn action)))"

datatype operatorControl =
    LeaseRepair string "bool option"
  | LocalActionControl string string requestResolution "string option"
  | SchedulerControl schedulerInput
  | RunControl runControl

datatype operatorResult =
    RepairedLease staleHeartbeatAction | ResolvedRequest resolveAction | Scheduled claimAction | Controlled runControlResult

definition controlOperatorAction :: "'w hostDeps \<Rightarrow> operatorControl \<Rightarrow> ('w \<times> nat, operatorResult) io" where
  "controlOperatorAction h inp = (case inp of
       LeaseRepair runId force \<Rightarrow>
         ioBind (leftIo (repairStaleHeartbeatLease h runId (orElse force False))) (\<lambda>r. ioReturn (RepairedLease r))
     | LocalActionControl runId requestId resolution note \<Rightarrow>
         ioBind (leftIo (resolveLocalActionRequest h runId requestId resolution note)) (\<lambda>r. ioReturn (ResolvedRequest r))
     | SchedulerControl control \<Rightarrow>
         ioBind (leftIo (claimLocalRunWithSchedulerAuthority h control)) (\<lambda>r. ioReturn (Scheduled r))
     | RunControl control \<Rightarrow> ioBind (controlRun h control) (\<lambda>r. ioReturn (Controlled r)))"

section \<open>The local runner's registration\<close>

record capabilitySummary =
  cs_serviceIds :: "serviceId list"
  cs_runtimeProfileIds :: "string list"
  cs_browserProfileIds :: "string list"
  cs_serviceAccountIds :: "string list"
  cs_browserCapable :: bool

record lifecycleOptions =
  lc_hostId :: string
  lc_heartbeatTtlMs :: int
  lc_capabilitySummary :: capabilitySummary
  lc_baseLabel :: "string option"
  lc_heartbeatLabel :: "string option"
  lc_shutdownLabel :: "string option"

datatype lifecyclePhase = Register | Heartbeat | Shutdown

text \<open>The service named by \<open>/^service-account:([^:]+):/\<close>.\<close>

definition accountService :: "string \<Rightarrow> string option" where
  "accountService accountId =
     (let prefix = ''service-account:''; rest = drop (length prefix) accountId;
          name = takeWhile (\<lambda>c. c \<noteq> CHR '':'') rest
      in if take (length prefix) accountId = prefix \<and> name \<noteq> [] \<and> length name < length rest then Some name else None)"

definition createLocalRunnerEligibilityNote :: "lifecyclePhase \<Rightarrow> lifecycleOptions \<Rightarrow> string" where
  "createLocalRunnerEligibilityNote phase opts =
     (let label = orElse (lc_baseLabel opts) ''service host local runner'';
          base = (case phase of Register \<Rightarrow> label
            | Heartbeat \<Rightarrow> orElse (lc_heartbeatLabel opts) (label @ '' heartbeat'')
            | Shutdown \<Rightarrow> orElse (lc_shutdownLabel opts) (label @ '' shutdown''));
          caps = lc_capabilitySummary opts;
          accountServices = filter (\<lambda>s. s \<in> set (map serviceText [Chatgpt, Gemini, Grok]))
            (List.map_filter accountService (cs_serviceAccountIds caps))
      in if \<not> cs_browserCapable caps then base
         else if cs_serviceAccountIds caps = [] then base @ ''; service-account affinity not projected''
         else if list_ex (\<lambda>s. serviceText s \<notin> set accountServices) (cs_serviceIds caps)
         then base @ ''; service-account affinity partially projected'' else base)"

record lifecycleState =
  ls_id :: string
  ls_hostId :: string
  ls_status :: executionRunnerStatus
  ls_lastHeartbeatAt :: string
  ls_expiresAt :: string
  ls_lastActivityAt :: "string option"
  ls_lastClaimedRunId :: "string option"

definition projectRunnerLifecycleState :: "executionRunner \<Rightarrow> lifecycleState" where
  "projectRunnerLifecycleState r =
     \<lparr>ls_id = rnr_id r, ls_hostId = rnr_hostId r, ls_status = rnr_status r, ls_lastHeartbeatAt = rnr_lastHeartbeatAt r,
      ls_expiresAt = rnr_expiresAt r, ls_lastActivityAt = rnr_lastActivityAt r, ls_lastClaimedRunId = rnr_lastClaimedRunId r\<rparr>"

definition localHeartbeat :: "string \<Rightarrow> string \<Rightarrow> string \<Rightarrow> lifecycleOptions \<Rightarrow> string \<Rightarrow> heartbeatRunnerInput" where
  "localHeartbeat runnerId heartbeatAt expiresAt opts note =
     (let caps = lc_capabilitySummary opts in
      \<lparr>hr_runnerId = runnerId, hr_heartbeatAt = heartbeatAt, hr_expiresAt = expiresAt,
       hr_serviceIds = Some (cs_serviceIds caps), hr_runtimeProfileIds = Some (cs_runtimeProfileIds caps),
       hr_browserProfileIds = Some (cs_browserProfileIds caps), hr_serviceAccountIds = Some (cs_serviceAccountIds caps),
       hr_browserCapable = Some (cs_browserCapable caps), hr_eligibilityNote = Some note\<rparr>)"

definition localRunnerRecord :: "string \<Rightarrow> string \<Rightarrow> string \<Rightarrow> lifecycleOptions \<Rightarrow> string \<Rightarrow> executionRunner" where
  "localRunnerRecord runnerId heartbeatAt expiresAt opts note =
     (let caps = lc_capabilitySummary opts in createExecutionRunnerRecord
      \<lparr>cni_id = runnerId, cni_hostId = lc_hostId opts, cni_status = None, cni_startedAt = heartbeatAt,
       cni_lastHeartbeatAt = Some heartbeatAt, cni_expiresAt = expiresAt, cni_lastActivityAt = None,
       cni_lastClaimedRunId = None, cni_serviceIds = Some (cs_serviceIds caps),
       cni_runtimeProfileIds = Some (cs_runtimeProfileIds caps), cni_browserProfileIds = Some (cs_browserProfileIds caps),
       cni_serviceAccountIds = Some (cs_serviceAccountIds caps), cni_browserCapable = Some (cs_browserCapable caps),
       cni_eligibilityNote = Some note\<rparr>)"

definition registerLocalRunner :: "'w hostDeps \<Rightarrow> lifecycleOptions \<Rightarrow> ('w, lifecycleState option) io" where
  "registerLocalRunner h opts = (case hostRunner h of
       None \<Rightarrow> ioReturn None
     | Some runnerId \<Rightarrow>
         ioBind (hostNow h) (\<lambda>heartbeatAt.
         let expiresAt = addMillisecondsToIsoTimestamp heartbeatAt (lc_heartbeatTtlMs opts);
             note = createLocalRunnerEligibilityNote Register opts
         in ioBind (ns_readRecord (hd_runnersControl h) runnerId) (\<lambda>existing.
            ioBind (if existing \<noteq> None
              then heartbeatRunner (hd_runnersControl h) (localHeartbeat runnerId heartbeatAt expiresAt opts note)
              else registerRunner (hd_runnersControl h) (localRunnerRecord runnerId heartbeatAt expiresAt opts note)) (\<lambda>rec.
            ioReturn (Some (projectRunnerLifecycleState (rr_runner rec)))))))"

definition heartbeatLocalRunner :: "'w hostDeps \<Rightarrow> lifecycleOptions \<Rightarrow> ('w, lifecycleState option) io" where
  "heartbeatLocalRunner h opts = (case hostRunner h of
       None \<Rightarrow> ioReturn None
     | Some runnerId \<Rightarrow>
         ioBind (hostNow h) (\<lambda>heartbeatAt.
         ioBind (heartbeatRunner (hd_runnersControl h) (localHeartbeat runnerId heartbeatAt
           (addMillisecondsToIsoTimestamp heartbeatAt (lc_heartbeatTtlMs opts)) opts
           (createLocalRunnerEligibilityNote Heartbeat opts))) (\<lambda>rec.
         ioReturn (Some (projectRunnerLifecycleState (rr_runner rec))))))"

definition markLocalRunnerStale :: "'w hostDeps \<Rightarrow> lifecycleOptions \<Rightarrow> ('w, lifecycleState option) io" where
  "markLocalRunnerStale h opts = (case hostRunner h of
       None \<Rightarrow> ioReturn None
     | Some runnerId \<Rightarrow>
         ioBind (hostNow h) (\<lambda>staleAt.
         ioBind (markRunnerStale (hd_runnersControl h) runnerId staleAt (Some (createLocalRunnerEligibilityNote Shutdown opts))) (\<lambda>rec.
         ioReturn (Some (projectRunnerLifecycleState (rr_runner rec))))))"

datatype runnerFreshness = RunnerFresh | RunnerExpired | RunnerIsStale

definition classifyRunnerFreshness :: "executionRunner \<Rightarrow> string \<Rightarrow> runnerFreshness" where
  "classifyRunnerFreshness r nowIso =
     (if rnr_status r = RunnerStale then RunnerIsStale else if rnr_expiresAt r \<le> nowIso then RunnerExpired else RunnerFresh)"

record topologyEntry =
  te_runner :: executionRunner
  te_freshness :: runnerFreshness
  te_selectedAsLocalExecutionOwner :: bool

record topologySummary =
  ts_localExecutionOwnerRunnerId :: "string option"
  ts_generatedAt :: string
  ts_runners :: "topologyEntry list"
  ts_totalRunnerCount :: nat
  ts_activeRunnerCount :: nat
  ts_staleRunnerCount :: nat
  ts_freshRunnerCount :: nat
  ts_expiredRunnerCount :: nat
  ts_browserCapableRunnerCount :: nat

definition summarizeRunnerTopology :: "'w hostDeps \<Rightarrow> ('w, topologySummary) io" where
  "summarizeRunnerTopology h =
     ioBind (hostNow h) (\<lambda>generatedAt.
     ioBind (controlListRunners (hd_runnersControl h) allRunners) (\<lambda>recs.
     let runners = map (\<lambda>rec. \<lparr>te_runner = rr_runner rec, te_freshness = classifyRunnerFreshness (rr_runner rec) generatedAt,
           te_selectedAsLocalExecutionOwner = (hd_runnerId h = Some (rnr_id (rr_runner rec)))\<rparr>) recs;
         count = (\<lambda>p. length (filter p runners))
     in ioReturn \<lparr>ts_localExecutionOwnerRunnerId = hd_runnerId h, ts_generatedAt = generatedAt, ts_runners = runners,
       ts_totalRunnerCount = length runners,
       ts_activeRunnerCount = count (\<lambda>r. rnr_status (te_runner r) = RunnerActive),
       ts_staleRunnerCount = count (\<lambda>r. rnr_status (te_runner r) = RunnerStale),
       ts_freshRunnerCount = count (\<lambda>r. te_freshness r = RunnerFresh),
       ts_expiredRunnerCount = count (\<lambda>r. te_freshness r = RunnerExpired),
       ts_browserCapableRunnerCount = count (\<lambda>r. rnr_browserCapable (te_runner r))\<rparr>))"

end
