(* ===== verification/Host_Control_Results.thy ===== *)
theory Host_Control_Results
  imports Host_Control
begin

text \<open>
  What the operator controls of the service host do to the stored runs: cancelling, resolving a local
  action request, and claiming a run on the scheduler's authority.
\<close>

text \<open>Whether the operator's cancellation applies to the run.\<close>

definition cancels :: "'w hostDeps \<Rightarrow> storedRecord \<Rightarrow> bool" where
  "cancels h rec \<longleftrightarrow> hasCancelableExecutionRunWork rec \<and> (case getActiveExecutionRunLease rec of
     None \<Rightarrow> \<not> isTerminalExecutionRunStatus (run_status (bdl_run (rec_bundle rec)))
   | Some l \<Rightarrow> lease_ownerId l = executionOwnerId h)"

section \<open>Persisting and releasing\<close>

context revisionStore
begin

lemma persist_ok:
  assumes "peek w runId = Inr (Some r)" "run_id (bdl_run b) = runId"
  obtains r' w' where "controlPersistRun S runId b (Some (rec_revision r)) w = (Inr r', w')"
    "rec_revision r' = rec_revision r + 1" "rec_bundle r' = b" "rec_runId r' = runId" "peek w' runId = Inr (Some r')"
proof (rule write_cases [of b "\<lparr>wo_expectedRevision = Some (rec_revision r), wo_persistedAt = None\<rparr>" w])
  let ?opts = "\<lparr>wo_expectedRevision = Some (rec_revision r), wo_persistedAt = None\<rparr>"
  fix e assume "st_writeRecord S b ?opts w = (Inl e, w)"
  moreover have "\<exists>r' w'. st_writeRecord S b ?opts w = (Inr r', w')"
    using assms write_ok_iff [of w b "Some r" ?opts] by (simp add: revisionOf_def)
  ultimately show thesis by simp
next
  let ?opts = "\<lparr>wo_expectedRevision = Some (rec_revision r), wo_persistedAt = None\<rparr>"
  fix cur r' w'
  assume *: "st_writeRecord S b ?opts w = (Inr r', w')" "peek w (run_id (bdl_run b)) = Inr cur"
    "rec_revision r' = revisionOf cur + 1" "rec_bundle r' = b" "rec_runId r' = run_id (bdl_run b)"
    "peek w' (run_id (bdl_run b)) = Inr (Some r')"
  from assms *(2) have "cur = Some r" by simp
  with * assms(2) show thesis by (intro that [of r' w']) (simp_all add: controlPersistRun_def revisionOf_def)
qed

text \<open>Cancelling the work of a run leaves its leases alone and no step to cancel.\<close>

lemma cancelled_bundle:
  assumes "list_ex isMutableStep (bdl_steps b)" "wfBundle b"
  obtains b' where "cancelExecutionRun b t0 note src = Inr b'" "wfBundle b'" "bdl_leases b' = bdl_leases b"
    "run_id (bdl_run b') = run_id (bdl_run b)" "run_status (bdl_run b') = RunCancelled"
    "\<not> list_ex isMutableStep (bdl_steps b')"
proof -
  obtain b' where b': "cancelExecutionRun b t0 note src = Inr b'"
    using assms(1) by (simp add: cancelExecutionRun_def Let_def)
  from cancelRun_Inr [OF b'] obtain out e where s: "sameShape b (cancelledStep t0 out) [e] b'"
    "run_status (bdl_run b') = RunCancelled" by blast
  have "\<not> isMutableStep (cancelledStep t0 out s)" for s by (simp add: cancelledStep_def isMutableStep_def)
  then have "\<not> list_ex isMutableStep (bdl_steps b')" using s(1) by (simp add: sameShape_def list_ex_iff)
  moreover have "bdl_leases b' = bdl_leases b" "run_id (bdl_run b') = run_id (bdl_run b)"
    using s(1) by (simp_all add: sameShape_def)
  ultimately show thesis using that [OF b' sameShape_wf [OF s(1) assms(2)]] s(2) by blast
qed

lemma persistCancelled_ok:
  assumes "hd_control h = S" "peek w runId = Inr (Some r)" "run_id (bdl_run b) = runId"
  obtains r' w' where "persistCancelled h runId r b continue w = continue w'"
    "rec_bundle r' = b" "rec_runId r' = runId" "peek w' runId = Inr (Some r')"
proof -
  obtain r' w' where "controlPersistRun S runId b (Some (rec_revision r)) w = (Inr r', w')"
    "rec_bundle r' = b" "rec_runId r' = runId" "peek w' runId = Inr (Some r')" by (rule persist_ok [OF assms(2,3)])
  with assms(1) show thesis by (intro that [of w' r']) (simp_all add: persistCancelled_def io_defs)
qed

lemma releaseCancelled_ok:
  assumes "hd_control h = S" "peek w runId = Inr (Some r)" "storedRecordOk runId r"
    and "getActiveExecutionRunLease r = Some l"
  obtains r' w' where "releaseCancelled h runId l t0 why w = (Inr \<lparr>ca_runId = runId, ca_status = CancelDone,
      ca_cancelled = True, ca_reason = why\<rparr>, w')"
    "peek w' runId = Inr (Some r')" "getActiveExecutionRunLease r' = None"
    "run_status (bdl_run (rec_bundle r')) = run_status (bdl_run (rec_bundle r))"
    "bdl_steps (rec_bundle r') = bdl_steps (rec_bundle r)"
proof -
  let ?b = "rec_bundle r"
  have wf: "wfBundle ?b" and rid: "run_id (bdl_run ?b) = runId" using assms(3) by (simp_all add: storedRecordOk_def)
  have act: "activeLeaseOf ?b = Some l" using assms(4) by (simp add: getActiveExecutionRunLease_def)
  obtain m where m: "releaseExecutionRunLease ?b (lease_id l) t0 (Some ''cancelled'') = Inr m" "activeLeaseOf (lm_bundle m) = None"
    using release_active [OF wf act] by blast
  from release_Inr [OF m(1)] have b: "lm_bundle m = replaceLeaseMutation ?b (lm_lease m) (lm_event m) t0" by blast
  then have id: "run_id (bdl_run (lm_bundle m)) = runId" using rid by (simp add: replaceLeaseMutation_def)
  obtain r' w' where "controlReleaseLease S runId (lease_id l) t0 (Some ''cancelled'') w = (Inr r', w')"
    "rec_bundle r' = lm_bundle m" "peek w' runId = Inr (Some r')"
    by (rule update_ok [OF assms(2), of "\<lambda>b. releaseExecutionRunLease b (lease_id l) t0 (Some ''cancelled'')" m lm_bundle,
      OF m(1) id, folded controlReleaseLease_def])
  with assms(1) m(2) b show thesis
    by (intro that [of w' r']) (simp_all add: releaseCancelled_def io_defs Let_def getActiveExecutionRunLease_def
      replaceLeaseMutation_def)
qed

lemma cancel_applies:
  assumes host: "hd_control h = S" "hd_now h w = (t0, w)"
    and rec: "peek w runId = Inr (Some rec)" "storedRecordOk runId rec" and yes: "cancels h rec"
  obtains res w' r' where "cancelOwnedRun h runId note w = (Inr res, w')" "ca_status res = CancelDone"
    "peek w' runId = Inr (Some r')" "run_status (bdl_run (rec_bundle r')) = RunCancelled"
    "getActiveExecutionRunLease r' = None" "\<not> hasCancelableExecutionRunWork r'"
proof -
  have wf: "wfBundle (rec_bundle rec)" and rid: "run_id (bdl_run (rec_bundle rec)) = runId"
    using rec(2) by (simp_all add: storedRecordOk_def)
  have work: "list_ex isMutableStep (bdl_steps (rec_bundle rec))"
    using yes by (simp add: cancels_def hasCancelableExecutionRunWork_def)
  define why where "why = (case getActiveExecutionRunLease rec of
      None \<Rightarrow> orElse note (if run_status (bdl_run (rec_bundle rec)) = RunPlanned
        then ''planned run cancelled by service host operator control''
        else ''run without active lease cancelled by service host operator control'')
    | Some l \<Rightarrow> orElse note ''run cancelled by service host operator control'')"
  obtain b where b: "cancelExecutionRun (rec_bundle rec) t0 (Some why) (Some ''operator'') = Inr b" "wfBundle b"
    "bdl_leases b = bdl_leases (rec_bundle rec)" "run_id (bdl_run b) = run_id (bdl_run (rec_bundle rec))"
    "run_status (bdl_run b) = RunCancelled" "\<not> list_ex isMutableStep (bdl_steps b)"
    by (rule cancelled_bundle [OF work wf])
  define cont where "cont = (case getActiveExecutionRunLease rec of
      None \<Rightarrow> ioReturn \<lparr>ca_runId = runId, ca_status = CancelDone, ca_cancelled = True, ca_reason = why\<rparr>
    | Some l \<Rightarrow> releaseCancelled h runId l t0 why)"
  have start: "cancelOwnedRun h runId note w = persistCancelled h runId rec b cont w"
    using yes b(1) rec(1) host
    by (cases "getActiveExecutionRunLease rec") (auto simp: cancelOwnedRun_def hostNow_def io_defs st_readRecord_eq
      cancelUnleased_def cancelLeased_def cancels_def Let_def why_def cont_def isTerminalExecutionRunStatus_def)
  obtain r1 w1 where w1: "persistCancelled h runId rec b cont w = cont w1" "rec_bundle r1 = b"
    "rec_runId r1 = runId" "peek w1 runId = Inr (Some r1)"
    using persistCancelled_ok [OF host(1) rec(1), of b cont] b(4) rid by metis
  show thesis
  proof (cases "getActiveExecutionRunLease rec")
    case None
    with w1 start b that show thesis
      by (simp add: cont_def ioReturn_def getActiveExecutionRunLease_def activeLeaseOf_def hasCancelableExecutionRunWork_def)
  next
    case (Some l)
    with b(3) w1(2) have "getActiveExecutionRunLease r1 = Some l"
      by (simp add: getActiveExecutionRunLease_def activeLeaseOf_def)
    moreover have "storedRecordOk runId r1" using w1(2,3) b(2,4) rid by (simp add: storedRecordOk_def)
    ultimately obtain r' w' where "releaseCancelled h runId l t0 why w1 = (Inr \<lparr>ca_runId = runId, ca_status = CancelDone,
        ca_cancelled = True, ca_reason = why\<rparr>, w')" "peek w' runId = Inr (Some r')" "getActiveExecutionRunLease r' = None"
      "run_status (bdl_run (rec_bundle r')) = run_status (bdl_run (rec_bundle r1))"
      "bdl_steps (rec_bundle r') = bdl_steps (rec_bundle r1)"
      using releaseCancelled_ok [OF host(1) w1(4)] by blast
    with Some w1 start b that show thesis by (simp add: cont_def hasCancelableExecutionRunWork_def)
  qed
qed

text \<open>In every other case the call leaves the world as it was, whatever it answers.\<close>

lemma cancel_refused:
  assumes host: "hd_control h = S" "hd_now h w = (t0, w)"
    and rec: "peek w runId = Inr (Some rec)" and no: "\<not> cancels h rec"
  shows "snd (cancelOwnedRun h runId note w) = w"
proof (cases "getActiveExecutionRunLease rec")
  case None
  with no have "isTerminalExecutionRunStatus (run_status (bdl_run (rec_bundle rec))) \<or> \<not> hasCancelableExecutionRunWork rec"
    by (auto simp: cancels_def)
  with None host rec show ?thesis
    by (auto simp: cancelOwnedRun_def hostNow_def io_defs st_readRecord_eq cancelUnleased_def Let_def)
next
  case (Some l)
  with no have "lease_ownerId l \<noteq> executionOwnerId h \<or> \<not> list_ex isMutableStep (bdl_steps (rec_bundle rec))"
    by (auto simp: cancels_def hasCancelableExecutionRunWork_def)
  with Some host rec show ?thesis
    by (auto simp: cancelOwnedRun_def hostNow_def io_defs st_readRecord_eq cancelLeased_def Let_def cancelExecutionRun_def)
qed

end

text \<open>C35. An operator cancels a run exactly when nobody else holds it and there is work left: a stored run
  with an active lease of this host, or one without a lease that is not finished, is cancelled when it
  has a step to cancel - afterwards it is stored as cancelled, holds no lease and has no step left to
  cancel. In every other case (another owner, a finished run, nothing to cancel) nothing is written.\<close>

theorem cancel_takes_effect_iff_owned:
  fixes w :: "runFs \<times> 'x"
  assumes "hd_control h = leftStore (createExecutionRunRecordStore parse le)" and "hd_now h w = (t0, w)"
    and "readExecutionRunStoredRecord (fst w) runId = Inr (Some rec)" and "storedRecordOk runId rec"
  shows "if cancels h rec
    then \<exists>res w' r'. cancelOwnedRun h runId note w = (Inr res, w') \<and> ca_status res = CancelDone
      \<and> readExecutionRunStoredRecord (fst w') runId = Inr (Some r')
      \<and> run_status (bdl_run (rec_bundle r')) = RunCancelled \<and> getActiveExecutionRunLease r' = None
      \<and> \<not> hasCancelableExecutionRunWork r'
    else snd (cancelOwnedRun h runId note w) = w"
proof -
  have peek: "runStore.peek parse le w runId = Inr (Some rec)"
    using assms(3) by (simp add: runStore.peek_def leftIo_fst)
  show ?thesis
  proof (cases "cancels h rec")
    case True
    obtain res w' r' where "cancelOwnedRun h runId note w = (Inr res, w')" "ca_status res = CancelDone"
      "runStore.peek parse le w' runId = Inr (Some r')" "run_status (bdl_run (rec_bundle r')) = RunCancelled"
      "getActiveExecutionRunLease r' = None" "\<not> hasCancelableExecutionRunWork r'"
      by (rule runStore.cancel_applies [OF assms(1,2) peek assms(4) True])
    with True show ?thesis by (auto simp: runStore.peek_def leftIo_fst)
  next
    case False
    with runStore.cancel_refused [OF assms(1,2) peek False] show ?thesis by simp
  qed
qed

text \<open>
  The witness is a run that has failed and whose owner, this host, has not released its lease yet: the
  branch for a leased run does not ask whether the run is finished, and the failed run is stored as
  cancelled.
\<close>

definition failedLeasedRecord :: storedRecord where
  "failedLeasedRecord = \<lparr>rec_runId = ''r'', rec_revision = 3, rec_persistedAt = ''t0'',
     rec_bundle = (demoBundle [demoStep ''a'' 1 StepFailed [], demoStep ''b'' 2 StepPlanned [''a'']]
         [demoLease ''l'' ''host:local-service'' LeaseActive ''t9''])
       \<lparr>bdl_run := (bdl_run (demoBundle [demoStep ''a'' 1 StepFailed [], demoStep ''b'' 2 StepPlanned [''a''] ] []))
         \<lparr>run_status := RunFailed\<rparr>\<rparr>\<rparr>"

lemma failedLeasedRecord_facts:
  "storedRecordOk ''r'' failedLeasedRecord" "cancels demoHost failedLeasedRecord"
  "run_status (bdl_run (rec_bundle failedLeasedRecord)) = RunFailed" "rec_runId failedLeasedRecord = ''r''"
proof -
  have "wfBundle (demoBundle [demoStep ''a'' 1 StepFailed [], demoStep ''b'' 2 StepPlanned [''a'']]
      [demoLease ''l'' ''host:local-service'' LeaseActive ''t9''])"
    by (rule demoBundle_wf) (simp_all add: demoStep_def demoLease_def isActiveLease_def)
  then show "storedRecordOk ''r'' failedLeasedRecord"
    by (simp add: storedRecordOk_def failedLeasedRecord_def wfBundle_def activeLeases_def demo_simps)
  show "cancels demoHost failedLeasedRecord"
    by (simp add: cancels_def hasCancelableExecutionRunWork_def getActiveExecutionRunLease_def activeLeaseOf_def
        failedLeasedRecord_def isMutableStep_def isActiveLease_def demoLease_def demo_simps executionOwnerId_def hostOwnerId_def
        demoHost_def)
qed (simp_all add: failedLeasedRecord_def)

lemma cancel_takes_effect_iff_owned_witness:
  "run_status (bdl_run (rec_bundle failedLeasedRecord)) = RunFailed
   \<and> (\<exists>res w' r'. cancelOwnedRun demoHost ''r'' None (fsWith failedLeasedRecord, emptyRunnerFs) = (Inr res, w')
      \<and> ca_status res = CancelDone \<and> readExecutionRunStoredRecord (fst w') ''r'' = Inr (Some r')
      \<and> run_status (bdl_run (rec_bundle r')) = RunCancelled)"
proof -
  let ?w = "(fsWith failedLeasedRecord, emptyRunnerFs)"
  have "hd_now demoHost ?w = (''t5'', ?w)" by (simp add: demoHost_def)
  moreover have "readExecutionRunStoredRecord (fst ?w) ''r'' = Inr (Some failedLeasedRecord)"
    by (simp add: fsWith_read failedLeasedRecord_facts(4))
  ultimately show ?thesis
    using cancel_takes_effect_iff_owned [OF demoHost_stores(1), of ?w "''t5''" "''r''" failedLeasedRecord None]
      failedLeasedRecord_facts by auto
qed

section \<open>Calls that leave the runs alone\<close>

text \<open>In a world of two stores, a call of the runner registry does not touch the runs.\<close>

named_theorems leaves_runs "calls that do not touch the runs"

definition leavesRuns :: "('a \<times> 'b, 'x) io \<Rightarrow> bool" where
  "leavesRuns m \<longleftrightarrow> (\<forall>w. fst (snd (m w)) = fst w)"

lemma leavesRunsD: "leavesRuns m \<Longrightarrow> m w = (r, w') \<Longrightarrow> fst w' = fst w"
  unfolding leavesRuns_def by (metis snd_conv)

lemma leaves_bind [leaves_runs]:
  assumes "leavesRuns m" "\<And>a. leavesRuns (k a)"
  shows "leavesRuns (ioBind m k)"
  unfolding leavesRuns_def
proof
  fix w
  obtain x w1 where x: "m w = (x, w1)" by (cases "m w")
  with leavesRunsD [OF assms(1)] have "fst w1 = fst w" by blast
  moreover have "fst (snd (k a v)) = fst v" for a v using assms(2) [of a] unfolding leavesRuns_def by blast
  ultimately show "fst (snd (ioBind m k w)) = fst w" using x by (cases x) (simp_all add: ioBind_def)
qed

lemma leaves_catch [leaves_runs]:
  assumes "leavesRuns m" "\<And>e. leavesRuns (k e)"
  shows "leavesRuns (ioCatch m k)"
  unfolding leavesRuns_def
proof
  fix w
  obtain x w1 where x: "m w = (x, w1)" by (cases "m w")
  with leavesRunsD [OF assms(1)] have "fst w1 = fst w" by blast
  moreover have "fst (snd (k a v)) = fst v" for a v using assms(2) [of a] unfolding leavesRuns_def by blast
  ultimately show "fst (snd (ioCatch m k w)) = fst w" using x by (cases x) (simp_all add: ioCatch_def)
qed

lemma leaves_basic [leaves_runs]: "leavesRuns (ioReturn a)" "leavesRuns (ioThrow e)" "leavesRuns (ioLift x)" "leavesRuns (rightIo n)"
  by (auto simp: leavesRuns_def io_defs rightIo_def split: prod.split sum.split)

lemma leaves_if [leaves_runs]: "leavesRuns m \<Longrightarrow> leavesRuns n \<Longrightarrow> leavesRuns (if c then m else n)"
  by simp

lemma leaves_option [leaves_runs]: "leavesRuns m \<Longrightarrow> (\<And>y. leavesRuns (k y)) \<Longrightarrow> leavesRuns (case x of None \<Rightarrow> m | Some y \<Rightarrow> k y)"
  by (cases x) simp_all

lemma leaves_registry [leaves_runs]: "leavesRuns (ns_writeRunner (rightStore N) r opts)"
  by (simp add: rightStore_def leaves_basic)

lemma leaves_attempts: "leavesRuns (updateRunnerAttempts (rightStore N) i build n e)"
  by (induction n arbitrary: e)
    (auto simp: updateRunnerAttempts.simps requireStoredRunnerRecord_def split: prod.split intro!: leaves_runs)

lemma leaves_records: "leavesRuns (readRunnerRecords (rightStore N) rs)"
  by (induction rs) (auto intro!: leaves_runs)

lemma leaves_due: "leavesRuns (markDueRunners (rightStore N) now why recs)"
  by (induction recs) (auto simp: markRunnerStale_def requireStoredRunnerRecord_def intro!: leaves_runs)

lemma leaves_expire: "leavesRuns (expireRunners (rightStore N) now why)"
  unfolding expireRunners_def controlListRunners_def rightStore_simps
  by (intro leaves_runs leaves_due leaves_records)

lemma leaves_activity: "leavesRuns (recordRunnerActivity (rightStore N) i t runId why)"
  unfolding recordRunnerActivity_def updateRunnerWithRevisionRetry_def by (rule leaves_attempts)

lemma leaves_read [leaves_runs]: "leavesRuns (st_readRecord (leftStore (createExecutionRunRecordStore parse le)) i)"
  by (auto simp: leavesRuns_def leftIo_def createExecutionRunRecordStore_def)

lemma leaves_authority:
  "leavesRuns (evaluateStoredExecutionRunSchedulerAuthority cmp (leftStore (createExecutionRunRecordStore parse le)) (rightStore N) inp)"
  unfolding evaluateStoredExecutionRunSchedulerAuthority_def controlInspectRun_def controlListRunners_def rightStore_simps
  by (intro leaves_runs leaves_records)

section \<open>A claim on the scheduler's authority\<close>

text \<open>What a claim does to the runs, once the evaluation allows it.\<close>

lemma bundleForClaim_free:
  assumes "bundleForClaim runId reassigning t0 (activeLeaseOf b) b = Inr b'" "wfBundle b"
    and "reassigning \<or> activeLeaseOf b = None"
  shows "activeLeaseOf b' = None" "bdl_steps b' = bdl_steps b" "run_id (bdl_run b') = run_id (bdl_run b)"
    "\<forall>p. activeLeaseOf b = Some p \<longrightarrow> lease_expiresAt p \<le> t0"
proof -
  have keeps: "run_id (bdl_run (el_bundle (expireExecutionRunLeases b t0))) = run_id (bdl_run b)"
    by (simp add: expireExecutionRunLeases_def Let_def)
  consider "activeLeaseOf b = None" "b' = b"
    | p where "activeLeaseOf b = Some p" "lease_expiresAt p \<le> t0" "b' = el_bundle (expireExecutionRunLeases b t0)"
    using assms(1,3) by (auto simp: bundleForClaim_def Let_def split: if_splits option.splits)
  then have "activeLeaseOf b' = None \<and> bdl_steps b' = bdl_steps b \<and> run_id (bdl_run b') = run_id (bdl_run b)
    \<and> (\<forall>p. activeLeaseOf b = Some p \<longrightarrow> lease_expiresAt p \<le> t0)"
    by cases (simp_all add: keeps expired_no_active(1) [OF assms(2)])
  then show "activeLeaseOf b' = None" "bdl_steps b' = bdl_steps b" "run_id (bdl_run b') = run_id (bdl_run b)"
    "\<forall>p. activeLeaseOf b = Some p \<longrightarrow> lease_expiresAt p \<le> t0" by blast+
qed

lemma appendControl_simps:
  "bdl_leases (appendExecutionRunSchedulerControlEvent inp t p l d re b) = bdl_leases b"
  "bdl_steps (appendExecutionRunSchedulerControlEvent inp t p l d re b) = bdl_steps b"
  "run_id (bdl_run (appendExecutionRunSchedulerControlEvent inp t p l d re b)) = run_id (bdl_run b)"
  by (simp_all add: appendExecutionRunSchedulerControlEvent_def Let_def)

definition claimedFor :: "storedRecord \<Rightarrow> string \<Rightarrow> string \<Rightarrow> claimAction \<Rightarrow> storedRecord \<Rightarrow> bool" where
  "claimedFor rec t0 me res r' \<longleftrightarrow> (\<exists>l. getActiveExecutionRunLease r' = Some l \<and> lease_ownerId l = me
     \<and> cl_newLeaseId res = Some (lease_id l) \<and> rec_revision r' = rec_revision rec + 1
     \<and> bdl_steps (rec_bundle r') = bdl_steps (rec_bundle rec))
     \<and> (\<forall>p. getActiveExecutionRunLease rec = Some p \<longrightarrow> lease_expiresAt p \<le> t0)"

lemma persistClaim_claims:
  fixes w :: "runFs \<times> runnerFs"
  assumes stores: "hd_control h = leftStore (createExecutionRunRecordStore parse le)"
      "hd_runnersControl h = rightStore (createExecutionRunnerRecordStore le')"
    and rec: "readExecutionRunStoredRecord (fst w) (sc_runId inp) = Inr (Some rec)" "storedRecordOk (sc_runId inp) rec"
    and b: "bundleForClaim (sc_runId inp) re t0 (getActiveExecutionRunLease rec) (rec_bundle rec) = Inr b"
      "re \<or> getActiveExecutionRunLease rec = None"
    and go: "persistClaim h inp me t0 ev p re rec b w = (Inr res, w')"
  shows "cl_claimed res \<and> (\<exists>r'. readExecutionRunStoredRecord (fst w') (sc_runId inp) = Inr (Some r') \<and> claimedFor rec t0 me res r')"
proof -
  have wf: "wfBundle (rec_bundle rec)" and rid: "run_id (bdl_run (rec_bundle rec)) = sc_runId inp"
    using rec(2) by (simp_all add: storedRecordOk_def)
  note free = bundleForClaim_free [OF b(1) [unfolded getActiveExecutionRunLease_def] wf b(2) [unfolded getActiveExecutionRunLease_def]]
  let ?id = "sc_runId inp @ '':lease:scheduler:'' @ sanitizeIdFragment (sc_schedulerId inp) @ '':'' @ natToStr (rec_revision rec + 1)"
  obtain m where m: "acquireExecutionRunLease b ?id me t0 None
      (addMillisecondsToIsoTimestamp t0 (orElse (hd_leaseHeartbeatTtlMs h) 15000)) = Inr m"
    using free(1) by (simp add: acquireExecutionRunLease_def Let_def)
  from acquire_Inr [OF m] have lm: "lm_bundle m = appendLeaseMutation b (lm_lease m) (lm_event m) t0"
    "lease_ownerId (lm_lease m) = me" "lease_status (lm_lease m) = LeaseActive" by blast+
  let ?b = "appendExecutionRunSchedulerControlEvent inp t0 p (lm_lease m) (au_decision ev) re (lm_bundle m)"
  have idb: "run_id (bdl_run ?b) = sc_runId inp" using lm(1) free(3) rid by (simp add: appendControl_simps appendLeaseMutation_def)
  have peek: "runStore.peek parse le w (sc_runId inp) = Inr (Some rec)"
    using rec(1) by (simp add: runStore.peek_def leftIo_fst)
  obtain r' w1 where r': "controlPersistRun (leftStore (createExecutionRunRecordStore parse le)) (sc_runId inp) ?b
      (Some (rec_revision rec)) w = (Inr r', w1)" "rec_revision r' = rec_revision rec + 1" "rec_bundle r' = ?b"
    "runStore.peek parse le w1 (sc_runId inp) = Inr (Some r')"
    by (rule runStore.persist_ok [OF peek idb])
  have act: "getActiveExecutionRunLease r' = Some (lm_lease m)"
    using free(1) lm(1,3) r'(3) by (simp add: getActiveExecutionRunLease_def activeLeaseOf_def appendControl_simps
      appendLeaseMutation_def isActiveLease_def find_append)
  from go m r'(1) obtain x where x: "recordRunnerActivity (hd_runnersControl h) me t0 (rec_runId r')
      (Some ''service host scheduler claimed local run'') w1 = (Inr x, w')"
    and res: "cl_claimed res" "cl_newLeaseId res = Some (lease_id (lm_lease m))"
    by (auto simp: persistClaim_def ioBind_def ioCatch_def ioLift_def ioReturn_def stores(1) split: prod.splits sum.splits)
  have "fst w' = fst w1" using leavesRunsD [OF leaves_activity] x unfolding stores(2) by blast
  with r'(4) have "readExecutionRunStoredRecord (fst w') (sc_runId inp) = Inr (Some r')"
    by (simp add: runStore.peek_def leftIo_fst)
  moreover have "claimedFor rec t0 me res r'"
    using act lm(1,2) res(2) r'(2,3) free(2,4)
    by (simp add: claimedFor_def appendControl_simps appendLeaseMutation_def getActiveExecutionRunLease_def)
  ultimately show ?thesis using res(1) by blast
qed

lemma local_claim_unleased:
  "au_futureMutation (authorityOn cmp inp insp runners) = MutLocalClaim \<Longrightarrow> getActiveExecutionRunLease (fst insp) = None"
  by (cases "getActiveExecutionRunLease (fst insp)") (simp_all add: authorityOn_def authorityWithLease_def Let_def split: if_splits)

lemma claimLatest_claims:
  fixes w :: "runFs \<times> runnerFs"
  assumes stores: "hd_control h = leftStore (createExecutionRunRecordStore parse le)"
      "hd_runnersControl h = rightStore (createExecutionRunnerRecordStore le')"
    and rec: "readExecutionRunStoredRecord (fst w) (sc_runId inp) = Inr (Some rec)" "storedRecordOk (sc_runId inp) rec"
    and re: "re \<or> getActiveExecutionRunLease rec = None"
    and go: "claimLatest h inp me t0 (rec, plan) ev re w = (Inr res, w')"
  shows "if cl_claimed res
    then \<exists>r'. readExecutionRunStoredRecord (fst w') (sc_runId inp) = Inr (Some r') \<and> claimedFor rec t0 me res r'
    else fst w' = fst w"
proof -
  have read: "st_readRecord (hd_control h) (sc_runId inp) w = (Inr (Some rec), w)"
    using rec(1) by (cases w) (simp add: stores(1) createExecutionRunRecordStore_def)
  show ?thesis
  proof (cases "bundleForClaim (sc_runId inp) re t0 (getActiveExecutionRunLease rec) (rec_bundle rec)")
    case (Inl why)
    with go read have "\<not> cl_claimed res \<and> w' = w"
      by (auto simp: claimLatest_def Let_def io_defs createConflictSchedulerClaimResult_def
        createBlockedSchedulerClaimResult_def split: if_splits)
    then show ?thesis by simp
  next
    case (Inr b)
    have "activeLeasesMatch x x" for x by (cases x) (simp_all add: activeLeasesMatch_def)
    with go read Inr have "persistClaim h inp me t0 ev (getActiveExecutionRunLease rec) re rec b w = (Inr res, w')"
      by (simp add: claimLatest_def Let_def io_defs)
    from persistClaim_claims [OF stores rec Inr re this] show ?thesis by simp
  qed
qed

text \<open>C36. A claim on the scheduler's authority takes a run for the local runner or leaves it alone: after
  a claim that succeeds the stored run is one revision further, with its steps untouched, under an active
  lease of the local runner, the new lease of the answer, and whatever lease was active before had expired;
  after one that is refused the stored runs are what they were.\<close>

theorem scheduler_claim_takes_run_or_leaves_it:
  fixes w :: "runFs \<times> runnerFs"
  assumes "hd_control h = leftStore (createExecutionRunRecordStore parse le)"
    and "hd_runnersControl h = rightStore (createExecutionRunnerRecordStore le')"
    and "hd_now h w = (t0, w)" and "hostRunner h = Some me"
    and "readExecutionRunStoredRecord (fst w) (sc_runId inp) = Inr (Some rec)" and "storedRecordOk (sc_runId inp) rec"
    and "claimLocalRunWithSchedulerAuthority h inp w = (Inr res, w')"
  shows "if cl_claimed res
    then \<exists>r' l. readExecutionRunStoredRecord (fst w') (sc_runId inp) = Inr (Some r')
      \<and> getActiveExecutionRunLease r' = Some l \<and> lease_ownerId l = me \<and> cl_newLeaseId res = Some (lease_id l)
      \<and> rec_revision r' = rec_revision rec + 1 \<and> bdl_steps (rec_bundle r') = bdl_steps (rec_bundle rec)
      \<and> (\<forall>p. getActiveExecutionRunLease rec = Some p \<longrightarrow> lease_expiresAt p \<le> t0)
    else fst w' = fst w"
proof -
  let ?insp = "(rec, createExecutionRunDispatchPlan (rec_bundle rec))"
  let ?inp = "\<lparr>ai_runId = sc_runId inp, ai_now = t0, ai_localRunnerId = Some me, ai_affinity = hd_createRunAffinity h ?insp\<rparr>"
  have inspect: "controlInspectRun (hd_control h) (sc_runId inp) v = (Inr (Some ?insp), v)" if "fst v = fst w" for v
    using assms(5) that by (cases v) (simp add: controlInspectRun_def assms(1) io_defs createExecutionRunRecordStore_def)
  obtain sr w1 where sweep: "expireRunners (hd_runnersControl h) t0 (Some ''service host scheduler claim liveness sweep'') w = (sr, w1)"
    by (cases "expireRunners (hd_runnersControl h) t0 (Some ''service host scheduler claim liveness sweep'') w")
  have w1: "fst w1 = fst w" using leavesRunsD [OF leaves_expire] sweep unfolding assms(2) by blast
  obtain er w2 where eval: "evaluateStoredExecutionRunSchedulerAuthority (hd_localeCompare h) (hd_control h) (hd_runnersControl h)
      ?inp w1 = (er, w2)" by (cases "evaluateStoredExecutionRunSchedulerAuthority (hd_localeCompare h) (hd_control h)
      (hd_runnersControl h) ?inp w1")
  have w2: "fst w2 = fst w" using leavesRunsD [OF leaves_authority] eval w1 unfolding assms(1,2) by metis
  have start: "claimLocalRunWithSchedulerAuthority h inp w = (case sr of Inl e \<Rightarrow> (Inl e, w1) | Inr x \<Rightarrow>
      (case er of Inl e \<Rightarrow> (Inl e, w2) | Inr None \<Rightarrow> (Inr \<lparr>cl_runId = sc_runId inp, cl_schedulerId = sc_schedulerId inp,
          cl_status = ClaimNotFound, cl_claimed = False, cl_mutationAllowed = False,
          cl_reason = ''run '' @ sc_runId inp @ '' was not found'', cl_decision = None,
          cl_selectedRunnerId = None, cl_localRunnerId = Some me, cl_previousLeaseId = None,
          cl_previousLeaseOwnerId = None, cl_newLeaseId = None, cl_newLeaseOwnerId = None\<rparr>, w2)
      | Inr (Some ev) \<Rightarrow>
          if au_futureMutation ev \<notin> {MutLocalClaim, MutReassignExpiredLease} \<or> au_selectedRunnerId ev \<noteq> Some me
          then (Inr (createBlockedSchedulerClaimResult inp ev me (getActiveExecutionRunLease rec)
             (case truthyText (au_selectedRunnerId ev) of
                Some selected \<Rightarrow> if selected \<noteq> me
                  then ''scheduler authority selected '' @ selected @ '', but v1 can only claim local runner '' @ me
                  else au_reason ev
              | None \<Rightarrow> au_reason ev)), w2)
          else claimLatest h inp me t0 ?insp ev (au_futureMutation ev = MutReassignExpiredLease) w2))"
    using assms(3) by (simp add: claimLocalRunWithSchedulerAuthority_def assms(4) Let_def hostNow_def io_defs sweep
      inspect [OF w1] eval split: sum.split option.split)
  show ?thesis
  proof (cases "\<exists>x ev. sr = Inr x \<and> er = Inr (Some ev) \<and> au_futureMutation ev \<in> {MutLocalClaim, MutReassignExpiredLease}
      \<and> au_selectedRunnerId ev = Some me")
    case False
    with start assms(7) have "\<not> cl_claimed res \<and> w' = w2"
      by (auto simp: createBlockedSchedulerClaimResult_def split: sum.splits option.splits if_splits)
    with w2 show ?thesis by simp
  next
    case True
    then obtain ev where ev: "er = Inr (Some ev)" "au_futureMutation ev \<in> {MutLocalClaim, MutReassignExpiredLease}"
      and claim: "claimLatest h inp me t0 ?insp ev (au_futureMutation ev = MutReassignExpiredLease) w2 = (Inr res, w')"
      using start assms(7) by auto
    have "\<exists>recs :: runnerRecord list. ev = authorityOn (hd_localeCompare h) ?inp ?insp (map rr_runner recs)"
      using eval unfolding ev(1) assms(1,2)
    proof (rule authority_cases)
      fix rec' and recs :: "runnerRecord list"
      assume "readExecutionRunStoredRecord (fst w1) (ai_runId ?inp) = Inr (Some rec')"
        "ev = authorityOn (hd_localeCompare h) ?inp (rec', createExecutionRunDispatchPlan (rec_bundle rec')) (map rr_runner recs)"
      with w1 assms(5) have "ev = authorityOn (hd_localeCompare h) ?inp ?insp (map rr_runner recs)" by simp
      then show ?thesis by (rule exI [of _ recs])
    qed
    then obtain recs :: "runnerRecord list" where "ev = authorityOn (hd_localeCompare h) ?inp ?insp (map rr_runner recs)" by blast
    with ev(2) local_claim_unleased [of "hd_localeCompare h" ?inp ?insp "map rr_runner recs"]
    have "au_futureMutation ev = MutReassignExpiredLease \<or> getActiveExecutionRunLease rec = None" by auto
    from claimLatest_claims [OF assms(1,2) _ assms(6) this claim] assms(5) w2 show ?thesis
      by (auto simp: claimedFor_def)
  qed
qed

definition claimHost :: "(runFs \<times> runnerFs) hostDeps" where
  "claimHost = demoHost\<lparr>hd_runnerId := Some ''a'', hd_now := (\<lambda>w. (''t1'', w))\<rparr>"

definition claimOutcome :: "(runFs \<times> runnerFs) hostDeps \<Rightarrow> string \<Rightarrow> runFs \<times> runnerFs \<Rightarrow> bool" where
  "claimOutcome h i w = (case fst (claimLocalRunWithSchedulerAuthority h \<lparr>sc_runId = i, sc_schedulerId = ''s''\<rparr> w) of
     Inl e \<Rightarrow> False | Inr res \<Rightarrow> cl_claimed res)"

lemma claimOutcome_fresh: "claimOutcome claimHost ''r'' (fsWith freshRecord, demoRunnerFs)"
  by code_simp

lemma scheduler_claim_takes_run_or_leaves_it_witness:
  "\<exists>res w' r' l. claimLocalRunWithSchedulerAuthority claimHost \<lparr>sc_runId = ''r'', sc_schedulerId = ''s''\<rparr>
       (fsWith freshRecord, demoRunnerFs) = (Inr res, w')
     \<and> cl_claimed res \<and> readExecutionRunStoredRecord (fst w') ''r'' = Inr (Some r')
     \<and> getActiveExecutionRunLease r' = Some l \<and> lease_ownerId l = ''a''"
proof -
  let ?w = "(fsWith freshRecord, demoRunnerFs)" and ?inp = "\<lparr>sc_runId = ''r'', sc_schedulerId = ''s''\<rparr>"
  from claimOutcome_fresh obtain res w' where res: "claimLocalRunWithSchedulerAuthority claimHost ?inp ?w = (Inr res, w')" "cl_claimed res"
    unfolding claimOutcome_def by (cases "claimLocalRunWithSchedulerAuthority claimHost ?inp ?w") (auto split: sum.splits)
  have host: "hd_control claimHost = leftStore (createExecutionRunRecordStore dateParse (\<le>))"
    "hd_runnersControl claimHost = rightStore (createExecutionRunnerRecordStore (\<le>))"
    "hd_now claimHost ?w = (''t1'', ?w)" "hostRunner claimHost = Some ''a''"
    by (simp_all add: claimHost_def demoHost_def hostRunner_def truthyText_def)
  have read: "readExecutionRunStoredRecord (fst ?w) (sc_runId ?inp) = Inr (Some freshRecord)" "storedRecordOk (sc_runId ?inp) freshRecord"
    using freshRecord_ok by (simp_all add: fsWith_read freshRecord_read(2))
  show ?thesis using scheduler_claim_takes_run_or_leaves_it [OF host read res(1)] res by auto
qed

section \<open>Resolving a request\<close>

lemma resolvedBundle_simps:
  "bdl_steps (resolvedBundle runId resolution note t0 x b) = bdl_steps b"
  "bdl_leases (resolvedBundle runId resolution note t0 x b) = bdl_leases b"
  "run_id (bdl_run (resolvedBundle runId resolution note t0 x b)) = run_id (bdl_run b)"
  "run_status (bdl_run (resolvedBundle runId resolution note t0 x b)) = run_status (bdl_run b)"
  "bdl_localActionRequests (resolvedBundle runId resolution note t0 x b) = map (\<lambda>r. if lar_id r = lar_id x
     then resolvedRequestOf resolution note t0 x else r) (bdl_localActionRequests b)"
  by (simp_all add: resolvedBundle_def Let_def)

lemma resolution_not_pending [simp]: "resolutionStatus resolution \<noteq> Requested"
  by (cases resolution) simp_all

context revisionStore
begin

lemma resolve_refused:
  assumes "hd_control h = S" "\<And>v. snd (hd_now h v) = v" "peek w runId = Inr (Some rec)"
    and "find (\<lambda>x. lar_id x = requestId) (bdl_localActionRequests (rec_bundle rec)) = Some x" "lar_status x \<noteq> Requested"
  shows "snd (resolveLocalActionRequest h runId requestId resolution note w) = w"
  using assms(1,3-5) assms(2) [of w]
  by (cases "hd_now h w") (simp add: resolveLocalActionRequest_def hostNow_def io_defs st_readRecord_eq)

lemma resolve_done:
  assumes host: "hd_control h = S" "\<And>v. snd (hd_now h v) = v"
    and rec: "peek w runId = Inr (Some rec)" "storedRecordOk runId rec"
    and x: "find (\<lambda>x. lar_id x = requestId) (bdl_localActionRequests (rec_bundle rec)) = Some x" "lar_status x = Requested"
  obtains action w' r' t0 where
    "resolveLocalActionRequest h runId requestId resolution note w = (Inr action, w')" "va_status action = RequestResolved"
    "peek w' runId = Inr (Some r')" "rec_bundle r' = resolvedBundle runId resolution note t0 x (rec_bundle rec)"
proof -
  obtain t0 where now: "hd_now h w = (t0, w)" using host(2) [of w] by (cases "hd_now h w") simp
  have "run_id (bdl_run (resolvedBundle runId resolution note t0 x (rec_bundle rec))) = runId"
    using rec(2) by (simp add: resolvedBundle_simps storedRecordOk_def)
  from persist_ok [OF rec(1) this] obtain r' w' where
    "controlPersistRun S runId (resolvedBundle runId resolution note t0 x (rec_bundle rec)) (Some (rec_revision rec)) w = (Inr r', w')"
    and r': "rec_bundle r' = resolvedBundle runId resolution note t0 x (rec_bundle rec)" "peek w' runId = Inr (Some r')" by blast
  with host(1) now rec(1) x have "resolveLocalActionRequest h runId requestId resolution note w = (Inr \<lparr>va_runId = runId,
      va_requestId = requestId, va_resolution = resolution, va_status = RequestResolved, va_resolved = True,
      va_reason = orElse note (defaultLocalActionResolutionReason resolution), va_resolvedAt = Some t0,
      va_ownerStepId = Some (lar_ownerStepId x)\<rparr>, w')"
    by (simp add: resolveLocalActionRequest_def hostNow_def io_defs st_readRecord_eq)
  from that [OF this _ r'(2,1)] show thesis by simp
qed

end

text \<open>C34. An operator's decision on a local action request is final: a request that is still pending
  takes the status the operator chose, and no other request, no step, no lease and no run status
  changes with it; a second decision on the same request, whatever it is, writes nothing, as does one on a
  request that was decided before.\<close>

theorem operator_resolution_is_final:
  fixes w :: "runFs \<times> 'x"
  assumes "hd_control h = leftStore (createExecutionRunRecordStore parse le)" and "\<And>v. snd (hd_now h v) = v"
    and "readExecutionRunStoredRecord (fst w) runId = Inr (Some rec)" and "storedRecordOk runId rec"
    and "find (\<lambda>x. lar_id x = requestId) (bdl_localActionRequests (rec_bundle rec)) = Some x"
  shows "if lar_status x = Requested
    then \<exists>action w' r'. resolveLocalActionRequest h runId requestId resolution note w = (Inr action, w')
      \<and> va_status action = RequestResolved \<and> readExecutionRunStoredRecord (fst w') runId = Inr (Some r')
      \<and> list_all2 (\<lambda>old new. if lar_id old = requestId then lar_id new = requestId \<and> lar_status new = resolutionStatus resolution
           else new = old) (bdl_localActionRequests (rec_bundle rec)) (bdl_localActionRequests (rec_bundle r'))
      \<and> bdl_steps (rec_bundle r') = bdl_steps (rec_bundle rec) \<and> bdl_leases (rec_bundle r') = bdl_leases (rec_bundle rec)
      \<and> run_status (bdl_run (rec_bundle r')) = run_status (bdl_run (rec_bundle rec))
      \<and> snd (resolveLocalActionRequest h runId requestId again note' w') = w'
    else snd (resolveLocalActionRequest h runId requestId resolution note w) = w"
proof -
  have peek: "runStore.peek parse le w runId = Inr (Some rec)"
    using assms(3) by (simp add: runStore.peek_def leftIo_fst)
  have id: "lar_id x = requestId" using assms(5) by (auto simp: find_Some_iff)
  show ?thesis
  proof (cases "lar_status x = Requested")
    case False
    with runStore.resolve_refused [OF assms(1,2) peek assms(5)] show ?thesis by simp
  next
    case True
    obtain action w' r' t0 where r':
      "resolveLocalActionRequest h runId requestId resolution note w = (Inr action, w')" "va_status action = RequestResolved"
      "runStore.peek parse le w' runId = Inr (Some r')"
      "rec_bundle r' = resolvedBundle runId resolution note t0 x (rec_bundle rec)"
      by (rule runStore.resolve_done [OF assms(1,2) peek assms(4,5) True])
    let ?new = "resolvedRequestOf resolution note t0 x"
    have new: "lar_id ?new = requestId" "lar_status ?new = resolutionStatus resolution"
      using id by (simp_all add: resolvedRequestOf_def)
    have "find (\<lambda>x. lar_id x = requestId) (map (\<lambda>r. if lar_id r = lar_id x then ?new else r) rs) = Some ?new"
      if "find (\<lambda>x. lar_id x = requestId) rs = Some x" for rs
      using that id new(1) by (induction rs) (auto split: if_splits)
    from this [OF assms(5)] have "find (\<lambda>x. lar_id x = requestId) (bdl_localActionRequests (rec_bundle r')) = Some ?new"
      by (simp add: r'(4) resolvedBundle_simps)
    from runStore.resolve_refused [OF assms(1,2) r'(3) this] new(2)
    have "snd (resolveLocalActionRequest h runId requestId again note' w') = w'" by simp
    moreover have "readExecutionRunStoredRecord (fst w') runId = Inr (Some r')"
      using r'(3) by (simp add: runStore.peek_def leftIo_fst)
    moreover have "list_all2 (\<lambda>old new. if lar_id old = requestId then lar_id new = requestId \<and> lar_status new = resolutionStatus resolution
        else new = old) (bdl_localActionRequests (rec_bundle rec)) (bdl_localActionRequests (rec_bundle r'))"
      unfolding r'(4) resolvedBundle_simps list_all2_map2 using id new by (auto intro: list.rel_refl_strong)
    ultimately show ?thesis using True r'(1,2,4) by (auto simp: resolvedBundle_simps)
  qed
qed

definition pendingRequest :: localActionRequest where
  "pendingRequest = \<lparr>lar_id = ''q'', lar_teamRunId = ''r'', lar_ownerStepId = ''a'', lar_kind = ''shell'', lar_summary = [],
     lar_command = None, lar_args = [], lar_structuredPayload = [], lar_notes = [], lar_status = Requested,
     lar_createdAt = ''t0'', lar_approvedAt = None, lar_completedAt = None, lar_resultSummary = None, lar_resultPayload = None\<rparr>"

definition pendingRecord :: storedRecord where
  "pendingRecord = settledRecord\<lparr>rec_bundle := (rec_bundle settledRecord)\<lparr>bdl_localActionRequests := [pendingRequest]\<rparr>\<rparr>"

lemma pendingRecord_facts:
  "rec_runId pendingRecord = ''r''" "storedRecordOk ''r'' pendingRecord"
  "find (\<lambda>x. lar_id x = ''q'') (bdl_localActionRequests (rec_bundle pendingRecord)) = Some pendingRequest"
proof -
  have "wfBundle (demoBundle [demoStep ''a'' 1 StepSucceeded []] [])" by (rule demoBundle_wf) simp_all
  then show "storedRecordOk ''r'' pendingRecord"
    by (simp add: storedRecordOk_def pendingRecord_def settledRecord_def wfBundle_def activeLeases_def demo_simps)
qed (simp_all add: pendingRecord_def settledRecord_def pendingRequest_def)

lemma operator_resolution_is_final_witness:
  "\<exists>action w' r'. resolveLocalActionRequest demoHost ''r'' ''q'' ResolveRejected None (fsWith pendingRecord, emptyRunnerFs)
       = (Inr action, w')
     \<and> readExecutionRunStoredRecord (fst w') ''r'' = Inr (Some r')
     \<and> snd (resolveLocalActionRequest demoHost ''r'' ''q'' ResolveApproved None w') = w'"
proof -
  have "snd (hd_now demoHost v) = v" for v by (simp add: demoHost_def)
  moreover have "readExecutionRunStoredRecord (fst (fsWith pendingRecord, emptyRunnerFs)) ''r'' = Inr (Some pendingRecord)"
    by (simp add: fsWith_read pendingRecord_facts(1))
  moreover have "lar_status pendingRequest = Requested" by (simp add: pendingRequest_def)
  ultimately show ?thesis
    using operator_resolution_is_final [OF demoHost_stores(1) _ _ pendingRecord_facts(2,3), of "(fsWith pendingRecord, emptyRunnerFs)"
      ResolveRejected None ResolveApproved None] by auto
qed

end
