(* ===== verification/Response_View.thy ===== *)
theory Response_View
  imports Execution_Results
begin

text \<open>
  What a client sees of a run (\<open>src/runtime/apiModel.ts\<close>): the response projected from a stored run, with
  its status, the fulfilment of requested outputs, the diagnostics of the runtime, and the summaries
  read back from the bookkeeping entries of the runner.
\<close>

section \<open>Reading loosely typed values\<close>

text \<open>\<open>readString\<close>: a string that is not blank; \<open>typeof v === "string" ? v : null\<close> is \<open>asString\<close>.\<close>

definition readString :: "json option \<Rightarrow> string option" where
  "readString v = (case asString v of None \<Rightarrow> None | Some s \<Rightarrow> if trim s = [] then None else Some s)"

definition readNonNegativeInt :: "json option \<Rightarrow> int" where
  "readNonNegativeInt v = (case asNumber v of Some (Fin q) \<Rightarrow> max 0 (jsTrunc q) | _ \<Rightarrow> 0)"

text \<open>\<open>isRecord(event.payload) ? event.payload.k\<close>\<close>

definition payloadProp :: "executionRunEvent \<Rightarrow> string \<Rightarrow> json option" where
  "payloadProp ev k = optProp (ev_payload ev) k"

text \<open>The entry of a step under a prefix, or else the last entry under that prefix.\<close>

definition preferredEntry :: "string \<Rightarrow> runBundle \<Rightarrow> string option \<Rightarrow> structuredOutput option" where
  "preferredEntry keyPrefix b terminalStepId =
     (let outs = ss_structuredOutputs (bdl_sharedState b)
      in orElseOpt
          (Option.bind terminalStepId (\<lambda>i. find (\<lambda>e. so_key e = keyPrefix @ i) outs))
          (find (\<lambda>e. startsWith (so_key e) keyPrefix) (rev outs)))"

section \<open>Requested outputs\<close>

text \<open>\<open>isInternalStructuredOutputKey\<close> of this module, which differs from the one of the runner.\<close>

definition isInternalResponseOutputKey :: "string \<Rightarrow> bool" where
  "isInternalResponseOutputKey k =
     (k = ''response.output'' \<or> startsWith k ''step.localActionOutcomes.'' \<or> startsWith k ''human.resume.'')"

definition isItemType :: "string \<Rightarrow> json \<Rightarrow> bool" where
  "isItemType t item = (optProp (asRecord (Some item)) ''type'' = Some (JStr t))"

definition messageTexts :: "json \<Rightarrow> string list" where
  "messageTexts item = somes (map (\<lambda>part. asString (optProp (asRecord (Some part)) ''text''))
     (orElse (asArray (optProp (asRecord (Some item)) ''content'')) []))"

datatype outputProof = ByMessage | ByArtifact | ByStructuredOutput

definition resolveRequestedOutputFulfillment ::
  "string option \<Rightarrow> string option \<Rightarrow> string option \<Rightarrow> outputEvidence \<Rightarrow> outputProof option" where
  "resolveRequestedOutputFulfillment kind format destination ev =
     (if kind = Some ''artifact-bundle'' \<or> destination = Some ''artifact-store'' \<or> format = Some ''bundle''
      then (if oe_artifact ev then Some ByArtifact else None)
      else if kind = Some ''structured-report'' \<or> format = Some ''json''
      then (if oe_structured ev then Some ByStructuredOutput else if oe_json ev then Some ByMessage else None)
      else if oe_message ev then Some ByMessage
      else if oe_artifact ev then Some ByArtifact
      else if oe_structured ev then Some ByStructuredOutput else None)"

record requestedOutputItem =
  ro_label :: "string option"
  ro_kind :: "string option"
  ro_format :: "string option"
  ro_destination :: "string option"
  ro_required :: bool
  ro_evidence :: "outputProof option"

definition responseEvidence :: "(string \<Rightarrow> json option) \<Rightarrow> runBundle \<Rightarrow> json list \<Rightarrow> outputEvidence" where
  "responseEvidence parseJson b output =
     \<lparr>oe_message = list_ex (isItemType ''message'') output,
      oe_json = list_ex (\<lambda>item. isItemType ''message'' item \<and> list_ex (isParseableJsonObjectText parseJson) (messageTexts item)) output,
      oe_artifact = (list_ex (isItemType ''artifact'') output \<or> ss_artifacts (bdl_sharedState b) \<noteq> []),
      oe_structured = list_ex (\<lambda>e. \<not> isInternalResponseOutputKey (so_key e)) (ss_structuredOutputs (bdl_sharedState b))\<rparr>"

definition requestedOutputItemOf :: "outputEvidence \<Rightarrow> json \<Rightarrow> requestedOutputItem" where
  "requestedOutputItemOf ev requested =
     (let c = orElse (asRecord (Some requested)) [];
          kind = asString (jprop c ''kind''); format = asString (jprop c ''format''); destination = asString (jprop c ''destination'')
      in \<lparr>ro_label = asString (jprop c ''label''), ro_kind = kind, ro_format = format, ro_destination = destination,
          ro_required = (jprop c ''required'' = Some (JBool True)),
          ro_evidence = resolveRequestedOutputFulfillment kind format destination ev\<rparr>)"

text \<open>\<open>fulfilled\<close> is \<open>evidence !== null\<close>; the counts of the summary are those of its items.\<close>

definition readExecutionRunRequestedOutputSummary ::
  "(string \<Rightarrow> json option) \<Rightarrow> runBundle \<Rightarrow> json list \<Rightarrow> executionRunStep option \<Rightarrow> requestedOutputItem list option" where
  "readExecutionRunRequestedOutputSummary parseJson b output terminalStep =
     (let requested = (case terminalStep of None \<Rightarrow> [] | Some s \<Rightarrow> orElse (asArray (jprop (dataOf s) ''requestedOutputs'')) [])
      in if requested = [] then None
         else Some (map (requestedOutputItemOf (responseEvidence parseJson b output)) requested))"

definition missingRequiredItem :: "requestedOutputItem \<Rightarrow> bool" where
  "missingRequiredItem item = (ro_required item \<and> ro_evidence item = None)"

text \<open>The labels of a policy; no labels is the status \<open>satisfied\<close>.\<close>

definition readExecutionRunRequestedOutputPolicySummary :: "requestedOutputItem list option \<Rightarrow> string list option" where
  "readExecutionRunRequestedOutputPolicySummary summary = map_option
     (\<lambda>items. map (\<lambda>i. orElse (ro_label i) (orElse (ro_kind i) ''unnamed-output'')) (filter missingRequiredItem items)) summary"

definition missingRequired :: "string list option \<Rightarrow> bool" where
  "missingRequired policy = (case policy of None \<Rightarrow> False | Some labels \<Rightarrow> labels \<noteq> [])"

section \<open>The status of a response\<close>

datatype responseStatus = InProgress | Completed | ResponseFailed | ResponseCancelled

fun mapRunStatusToResponseStatus :: "executionRunStatus \<Rightarrow> responseStatus" where
  "mapRunStatusToResponseStatus RunPlanned = InProgress"
| "mapRunStatusToResponseStatus RunRunning = InProgress"
| "mapRunStatusToResponseStatus RunSucceeded = Completed"
| "mapRunStatusToResponseStatus RunFailed = ResponseFailed"
| "mapRunStatusToResponseStatus RunCancelled = ResponseCancelled"

definition applyRequestedOutputPolicyToResponseStatus :: "executionRunStatus \<Rightarrow> string list option \<Rightarrow> responseStatus" where
  "applyRequestedOutputPolicyToResponseStatus st policy =
     (let base = mapRunStatusToResponseStatus st
      in if base = Completed \<and> missingRequired policy then ResponseFailed else base)"

definition terminalStepOf :: "runBundle \<Rightarrow> executionRunStep option" where
  "terminalStepOf b = orElseOpt
     (find (\<lambda>s. step_status s = StepFailed) (bdl_steps b))
     (find (\<lambda>s. step_status s \<in> {StepSucceeded, StepCancelled}) (sortBy (\<lambda>l r. step_order r \<le> step_order l) (bdl_steps b)))"

section \<open>Diagnostics\<close>

datatype leaseState = LeaseStateActive | LeaseStateNone | LeaseStateReleased | LeaseStateExpired | LeaseStateMixed

definition readLeaseSortTimestamp :: "executionRunLease \<Rightarrow> int" where
  "readLeaseSortTimestamp l = orElse (dateParse (orElse (lease_releasedAt l) (lease_heartbeatAt l))) 0"

definition readExecutionRunLeaseState :: "runBundle \<Rightarrow> leaseState" where
  "readExecutionRunLeaseState b =
     (if list_ex (\<lambda>l. lease_status l = LeaseActive) (bdl_leases b) then LeaseStateActive
      else case sortBy (\<lambda>l r. readLeaseSortTimestamp r \<le> readLeaseSortTimestamp l) (bdl_leases b) of
          [] \<Rightarrow> LeaseStateNone
        | latest # _ \<Rightarrow> (case lease_status latest of
            LeaseReleased \<Rightarrow> LeaseStateReleased | LeaseExpired \<Rightarrow> LeaseStateExpired | LeaseActive \<Rightarrow> LeaseStateMixed))"

record leaseEventSummary =
  le_type :: executionRunEventType
  le_createdAt :: string
  le_leaseId :: "string option"
  le_ownerId :: "string option"
  le_note :: "string option"
  le_releaseReason :: "string option"

definition readLastExecutionRunLeaseEvent :: "runBundle \<Rightarrow> leaseEventSummary option" where
  "readLastExecutionRunLeaseEvent b =
     map_option (\<lambda>ev.
       (let lease = Option.bind (truthyText (ev_leaseId ev)) (\<lambda>i. find (\<lambda>l. lease_id l = i) (bdl_leases b))
        in \<lparr>le_type = ev_type ev, le_createdAt = ev_createdAt ev, le_leaseId = ev_leaseId ev,
            le_ownerId = orElseOpt (readString (payloadProp ev ''ownerId'')) (map_option lease_ownerId lease),
            le_note = ev_note ev,
            le_releaseReason = orElseOpt (readString (payloadProp ev ''releaseReason'')) (Option.bind lease lease_releaseReason)\<rparr>))
     (find (\<lambda>ev. ev_type ev \<in> {EvLeaseAcquired, EvLeaseReleased}) (rev (bdl_events b)))"

record providerEvidence =
  pe_observedAt :: string
  pe_state :: "string option"
  pe_source :: "string option"
  pe_evidenceRef :: "string option"
  pe_confidence :: "string option"
  pe_details :: "jobj option"

definition isScalar :: "json \<Rightarrow> bool" where
  "isScalar v = (case v of JStr _ \<Rightarrow> True | JNum _ \<Rightarrow> True | JBool _ \<Rightarrow> True | _ \<Rightarrow> False)"

definition readRuntimeEvidenceDetailsSummary :: "json option \<Rightarrow> jobj option" where
  "readRuntimeEvidenceDetailsSummary v = (case asRecord v of
     None \<Rightarrow> None
   | Some r \<Rightarrow>
       (let details = somes (map (\<lambda>k. case jprop r k of Some e \<Rightarrow> if isScalar e then Some (k, e) else None | None \<Rightarrow> None)
          [''service'', ''runtimeProfileId'', ''browserProfileId'', ''agentId'', ''chromeTargetId'', ''tabUrl'',
           ''conversationId'', ''chromeHost'', ''chromePort''])
        in if details = [] then None else Some details))"

definition runtimeEvidenceOf :: "executionRunEvent \<Rightarrow> jobj option" where
  "runtimeEvidenceOf ev = asRecord (payloadProp ev ''runtimeEvidence'')"

definition readLastProviderRuntimeEvidence :: "runBundle \<Rightarrow> providerEvidence option" where
  "readLastProviderRuntimeEvidence b = map_option (\<lambda>ev.
     (let r = the (runtimeEvidenceOf ev)
      in \<lparr>pe_observedAt = orElse (readString (jprop r ''observedAt'')) (ev_createdAt ev),
          pe_state = readString (jprop r ''state''), pe_source = readString (jprop r ''source''),
          pe_evidenceRef = readString (jprop r ''evidenceRef''), pe_confidence = readString (jprop r ''confidence''),
          pe_details = readRuntimeEvidenceDetailsSummary (jprop r ''details'')\<rparr>))
     (find (\<lambda>ev. runtimeEvidenceOf ev \<noteq> None) (rev (bdl_events b)))"

datatype transitionSource = RequestedOutputPolicy | StepSucceededSource | StepFailedSource | RunCancelledSource

definition readExecutionRunTerminalTransitionSource ::
  "runBundle \<Rightarrow> executionRunStep option \<Rightarrow> string list option \<Rightarrow> transitionSource option" where
  "readExecutionRunTerminalTransitionSource b terminalStep policy =
     (let run = run_status (bdl_run b); step = map_option step_status terminalStep
      in if run = RunSucceeded \<and> missingRequired policy then Some RequestedOutputPolicy
         else if run = RunSucceeded \<or> step = Some StepSucceeded then Some StepSucceededSource
         else if run = RunFailed \<or> step = Some StepFailed then Some StepFailedSource
         else if run = RunCancelled \<or> step = Some StepCancelled then Some RunCancelledSource
         else None)"

datatype runtimeState = StateTerminal | StateQueued | StateFinalizing | StateRunning | StateRecovering | StateStranded

definition readExecutionRunRuntimeState ::
  "runBundle \<Rightarrow> leaseState \<Rightarrow> providerEvidence option \<Rightarrow> transitionSource option \<Rightarrow> runtimeState" where
  "readExecutionRunRuntimeState b leaseState evidence transition =
     (if transition \<noteq> None then StateTerminal
      else if run_status (bdl_run b) = RunPlanned then StateQueued
      else if Option.bind evidence pe_state = Some ''response-complete'' then StateFinalizing
      else if leaseState = LeaseStateActive then StateRunning
      else if evidence \<noteq> None then StateRecovering
      else StateStranded)"

record diagnosticsSummary =
  ds_runtimeState :: runtimeState
  ds_leaseState :: leaseState
  ds_lastLeaseEvent :: "leaseEventSummary option"
  ds_browserTaskState :: "string option"
  ds_lastProviderEvidence :: "providerEvidence option"
  ds_terminalTransitionSource :: "transitionSource option"

definition readExecutionRunRuntimeDiagnosticsSummary ::
  "runBundle \<Rightarrow> executionRunStep option \<Rightarrow> string list option \<Rightarrow> diagnosticsSummary" where
  "readExecutionRunRuntimeDiagnosticsSummary b terminalStep policy =
     (let evidence = readLastProviderRuntimeEvidence b; leaseState = readExecutionRunLeaseState b;
          transition = readExecutionRunTerminalTransitionSource b terminalStep policy
      in \<lparr>ds_runtimeState = readExecutionRunRuntimeState b leaseState evidence transition, ds_leaseState = leaseState,
          ds_lastLeaseEvent = readLastExecutionRunLeaseEvent b, ds_browserTaskState = Option.bind evidence pe_state,
          ds_lastProviderEvidence = evidence, ds_terminalTransitionSource = transition\<rparr>)"

section \<open>Summaries\<close>

record stepSummary =
  sm_stepId :: string
  sm_order :: int
  sm_agentId :: string
  sm_status :: executionRunStepStatus
  sm_runtimeProfileId :: "string option"
  sm_browserProfileId :: "string option"
  sm_service :: "serviceId option"

definition readExecutionRunStepSummaries :: "runBundle \<Rightarrow> stepSummary list option" where
  "readExecutionRunStepSummaries b =
     (if bdl_steps b = [] then None
      else Some (map (\<lambda>s. \<lparr>sm_stepId = step_id s, sm_order = step_order s, sm_agentId = step_agentId s, sm_status = step_status s,
          sm_runtimeProfileId = step_runtimeProfileId s, sm_browserProfileId = step_browserProfileId s, sm_service = step_service s\<rparr>)
        (sortBy (\<lambda>l r. step_order l \<le> step_order r) (bdl_steps b))))"

record usageSummary =
  um_ownerStepId :: "string option"
  um_generatedAt :: "string option"
  um_inputTokens :: int
  um_outputTokens :: int
  um_reasoningTokens :: int
  um_totalTokens :: int

definition readExecutionRunProviderUsageSummary :: "runBundle \<Rightarrow> string option \<Rightarrow> usageSummary option" where
  "readExecutionRunProviderUsageSummary b terminalStepId =
     map_option (\<lambda>r. \<lparr>um_ownerStepId = asString (jprop r ''ownerStepId''), um_generatedAt = asString (jprop r ''generatedAt''),
         um_inputTokens = readNonNegativeInt (jprop r ''inputTokens''), um_outputTokens = readNonNegativeInt (jprop r ''outputTokens''),
         um_reasoningTokens = readNonNegativeInt (jprop r ''reasoningTokens''), um_totalTokens = readNonNegativeInt (jprop r ''totalTokens'')\<rparr>)
       (Option.bind (preferredEntry ''step.providerUsage.'' b terminalStepId) (\<lambda>e. asRecord (Some (so_value e))))"

record timelineItem =
  ti_type :: executionRunEventType
  ti_createdAt :: string
  ti_stepId :: "string option"
  ti_note :: "string option"
  ti_handoffId :: "string option"

definition isTimelineEvent :: "executionRunEvent \<Rightarrow> bool" where
  "isTimelineEvent ev =
     (ev_type ev \<in> {EvStepStarted, EvStepSucceeded, EvStepFailed, EvHandoffConsumed}
      \<or> ev_type ev = EvNoteAdded \<and> (asString (payloadProp ev ''source'') \<noteq> None \<or> asString (payloadProp ev ''action'') \<noteq> None))"

text \<open>The total and the last ten.\<close>

definition readExecutionRunOrchestrationTimelineSummary :: "runBundle \<Rightarrow> (nat \<times> timelineItem list) option" where
  "readExecutionRunOrchestrationTimelineSummary b =
     (let relevant = filter isTimelineEvent (ss_history (bdl_sharedState b))
      in if relevant = [] then None
         else Some (length relevant, map (\<lambda>ev. \<lparr>ti_type = ev_type ev, ti_createdAt = ev_createdAt ev, ti_stepId = ev_stepId ev,
             ti_note = ev_note ev, ti_handoffId = asString (payloadProp ev ''handoffId'')\<rparr>)
           (drop (length relevant - 10) relevant)))"

definition readExecutionRunInputArtifactSummary :: "runBundle \<Rightarrow> string option \<Rightarrow> artifactRef list option" where
  "readExecutionRunInputArtifactSummary b terminalStepId =
     (let artifacts = (\<lambda>s. in_artifacts (step_input s));
          terminal = Option.bind (truthyText terminalStepId) (\<lambda>i. find (\<lambda>s. step_id s = i) (bdl_steps b));
          selected = (if (case terminal of None \<Rightarrow> False | Some s \<Rightarrow> artifacts s \<noteq> []) then terminal
            else find (\<lambda>s. artifacts s \<noteq> []) (rev (bdl_steps b)))
      in map_option (\<lambda>s. map (\<lambda>a. a\<lparr>art_metadata := None\<rparr>) (artifacts s)) selected)"

record transferSummaryItem =
  tm_handoffId :: "string option"
  tm_fromStepId :: "string option"
  tm_fromAgentId :: "string option"
  tm_title :: "string option"
  tm_objective :: "string option"
  tm_requestedOutputCount :: int
  tm_inputArtifactCount :: int

definition storedTransferItem :: "jobj \<Rightarrow> transferSummaryItem" where
  "storedTransferItem r = \<lparr>tm_handoffId = asString (jprop r ''handoffId''), tm_fromStepId = asString (jprop r ''fromStepId''),
     tm_fromAgentId = asString (jprop r ''fromAgentId''), tm_title = asString (jprop r ''title''),
     tm_objective = asString (jprop r ''objective''), tm_requestedOutputCount = readNonNegativeInt (jprop r ''requestedOutputCount''),
     tm_inputArtifactCount = readNonNegativeInt (jprop r ''inputArtifactCount'')\<rparr>"

text \<open>A summary without items is \<open>null\<close>; the total is their number.\<close>

definition readStoredConsumedTaskTransferSummary :: "runBundle \<Rightarrow> string \<Rightarrow> transferSummaryItem list option" where
  "readStoredConsumedTaskTransferSummary b stepId =
     (case find (\<lambda>e. so_key e = ''step.consumedTaskTransfers.'' @ stepId) (ss_structuredOutputs (bdl_sharedState b)) of
        None \<Rightarrow> None
      | Some e \<Rightarrow> (case asArray (optProp (asRecord (Some (so_value e))) ''items'') of
          None \<Rightarrow> None
        | Some xs \<Rightarrow> (case somes (map (\<lambda>v. map_option storedTransferItem (asRecord (Some v))) xs) of
            [] \<Rightarrow> None | items \<Rightarrow> Some items)))"

definition handoffTransferItem :: "handoff \<Rightarrow> transferSummaryItem option" where
  "handoffTransferItem ho = map_option
     (\<lambda>t. \<lparr>tm_handoffId = Some (ho_id ho), tm_fromStepId = Some (ho_fromStepId ho), tm_fromAgentId = Some (ho_fromAgentId ho),
        tm_title = tt_title t, tm_objective = tt_objective t, tm_requestedOutputCount = int (length (tt_requestedOutputs t)),
        tm_inputArtifactCount = int (length (tt_inputArtifacts t))\<rparr>)
     (normalizeTaskTransfer (jprop (ho_structuredData ho) ''taskTransfer''))"

definition readExecutionRunHandoffTransferSummary :: "runBundle \<Rightarrow> string option \<Rightarrow> transferSummaryItem list option" where
  "readExecutionRunHandoffTransferSummary b terminalStepId =
     (case orElseOpt (Option.bind (truthyText terminalStepId) (\<lambda>i. find (\<lambda>s. step_id s = i) (bdl_steps b)))
         (find (\<lambda>s. step_dependsOnStepIds s \<noteq> []) (rev (bdl_steps b))) of
        None \<Rightarrow> None
      | Some selected \<Rightarrow> (case readStoredConsumedTaskTransferSummary b (step_id selected) of
          Some items \<Rightarrow> Some items
        | None \<Rightarrow> (case somes (map handoffTransferItem (filter (\<lambda>ho. ho_toStepId ho = step_id selected) (bdl_handoffs b))) of
            [] \<Rightarrow> None | items \<Rightarrow> Some items)))"

record actionCounts =
  ac_requested :: int
  ac_approved :: int
  ac_rejected :: int
  ac_executed :: int
  ac_failed :: int
  ac_cancelled :: int

record actionSummaryItem =
  ai_requestId :: "string option"
  ai_kind :: "string option"
  ai_status :: "string option"
  ai_summary :: "string option"
  ai_command :: "string option"
  ai_args :: "string list"
  ai_resultSummary :: "string option"

record actionSummary =
  as_ownerStepId :: "string option"
  as_generatedAt :: "string option"
  as_total :: int
  as_counts :: "actionCounts option"
  as_items :: "actionSummaryItem list"

definition actionSummaryItemOf :: "json \<Rightarrow> actionSummaryItem" where
  "actionSummaryItemOf v =
     (let r = orElse (asRecord (Some v)) []; text = (\<lambda>k. asString (jprop r k))
      in \<lparr>ai_requestId = text ''requestId'', ai_kind = text ''kind'', ai_status = text ''status'', ai_summary = text ''summary'',
          ai_command = text ''command'', ai_args = somes (map (\<lambda>a. asString (Some a)) (orElse (asArray (jprop r ''args'')) [])),
          ai_resultSummary = text ''resultSummary''\<rparr>)"

definition actionCountsOf :: "jobj \<Rightarrow> actionCounts" where
  "actionCountsOf r =
     (let n = (\<lambda>k. readNonNegativeInt (jprop r k))
      in \<lparr>ac_requested = n ''requested'', ac_approved = n ''approved'', ac_rejected = n ''rejected'', ac_executed = n ''executed'',
          ac_failed = n ''failed'', ac_cancelled = n ''cancelled''\<rparr>)"

definition readExecutionRunLocalActionSummary :: "runBundle \<Rightarrow> string option \<Rightarrow> actionSummary option" where
  "readExecutionRunLocalActionSummary b terminalStepId =
     map_option (\<lambda>r.
       (let items = orElse (asArray (jprop r ''items'')) []
        in \<lparr>as_ownerStepId = asString (jprop r ''ownerStepId''), as_generatedAt = asString (jprop r ''generatedAt''),
            as_total = (case asNumber (jprop r ''total'') of Some (Fin q) \<Rightarrow> max 0 (jsTrunc q) | _ \<Rightarrow> int (length items)),
            as_counts = map_option actionCountsOf (asRecord (jprop r ''counts'')),
            as_items = map actionSummaryItemOf items\<rparr>))
     (Option.bind (preferredEntry ''step.localActionOutcomes.'' b terminalStepId) (\<lambda>e. asRecord (Some (so_value e))))"

record cancellationSummary =
  cs_cancelledAt :: string
  cs_source :: "string option"
  cs_reason :: "string option"

definition isCancellationNote :: "executionRunEvent \<Rightarrow> bool" where
  "isCancellationNote ev = (ev_type ev = EvNoteAdded \<and> payloadProp ev ''status'' = Some (JStr ''cancelled''))"

definition readExecutionRunCancellationSummary :: "runBundle \<Rightarrow> cancellationSummary option" where
  "readExecutionRunCancellationSummary b =
     (if run_status (bdl_run b) \<noteq> RunCancelled then None
      else case find isCancellationNote (rev (bdl_events b)) of
          Some ev \<Rightarrow> Some \<lparr>cs_cancelledAt = ev_createdAt ev,
            cs_source = (case asString (payloadProp ev ''source'') of None \<Rightarrow> None
              | Some s \<Rightarrow> if s \<in> {''operator'', ''service-host''} then Some s else None),
            cs_reason = ev_note ev\<rparr>
        | None \<Rightarrow> Some \<lparr>cs_cancelledAt = run_updatedAt (bdl_run b), cs_source = None, cs_reason = None\<rparr>)"

record resumeSummary =
  rz_resumedAt :: "string option"
  rz_note :: "string option"

record drainSummary =
  dz_requestedAt :: string
  dz_status :: "string option"
  dz_reason :: "string option"
  dz_skipReason :: "string option"

definition isDrainEvent :: "executionRunEvent \<Rightarrow> bool" where
  "isDrainEvent ev = (ev_type ev = EvNoteAdded \<and> payloadProp ev ''source'' = Some (JStr ''operator'')
     \<and> payloadProp ev ''action'' = Some (JStr ''drain-run''))"

definition readExecutionRunOperatorControlSummary :: "runBundle \<Rightarrow> (resumeSummary option \<times> drainSummary option) option" where
  "readExecutionRunOperatorControlSummary b =
     (let resumed = map_option (\<lambda>r. \<lparr>rz_resumedAt = asString (jprop r ''resumedAt''), rz_note = asString (jprop r ''note'')\<rparr>)
            (Option.bind (find (\<lambda>e. startsWith (so_key e) ''human.resume.'') (rev (ss_structuredOutputs (bdl_sharedState b))))
              (\<lambda>e. asRecord (Some (so_value e))));
          drained = map_option (\<lambda>ev. \<lparr>dz_requestedAt = ev_createdAt ev,
              dz_status = (case asString (payloadProp ev ''status'') of None \<Rightarrow> None
                | Some s \<Rightarrow> if s \<in> {''executed'', ''skipped''} then Some s else None),
              dz_reason = ev_note ev, dz_skipReason = asString (payloadProp ev ''skipReason'')\<rparr>)
            (find isDrainEvent (rev (bdl_events b)))
      in if resumed = None \<and> drained = None then None else Some (resumed, drained))"

record browserRunSummary =
  bu_ownerStepId :: string
  bu_provider :: "string option"
  bu_service :: "string option"
  bu_texts :: "(string \<times> string option) list"
  bu_modifyPlanVisible :: "bool option"
  bu_reviewEvidence :: "jobj option"

definition browserRunOf :: "executionRunStep \<Rightarrow> jobj option" where
  "browserRunOf s = (case step_output s of None \<Rightarrow> None | Some out \<Rightarrow> asRecord (jprop (out_structuredData out) ''browserRun''))"

definition readExecutionRunBrowserRunSummary :: "runBundle \<Rightarrow> string option \<Rightarrow> browserRunSummary option" where
  "readExecutionRunBrowserRunSummary b terminalStepId =
     (let selected = orElseOpt (Option.bind (truthyText terminalStepId) (\<lambda>i. find (\<lambda>s. step_id s = i) (bdl_steps b)))
            (find (\<lambda>s. browserRunOf s \<noteq> None) (rev (bdl_steps b)))
      in case selected of
           None \<Rightarrow> None
         | Some s \<Rightarrow> map_option (\<lambda>r. \<lparr>bu_ownerStepId = step_id s,
             bu_provider = orElseOpt (readString (jprop r ''provider'')) (readString (jprop r ''service'')),
             bu_service = orElseOpt (readString (jprop r ''service'')) (readString (jprop r ''provider'')),
             bu_texts = map (\<lambda>k. (k, readString (jprop r k)))
               [''conversationId'', ''tabUrl'', ''chromeTargetId'', ''runtimeProfileId'', ''browserProfileId'',
                ''chatgptDeepResearchStage'', ''chatgptDeepResearchPlanAction'', ''chatgptDeepResearchStartMethod'',
                ''chatgptDeepResearchModifyPlanLabel''],
             bu_modifyPlanVisible = asBool (jprop r ''chatgptDeepResearchModifyPlanVisible''),
             bu_reviewEvidence = asRecord (jprop r ''chatgptDeepResearchReviewEvidence'')\<rparr>) (browserRunOf s))"

section \<open>The response\<close>

record failureSummary =
  fs_code :: string
  fs_message :: string
  fs_details :: "jobj option"

record executionSummary =
  es_terminalStepId :: "string option"
  es_createdAt :: string
  es_completedAt :: "string option"
  es_lastUpdatedAt :: string
  es_stepSummaries :: "stepSummary list option"
  es_localActionSummary :: "actionSummary option"
  es_requestedOutputSummary :: "requestedOutputItem list option"
  es_requestedOutputPolicy :: "string list option"
  es_inputArtifactSummary :: "artifactRef list option"
  es_handoffTransferSummary :: "transferSummaryItem list option"
  es_providerUsageSummary :: "usageSummary option"
  es_browserRunSummary :: "browserRunSummary option"
  es_runtimeDiagnosticsSummary :: diagnosticsSummary
  es_cancellationSummary :: "cancellationSummary option"
  es_operatorControlSummary :: "(resumeSummary option \<times> drainSummary option) option"
  es_orchestrationTimelineSummary :: "(nat \<times> timelineItem list) option"
  es_failureSummary :: "failureSummary option"

record executionResponse =
  er_id :: string
  er_status :: responseStatus
  er_model :: "string option"
  er_output :: "json list"
  er_runId :: string
  er_taskRunSpecId :: "string option"
  er_taskRunSpecSummary :: "jobj option"
  er_runtimeProfile :: "string option"
  er_service :: "serviceId option"
  er_executionSummary :: executionSummary

definition responseFailureSummary :: "executionRunStep option \<Rightarrow> string list option \<Rightarrow> failureSummary option" where
  "responseFailureSummary terminalStep policy =
     (case Option.bind terminalStep step_failure of
        Some f \<Rightarrow> Some \<lparr>fs_code = fail_code f, fs_message = fail_message f, fs_details = fail_details f\<rparr>
      | None \<Rightarrow>
          if missingRequired policy
          then Some \<lparr>fs_code = ''requested_output_required_missing'', fs_message = missingOutputsMessage (the policy), fs_details = None\<rparr>
          else None)"

definition createExecutionResponseFromRunRecord ::
  "(string \<Rightarrow> json option) \<Rightarrow> string \<Rightarrow> runBundle \<Rightarrow> string option \<Rightarrow> json list \<Rightarrow> string option \<Rightarrow> serviceId option \<Rightarrow> jobj option \<Rightarrow>
   executionResponse" where
  "createExecutionResponseFromRunRecord parseJson responseId b model output runtimeProfile service taskRunSpecSummary =
     (let taskRunSpecId = (if run_sourceKind (bdl_run b) = TeamRunSource then run_taskRunSpecId (bdl_run b) else None);
          terminalStep = terminalStepOf b; terminalStepId = map_option step_id terminalStep;
          summary = readExecutionRunRequestedOutputSummary parseJson b output terminalStep;
          policy = readExecutionRunRequestedOutputPolicySummary summary
      in \<lparr>er_id = responseId, er_status = applyRequestedOutputPolicyToResponseStatus (run_status (bdl_run b)) policy,
          er_model = model, er_output = output, er_runId = run_id (bdl_run b), er_taskRunSpecId = taskRunSpecId,
          er_taskRunSpecSummary = (if truthyText taskRunSpecId \<noteq> None then taskRunSpecSummary else None),
          er_runtimeProfile = runtimeProfile, er_service = service,
          er_executionSummary = \<lparr>es_terminalStepId = terminalStepId, es_createdAt = run_createdAt (bdl_run b),
            es_completedAt = Option.bind terminalStep step_completedAt, es_lastUpdatedAt = run_updatedAt (bdl_run b),
            es_stepSummaries = readExecutionRunStepSummaries b,
            es_localActionSummary = readExecutionRunLocalActionSummary b terminalStepId,
            es_requestedOutputSummary = summary, es_requestedOutputPolicy = policy,
            es_inputArtifactSummary = readExecutionRunInputArtifactSummary b terminalStepId,
            es_handoffTransferSummary = readExecutionRunHandoffTransferSummary b terminalStepId,
            es_providerUsageSummary = readExecutionRunProviderUsageSummary b terminalStepId,
            es_browserRunSummary = readExecutionRunBrowserRunSummary b terminalStepId,
            es_runtimeDiagnosticsSummary = readExecutionRunRuntimeDiagnosticsSummary b terminalStep policy,
            es_cancellationSummary = readExecutionRunCancellationSummary b,
            es_operatorControlSummary = readExecutionRunOperatorControlSummary b,
            es_orchestrationTimelineSummary = readExecutionRunOrchestrationTimelineSummary b,
            es_failureSummary = responseFailureSummary terminalStep policy\<rparr>\<rparr>)"

section \<open>What a response says\<close>

definition diagnosticsOf :: "executionResponse \<Rightarrow> diagnosticsSummary" where
  "diagnosticsOf r = es_runtimeDiagnosticsSummary (er_executionSummary r)"

abbreviation (input) policyOf :: "(string \<Rightarrow> json option) \<Rightarrow> runBundle \<Rightarrow> json list \<Rightarrow> string list option" where
  "policyOf parseJson b output \<equiv> readExecutionRunRequestedOutputPolicySummary
     (readExecutionRunRequestedOutputSummary parseJson b output (terminalStepOf b))"

lemma response_fields:
  "er_status (createExecutionResponseFromRunRecord parseJson i b model output profile service spec)
     = applyRequestedOutputPolicyToResponseStatus (run_status (bdl_run b)) (policyOf parseJson b output)"
  "ds_runtimeState (diagnosticsOf (createExecutionResponseFromRunRecord parseJson i b model output profile service spec))
     = readExecutionRunRuntimeState b (readExecutionRunLeaseState b) (readLastProviderRuntimeEvidence b)
         (readExecutionRunTerminalTransitionSource b (terminalStepOf b) (policyOf parseJson b output))"
  "es_cancellationSummary (er_executionSummary (createExecutionResponseFromRunRecord parseJson i b model output profile service spec))
     = readExecutionRunCancellationSummary b"
  by (simp_all add: createExecutionResponseFromRunRecord_def Let_def diagnosticsOf_def
      readExecutionRunRuntimeDiagnosticsSummary_def)

subsection \<open>Cancelled runs\<close>

text \<open>A cancelled run is reported with who cancelled it, when and why: the response to a run that has
  just been cancelled has the status cancelled, a terminal runtime state, and exactly the time, the
  source and the note of the cancellation.\<close>

lemma cancelled_run_is_reported:
  assumes "cancelExecutionRun b t0 note source = Inr b'" and "source \<in> {None, Some ''operator'', Some ''service-host''}"
  shows "let r = createExecutionResponseFromRunRecord parseJson i b' model output profile service spec
    in er_status r = ResponseCancelled \<and> ds_runtimeState (diagnosticsOf r) = StateTerminal
      \<and> es_cancellationSummary (er_executionSummary r) = Some \<lparr>cs_cancelledAt = t0, cs_source = Some (orElse source ''operator''),
          cs_reason = Some (orElse note ''run cancelled by local operator control'')\<rparr>"
proof -
  from assms(1) have status: "run_status (bdl_run b') = RunCancelled"
    by (auto simp: cancelExecutionRun_def applyBundleMutation_def Let_def split: if_splits)
  obtain ev where ev: "bdl_events b' = bdl_events b @ [ev]" "ev_type ev = EvNoteAdded" "ev_createdAt ev = t0"
      "ev_note ev = Some (orElse note ''run cancelled by local operator control'')"
      "ev_payload ev = Some [(''source'', JStr (orElse source ''operator'')), (''status'', JStr ''cancelled'')]"
    using assms(1) by (auto simp: cancelExecutionRun_def applyBundleMutation_def createExecutionRunEvent_def Let_def split: if_splits)
  have "readExecutionRunCancellationSummary b' = Some \<lparr>cs_cancelledAt = t0, cs_source = Some (orElse source ''operator''),
      cs_reason = Some (orElse note ''run cancelled by local operator control'')\<rparr>"
    using assms(2) status ev by (auto simp: readExecutionRunCancellationSummary_def isCancellationNote_def payloadProp_def optProp_def)
  moreover have "readExecutionRunTerminalTransitionSource b' x y \<noteq> None" for x y
    using status by (simp add: readExecutionRunTerminalTransitionSource_def Let_def)
  ultimately show ?thesis
    by (simp add: Let_def response_fields status applyRequestedOutputPolicyToResponseStatus_def readExecutionRunRuntimeState_def)
qed

lemma cancelled_run_is_reported_example:
  "\<exists>b'. cancelExecutionRun (demoBundle [demoStep ''a'' 1 StepRunning []] []) ''t1'' (Some ''stop'') None = Inr b'
    \<and> es_cancellationSummary (er_executionSummary (createExecutionResponseFromRunRecord (\<lambda>_. None) ''r'' b' None [] None None None))
        = Some \<lparr>cs_cancelledAt = ''t1'', cs_source = Some ''operator'', cs_reason = Some ''stop''\<rparr>"
proof -
  obtain b' where b': "cancelExecutionRun (demoBundle [demoStep ''a'' 1 StepRunning []] []) ''t1'' (Some ''stop'') None = Inr b'"
    by (simp add: cancelExecutionRun_def isMutableStep_def demo_simps Let_def)
  from cancelled_run_is_reported [OF b'] b' show ?thesis by (simp add: Let_def)
qed

subsection \<open>Runs that are not finished\<close>

text \<open>One finished step makes a run look terminal: whatever the run's own status and its leases, as
  soon as any step has succeeded, failed or been cancelled the diagnostics of the response say that the
  runtime has reached a terminal state, although the response of a run that is still planned or running
  is in progress.\<close>

lemma finished_step_looks_terminal:
  assumes "s \<in> set (bdl_steps b)" and "step_status s \<in> {StepSucceeded, StepFailed, StepCancelled}"
  shows "let r = createExecutionResponseFromRunRecord parseJson i b model output profile service spec
    in ds_runtimeState (diagnosticsOf r) = StateTerminal
      \<and> (run_status (bdl_run b) \<in> {RunPlanned, RunRunning} \<longleftrightarrow> er_status r = InProgress)"
proof -
  have "\<exists>t. terminalStepOf b = Some t \<and> step_status t \<in> {StepSucceeded, StepFailed, StepCancelled}"
  proof (cases "find (\<lambda>s. step_status s = StepFailed) (bdl_steps b)")
    case (Some t)
    then show ?thesis by (auto simp: terminalStepOf_def orElseOpt_def dest: find_SomeD)
  next
    case None
    with assms have "step_status s \<noteq> StepFailed" by (auto simp: find_None_iff)
    with assms have "find (\<lambda>s. step_status s \<in> {StepSucceeded, StepCancelled})
        (sortBy (\<lambda>l r. step_order r \<le> step_order l) (bdl_steps b)) \<noteq> None"
      by (auto simp: find_None_iff)
    with None show ?thesis by (auto simp: terminalStepOf_def orElseOpt_def dest: find_SomeD)
  qed
  then have "readExecutionRunTerminalTransitionSource b (terminalStepOf b) policy \<noteq> None" for policy
    by (auto simp: readExecutionRunTerminalTransitionSource_def Let_def)
  then show ?thesis
    by (cases "run_status (bdl_run b)")
      (auto simp: Let_def response_fields applyRequestedOutputPolicyToResponseStatus_def readExecutionRunRuntimeState_def)
qed

text \<open>The first of two steps is done, and a runner holds the run for the second.\<close>

definition halfDone :: runBundle where
  "halfDone = (let b = demoBundle [demoStep ''a'' 1 StepSucceeded [], demoStep ''b'' 2 StepRunning [''a'']]
       [demoLease ''l'' ''w'' LeaseActive ''t9'']
     in b\<lparr>bdl_run := (bdl_run b)\<lparr>run_status := RunRunning\<rparr>\<rparr>)"

lemma finished_step_looks_terminal_example:
  "let r = createExecutionResponseFromRunRecord (\<lambda>_. None) ''r'' halfDone None [] None None None
   in ds_runtimeState (diagnosticsOf r) = StateTerminal \<and> er_status r = InProgress \<and> ds_leaseState (diagnosticsOf r) = LeaseStateActive"
proof -
  have "demoStep ''a'' 1 StepSucceeded [] \<in> set (bdl_steps halfDone)"
    "step_status (demoStep ''a'' 1 StepSucceeded []) \<in> {StepSucceeded, StepFailed, StepCancelled}"
    by (simp_all add: halfDone_def Let_def demo_simps)
  from finished_step_looks_terminal [OF this] show ?thesis
    by (simp add: Let_def halfDone_def demo_simps demoLease_def diagnosticsOf_def createExecutionResponseFromRunRecord_def
        readExecutionRunRuntimeDiagnosticsSummary_def readExecutionRunLeaseState_def)
qed

subsection \<open>Requested outputs, here and in the runner\<close>

lemma same_rule: "missingRequiredItem (requestedOutputItemOf ev r) \<longleftrightarrow> isRequiredRequestedOutputMissing ev r"
  by (auto simp: missingRequiredItem_def requestedOutputItemOf_def isRequiredRequestedOutputMissing_def Let_def
      resolveRequestedOutputFulfillment_def)

lemma same_label:
  "orElse (ro_label (requestedOutputItemOf ev r)) (orElse (ro_kind (requestedOutputItemOf ev r)) ''unnamed-output'') = requestedOutputLabel r"
  by (simp add: requestedOutputItemOf_def requestedOutputLabel_def Let_def orElse_def split: option.split)

text \<open>C30. The response applies the rule of the runner: the outputs it reports as missing are those the
  runner's check would report for the same evidence, with the same labels in the same order; and where
  the stored record shows at least what the runner saw of a result, a step that passed the runner's
  check never turns the response of its run into a failure.\<close>

theorem response_applies_runner_rule:
  "(let requested = orElse (asArray (jprop (dataOf s) ''requestedOutputs'')) []
    in readExecutionRunRequestedOutputPolicySummary (readExecutionRunRequestedOutputSummary parseJson b output (Some s))
      = (if requested = [] then None
         else Some (map requestedOutputLabel (filter (isRequiredRequestedOutputMissing (responseEvidence parseJson b output)) requested))))
   \<and> (terminalStepOf b = Some s \<longrightarrow> run_status (bdl_run b) = RunSucceeded \<longrightarrow>
      lessEvidence (outputEvidenceOf parseJson out arts outs) (responseEvidence parseJson b output) \<longrightarrow>
      evaluateRequiredRequestedOutputsForStoredRuntime parseJson s out arts outs = [] \<longrightarrow>
      er_status (createExecutionResponseFromRunRecord parseJson i b model output profile service spec) = Completed)"
proof -
  let ?requested = "orElse (asArray (jprop (dataOf s) ''requestedOutputs'')) []"
  let ?policy = "readExecutionRunRequestedOutputPolicySummary (readExecutionRunRequestedOutputSummary parseJson b output (Some s))"
  have policy: "?policy = (if ?requested = [] then None
      else Some (map requestedOutputLabel (filter (isRequiredRequestedOutputMissing (responseEvidence parseJson b output)) ?requested)))"
    by (simp add: readExecutionRunRequestedOutputPolicySummary_def readExecutionRunRequestedOutputSummary_def Let_def
        filter_map comp_def same_rule same_label)
  have "er_status (createExecutionResponseFromRunRecord parseJson i b model output profile service spec) = Completed"
    if "terminalStepOf b = Some s" "run_status (bdl_run b) = RunSucceeded"
      "lessEvidence (outputEvidenceOf parseJson out arts outs) (responseEvidence parseJson b output)"
      "evaluateRequiredRequestedOutputsForStoredRuntime parseJson s out arts outs = []"
  proof -
    have "\<forall>r\<in>set ?requested. \<not> isRequiredRequestedOutputMissing (responseEvidence parseJson b output) r"
      using that(4) missing_antimono [OF that(3)]
      by (auto simp: evaluateRequiredRequestedOutputsForStoredRuntime_def Let_def filter_empty_conv split: if_splits)
    then have "\<not> missingRequired ?policy" unfolding policy by (auto simp: missingRequired_def)
    with that(1,2) show ?thesis by (simp add: response_fields applyRequestedOutputPolicyToResponseStatus_def)
  qed
  with policy show ?thesis by (simp add: Let_def)
qed

text \<open>A run whose step delivered the required report, which is also in the shared state.\<close>

definition reportedStep :: executionRunStep where
  "reportedStep = reportStep\<lparr>step_status := StepSucceeded, step_output := Some reportOutput\<rparr>"

definition sharedReportBundle :: runBundle where
  "sharedReportBundle = (let b = demoBundle [reportedStep] []
     in b\<lparr>bdl_run := (bdl_run b)\<lparr>run_status := RunSucceeded\<rparr>,
          bdl_sharedState := (bdl_sharedState b)\<lparr>ss_structuredOutputs := [\<lparr>so_key = ''report'', so_value = JBool True\<rparr>]\<rparr>\<rparr>)"

lemma response_applies_runner_rule_witness:
  "er_status (createExecutionResponseFromRunRecord (\<lambda>_. None) ''r'' sharedReportBundle None
      [JObj [(''type'', JStr ''message'')]] None None None) = Completed"
proof -
  have "terminalStepOf sharedReportBundle = Some reportedStep"
    by (simp add: terminalStepOf_def sharedReportBundle_def reportedStep_def reportStep_def demo_simps Let_def orElseOpt_def)
  moreover have "run_status (bdl_run sharedReportBundle) = RunSucceeded" by (simp add: sharedReportBundle_def Let_def)
  moreover have "evaluateRequiredRequestedOutputsForStoredRuntime (\<lambda>_. None) reportedStep reportOutput [] [] = []" by code_simp
  moreover have "lessEvidence (outputEvidenceOf (\<lambda>_. None) reportOutput [] [])
      (responseEvidence (\<lambda>_. None) sharedReportBundle [JObj [(''type'', JStr ''message'')]])" by code_simp
  ultimately show ?thesis using response_applies_runner_rule [of reportedStep "\<lambda>_. None" sharedReportBundle] by blast
qed

text \<open>A report in the output of a step satisfies the runner, which leaves it out of the shared state.\<close>

definition reportedBundle :: runBundle where
  "reportedBundle = (let b = demoBundle [reportedStep] []
     in b\<lparr>bdl_run := (bdl_run b)\<lparr>run_status := RunSucceeded\<rparr>\<rparr>)"

lemma satisfied_step_is_reported_as_failed:
  "evaluateRequiredRequestedOutputsForStoredRuntime (\<lambda>_. None) reportStep reportOutput [] [] = []
   \<and> er_status (createExecutionResponseFromRunRecord (\<lambda>_. None) ''r'' reportedBundle None [] None None None) = ResponseFailed"
  by code_simp

subsection \<open>Bookkeeping entries\<close>

lemma readNonNegativeInt_jsInt [simp]: "readNonNegativeInt (Some (jsInt n)) = max 0 n"
  by (simp add: readNonNegativeInt_def jsInt_def jsTrunc_def)

definition reportedAction :: "localActionRequest \<Rightarrow> actionSummaryItem" where
  "reportedAction r = \<lparr>ai_requestId = Some (lar_id r), ai_kind = Some (lar_kind r), ai_status = Some (actionStatusText (lar_status r)),
     ai_summary = Some (lar_summary r), ai_command = lar_command r, ai_args = lar_args r, ai_resultSummary = lar_resultSummary r\<rparr>"

lemma somes_strings: "somes (map (\<lambda>a. asString (Some a)) (map JStr xs)) = xs"
  by (induction xs) (simp_all add: somes_def)

lemma actionSummaryItemOf_outcome: "actionSummaryItemOf (outcomeItemJson r) = reportedAction r"
  using somes_strings [of "lar_args r"]
  by (simp add: actionSummaryItemOf_def outcomeItemJson_def reportedAction_def Let_def)

lemma asNumber_jsInt [simp]: "asNumber (Some (jsInt n)) = Some (Fin (of_int n))"
  by (simp add: jsInt_def)


definition bookkeptActions :: "localActionRequest list" where
  "bookkeptActions = [\<lparr>lar_id = ''x'', lar_teamRunId = ''r'', lar_ownerStepId = ''a'', lar_kind = ''shell'', lar_summary = ''ls'',
     lar_command = Some ''ls'', lar_args = [''-l''], lar_structuredPayload = [], lar_notes = [], lar_status = Executed,
     lar_createdAt = ''t0'', lar_approvedAt = None, lar_completedAt = Some ''t1'', lar_resultSummary = None, lar_resultPayload = None\<rparr>]"

definition bookkeptBundle :: runBundle where
  "bookkeptBundle = (let b = demoBundle [] [] in b\<lparr>bdl_sharedState := (bdl_sharedState b)\<lparr>ss_structuredOutputs :=
     [the (summarizeLocalActionRequestsForSharedState ''a'' bookkeptActions ''t1''),
      providerUsageOutput ''a'' ''t1'' \<lparr>us_inputTokens = Fin 3, us_outputTokens = Fin 4, us_reasoningTokens = Fin 0, us_totalTokens = Fin 7\<rparr>]\<rparr>\<rparr>)"


end
