(* ===== verification/Tenant_Limits.thy ===== *)
theory Tenant_Limits
  imports Service_Host "HOL-Library.AList"
begin

text \<open>
  The admission of chats per tenant (\<open>src/runtime/tenantExecutionLimits.ts\<close>): which account a step
  would be executed with (\<open>src/config/serviceAccountIdentity.ts\<close>), the limits configured for it, and
  the gate a host asks before it executes a run. The gate keeps reservations for runs it has let
  through until their leases and events show in the stored runs. A configuration is a JavaScript
  object, and a \<open>Map\<close> an association list in insertion order.
\<close>

section \<open>Configured service accounts\<close>

definition getRuntimeProfiles :: "jobj \<Rightarrow> jobj" where
  "getRuntimeProfiles config = orElse (asRecord (jprop config ''profiles'')) []"

definition getTargetRuntimeProfiles :: "jobj \<Rightarrow> jobj" where
  "getTargetRuntimeProfiles config = orElse (asRecord (jprop config ''runtimeProfiles'')) []"

definition getCurrentRuntimeProfiles :: "jobj \<Rightarrow> jobj" where
  "getCurrentRuntimeProfiles config =
     (if getTargetRuntimeProfiles config \<noteq> [] then getTargetRuntimeProfiles config else getRuntimeProfiles config)"

text \<open>\<open>replace(/\s+/g, " ")\<close>; the flag says that the character before was white space.\<close>

fun collapseSpaces :: "bool \<Rightarrow> string \<Rightarrow> string" where
  "collapseSpaces seen [] = []"
| "collapseSpaces seen (c # cs) =
     (if jsWhite c then (if seen then collapseSpaces True cs else CHR '' '' # collapseSpaces True cs)
      else c # collapseSpaces False cs)"

definition normalizeServiceAccountIdentityKey :: "json option \<Rightarrow> string option" where
  "normalizeServiceAccountIdentityKey value = (case asString value of
     None \<Rightarrow> None
   | Some s \<Rightarrow> truthyText (Some (toLowerCase (collapseSpaces False
       (map (\<lambda>c. if c \<in> {CHR ''|'', CHR ''=''} then CHR '' '' else c) (trim s))))))"

fun readIdentityKey :: "jobj \<Rightarrow> string list \<Rightarrow> string option" where
  "readIdentityKey identity [] = None"
| "readIdentityKey identity (k # ks) =
     orElseOpt (normalizeServiceAccountIdentityKey (jprop identity k)) (readIdentityKey identity ks)"

definition readIdentityQualifiers :: "jobj \<Rightarrow> (string \<times> string) list" where
  "readIdentityQualifiers identity = somes (map
     (\<lambda>(k, field). map_option (Pair k) (normalizeServiceAccountIdentityKey (jprop identity field)))
     [(''account-id'', ''accountId''), (''org'', ''organizationId''), (''plan'', ''accountPlanType''),
      (''structure'', ''accountStructure'')])"

definition qualifierSuffix :: "(string \<times> string) list \<Rightarrow> string" where
  "qualifierSuffix qs = concat (map (\<lambda>(k, v). ''|'' @ k @ ''='' @ v) qs)"

definition createConfiguredServiceAccountId :: "string \<Rightarrow> json option \<Rightarrow> string option" where
  "createConfiguredServiceAccountId serviceId serviceConfig =
     (case asRecord (optProp (asRecord serviceConfig) ''identity'') of
        None \<Rightarrow> None
      | Some identity \<Rightarrow>
          (let qualifiers = readIdentityQualifiers identity in
           case readIdentityKey identity [''email'', ''handle'', ''id'', ''name''] of
             Some key \<Rightarrow> Some (''service-account:'' @ serviceId @ '':'' @ key @ qualifierSuffix qualifiers)
           | None \<Rightarrow> map_option (\<lambda>accountId. ''service-account:'' @ serviceId @ '':account-id='' @ accountId
                 @ qualifierSuffix (filter (\<lambda>(k, _). k \<noteq> ''account-id'') qualifiers))
               (normalizeServiceAccountIdentityKey (jprop identity ''accountId''))))"

text \<open>\<open>runtimeProfileId ? readRecord(profiles[runtimeProfileId]) : null\<close> and the services of a profile.\<close>

definition runtimeProfileOf :: "jobj \<Rightarrow> string option \<Rightarrow> jobj option" where
  "runtimeProfileOf config runtimeProfileId =
     Option.bind (truthyText runtimeProfileId) (\<lambda>p. asRecord (jprop (getCurrentRuntimeProfiles config) p))"

definition profileServices :: "jobj \<Rightarrow> string option \<Rightarrow> jobj option" where
  "profileServices config runtimeProfileId =
     asRecord (optProp (runtimeProfileOf config runtimeProfileId) ''services'')"

definition globalServices :: "jobj \<Rightarrow> jobj option" where
  "globalServices config = asRecord (jprop config ''services'')"

definition resolveConfiguredServiceAccountId :: "jobj \<Rightarrow> serviceId option \<Rightarrow> string option \<Rightarrow> string option" where
  "resolveConfiguredServiceAccountId config serviceId runtimeProfileId = (case serviceId of
     None \<Rightarrow> None
   | Some s \<Rightarrow> orElseOpt
       (createConfiguredServiceAccountId (serviceText s) (optProp (profileServices config runtimeProfileId) (serviceText s)))
       (createConfiguredServiceAccountId (serviceText s) (optProp (globalServices config) (serviceText s))))"

section \<open>Configured limits\<close>

record tenantLimits =
  tl_maxConcurrentChats :: "int option"
  tl_maxChatsPerHour :: "int option"
  tl_maxChatsPerDay :: "int option"

text \<open>\<open>Partial<TenantChatExecutionLimits>\<close>: the outer \<open>None\<close> is \<open>undefined\<close>, the inner one \<open>null\<close>.\<close>

record partialLimits =
  pt_maxConcurrentChats :: "int option option"
  pt_maxChatsPerHour :: "int option option"
  pt_maxChatsPerDay :: "int option option"

definition partialOf :: "tenantLimits \<Rightarrow> partialLimits" where
  "partialOf l = \<lparr>pt_maxConcurrentChats = Some (tl_maxConcurrentChats l),
     pt_maxChatsPerHour = Some (tl_maxChatsPerHour l), pt_maxChatsPerDay = Some (tl_maxChatsPerDay l)\<rparr>"

definition DEFAULT_CHATGPT_TENANT_LIMITS :: tenantLimits where
  "DEFAULT_CHATGPT_TENANT_LIMITS =
     \<lparr>tl_maxConcurrentChats = Some 4, tl_maxChatsPerHour = Some 120, tl_maxChatsPerDay = Some 240\<rparr>"

definition TENANT_RESERVATION_TTL_MS :: int where "TENANT_RESERVATION_TTL_MS = 60000"
definition HOUR_MS :: int where "HOUR_MS = 60 * 60000"
definition DAY_MS :: int where "DAY_MS = 24 * HOUR_MS"

definition readNullablePositiveInteger :: "json option \<Rightarrow> int option" where
  "readNullablePositiveInteger value = (case asNumber value of
     Some (Fin q) \<Rightarrow> if isIntegral q \<and> q > 0 then Some \<lfloor>q\<rfloor> else None
   | _ \<Rightarrow> None)"

definition readTenantLimits :: "json option \<Rightarrow> partialLimits option" where
  "readTenantLimits value = map_option (\<lambda>r.
     \<lparr>pt_maxConcurrentChats = Some (readNullablePositiveInteger (jprop r ''maxConcurrentChats'')),
      pt_maxChatsPerHour = Some (readNullablePositiveInteger (jprop r ''maxChatsPerHour'')),
      pt_maxChatsPerDay = Some (readNullablePositiveInteger (jprop r ''maxChatsPerDay''))\<rparr>) (asRecord value)"

definition mergeInto :: "tenantLimits \<Rightarrow> partialLimits option \<Rightarrow> tenantLimits" where
  "mergeInto merged entry = (case entry of
     None \<Rightarrow> merged
   | Some e \<Rightarrow> \<lparr>tl_maxConcurrentChats = orElse (pt_maxConcurrentChats e) (tl_maxConcurrentChats merged),
        tl_maxChatsPerHour = orElse (pt_maxChatsPerHour e) (tl_maxChatsPerHour merged),
        tl_maxChatsPerDay = orElse (pt_maxChatsPerDay e) (tl_maxChatsPerDay merged)\<rparr>)"

definition mergeTenantLimits :: "partialLimits option list \<Rightarrow> tenantLimits" where
  "mergeTenantLimits entries =
     foldl mergeInto \<lparr>tl_maxConcurrentChats = None, tl_maxChatsPerHour = None, tl_maxChatsPerDay = None\<rparr> entries"

definition globalChatgpt :: "jobj \<Rightarrow> jobj option" where
  "globalChatgpt config = asRecord (optProp (globalServices config) ''chatgpt'')"

definition runtimeChatgpt :: "jobj \<Rightarrow> string option \<Rightarrow> jobj option" where
  "runtimeChatgpt config runtimeProfileId = asRecord (optProp (profileServices config runtimeProfileId) ''chatgpt'')"

definition resolveChatgptTenantLimits :: "jobj \<Rightarrow> string option \<Rightarrow> tenantLimits" where
  "resolveChatgptTenantLimits config runtimeProfileId = mergeTenantLimits
     [Some (partialOf DEFAULT_CHATGPT_TENANT_LIMITS),
      readTenantLimits (optProp (globalChatgpt config) ''tenantLimits''),
      readTenantLimits (optProp (runtimeChatgpt config runtimeProfileId) ''tenantLimits'')]"

definition resolveChatgptInteractionsPerMinute :: "jobj \<Rightarrow> string option \<Rightarrow> int" where
  "resolveChatgptInteractionsPerMinute config runtimeProfileId =
     (let rate = (\<lambda>chatgpt. readNullablePositiveInteger
            (optProp (asRecord (optProp chatgpt ''liveFollow'')) ''maxBrowserInteractionsPerMinute''))
      in orElse (orElseOpt (rate (runtimeChatgpt config runtimeProfileId)) (rate (globalChatgpt config))) 30)"

text \<open>\<open>Number.isSafeInteger\<close>\<close>

definition safeInteger :: "json \<Rightarrow> int option" where
  "safeInteger v = (case v of
     JNum (Fin q) \<Rightarrow> if isIntegral q \<and> \<bar>q\<bar> < 9007199254740992 then Some \<lfloor>q\<rfloor> else None
   | _ \<Rightarrow> None)"

definition readChatgptBackendSetting :: "jobj \<Rightarrow> string option \<Rightarrow> string \<Rightarrow> int \<Rightarrow> int option result" where
  "readChatgptBackendSetting config runtimeProfileId key minimum =
     (case orElseOpt (optProp (runtimeChatgpt config runtimeProfileId) key) (optProp (globalChatgpt config) key) of
        None \<Rightarrow> Inr None
      | Some v \<Rightarrow> (case safeInteger v of
          Some n \<Rightarrow> if n \<ge> minimum then Inr (Some n) else Inl (PlainError (''ChatGPT '' @ key @ '' must be a ''
            @ (if minimum \<noteq> 0 then ''positive'' else ''nonnegative'') @ '' safe integer.''))
        | None \<Rightarrow> Inl (PlainError (''ChatGPT '' @ key @ '' must be a ''
            @ (if minimum \<noteq> 0 then ''positive'' else ''nonnegative'') @ '' safe integer.''))))"

definition resolveChatgptBackendRequestsPerMinute :: "jobj \<Rightarrow> string option \<Rightarrow> int option result" where
  "resolveChatgptBackendRequestsPerMinute config p = readChatgptBackendSetting config p ''maxBackendRequestsPerMinute'' 1"

definition resolveChatgptBackendRequestBudgetWaitMs :: "jobj \<Rightarrow> string option \<Rightarrow> int result" where
  "resolveChatgptBackendRequestBudgetWaitMs config p =
     map_sum id (\<lambda>n. orElse n 0) (readChatgptBackendSetting config p ''backendRequestBudgetWaitMs'' 0)"

section \<open>Tenants\<close>

record tenantScope =
  ts_tenantKey :: string
  ts_tenantLabel :: string
  ts_limits :: tenantLimits

text \<open>A typed optional string; blank ones count as absent.\<close>

definition nonEmptyString :: "string option \<Rightarrow> string option" where
  "nonEmptyString value = truthyText (map_option trim value)"

definition tenantKeyOf :: "jobj \<Rightarrow> string option \<Rightarrow> string option \<Rightarrow> string" where
  "tenantKeyOf config runtimeProfileId browserProfileId =
     orElse (resolveConfiguredServiceAccountId config (Some Chatgpt) runtimeProfileId)
       (case truthyText runtimeProfileId of
          Some p \<Rightarrow> ''runtime-profile:chatgpt:'' @ p
        | None \<Rightarrow> (case truthyText browserProfileId of
            Some p \<Rightarrow> ''browser-profile:chatgpt:'' @ p
          | None \<Rightarrow> ''service:chatgpt:unbound''))"

definition resolveChatgptTenantExecutionScope :: "jobj \<Rightarrow> string option \<Rightarrow> string option \<Rightarrow> tenantScope" where
  "resolveChatgptTenantExecutionScope config runtimeProfileId browserProfileId =
     (let key = tenantKeyOf config runtimeProfileId browserProfileId
      in \<lparr>ts_tenantKey = key, ts_tenantLabel = key, ts_limits = resolveChatgptTenantLimits config runtimeProfileId\<rparr>)"

definition selectExecutionScopeStep :: "storedRecord \<Rightarrow> executionRunStep option" where
  "selectExecutionScopeStep rec =
     (let steps = bdl_steps (rec_bundle rec)
      in orElseOpt (find (\<lambda>s. step_status s = StepRunnable) steps)
          (orElseOpt (find (\<lambda>s. step_status s = StepRunning) steps)
            (find (\<lambda>s. step_service s = Some Chatgpt) steps)))"

definition resolveTenantExecutionScope :: "jobj \<Rightarrow> storedRecord \<Rightarrow> tenantScope option" where
  "resolveTenantExecutionScope config rec = (case selectExecutionScopeStep rec of
     None \<Rightarrow> None
   | Some s \<Rightarrow>
       if step_service s \<noteq> Some Chatgpt then None
       else Some (resolveChatgptTenantExecutionScope config
         (nonEmptyString (step_runtimeProfileId s)) (nonEmptyString (step_browserProfileId s))))"

definition stepMatchesTenantScope :: "jobj \<Rightarrow> executionRunStep option \<Rightarrow> tenantScope \<Rightarrow> bool" where
  "stepMatchesTenantScope config step scope = (case step of
     None \<Rightarrow> False
   | Some s \<Rightarrow> step_service s = Some Chatgpt \<and>
       tenantKeyOf config (nonEmptyString (step_runtimeProfileId s)) (nonEmptyString (step_browserProfileId s))
         = ts_tenantKey scope)"

definition recordMatchesTenantScope :: "jobj \<Rightarrow> storedRecord \<Rightarrow> tenantScope \<Rightarrow> bool" where
  "recordMatchesTenantScope config rec scope =
     list_ex (\<lambda>s. stepMatchesTenantScope config (Some s) scope) (bdl_steps (rec_bundle rec))"

definition isTerminalRun :: "storedRecord \<Rightarrow> bool" where
  "isTerminalRun rec = (run_status (bdl_run (rec_bundle rec)) \<in> {RunSucceeded, RunFailed, RunCancelled})"

definition recordHasActiveLease :: "storedRecord \<Rightarrow> bool" where
  "recordHasActiveLease rec = list_ex (\<lambda>l. lease_status l = LeaseActive) (bdl_leases (rec_bundle rec))"

section \<open>Counting the chats of a tenant\<close>

record reservation =
  rv_runId :: string
  rv_reservedAtMs :: int

type_synonym reservations = "(string \<times> reservation) list"

definition countActiveTenantChats ::
  "jobj \<Rightarrow> tenantScope \<Rightarrow> string \<Rightarrow> int \<Rightarrow> storedRecord list \<Rightarrow> reservations \<Rightarrow> nat" where
  "countActiveTenantChats config scope excludingRunId nowMs records reserved =
     length (remdups
       (map rec_runId (filter (\<lambda>r. rec_runId r \<noteq> excludingRunId \<and> \<not> isTerminalRun r \<and> recordHasActiveLease r
          \<and> recordMatchesTenantScope config r scope) records)
        @ map rv_runId (filter (\<lambda>r. rv_runId r \<noteq> excludingRunId
          \<and> nowMs - rv_reservedAtMs r \<le> TENANT_RESERVATION_TTL_MS) (map snd reserved))))"

text \<open>The locals of the counting loop.\<close>

record startedChats =
  sd_count :: nat
  sd_runIds :: "string list"
  sd_chatKeys :: "string list"

definition eventStep :: "storedRecord \<Rightarrow> executionRunEvent \<Rightarrow> executionRunStep option" where
  "eventStep rec ev = (case truthyText (ev_stepId ev) of
     None \<Rightarrow> selectExecutionScopeStep rec
   | Some i \<Rightarrow> map_of (rev (map (\<lambda>s. (step_id s, s)) (bdl_steps (rec_bundle rec)))) i)"

definition chatKey :: "storedRecord \<Rightarrow> executionRunEvent \<Rightarrow> string" where
  "chatKey rec ev = (case truthyText (ev_stepId ev) of
     None \<Rightarrow> rec_runId rec | Some i \<Rightarrow> rec_runId rec @ CHR 0x00 # i)"

definition countStart :: "jobj \<Rightarrow> tenantScope \<Rightarrow> int \<Rightarrow> storedRecord \<Rightarrow> startedChats \<Rightarrow> executionRunEvent \<Rightarrow> startedChats" where
  "countStart config scope cutoffMs rec l ev =
     (if ev_type ev = EvStepStarted
        \<and> (case dateParse (ev_createdAt ev) of None \<Rightarrow> False | Some ms \<Rightarrow> ms \<ge> cutoffMs)
        \<and> stepMatchesTenantScope config (eventStep rec ev) scope \<and> chatKey rec ev \<notin> set (sd_chatKeys l)
      then \<lparr>sd_count = sd_count l + 1, sd_runIds = List.insert (rec_runId rec) (sd_runIds l),
             sd_chatKeys = chatKey rec ev # sd_chatKeys l\<rparr>
      else l)"

definition startedIn :: "jobj \<Rightarrow> tenantScope \<Rightarrow> int \<Rightarrow> storedRecord list \<Rightarrow> startedChats" where
  "startedIn config scope cutoffMs records =
     foldl (\<lambda>l rec. foldl (countStart config scope cutoffMs rec) l (bdl_events (rec_bundle rec)))
       \<lparr>sd_count = 0, sd_runIds = [], sd_chatKeys = []\<rparr> records"

definition countTenantStartedChats ::
  "jobj \<Rightarrow> tenantScope \<Rightarrow> int \<Rightarrow> storedRecord list \<Rightarrow> reservations \<Rightarrow> nat" where
  "countTenantStartedChats config scope cutoffMs records reserved =
     (let l = startedIn config scope cutoffMs records
      in sd_count l + length (filter (\<lambda>r. \<not> (rv_reservedAtMs r < cutoffMs \<or> rv_runId r \<in> set (sd_runIds l))) (map snd reserved)))"

section \<open>The gate\<close>

definition keepsReservation :: "jobj \<Rightarrow> tenantScope \<Rightarrow> int \<Rightarrow> storedRecord list \<Rightarrow> reservation \<Rightarrow> bool" where
  "keepsReservation config scope nowMs records r =
     (case map_of (rev (map (\<lambda>rec. (rec_runId rec, rec)) records)) (rv_runId r) of
        None \<Rightarrow> False
      | Some rec \<Rightarrow> \<not> isTerminalRun rec \<and> recordMatchesTenantScope config rec scope \<and>
          \<not> (nowMs - rv_reservedAtMs r > TENANT_RESERVATION_TTL_MS \<and> \<not> recordHasActiveLease rec \<and>
             \<not> list_ex (\<lambda>s. step_status s = StepRunning) (bdl_steps (rec_bundle rec))))"

definition pruneTenantReservations ::
  "jobj \<Rightarrow> tenantScope \<Rightarrow> int \<Rightarrow> storedRecord list \<Rightarrow> reservations option \<Rightarrow> reservations" where
  "pruneTenantReservations config scope nowMs records reserved = (case reserved of
     None \<Rightarrow> []
   | Some rs \<Rightarrow> foldl (\<lambda>next r. AList.update (rv_runId r) r next) []
       (filter (keepsReservation config scope nowMs records) (map snd rs)))"

text \<open>The reason to refuse when \<open>n\<close> chats have reached a limit.\<close>

definition reachedLimit :: "tenantScope \<Rightarrow> string \<Rightarrow> string \<Rightarrow> int option \<Rightarrow> nat \<Rightarrow> string option" where
  "reachedLimit scope what unit limit n = (case limit of
     None \<Rightarrow> None
   | Some m \<Rightarrow>
       if int n \<ge> m
       then Some (''chatgpt tenant '' @ ts_tenantLabel scope @ '' '' @ what @ '' limit reached: '' @ natToStr n
         @ ''/'' @ intToStr m @ '' '' @ unit)
       else None)"

definition gateVerdict :: "jobj \<Rightarrow> tenantScope \<Rightarrow> string \<Rightarrow> int \<Rightarrow> storedRecord list \<Rightarrow> reservations \<Rightarrow> string option" where
  "gateVerdict config scope runId nowMs records reserved =
     (let limits = ts_limits scope
      in orElseOpt (reachedLimit scope ''concurrency'' ''active chats'' (tl_maxConcurrentChats limits)
             (countActiveTenantChats config scope runId nowMs records reserved))
          (orElseOpt (reachedLimit scope ''hourly chat rate'' ''chats per hour'' (tl_maxChatsPerHour limits)
             (countTenantStartedChats config scope (nowMs - HOUR_MS) records reserved))
           (reachedLimit scope ''daily chat rate'' ''chats per day'' (tl_maxChatsPerDay limits)
             (countTenantStartedChats config scope (nowMs - DAY_MS) records reserved))))"

type_synonym tenantState = "(string \<times> reservations) list"

record 'w tenantGate =
  tg_control :: "'w recordStore"
  tg_config :: jobj
  tg_now :: "'w \<Rightarrow> int \<times> 'w"

definition changedSince :: "int \<Rightarrow> listOptions" where
  "changedSince ms = \<lparr>lo_limit = None, lo_status = None, lo_statuses = [], lo_sourceKind = None,
     lo_updatedSince = Some (toISOString ms)\<rparr>"

text \<open>From the answer of the listing on, the gate runs without an await.\<close>

definition admitRun :: "jobj \<Rightarrow> tenantScope \<Rightarrow> storedRecord \<Rightarrow> int \<Rightarrow> storedRecord list \<Rightarrow> tenantState \<Rightarrow> string option \<times> tenantState" where
  "admitRun config scope rec nowMs records state =
     (let reserved = pruneTenantReservations config scope nowMs records (map_of state (ts_tenantKey scope));
          verdict = gateVerdict config scope (rec_runId rec) nowMs records reserved
      in (verdict, AList.update (ts_tenantKey scope)
           (if verdict = None
            then AList.update (rec_runId rec) \<lparr>rv_runId = rec_runId rec, rv_reservedAtMs = nowMs\<rparr> reserved
            else reserved) state))"

definition createTenantExecutionLimitGate :: "'w tenantGate \<Rightarrow> ('w \<times> tenantState) executionGate" where
  "createTenantExecutionLimitGate g rec = (\<lambda>(w, state).
     case resolveTenantExecutionScope (tg_config g) rec of
       None \<Rightarrow> (Inr None, (w, state))
     | Some scope \<Rightarrow> (case tg_now g w of (nowMs, w1) \<Rightarrow>
         (case controlListRuns (tg_control g) (changedSince (nowMs - DAY_MS)) w1 of
            (Inl e, w2) \<Rightarrow> (Inl e, (w2, state))
          | (Inr records, w2) \<Rightarrow>
              (case admitRun (tg_config g) scope rec nowMs records state of
                 (verdict, state') \<Rightarrow> (Inr verdict, (w2, state'))))))"

section \<open>What the gate lets through\<close>

text \<open>
  The decisions of a gate in the order it takes them: time passes, and a call decides with the moment
  at which it read the clock and the records the store answered, which may both be older than what
  an interleaved call has decided with.
\<close>

inductive gateHistory :: "jobj \<Rightarrow> int \<Rightarrow> tenantState \<Rightarrow> bool" for config where
  start: "gateHistory config t []"
| tick: "gateHistory config t state \<Longrightarrow> t \<le> t' \<Longrightarrow> gateHistory config t' state"
| decide: "gateHistory config t state \<Longrightarrow> resolveTenantExecutionScope config rec = Some scope \<Longrightarrow> nowMs \<le> t \<Longrightarrow>
    gateHistory config t (snd (admitRun config scope rec nowMs records state))"

text \<open>Every call of the gate is a decision, or leaves the reservations alone.\<close>

lemma gate_call_decides:
  assumes "createTenantExecutionLimitGate g rec (w, state) = (res, (w', state'))"
  shows "state' = state \<or> (\<exists>scope records. resolveTenantExecutionScope (tg_config g) rec = Some scope
    \<and> state' = snd (admitRun (tg_config g) scope rec (fst (tg_now g w)) records state)
    \<and> res = Inr (fst (admitRun (tg_config g) scope rec (fst (tg_now g w)) records state)))"
proof (cases "resolveTenantExecutionScope (tg_config g) rec")
  case None
  with assms show ?thesis by (simp add: createTenantExecutionLimitGate_def)
next
  case (Some scope)
  obtain nowMs w1 where n: "tg_now g w = (nowMs, w1)" by force
  obtain r w2 where l: "controlListRuns (tg_control g) (changedSince (nowMs - DAY_MS)) w1 = (r, w2)" by force
  show ?thesis
  proof (cases r)
    case (Inr records)
    with assms Some n l have "state' = snd (admitRun (tg_config g) scope rec nowMs records state)
        \<and> res = Inr (fst (admitRun (tg_config g) scope rec nowMs records state))"
      by (auto simp: createTenantExecutionLimitGate_def split: prod.splits)
    with Some n show ?thesis by auto
  qed (use assms Some n l in \<open>simp add: createTenantExecutionLimitGate_def\<close>)
qed

text \<open>A table holds one reservation per run, under the name of the run.\<close>

definition wfReservations :: "reservations \<Rightarrow> bool" where
  "wfReservations rs = (distinct (map fst rs) \<and> (\<forall>(i, r)\<in>set rs. rv_runId r = i))"

definition since :: "int \<Rightarrow> reservations \<Rightarrow> reservations" where
  "since cutoffMs rs = filter (\<lambda>(_, r). rv_reservedAtMs r \<ge> cutoffMs) rs"

lemma since_simps [simp]:
  "since c [] = []"
  "since c ((i, r) # rs) = (if rv_reservedAtMs r \<ge> c then (i, r) # since c rs else since c rs)"
  by (simp_all add: since_def)

lemma wfReservations_Nil [simp]: "wfReservations []"
  by (simp add: wfReservations_def)

lemma wfReservations_filter: "wfReservations rs \<Longrightarrow> wfReservations (filter P rs)"
  by (auto simp: wfReservations_def distinct_map_filter)

lemma set_update_alist: "(i, r) \<in> set (AList.update k v rs) \<Longrightarrow> i = k \<and> r = v \<or> (i, r) \<in> set rs"
  by (induction rs) (auto split: if_splits)

lemma wfReservations_update:
  assumes "wfReservations rs" shows "wfReservations (AList.update (rv_runId r) r rs)"
  using assms set_update_alist [of _ _ "rv_runId r" r rs]
  by (fastforce simp: wfReservations_def intro: distinct_update)

lemma update_fresh: "k \<notin> fst ` set rs \<Longrightarrow> AList.update k v rs = rs @ [(k, v)]"
  by (induction rs) auto

lemma rebuild_table:
  assumes "wfReservations (acc @ rs)"
  shows "foldl (\<lambda>next r. AList.update (rv_runId r) r next) acc (filter P (map snd rs)) = acc @ filter (\<lambda>(_, r). P r) rs"
  using assms
proof (induction rs arbitrary: acc)
  case (Cons x rs)
  obtain i r where x: "x = (i, r)" by force
  have i: "i = rv_runId r" "i \<notin> fst ` set acc" using Cons.prems x by (simp_all add: wfReservations_def)
  have "wfReservations ((acc @ [x]) @ rs)" "wfReservations (acc @ rs)"
    using Cons.prems by (simp_all add: wfReservations_def)
  with Cons.IH [of "acc @ [x]"] Cons.IH [of acc] x i show ?case by (simp add: update_fresh)
qed simp

lemma prune_is_filter:
  "wfReservations rs \<Longrightarrow> pruneTenantReservations config scope nowMs records (Some rs)
     = filter (\<lambda>(_, r). keepsReservation config scope nowMs records r) rs"
  using rebuild_table [of "[]" rs "keepsReservation config scope nowMs records"]
  by (simp add: pruneTenantReservations_def)

lemma keys_card: "wfReservations rs \<Longrightarrow> length (since c rs) = card (fst ` set (since c rs))"
  using distinct_card [of "map fst (since c rs)"] by (simp add: wfReservations_def since_def distinct_map_filter)

lemma since_filter_length: "length (since c (filter P rs)) \<le> length (since c rs)"
  by (induction rs) (auto simp: since_def)

lemma since_mono: "c' \<le> c \<Longrightarrow> length (since c rs) \<le> length (since c' rs)"
  by (induction rs) (auto simp: since_def)

lemma since_update:
  assumes "distinct (map fst rs)"
  shows "length (since c (AList.update k v rs)) \<le> Suc (length (since c (filter (\<lambda>(i, _). i \<noteq> k) rs)))"
proof -
  have absent: "filter (\<lambda>(i, _). i \<noteq> k) rs = rs" if "k \<notin> fst ` set rs" for rs :: reservations
    using that by (force simp: filter_id_conv)
  show ?thesis using assms by (induction rs) (auto simp: absent)
qed

text \<open>A reservation younger than a minute counts as an active chat of another run.\<close>

lemma active_covers_reservations:
  assumes "wfReservations rs"
  shows "length (since (nowMs - TENANT_RESERVATION_TTL_MS) (filter (\<lambda>(i, _). i \<noteq> runId) rs))
    \<le> countActiveTenantChats config scope runId nowMs records rs"
proof -
  let ?young = "since (nowMs - TENANT_RESERVATION_TTL_MS) (filter (\<lambda>(i, _). i \<noteq> runId) rs)"
  let ?ids = "map rv_runId (filter (\<lambda>r. rv_runId r \<noteq> runId \<and> nowMs - rv_reservedAtMs r \<le> TENANT_RESERVATION_TTL_MS) (map snd rs))"
  let ?runs = "map rec_runId (filter (\<lambda>r. rec_runId r \<noteq> runId \<and> \<not> isTerminalRun r \<and> recordHasActiveLease r
    \<and> recordMatchesTenantScope config r scope) records)"
  have "length ?young = card (fst ` set ?young)" by (rule keys_card [OF wfReservations_filter [OF assms]])
  also have "fst ` set ?young \<subseteq> set ?ids"
  proof (rule image_subsetI)
    fix x assume "x \<in> set ?young"
    then obtain i r where x: "x = (i, r)" "(i, r) \<in> set rs" "i \<noteq> runId" "nowMs - TENANT_RESERVATION_TTL_MS \<le> rv_reservedAtMs r"
      by (auto simp: since_def)
    moreover from x(2) assms have "rv_runId r = i" by (auto simp: wfReservations_def)
    ultimately show "fst x \<in> set ?ids" by (auto intro!: image_eqI [of _ _ r] rev_image_eqI [of "(i, r)"])
  qed
  then have "card (fst ` set ?young) \<le> card (set (?runs @ ?ids))" by (intro card_mono) auto
  finally show ?thesis by (simp only: countActiveTenantChats_def length_remdups_card_conv)
qed

text \<open>Every run counted as started has a chat counted for it.\<close>

lemma started_runs_counted:
  "distinct (sd_runIds l) \<and> length (sd_runIds l) \<le> sd_count l \<Longrightarrow>
   distinct (sd_runIds (countStart config scope c rec l ev)) \<and>
   length (sd_runIds (countStart config scope c rec l ev)) \<le> sd_count (countStart config scope c rec l ev)"
  by (auto simp: countStart_def List.insert_def)

lemma startedIn_counts:
  "distinct (sd_runIds (startedIn config scope c records)) \<and>
   length (sd_runIds (startedIn config scope c records)) \<le> sd_count (startedIn config scope c records)"
proof -
  let ?ok = "\<lambda>l. distinct (sd_runIds l) \<and> length (sd_runIds l) \<le> sd_count l"
  have events: "?ok l \<Longrightarrow> ?ok (foldl (countStart config scope c rec) l evs)" for l rec evs
    by (induction evs arbitrary: l) (auto simp: started_runs_counted)
  have "?ok l \<Longrightarrow> ?ok (foldl (\<lambda>l rec. foldl (countStart config scope c rec) l (bdl_events (rec_bundle rec))) l recs)" for l recs
  proof (induction recs arbitrary: l)
    case (Cons r recs)
    from Cons.IH [OF events [OF Cons.prems]] show ?case by simp
  qed simp
  then show ?thesis by (simp add: startedIn_def)
qed

text \<open>A reservation made since the cutoff counts as a started chat.\<close>

lemma started_covers_reservations:
  assumes "wfReservations rs"
  shows "length (since c rs) \<le> countTenantStartedChats config scope c records rs"
proof -
  let ?l = "startedIn config scope c records"
  let ?in = "filter (\<lambda>(i, _). i \<in> set (sd_runIds ?l)) (since c rs)"
  let ?out = "filter (\<lambda>(i, _). i \<notin> set (sd_runIds ?l)) (since c rs)"
  have split: "length (since c rs) = length ?in + length ?out"
    using sum_length_filter_compl [of "\<lambda>(i, _). i \<in> set (sd_runIds ?l)" "since c rs"] by (simp add: case_prod_unfold)
  have "?in = since c (filter (\<lambda>(i, _). i \<in> set (sd_runIds ?l)) rs)"
    by (induction rs) auto
  then have "length ?in = card (fst ` set ?in)" using keys_card [OF wfReservations_filter [OF assms]] by metis
  also have "\<dots> \<le> card (set (sd_runIds ?l))" by (intro card_mono) auto
  also have "\<dots> \<le> sd_count ?l" using startedIn_counts [of config scope c records] by (simp add: distinct_card)
  finally have inside: "length ?in \<le> sd_count ?l" .
  have "length ?out = length (filter (\<lambda>r. \<not> (rv_reservedAtMs r < c \<or> rv_runId r \<in> set (sd_runIds ?l))) (map snd rs))"
    using assms by (induction rs) (auto simp: wfReservations_def since_def)
  with split inside show ?thesis by (simp add: countTenantStartedChats_def Let_def)
qed

text \<open>What the gate guarantees of a tenant's table when the limits are \<open>m\<close> in a window of \<open>width\<close>.\<close>

definition atMost :: "int \<Rightarrow> int option \<Rightarrow> bool" where
  "atMost m limit = (case limit of None \<Rightarrow> False | Some n \<Rightarrow> n \<le> m)"

lemma atMost_reached: "reachedLimit scope what unit limit n = None \<Longrightarrow> atMost m limit \<Longrightarrow> int n < m"
  by (auto simp: reachedLimit_def atMost_def split: option.splits if_splits)

lemma gateVerdict_None:
  "gateVerdict config scope runId nowMs records reserved = None \<longleftrightarrow>
     reachedLimit scope ''concurrency'' ''active chats'' (tl_maxConcurrentChats (ts_limits scope))
       (countActiveTenantChats config scope runId nowMs records reserved) = None
   \<and> reachedLimit scope ''hourly chat rate'' ''chats per hour'' (tl_maxChatsPerHour (ts_limits scope))
       (countTenantStartedChats config scope (nowMs - HOUR_MS) records reserved) = None
   \<and> reachedLimit scope ''daily chat rate'' ''chats per day'' (tl_maxChatsPerDay (ts_limits scope))
       (countTenantStartedChats config scope (nowMs - DAY_MS) records reserved) = None"
  by (auto simp: gateVerdict_def Let_def orElseOpt_def split: option.splits)

text \<open>One decision keeps a table within a limit whose count covers the window.\<close>

lemma decide_within:
  assumes wf: "wfReservations rs" and old: "int (length (since (t - width) rs)) \<le> max 0 m" and "nowMs \<le> t"
    and counted: "\<And>reserved. wfReservations reserved \<Longrightarrow>
      length (since (nowMs - width) (filter (\<lambda>(i, _). i \<noteq> runId) reserved)) \<le> cnt reserved"
    and room: "verdict = None \<Longrightarrow> int (cnt (filter P rs)) < m"
  shows "int (length (since (t - width)
      (if verdict = None then AList.update runId r (filter P rs) else filter P rs))) \<le> max 0 m"
proof (cases "verdict = None")
  case True
  have wf': "wfReservations (filter P rs)" using wf by (rule wfReservations_filter)
  have "length (since (t - width) (AList.update runId r (filter P rs)))
      \<le> Suc (length (since (t - width) (filter (\<lambda>(i, _). i \<noteq> runId) (filter P rs))))"
    by (rule since_update) (use wf' in \<open>simp add: wfReservations_def\<close>)
  also have "\<dots> \<le> Suc (length (since (nowMs - width) (filter (\<lambda>(i, _). i \<noteq> runId) (filter P rs))))"
    using assms(3) by (intro Suc_le_mono [THEN iffD2] since_mono) simp
  also have "\<dots> \<le> Suc (cnt (filter P rs))" using counted [OF wf'] by simp
  finally show ?thesis using room [OF True] True by simp
next
  case False
  have "int (length (since (t - width) (filter P rs))) \<le> max 0 m"
    using old since_filter_length [of "t - width" P rs] by linarith
  with False show ?thesis by (simp only: if_False)
qed

definition tablesWithin :: "int \<Rightarrow> int \<Rightarrow> int \<Rightarrow> tenantState \<Rightarrow> bool" where
  "tablesWithin t width m state = (\<forall>(k, rs)\<in>set state. wfReservations rs \<and> int (length (since (t - width) rs)) \<le> max 0 m)"

lemma tablesWithin_tick: "tablesWithin t width m state \<Longrightarrow> t \<le> t' \<Longrightarrow> tablesWithin t' width m state"
  unfolding tablesWithin_def using since_mono [of "t - width" "t' - width"]
  by (fastforce intro: order_trans [rotated])

text \<open>The decisions keep the tables of all tenants within a limit that every profile is held to.\<close>

lemma decide_tablesWithin:
  assumes inv: "tablesWithin t width m state" and "resolveTenantExecutionScope config rec = Some scope" and "nowMs \<le> t"
    and counted: "\<And>reserved. wfReservations reserved \<Longrightarrow>
      length (since (nowMs - width) (filter (\<lambda>(i, _). i \<noteq> rec_runId rec) reserved)) \<le> cnt reserved"
    and room: "\<And>reserved. gateVerdict config scope (rec_runId rec) nowMs records reserved = None \<Longrightarrow> int (cnt reserved) < m"
  shows "tablesWithin t width m (snd (admitRun config scope rec nowMs records state))"
proof -
  let ?key = "ts_tenantKey scope"
  let ?reserved = "pruneTenantReservations config scope nowMs records (map_of state ?key)"
  let ?verdict = "gateVerdict config scope (rec_runId rec) nowMs records ?reserved"
  let ?new = "if ?verdict = None
    then AList.update (rec_runId rec) \<lparr>rv_runId = rec_runId rec, rv_reservedAtMs = nowMs\<rparr> ?reserved else ?reserved"
  obtain rs P where rs: "wfReservations rs" "int (length (since (t - width) rs)) \<le> max 0 m" "?reserved = filter P rs"
  proof (cases "map_of state ?key")
    case None
    then have "?reserved = filter (\<lambda>_. True) []" by (simp add: pruneTenantReservations_def)
    then show thesis by (intro that [of "[]" "\<lambda>_. True"]) simp_all
  next
    case (Some rs)
    then have "(?key, rs) \<in> set state" by (rule map_of_SomeD)
    with inv have rs: "wfReservations rs" "int (length (since (t - width) rs)) \<le> max 0 m" by (auto simp: tablesWithin_def)
    with Some show thesis by (intro that [OF rs]) (simp add: prune_is_filter)
  qed
  have "wfReservations ?new"
    using wfReservations_filter [OF rs(1), of P] wfReservations_update [of ?reserved
      "\<lparr>rv_runId = rec_runId rec, rv_reservedAtMs = nowMs\<rparr>"] unfolding rs(3) by simp
  moreover have "int (length (since (t - width) ?new)) \<le> max 0 m"
    unfolding rs(3) by (rule decide_within [OF rs(1,2) assms(3) counted room])
  ultimately have new: "wfReservations ?new \<and> int (length (since (t - width) ?new)) \<le> max 0 m" ..
  have "snd (admitRun config scope rec nowMs records state) = AList.update ?key ?new state"
    by (simp add: admitRun_def Let_def)
  moreover have "(k, rs') \<in> set (AList.update ?key ?new state) \<Longrightarrow> (k, rs') \<in> set state \<or> rs' = ?new" for k rs'
    by (induction state) (auto split: if_splits)
  ultimately show ?thesis using inv new unfolding tablesWithin_def by fastforce
qed

lemma history_tablesWithin:
  assumes "gateHistory config t state"
    and step: "\<And>rec scope nowMs records reserved. resolveTenantExecutionScope config rec = Some scope \<Longrightarrow>
      gateVerdict config scope (rec_runId rec) nowMs records reserved = None \<Longrightarrow> int (cnt config scope rec nowMs records reserved) < m"
    and counted: "\<And>reserved scope rec nowMs records. wfReservations reserved \<Longrightarrow>
      length (since (nowMs - width) (filter (\<lambda>(i, _). i \<noteq> rec_runId rec) reserved)) \<le> cnt config scope rec nowMs records reserved"
  shows "tablesWithin t width m state"
  using assms(1)
proof (induction rule: gateHistory.induct)
  case (start t)
  then show ?case by (simp add: tablesWithin_def)
next
  case (tick t state t')
  then show ?case by (blast intro: tablesWithin_tick)
next
  case (decide t state rec scope nowMs records)
  show ?case
    by (rule decide_tablesWithin [where cnt = "cnt config scope rec nowMs records", OF decide.IH decide.hyps(2,3) counted])
      (auto intro: step [OF decide.hyps(2)])
qed


text \<open>Two runs of one tenant, which may have one chat at a time: the second is held back.\<close>

definition oneChatConfig :: jobj where
  "oneChatConfig = [(''services'', JObj [(''chatgpt'', JObj [(''tenantLimits'', JObj [(''maxConcurrentChats'', jsInt 1)])])])]"

definition chatRecord :: "string \<Rightarrow> storedRecord" where
  "chatRecord runId = \<lparr>rec_runId = runId, rec_revision = 1, rec_persistedAt = ''t0'',
     rec_bundle = demoBundle [(demoStep ''s'' 1 StepRunnable [])\<lparr>step_service := Some Chatgpt\<rparr>] []\<rparr>"

definition unboundScope :: tenantScope where
  "unboundScope = resolveChatgptTenantExecutionScope oneChatConfig None None"

definition afterFirst :: tenantState where
  "afterFirst = snd (admitRun oneChatConfig unboundScope (chatRecord ''a'') 0 [chatRecord ''a'', chatRecord ''b''] [])"

lemma chatRecord_scope: "resolveTenantExecutionScope oneChatConfig (chatRecord i) = Some unboundScope"
  by (simp add: resolveTenantExecutionScope_def selectExecutionScopeStep_def chatRecord_def demo_simps orElseOpt_def
      nonEmptyString_def truthyText_def unboundScope_def)

lemma second_chat_refused:
  "fst (admitRun oneChatConfig unboundScope (chatRecord ''b'') 1000 [chatRecord ''a'', chatRecord ''b''] afterFirst)
     = Some ''chatgpt tenant service:chatgpt:unbound concurrency limit reached: 1/1 active chats''"
  by code_simp

lemma oneChat_limit: "tl_maxConcurrentChats (resolveChatgptTenantLimits oneChatConfig p) = Some 1"
  by (simp add: resolveChatgptTenantLimits_def mergeTenantLimits_def mergeInto_def partialOf_def readTenantLimits_def
      globalChatgpt_def globalServices_def runtimeChatgpt_def profileServices_def runtimeProfileOf_def
      getCurrentRuntimeProfiles_def getTargetRuntimeProfiles_def getRuntimeProfiles_def oneChatConfig_def
      optProp_def readNullablePositiveInteger_def jsInt_def isIntegral_def truthyText_def split: option.splits)


text \<open>The limits of a tenant come from the nearest object alone: the \<open>tenantLimits\<close> of the runtime
  profile if it has them, else those of the service, else the defaults. Within such an object a limit
  that is left out is no limit: it falls back neither to the next object nor to the default.\<close>

lemma limits_come_from_nearest_object:
  "resolveChatgptTenantLimits config p =
     (let read = (\<lambda>r k. readNullablePositiveInteger (jprop r k));
          limits = (\<lambda>r. \<lparr>tl_maxConcurrentChats = read r ''maxConcurrentChats'',
            tl_maxChatsPerHour = read r ''maxChatsPerHour'', tl_maxChatsPerDay = read r ''maxChatsPerDay''\<rparr>)
      in case asRecord (optProp (runtimeChatgpt config p) ''tenantLimits'') of
           Some r \<Rightarrow> limits r
         | None \<Rightarrow> (case asRecord (optProp (globalChatgpt config) ''tenantLimits'') of
             Some r \<Rightarrow> limits r
           | None \<Rightarrow> DEFAULT_CHATGPT_TENANT_LIMITS))"
  by (simp add: resolveChatgptTenantLimits_def mergeTenantLimits_def mergeInto_def partialOf_def readTenantLimits_def
      Let_def DEFAULT_CHATGPT_TENANT_LIMITS_def split: option.splits)

lemma one_limit_lifts_the_others: "tl_maxChatsPerHour (resolveChatgptTenantLimits oneChatConfig None) = None"
  by code_simp

section \<open>The status report\<close>

datatype usageBasis = RuntimeEvidence | AggregateInteractionLedger | NotRequested

record tenantUsage =
  us_basis :: usageBasis
  us_activeChats :: "nat option"
  us_chatsLastHour :: "nat option"
  us_chatsLastDay :: "nat option"

record statusEntry =
  se_tenantKey :: string
  se_tenantLabel :: string
  se_runtimeProfileIds :: "string list"
  se_browserProfileIds :: "string list"
  se_limits :: tenantLimits
  se_usage :: tenantUsage

record limitsStatus =
  ls_generatedAt :: string
  ls_usageRequested :: bool
  ls_entries :: "statusEntry list"
  ls_tenantCount :: nat
  ls_entryCount :: nat
  ls_activeChats :: "nat option"
  ls_chatsLastHour :: "nat option"
  ls_chatsLastDay :: "nat option"

text \<open>A tenant scope with the profiles that lead to it.\<close>

record scopeEntry =
  sn_scope :: tenantScope
  sn_runtimeProfileIds :: "string list"
  sn_browserProfileIds :: "string list"

definition limitText :: "int option \<Rightarrow> string" where
  "limitText l = (case l of None \<Rightarrow> ''none'' | Some n \<Rightarrow> intToStr n)"

definition formatTenantLimitsKey :: "tenantLimits \<Rightarrow> string" where
  "formatTenantLimitsKey l = joinWith '':''
     [limitText (tl_maxConcurrentChats l), limitText (tl_maxChatsPerHour l), limitText (tl_maxChatsPerDay l)]"

definition insertId :: "string option \<Rightarrow> string list \<Rightarrow> string list" where
  "insertId i ids' = (case truthyText i of None \<Rightarrow> ids' | Some p \<Rightarrow> if p \<in> set ids' then ids' else ids' @ [p])"

definition addTenantStatusScope ::
  "(string \<times> scopeEntry) list \<Rightarrow> tenantScope \<times> string option \<times> string option \<Rightarrow> (string \<times> scopeEntry) list" where
  "addTenantStatusScope scopesByKey entry = (case entry of (scope, runtimeProfileId, browserProfileId) \<Rightarrow>
     let key = ts_tenantKey scope @ CHR 0x00 # formatTenantLimitsKey (ts_limits scope);
         existing = orElse (map_of scopesByKey key) \<lparr>sn_scope = scope, sn_runtimeProfileIds = [], sn_browserProfileIds = []\<rparr>
     in AList.update key (existing\<lparr>sn_runtimeProfileIds := insertId runtimeProfileId (sn_runtimeProfileIds existing),
          sn_browserProfileIds := insertId browserProfileId (sn_browserProfileIds existing)\<rparr>) scopesByKey)"

definition resolveConfiguredChatgptTenantStatusScopes :: "jobj \<Rightarrow> (tenantScope \<times> string option \<times> string option) list" where
  "resolveConfiguredChatgptTenantStatusScopes config = somes (map (\<lambda>(runtimeProfileId, v).
     (case asRecord (Some v) of
        None \<Rightarrow> None
      | Some profile \<Rightarrow>
          (let hasChatgpt = isRecord (optProp (asRecord (jprop profile ''services'')) ''chatgpt'');
               text = (\<lambda>k. nonEmptyString (asString (jprop profile k)));
               browserProfileId = text ''browserProfile''
           in if \<not> hasChatgpt \<and> text ''defaultService'' \<noteq> Some ''chatgpt'' then None
              else Some (resolveChatgptTenantExecutionScope config (Some runtimeProfileId) browserProfileId,
                Some runtimeProfileId, browserProfileId))))
     (getCurrentRuntimeProfiles config))"

definition summarizeTenantUsage :: "jobj \<Rightarrow> tenantScope \<Rightarrow> int \<Rightarrow> storedRecord list \<Rightarrow> reservations \<Rightarrow> tenantUsage" where
  "summarizeTenantUsage config scope nowMs records reserved =
     \<lparr>us_basis = RuntimeEvidence,
      us_activeChats = Some (countActiveTenantChats config scope [] nowMs records reserved),
      us_chatsLastHour = Some (countTenantStartedChats config scope (nowMs - HOUR_MS) records reserved),
      us_chatsLastDay = Some (countTenantStartedChats config scope (nowMs - DAY_MS) records reserved)\<rparr>"

definition createNotRequestedTenantUsage :: tenantUsage where
  "createNotRequestedTenantUsage =
     \<lparr>us_basis = NotRequested, us_activeChats = None, us_chatsLastHour = None, us_chatsLastDay = None\<rparr>"

text \<open>The scopes of the report: the configured ones, those of the listed runs, or the default one.\<close>

definition recordStatusScope :: "jobj \<Rightarrow> storedRecord \<Rightarrow> (tenantScope \<times> string option \<times> string option) option" where
  "recordStatusScope config rec = (case selectExecutionScopeStep rec of
     None \<Rightarrow> None
   | Some s \<Rightarrow>
       if step_service s \<noteq> Some Chatgpt then None
       else map_option (\<lambda>scope. (scope, nonEmptyString (step_runtimeProfileId s), nonEmptyString (step_browserProfileId s)))
         (resolveTenantExecutionScope config rec))"

definition statusScopes :: "jobj \<Rightarrow> storedRecord list \<Rightarrow> scopeEntry list" where
  "statusScopes config records =
     (let known = foldl addTenantStatusScope []
            (resolveConfiguredChatgptTenantStatusScopes config @ somes (map (recordStatusScope config) records))
      in map snd (if known = []
           then addTenantStatusScope [] (resolveChatgptTenantExecutionScope config None None, None, None)
           else known))"

definition scopeBefore :: "(string \<Rightarrow> string \<Rightarrow> int) \<Rightarrow> scopeEntry \<Rightarrow> scopeEntry \<Rightarrow> bool" where
  "scopeBefore localeCompare l r =
     (let c = localeCompare (ts_tenantKey (sn_scope l)) (ts_tenantKey (sn_scope r))
      in if c \<noteq> 0 then c \<le> 0
         else localeCompare (formatTenantLimitsKey (ts_limits (sn_scope l))) (formatTenantLimitsKey (ts_limits (sn_scope r))) \<le> 0)"

text \<open>\<open>ledger\<close> is \<open>interactionLedger.summarizeUsage\<close>, of a package the report only calls.\<close>

type_synonym 'w usageLedger = "string \<Rightarrow> string \<Rightarrow> ('w, nat option \<times> nat option \<times> nat option) io"

definition statusEntryOf ::
  "'w usageLedger option \<Rightarrow> jobj \<Rightarrow> bool \<Rightarrow> int \<Rightarrow> storedRecord list \<Rightarrow> scopeEntry \<Rightarrow> ('w, statusEntry) io" where
  "statusEntryOf ledger config includeUsage nowMs records e =
     ioBind (if \<not> includeUsage then ioReturn createNotRequestedTenantUsage
       else (case ledger of
           None \<Rightarrow> ioReturn (summarizeTenantUsage config (sn_scope e) nowMs records [])
         | Some summarizeUsage \<Rightarrow> ioBind (summarizeUsage (ts_tenantKey (sn_scope e)) (toISOString nowMs)) (\<lambda>(a, h, d).
             ioReturn \<lparr>us_basis = AggregateInteractionLedger, us_activeChats = a, us_chatsLastHour = h, us_chatsLastDay = d\<rparr>))) (\<lambda>usage.
     ioReturn \<lparr>se_tenantKey = ts_tenantKey (sn_scope e), se_tenantLabel = ts_tenantLabel (sn_scope e),
       se_runtimeProfileIds = sortBy (\<le>) (sn_runtimeProfileIds e), se_browserProfileIds = sortBy (\<le>) (sn_browserProfileIds e),
       se_limits = ts_limits (sn_scope e), se_usage = usage\<rparr>)"

fun statusEntries ::
  "'w usageLedger option \<Rightarrow> jobj \<Rightarrow> bool \<Rightarrow> int \<Rightarrow> storedRecord list \<Rightarrow> scopeEntry list \<Rightarrow> ('w, statusEntry list) io" where
  "statusEntries ledger config includeUsage nowMs records [] = ioReturn []"
| "statusEntries ledger config includeUsage nowMs records (e # es) =
     ioBind (statusEntryOf ledger config includeUsage nowMs records e) (\<lambda>x.
     ioBind (statusEntries ledger config includeUsage nowMs records es) (\<lambda>xs. ioReturn (x # xs)))"

text \<open>The usage of each tenant counts once, whatever limits it is listed with.\<close>

definition tenantUsages :: "statusEntry list \<Rightarrow> (string \<times> tenantUsage) list" where
  "tenantUsages entries = foldl (\<lambda>seen e.
     if map_of seen (se_tenantKey e) = None then AList.update (se_tenantKey e) (se_usage e) seen else seen) [] entries"

definition usageMetric :: "bool \<Rightarrow> (tenantUsage \<Rightarrow> nat option) \<Rightarrow> (string \<times> tenantUsage) list \<Rightarrow> nat option" where
  "usageMetric includeUsage f usages =
     (if includeUsage then Some (sum_list (map (\<lambda>(_, u). orElse (f u) 0) usages)) else None)"

definition summarizeTenantExecutionLimits ::
  "(string \<Rightarrow> string \<Rightarrow> int) \<Rightarrow> 'w tenantGate \<Rightarrow> bool \<Rightarrow> 'w usageLedger option \<Rightarrow> ('w, limitsStatus) io" where
  "summarizeTenantExecutionLimits localeCompare g includeUsage ledger = (\<lambda>w.
     case tg_now g w of (nowMs, w1) \<Rightarrow>
       ioBind (if includeUsage then controlListRuns (tg_control g) (changedSince (nowMs - DAY_MS)) else ioReturn []) (\<lambda>records.
       ioBind (statusEntries ledger (tg_config g) includeUsage nowMs records
         (sortBy (scopeBefore localeCompare) (statusScopes (tg_config g) records))) (\<lambda>entries.
       let usages = tenantUsages entries
       in ioReturn \<lparr>ls_generatedAt = toISOString nowMs, ls_usageRequested = includeUsage, ls_entries = entries,
            ls_tenantCount = length usages, ls_entryCount = length entries,
            ls_activeChats = usageMetric includeUsage us_activeChats usages,
            ls_chatsLastHour = usageMetric includeUsage us_chatsLastHour usages,
            ls_chatsLastDay = usageMetric includeUsage us_chatsLastDay usages\<rparr>)) w1)"

end
