(* ===== verification/Dispatch_Pool.thy ===== *)
theory Dispatch_Pool
  imports Execution
begin

text \<open>
  Dispatch pools (\<open>src/runtime/responseBatchDispatchPool.ts\<close>): the requests of a batch are handed out to
  the members of a team, each to the member with the least work. A request is a JavaScript object,
  since it is copied with all its properties. The catalog is an argument; of its agents and teams
  there are the fields the dispatch reads.
\<close>

section \<open>Catalog and requests\<close>

record effectiveAgent =
  ea_id :: string
  ea_enabled :: bool
  ea_service :: "serviceId option"
  ea_defaultService :: "serviceId option"
  ea_runtimeProfileId :: "string option"
  ea_model :: "string option"
  ea_modelSelector :: "string option"
  ea_projectName :: "string option"

record effectiveTeam =
  et_id :: string
  et_type :: string
  et_agentIds :: "string list"
  et_projectName :: "string option"

record agentCatalog =
  ec_agents :: "effectiveAgent list"
  ec_teams :: "effectiveTeam list"

type_synonym executionRequest = jobj

text \<open>The mode is always \<open>next_available\<close> and the project sync \<open>none\<close>.\<close>

record dispatchRequest =
  dq_team :: string

record dispatchRecord =
  dc_team :: string
  dc_memberCount :: nat
  dc_projectName :: "string option"
  dc_warnings :: "string list"

record jobAssignment =
  ja_team :: string
  ja_memberAgent :: string
  ja_memberIndex :: nat

record dispatchResolution =
  ds_requests :: "executionRequest list"
  ds_dispatch :: dispatchRecord
  ds_assignments :: "jobAssignment list"

record poolMember =
  pm_agent :: effectiveAgent
  pm_service :: serviceId
  pm_runtimeProfile :: string

text \<open>\<open>invalid\<close> is the error of the schema for a blank team.\<close>

definition parseDispatchRequest :: "js_error \<Rightarrow> dispatchRequest \<Rightarrow> dispatchRequest result" where
  "parseDispatchRequest invalid d = (if trim (dq_team d) = [] then Inl invalid else Inr (d\<lparr>dq_team := trim (dq_team d)\<rparr>))"

definition normalizeResponseBatchDispatchRequest ::
  "js_error \<Rightarrow> dispatchRequest option \<Rightarrow> string option \<Rightarrow> dispatchRequest option result" where
  "normalizeResponseBatchDispatchRequest invalid requested topLevel =
     (let team = truthyText (map_option trim topLevel)
      in case requested of
           Some d \<Rightarrow> (case parseDispatchRequest invalid d of
               Inl e \<Rightarrow> Inl e
             | Inr dispatch \<Rightarrow>
                 if team \<noteq> None \<and> dq_team dispatch \<noteq> the team
                 then Inl (PlainError (''Response batch dispatch team \"'' @ dq_team dispatch
                   @ ''\" conflicts with top-level team \"'' @ the team @ ''\".''))
                 else Inr (Some dispatch))
         | None \<Rightarrow> Inr (map_option (\<lambda>t. \<lparr>dq_team = t\<rparr>) team))"

section \<open>Members and their load\<close>

definition runnableMember :: "agentCatalog \<Rightarrow> string \<Rightarrow> poolMember option" where
  "runnableMember catalog agentId =
     (case map_of (rev (map (\<lambda>a. (ea_id a, a)) (ec_agents catalog))) agentId of
        None \<Rightarrow> None
      | Some a \<Rightarrow>
          if \<not> ea_enabled a then None
          else (case (orElseOpt (ea_service a) (ea_defaultService a), truthyText (ea_runtimeProfileId a)) of
              (Some service, Some profile) \<Rightarrow> Some \<lparr>pm_agent = a, pm_service = service, pm_runtimeProfile = profile\<rparr>
            | _ \<Rightarrow> None))"

definition resolveRunnableMembers :: "effectiveTeam \<Rightarrow> agentCatalog \<Rightarrow> poolMember list" where
  "resolveRunnableMembers team catalog = somes (map (runnableMember catalog) (et_agentIds team))"

definition activeMemberRun :: "string \<Rightarrow> storedRecord \<Rightarrow> bool" where
  "activeMemberRun agentId rec =
     (let b = rec_bundle rec
      in jprop (run_initialInputs (bdl_run b)) ''agent'' = Some (JStr agentId)
        \<and> run_status (bdl_run b) \<notin> {RunSucceeded, RunFailed, RunCancelled}
        \<and> (list_ex (\<lambda>l. lease_status l = LeaseActive) (bdl_leases b) \<or> list_ex (\<lambda>s. step_status s = StepRunning) (bdl_steps b)))"

definition countActiveMemberRuns :: "storedRecord list \<Rightarrow> string \<Rightarrow> nat" where
  "countActiveMemberRuns records agentId = length (filter (activeMemberRun agentId) records)"

definition totalLoads :: "nat list \<Rightarrow> nat list \<Rightarrow> nat list" where
  "totalLoads baseLoads assignedLoads = map2 (+) baseLoads assignedLoads"

definition chooseNextMemberIndex :: "nat list \<Rightarrow> nat list \<Rightarrow> nat \<Rightarrow> nat" where
  "chooseNextMemberIndex baseLoads assignedLoads tieCursor =
     (let loads = totalLoads baseLoads assignedLoads; lowestLoad = fold min loads (hd loads)
      in orElse (find (\<lambda>i. loads ! i = lowestLoad)
           (map (\<lambda>offset. (tieCursor + offset) mod length loads) [0..<length loads])) 0)"

section \<open>Handing out the requests\<close>

definition requestModel :: "executionRequest \<Rightarrow> string" where
  "requestModel request = orElse (asString (jprop request ''model'')) []"

definition assertRequestIsDispatchable :: "string \<Rightarrow> executionRequest \<Rightarrow> unit result" where
  "assertRequestIsDispatchable teamId request =
     (let agent = asString (optProp (asRecord (jprop request ''auracall'')) ''agent'')
      in if agent \<noteq> None \<and> trim (the agent) \<noteq> []
         then Inl (PlainError (''Response-batch dispatch pool \"'' @ teamId
           @ ''\" cannot dispatch a child request that already pins auracall.agent \"'' @ the agent @ ''\".''))
         else if startsWith (requestModel request) ''agent:''
         then Inl (PlainError (''Response-batch dispatch pool \"'' @ teamId
           @ ''\" cannot dispatch a child request that already pins model \"'' @ requestModel request @ ''\".''))
         else Inr ())"

definition assignRequestToMember :: "string \<Rightarrow> poolMember \<Rightarrow> executionRequest \<Rightarrow> executionRequest" where
  "assignRequestToMember teamId m request =
     objSet ''auracall''
       (JObj (objSet ''runtimeProfile'' (JStr (pm_runtimeProfile m))
         (objSet ''service'' (JStr (serviceText (pm_service m)))
           (objSet ''agent'' (JStr (ea_id (pm_agent m)))
             (objSet ''team'' (JStr teamId) (orElse (asRecord (jprop request ''auracall'')) []))))))
       (objSet ''model'' (JStr (''agent:'' @ ea_id (pm_agent m))) request)"

text \<open>The locals of the loop.\<close>

record poolLocals =
  pp_assignedLoads :: "nat list"
  pp_tieCursor :: nat
  pp_requests :: "executionRequest list"
  pp_assignments :: "jobAssignment list"

definition assignNext :: "string \<Rightarrow> poolMember list \<Rightarrow> nat list \<Rightarrow> poolLocals \<Rightarrow> executionRequest \<Rightarrow> poolLocals" where
  "assignNext teamId members baseLoads l request =
     (let i = chooseNextMemberIndex baseLoads (pp_assignedLoads l) (pp_tieCursor l); m = members ! i
      in \<lparr>pp_assignedLoads = (pp_assignedLoads l)[i := pp_assignedLoads l ! i + 1],
          pp_tieCursor = (i + 1) mod length members,
          pp_requests = pp_requests l @ [assignRequestToMember teamId m request],
          pp_assignments = pp_assignments l @
            [\<lparr>ja_team = teamId, ja_memberAgent = ea_id (pm_agent m), ja_memberIndex = i\<rparr>]\<rparr>)"

fun assignAll :: "string \<Rightarrow> poolMember list \<Rightarrow> nat list \<Rightarrow> poolLocals \<Rightarrow> executionRequest list \<Rightarrow> poolLocals result" where
  "assignAll teamId members baseLoads l [] = Inr l"
| "assignAll teamId members baseLoads l (r # rs) = (case assertRequestIsDispatchable teamId r of
     Inl e \<Rightarrow> Inl e
   | Inr _ \<Rightarrow> assignAll teamId members baseLoads (assignNext teamId members baseLoads l r) rs)"

definition sortedUnique :: "string list \<Rightarrow> string list" where
  "sortedUnique xs = sortBy (\<le>) (remdups xs)"

definition buildDispatchWarnings :: "effectiveTeam \<Rightarrow> poolMember list \<Rightarrow> string list" where
  "buildDispatchWarnings team members =
     (let pool = ''Dispatch-pool team \"'' @ et_id team @ ''\" '';
          services = sortedUnique (map (serviceText \<circ> pm_service) members);
          modelBindings = sortedUnique (somes (map (\<lambda>m. truthyText (orElseOpt (ea_modelSelector (pm_agent m)) (ea_model (pm_agent m)))) members));
          projectNames = sortedUnique (somes (map (\<lambda>m. truthyText (ea_projectName (pm_agent m))) members))
      in (if length services > 1
          then [pool @ ''spans multiple services ('' @ joinWith '', '' services
            @ ''); AuraCall dispatches the batch, but output consistency is caller-owned.''] else [])
       @ (if length modelBindings > 1
          then [pool @ ''has mixed member model bindings ('' @ joinWith '', '' modelBindings
            @ ''); use equivalent models for consistent results.''] else [])
       @ (case truthyText (et_projectName team) of
            None \<Rightarrow> []
          | Some project \<Rightarrow>
              [pool @ ''is project-bound to \"'' @ project
                @ ''\" with projectSync=none; AuraCall does not reconcile project instructions, files, or settings between tenants.'']
              @ (if project \<notin> set projectNames \<or> length projectNames > 1
                 then [pool @ ''member agents do not all point at project name \"'' @ project
                   @ ''\"; dispatch continues, but project divergence can change results.''] else [])))"

definition resolvePool :: "dispatchRequest \<Rightarrow> agentCatalog \<Rightarrow> (effectiveTeam \<times> poolMember list) result" where
  "resolvePool dispatch catalog = (case find (\<lambda>t. et_id t = dq_team dispatch) (ec_teams catalog) of
     None \<Rightarrow> Inl (PlainError (''Dispatch-pool team \"'' @ dq_team dispatch @ ''\" was not found in the effective agent catalog.''))
   | Some team \<Rightarrow>
       if et_type team \<noteq> ''dispatch-pool''
       then Inl (PlainError (''Team \"'' @ et_id team @ ''\" is type \"'' @ et_type team
         @ ''\" and cannot be used as a response-batch dispatch pool.''))
       else if resolveRunnableMembers team catalog = []
       then Inl (PlainError (''Dispatch-pool team \"'' @ et_id team @ ''\" has no runnable members.''))
       else Inr (team, resolveRunnableMembers team catalog))"

definition directRuns :: listOptions where
  "directRuns = \<lparr>lo_limit = None, lo_status = None, lo_statuses = [], lo_sourceKind = Some DirectSource, lo_updatedSince = None\<rparr>"

definition resolveResponseBatchDispatchPool ::
  "'w recordStore option \<Rightarrow> agentCatalog \<Rightarrow> dispatchRequest \<Rightarrow> executionRequest list \<Rightarrow> ('w, dispatchResolution) io" where
  "resolveResponseBatchDispatchPool control catalog dispatch requests =
     ioBind (ioLift (resolvePool dispatch catalog)) (\<lambda>(team, members).
     ioBind (case control of None \<Rightarrow> ioReturn [] | Some S \<Rightarrow> controlListRuns S directRuns) (\<lambda>activeRuns.
     let baseLoads = map (\<lambda>m. countActiveMemberRuns activeRuns (ea_id (pm_agent m))) members
     in ioBind (ioLift (assignAll (et_id team) members baseLoads
            \<lparr>pp_assignedLoads = replicate (length members) 0, pp_tieCursor = 0, pp_requests = [], pp_assignments = []\<rparr> requests)) (\<lambda>l.
        ioReturn \<lparr>ds_requests = pp_requests l,
          ds_dispatch = \<lparr>dc_team = et_id team, dc_memberCount = length members, dc_projectName = et_projectName team,
            dc_warnings = buildDispatchWarnings team members\<rparr>,
          ds_assignments = pp_assignments l\<rparr>)))"

section \<open>The choice of a member\<close>

lemma fold_min: "fold min xs (m :: nat) = (if xs = [] then m else min m (Min (set xs)))"
  by (induction xs arbitrary: m) (auto simp: min.assoc Min_insert2 min.commute min.left_commute)

lemma hd_min: "xs \<noteq> [] \<Longrightarrow> fold min xs (hd xs) = Min (set xs)" for xs :: "nat list"
  by (cases xs) (auto simp: fold_min)

text \<open>From any cursor, the offsets visit every member.\<close>

lemma rotation_covers:
  assumes "i < n" shows "i \<in> set (map (\<lambda>offset. (c + offset) mod n) [0..<n])"
proof -
  let ?offset = "(i + (n - c mod n)) mod n"
  have "(c + ?offset) mod n = (c mod n + (i + (n - c mod n))) mod n" by (simp add: mod_simps)
  also have "c mod n + (i + (n - c mod n)) = i + n" using assms mod_less_divisor [of n c] by linarith
  finally have "(c + ?offset) mod n = i" using assms by simp
  moreover have "?offset < n" using assms by simp
  ultimately show ?thesis by (force simp: image_iff)
qed

lemma length_totalLoads [simp]: "length (totalLoads base assigned) = min (length base) (length assigned)"
  by (simp add: totalLoads_def)

lemma totalLoads_nth: "i < length base \<Longrightarrow> i < length assigned \<Longrightarrow> totalLoads base assigned ! i = base ! i + assigned ! i"
  by (simp add: totalLoads_def)

lemma chooseNextMemberIndex_lowest:
  assumes "length base = n" "length assigned = n" "0 < n"
  shows "chooseNextMemberIndex base assigned c < n
    \<and> (\<forall>j<n. totalLoads base assigned ! chooseNextMemberIndex base assigned c \<le> totalLoads base assigned ! j)"
proof -
  let ?loads = "totalLoads base assigned" and ?order = "map (\<lambda>offset. (c + offset) mod n) [0..<n]"
  have len: "length ?loads = n" using assms by simp
  then have nonempty: "?loads \<noteq> []" using assms(3) by (simp flip: length_greater_0_conv)
  then have "Min (set ?loads) \<in> set ?loads" by (intro Min_in) auto
  then obtain j where j: "j < n" "?loads ! j = Min (set ?loads)" using len by (auto simp: in_set_conv_nth)
  then obtain i where i: "find (\<lambda>i. ?loads ! i = Min (set ?loads)) ?order = Some i"
    using rotation_covers [OF j(1), of c] by (cases "find (\<lambda>i. ?loads ! i = Min (set ?loads)) ?order") (auto simp: find_None_iff)
  then have "chooseNextMemberIndex base assigned c = i"
    using len hd_min [OF nonempty] by (simp add: chooseNextMemberIndex_def Let_def)
  moreover from find_SomeD [OF i] have least: "?loads ! i = Min (set ?loads)" and "i \<in> set ?order" by auto
  then have "i < n" using assms(3) by auto
  moreover have "?loads ! i \<le> ?loads ! j" if "j < n" for j
    using that len unfolding least by (simp add: Min_le)
  ultimately show ?thesis by simp
qed

text \<open>The member under the cursor is taken when nobody has less.\<close>

lemma chooseNextMemberIndex_cursor:
  assumes "length base = n" "length assigned = n" "c < n"
    and "\<And>j. j < n \<Longrightarrow> totalLoads base assigned ! c \<le> totalLoads base assigned ! j"
  shows "chooseNextMemberIndex base assigned c = c"
proof -
  let ?loads = "totalLoads base assigned"
  have len: "length ?loads = n" using assms by simp
  then have nonempty: "?loads \<noteq> []" using assms(3) by (simp flip: length_greater_0_conv)
  have "Min (set ?loads) = ?loads ! c"
    using assms(3,4) len by (intro Min_eqI) (auto simp: in_set_conv_nth)
  moreover have "[0..<n] = 0 # [1..<n]" using assms(3) by (simp add: upt_conv_Cons)
  ultimately show ?thesis
    using len hd_min [OF nonempty] assms(3) by (simp add: chooseNextMemberIndex_def Let_def)
qed

section \<open>The loop\<close>

definition assignedTo :: "jobAssignment list \<Rightarrow> nat \<Rightarrow> nat" where
  "assignedTo as i = length (filter (\<lambda>a. ja_memberIndex a = i) as)"

definition pinnedTo :: "string \<Rightarrow> poolMember list \<Rightarrow> executionRequest \<Rightarrow> jobAssignment \<Rightarrow> executionRequest" where
  "pinnedTo teamId members request a = assignRequestToMember teamId (members ! ja_memberIndex a) request"

text \<open>\<open>handed\<close> are the requests handed out so far.\<close>

definition poolInv :: "string \<Rightarrow> poolMember list \<Rightarrow> nat list \<Rightarrow> executionRequest list \<Rightarrow> poolLocals \<Rightarrow> bool" where
  "poolInv teamId members base handed l =
     (length (pp_assignedLoads l) = length members
    \<and> length (pp_assignments l) = length handed
    \<and> pp_requests l = map2 (pinnedTo teamId members) handed (pp_assignments l)
    \<and> (\<forall>i<length members. pp_assignedLoads l ! i = assignedTo (pp_assignments l) i)
    \<and> (\<forall>a\<in>set (pp_assignments l). ja_memberIndex a < length members \<and> ja_team a = teamId
        \<and> ja_memberAgent a = ea_id (pm_agent (members ! ja_memberIndex a)))
    \<and> (\<forall>i<length members. \<forall>j<length members. pp_assignedLoads l ! i > 0 \<longrightarrow>
        base ! i + pp_assignedLoads l ! i \<le> base ! j + pp_assignedLoads l ! j + 1))"

lemma poolInvD:
  assumes "poolInv teamId members base handed l"
  shows "length (pp_assignedLoads l) = length members" "length (pp_assignments l) = length handed"
    and "pp_requests l = map2 (pinnedTo teamId members) handed (pp_assignments l)"
    and "\<And>i. i < length members \<Longrightarrow> pp_assignedLoads l ! i = assignedTo (pp_assignments l) i"
    and "\<And>a. a \<in> set (pp_assignments l) \<Longrightarrow> ja_memberIndex a < length members \<and> ja_team a = teamId
        \<and> ja_memberAgent a = ea_id (pm_agent (members ! ja_memberIndex a))"
    and "\<And>i j. i < length members \<Longrightarrow> j < length members \<Longrightarrow> pp_assignedLoads l ! i > 0 \<Longrightarrow>
        base ! i + pp_assignedLoads l ! i \<le> base ! j + pp_assignedLoads l ! j + 1"
  using assms by (auto simp: poolInv_def)

lemma assignNext_inv:
  assumes inv: "poolInv teamId members base handed l" and base: "length base = length members" and "members \<noteq> []"
  shows "poolInv teamId members base (handed @ [r]) (assignNext teamId members base l r)"
proof -
  note facts = poolInvD [OF inv]
  let ?n = "length members" and ?assigned = "pp_assignedLoads l"
  let ?i = "chooseNextMemberIndex base ?assigned (pp_tieCursor l)"
  have n: "0 < ?n" using assms(3) by simp
  from chooseNextMemberIndex_lowest [OF base facts(1) n] have i: "?i < ?n"
    and least: "\<And>j. j < ?n \<Longrightarrow> totalLoads base ?assigned ! ?i \<le> totalLoads base ?assigned ! j" by auto
  have lowest: "base ! ?i + ?assigned ! ?i \<le> base ! j + ?assigned ! j" if "j < ?n" for j
    using least [OF that] that i facts(1) base by (simp add: totalLoads_nth)
  have "base ! k + ?assigned[?i := ?assigned ! ?i + 1] ! k \<le> base ! j + ?assigned[?i := ?assigned ! ?i + 1] ! j + 1"
    if "k < ?n" "j < ?n" "0 < ?assigned[?i := ?assigned ! ?i + 1] ! k" for k j
    using that i lowest [OF that(2)] facts(6) [OF that(1,2)] facts(1)
    by (cases "k = ?i"; cases "j = ?i") auto
  then show ?thesis
    using facts i by (auto simp: poolInv_def assignNext_def Let_def assignedTo_def pinnedTo_def nth_list_update zip_append)
qed

lemma assignAll_inv:
  assumes "poolInv teamId members base handed l" "length base = length members" "members \<noteq> []"
    and "assignAll teamId members base l rs = Inr l'"
  shows "poolInv teamId members base (handed @ rs) l'"
  using assms
proof (induction rs arbitrary: handed l)
  case (Cons r rs)
  then have "assignAll teamId members base (assignNext teamId members base l r) rs = Inr l'"
    by (simp split: sum.splits)
  from Cons.IH [OF assignNext_inv [OF Cons.prems(1,2,3)] Cons.prems(2,3) this] show ?case by simp
qed simp

lemma dispatch_result:
  assumes "resolveResponseBatchDispatchPool control catalog dispatch requests w = (Inr res, w')"
  obtains team members records l where "resolvePool dispatch catalog = Inr (team, members)" and "members \<noteq> []"
    and "(case control of None \<Rightarrow> ioReturn [] | Some S \<Rightarrow> controlListRuns S directRuns) w = (Inr records, w')"
    and "assignAll (et_id team) members (map (\<lambda>m. countActiveMemberRuns records (ea_id (pm_agent m))) members)
      \<lparr>pp_assignedLoads = replicate (length members) 0, pp_tieCursor = 0, pp_requests = [], pp_assignments = []\<rparr> requests = Inr l"
    and "ds_requests res = pp_requests l" and "ds_assignments res = pp_assignments l"
    and "dc_memberCount (ds_dispatch res) = length members"
proof -
  obtain team members where pool: "resolvePool dispatch catalog = Inr (team, members)"
    using assms by (cases "resolvePool dispatch catalog") (auto simp: resolveResponseBatchDispatchPool_def ioThrow_def)
  obtain rs w1 where list: "(case control of None \<Rightarrow> ioReturn [] | Some S \<Rightarrow> controlListRuns S directRuns) w = (rs, w1)" by force
  from assms pool list obtain records where rs: "rs = Inr records"
    by (cases rs) (auto simp: resolveResponseBatchDispatchPool_def ioBind_def ioLift_def)
  from pool have "members \<noteq> []" by (auto simp: resolvePool_def split: option.splits if_splits)
  with assms pool list rs show thesis
    by (auto simp: resolveResponseBatchDispatchPool_def ioBind_def ioLift_def ioReturn_def Let_def intro!: that
        split: sum.splits)
qed

text \<open>C29. Dispatching a batch is balanced: every request gets exactly one assignment, in its position, to
  a runnable member of the pool, and is pinned to that member's agent, service and profile; and with
  what a member was already running, no member that received a request ends with more than one run
  above any other member.\<close>

theorem dispatch_is_balanced:
  assumes "resolveResponseBatchDispatchPool (Some S) catalog dispatch requests w = (Inr res, w')"
    and "controlListRuns S directRuns w = (Inr records, w1)"
    and "resolvePool dispatch catalog = Inr (team, members)"
  shows "length (ds_assignments res) = length requests
    \<and> ds_requests res = map2 (pinnedTo (et_id team) members) requests (ds_assignments res)
    \<and> (\<forall>a\<in>set (ds_assignments res). ja_memberIndex a < length members
        \<and> ja_memberAgent a = ea_id (pm_agent (members ! ja_memberIndex a)))
    \<and> (\<forall>i<length members. \<forall>j<length members. assignedTo (ds_assignments res) i > 0 \<longrightarrow>
        countActiveMemberRuns records (ea_id (pm_agent (members ! i))) + assignedTo (ds_assignments res) i
          \<le> countActiveMemberRuns records (ea_id (pm_agent (members ! j))) + assignedTo (ds_assignments res) j + 1)"
proof -
  let ?base = "map (\<lambda>m. countActiveMemberRuns records (ea_id (pm_agent m))) members"
  let ?l0 = "\<lparr>pp_assignedLoads = replicate (length members) 0, pp_tieCursor = 0, pp_requests = [], pp_assignments = []\<rparr>"
  from assms obtain l where l: "members \<noteq> []" "assignAll (et_id team) members ?base ?l0 requests = Inr l"
      "ds_requests res = pp_requests l" "ds_assignments res = pp_assignments l"
    by (auto elim!: dispatch_result)
  have "poolInv (et_id team) members ?base [] ?l0" by (auto simp: poolInv_def assignedTo_def)
  from assignAll_inv [OF this _ l(1,2)] have inv: "poolInv (et_id team) members ?base requests l" by simp
  from poolInvD [OF inv] show ?thesis unfolding l(3,4) by auto
qed

section \<open>An idle pool\<close>

text \<open>The locals after \<open>k\<close> requests when nobody was running anything.\<close>

definition roundRobin :: "string \<Rightarrow> poolMember list \<Rightarrow> nat \<Rightarrow> poolLocals \<Rightarrow> bool" where
  "roundRobin teamId members k l =
     (pp_assignedLoads l = map (\<lambda>i. k div length members + (if i < k mod length members then 1 else 0)) [0..<length members]
    \<and> pp_tieCursor l = k mod length members
    \<and> map ja_memberIndex (pp_assignments l) = map (\<lambda>i. i mod length members) [0..<k])"

lemma assignNext_roundRobin:
  assumes "roundRobin teamId members k l" and n: "0 < length members"
  shows "roundRobin teamId members (Suc k) (assignNext teamId members (replicate (length members) b) l r)"
proof -
  let ?n = "length members" and ?loads = "pp_assignedLoads l"
  note rr = assms(1) [unfolded roundRobin_def]
  have c: "k mod ?n < ?n" using n by simp
  have "chooseNextMemberIndex (replicate ?n b) ?loads (k mod ?n) = k mod ?n"
    using rr c by (intro chooseNextMemberIndex_cursor) (auto simp: totalLoads_nth)
  with rr have chosen: "chooseNextMemberIndex (replicate ?n b) ?loads (pp_tieCursor l) = k mod ?n" by simp
  have "?loads[k mod ?n := ?loads ! (k mod ?n) + 1]
      = map (\<lambda>i. Suc k div ?n + (if i < Suc k mod ?n then 1 else 0)) [0..<?n]"
    using rr c by (intro nth_equalityI) (auto simp: nth_list_update div_Suc mod_Suc)
  with rr chosen show ?thesis
    by (simp add: roundRobin_def assignNext_def Let_def mod_Suc_eq)
qed

lemma assignAll_roundRobin:
  assumes "roundRobin teamId members k l" "0 < length members"
    and "assignAll teamId members (replicate (length members) b) l rs = Inr l'"
  shows "roundRobin teamId members (k + length rs) l'"
  using assms
proof (induction rs arbitrary: k l)
  case (Cons r rs)
  then have "assignAll teamId members (replicate (length members) b)
      (assignNext teamId members (replicate (length members) b) l r) rs = Inr l'" by (simp split: sum.splits)
  from Cons.IH [OF assignNext_roundRobin [OF Cons.prems(1,2)] Cons.prems(2) this] show ?case by simp
qed simp

text \<open>With equal loads the pool is a round robin: when no member runs more than another, the requests
  go to the members in turn, starting with the first.\<close>

lemma equal_loads_are_served_in_turn:
  assumes "resolveResponseBatchDispatchPool (Some S) catalog dispatch requests w = (Inr res, w')"
    and "controlListRuns S directRuns w = (Inr records, w1)"
    and "resolvePool dispatch catalog = Inr (team, members)"
    and "\<And>m. m \<in> set members \<Longrightarrow> countActiveMemberRuns records (ea_id (pm_agent m)) = b"
  shows "map ja_memberIndex (ds_assignments res) = map (\<lambda>i. i mod length members) [0..<length requests]"
proof -
  let ?l0 = "\<lparr>pp_assignedLoads = replicate (length members) 0, pp_tieCursor = 0, pp_requests = [], pp_assignments = []\<rparr>"
  have base: "map (\<lambda>m. countActiveMemberRuns records (ea_id (pm_agent m))) members = replicate (length members) b"
    using assms(4) by (intro nth_equalityI) auto
  from assms base obtain l where l: "members \<noteq> []" "assignAll (et_id team) members (replicate (length members) b) ?l0 requests = Inr l"
      "ds_assignments res = pp_assignments l"
    by (auto elim!: dispatch_result)
  have "roundRobin (et_id team) members 0 ?l0" using l(1) by (auto simp: roundRobin_def intro: nth_equalityI)
  from assignAll_roundRobin [OF this _ l(2)] l(1,3) show ?thesis by (simp add: roundRobin_def)
qed

section \<open>A pool of two\<close>

text \<open>Agent \<open>a\<close> is running a step, agent \<open>b\<close> is idle.\<close>

definition poolAgent :: "string \<Rightarrow> effectiveAgent" where
  "poolAgent i = \<lparr>ea_id = i, ea_enabled = True, ea_service = Some Chatgpt, ea_defaultService = None,
     ea_runtimeProfileId = Some ''default'', ea_model = None, ea_modelSelector = None, ea_projectName = None\<rparr>"

definition poolTeam :: effectiveTeam where
  "poolTeam = \<lparr>et_id = ''pool'', et_type = ''dispatch-pool'', et_agentIds = [''a'', ''b''], et_projectName = None\<rparr>"

definition poolCatalog :: agentCatalog where
  "poolCatalog = \<lparr>ec_agents = [poolAgent ''a'', poolAgent ''b''], ec_teams = [poolTeam]\<rparr>"

definition poolMembers :: "poolMember list" where
  "poolMembers = map (\<lambda>i. \<lparr>pm_agent = poolAgent i, pm_service = Chatgpt, pm_runtimeProfile = ''default''\<rparr>) [''a'', ''b'']"

definition busyRecord :: storedRecord where
  "busyRecord = (let b = demoBundle [demoStep ''s'' 1 StepRunning []] [] in
     \<lparr>rec_runId = ''r'', rec_revision = 1, rec_persistedAt = ''t0'',
      rec_bundle = b\<lparr>bdl_run := (bdl_run b)\<lparr>run_initialInputs := [(''agent'', JStr ''a'')]\<rparr>\<rparr>\<rparr>)"

definition busyFs :: runFs where
  "busyFs = emptyFs\<lparr>rf_runsDir := True, rf_dirs := [''r''], rf_record := (\<lambda>_. NoFile)(''r'' := File 0 (Json busyRecord))\<rparr>"

definition idleFs :: runFs where
  "idleFs = emptyFs\<lparr>rf_runsDir := True\<rparr>"

definition poolDispatch :: "runFs \<Rightarrow> dispatchResolution result" where
  "poolDispatch fs = fst (resolveResponseBatchDispatchPool (Some (createExecutionRunRecordStore (\<lambda>_. None) (\<le>))) poolCatalog
     \<lparr>dq_team = ''pool''\<rparr> (replicate 3 [(''model'', JStr ''gpt'')]) fs)"

lemma pool_resolved: "resolvePool \<lparr>dq_team = ''pool''\<rparr> poolCatalog = Inr (poolTeam, poolMembers)"
  by (simp add: resolvePool_def poolCatalog_def poolTeam_def poolMembers_def resolveRunnableMembers_def runnableMember_def
      poolAgent_def somes_def orElseOpt_def truthyText_def)

lemma pool_runs:
  "fst (controlListRuns (createExecutionRunRecordStore (\<lambda>_. None) (\<le>)) directRuns busyFs) = Inr [busyRecord]"
  "fst (controlListRuns (createExecutionRunRecordStore (\<lambda>_. None) (\<le>)) directRuns idleFs) = Inr []"
  by code_simp+

definition poolLoop :: "nat list \<Rightarrow> poolLocals result" where
  "poolLoop base = assignAll ''pool'' poolMembers base \<lparr>pp_assignedLoads = replicate (length poolMembers) 0, pp_tieCursor = 0,
     pp_requests = [], pp_assignments = []\<rparr> (replicate 3 [(''model'', JStr ''gpt'')])"

lemma pool_choices:
  "map_sum id (map ja_memberIndex \<circ> pp_assignments) (poolLoop [1, 0]) = Inr [1, 0, 1]"
  "map_sum id (map ja_memberIndex \<circ> pp_assignments) (poolLoop [0, 0]) = Inr [0, 1, 0]"
  "map (countActiveMemberRuns [busyRecord]) [''a'', ''b''] = [1, 0]"
  by code_simp+

lemma poolDispatchE:
  assumes "fst (controlListRuns (createExecutionRunRecordStore (\<lambda>_. None) (\<le>)) directRuns fs) = Inr records"
    and "map_sum id (map ja_memberIndex \<circ> pp_assignments) (poolLoop (map (countActiveMemberRuns records) [''a'', ''b''])) = Inr picks"
  obtains res w where "resolveResponseBatchDispatchPool (Some (createExecutionRunRecordStore (\<lambda>_. None) (\<le>))) poolCatalog
      \<lparr>dq_team = ''pool''\<rparr> (replicate 3 [(''model'', JStr ''gpt'')]) fs = (Inr res, w)"
    and "controlListRuns (createExecutionRunRecordStore (\<lambda>_. None) (\<le>)) directRuns fs = (Inr records, w)"
    and "map ja_memberIndex (ds_assignments res) = picks"
proof -
  obtain w where runs: "controlListRuns (createExecutionRunRecordStore (\<lambda>_. None) (\<le>)) directRuns fs = (Inr records, w)"
    using assms(1) by (metis prod.collapse)
  obtain l where l: "poolLoop (map (countActiveMemberRuns records) [''a'', ''b'']) = Inr l"
      "map ja_memberIndex (pp_assignments l) = picks"
    using assms(2) by (cases "poolLoop (map (countActiveMemberRuns records) [''a'', ''b''])") auto
  have "et_id poolTeam = ''pool''"
    "map (\<lambda>m. countActiveMemberRuns records (ea_id (pm_agent m))) poolMembers = map (countActiveMemberRuns records) [''a'', ''b'']"
    by (simp_all add: poolTeam_def poolMembers_def poolAgent_def)
  with l(1) have "assignAll (et_id poolTeam) poolMembers
      (map (\<lambda>m. countActiveMemberRuns records (ea_id (pm_agent m))) poolMembers)
      \<lparr>pp_assignedLoads = replicate (length poolMembers) 0, pp_tieCursor = 0, pp_requests = [], pp_assignments = []\<rparr>
      (replicate 3 [(''model'', JStr ''gpt'')]) = Inr l" by (simp only: poolLoop_def)
  with runs l(2) show thesis
    by (intro that) (auto simp: resolveResponseBatchDispatchPool_def pool_resolved Let_def ioBind_def ioLift_def ioReturn_def)
qed

lemma dispatch_is_balanced_witness:
  "\<exists>res. poolDispatch busyFs = Inr res \<and> map ja_memberIndex (ds_assignments res) = [1, 0, 1]
    \<and> length (ds_requests res) = 3
    \<and> countActiveMemberRuns [busyRecord] ''a'' + assignedTo (ds_assignments res) 0
        \<le> countActiveMemberRuns [busyRecord] ''b'' + assignedTo (ds_assignments res) 1 + 1"
proof -
  have "map_sum id (map ja_memberIndex \<circ> pp_assignments) (poolLoop (map (countActiveMemberRuns [busyRecord]) [''a'', ''b''])) = Inr [1, 0, 1]"
    by (simp only: pool_choices)
  from poolDispatchE [OF pool_runs(1) this] obtain res w
    where res: "resolveResponseBatchDispatchPool (Some (createExecutionRunRecordStore (\<lambda>_. None) (\<le>)))
      poolCatalog \<lparr>dq_team = ''pool''\<rparr> (replicate 3 [(''model'', JStr ''gpt'')]) busyFs = (Inr res, w)"
    and runs: "controlListRuns (createExecutionRunRecordStore (\<lambda>_. None) (\<le>)) directRuns busyFs = (Inr [busyRecord], w)"
    and choice: "map ja_memberIndex (ds_assignments res) = [1, 0, 1]" .
  have "filter (\<lambda>a. ja_memberIndex a = 0) (ds_assignments res) \<noteq> []"
    using choice by (auto simp: filter_empty_conv map_eq_Cons_conv)
  then have "assignedTo (ds_assignments res) 0 > 0" by (simp add: assignedTo_def)
  moreover have n: "0 < length poolMembers" "1 < length poolMembers"
    and ids: "ea_id (pm_agent (poolMembers ! 0)) = ''a''" "ea_id (pm_agent (poolMembers ! 1)) = ''b''"
    by (simp_all add: poolMembers_def poolAgent_def)
  moreover note balanced = dispatch_is_balanced [OF res runs pool_resolved]
  ultimately have "countActiveMemberRuns [busyRecord] ''a'' + assignedTo (ds_assignments res) 0
      \<le> countActiveMemberRuns [busyRecord] ''b'' + assignedTo (ds_assignments res) 1 + 1"
    by (metis n ids balanced)
  moreover from balanced have "length (ds_requests res) = 3" by simp
  ultimately show ?thesis using choice res by (simp add: poolDispatch_def)
qed

lemma equal_loads_are_served_in_turn_example:
  "\<exists>res. poolDispatch idleFs = Inr res \<and> map ja_memberIndex (ds_assignments res) = map (\<lambda>i. i mod 2) [0..<3]"
proof -
  have "map (countActiveMemberRuns []) [''a'', ''b''] = [0, 0]" by (simp add: countActiveMemberRuns_def)
  then have "map_sum id (map ja_memberIndex \<circ> pp_assignments) (poolLoop (map (countActiveMemberRuns []) [''a'', ''b''])) = Inr [0, 1, 0]"
    by (simp only: pool_choices)
  from poolDispatchE [OF pool_runs(2) this] obtain res w
    where res: "resolveResponseBatchDispatchPool (Some (createExecutionRunRecordStore (\<lambda>_. None) (\<le>)))
      poolCatalog \<lparr>dq_team = ''pool''\<rparr> (replicate 3 [(''model'', JStr ''gpt'')]) idleFs = (Inr res, w)"
    and runs: "controlListRuns (createExecutionRunRecordStore (\<lambda>_. None) (\<le>)) directRuns idleFs = (Inr [], w)" .
  have "length poolMembers = 2" by (simp add: poolMembers_def)
  with equal_loads_are_served_in_turn [OF res runs pool_resolved, of 0] res show ?thesis
    by (simp add: poolDispatch_def countActiveMemberRuns_def)
qed

end
