(* ===== verification/Responses.thy ===== *)
theory Responses
  imports Response_View Host_Drain Tenant_Limits Dispatch_Pool
begin

text \<open>
  The responses service (\<open>src/runtime/responsesService.ts\<close>): a request becomes a direct run with one
  step, the run is read back as a request when its step is executed, and the stored run is projected
  into the response; the path of a \<open>file:\<close> URL and the summary of a
  task run specification are parameters.
\<close>

section \<open>Requests\<close>

definition requestAuracall :: "executionRequest \<Rightarrow> jobj option" where
  "requestAuracall q = asRecord (jprop q ''auracall'')"

definition parseAgentModelId :: "string \<Rightarrow> string option" where
  "parseAgentModelId model = (if startsWith model ''agent:'' then truthyText (Some (trim (drop 6 model))) else None)"

text \<open>
  The requests \<open>ExecutionRequestSchema\<close> accepts without dropping anything: every field of its type and no
  other field, the list elements with their fields in the order of the schema.
\<close>

definition fieldsWithin :: "string list \<Rightarrow> jobj \<Rightarrow> bool" where
  "fieldsWithin ks r = (distinct (map fst r) \<and> set (map fst r) \<subseteq> set ks)"

definition isText :: "json option \<Rightarrow> bool" where
  "isText v = (asString v \<noteq> None)"

definition isOptionalText :: "json option \<Rightarrow> bool" where
  "isOptionalText v = (v = None \<or> v = Some JNull \<or> isText v)"

definition isOptionalEnum :: "string list \<Rightarrow> json option \<Rightarrow> bool" where
  "isOptionalEnum ks v = (v = None \<or> v = Some JNull \<or> (\<exists>k\<in>set ks. v = Some (JStr k)))"

definition isArrayOf :: "(json \<Rightarrow> bool) \<Rightarrow> json option \<Rightarrow> bool" where
  "isArrayOf P v = (case asArray v of None \<Rightarrow> False | Some xs \<Rightarrow> \<forall>x\<in>set xs. P x)"

definition isObjectOf :: "(jobj \<Rightarrow> bool) \<Rightarrow> json option \<Rightarrow> bool" where
  "isObjectOf P v = (case asRecord v of None \<Rightarrow> False | Some r \<Rightarrow> P r)"

definition isOptional :: "(json option \<Rightarrow> bool) \<Rightarrow> json option \<Rightarrow> bool" where
  "isOptional P v = (v = None \<or> P v)"

definition ExecutionTransportSchema :: "string list" where
  "ExecutionTransportSchema = [''api'', ''browser'', ''auto'']"

definition LibraryFileSelectorSchema :: "jobj \<Rightarrow> bool" where
  "LibraryFileSelectorSchema r =
     (\<exists>k\<in>{''id'', ''name''}. map fst r = [k] \<and> truthyText (asString (jprop r k)) \<noteq> None)"

definition ExecutionRequestExtensionHintsSchema :: "jobj \<Rightarrow> bool" where
  "ExecutionRequestExtensionHintsSchema r =
     (fieldsWithin [''runtimeProfile'', ''agent'', ''team'', ''service'', ''transport'', ''outputContract'', ''composerTool'',
        ''deepResearchPlanAction'', ''libraryFiles''] r
      \<and> (\<forall>k\<in>{''runtimeProfile'', ''agent'', ''team'', ''service'', ''outputContract'', ''composerTool''}. isOptionalText (jprop r k))
      \<and> isOptionalEnum ExecutionTransportSchema (jprop r ''transport'')
      \<and> isOptionalEnum [''start'', ''edit''] (jprop r ''deepResearchPlanAction'')
      \<and> isOptional (isArrayOf (\<lambda>x. isObjectOf LibraryFileSelectorSchema (Some x))) (jprop r ''libraryFiles''))"

definition ExecutionRequestInputMessageSchema :: "jobj \<Rightarrow> bool" where
  "ExecutionRequestInputMessageSchema r =
     (map fst r = [''role'', ''content''] \<and> (\<exists>k\<in>{''user'', ''assistant'', ''system''}. jprop r ''role'' = Some (JStr k))
      \<and> isText (jprop r ''content''))"

definition ExecutionRequestArtifactInputSchema :: "jobj \<Rightarrow> bool" where
  "ExecutionRequestArtifactInputSchema r =
     (subseq (map fst r) [''id'', ''mimeType'', ''fileName'', ''uri''] \<and> isText (jprop r ''id'')
      \<and> (\<forall>k\<in>{''mimeType'', ''fileName'', ''uri''}. isOptionalText (jprop r k)))"

definition ExecutionRequestSchema :: "executionRequest \<Rightarrow> bool" where
  "ExecutionRequestSchema q =
     (fieldsWithin [''model'', ''input'', ''instructions'', ''metadata'', ''tools'', ''attachments'', ''auracall''] q
      \<and> isText (jprop q ''model'')
      \<and> (isText (jprop q ''input'') \<or> isArrayOf (\<lambda>x. isObjectOf ExecutionRequestInputMessageSchema (Some x)) (jprop q ''input''))
      \<and> isOptionalText (jprop q ''instructions'')
      \<and> isOptional isRecord (jprop q ''metadata'')
      \<and> isOptional (isArrayOf (\<lambda>x. isRecord (Some x))) (jprop q ''tools'')
      \<and> isOptional (isArrayOf (\<lambda>x. isObjectOf ExecutionRequestArtifactInputSchema (Some x))) (jprop q ''attachments'')
      \<and> isOptional (isObjectOf ExecutionRequestExtensionHintsSchema) (jprop q ''auracall''))"

definition normalizeAgentModelRequest :: "executionRequest \<Rightarrow> executionRequest" where
  "normalizeAgentModelRequest q =
     (case parseAgentModelId (requestModel q) of
        None \<Rightarrow> q
      | Some agentId \<Rightarrow>
          if truthyText (asString (optProp (requestAuracall q) ''agent'')) \<noteq> None then q
          else objSet ''auracall'' (JObj (objSet ''agent'' (JStr agentId) (orElse (requestAuracall q) []))) q)"

text \<open>The schema library's \<open>parse\<close> is a parameter.\<close>

definition createExecutionRequest :: "(executionRequest \<Rightarrow> executionRequest result) \<Rightarrow> executionRequest \<Rightarrow> executionRequest result" where
  "createExecutionRequest parse q = parse (normalizeAgentModelRequest q)"

text \<open>Documented behaviour of \<open>parse\<close>: an accepted value comes back with the same fields.\<close>

definition sameRequest :: "executionRequest \<Rightarrow> executionRequest \<Rightarrow> bool" where
  "sameRequest q q' \<longleftrightarrow> (\<forall>k. k \<noteq> ''auracall'' \<longrightarrow> jprop q' k = jprop q k)
     \<and> map_option map_of (requestAuracall q') = map_option map_of (requestAuracall q)"

definition keepsAccepted :: "(executionRequest \<Rightarrow> executionRequest result) \<Rightarrow> bool" where
  "keepsAccepted parse \<longleftrightarrow> (\<forall>q. ExecutionRequestSchema q \<longrightarrow> (\<exists>q'. parse q = Inr q' \<and> sameRequest q q'))"

definition messageLine :: "json \<Rightarrow> string" where
  "messageLine m =
     (let r = orElse (asRecord (Some m)) []; text = (\<lambda>k. orElse (asString (jprop r k)) [])
      in text ''role'' @ '': '' @ text ''content'')"

definition normalizeExecutionPrompt :: "json option \<Rightarrow> string" where
  "normalizeExecutionPrompt input = (case asString input of
     Some s \<Rightarrow> s
   | None \<Rightarrow> joinWith [CHR 0x0A] (map messageLine (orElse (asArray input) [])))"

definition normalizeExecutionServiceId :: "json option \<Rightarrow> serviceId option" where
  "normalizeExecutionServiceId v =
     (if v = Some (JStr ''chatgpt'') then Some Chatgpt
      else if v = Some (JStr ''gemini'') then Some Gemini
      else if v = Some (JStr ''grok'') then Some Grok else None)"

section \<open>Attachments\<close>

definition inferRequestAttachmentKind :: "string option \<Rightarrow> string" where
  "inferRequestAttachmentKind mimeType = (case truthyText mimeType of
     None \<Rightarrow> ''file''
   | Some m \<Rightarrow>
       if startsWith m ''image/'' then ''image''
       else if startsWith m ''video/'' then ''video''
       else if startsWith m ''audio/'' then ''audio'' else ''file'')"

definition inCharRange :: "char \<Rightarrow> char \<times> char \<Rightarrow> bool" where
  "inCharRange c r = (fst r \<le> c \<and> c \<le> snd r)"

definition isLetter :: "char \<Rightarrow> bool" where
  "isLetter c = list_ex (inCharRange c) [(CHR ''a'', CHR ''z''), (CHR ''A'', CHR ''Z'')]"

definition isSchemeChar :: "char \<Rightarrow> bool" where
  "isSchemeChar c = (isLetter c \<or> inCharRange c (CHR ''0'', CHR ''9'') \<or> c \<in> {CHR ''+'', CHR ''.'', CHR ''-''})"

text \<open>\<open>/^[a-zA-Z][a-zA-Z\d+.-]*:/\<close>\<close>

definition hasUriScheme :: "string \<Rightarrow> bool" where
  "hasUriScheme s = (case s of
     [] \<Rightarrow> False
   | c # cs \<Rightarrow> isLetter c \<and> (case dropWhile isSchemeChar cs of [] \<Rightarrow> False | d # _ \<Rightarrow> d = CHR '':''))"

definition resolveRequestAttachmentPath :: "(string \<Rightarrow> string option) \<Rightarrow> string \<Rightarrow> string option" where
  "resolveRequestAttachmentPath fileURLToPath uri =
     (let value = trim uri
      in if value = [] then None
         else if startsWith value ''file://'' then fileURLToPath value
         else if hasUriScheme value then None else Some value)"

definition attachmentArtifact :: "(string \<Rightarrow> string option) \<Rightarrow> json \<Rightarrow> artifactRef" where
  "attachmentArtifact fileURLToPath attachment =
     (let r = orElse (asRecord (Some attachment)) []; text = (\<lambda>k. asString (jprop r k));
          i = orElse (text ''id'') []; uri = truthyText (text ''uri'')
      in \<lparr>art_id = i, art_kind = inferRequestAttachmentKind (text ''mimeType''),
          art_path = truthyText (Option.bind uri (resolveRequestAttachmentPath fileURLToPath)), art_uri = uri,
          art_title = Some (orElse (text ''fileName'') i), art_metadata = None\<rparr>)"

definition mapRequestAttachmentsToStepArtifacts :: "(string \<Rightarrow> string option) \<Rightarrow> json option \<Rightarrow> artifactRef list" where
  "mapRequestAttachmentsToStepArtifacts fileURLToPath attachments =
     map (attachmentArtifact fileURLToPath) (orElse (asArray attachments) [])"

section \<open>The run of a request\<close>

text \<open>\<open>request.k ?? d\<close>: \<open>null\<close> and \<open>undefined\<close> give the default.\<close>

definition given :: "json option \<Rightarrow> json \<Rightarrow> json" where
  "given v d = (case v of None \<Rightarrow> d | Some JNull \<Rightarrow> d | Some x \<Rightarrow> x)"

definition DEFAULT_TEAM_RUN_EXECUTION_POLICY :: executionPolicy where
  "DEFAULT_TEAM_RUN_EXECUTION_POLICY = \<lparr>pol_executionMode = Sequential, pol_failPolicy = FailFast,
     pol_parallelismMode = ParallelismDisabled, pol_handoffRequirement = ExplicitHandoff\<rparr>"

definition directInitialInputs :: "executionRequest \<Rightarrow> jobj" where
  "directInitialInputs q =
     (let hint = (\<lambda>k. optProp (requestAuracall q) k)
      in [(''model'', given (jprop q ''model'') (JStr [])), (''instructions'', given (jprop q ''instructions'') JNull),
          (''metadata'', given (jprop q ''metadata'') (JObj [])), (''tools'', given (jprop q ''tools'') (JArr [])),
          (''attachments'', given (jprop q ''attachments'') (JArr [])), (''auracall'', given (jprop q ''auracall'') JNull),
          (''requestInput'', given (jprop q ''input'') (JStr [])), (''runtimeProfile'', given (hint ''runtimeProfile'') JNull),
          (''service'', jsStrOrNull (map_option serviceText (normalizeExecutionServiceId (hint ''service'')))),
          (''agent'', given (hint ''agent'') JNull), (''team'', given (hint ''team'') JNull),
          (''outputContract'', given (hint ''outputContract'') JNull)])"

definition directStep :: "(string \<Rightarrow> string option) \<Rightarrow> string \<Rightarrow> executionRequest \<Rightarrow> executionRunStep" where
  "directStep fileURLToPath responseId q =
     (let hint = (\<lambda>k. optProp (requestAuracall q) k); prompt = normalizeExecutionPrompt (jprop q ''input'')
      in createExecutionRunStep \<lparr>csi_id = responseId @ '':step:1'', csi_runId = responseId, csi_sourceStepId = None,
          csi_agentId = orElse (asString (hint ''agent'')) ''api-responses'', csi_runtimeProfileId = asString (hint ''runtimeProfile''),
          csi_browserProfileId = None, csi_service = normalizeExecutionServiceId (hint ''service''), csi_kind = KPrompt,
          csi_status = Some StepRunnable, csi_order = 1, csi_dependsOnStepIds = Some [],
          csi_input = \<lparr>in_prompt = Some prompt, in_handoffIds = [],
            in_artifacts = mapRequestAttachmentsToStepArtifacts fileURLToPath (jprop q ''attachments''),
            in_structuredData = [(''requestInput'', given (jprop q ''input'') (JStr [])),
                (''metadata'', given (jprop q ''metadata'') (JObj [])), (''tools'', given (jprop q ''tools'') (JArr []))]
              @ (case asString (hint ''outputContract'') of None \<Rightarrow> [] | Some c \<Rightarrow> [(''outputContract'', JStr c)]),
            in_notes = (case truthyText (asString (jprop q ''instructions'')) of None \<Rightarrow> [] | Some t \<Rightarrow> [t])\<rparr>,
          csi_output = None, csi_startedAt = None, csi_completedAt = None, csi_failure = None\<rparr>)"

definition directEvents :: "string \<Rightarrow> executionRequest \<Rightarrow> string \<Rightarrow> executionRunEvent list" where
  "directEvents responseId q createdAt =
     [createExecutionRunEvent (responseId @ '':event:run-created'') responseId EvRunCreated createdAt None None
        (Some ''created from HTTP responses adapter request'') (Some [(''model'', given (jprop q ''model'') (JStr []))]),
      createExecutionRunEvent (responseId @ '':event:'' @ responseId @ '':step:1'' @ '':runnable'') responseId EvStepRunnable createdAt
        (Some (responseId @ '':step:1'')) None (Some ''initial direct prompt step is runnable'') (Some [(''order'', jsInt 1)])]"

definition createDirectExecutionBundle :: "(string \<Rightarrow> string option) \<Rightarrow> string \<Rightarrow> executionRequest \<Rightarrow> string \<Rightarrow> runBundle" where
  "createDirectExecutionBundle fileURLToPath responseId q createdAt =
     (let sharedStateId = responseId @ '':shared-state''; events = directEvents responseId q createdAt
      in createExecutionRunRecordBundle
          (createExecutionRun \<lparr>cri_id = responseId, cri_sourceKind = Some DirectSource, cri_sourceId = None, cri_taskRunSpecId = None,
            cri_status = Some RunPlanned, cri_createdAt = createdAt, cri_updatedAt = Some createdAt, cri_trigger = TrigApi,
            cri_requestedBy = None, cri_entryPrompt = Some (normalizeExecutionPrompt (jprop q ''input'')),
            cri_initialInputs = Some (directInitialInputs q), cri_sharedStateId = sharedStateId,
            cri_stepIds = Some [responseId @ '':step:1''], cri_policy = DEFAULT_TEAM_RUN_EXECUTION_POLICY\<rparr>)
          [directStep fileURLToPath responseId q] None None
          (createExecutionRunSharedState sharedStateId responseId (Some StateActive) (Some []) (Some []) (Some []) (Some events) createdAt)
          (Some events))"

section \<open>The request of a run\<close>

text \<open>\<open>normalizeNullableString\<close>: not blank, and returned as it is.\<close>

definition normalizeNullableString :: "json option \<Rightarrow> string option" where
  "normalizeNullableString v = (case asString v of None \<Rightarrow> None | Some s \<Rightarrow> if trim s = [] then None else Some s)"

definition normalizeExecutionTransport :: "json option \<Rightarrow> string option" where
  "normalizeExecutionTransport v = (case asString v of None \<Rightarrow> None
     | Some s \<Rightarrow> if s \<in> {''api'', ''browser'', ''auto''} then Some s else None)"

definition normalizeDeepResearchPlanAction :: "json option \<Rightarrow> string option" where
  "normalizeDeepResearchPlanAction v = (case asString v of None \<Rightarrow> None
     | Some s \<Rightarrow> if s \<in> {''start'', ''edit''} then Some s else None)"

definition normalizeLibraryFileName :: "string \<Rightarrow> string" where
  "normalizeLibraryFileName value = trim (collapseSpaces False value)"

text \<open>A selector by \<open>id\<close> or by \<open>name\<close>.\<close>

definition normalizeLibraryFileSelector :: "jobj \<Rightarrow> (string \<times> string) result" where
  "normalizeLibraryFileSelector selector =
     (let i = (case asString (jprop selector ''id'') of None \<Rightarrow> [] | Some s \<Rightarrow> trim s);
          name = (case asString (jprop selector ''name'') of None \<Rightarrow> [] | Some s \<Rightarrow> normalizeLibraryFileName s)
      in if (i \<noteq> []) = (name \<noteq> [])
         then Inl (PlainError ''Each Library file selector must contain exactly one non-empty id or name.'')
         else Inr (if i \<noteq> [] then (''id'', i) else (''name'', name)))"

definition normalizeLibraryFileSelectors :: "jobj list \<Rightarrow> (string \<times> string) list result" where
  "normalizeLibraryFileSelectors selectors = (case traverse normalizeLibraryFileSelector selectors of
     Inl e \<Rightarrow> Inl e
   | Inr normalized \<Rightarrow> if distinct normalized then Inr normalized
       else Inl (PlainError ''Library file selectors must be unique.''))"

definition storedSelector :: "json \<Rightarrow> jobj result" where
  "storedSelector v = (case asRecord (Some v) of
     None \<Rightarrow> Inl (PlainError ''Stored Library file selector must be an object.'')
   | Some r \<Rightarrow> Inr (filter (\<lambda>(k, x). k \<in> {''id'', ''name''} \<and> asString (Some x) \<noteq> None) r))"

definition storedLibraryFiles :: "json option \<Rightarrow> json list option result" where
  "storedLibraryFiles v =
     (if v \<in> {None, Some JNull} then Inr None
      else case asArray v of
          None \<Rightarrow> Inl (PlainError ''Stored auracall.libraryFiles must be an array.'')
        | Some xs \<Rightarrow> (case traverse storedSelector xs of
            Inl e \<Rightarrow> Inl e
          | Inr selectors \<Rightarrow> map_sum id (\<lambda>ns. Some (map (\<lambda>(k, s). JObj [(k, JStr s)]) ns)) (normalizeLibraryFileSelectors selectors)))"

definition normalizeAuracallFromRecord :: "json option \<Rightarrow> jobj result" where
  "normalizeAuracallFromRecord input = (case asRecord input of
     None \<Rightarrow> Inr []
   | Some r \<Rightarrow>
       (let entry = (\<lambda>k v. map_option (\<lambda>s. (k, JStr s)) v)
        in map_sum id (\<lambda>files. somes
             [entry ''runtimeProfile'' (normalizeNullableString (jprop r ''runtimeProfile'')),
              entry ''agent'' (normalizeNullableString (jprop r ''agent'')),
              entry ''team'' (normalizeNullableString (jprop r ''team'')),
              entry ''service'' (map_option serviceText (normalizeExecutionServiceId (jprop r ''service''))),
              entry ''transport'' (normalizeExecutionTransport (jprop r ''transport'')),
              entry ''outputContract'' (normalizeNullableString (jprop r ''outputContract'')),
              entry ''composerTool'' (normalizeNullableString (jprop r ''composerTool'')),
              entry ''deepResearchPlanAction'' (normalizeDeepResearchPlanAction (jprop r ''deepResearchPlanAction'')),
              map_option (\<lambda>fs. (''libraryFiles'', JArr fs)) files])
           (storedLibraryFiles (jprop r ''libraryFiles''))))"

definition storedInput :: "jobj \<Rightarrow> json" where
  "storedInput inputs =
     (let v = given (jprop inputs ''requestInput'') (given (jprop inputs ''input'') (JStr []))
      in case v of JStr _ \<Rightarrow> v | JArr _ \<Rightarrow> v | _ \<Rightarrow> JStr [])"

definition createExecutionRequestFromRecord ::
  "(executionRequest \<Rightarrow> executionRequest result) \<Rightarrow> storedRecord \<Rightarrow> executionRequest result" where
  "createExecutionRequestFromRecord parse rec =
     (let inputs = run_initialInputs (bdl_run (rec_bundle rec));
          kept = (\<lambda>k ok. case jprop inputs k of Some v \<Rightarrow> if ok v then [(k, v)] else [] | None \<Rightarrow> []);
          text = (\<lambda>v. v = JNull \<or> isText (Some v)); array = (\<lambda>v. asArray (Some v) \<noteq> None);
          model = (case asString (jprop inputs ''model'') of
              Some m \<Rightarrow> m
            | None \<Rightarrow> (case bdl_steps (rec_bundle rec) of [] \<Rightarrow> [] | s # _ \<Rightarrow> orElse (in_prompt (step_input s)) []))
      in case normalizeAuracallFromRecord (jprop inputs ''auracall'') of
           Inl e \<Rightarrow> Inl e
         | Inr auracall \<Rightarrow> createExecutionRequest parse
           ([(''model'', JStr model), (''input'', storedInput inputs),
             (''metadata'', JObj (orElse (asRecord (jprop inputs ''metadata'')) []))]
            @ kept ''instructions'' text @ kept ''tools'' array @ kept ''attachments'' array
            @ (if auracall = [] then [] else [(''auracall'', JObj auracall)])))"

section \<open>The response of a stored run\<close>

definition inferArtifactMimeType :: "string option list \<Rightarrow> string option" where
  "inferArtifactMimeType values =
     (let haystack = toLowerCase (joinWith '' '' (filter (\<lambda>s. trim s \<noteq> []) (somes values)))
      in if str_includes haystack ''.json'' then Some ''application/json''
         else if str_includes haystack ''.md'' then Some ''text/markdown''
         else if str_includes haystack ''.txt'' then Some ''text/plain''
         else if str_includes haystack ''.csv'' then Some ''text/csv''
         else if str_includes haystack ''.zip'' then Some ''application/zip'' else None)"

definition normalizeResponseArtifactType :: "string \<Rightarrow> string" where
  "normalizeResponseArtifactType kind =
     (if kind \<in> {''file'', ''image'', ''music'', ''video'', ''canvas'', ''document'', ''generated''} then kind else ''generated'')"

definition artifactItem :: "artifactRef \<Rightarrow> json" where
  "artifactItem a =
     (let metadata = orElse (art_metadata a) []
      in JObj [(''type'', JStr ''artifact''), (''id'', JStr (art_id a)),
        (''artifact_type'', JStr (normalizeResponseArtifactType (art_kind a))), (''title'', jsStrOrNull (art_title a)),
        (''mime_type'', jsStrOrNull (inferArtifactMimeType [art_title a, art_path a, art_uri a])),
        (''uri'', jsStrOrNull (orElseOpt (art_uri a) (art_path a))),
        (''disposition'', JStr (if truthyText (art_path a) \<noteq> None then ''attachment'' else ''inline'')),
        (''metadata'', JObj (case truthyText (art_path a) of
            None \<Rightarrow> metadata
          | Some path \<Rightarrow> objSet ''remoteUrl'' (case art_uri a of Some u \<Rightarrow> JStr u | None \<Rightarrow> given (jprop metadata ''remoteUrl'') JNull)
              (objSet ''localPath'' (JStr path) (objSet ''path'' (JStr path) metadata))))])"

definition getStoredResponseOutput :: "(json \<Rightarrow> json option) \<Rightarrow> runBundle \<Rightarrow> json list" where
  "getStoredResponseOutput parseItem b =
     (let artifactOutput = map artifactItem (ss_artifacts (bdl_sharedState b))
      in case find (\<lambda>e. so_key e = ''response.output'') (ss_structuredOutputs (bdl_sharedState b)) of
           None \<Rightarrow> artifactOutput
         | Some e \<Rightarrow> normalizeExecutionResponseOutputItems parseItem (Some (so_value e)) @ artifactOutput)"

definition getStoredModel :: "runBundle \<Rightarrow> string option" where
  "getStoredModel b = asString (jprop (run_initialInputs (bdl_run b)) ''model'')"

definition getStoredRuntimeProfile :: "runBundle \<Rightarrow> string option" where
  "getStoredRuntimeProfile b = orElseOpt (asString (jprop (run_initialInputs (bdl_run b)) ''runtimeProfile''))
     (Option.bind (find (\<lambda>s. step_runtimeProfileId s \<noteq> None) (bdl_steps b)) step_runtimeProfileId)"

definition getStoredService :: "runBundle \<Rightarrow> serviceId option" where
  "getStoredService b = orElseOpt (normalizeExecutionServiceId (jprop (run_initialInputs (bdl_run b)) ''service''))
     (Option.bind (find (\<lambda>s. step_service s \<noteq> None) (bdl_steps b)) step_service)"

text \<open>\<open>specSummary\<close> is the summary of a stored task run specification, if there is one.\<close>

record 'w responsesDeps =
  rd_host :: "'w hostDeps"
  rd_specSummary :: "string \<Rightarrow> ('w, jobj option) io"
  rd_parseRequest :: "executionRequest \<Rightarrow> executionRequest result"
  rd_now :: "'w \<Rightarrow> string \<times> 'w"
  rd_generateResponseId :: "'w \<Rightarrow> string \<times> 'w"
  rd_drainAfterCreate :: bool
  rd_fileURLToPath :: "string \<Rightarrow> string option"

definition createExecutionResponseForStoredRecord :: "'w responsesDeps \<Rightarrow> runBundle \<Rightarrow> ('w, executionResponse) io" where
  "createExecutionResponseForStoredRecord d b =
     (let spec = (if run_sourceKind (bdl_run b) = TeamRunSource then truthyText (run_taskRunSpecId (bdl_run b)) else None)
      in ioBind (case spec of None \<Rightarrow> ioReturn None | Some i \<Rightarrow> rd_specSummary d i) (\<lambda>summary.
         ioReturn (createExecutionResponseFromRunRecord (hd_parseJson (rd_host d)) (run_id (bdl_run b)) b (getStoredModel b)
           (getStoredResponseOutput (hd_parseItem (rd_host d)) b) (getStoredRuntimeProfile b) (getStoredService b) summary)))"

text \<open>The world of the host is paired with its lease sequence.\<close>

definition createResponse :: "'w responsesDeps \<Rightarrow> executionRequest \<Rightarrow> ('w \<times> nat, executionResponse) io" where
  "createResponse d requestInput = (\<lambda>(w, n).
     case createExecutionRequest (rd_parseRequest d) requestInput of Inl e \<Rightarrow> (Inl e, (w, n)) | Inr request \<Rightarrow>
     case rd_now d w of (createdAt, w1) \<Rightarrow>
     case rd_generateResponseId d w1 of (responseId, w2) \<Rightarrow>
       ioBind (leftIo (controlCreateRun (hd_control (rd_host d))
         (createDirectExecutionBundle (rd_fileURLToPath d) responseId request createdAt))) (\<lambda>created.
       ioBind (leftIo (hd_refreshRunArchiveIndex (rd_host d) responseId)) (\<lambda>_.
       if \<not> rd_drainAfterCreate d then leftIo (createExecutionResponseForStoredRecord d (rec_bundle created))
       else ioBind (drainRunsOnce (rd_host d) None
              \<lparr>do_runId = Some responseId, do_sourceKind = None, do_candidateStatuses = [], do_maxRuns = Some 1\<rparr>) (\<lambda>res.
         case Option.bind (case dn_drained res of [] \<Rightarrow> None | x # _ \<Rightarrow> Some x) dr_record of
           None \<Rightarrow> ioThrow (PlainError (''Execution response '' @ responseId @ '' was not drained after creation''))
         | Some executed \<Rightarrow>
             ioBind (leftIo (hd_refreshRunArchiveIndex (rd_host d) responseId)) (\<lambda>_.
             leftIo (createExecutionResponseForStoredRecord d (rec_bundle executed)))))) (w2, n))"

definition readResponse :: "'w responsesDeps \<Rightarrow> string \<Rightarrow> ('w, executionResponse option) io" where
  "readResponse d responseId =
     ioBind (st_readRecord (hd_control (rd_host d)) responseId) (\<lambda>r. case r of
       None \<Rightarrow> ioReturn None
     | Some rec \<Rightarrow> ioBind (createExecutionResponseForStoredRecord d (rec_bundle rec)) (\<lambda>x. ioReturn (Some x)))"

section \<open>A request survives its run\<close>

lemma optProp_Some [simp]: "optProp (Some r) k = jprop r k" and optProp_None [simp]: "optProp None k = None"
  by (simp_all add: optProp_def)

lemma asString_iff: "isText v \<longleftrightarrow> (\<exists>s. v = Some (JStr s))"
  by (cases v rule: asString.cases) (auto simp: isText_def)

lemma sameRequest_hint: "sameRequest q q' \<Longrightarrow> optProp (requestAuracall q') k = optProp (requestAuracall q) k"
  by (cases "requestAuracall q"; cases "requestAuracall q'") (auto simp: sameRequest_def)

lemma normalizeNullableString_hint [simp]:
  "normalizeNullableString (Some (JStr s)) = (if trim s = [] then None else Some s)" "normalizeNullableString None = None"
  by (simp_all add: normalizeNullableString_def)

text \<open>The hints that are kept, one entry per field.\<close>

definition hintFields :: "string list" where
  "hintFields = [''runtimeProfile'', ''agent'', ''team'', ''service'', ''transport'', ''outputContract'', ''composerTool'', ''deepResearchPlanAction'']"

definition hintKept :: "jobj \<Rightarrow> string \<Rightarrow> string option" where
  "hintKept r k =
     (if k = ''service'' then map_option serviceText (normalizeExecutionServiceId (jprop r k))
      else if k = ''transport'' then normalizeExecutionTransport (jprop r k)
      else if k = ''deepResearchPlanAction'' then normalizeDeepResearchPlanAction (jprop r k)
      else normalizeNullableString (jprop r k))"

lemma map_of_somes_entries:
  "map_of (somes (map (\<lambda>k. map_option (Pair k) (f k)) ks)) k = (if k \<in> set ks then f k else None)"
  by (induction ks) (auto simp: somes_def split: option.splits)

definition keptHints :: "jobj \<Rightarrow> json list option \<Rightarrow> jobj" where
  "keptHints r files = somes (map (\<lambda>k. map_option (Pair k) (map_option JStr (hintKept r k))) hintFields)
     @ (case files of None \<Rightarrow> [] | Some fs \<Rightarrow> [(''libraryFiles'', JArr fs)])"

lemma somes_Cons: "somes (x # xs) = (case x of None \<Rightarrow> [] | Some v \<Rightarrow> [v]) @ somes xs"
  by (simp add: somes_def split: option.split)

lemma somes_files: "somes [map_option (\<lambda>fs. (k, JArr fs)) files] = (case files of None \<Rightarrow> [] | Some fs \<Rightarrow> [(k, JArr fs)])"
  by (simp add: somes_def split: option.split)

lemma normalizeAuracallFromRecord_eq:
  "normalizeAuracallFromRecord v = map_sum id (keptHints (orElse (asRecord v) [])) (storedLibraryFiles (optProp (asRecord v) ''libraryFiles''))"
proof (cases "asRecord v")
  case None
  then show ?thesis
    by (simp add: normalizeAuracallFromRecord_def storedLibraryFiles_def keptHints_def hintFields_def hintKept_def
        normalizeExecutionServiceId_def normalizeExecutionTransport_def normalizeDeepResearchPlanAction_def somes_def)
next
  case (Some r)
  have "keptHints r files = somes
      [map_option (\<lambda>s. (''runtimeProfile'', JStr s)) (hintKept r ''runtimeProfile''),
       map_option (\<lambda>s. (''agent'', JStr s)) (hintKept r ''agent''), map_option (\<lambda>s. (''team'', JStr s)) (hintKept r ''team''),
       map_option (\<lambda>s. (''service'', JStr s)) (hintKept r ''service''), map_option (\<lambda>s. (''transport'', JStr s)) (hintKept r ''transport''),
       map_option (\<lambda>s. (''outputContract'', JStr s)) (hintKept r ''outputContract''),
       map_option (\<lambda>s. (''composerTool'', JStr s)) (hintKept r ''composerTool''),
       map_option (\<lambda>s. (''deepResearchPlanAction'', JStr s)) (hintKept r ''deepResearchPlanAction''),
       map_option (\<lambda>fs. (''libraryFiles'', JArr fs)) files]" for files
    unfolding keptHints_def hintFields_def list.map option.map_comp comp_def somes_files [symmetric]
    by (simp only: somes_Cons append_assoc) (simp add: somes_def)
  with Some show ?thesis
    by (cases "storedLibraryFiles (jprop r ''libraryFiles'')") (simp_all add: normalizeAuracallFromRecord_def hintKept_def Let_def)
qed

lemma hintFields_files: "''libraryFiles'' \<notin> set hintFields" and distinct_hintFields: "distinct hintFields"
  by (simp_all add: hintFields_def)

lemma keys_somes: "map fst (somes (map (\<lambda>k. map_option (Pair k) (f k)) ks)) = filter (\<lambda>k. f k \<noteq> None) ks"
  by (induction ks) (auto simp: somes_def)

lemma keptHints_get:
  "jprop (keptHints r files) k = (if k = ''libraryFiles'' then map_option JArr files
     else if k \<in> set hintFields then map_option JStr (hintKept r k) else None)"
  using hintFields_files by (cases files) (auto simp: keptHints_def map_of_somes_entries map_add_def split: option.split)

lemma keptHints_keys: "map fst (keptHints r files) = filter (\<lambda>k. hintKept r k \<noteq> None) hintFields
   @ (case files of None \<Rightarrow> [] | Some _ \<Rightarrow> [''libraryFiles''])"
  by (simp add: keptHints_def keys_somes split: option.split)

lemma storedLibraryFiles_schema:
  assumes "storedLibraryFiles v = Inr (Some fs)" "x \<in> set fs"
  shows "isObjectOf LibraryFileSelectorSchema (Some x)"
proof -
  from assms obtain ss ks where ks: "traverse normalizeLibraryFileSelector ss = Inr ks" "x \<in> (\<lambda>(k, s). JObj [(k, JStr s)]) ` set ks"
    by (auto simp: storedLibraryFiles_def normalizeLibraryFileSelectors_def split: if_splits option.splits sum.splits)
  then obtain k s where x: "x = JObj [(k, JStr s)]" and "(k, s) \<in> set ks" by auto
  with ks(1) obtain sel where "normalizeLibraryFileSelector sel = Inr (k, s)"
    by (auto simp: traverse_Inr list_all2_conv_all_nth in_set_conv_nth)
  then have "k \<in> {''id'', ''name''} \<and> s \<noteq> []"
    by (auto simp: normalizeLibraryFileSelector_def Let_def split: if_splits option.splits)
  with x show ?thesis by (auto simp: isObjectOf_def LibraryFileSelectorSchema_def truthyText_def)
qed

lemma keptHints_schema:
  assumes "storedLibraryFiles v = Inr files"
  shows "ExecutionRequestExtensionHintsSchema (keptHints r files)"
proof -
  have "normalizeExecutionTransport (jprop r ''transport'') \<in> {None} \<union> Some ` set ExecutionTransportSchema"
    by (auto simp: normalizeExecutionTransport_def ExecutionTransportSchema_def split: option.splits)
  moreover have "normalizeDeepResearchPlanAction (jprop r ''deepResearchPlanAction'') \<in> {None, Some ''start'', Some ''edit''}"
    by (auto simp: normalizeDeepResearchPlanAction_def split: option.splits)
  moreover have "isOptional (isArrayOf (\<lambda>x. isObjectOf LibraryFileSelectorSchema (Some x))) (map_option JArr files)"
    using storedLibraryFiles_schema [of v] assms by (cases files) (auto simp: isOptional_def isArrayOf_def)
  moreover have "fieldsWithin (hintFields @ [''libraryFiles'']) (keptHints r files)"
    using hintFields_files distinct_hintFields by (auto simp: fieldsWithin_def keptHints_keys split: option.split)
  moreover have "isOptionalText (map_option JStr z)" for z by (cases z) (auto simp: isOptionalText_def isText_def)
  moreover have "isOptionalEnum ks (map_option JStr z)" if "z \<in> {None} \<union> Some ` set ks" for z ks
    using that by (auto simp: isOptionalEnum_def)
  ultimately show ?thesis
    by (auto simp: ExecutionRequestExtensionHintsSchema_def keptHints_get hintFields_def hintKept_def)
qed

lemma given_simps [simp]: "given None d = d" "given (Some (JStr t)) d = JStr t" "given (Some (JArr xs)) d = JArr xs"
  "given (Some (JObj r)) d = JObj r" "given (Some JNull) d = d"
  by (simp_all add: given_def)

lemma directInitialInputs_get:
  "jprop (directInitialInputs q) ''model'' = Some (given (jprop q ''model'') (JStr []))"
  "jprop (directInitialInputs q) ''instructions'' = Some (given (jprop q ''instructions'') JNull)"
  "jprop (directInitialInputs q) ''metadata'' = Some (given (jprop q ''metadata'') (JObj []))"
  "jprop (directInitialInputs q) ''tools'' = Some (given (jprop q ''tools'') (JArr []))"
  "jprop (directInitialInputs q) ''attachments'' = Some (given (jprop q ''attachments'') (JArr []))"
  "jprop (directInitialInputs q) ''auracall'' = Some (given (jprop q ''auracall'') JNull)"
  "jprop (directInitialInputs q) ''requestInput'' = Some (given (jprop q ''input'') (JStr []))"
  by (simp_all add: directInitialInputs_def Let_def)

lemma normalizeAgentModelRequest_get:
  "k \<noteq> ''auracall'' \<Longrightarrow> jprop (normalizeAgentModelRequest q) k = jprop q k"
  "k \<noteq> ''agent'' \<Longrightarrow> optProp (requestAuracall (normalizeAgentModelRequest q)) k = optProp (requestAuracall q) k"
  "truthyText (asString (optProp (requestAuracall (normalizeAgentModelRequest q)) ''agent''))
     = orElseOpt (truthyText (asString (optProp (requestAuracall q) ''agent''))) (parseAgentModelId (requestModel q))"
proof -
  show "k \<noteq> ''auracall'' \<Longrightarrow> jprop (normalizeAgentModelRequest q) k = jprop q k"
    by (simp add: normalizeAgentModelRequest_def split: option.split)
  show "k \<noteq> ''agent'' \<Longrightarrow> optProp (requestAuracall (normalizeAgentModelRequest q)) k = optProp (requestAuracall q) k"
    by (cases "requestAuracall q") (auto simp: normalizeAgentModelRequest_def requestAuracall_def split: option.split)
  have "parseAgentModelId m = Some a \<Longrightarrow> truthyText (Some a) = Some a" for m a
    by (auto simp: parseAgentModelId_def truthyText_def split: if_splits)
  then show "truthyText (asString (optProp (requestAuracall (normalizeAgentModelRequest q)) ''agent''))
     = orElseOpt (truthyText (asString (optProp (requestAuracall q) ''agent''))) (parseAgentModelId (requestModel q))"
    by (cases "truthyText (asString (optProp (requestAuracall q) ''agent''))")
       (auto simp: normalizeAgentModelRequest_def requestAuracall_def orElseOpt_def split: option.split)
qed

lemma set_keys_objSet: "fst ` set (objSet k v r) = insert k (fst ` set r)"
  by (induction k v r rule: objSet.induct) (simp_all add: insert_commute)

lemma distinct_objSet: "distinct (map fst r) \<Longrightarrow> distinct (map fst (objSet k v r))"
  by (induction k v r rule: objSet.induct) (simp_all add: set_keys_objSet, blast)

lemma noHints_schema: "ExecutionRequestExtensionHintsSchema []"
  by (simp add: ExecutionRequestExtensionHintsSchema_def fieldsWithin_def isOptionalText_def isOptionalEnum_def isOptional_def)

lemma request_hints_schema:
  assumes "ExecutionRequestSchema q" shows "ExecutionRequestExtensionHintsSchema (orElse (requestAuracall q) [])"
proof (cases "jprop q ''auracall''")
  case None
  then show ?thesis by (simp add: requestAuracall_def noHints_schema)
next
  case (Some v)
  with assms have "isObjectOf ExecutionRequestExtensionHintsSchema (Some v)" by (simp add: ExecutionRequestSchema_def isOptional_def)
  with Some show ?thesis by (simp add: isObjectOf_def requestAuracall_def split: option.splits)
qed

lemma text_accepted: "isText (Some (JStr t))" "isOptionalText (Some (JStr t))"
  by (simp_all add: isText_def isOptionalText_def)

lemma normalizeAgentModelRequest_schema:
  assumes "ExecutionRequestSchema q" shows "ExecutionRequestSchema (normalizeAgentModelRequest q)"
proof (cases "parseAgentModelId (requestModel q)")
  case None
  with assms show ?thesis by (simp add: normalizeAgentModelRequest_def)
next
  case (Some a)
  let ?r = "orElse (requestAuracall q) []"
  have "ExecutionRequestExtensionHintsSchema (objSet ''agent'' (JStr a) ?r)"
    using request_hints_schema [OF assms]
    by (simp add: ExecutionRequestExtensionHintsSchema_def fieldsWithin_def set_keys_objSet distinct_objSet text_accepted)
  with assms have "ExecutionRequestSchema (objSet ''auracall'' (JObj (objSet ''agent'' (JStr a) ?r)) q)"
    by (simp add: ExecutionRequestSchema_def fieldsWithin_def set_keys_objSet distinct_objSet isOptional_def isObjectOf_def)
  with Some assms show ?thesis by (simp add: normalizeAgentModelRequest_def)
qed

lemma given_text: "isOptionalText v \<Longrightarrow> given v JNull = JNull \<or> isText (Some (given v JNull))"
  by (auto simp: isOptionalText_def isText_def simp: asString_Some_iff)

definition rebuiltRequest :: "executionRequest \<Rightarrow> jobj \<Rightarrow> executionRequest" where
  "rebuiltRequest q hints =
     [(''model'', JStr (requestModel q)), (''input'', given (jprop q ''input'') (JStr [])),
      (''metadata'', given (jprop q ''metadata'') (JObj [])), (''instructions'', given (jprop q ''instructions'') JNull),
      (''tools'', given (jprop q ''tools'') (JArr [])), (''attachments'', given (jprop q ''attachments'') (JArr []))]
     @ (if hints = [] then [] else [(''auracall'', JObj hints)])"

lemma rebuiltRequest_get:
  "jprop (rebuiltRequest q h) ''model'' = Some (JStr (requestModel q))"
  "jprop (rebuiltRequest q h) ''input'' = Some (given (jprop q ''input'') (JStr []))"
  "jprop (rebuiltRequest q h) ''metadata'' = Some (given (jprop q ''metadata'') (JObj []))"
  "jprop (rebuiltRequest q h) ''instructions'' = Some (given (jprop q ''instructions'') JNull)"
  "jprop (rebuiltRequest q h) ''tools'' = Some (given (jprop q ''tools'') (JArr []))"
  "jprop (rebuiltRequest q h) ''attachments'' = Some (given (jprop q ''attachments'') (JArr []))"
  "optProp (requestAuracall (rebuiltRequest q h)) k = jprop h k"
  "requestModel (rebuiltRequest q h) = requestModel q"
  by (simp_all add: rebuiltRequest_def requestAuracall_def requestModel_def)

lemma rebuiltRequest_schema:
  assumes "ExecutionRequestSchema q" "ExecutionRequestExtensionHintsSchema h"
  shows "ExecutionRequestSchema (rebuiltRequest q h)"
proof -
  have "isOptionalText (Some (given v JNull))" if "isOptionalText v" for v
    using given_text [OF that] by (auto simp: isOptionalText_def)
  moreover have "isOptional isRecord (Some (given v (JObj [])))" if "isOptional isRecord v" for v
    using that by (cases v) (auto simp: isOptional_def isRecord_def given_def split: json.splits)
  moreover have "isOptional (isArrayOf P) (Some (given v (JArr [])))" if "isOptional (isArrayOf P) v" for v P
    using that by (cases v) (auto simp: isOptional_def isArrayOf_def given_def split: json.splits)
  moreover have "isText (Some (given v d)) \<or> isArrayOf P (Some (given v d))" if "isText v \<or> isArrayOf P v" for v P d
    using that by (cases v) (auto simp: isText_def isArrayOf_def given_def split: json.splits)
  moreover have "fieldsWithin [''model'', ''input'', ''instructions'', ''metadata'', ''tools'', ''attachments'', ''auracall''] (rebuiltRequest q h)"
    by (simp add: fieldsWithin_def rebuiltRequest_def)
  moreover have "isOptional (isObjectOf ExecutionRequestExtensionHintsSchema) (jprop (rebuiltRequest q h) ''auracall'')"
    using assms(2) by (simp add: isOptional_def isObjectOf_def rebuiltRequest_def)
  ultimately show ?thesis
    using assms(1) unfolding ExecutionRequestSchema_def rebuiltRequest_get by (simp add: text_accepted)
qed

lemma createExecutionRequestFromRecord_rebuilt:
  assumes "ExecutionRequestSchema q" "run_initialInputs (bdl_run (rec_bundle rec)) = directInitialInputs q"
    and "storedLibraryFiles (optProp (requestAuracall q) ''libraryFiles'') = Inr files"
  shows "createExecutionRequestFromRecord parse rec
    = createExecutionRequest parse (rebuiltRequest q (keptHints (orElse (requestAuracall q) []) files))"
proof -
  have aura: "asRecord (Some (given (jprop q ''auracall'') JNull)) = requestAuracall q"
    by (simp add: requestAuracall_def given_def split: option.split json.split)
  have "isText (jprop q ''model'')" and textual: "isOptionalText (jprop q ''instructions'')"
    and arrays: "isOptional (isArrayOf (\<lambda>x. isRecord (Some x))) (jprop q ''tools'')"
      "isOptional (isArrayOf (\<lambda>x. isObjectOf ExecutionRequestArtifactInputSchema (Some x))) (jprop q ''attachments'')"
    and meta: "isOptional isRecord (jprop q ''metadata'')"
    and inp: "isText (jprop q ''input'') \<or> isArrayOf (\<lambda>x. isObjectOf ExecutionRequestInputMessageSchema (Some x)) (jprop q ''input'')"
    using assms(1) by (simp_all add: ExecutionRequestSchema_def)
  then obtain m where m: "jprop q ''model'' = Some (JStr m)" by (auto simp: asString_iff)
  have array: "asArray (Some (given v (JArr []))) \<noteq> None" if "isOptional (isArrayOf P) v" for v P
    using that by (cases v) (auto simp: isOptional_def isArrayOf_def given_def split: json.splits)
  have object: "JObj (orElse (asRecord (Some (given v (JObj [])))) []) = given v (JObj [])" if "isOptional isRecord v" for v
    using that by (cases v) (auto simp: isOptional_def isRecord_def given_def split: json.splits)
  have "storedInput (directInitialInputs q) = given (jprop q ''input'') (JStr [])"
    using inp by (auto simp: storedInput_def directInitialInputs_get asString_iff isArrayOf_def simp: asArray_Some_iff split: option.splits)
  then show ?thesis
    using given_text [OF textual] array [OF arrays(1)] array [OF arrays(2)]
    by (simp add: createExecutionRequestFromRecord_def assms(2,3) directInitialInputs_get normalizeAuracallFromRecord_eq aura
        object [OF meta] m requestModel_def rebuiltRequest_def)
qed


definition demoRequest :: executionRequest where
  "demoRequest = [(''model'', JStr ''agent:writer''), (''input'', JStr ''hello''),
     (''auracall'', JObj [(''team'', JStr '' ''), (''service'', JStr ''chatgpt''), (''libraryFiles'', JArr [JObj [(''id'', JStr '' f '')]])])]"

lemma keepsAccepted_id: "keepsAccepted Inr"
  by (simp add: keepsAccepted_def sameRequest_def)

lemma demoRequest_accepted: "ExecutionRequestSchema demoRequest" by code_simp


section \<open>A created response is the one that is read\<close>

context revisionStore
begin

lemma create_fresh:
  assumes "peek w (run_id (bdl_run b)) = Inr None"
  shows "\<exists>rec w'. controlCreateRun S b w = (Inr rec, w') \<and> rec_bundle rec = b \<and> rec_revision rec = 1
    \<and> peek w' (run_id (bdl_run b)) = Inr (Some rec) \<and> (\<forall>j. j \<noteq> run_id (bdl_run b) \<longrightarrow> peek w' j = peek w j)"
proof -
  obtain x w1 where e: "st_ensureStorage S w = (x, w1)" by (cases "st_ensureStorage S w")
  have frame: "x = Inr () \<and> peek w1 j = peek w j" for j
    using ensure_frame [of w j] e by (auto simp: peek_def)
  with assms have cur: "peek w1 (run_id (bdl_run b)) = Inr None" by simp
  show ?thesis
  proof (rule write_cases [of b "expecting 0" w1])
    fix err assume "st_writeRecord S b (expecting 0) w1 = (Inl err, w1)"
    with write_ok_iff [OF cur, of "expecting 0"] show ?thesis by (simp add: expecting_def revisionOf_def)
  next
    fix cur' r w'
    assume "st_writeRecord S b (expecting 0) w1 = (Inr r, w')" "peek w1 (run_id (bdl_run b)) = Inr cur'"
      "rec_revision r = revisionOf cur' + 1" "rec_bundle r = b" "peek w' (run_id (bdl_run b)) = Inr (Some r)"
      "\<And>i. i \<noteq> run_id (bdl_run b) \<Longrightarrow> peek w' i = peek w1 i"
    with frame cur e show ?thesis
      by (intro exI [of _ r] exI [of _ w']) (simp add: controlCreateRun_def io_defs revisionOf_def)
  qed
qed

lemma create_taken:
  assumes "peek w (run_id (bdl_run b)) = Inr (Some r)" "rec_revision r \<noteq> 0"
  shows "\<exists>w'. controlCreateRun S b w = (Inl (revisionMismatch (run_id (bdl_run b)) 0 (rec_revision r)), w')
    \<and> (\<forall>j. peek w' j = peek w j)"
proof -
  obtain x w1 where e: "st_ensureStorage S w = (x, w1)" by (cases "st_ensureStorage S w")
  have frame: "x = Inr () \<and> peek w1 j = peek w j" for j
    using ensure_frame [of w j] e by (auto simp: peek_def)
  with assms(1) have "peek w1 (run_id (bdl_run b)) = Inr (Some r)" by simp
  then have "st_writeRecord S b (expecting 0) w1 = (Inl (revisionMismatch (run_id (bdl_run b)) 0 (rec_revision r)), w1)"
    using write_guard [of b w1 "Some r" "expecting 0" 0] assms(2) by (simp add: peek_def expecting_def revisionOf_def)
  with e frame show ?thesis by (intro exI [of _ w1]) (simp add: controlCreateRun_def io_defs)
qed

end

lemma directBundle_fields:
  "run_id (bdl_run (createDirectExecutionBundle url i q t)) = i"
  "run_status (bdl_run (createDirectExecutionBundle url i q t)) = RunPlanned"
  "run_sourceKind (bdl_run (createDirectExecutionBundle url i q t)) = DirectSource"
  "run_initialInputs (bdl_run (createDirectExecutionBundle url i q t)) = directInitialInputs q"
  "bdl_steps (createDirectExecutionBundle url i q t) = [directStep url i q]"
  "bdl_events (createDirectExecutionBundle url i q t) = directEvents i q t"
  "ss_history (bdl_sharedState (createDirectExecutionBundle url i q t)) = directEvents i q t"
  "bdl_leases (createDirectExecutionBundle url i q t) = []"
  by (simp_all add: createDirectExecutionBundle_def createExecutionRunRecordBundle_def createExecutionRun_def
      createExecutionRunSharedState_def Let_def)

text \<open>A created response can be run: the record of a direct request is well formed, whatever the
  request holds, and the dispatcher offers its one step, which waits for nothing, at once.\<close>

lemma direct_run_is_ready:
  "wfBundle (createDirectExecutionBundle url i q t)
   \<and> createExecutionRunDispatchPlan (createDirectExecutionBundle url i q t)
       \<in> {p. dp_nextRunnableStepId p = Some (i @ '':step:1'') \<and> dp_runnableStepIds p = [i @ '':step:1''] \<and> dp_waitingStepIds p = []}"
proof -
  let ?b = "createDirectExecutionBundle url i q t"
  have ids: "step_id (directStep url i q) = i @ '':step:1''" "step_status (directStep url i q) = StepRunnable"
    "step_dependsOnStepIds (directStep url i q) = []"
    by (simp_all add: directStep_def createExecutionRunStep_def Let_def)
  have "wfBundle ?b"
    by (simp add: wfBundle_def directBundle_fields activeLeases_def directEvents_def)
  moreover have "sortBy stepLe [directStep url i q] = [directStep url i q]" by simp
  ultimately show ?thesis
    by (simp add: createExecutionRunDispatchPlan_def directBundle_fields Let_def dispatchStep_def emptyAcc_def ids isTerminalStep_def
        hasTerminalFailure_def missingDependencies_def canDispatchStep_def dependenciesSatisfied_def)
qed

lemma files_peek: "runStore.peek parse le v j = readExecutionRunStoredRecord (fst v) j"
  unfolding runStore.peek_def by (cases v) (simp add: leftStore_def createExecutionRunRecordStore_def leftIo_def)

lemma createResponse_stores:
  assumes "\<not> rd_drainAfterCreate d" and "\<And>j v. hd_refreshRunArchiveIndex (rd_host d) j v = (Inr (), v)"
    and "createExecutionRequest (rd_parseRequest d) request = Inr q"
    and "rd_now d w = (t, w1)" and "rd_generateResponseId d w1 = (i, w2)"
  shows "createResponse d request (w, n) =
    (case controlCreateRun (hd_control (rd_host d)) (createDirectExecutionBundle (rd_fileURLToPath d) i q t) w2 of
       (Inl e, w') \<Rightarrow> (Inl e, (w', n)) | (Inr rec, w') \<Rightarrow> leftIo (createExecutionResponseForStoredRecord d (rec_bundle rec)) (w', n))"
  by (simp add: createResponse_def assms io_defs leftIo_def split: prod.split sum.split)

text \<open>The response of a run as it was created.\<close>

definition firstResponse :: "'w responsesDeps \<Rightarrow> string \<Rightarrow> executionRequest \<Rightarrow> string \<Rightarrow> executionResponse" where
  "firstResponse d i q t =
     (let b = createDirectExecutionBundle (rd_fileURLToPath d) i q t
      in createExecutionResponseFromRunRecord (hd_parseJson (rd_host d)) i b (getStoredModel b)
        (getStoredResponseOutput (hd_parseItem (rd_host d)) b) (getStoredRuntimeProfile b) (getStoredService b) None)"

lemma firstResponse_projected:
  "createExecutionResponseForStoredRecord d (createDirectExecutionBundle (rd_fileURLToPath d) i q t) v = (Inr (firstResponse d i q t), v)"
  by (simp add: createExecutionResponseForStoredRecord_def directBundle_fields io_defs firstResponse_def Let_def)

lemma firstResponse_fields:
  "er_id (firstResponse d i q t) = i" "er_status (firstResponse d i q t) = InProgress"
  "er_model (firstResponse d i q t) = asString (Some (given (jprop q ''model'') (JStr [])))"
  by (simp_all add: firstResponse_def Let_def response_fields directBundle_fields applyRequestedOutputPolicyToResponseStatus_def)
     (simp_all add: createExecutionResponseFromRunRecord_def Let_def getStoredModel_def directBundle_fields directInitialInputs_get)

lemma createResponse_fresh:
  fixes w :: "runFs \<times> 'x"
  assumes "hd_control (rd_host d) = leftStore (createExecutionRunRecordStore parse le)" and "\<not> rd_drainAfterCreate d"
    and "\<And>j v. hd_refreshRunArchiveIndex (rd_host d) j v = (Inr (), v)"
    and "createExecutionRequest (rd_parseRequest d) request = Inr q"
    and "rd_now d w = (t, w1)" and "rd_generateResponseId d w1 = (i, w2)"
    and "readExecutionRunStoredRecord (fst w2) i = Inr None"
  obtains w' where "createResponse d request (w, n) = (Inr (firstResponse d i q t), (w', n))"
    and "readResponse d i w' = (Inr (Some (firstResponse d i q t)), w')"
proof -
  let ?b = "createDirectExecutionBundle (rd_fileURLToPath d) i q t"
  obtain rec w' where rec: "controlCreateRun (leftStore (createExecutionRunRecordStore parse le)) ?b w2 = (Inr rec, w')"
      "rec_bundle rec = ?b" "readExecutionRunStoredRecord (fst w') i = Inr (Some rec)"
    using runStore.create_fresh [where parse = parse and le = le and w = w2 and b = ?b] assms(7)
    unfolding files_peek directBundle_fields by blast
  have "st_readRecord (hd_control (rd_host d)) i w' = (Inr (Some rec), w')"
    using rec(3) runStore.st_readRecord_eq [of parse le i w'] by (simp add: assms(1) files_peek)
  then have "readResponse d i w' = (Inr (Some (firstResponse d i q t)), w')"
    by (simp add: readResponse_def io_defs rec(2) firstResponse_projected)
  with rec show thesis
    by (intro that) (simp_all add: createResponse_stores [OF assms(2-6)] assms(1) leftIo_def firstResponse_projected)
qed

text \<open>C31. Without a drain at creation, a response with a fresh identifier is stored and returned in
  progress, and reading it back gives the very response that was returned; an identifier that is taken
  is refused with the revision it has, and every stored run stays as it was.\<close>

theorem created_response_is_read_back:
  fixes w :: "runFs \<times> 'x"
  assumes "hd_control (rd_host d) = leftStore (createExecutionRunRecordStore parse le)" and "\<not> rd_drainAfterCreate d"
    and "\<And>j v. hd_refreshRunArchiveIndex (rd_host d) j v = (Inr (), v)"
    and "createExecutionRequest (rd_parseRequest d) request = Inr q"
    and "rd_now d w = (t, w1)" and "rd_generateResponseId d w1 = (i, w2)"
  shows "(readExecutionRunStoredRecord (fst w2) i = Inr None \<longrightarrow>
      (\<exists>resp w'. createResponse d request (w, n) = (Inr resp, (w', n)) \<and> er_id resp = i \<and> er_status resp = InProgress
         \<and> er_model resp = asString (Some (given (jprop q ''model'') (JStr [])))
         \<and> readResponse d i w' = (Inr (Some resp), w')))
    \<and> (\<forall>r. readExecutionRunStoredRecord (fst w2) i = Inr (Some r) \<and> rec_revision r \<noteq> 0 \<longrightarrow>
      (\<exists>w'. createResponse d request (w, n) = (Inl (revisionMismatch i 0 (rec_revision r)), (w', n))
         \<and> (\<forall>j. readExecutionRunStoredRecord (fst w') j = readExecutionRunStoredRecord (fst w2) j)))"
proof (intro conjI impI allI; (elim conjE)?)
  assume "readExecutionRunStoredRecord (fst w2) i = Inr None"
  then obtain w' where "createResponse d request (w, n) = (Inr (firstResponse d i q t), (w', n))"
      "readResponse d i w' = (Inr (Some (firstResponse d i q t)), w')"
    by (rule createResponse_fresh [OF assms])
  then show "\<exists>resp w'. createResponse d request (w, n) = (Inr resp, (w', n)) \<and> er_id resp = i
      \<and> er_status resp = InProgress \<and> er_model resp = asString (Some (given (jprop q ''model'') (JStr [])))
      \<and> readResponse d i w' = (Inr (Some resp), w')"
    using firstResponse_fields [of d i q t] by blast
next
  let ?b = "createDirectExecutionBundle (rd_fileURLToPath d) i q t"
  fix r assume "readExecutionRunStoredRecord (fst w2) i = Inr (Some r)" "rec_revision r \<noteq> 0"
  then obtain w' where "controlCreateRun (leftStore (createExecutionRunRecordStore parse le)) ?b w2
      = (Inl (revisionMismatch i 0 (rec_revision r)), w')"
      "\<forall>j. readExecutionRunStoredRecord (fst w') j = readExecutionRunStoredRecord (fst w2) j"
    using runStore.create_taken [where parse = parse and le = le and w = w2 and b = ?b and r = r]
    unfolding files_peek directBundle_fields by blast
  then show "\<exists>w'. createResponse d request (w, n) = (Inl (revisionMismatch i 0 (rec_revision r)), (w', n))
      \<and> (\<forall>j. readExecutionRunStoredRecord (fst w') j = readExecutionRunStoredRecord (fst w2) j)"
    by (simp add: createResponse_stores [OF assms(2-6)] assms(1))
qed

definition demoResponses :: "(runFs \<times> runnerFs) responsesDeps" where
  "demoResponses = \<lparr>rd_host = demoHost, rd_specSummary = (\<lambda>_. ioReturn None), rd_parseRequest = Inr, rd_now = (\<lambda>w. (''t1'', w)),
     rd_generateResponseId = (\<lambda>w. (''resp1'', w)), rd_drainAfterCreate = False, rd_fileURLToPath = (\<lambda>_. None)\<rparr>"

lemma demoResponses_fields:
  "hd_control (rd_host demoResponses) = leftStore (createExecutionRunRecordStore dateParse (\<le>))"
  "\<not> rd_drainAfterCreate demoResponses" "hd_refreshRunArchiveIndex (rd_host demoResponses) j v = (Inr (), v)"
  "rd_parseRequest demoResponses = Inr" "rd_now demoResponses v = (''t1'', v)"
  "rd_generateResponseId demoResponses v = (''resp1'', v)"
  by (simp_all add: demoResponses_def demoHost_def ioReturn_def)

lemma created_response_is_read_back_witness:
  "\<exists>resp w'. createResponse demoResponses demoRequest ((emptyFs, emptyRunnerFs), 0) = (Inr resp, (w', 0))
     \<and> er_status resp = InProgress \<and> er_model resp = Some ''agent:writer''
     \<and> readResponse demoResponses ''resp1'' w' = (Inr (Some resp), w')"
proof -
  note fields = demoResponses_fields
  have "createExecutionRequest (rd_parseRequest demoResponses) demoRequest = Inr (normalizeAgentModelRequest demoRequest)"
    by (simp add: fields createExecutionRequest_def)
  note created = created_response_is_read_back [OF fields(1,2,3) this fields(5,6), where n = 0 and w = "(emptyFs, emptyRunnerFs)"]
  have "readExecutionRunStoredRecord (fst (emptyFs, emptyRunnerFs)) ''resp1'' = Inr None"
    by (simp add: emptyFs_def readExecutionRunStoredRecord_eq)
  with created obtain resp w' where "createResponse demoResponses demoRequest ((emptyFs, emptyRunnerFs), 0) = (Inr resp, (w', 0))"
      "er_status resp = InProgress" "readResponse demoResponses ''resp1'' w' = (Inr (Some resp), w')"
      "er_model resp = asString (Some (given (jprop (normalizeAgentModelRequest demoRequest) ''model'') (JStr [])))"
    by blast
  moreover have "asString (Some (given (jprop (normalizeAgentModelRequest demoRequest) ''model'') (JStr []))) = Some ''agent:writer''"
    by code_simp
  ultimately show ?thesis by fastforce
qed

end
