(* ===== verification/Response_Batches.thy ===== *)
theory Response_Batches
  imports Responses
begin

text \<open>
  Batches of responses (\<open>src/runtime/responseBatchService.ts\<close>): a batch is created as one response per
  request, stored as a record of its jobs, and summarised from the responses of those jobs; the
  execution gate of a batch holds a run back when the batch has reached its limits. The dispatch pool
  and the responses service are interfaces of this module, and the schema library is a parameter.
\<close>

section \<open>Records\<close>

record batchLimits =
  bl_maxConcurrentRuns :: "int option"
  bl_maxBrowserInteractionsPerMinute :: "int option"

record batchJob =
  bj_index :: nat
  bj_responseId :: string
  bj_model :: string
  bj_agent :: "string option"
  bj_service :: "string option"
  bj_runtimeProfile :: "string option"
  bj_dispatch :: "jobAssignment option"
  bj_createdAt :: string

record batchRecord =
  br_id :: string
  br_createdAt :: string
  br_updatedAt :: string
  br_metadata :: jobj
  br_limits :: batchLimits
  br_dispatch :: "dispatchRecord option"
  br_jobs :: "batchJob list"

record batchCreateRequest =
  bq_id :: "string option"
  bq_team :: "string option"
  bq_dispatch :: "dispatchRequest option"
  bq_dispatchResolution :: "dispatchResolution option"
  bq_requests :: "executionRequest list"
  bq_metadata :: "jobj option"
  bq_limits :: "batchLimits option"

datatype jobStatus = Reported responseStatus | Missing

datatype jobFailure = ResponseReadFailed string | JobFailed failureSummary

record batchJobStatus =
  bt_job :: batchJob
  bt_status :: jobStatus
  bt_completedAt :: "string option"
  bt_failure :: "jobFailure option"
  bt_diagnostics :: "diagnosticsSummary option"
  bt_runtimeState :: "runtimeState option"

datatype batchStatusText = BatchQueued | BatchRunning | BatchCompleted | BatchFailed | BatchCancelled | BatchMixedTerminal

record batchCounts =
  bc_total :: nat
  bc_in_progress :: nat
  bc_completed :: nat
  bc_failed :: nat
  bc_cancelled :: nat
  bc_missing :: nat

record batchStatus =
  bs_id :: string
  bs_status :: batchStatusText
  bs_createdAt :: string
  bs_updatedAt :: string
  bs_metadata :: jobj
  bs_limits :: batchLimits
  bs_dispatch :: "dispatchRecord option"
  bs_counts :: batchCounts
  bs_jobs :: "batchJobStatus list"

section \<open>The schema of a batch\<close>

definition isPositive :: "int option \<Rightarrow> bool" where
  "isPositive v = (case v of None \<Rightarrow> True | Some n \<Rightarrow> n > 0)"

text \<open>\<open>z.string().trim().min(1).optional()\<close>; \<open>invalid\<close> is the error of the schema.\<close>

definition trimmedText :: "js_error \<Rightarrow> string option \<Rightarrow> string option result" where
  "trimmedText invalid v = (case v of
     None \<Rightarrow> Inr None
   | Some s \<Rightarrow> if trim s = [] then Inl invalid else Inr (Some (trim s)))"

definition parseAssignment :: "js_error \<Rightarrow> jobAssignment \<Rightarrow> jobAssignment result" where
  "parseAssignment invalid a =
     (if trim (ja_team a) = [] \<or> trim (ja_memberAgent a) = [] then Inl invalid
      else Inr (a\<lparr>ja_team := trim (ja_team a), ja_memberAgent := trim (ja_memberAgent a)\<rparr>))"

definition parseResolution ::
  "js_error \<Rightarrow> (executionRequest \<Rightarrow> executionRequest result) \<Rightarrow> dispatchResolution \<Rightarrow> dispatchResolution result" where
  "parseResolution invalid parse r =
     (case traverse parse (ds_requests r) of Inl e \<Rightarrow> Inl e | Inr requests \<Rightarrow>
      if trim (dc_team (ds_dispatch r)) = [] then Inl invalid
      else map_sum id (\<lambda>assignments. \<lparr>ds_requests = requests,
          ds_dispatch = (ds_dispatch r)\<lparr>dc_team := trim (dc_team (ds_dispatch r))\<rparr>, ds_assignments = assignments\<rparr>)
        (traverse (parseAssignment invalid) (ds_assignments r)))"

text \<open>An optional field: absent, or parsed.\<close>

definition optionalField :: "('a \<Rightarrow> 'b result) \<Rightarrow> 'a option \<Rightarrow> 'b option result" where
  "optionalField f v = (case v of None \<Rightarrow> Inr None | Some x \<Rightarrow> map_sum id Some (f x))"

definition ResponseBatchCreateRequestSchema ::
  "js_error \<Rightarrow> (executionRequest \<Rightarrow> executionRequest result) \<Rightarrow> batchCreateRequest \<Rightarrow> batchCreateRequest result" where
  "ResponseBatchCreateRequestSchema invalid parse q =
     (case trimmedText invalid (bq_id q) of Inl e \<Rightarrow> Inl e | Inr i \<Rightarrow>
      case trimmedText invalid (bq_team q) of Inl e \<Rightarrow> Inl e | Inr team \<Rightarrow>
      case optionalField (parseDispatchRequest invalid) (bq_dispatch q) of Inl e \<Rightarrow> Inl e | Inr dispatch \<Rightarrow>
      case optionalField (parseResolution invalid parse) (bq_dispatchResolution q) of Inl e \<Rightarrow> Inl e | Inr resolution \<Rightarrow>
      case traverse parse (bq_requests q) of Inl e \<Rightarrow> Inl e | Inr requests \<Rightarrow>
      if requests = [] then Inl invalid
      else if \<not> (case bq_limits q of None \<Rightarrow> True
        | Some l \<Rightarrow> isPositive (bl_maxConcurrentRuns l) \<and> isPositive (bl_maxBrowserInteractionsPerMinute l)) then Inl invalid
      else Inr (q\<lparr>bq_id := i, bq_team := team, bq_dispatch := dispatch, bq_dispatchResolution := resolution,
        bq_requests := requests\<rparr>))"

section \<open>The store of batches\<close>

text \<open>
  The directory \<open>runtime/response-batches\<close> with its subdirectories and their \<open>record.json\<close>; an identifier
  is the name of its subdirectory.
\<close>

record batchFs =
  bf_dir :: bool
  bf_dirs :: "string list"
  bf_record :: "string \<Rightarrow> batchRecord content option"

definition readResponseBatchRecord :: "string \<Rightarrow> (batchFs, batchRecord option) io" where
  "readResponseBatchRecord i = (\<lambda>fs. (case bf_record fs i of
     None \<Rightarrow> Inr None
   | Some (Json r) \<Rightarrow> Inr (Some r)
   | Some BadJson \<Rightarrow> Inl syntaxError
   | Some BadShape \<Rightarrow> Inl shapeError, fs))"

text \<open>The record is written to a temporary file, which then replaces \<open>record.json\<close>.\<close>

definition writeResponseBatchRecord :: "batchRecord \<Rightarrow> (batchFs, batchRecord) io" where
  "writeResponseBatchRecord r = (\<lambda>fs. (Inr r,
     fs\<lparr>bf_dir := True, bf_dirs := (if br_id r \<in> set (bf_dirs fs) then bf_dirs fs else bf_dirs fs @ [br_id r]),
       bf_record := (bf_record fs)(br_id r \<mapsto> Json r)\<rparr>))"

definition listResponseBatchRecords ::
  "(string \<Rightarrow> string \<Rightarrow> bool) \<Rightarrow> js_num option \<Rightarrow> (batchFs, batchRecord list) io" where
  "listResponseBatchRecords le limit = (\<lambda>fs.
     (if \<not> bf_dir fs then Inr []
      else map_sum id (\<lambda>found. sliceLimit limit (sortBy (newestFirst le br_createdAt) (somes found)))
        (traverse (\<lambda>i. fst (readResponseBatchRecord i fs)) (bf_dirs fs)), fs))"

record 'w batchStore =
  bo_readBatch :: "string \<Rightarrow> ('w, batchRecord option) io"
  bo_writeBatch :: "batchRecord \<Rightarrow> ('w, batchRecord) io"

definition createResponseBatchStore :: "batchFs batchStore" where
  "createResponseBatchStore = \<lparr>bo_readBatch = readResponseBatchRecord, bo_writeBatch = writeResponseBatchRecord\<rparr>"

section \<open>The status of a batch\<close>

definition resolveBatchStatus :: "batchCounts \<Rightarrow> batchStatusText" where
  "resolveBatchStatus c =
     (if bc_in_progress c > 0 then BatchRunning
      else if bc_missing c > 0 then BatchFailed
      else if bc_failed c > 0 \<and> bc_completed c + bc_cancelled c + bc_failed c = bc_total c then BatchFailed
      else if bc_cancelled c > 0 \<and> bc_completed c + bc_cancelled c = bc_total c then BatchCancelled
      else if bc_completed c = bc_total c then BatchCompleted
      else if bc_failed c > 0 \<or> bc_cancelled c > 0 then BatchMixedTerminal
      else BatchQueued)"

type_synonym 'w responseReader = "string \<Rightarrow> ('w, executionResponse option) io"

definition readBatchJobResponse ::
  "'w responseReader \<Rightarrow> string \<Rightarrow> ('w, executionResponse option \<times> jobFailure option) io" where
  "readBatchJobResponse readResp responseId =
     ioCatch (ioBind (readResp responseId) (\<lambda>r. ioReturn (r, None)))
       (\<lambda>e. ioReturn (None, Some (ResponseReadFailed (error_message e))))"

definition jobStatusOf :: "batchJob \<Rightarrow> executionResponse option \<times> jobFailure option \<Rightarrow> batchJobStatus" where
  "jobStatusOf job x = (case x of (response, readFailure) \<Rightarrow>
     (let summary = map_option er_executionSummary response; diagnostics = map_option es_runtimeDiagnosticsSummary summary
      in \<lparr>bt_job = job, bt_status = (case response of None \<Rightarrow> Missing | Some r \<Rightarrow> Reported (er_status r)),
          bt_completedAt = Option.bind summary es_completedAt,
          bt_failure = orElseOpt readFailure (map_option JobFailed (Option.bind summary es_failureSummary)),
          bt_diagnostics = diagnostics, bt_runtimeState = map_option ds_runtimeState diagnostics\<rparr>))"

fun readJobs :: "'w responseReader \<Rightarrow> batchJob list \<Rightarrow> ('w, batchJobStatus list) io" where
  "readJobs readResp [] = ioReturn []"
| "readJobs readResp (job # jobs) = ioBind (readBatchJobResponse readResp (bj_responseId job)) (\<lambda>x.
     ioBind (readJobs readResp jobs) (\<lambda>rest. ioReturn (jobStatusOf job x # rest)))"

definition countsOf :: "batchJobStatus list \<Rightarrow> batchCounts" where
  "countsOf jobs =
     (let n = (\<lambda>st. length (filter (\<lambda>j. bt_status j = st) jobs))
      in \<lparr>bc_total = length jobs, bc_in_progress = n (Reported InProgress), bc_completed = n (Reported Completed),
          bc_failed = n (Reported ResponseFailed), bc_cancelled = n (Reported ResponseCancelled), bc_missing = n Missing\<rparr>)"

definition summarizeBatchStatus :: "'w responseReader \<Rightarrow> batchRecord \<Rightarrow> ('w, batchStatus) io" where
  "summarizeBatchStatus readResp r =
     ioBind (readJobs readResp (br_jobs r)) (\<lambda>jobs.
     ioReturn \<lparr>bs_id = br_id r, bs_status = resolveBatchStatus (countsOf jobs), bs_createdAt = br_createdAt r,
       bs_updatedAt = br_updatedAt r, bs_metadata = br_metadata r, bs_limits = br_limits r, bs_dispatch = br_dispatch r,
       bs_counts = countsOf jobs, bs_jobs = jobs\<rparr>)"

section \<open>Creating a batch\<close>

definition limitsJson :: "batchLimits \<Rightarrow> json" where
  "limitsJson l =
     (let n = (\<lambda>v. case v of None \<Rightarrow> JNull | Some k \<Rightarrow> jsInt k)
      in JObj [(''maxConcurrentRuns'', n (bl_maxConcurrentRuns l)),
          (''maxBrowserInteractionsPerMinute'', n (bl_maxBrowserInteractionsPerMinute l))])"

definition batchDispatchJson :: "dispatchRecord \<Rightarrow> jobAssignment \<Rightarrow> json" where
  "batchDispatchJson dispatch a = JObj [(''team'', JStr (dc_team dispatch)), (''mode'', JStr ''next_available''),
     (''projectSync'', JStr ''none''), (''memberAgent'', JStr (ja_memberAgent a)), (''memberIndex'', jsInt (int (ja_memberIndex a)))]"

definition withBatchMetadata ::
  "executionRequest \<Rightarrow> string \<Rightarrow> nat \<Rightarrow> batchLimits \<Rightarrow> dispatchRecord option \<Rightarrow> jobAssignment option \<Rightarrow> executionRequest" where
  "withBatchMetadata request batchId index limits dispatch assignment =
     objSet ''metadata'' (JObj
       ((case (dispatch, assignment) of (Some d, Some a) \<Rightarrow> objSet ''batchDispatch'' (batchDispatchJson d a) | _ \<Rightarrow> id)
         (objSet ''batchLimits'' (limitsJson limits)
           (objSet ''batchIndex'' (jsInt (int index))
             (objSet ''batchId'' (JStr batchId) (orElse (asRecord (jprop request ''metadata'')) []))))))
       request"

definition assertDispatchResolutionMatches :: "dispatchRequest \<Rightarrow> dispatchResolution \<Rightarrow> unit result" where
  "assertDispatchResolutionMatches dispatch resolution =
     (if dc_team (ds_dispatch resolution) \<noteq> dq_team dispatch
      then Inl (PlainError (''Response batch dispatch resolution team \"'' @ dc_team (ds_dispatch resolution)
        @ ''\" does not match requested team \"'' @ dq_team dispatch @ ''\".''))
      else if length (ds_requests resolution) \<noteq> length (ds_assignments resolution)
      then Inl (PlainError ''Response batch dispatch resolution must provide one assignment per expanded request.'')
      else Inr ())"

type_synonym 'w dispatchResolver = "dispatchRequest \<Rightarrow> executionRequest list \<Rightarrow> ('w, dispatchResolution) io"

definition resolveDispatchResolution ::
  "dispatchRequest option \<Rightarrow> dispatchResolution option \<Rightarrow> executionRequest list \<Rightarrow> 'w dispatchResolver option \<Rightarrow>
   ('w, dispatchResolution option) io" where
  "resolveDispatchResolution dispatch payloadResolution requests resolver = (case dispatch of
     None \<Rightarrow> ioReturn None
   | Some d \<Rightarrow> (case payloadResolution of
       Some r \<Rightarrow> ioBind (ioLift (assertDispatchResolutionMatches d r)) (\<lambda>_. ioReturn (Some r))
     | None \<Rightarrow> (case resolver of
         None \<Rightarrow> ioThrow (PlainError (''Response batch dispatch team \"'' @ dq_team d
           @ ''\" requires a dispatch-pool resolver in this runtime surface.''))
       | Some f \<Rightarrow> ioBind (f d requests) (\<lambda>r.
           ioBind (ioLift (assertDispatchResolutionMatches d r)) (\<lambda>_. ioReturn (Some r))))))"

record 'w batchDeps =
  bd_createResponse :: "executionRequest \<Rightarrow> ('w, executionResponse) io"
  bd_readResponse :: "'w responseReader"
  bd_resolveDispatchPool :: "'w dispatchResolver option"
  bd_now :: "'w \<Rightarrow> string \<times> 'w"
  bd_generateBatchId :: "'w \<Rightarrow> string \<times> 'w"
  bd_store :: "'w batchStore"
  bd_refreshArchiveIndex :: "string \<Rightarrow> ('w, unit) io"
  bd_parseRequest :: "executionRequest \<Rightarrow> executionRequest result"
  bd_invalid :: js_error

definition jobOf :: "nat \<Rightarrow> executionResponse \<Rightarrow> executionRequest \<Rightarrow> jobAssignment option \<Rightarrow> string \<Rightarrow> batchJob" where
  "jobOf index response request assignment createdAt =
     (let hint = (\<lambda>k. asString (optProp (requestAuracall request) k))
      in \<lparr>bj_index = index, bj_responseId = er_id response, bj_model = requestModel request, bj_agent = hint ''agent'',
          bj_service = hint ''service'', bj_runtimeProfile = hint ''runtimeProfile'', bj_dispatch = assignment, bj_createdAt = createdAt\<rparr>)"

fun createJobs ::
  "'w batchDeps \<Rightarrow> string \<Rightarrow> batchLimits \<Rightarrow> dispatchResolution option \<Rightarrow> string \<Rightarrow> nat \<Rightarrow> executionRequest list \<Rightarrow>
   ('w, batchJob list) io" where
  "createJobs d batchId limits resolution createdAt index [] = ioReturn []"
| "createJobs d batchId limits resolution createdAt index (request # requests) =
     (let assignment = Option.bind resolution (\<lambda>r. if index < length (ds_assignments r) then Some (ds_assignments r ! index) else None)
      in ioBind (bd_createResponse d (withBatchMetadata request batchId index limits (map_option ds_dispatch resolution) assignment)) (\<lambda>response.
         ioBind (createJobs d batchId limits resolution createdAt (index + 1) requests) (\<lambda>jobs.
         ioReturn (jobOf index response request assignment createdAt # jobs))))"

definition createBatch :: "'w batchDeps \<Rightarrow> batchCreateRequest \<Rightarrow> ('w, batchStatus) io" where
  "createBatch d input =
     ioBind (ioLift (ResponseBatchCreateRequestSchema (bd_invalid d) (bd_parseRequest d) input)) (\<lambda>payload.
     ioBind (case bq_id payload of Some i \<Rightarrow> ioReturn i | None \<Rightarrow> (\<lambda>w. map_prod Inr id (bd_generateBatchId d w))) (\<lambda>i.
     ioBind (\<lambda>w. map_prod Inr id (bd_now d w)) (\<lambda>createdAt.
     ioBind (ioLift (normalizeResponseBatchDispatchRequest (bd_invalid d) (bq_dispatch payload) (bq_team payload))) (\<lambda>dispatch.
     ioBind (resolveDispatchResolution dispatch (bq_dispatchResolution payload) (bq_requests payload) (bd_resolveDispatchPool d)) (\<lambda>resolution.
     let limits = orElse (bq_limits payload) \<lparr>bl_maxConcurrentRuns = None, bl_maxBrowserInteractionsPerMinute = None\<rparr>
     in ioBind (createJobs d i limits resolution createdAt 0 (case resolution of None \<Rightarrow> bq_requests payload | Some r \<Rightarrow> ds_requests r)) (\<lambda>jobs.
     let r = \<lparr>br_id = i, br_createdAt = createdAt, br_updatedAt = createdAt, br_metadata = orElse (bq_metadata payload) [],
              br_limits = limits, br_dispatch = map_option ds_dispatch resolution, br_jobs = jobs\<rparr>
     in ioBind (bo_writeBatch (bd_store d) r) (\<lambda>_.
        ioBind (bd_refreshArchiveIndex d i) (\<lambda>_.
        summarizeBatchStatus (bd_readResponse d) r))))))))"

definition readBatchStatus :: "'w batchDeps \<Rightarrow> string \<Rightarrow> ('w, batchStatus option) io" where
  "readBatchStatus d i = ioBind (bo_readBatch (bd_store d) i) (\<lambda>r. case r of
     None \<Rightarrow> ioReturn None
   | Some rec \<Rightarrow> ioBind (summarizeBatchStatus (bd_readResponse d) rec) (\<lambda>st. ioReturn (Some st)))"

section \<open>The gate of a batch\<close>

definition readResponseBatchRunMetadata :: "storedRecord \<Rightarrow> (string \<times> batchLimits) option" where
  "readResponseBatchRunMetadata rec =
     Option.bind (asRecord (jprop (run_initialInputs (bdl_run (rec_bundle rec))) ''metadata'')) (\<lambda>metadata.
     map_option (\<lambda>batchId.
       (let raw = asRecord (jprop metadata ''batchLimits'')
        in (batchId, \<lparr>bl_maxConcurrentRuns = readNullablePositiveInteger (optProp raw ''maxConcurrentRuns''),
             bl_maxBrowserInteractionsPerMinute = readNullablePositiveInteger (optProp raw ''maxBrowserInteractionsPerMinute'')\<rparr>)))
       (truthyText (asString (jprop metadata ''batchId''))))"

definition inBatch :: "string \<Rightarrow> storedRecord \<Rightarrow> bool" where
  "inBatch batchId rec = (map_option fst (readResponseBatchRunMetadata rec) = Some batchId)"

definition countActiveBatchRuns :: "string \<Rightarrow> string \<Rightarrow> storedRecord list \<Rightarrow> nat" where
  "countActiveBatchRuns batchId excludingRunId records =
     length (filter (\<lambda>r. rec_runId r \<noteq> excludingRunId \<and> inBatch batchId r \<and> \<not> isTerminalRun r \<and> recordHasActiveLease r) records)"

text \<open>The count and the keys counted so far.\<close>

definition countBatchStart :: "int \<Rightarrow> storedRecord \<Rightarrow> nat \<times> string list \<Rightarrow> executionRunEvent \<Rightarrow> nat \<times> string list" where
  "countBatchStart cutoff rec acc ev = (case acc of (n, keys) \<Rightarrow>
     if ev_type ev = EvStepStarted
        \<and> (case dateParse (ev_createdAt ev) of None \<Rightarrow> False | Some ms \<Rightarrow> ms \<ge> cutoff) \<and> chatKey rec ev \<notin> set keys
     then (n + 1, chatKey rec ev # keys) else acc)"

definition countRecentlyStartedBatchRuns :: "string \<Rightarrow> int \<Rightarrow> int \<Rightarrow> storedRecord list \<Rightarrow> nat" where
  "countRecentlyStartedBatchRuns batchId nowMs windowMs records =
     fst (foldl (\<lambda>acc rec. if inBatch batchId rec then foldl (countBatchStart (nowMs - windowMs) rec) acc (bdl_events (rec_bundle rec)) else acc)
       (0, []) records)"

definition createResponseBatchExecutionGate :: "'w recordStore \<Rightarrow> ('w \<Rightarrow> int \<times> 'w) \<Rightarrow> 'w executionGate" where
  "createResponseBatchExecutionGate control now rec = (case readResponseBatchRunMetadata rec of
     None \<Rightarrow> ioReturn None
   | Some (batchId, limits) \<Rightarrow>
       ioBind (case bl_maxConcurrentRuns limits of
           None \<Rightarrow> ioReturn None
         | Some m \<Rightarrow> ioBind (controlListRuns control directRuns) (\<lambda>records.
             let n = countActiveBatchRuns batchId (rec_runId rec) records
             in ioReturn (if int n \<ge> m
                then Some (''response batch '' @ batchId @ '' concurrency limit reached: '' @ natToStr n @ ''/'' @ intToStr m)
                else None))) (\<lambda>verdict.
       if verdict \<noteq> None then ioReturn verdict
       else case bl_maxBrowserInteractionsPerMinute limits of
           None \<Rightarrow> ioReturn None
         | Some m \<Rightarrow> ioBind (\<lambda>w. map_prod Inr id (now w)) (\<lambda>nowMs.
             ioBind (controlListRuns control directRuns) (\<lambda>records.
             let n = countRecentlyStartedBatchRuns batchId nowMs 60000 records
             in ioReturn (if int n \<ge> m
                then Some (''response batch '' @ batchId @ '' browser interaction rate limit reached: '' @ natToStr n @ ''/''
                  @ intToStr m @ '' per minute'')
                else None)))))"

text \<open>\<open>composeExecutionGates\<close> of the server: the first gate that refuses decides.\<close>

fun composeExecutionGates :: "'w executionGate list \<Rightarrow> 'w executionGate" where
  "composeExecutionGates [] rec = ioReturn None"
| "composeExecutionGates (g # gs) rec = ioBind (g rec) (\<lambda>why. if why \<noteq> None then ioReturn why else composeExecutionGates gs rec)"

text \<open>
  The batch service of the server over the responses service \<open>d\<close>: the batches are files of their own
  beside the world of the host, and the index refresh cannot fail.
\<close>

definition serverBatchService ::
  "'w responsesDeps \<Rightarrow> agentCatalog \<Rightarrow> ('w \<Rightarrow> string \<times> 'w) \<Rightarrow> (string \<Rightarrow> 'w \<Rightarrow> 'w) \<Rightarrow> js_error \<Rightarrow> (batchFs \<times> 'w \<times> nat) batchDeps" where
  "serverBatchService d catalog newBatchId refresh invalid =
     \<lparr>bd_createResponse = (\<lambda>q. rightIo (createResponse d q)),
      bd_readResponse = (\<lambda>i. rightIo (leftIo (readResponse d i))),
      bd_resolveDispatchPool = Some (\<lambda>dispatch requests.
        rightIo (leftIo (resolveResponseBatchDispatchPool (Some (hd_control (rd_host d))) catalog dispatch requests))),
      bd_now = (\<lambda>(fs, w, n). map_prod id (\<lambda>w. (fs, w, n)) (rd_now d w)),
      bd_generateBatchId = (\<lambda>(fs, w, n). map_prod id (\<lambda>w. (fs, w, n)) (newBatchId w)),
      bd_store = \<lparr>bo_readBatch = (\<lambda>i. leftIo (bo_readBatch createResponseBatchStore i)),
        bo_writeBatch = (\<lambda>r. leftIo (bo_writeBatch createResponseBatchStore r))\<rparr>,
      bd_refreshArchiveIndex = (\<lambda>i. rightIo (leftIo (\<lambda>w. (Inr (), refresh i w)))),
      bd_parseRequest = rd_parseRequest d, bd_invalid = invalid\<rparr>"

section \<open>The status of a batch is that of its worst job\<close>

lemma readBatchJobResponse_eq:
  "readBatchJobResponse f i w = (case f i w of
     (Inr r, w') \<Rightarrow> (Inr (r, None), w') | (Inl e, w') \<Rightarrow> (Inr (None, Some (ResponseReadFailed (error_message e))), w'))"
  by (simp add: readBatchJobResponse_def io_defs split: prod.split sum.split)

definition jobSaw :: "'w responseReader \<Rightarrow> batchJob \<Rightarrow> batchJobStatus \<Rightarrow> bool" where
  "jobSaw f job j \<longleftrightarrow> bt_job j = job \<and> (\<exists>v. bt_status j = (case fst (f (bj_responseId job) v) of
     Inr (Some r) \<Rightarrow> Reported (er_status r) | _ \<Rightarrow> Missing))"

lemma readJobs_total: "\<exists>js w'. readJobs f jobs w = (Inr js, w') \<and> list_all2 (jobSaw f) jobs js"
proof (induction jobs arbitrary: w)
  case Nil
  then show ?case by (simp add: ioReturn_def)
next
  case (Cons job jobs)
  obtain r w1 where r: "f (bj_responseId job) w = (r, w1)" by (cases "f (bj_responseId job) w")
  define x where "x = (case r of Inr r \<Rightarrow> (r, None) | Inl e \<Rightarrow> (None, Some (ResponseReadFailed (error_message e))))"
  obtain js w' where js: "readJobs f jobs w1 = (Inr js, w')" "list_all2 (jobSaw f) jobs js" using Cons.IH by blast
  have "readBatchJobResponse f (bj_responseId job) w = (Inr x, w1)"
    by (simp add: readBatchJobResponse_eq r x_def split: sum.split)
  with js have "readJobs f (job # jobs) w = (Inr (jobStatusOf job x # js), w')" by (simp add: io_defs)
  moreover have "jobSaw f job (jobStatusOf job x)"
    by (auto simp: jobSaw_def jobStatusOf_def Let_def r x_def intro!: exI [of _ w] split: sum.split option.split)
  ultimately show ?case using js(2) by simp
qed

lemma status_partition:
  fixes js :: "batchJobStatus list"
  defines "n \<equiv> \<lambda>st. length (filter (\<lambda>j. bt_status j = st) js)"
  shows "n (Reported InProgress) + n (Reported Completed) + n (Reported ResponseFailed) + n (Reported ResponseCancelled) + n Missing = length js"
proof -
  have "st \<in> {Reported InProgress, Reported Completed, Reported ResponseFailed, Reported ResponseCancelled, Missing}" for st
    by (cases st; cases "case st of Reported r \<Rightarrow> r | Missing \<Rightarrow> InProgress") auto
  then show ?thesis unfolding n_def by (induction js) (simp, fastforce)
qed

lemma filter_pos: "0 < length (filter P xs) \<longleftrightarrow> (\<exists>x\<in>set xs. P x)"
  by (simp add: filter_empty_conv)

definition worstStatus :: "jobStatus set \<Rightarrow> batchStatusText" where
  "worstStatus sts =
     (if Reported InProgress \<in> sts then BatchRunning
      else if Missing \<in> sts \<or> Reported ResponseFailed \<in> sts then BatchFailed
      else if Reported ResponseCancelled \<in> sts then BatchCancelled else BatchCompleted)"

lemma resolve_counts:
  assumes "bc_in_progress c + bc_completed c + bc_failed c + bc_cancelled c + bc_missing c = bc_total c"
  shows "resolveBatchStatus c = (if bc_in_progress c > 0 then BatchRunning
    else if bc_missing c > 0 \<or> bc_failed c > 0 then BatchFailed
    else if bc_cancelled c > 0 then BatchCancelled else BatchCompleted)"
  using assms by (auto simp: resolveBatchStatus_def)

lemma resolveBatchStatus_worst: "resolveBatchStatus (countsOf js) = worstStatus (bt_status ` set js)"
proof -
  have pos: "0 < length (filter (\<lambda>j. bt_status j = st) js) \<longleftrightarrow> st \<in> bt_status ` set js" for st
    by (subst filter_pos) auto
  have "resolveBatchStatus (countsOf js) = (if bc_in_progress (countsOf js) > 0 then BatchRunning
    else if bc_missing (countsOf js) > 0 \<or> bc_failed (countsOf js) > 0 then BatchFailed
    else if bc_cancelled (countsOf js) > 0 then BatchCancelled else BatchCompleted)"
    by (rule resolve_counts) (use status_partition [of js] in \<open>simp add: countsOf_def\<close>)
  then show ?thesis by (simp only: countsOf_def Let_def batchCounts.simps pos worstStatus_def)
qed

text \<open>C28. The status of a batch is that of its worst job: summarising a batch never fails, whatever the
  responses service does; it lists the jobs of the record in order, each with the status its response
  had when it was read, missing when the read failed or found nothing; and the batch is running while
  one job is in progress, else failed if one is missing or failed, else cancelled if one is cancelled,
  else completed. It is therefore never queued and never of mixed terminal status.\<close>

theorem batch_status_is_worst_job:
  "\<exists>st w'. summarizeBatchStatus f r w = (Inr st, w')
     \<and> list_all2 (jobSaw f) (br_jobs r) (bs_jobs st)
     \<and> bs_status st = worstStatus (bt_status ` set (bs_jobs st))
     \<and> bs_status st \<in> {BatchRunning, BatchFailed, BatchCancelled, BatchCompleted}"
proof -
  obtain js w' where js: "readJobs f (br_jobs r) w = (Inr js, w')" "list_all2 (jobSaw f) (br_jobs r) js"
    using readJobs_total [of f "br_jobs r" w] by (elim exE conjE)
  have worst: "worstStatus sts \<in> {BatchRunning, BatchFailed, BatchCancelled, BatchCompleted}" for sts
    by (simp add: worstStatus_def)
  obtain st where st: "summarizeBatchStatus f r w = (Inr st, w')" "bs_jobs st = js" "bs_status st = worstStatus (bt_status ` set js)"
    by (simp add: summarizeBatchStatus_def io_defs js(1) resolveBatchStatus_worst)
  show ?thesis
    by (intro exI conjI, rule st(1)) (simp_all only: st(2,3) js(2) worst)
qed

section \<open>The limits of a batch reach its gate\<close>

lemma objSet_schema:
  assumes "ExecutionRequestSchema q" shows "ExecutionRequestSchema (objSet ''metadata'' (JObj r) q)"
  using assms by (simp add: ExecutionRequestSchema_def fieldsWithin_def set_keys_objSet distinct_objSet isOptional_def isRecord_def)

lemma metadata_get:
  assumes "jprop (withBatchMetadata q b i l dispatch a) ''metadata'' = Some v"
  obtains r where "v = JObj r" "jprop r ''batchId'' = Some (JStr b)" "jprop r ''batchLimits'' = Some (limitsJson l)"
    "jprop r ''batchIndex'' = Some (jsInt (int i))"
    "\<And>k. k \<notin> {''batchId'', ''batchIndex'', ''batchLimits'', ''batchDispatch''} \<Longrightarrow> jprop r k = jprop (orElse (asRecord (jprop q ''metadata'')) []) k"
  using assms by (auto simp: withBatchMetadata_def split: option.splits prod.splits)

lemma readLimits_limitsJson:
  assumes "isPositive (bl_maxConcurrentRuns l)" "isPositive (bl_maxBrowserInteractionsPerMinute l)"
  shows "readNullablePositiveInteger (optProp (asRecord (Some (limitsJson l))) ''maxConcurrentRuns'') = bl_maxConcurrentRuns l"
    "readNullablePositiveInteger (optProp (asRecord (Some (limitsJson l))) ''maxBrowserInteractionsPerMinute'') = bl_maxBrowserInteractionsPerMinute l"
  using assms by (auto simp: limitsJson_def isPositive_def readNullablePositiveInteger_def jsInt_def isIntegral_def split: option.splits)

text \<open>The limits of a batch reach its gate: the run that is created for a request of a batch carries
  the batch's identifier and both limits, and the gate reads back exactly those, whatever the request
  held under these keys, and for as long as the run keeps its inputs.\<close>

lemma batch_limits_reach_the_gate:
  assumes "keepsAccepted parse" and "ExecutionRequestSchema q" and "b \<noteq> []"
    and "isPositive (bl_maxConcurrentRuns l)" and "isPositive (bl_maxBrowserInteractionsPerMinute l)"
    and "createExecutionRequest parse (withBatchMetadata q b i l dispatch a) = Inr q'"
    and "run_initialInputs (bdl_run (rec_bundle rec)) = run_initialInputs (bdl_run (createDirectExecutionBundle url responseId q' t))"
  shows "readResponseBatchRunMetadata rec = Some (b, l)"
proof -
  let ?q = "normalizeAgentModelRequest (withBatchMetadata q b i l dispatch a)"
  have "ExecutionRequestSchema ?q"
    using normalizeAgentModelRequest_schema objSet_schema [OF assms(2)] by (simp add: withBatchMetadata_def)
  with assms(1,6) have "sameRequest ?q q'" by (auto simp: keepsAccepted_def createExecutionRequest_def)
  then have same: "jprop q' ''metadata'' = jprop (withBatchMetadata q b i l dispatch a) ''metadata''"
    by (simp add: sameRequest_def normalizeAgentModelRequest_get)
  obtain v where v: "jprop (withBatchMetadata q b i l dispatch a) ''metadata'' = Some v" by (simp add: withBatchMetadata_def)
  from metadata_get [OF v] obtain r where r: "v = JObj r" "jprop r ''batchId'' = Some (JStr b)" "jprop r ''batchLimits'' = Some (limitsJson l)"
    by blast
  have "jprop (run_initialInputs (bdl_run (rec_bundle rec))) ''metadata'' = Some (JObj r)"
    by (simp add: assms(7) directBundle_fields directInitialInputs_get same v r(1))
  with r assms(3) readLimits_limitsJson [OF assms(4,5)] show ?thesis
    by (simp add: readResponseBatchRunMetadata_def truthyText_def Let_def)
qed

definition demoLimits :: batchLimits where
  "demoLimits = \<lparr>bl_maxConcurrentRuns = Some 1, bl_maxBrowserInteractionsPerMinute = None\<rparr>"

definition demoBatchRecord :: "string \<Rightarrow> storedRecord" where
  "demoBatchRecord i = \<lparr>rec_runId = i, rec_revision = 1, rec_persistedAt = ''t'', rec_bundle = createDirectExecutionBundle (\<lambda>_. None) i
     (normalizeAgentModelRequest (withBatchMetadata demoRequest ''b'' 0 demoLimits None None)) ''t''\<rparr>"

lemma batch_limits_reach_the_gate_example: "readResponseBatchRunMetadata (demoBatchRecord ''r1'') = Some (''b'', demoLimits)"
  by (rule batch_limits_reach_the_gate [OF keepsAccepted_id demoRequest_accepted, of _ _ 0 None None _ _ "\<lambda>_. None" "''r1''" "''t''"])
     (simp_all add: demoLimits_def isPositive_def createExecutionRequest_def demoBatchRecord_def)

section \<open>The record of a batch\<close>

text \<open>One job per request, in order, from an index on.\<close>

definition jobsOf :: "nat \<Rightarrow> executionRequest list \<Rightarrow> batchJob list \<Rightarrow> bool" where
  "jobsOf index qs jobs \<longleftrightarrow> map bj_index jobs = [index..<index + length qs] \<and> map bj_model jobs = map requestModel qs
     \<and> map bj_agent jobs = map (\<lambda>q. asString (optProp (requestAuracall q) ''agent'')) qs"

text \<open>What a created batch leaves in the store, \<open>old\<close> being the records before.\<close>

definition batchStored ::
  "js_error \<Rightarrow> (executionRequest \<Rightarrow> executionRequest result) \<Rightarrow> batchCreateRequest \<Rightarrow> batchFs \<Rightarrow> batchFs \<Rightarrow> batchStatus \<Rightarrow> bool" where
  "batchStored invalid parse q fs fs' st \<longleftrightarrow>
     (\<exists>payload r qs. ResponseBatchCreateRequestSchema invalid parse q = Inr payload
       \<and> bf_record fs' = (bf_record fs)(bs_id st \<mapsto> Json r) \<and> br_id r = bs_id st
       \<and> (case bq_id payload of None \<Rightarrow> True | Some i \<Rightarrow> bs_id st = i)
       \<and> br_jobs r = map bt_job (bs_jobs st) \<and> jobsOf 0 qs (br_jobs r)
       \<and> (bq_dispatch payload = None \<and> bq_team payload = None \<longrightarrow> qs = bq_requests payload))"

lemma triple_withFact: "(F \<Longrightarrow> triple P m Q E) \<Longrightarrow> triple (\<lambda>w. P w \<and> F) m Q E"
  by (auto simp: triple_def)

text \<open>Nothing but the batch service writes batches.\<close>

locale batchHost =
  fixes d :: "(batchFs \<times> 'r) batchDeps"
  assumes create_keeps: "fst (snd (bd_createResponse d q w)) = fst w"
    and read_keeps: "fst (snd (bd_readResponse d i w)) = fst w"
    and resolve_keeps: "bd_resolveDispatchPool d = Some f \<Longrightarrow> fst (snd (f dispatch qs w)) = fst w"
    and now_keeps: "fst (snd (bd_now d w)) = fst w"
    and newId_keeps: "fst (snd (bd_generateBatchId d w)) = fst w"
    and refresh_keeps: "fst (bd_refreshArchiveIndex d i w) = Inr () \<and> fst (snd (bd_refreshArchiveIndex d i w)) = fst w"
    and store: "bo_writeBatch (bd_store d) r = leftIo (writeResponseBatchRecord r)"
begin

abbreviation files :: "batchFs \<Rightarrow> batchFs \<times> 'r \<Rightarrow> bool" where
  "files fs w \<equiv> fst w = fs"

lemma keeps:
  assumes "\<And>w. fst (snd (m w)) = fst w" shows "triple (files fs) m (\<lambda>_. files fs) (files fs)"
proof (rule tripleI)
  fix w res w' assume "fst w = fs" "m w = (res, w')"
  with assms [of w] show "case res of Inr a \<Rightarrow> files fs w' | Inl e \<Rightarrow> files fs w'" by (simp split: sum.split)
qed

lemma keepsPure: "(\<And>w. fst (snd (f w)) = fst w) \<Longrightarrow> triple (files fs) (\<lambda>w. map_prod Inr id (f w)) (\<lambda>_. files fs) (files fs)"
  by (rule keeps) simp

lemma createJobs_triple:
  "triple (files fs) (createJobs d i limits resolution createdAt index qs)
     (\<lambda>jobs w. files fs w \<and> jobsOf index qs jobs) (files fs)"
proof (induction qs arbitrary: index)
  case Nil
  show ?case by (auto intro!: triple_return simp: jobsOf_def)
next
  case (Cons q qs)
  have more: "jobsOf index (q # qs) (jobOf index response q assignment createdAt # jobs)"
    if "jobsOf (index + 1) qs jobs" for response assignment jobs
  proof -
    have "[index..<index + length (q # qs)] = index # [index + 1..<(index + 1) + length qs]"
      by (simp add: upt_conv_Cons del: upt_Suc)
    with that show ?thesis by (simp add: jobsOf_def jobOf_def Let_def)
  qed
  show ?case
    by (auto simp: Let_def intro!: triple_bind [OF keeps] triple_bind [OF Cons.IH] triple_return create_keeps more)
qed

lemma summarize_triple:
  "triple (files fs) (summarizeBatchStatus (bd_readResponse d) r)
     (\<lambda>st w. files fs w \<and> bs_id st = br_id r \<and> map bt_job (bs_jobs st) = br_jobs r) (\<lambda>_. False)"
proof -
  have one: "\<exists>x w'. readBatchJobResponse (bd_readResponse d) i w = (Inr x, w') \<and> fst w' = fst w" for i w
    using read_keeps [of i w] by (cases "bd_readResponse d i w") (simp add: readBatchJobResponse_eq split: sum.split)
  have "\<exists>js w'. readJobs (bd_readResponse d) jobs w = (Inr js, w') \<and> fst w' = fst w \<and> map bt_job js = jobs" for jobs w
  proof (induction jobs arbitrary: w)
    case Nil
    then show ?case by (simp add: ioReturn_def)
  next
    case (Cons job jobs)
    obtain x w1 where x: "readBatchJobResponse (bd_readResponse d) (bj_responseId job) w = (Inr x, w1)" "fst w1 = fst w"
      using one by blast
    obtain js w' where js: "readJobs (bd_readResponse d) jobs w1 = (Inr js, w')" "fst w' = fst w1" "map bt_job js = jobs"
      using Cons.IH by blast
    have "bt_job (jobStatusOf job x) = job" by (simp add: jobStatusOf_def Let_def split: prod.split)
    with x js show ?case
      by (intro exI [of _ "jobStatusOf job x # js"] exI [of _ w']) (simp add: io_defs)
  qed
  note read = this
  show ?thesis
  proof (rule tripleI)
    fix w res w' assume w: "fst w = fs" "summarizeBatchStatus (bd_readResponse d) r w = (res, w')"
    obtain js w1 where "readJobs (bd_readResponse d) (br_jobs r) w = (Inr js, w1)" "fst w1 = fst w" "map bt_job js = br_jobs r"
      using read by blast
    with w show "case res of Inr st \<Rightarrow> files fs w' \<and> bs_id st = br_id r \<and> map bt_job (bs_jobs st) = br_jobs r | Inl e \<Rightarrow> False"
      by (auto simp: summarizeBatchStatus_def io_defs)
  qed
qed

lemma createBatch_triple:
  "triple (files fs) (createBatch d q)
     (\<lambda>st w. batchStored (bd_invalid d) (bd_parseRequest d) q fs (fst w) st) (files fs)"
  unfolding createBatch_def
proof (rule triple_bindLift)
  fix payload assume payload: "ResponseBatchCreateRequestSchema (bd_invalid d) (bd_parseRequest d) q = Inr payload"
  have idKeeps: "triple (files fs) (case bq_id payload of Some i \<Rightarrow> ioReturn i | None \<Rightarrow> (\<lambda>w. map_prod Inr id (bd_generateBatchId d w)))
      (\<lambda>i w. files fs w \<and> (case bq_id payload of None \<Rightarrow> True | Some j \<Rightarrow> i = j)) (files fs)"
    using keepsPure [of "bd_generateBatchId d"] newId_keeps by (cases "bq_id payload") (simp_all add: triple_return)
  let ?dispatch = "normalizeResponseBatchDispatchRequest (bd_invalid d) (bq_dispatch payload) (bq_team payload)"
  have noDispatch: "?dispatch = Inr None" if "bq_dispatch payload = None \<and> bq_team payload = None"
    using that by (simp add: normalizeResponseBatchDispatchRequest_def truthyText_def)
  have resolve: "triple (files fs) (resolveDispatchResolution dispatch (bq_dispatchResolution payload) (bq_requests payload) (bd_resolveDispatchPool d))
      (\<lambda>resolution w. files fs w \<and> (dispatch = None \<longrightarrow> resolution = None)) (files fs)" for dispatch
  proof (cases dispatch)
    case None
    then show ?thesis by (simp add: resolveDispatchResolution_def triple_return)
  next
    case (Some dq)
    have checked: "triple (files fs) (ioBind (ioLift (assertDispatchResolutionMatches dq r)) (\<lambda>_. ioReturn (Some r)))
        (\<lambda>resolution w. files fs w \<and> (dispatch = None \<longrightarrow> resolution = None)) (files fs)" for r
      by (rule triple_bindLift) (simp_all add: Some triple_return)
    show ?thesis
    proof (cases "bq_dispatchResolution payload"; cases "bd_resolveDispatchPool d")
      fix f assume "bq_dispatchResolution payload = None" "bd_resolveDispatchPool d = Some f"
      with Some triple_bind [OF keeps [OF resolve_keeps] checked] show ?thesis
        by (simp add: resolveDispatchResolution_def)
    qed (use checked Some in \<open>simp_all add: resolveDispatchResolution_def triple_throw\<close>)
  qed
  have finish: "triple (files fs) (ioBind (bo_writeBatch (bd_store d) r) (\<lambda>_. ioBind (bd_refreshArchiveIndex d i) (\<lambda>_. summarizeBatchStatus (bd_readResponse d) r)))
      (\<lambda>st w. batchStored (bd_invalid d) (bd_parseRequest d) q fs (fst w) st) (files fs)"
    if "br_id r = i" "case bq_id payload of None \<Rightarrow> True | Some j \<Rightarrow> i = j" "jobsOf 0 qs (br_jobs r)"
      "bq_dispatch payload = None \<and> bq_team payload = None \<longrightarrow> qs = bq_requests payload" for r i qs
  proof (rule tripleI)
    fix w res w'
    assume w: "fst w = fs" and run: "ioBind (bo_writeBatch (bd_store d) r) (\<lambda>_. ioBind (bd_refreshArchiveIndex d i) (\<lambda>_. summarizeBatchStatus (bd_readResponse d) r)) w = (res, w')"
    obtain w1 where w1: "bo_writeBatch (bd_store d) r w = (Inr r, w1)" "bf_record (fst w1) = (bf_record fs)(br_id r \<mapsto> Json r)"
      using w by (cases w) (simp add: store leftIo_def writeResponseBatchRecord_def)
    obtain w2 where w2: "bd_refreshArchiveIndex d i w1 = (Inr (), w2)" "fst w2 = fst w1"
      using refresh_keeps [of i w1] by (metis prod.collapse)
    have "summarizeBatchStatus (bd_readResponse d) r w2 = (res, w')" using run w1(1) w2(1) by (simp add: io_defs)
    from tripleD [OF summarize_triple refl this] have "case res of Inl e \<Rightarrow> False
        | Inr st \<Rightarrow> fst w' = fst w2 \<and> bs_id st = br_id r \<and> map bt_job (bs_jobs st) = br_jobs r" .
    moreover have "batchStored (bd_invalid d) (bd_parseRequest d) q fs (fst w') st"
      if "fst w' = fst w2" "bs_id st = br_id r" "map bt_job (bs_jobs st) = br_jobs r" for st
      unfolding batchStored_def
      by (intro exI [of _ payload] exI [of _ r] exI [of _ qs])
        (use that w1 w2 payload \<open>br_id r = i\<close> \<open>case bq_id payload of None \<Rightarrow> True | Some j \<Rightarrow> i = j\<close> \<open>jobsOf 0 qs (br_jobs r)\<close>
          \<open>bq_dispatch payload = None \<and> bq_team payload = None \<longrightarrow> qs = bq_requests payload\<close> in \<open>simp split: option.splits\<close>)
    ultimately show "case res of Inr st \<Rightarrow> batchStored (bd_invalid d) (bd_parseRequest d) q fs (fst w') st | Inl e \<Rightarrow> files fs w'"
      by (cases res) simp_all
  qed
  let ?qs = "\<lambda>resolution. case resolution of None \<Rightarrow> bq_requests payload | Some r \<Rightarrow> ds_requests r"
  show "triple (files fs)
     (ioBind (case bq_id payload of Some i \<Rightarrow> ioReturn i | None \<Rightarrow> (\<lambda>w. map_prod Inr id (bd_generateBatchId d w))) (\<lambda>i.
      ioBind (\<lambda>w. map_prod Inr id (bd_now d w)) (\<lambda>createdAt.
      ioBind (ioLift ?dispatch) (\<lambda>dispatch.
      ioBind (resolveDispatchResolution dispatch (bq_dispatchResolution payload) (bq_requests payload) (bd_resolveDispatchPool d)) (\<lambda>resolution.
      let limits = orElse (bq_limits payload) \<lparr>bl_maxConcurrentRuns = None, bl_maxBrowserInteractionsPerMinute = None\<rparr>
      in ioBind (createJobs d i limits resolution createdAt 0 (?qs resolution)) (\<lambda>jobs.
      let r = \<lparr>br_id = i, br_createdAt = createdAt, br_updatedAt = createdAt, br_metadata = orElse (bq_metadata payload) [],
               br_limits = limits, br_dispatch = map_option ds_dispatch resolution, br_jobs = jobs\<rparr>
      in ioBind (bo_writeBatch (bd_store d) r) (\<lambda>_. ioBind (bd_refreshArchiveIndex d i) (\<lambda>_.
         summarizeBatchStatus (bd_readResponse d) r))))))))
     (\<lambda>st w. batchStored (bd_invalid d) (bd_parseRequest d) q fs (fst w) st) (files fs)"
    unfolding Let_def
    apply (rule triple_bind [OF idKeeps], rule triple_withFact, rule triple_bind [OF keepsPure [OF now_keeps]])
    apply (rule triple_bindLift, assumption, rule triple_bind [OF resolve], rule triple_withFact)
    apply (rule triple_bind [OF createJobs_triple], rule triple_withFact, rule finish)
    apply (use noDispatch in \<open>auto split: option.splits\<close>)
    done
qed simp

end

lemma rightIo_keeps: "fst (snd (rightIo m w)) = fst w"
  by (cases w) (simp add: rightIo_def split: prod.split)

interpretation serverBatches: batchHost "serverBatchService d catalog newId refresh invalid"
  for d :: "'w responsesDeps" and catalog newId refresh invalid
proof
  let ?d = "serverBatchService d catalog newId refresh invalid"
  fix q i w f r dispatch qs
  show "fst (snd (bd_createResponse ?d q w)) = fst w" "fst (snd (bd_readResponse ?d i w)) = fst w"
    by (simp_all add: serverBatchService_def rightIo_keeps)
  show "bd_resolveDispatchPool ?d = Some f \<Longrightarrow> fst (snd (f dispatch qs w)) = fst w"
    by (auto simp: serverBatchService_def rightIo_keeps)
  show "fst (snd (bd_now ?d w)) = fst w" "fst (snd (bd_generateBatchId ?d w)) = fst w"
    by (simp_all add: serverBatchService_def split: prod.split)
  show "fst (bd_refreshArchiveIndex ?d i w) = Inr () \<and> fst (snd (bd_refreshArchiveIndex ?d i w)) = fst w"
    by (simp add: serverBatchService_def rightIo_def leftIo_def split: prod.split)
  show "bo_writeBatch (bd_store ?d) r = leftIo (writeResponseBatchRecord r)"
    by (simp add: serverBatchService_def createResponseBatchStore_def)
qed


definition noCatalog :: agentCatalog where
  "noCatalog = \<lparr>ec_agents = [], ec_teams = []\<rparr>"

definition demoServerBatches :: "(batchFs \<times> (runFs \<times> runnerFs) \<times> nat) batchDeps" where
  "demoServerBatches = serverBatchService demoResponses noCatalog (\<lambda>w. (''b'', w)) (\<lambda>_ w. w) shapeError"

definition demoBatch :: batchCreateRequest where
  "demoBatch = \<lparr>bq_id = None, bq_team = None, bq_dispatch = None, bq_dispatchResolution = None, bq_requests = [demoRequest],
     bq_metadata = None, bq_limits = Some demoLimits\<rparr>"

definition noBatches :: batchFs where
  "noBatches = \<lparr>bf_dir = False, bf_dirs = [], bf_record = (\<lambda>_. None)\<rparr>"


section \<open>The concurrency of a batch\<close>

definition activeInBatch :: "string \<Rightarrow> storedRecord \<Rightarrow> bool" where
  "activeInBatch b r \<longleftrightarrow> inBatch b r \<and> \<not> isTerminalRun r \<and> recordHasActiveLease r"

text \<open>
  The direct runs as they change while runs of the batch \<open>b\<close> are admitted one at a time: an admitted
  run may take its lease before the gate is asked again, any run may change as long as it gains none,
  and runs are added without a lease.
\<close>

inductive batchRuns :: "string \<Rightarrow> int \<Rightarrow> storedRecord list \<Rightarrow> bool" for b m where
  initial: "distinct (map rec_runId rs) \<Longrightarrow> \<forall>r\<in>set rs. \<not> activeInBatch b r \<Longrightarrow> batchRuns b m rs"
| admit: "batchRuns b m rs \<Longrightarrow> readResponseBatchRunMetadata rec = Some (b, l) \<Longrightarrow> bl_maxConcurrentRuns l = Some m \<Longrightarrow>
    fst (controlListRuns S directRuns fs) = Inr rs \<Longrightarrow> fst (createResponseBatchExecutionGate S now rec (fs :: runFs)) = Inr None \<Longrightarrow>
    rec_runId rec' = rec_runId rec \<Longrightarrow> batchRuns b m (map (\<lambda>r. if rec_runId r = rec_runId rec then rec' else r) rs)"
| change: "batchRuns b m rs \<Longrightarrow> list_all2 (\<lambda>r r'. rec_runId r' = rec_runId r \<and> (activeInBatch b r' \<longrightarrow> activeInBatch b r)) rs rs' \<Longrightarrow>
    batchRuns b m rs'"
| create: "batchRuns b m rs \<Longrightarrow> rec_runId r \<notin> rec_runId ` set rs \<Longrightarrow> \<not> activeInBatch b r \<Longrightarrow> mset rs' = mset (r # rs) \<Longrightarrow>
    batchRuns b m rs'"

lemma gate_concurrency:
  assumes "readResponseBatchRunMetadata rec = Some (b, l)" "bl_maxConcurrentRuns l = Some m"
    and "fst (controlListRuns S directRuns w) = Inr rs" "fst (createResponseBatchExecutionGate S now rec w) = Inr None"
  shows "int (countActiveBatchRuns b (rec_runId rec) rs) < m"
proof -
  obtain w' where "controlListRuns S directRuns w = (Inr rs, w')" using assms(3) by (metis prod.collapse)
  with assms show ?thesis by (simp add: createResponseBatchExecutionGate_def io_defs Let_def split: if_splits)
qed

lemma filter_le_others:
  assumes "distinct (map f xs)"
  shows "length (filter P (map (\<lambda>x. if f x = k then y else x) xs)) \<le> length (filter (\<lambda>x. f x \<noteq> k \<and> P x) xs) + 1"
  using assms
proof (induction xs)
  case (Cons x xs)
  have same: "filter P (map (\<lambda>x. if f x = k then y else x) xs) = filter (\<lambda>x. f x \<noteq> k \<and> P x) xs" if "k \<notin> f ` set xs"
    using that by (induction xs) auto
  show ?case
  proof (cases "f x = k")
    case True
    with Cons.prems have "k \<notin> f ` set xs" by auto
    with True show ?thesis by (simp add: same)
  qed (use Cons in simp)
qed simp

lemma filter_le_change:
  "list_all2 (\<lambda>x y. Q x y \<and> (P y \<longrightarrow> P x)) xs ys \<Longrightarrow> length (filter P ys) \<le> length (filter P xs)"
  by (induction rule: list_all2_induct) auto

lemma batchRuns_inv:
  assumes "batchRuns b m rs" "0 < m"
  shows "distinct (map rec_runId rs) \<and> int (length (filter (activeInBatch b) rs)) \<le> m"
  using assms(1)
proof (induction rule: batchRuns.induct)
  case (initial rs)
  then have "filter (activeInBatch b) rs = []" by (simp add: filter_empty_conv)
  with initial(1) assms(2) show ?case by simp
next
  case (admit rs rec l S fs now rec')
  let ?f = "\<lambda>r. if rec_runId r = rec_runId rec then rec' else r"
  have "map rec_runId (map ?f rs) = map rec_runId rs" using admit.hyps(6) by (simp add: comp_def)
  moreover have "int (countActiveBatchRuns b (rec_runId rec) rs) < m"
    by (rule gate_concurrency [OF admit.hyps(2-5)])
  then have "int (length (filter (\<lambda>r. rec_runId r \<noteq> rec_runId rec \<and> activeInBatch b r) rs)) < m"
    by (simp add: countActiveBatchRuns_def activeInBatch_def)
  moreover have "length (filter (activeInBatch b) (map ?f rs))
      \<le> length (filter (\<lambda>r. rec_runId r \<noteq> rec_runId rec \<and> activeInBatch b r) rs) + 1"
    using admit.IH by (intro filter_le_others) simp
  ultimately show ?case using admit.IH by (simp only: simp_thms)
next
  case (change rs rs')
  have "map rec_runId rs' = map rec_runId rs" using change.hyps(2) by (induction rule: list_all2_induct) auto
  moreover have "length (filter (activeInBatch b) rs') \<le> length (filter (activeInBatch b) rs)"
    by (rule filter_le_change [OF change.hyps(2)])
  ultimately show ?case using change.IH by simp
next
  case (create rs r rs')
  have "distinct (map rec_runId (r # rs))" using create by simp
  then have "distinct (map rec_runId rs')"
    using create.hyps(4) by (metis mset_eq_imp_distinct_iff mset_map)
  moreover have "mset (filter (activeInBatch b) rs') = mset (filter (activeInBatch b) (r # rs))"
    using create.hyps(4) by (simp only: mset_filter)
  then have "length (filter (activeInBatch b) rs') = length (filter (activeInBatch b) rs)"
    using create.hyps(3) by (metis filter.simps(2) size_mset)
  ultimately show ?case using create.IH by simp
qed


text \<open>
  The gate looks at leases only: while no run of the batch holds one, it admits every run of the batch,
  so a drain that decides about several browser runs before it starts the first admits them all.
\<close>

lemma unleased_batch_runs_all_pass:
  assumes "readResponseBatchRunMetadata rec = Some (b, l)" "bl_maxConcurrentRuns l = Some m" "0 < m"
    and "bl_maxBrowserInteractionsPerMinute l = None" and "controlListRuns S directRuns w = (Inr rs, w)"
    and "\<forall>r\<in>set rs. inBatch b r \<longrightarrow> \<not> recordHasActiveLease r"
  shows "createResponseBatchExecutionGate S now rec w = (Inr None, w)"
proof -
  have "countActiveBatchRuns b (rec_runId rec) rs = 0"
    using assms(6) by (auto simp: countActiveBatchRuns_def filter_empty_conv)
  with assms show ?thesis by (simp add: createResponseBatchExecutionGate_def io_defs Let_def)
qed

definition demoBatchStore :: "runFs recordStore" where
  "demoBatchStore = \<lparr>st_ensureStorage = ensureExecutionRunStorage, st_readRecord = (\<lambda>i fs. (Inr None, fs)),
     st_writeRecord = writeExecutionRunStoredRecord, st_listBundles = (\<lambda>_ fs. (Inr [], fs)),
     st_listRecords = Some (\<lambda>_ fs. (Inr [demoBatchRecord ''r1'', demoBatchRecord ''r2''], fs))\<rparr>"

definition demoLeased :: "string \<Rightarrow> storedRecord" where
  "demoLeased i = (demoBatchRecord i)\<lparr>rec_bundle := (rec_bundle (demoBatchRecord i))\<lparr>bdl_leases :=
     [demoLease ''l'' i LeaseActive ''t9'']\<rparr>\<rparr>"

lemma demoBatch_metadata: "readResponseBatchRunMetadata (demoBatchRecord i) = Some (''b'', demoLimits)"
  by code_simp

lemma demoBatch_unleased: "rec_runId (demoBatchRecord i) = i" "\<not> recordHasActiveLease (demoBatchRecord i)"
  by (simp_all add: demoBatchRecord_def recordHasActiveLease_def directBundle_fields)


end
