(* ===== verification/Config_Selection.thy ===== *)
theory Config_Selection
  imports Tenant_Limits
begin

text \<open>
  The selection of runtime profiles, agents and teams in a configuration (\<open>src/config/model.ts\<close>): which
  runtime profile a call is executed under, given an explicit name, an agent or nothing, what an agent
  and the members of a team resolve to, and the browser profile and service that go with it. A
  configuration is a JavaScript object; its keys are distinct and stand in the order of
  \<open>Object.keys\<close>.
\<close>

section \<open>Reading a configuration\<close>

definition jsTruthy :: "json option \<Rightarrow> bool" where
  "jsTruthy v = (case v of
     None \<Rightarrow> False
   | Some JNull \<Rightarrow> False
   | Some (JBool b) \<Rightarrow> b
   | Some (JNum n) \<Rightarrow> n \<noteq> Fin 0 \<and> n \<noteq> NaN
   | Some (JStr s) \<Rightarrow> s \<noteq> []
   | Some _ \<Rightarrow> True)"

text \<open>\<open>typeof x === "string" && x.trim().length > 0 ? x.trim() : null\<close>\<close>

definition trimmedName :: "string option \<Rightarrow> string option" where
  "trimmedName s = truthyText (map_option trim s)"

definition asNonEmptyString :: "json option \<Rightarrow> string option" where
  "asNonEmptyString v = trimmedName (asString v)"

definition asServiceId :: "json option \<Rightarrow> serviceId option" where
  "asServiceId v = find (\<lambda>s. v = Some (JStr (serviceText s))) [Chatgpt, Gemini, Grok]"

definition getTargetBrowserProfiles :: "jobj \<Rightarrow> jobj" where
  "getTargetBrowserProfiles config = orElse (asRecord (jprop config ''browserProfiles'')) []"

definition getBrowserProfiles :: "jobj \<Rightarrow> jobj" where
  "getBrowserProfiles config =
     (if getTargetBrowserProfiles config \<noteq> [] then getTargetBrowserProfiles config
      else orElse (asRecord (jprop config ''browserFamilies'')) [])"

definition getBrowserProfile :: "jobj \<Rightarrow> string option \<Rightarrow> jobj option" where
  "getBrowserProfile config browserProfileName =
     Option.bind (trimmedName browserProfileName) (\<lambda>name. asRecord (jprop (getBrowserProfiles config) name))"

definition getAgents :: "jobj \<Rightarrow> jobj" where
  "getAgents config = orElse (asRecord (jprop config ''agents'')) []"

definition getTeams :: "jobj \<Rightarrow> jobj" where
  "getTeams config = orElse (asRecord (jprop config ''teams'')) []"

definition getAgent :: "jobj \<Rightarrow> string option \<Rightarrow> jobj option" where
  "getAgent config agentId = Option.bind (trimmedName agentId) (\<lambda>name. asRecord (jprop (getAgents config) name))"

definition getTeam :: "jobj \<Rightarrow> string option \<Rightarrow> jobj option" where
  "getTeam config teamId = Option.bind (trimmedName teamId) (\<lambda>name. asRecord (jprop (getTeams config) name))"

definition getLegacyRuntimeProfiles :: "jobj \<Rightarrow> jobj" where
  "getLegacyRuntimeProfiles config = orElse (asRecord (jprop config ''auracallProfiles'')) []"

definition getBridgeRuntimeProfiles :: "jobj \<Rightarrow> jobj" where
  "getBridgeRuntimeProfiles config =
     (if getCurrentRuntimeProfiles config \<noteq> [] then getCurrentRuntimeProfiles config
      else getLegacyRuntimeProfiles config)"

definition getRuntimeProfileBrowserProfileId :: "jobj option \<Rightarrow> string option" where
  "getRuntimeProfileBrowserProfileId runtimeProfile =
     (case asNonEmptyString (optProp runtimeProfile ''browserProfile'') of
        Some name \<Rightarrow> Some name
      | None \<Rightarrow> asNonEmptyString (optProp runtimeProfile ''browserFamily''))"

definition getRuntimeProfileBrowserProfile :: "jobj \<Rightarrow> jobj option \<Rightarrow> jobj option" where
  "getRuntimeProfileBrowserProfile config runtimeProfile =
     getBrowserProfile config (getRuntimeProfileBrowserProfileId runtimeProfile)"

definition getAgentRuntimeProfileId :: "jobj option \<Rightarrow> string option" where
  "getAgentRuntimeProfileId agent = asNonEmptyString (optProp agent ''runtimeProfile'')"

definition getAgentRuntimeProfile :: "jobj \<Rightarrow> jobj option \<Rightarrow> jobj option" where
  "getAgentRuntimeProfile config agent =
     Option.bind (getAgentRuntimeProfileId agent) (\<lambda>p. asRecord (jprop (getCurrentRuntimeProfiles config) p))"

section \<open>Agents and teams\<close>

record agentSelection =
  as_agentId :: "string option"
  as_runtimeProfileId :: "string option"
  as_browserProfileId :: "string option"
  as_defaultService :: "serviceId option"
  as_service :: "serviceId option"
  as_model :: "string option"
  as_modelSelector :: "string option"
  as_projectId :: "string option"
  as_projectName :: "string option"
  as_exists :: bool

record teamSelection =
  tsel_teamId :: "string option"
  tsel_agentIds :: "string list"
  tsel_members :: "agentSelection list"
  tsel_exists :: bool

definition resolveAgentSelection :: "jobj \<Rightarrow> string option \<Rightarrow> agentSelection" where
  "resolveAgentSelection config agentId =
     (let name = trimmedName agentId;
          agent = getAgent config name;
          runtimeProfile = getAgentRuntimeProfile config agent;
          runtimeDefaultService = asServiceId (optProp runtimeProfile ''defaultService'');
          agentService = asServiceId (optProp agent ''service'')
      in \<lparr>as_agentId = name,
          as_runtimeProfileId = getAgentRuntimeProfileId agent,
          as_browserProfileId = getRuntimeProfileBrowserProfileId runtimeProfile,
          as_defaultService = orElseOpt agentService runtimeDefaultService,
          as_service = agentService,
          as_model = asNonEmptyString (optProp agent ''model''),
          as_modelSelector = asNonEmptyString (optProp agent ''modelSelector''),
          as_projectId = asNonEmptyString (optProp agent ''projectId''),
          as_projectName = asNonEmptyString (optProp agent ''projectName''),
          as_exists = (agent \<noteq> None)\<rparr>)"

definition resolveTeamSelection :: "jobj \<Rightarrow> string option \<Rightarrow> teamSelection" where
  "resolveTeamSelection config teamId =
     (let name = trimmedName teamId;
          team = getTeam config name;
          agentIds = (case asArray (optProp team ''agents'') of None \<Rightarrow> [] | Some vs \<Rightarrow> strings vs)
      in \<lparr>tsel_teamId = name, tsel_agentIds = agentIds,
          tsel_members = map (\<lambda>a. resolveAgentSelection config (Some a)) agentIds,
          tsel_exists = (team \<noteq> None)\<rparr>)"

section \<open>The runtime profile\<close>

text \<open>\<open>getActiveRuntimeProfileName\<close>, after the explicit or the default name has been looked up in vain:
  the profile \<open>default\<close> or the first of the current profiles, else the compatibility profile of the
  legacy ones, else \<open>default\<close> or the first of whatever profiles there are.\<close>

definition defaultOrFirst :: "jobj \<Rightarrow> string option" where
  "defaultOrFirst profiles =
     (if jsTruthy (jprop profiles ''default'') then Some ''default''
      else case map fst profiles of [] \<Rightarrow> None | k # _ \<Rightarrow> Some k)"

definition fallbackRuntimeProfileName :: "jobj \<Rightarrow> string option" where
  "fallbackRuntimeProfileName config =
     (if getCurrentRuntimeProfiles config \<noteq> [] then defaultOrFirst (getCurrentRuntimeProfiles config)
      else case asNonEmptyString (jprop config ''auracallProfile'') of
        Some p \<Rightarrow> if jsTruthy (jprop (getLegacyRuntimeProfiles config) p) then Some p
                  else defaultOrFirst (getBridgeRuntimeProfiles config)
      | None \<Rightarrow> defaultOrFirst (getBridgeRuntimeProfiles config))"

definition isKnownProfile :: "jobj \<Rightarrow> string \<Rightarrow> bool" where
  "isKnownProfile config p = (jsTruthy (jprop (getCurrentRuntimeProfiles config) p)
     \<or> jsTruthy (jprop (getLegacyRuntimeProfiles config) p))"

definition getActiveRuntimeProfileName :: "jobj \<Rightarrow> string option \<Rightarrow> string option" where
  "getActiveRuntimeProfileName config explicitProfileName =
     (case orElseOpt (trimmedName explicitProfileName) (asNonEmptyString (jprop config ''defaultRuntimeProfile'')) of
        Some p \<Rightarrow> if isKnownProfile config p then Some p else fallbackRuntimeProfileName config
      | None \<Rightarrow> fallbackRuntimeProfileName config)"

text \<open>\<open>getPreferredRuntimeProfileName\<close>, first for an explicit name, then in full: the explicit name, else
  the profile of the agent, else the active one.\<close>

definition preferredExplicit :: "jobj \<Rightarrow> string \<Rightarrow> string option" where
  "preferredExplicit config explicit =
     (if isKnownProfile config explicit then Some explicit else getActiveRuntimeProfileName config (Some explicit))"

definition getPreferredRuntimeProfileName :: "jobj \<Rightarrow> string option \<Rightarrow> string option \<Rightarrow> string option" where
  "getPreferredRuntimeProfileName config explicitProfileName explicitAgentId =
     (case trimmedName explicitProfileName of
        Some explicit \<Rightarrow> preferredExplicit config explicit
      | None \<Rightarrow>
          (case Option.bind (trimmedName explicitAgentId) (\<lambda>a. as_runtimeProfileId (resolveAgentSelection config (Some a))) of
             Some p \<Rightarrow> preferredExplicit config p
           | None \<Rightarrow> getActiveRuntimeProfileName config None))"

definition getActiveRuntimeProfile :: "jobj \<Rightarrow> string option \<Rightarrow> jobj option" where
  "getActiveRuntimeProfile config explicitProfileName =
     Option.bind (truthyText (getActiveRuntimeProfileName config explicitProfileName))
       (\<lambda>p. asRecord (jprop (getBridgeRuntimeProfiles config) p))"

definition getPreferredRuntimeProfile :: "jobj \<Rightarrow> string option \<Rightarrow> string option \<Rightarrow> jobj option" where
  "getPreferredRuntimeProfile config explicitProfileName explicitAgentId =
     Option.bind (truthyText (getPreferredRuntimeProfileName config explicitProfileName explicitAgentId))
       (\<lambda>p. orElseOpt (asRecord (jprop (getCurrentRuntimeProfiles config) p))
              (asRecord (jprop (getLegacyRuntimeProfiles config) p)))"

record runtimeSelection =
  rs_agent :: "agentSelection option"
  rs_runtimeProfileId :: "string option"
  rs_runtimeProfile :: "jobj option"
  rs_browserProfileId :: "string option"
  rs_browserProfile :: "jobj option"
  rs_defaultService :: "serviceId option"

record memberSelection = runtimeSelection +
  mem_agentId :: "string option"
  mem_exists :: bool

record teamRuntimeSelections =
  trs_teamId :: "string option"
  trs_agentIds :: "string list"
  trs_members :: "memberSelection list"
  trs_exists :: bool

definition resolveRuntimeSelection :: "jobj \<Rightarrow> string option \<Rightarrow> string option \<Rightarrow> runtimeSelection" where
  "resolveRuntimeSelection config explicitProfileName explicitAgentId =
     (let agentId = trimmedName explicitAgentId;
          agent = map_option (\<lambda>a. resolveAgentSelection config (Some a)) agentId;
          runtimeProfileId = getPreferredRuntimeProfileName config explicitProfileName agentId;
          runtimeProfile = getPreferredRuntimeProfile config runtimeProfileId agentId;
          browserProfileId = getRuntimeProfileBrowserProfileId runtimeProfile
      in \<lparr>rs_agent = agent, rs_runtimeProfileId = runtimeProfileId, rs_runtimeProfile = runtimeProfile,
          rs_browserProfileId = browserProfileId, rs_browserProfile = getBrowserProfile config browserProfileId,
          rs_defaultService = orElseOpt (Option.bind agent as_service)
            (asServiceId (optProp runtimeProfile ''defaultService''))\<rparr>)"

definition memberRuntimeSelection :: "jobj \<Rightarrow> agentSelection \<Rightarrow> memberSelection" where
  "memberRuntimeSelection config a =
     runtimeSelection.extend
       (case truthyText (as_runtimeProfileId a) of
          Some p \<Rightarrow> resolveRuntimeSelection config (Some p) (as_agentId a)
        | None \<Rightarrow> \<lparr>rs_agent = Some a, rs_runtimeProfileId = None, rs_runtimeProfile = None,
            rs_browserProfileId = None, rs_browserProfile = None, rs_defaultService = None\<rparr>)
       (memberSelection.fields (as_agentId a) (as_exists a))"

definition resolveTeamRuntimeSelections :: "jobj \<Rightarrow> string option \<Rightarrow> teamRuntimeSelections" where
  "resolveTeamRuntimeSelections config teamId =
     (let team = resolveTeamSelection config teamId
      in \<lparr>trs_teamId = tsel_teamId team, trs_agentIds = tsel_agentIds team,
          trs_members = map (memberRuntimeSelection config) (tsel_members team),
          trs_exists = tsel_exists team\<rparr>)"

datatype runtimeSelector = ByProfile | ByAgent | ByConfig

definition activeRuntimeSelector :: "string option \<Rightarrow> string option \<Rightarrow> runtimeSelector" where
  "activeRuntimeSelector explicitProfileName explicitAgentId =
     (if trimmedName explicitProfileName \<noteq> None then ByProfile
      else if trimmedName explicitAgentId \<noteq> None then ByAgent else ByConfig)"

section \<open>Which profile is selected\<close>

lemma trim_idem: "trim (trim u) = trim u"
proof (cases "trim u = []")
  case False
  define v where "v = dropWhile jsWhite u"
  have t: "trim u = rev (dropWhile jsWhite (rev v))" by (simp add: trim_def v_def)
  have "rev v = takeWhile jsWhite (rev v) @ dropWhile jsWhite (rev v)" by simp
  then have "v = trim u @ rev (takeWhile jsWhite (rev v))" unfolding t by (metis rev_append rev_rev_ident)
  then have "hd v = hd (trim u)" "v \<noteq> []" using False by (metis hd_append2, auto)
  then have "\<not> jsWhite (hd (trim u))" using hd_dropWhile [of jsWhite u] by (simp add: v_def)
  moreover have "\<not> jsWhite (hd (rev (trim u)))"
    using hd_dropWhile [of jsWhite "rev v"] False by (simp add: t)
  ultimately have "dropWhile jsWhite (trim u) = trim u" "dropWhile jsWhite (rev (trim u)) = rev (trim u)"
    using False by (metis dropWhile_eq_self_iff, metis dropWhile_eq_self_iff)
  then show ?thesis by (simp add: trim_def [of "trim u"])
next
  case True
  moreover have "trim [] = []" by (simp add: trim_def)
  ultimately show ?thesis by (simp only:)
qed

lemma trim_eq_self: "trimmedName s = Some t \<Longrightarrow> trimmedName (Some t) = Some t"
  by (cases s) (auto simp: trimmedName_def truthyText_def trim_idem split: if_splits)

lemma trimmed_plain:
  "s \<noteq> [] \<Longrightarrow> \<not> jsWhite (hd s) \<Longrightarrow> \<not> jsWhite (last s) \<Longrightarrow> trimmedName (Some s) = Some s"
proof -
  assume s: "s \<noteq> []" "\<not> jsWhite (hd s)" "\<not> jsWhite (last s)"
  then have "dropWhile jsWhite s = s" by (cases s) simp_all
  moreover have "dropWhile jsWhite (rev s) = rev s" using s by (cases s rule: rev_cases) simp_all
  ultimately show "trimmedName (Some s) = Some s" using s(1) by (simp add: trimmedName_def truthyText_def trim_def)
qed

lemma trimmed_None: "trimmedName None = None"
  by (simp add: trimmedName_def truthyText_def)

definition namedRuntimeProfile :: "jobj \<Rightarrow> string option \<Rightarrow> string option \<Rightarrow> string option" where
  "namedRuntimeProfile config explicitProfileName explicitAgentId =
     orElseOpt (trimmedName explicitProfileName)
       (orElseOpt (getAgentRuntimeProfileId (getAgent config explicitAgentId))
         (asNonEmptyString (jprop config ''defaultRuntimeProfile'')))"

lemma agentSelection_profile:
  "as_runtimeProfileId (resolveAgentSelection config a) = getAgentRuntimeProfileId (getAgent config (trimmedName a))"
  by (simp add: resolveAgentSelection_def Let_def)

lemma getAgent_trimmed [simp]: "getAgent config (trimmedName a) = getAgent config a"
  by (cases "trimmedName a") (simp_all add: getAgent_def trim_eq_self, simp add: trimmedName_def truthyText_def)

lemma agent_profile_of_name:
  "Option.bind (trimmedName a) (\<lambda>n. as_runtimeProfileId (resolveAgentSelection config (Some n)))
   = getAgentRuntimeProfileId (getAgent config a)"
proof (cases "trimmedName a")
  case None
  then show ?thesis
    by (simp add: getAgent_def getAgentRuntimeProfileId_def optProp_def asNonEmptyString_def trimmedName_def truthyText_def)
next
  case (Some n)
  then show ?thesis by (simp add: agentSelection_profile) (simp add: getAgent_def trim_eq_self)
qed

lemma agentRuntimeProfileId_trimmed:
  "getAgentRuntimeProfileId agent = Some p \<Longrightarrow> trimmedName (Some p) = Some p"
  by (auto simp: getAgentRuntimeProfileId_def asNonEmptyString_def dest: trim_eq_self)

lemma preferredExplicit_eq:
  "trimmedName (Some p) = Some p \<Longrightarrow>
   preferredExplicit config p = (if isKnownProfile config p then Some p else fallbackRuntimeProfileName config)"
  by (simp add: preferredExplicit_def getActiveRuntimeProfileName_def orElseOpt_def)

lemma fallback_None: "fallbackRuntimeProfileName config = None \<longleftrightarrow> getBridgeRuntimeProfiles config = []"
  by (auto simp: fallbackRuntimeProfileName_def defaultOrFirst_def getBridgeRuntimeProfiles_def jsTruthy_def
      split: list.splits option.splits)

lemma truthy_key: "jsTruthy (map_of kvs k) \<Longrightarrow> k \<in> fst ` set kvs"
  by (cases "map_of kvs k") (auto simp: jsTruthy_def dest: map_of_SomeD intro: rev_image_eqI)

lemma fallback_key:
  "fallbackRuntimeProfileName config = Some p \<Longrightarrow> p \<in> fst ` set (getBridgeRuntimeProfiles config)"
proof -
  have first: "defaultOrFirst kvs = Some p \<Longrightarrow> p \<in> fst ` set kvs" for kvs
    using truthy_key [of kvs "''default''"] by (cases kvs) (auto simp: defaultOrFirst_def split: if_splits)
  show "fallbackRuntimeProfileName config = Some p \<Longrightarrow> p \<in> fst ` set (getBridgeRuntimeProfiles config)"
    by (auto simp: fallbackRuntimeProfileName_def getBridgeRuntimeProfiles_def
        dest: first truthy_key split: if_splits option.splits)
qed


text \<open>A name the configuration does not know is replaced without notice, and not by the configured default.\<close>

definition twoProfiles :: jobj where
  "twoProfiles = [(''runtimeProfiles'', JObj [(''home'', JObj [(''defaultService'', JStr ''gemini'')]),
       (''work'', JObj [(''defaultService'', JStr ''chatgpt''), (''browserProfile'', JStr ''main'')])]),
     (''defaultRuntimeProfile'', JStr ''work''),
     (''agents'', JObj [(''writer'', JObj [(''runtimeProfile'', JStr ''work'')]), (''critic'', JObj [])]),
     (''teams'', JObj [(''pair'', JObj [(''agents'', JArr [JStr ''writer'', JStr ''critic''])])])]"

lemmas selection_simps = getPreferredRuntimeProfileName_def preferredExplicit_def getActiveRuntimeProfileName_def
  isKnownProfile_def fallbackRuntimeProfileName_def defaultOrFirst_def getCurrentRuntimeProfiles_def
  getTargetRuntimeProfiles_def getLegacyRuntimeProfiles_def getBridgeRuntimeProfiles_def jsTruthy_def
  trimmed_plain trimmed_None jsWhite_def orElseOpt_def resolveAgentSelection_def getAgent_def getAgents_def getAgentRuntimeProfileId_def
  asNonEmptyString_def optProp_def

lemma unknown_profile_is_replaced:
  "getPreferredRuntimeProfileName twoProfiles (Some ''wrok'') None = Some ''home''"
  "getPreferredRuntimeProfileName twoProfiles None None = Some ''work''"
  "getPreferredRuntimeProfileName twoProfiles None (Some ''writer'') = Some ''work''"
  by (simp_all add: selection_simps twoProfiles_def Let_def)

end
