(* ===== verification/Shell_Actions.thy ===== *)
theory Shell_Actions
  imports Service_Host
begin

text \<open>
  The built-in executor of local actions (\<open>src/runtime/localActions.ts\<close>), which a service host uses
  when it is given no other: the policy it runs under, the check of the command and of the working
  directory, the timeout, and the report of what the process did. The process itself
  (\<open>child_process.execFile\<close>) is a parameter; the functions of \<open>node:path\<close> are modelled for POSIX.
\<close>

section \<open>Paths\<close>

fun splitSlash :: "string \<Rightarrow> string list" where
  "splitSlash [] = [[]]"
| "splitSlash (c # cs) =
     (if c = CHR ''/'' then [] # splitSlash cs
      else case splitSlash cs of [] \<Rightarrow> [[c]] | s # ss \<Rightarrow> (c # s) # ss)"

definition isAbsolute :: "string \<Rightarrow> bool" where
  "isAbsolute p = startsWith p ''/''"

definition popSegment :: "string list \<Rightarrow> string \<Rightarrow> string list" where
  "popSegment acc s = (if s = [] \<or> s = ''.'' then acc else if s = ''..'' then butlast acc else acc @ [s])"

definition pathSegments :: "string \<Rightarrow> string \<Rightarrow> string list" where
  "pathSegments cwd p = foldl popSegment [] (splitSlash (if isAbsolute p then p else cwd @ ''/'' @ p))"

text \<open>\<open>path.resolve(p)\<close> in the directory \<open>cwd\<close>, and \<open>path.basename\<close>.\<close>

definition pathOf :: "string list \<Rightarrow> string" where
  "pathOf segments = ''/'' @ joinWith ''/'' segments"

definition resolvePath :: "string \<Rightarrow> string \<Rightarrow> string" where
  "resolvePath cwd p = pathOf (pathSegments cwd p)"

definition basename :: "string \<Rightarrow> string" where
  "basename p = (case filter (\<lambda>s. s \<noteq> []) (splitSlash p) of [] \<Rightarrow> [] | ss \<Rightarrow> last ss)"

definition cleanSegment :: "string \<Rightarrow> bool" where
  "cleanSegment s = (s \<noteq> [] \<and> s \<noteq> ''.'' \<and> s \<noteq> ''..'' \<and> CHR ''/'' \<notin> set s)"

lemma splitSlash_nonempty: "splitSlash p \<noteq> []"
  by (cases p) (auto split: list.split)

lemma splitSlash_segments: "s \<in> set (splitSlash p) \<Longrightarrow> CHR ''/'' \<notin> set s"
  by (induction p arbitrary: s) (auto split: if_splits list.splits)

lemma popSegment_clean:
  "list_all cleanSegment acc \<Longrightarrow> CHR ''/'' \<notin> set s \<Longrightarrow> list_all cleanSegment (popSegment acc s)"
  by (auto simp: popSegment_def cleanSegment_def list_all_iff dest: in_set_butlastD)

lemma pathSegments_clean: "list_all cleanSegment (pathSegments cwd p)"
proof -
  have "list_all cleanSegment (foldl popSegment acc ss)"
    if "list_all cleanSegment acc" "\<forall>s\<in>set ss. CHR ''/'' \<notin> set s" for acc ss
    using that by (induction ss arbitrary: acc) (simp_all add: popSegment_clean)
  from this [OF _ ballI [OF splitSlash_segments]] show ?thesis
    unfolding pathSegments_def by (metis list.pred_inject(1))
qed

text \<open>A path printed from clean segments is split into them again, also when more text follows.\<close>

lemma splitSlash_segment:
  "CHR ''/'' \<notin> set s \<Longrightarrow> splitSlash s = [s]"
  "CHR ''/'' \<notin> set s \<Longrightarrow> splitSlash (s @ ''/'' @ rest) = s # splitSlash rest"
  by (induction s) auto

lemma splitSlash_join:
  "segs \<noteq> [] \<Longrightarrow> list_all cleanSegment segs \<Longrightarrow> splitSlash (joinWith ''/'' segs) = segs"
  "segs \<noteq> [] \<Longrightarrow> list_all cleanSegment segs \<Longrightarrow> splitSlash (joinWith ''/'' segs @ ''/'' @ rest) = segs @ splitSlash rest"
  by (induction segs rule: induct_list012)
    (use splitSlash_segment in \<open>force simp: cleanSegment_def\<close>)+

lemma clean_join:
  assumes "list_all cleanSegment segs"
  shows "joinWith ''/'' segs = [] \<longleftrightarrow> segs = []" "\<not> startsWith (joinWith ''/'' segs) ''/''"
proof -
  have "\<not> startsWith (s @ rest) ''/'' \<and> s @ rest \<noteq> []" if "cleanSegment s" for s rest
    using that by (cases s) (auto simp: cleanSegment_def)
  moreover have "\<exists>rest. joinWith ''/'' (s # ss) = s @ rest" for s ss by (cases ss) auto
  ultimately have "joinWith ''/'' segs \<noteq> [] \<and> \<not> startsWith (joinWith ''/'' segs) ''/''" if "segs \<noteq> []"
    using that assms by (cases segs) (simp, metis list.pred_inject(2))
  then show "joinWith ''/'' segs = [] \<longleftrightarrow> segs = []" "\<not> startsWith (joinWith ''/'' segs) ''/''" by fastforce+
qed

lemma pathOf_inject:
  assumes "list_all cleanSegment a" "list_all cleanSegment b"
  shows "pathOf a = pathOf b \<longleftrightarrow> a = b"
  using splitSlash_join(1) assms clean_join(1) [OF assms(1)] clean_join(1) [OF assms(2)]
  unfolding pathOf_def by (metis same_append_eq)

text \<open>What \<open>startsWith\<close> on the printed paths says about the segments. The root directory is printed
  as the separator alone, so nothing below it starts with it and a second separator.\<close>

lemma below_segments:
  assumes "list_all cleanSegment segs" "list_all cleanSegment base"
  shows "startsWith (pathOf segs) (pathOf base @ ''/'') \<longleftrightarrow> base \<noteq> [] \<and> strict_prefix base segs"
proof (cases "base = []")
  case True
  then show ?thesis using clean_join(2) [OF assms(1)] by (simp add: pathOf_def)
next
  case False
  show ?thesis
  proof
    assume "startsWith (pathOf segs) (pathOf base @ ''/'')"
    then obtain rest where rest: "joinWith ''/'' segs = joinWith ''/'' base @ ''/'' @ rest"
      by (auto simp: startsWith_iff pathOf_def)
    then have "segs \<noteq> []" by (cases segs) auto
    then have "segs = base @ splitSlash rest"
      using splitSlash_join(1) [of segs] splitSlash_join(2) [OF False assms(2)] assms(1) rest by simp
    then show "base \<noteq> [] \<and> strict_prefix base segs"
      using False splitSlash_nonempty [of rest] by (simp add: strict_prefix_def)
  next
    assume "base \<noteq> [] \<and> strict_prefix base segs"
    then obtain x xs where segs: "segs = base @ x # xs" by (auto elim: strict_prefixE')
    have "joinWith ''/'' (r @ x # xs) = joinWith ''/'' r @ ''/'' @ joinWith ''/'' (x # xs)" if "r \<noteq> []" for r
      using that by (induction r rule: induct_list012) auto
    then show "startsWith (pathOf segs) (pathOf base @ ''/'')"
      using False by (simp add: segs pathOf_def startsWith_iff)
  qed
qed

section \<open>The policy\<close>

datatype localActionComplexityStage = BoundedCommand | RepoAutomation | Extended

fun complexityStageText :: "localActionComplexityStage \<Rightarrow> string" where
  "complexityStageText BoundedCommand = ''bounded-command''"
| "complexityStageText RepoAutomation = ''repo-automation''"
| "complexityStageText Extended = ''extended''"

definition isLocalActionComplexityStage :: "json option \<Rightarrow> localActionComplexityStage option" where
  "isLocalActionComplexityStage v =
     find (\<lambda>st. v = Some (JStr (complexityStageText st))) [BoundedCommand, RepoAutomation, Extended]"

text \<open>A field of the policy is \<open>None\<close> where the object holds \<open>undefined\<close>, which the type of the code
  excludes and its construction does not. In a \<open>Partial\<close> policy the outer \<open>None\<close> is an absent key.\<close>

record localActionExecutionPolicy =
  lp_complexityStage :: "localActionComplexityStage option"
  lp_allowedShellCommands :: "string list option"
  lp_allowedCwdRoots :: "string list option"
  lp_defaultShellActionTimeoutMs :: "rat option"
  lp_maxShellActionTimeoutMs :: "rat option"
  lp_maxCaptureChars :: "int option"

record partialActionPolicy =
  pp_complexityStage :: "localActionComplexityStage option option"
  pp_allowedShellCommands :: "string list option option"
  pp_allowedCwdRoots :: "string list option option"
  pp_defaultShellActionTimeoutMs :: "rat option option"
  pp_maxShellActionTimeoutMs :: "rat option option"
  pp_maxCaptureChars :: "int option option"

definition DEFAULT_LOCAL_ACTION_EXECUTION_POLICY :: "string \<Rightarrow> localActionExecutionPolicy" where
  "DEFAULT_LOCAL_ACTION_EXECUTION_POLICY processCwd =
     \<lparr>lp_complexityStage = Some BoundedCommand,
      lp_allowedShellCommands = Some [''node'', ''npm'', ''pnpm'', ''git''],
      lp_allowedCwdRoots = Some [processCwd],
      lp_defaultShellActionTimeoutMs = Some 15000,
      lp_maxShellActionTimeoutMs = Some 120000,
      lp_maxCaptureChars = Some 8000\<rparr>"

definition emptyPartialPolicy :: partialActionPolicy where
  "emptyPartialPolicy = \<lparr>pp_complexityStage = None, pp_allowedShellCommands = None, pp_allowedCwdRoots = None,
     pp_defaultShellActionTimeoutMs = None, pp_maxShellActionTimeoutMs = None, pp_maxCaptureChars = None\<rparr>"

text \<open>\<open>{ ...base, ...partial }\<close>: a key that is present wins, even with \<open>undefined\<close>.\<close>

definition spreadPolicy :: "localActionExecutionPolicy \<Rightarrow> partialActionPolicy \<Rightarrow> localActionExecutionPolicy" where
  "spreadPolicy base p =
     \<lparr>lp_complexityStage = orElse (pp_complexityStage p) (lp_complexityStage base),
      lp_allowedShellCommands = orElse (pp_allowedShellCommands p) (lp_allowedShellCommands base),
      lp_allowedCwdRoots = orElse (pp_allowedCwdRoots p) (lp_allowedCwdRoots base),
      lp_defaultShellActionTimeoutMs = orElse (pp_defaultShellActionTimeoutMs p) (lp_defaultShellActionTimeoutMs base),
      lp_maxShellActionTimeoutMs = orElse (pp_maxShellActionTimeoutMs p) (lp_maxShellActionTimeoutMs base),
      lp_maxCaptureChars = orElse (pp_maxCaptureChars p) (lp_maxCaptureChars base)\<rparr>"

text \<open>\<open>filter((value) => typeof value === "string" && value.length > 0)\<close>\<close>

definition nonEmptyStrings :: "json list \<Rightarrow> string list" where
  "nonEmptyStrings vs = somes (map (\<lambda>v. truthyText (asString (Some v))) vs)"

definition finiteNumber :: "json option \<Rightarrow> rat option" where
  "finiteNumber v = (case asNumber v of Some (Fin q) \<Rightarrow> Some q | _ \<Rightarrow> None)"

definition resolveHostLocalActionExecutionPolicy :: "jobj \<Rightarrow> partialActionPolicy" where
  "resolveHostLocalActionExecutionPolicy config =
     (let runtime = asRecord (jprop config ''runtime'');
          localActions = asRecord (optProp runtime ''localActions'')
      in case asRecord (optProp localActions ''shell'') of
           None \<Rightarrow> emptyPartialPolicy
         | Some shell \<Rightarrow>
             \<lparr>pp_complexityStage = Some (isLocalActionComplexityStage (jprop shell ''complexityStage'')),
              pp_allowedShellCommands = Some (map_option nonEmptyStrings (asArray (jprop shell ''allowedCommands''))),
              pp_allowedCwdRoots = Some (map_option nonEmptyStrings (asArray (jprop shell ''allowedCwdRoots''))),
              pp_defaultShellActionTimeoutMs = Some (finiteNumber (jprop shell ''defaultShellActionTimeoutMs'')),
              pp_maxShellActionTimeoutMs = Some (finiteNumber (jprop shell ''maxShellActionTimeoutMs'')),
              pp_maxCaptureChars = Some (map_option jsTrunc (finiteNumber (jprop shell ''maxCaptureChars'')))\<rparr>)"

definition resolveShellExecutionPolicy ::
  "executionRunStep \<Rightarrow> localActionExecutionPolicy \<Rightarrow> localActionExecutionPolicy" where
  "resolveShellExecutionPolicy s base =
     (case asRecord (jprop (dataOf s) ''localActionPolicy'') of
        None \<Rightarrow> base
      | Some policy \<Rightarrow> base\<lparr>
          lp_complexityStage := (case isLocalActionComplexityStage (jprop policy ''complexityStage'') of
            Some st \<Rightarrow> Some st | None \<Rightarrow> lp_complexityStage base),
          lp_allowedShellCommands := (case asArray (jprop policy ''allowedCommands'') of
            Some vs \<Rightarrow> Some (nonEmptyStrings vs) | None \<Rightarrow> lp_allowedShellCommands base),
          lp_allowedCwdRoots := (case asArray (jprop policy ''allowedCwdRoots'') of
            Some vs \<Rightarrow> Some (nonEmptyStrings vs) | None \<Rightarrow> lp_allowedCwdRoots base)\<rparr>)"

section \<open>The checks\<close>

definition isAllowedShellCommand :: "string \<Rightarrow> string list \<Rightarrow> bool" where
  "isAllowedShellCommand command allowedShellCommands =
     (let normalized = toLowerCase (basename command); exact = toLowerCase command
      in list_ex (\<lambda>c. toLowerCase c = normalized \<or> toLowerCase c = exact) allowedShellCommands)"

text \<open>Reading \<open>some\<close> of an \<open>undefined\<close> list.\<close>

definition undefinedList :: js_error where
  "undefinedList = PlainError ''Cannot read properties of undefined (reading some)''"

text \<open>\<open>{ ok: false, summary }\<close> on the left, \<open>{ ok: true, cwd }\<close> on the right.\<close>

definition resolveAllowedCwd :: "string \<Rightarrow> json option \<Rightarrow> string list option \<Rightarrow> (string + string) result" where
  "resolveAllowedCwd processCwd v allowedCwdRoots =
     (let cwd = orElse (truthyText (asString v)) processCwd
      in if \<not> isAbsolute cwd then Inr (Inl ''shell local action cwd must be an absolute path'')
         else case allowedCwdRoots of
           None \<Rightarrow> Inl undefinedList
         | Some roots \<Rightarrow>
             (let normalizedCwd = resolvePath processCwd cwd
              in if list_ex (\<lambda>r. let normalizedRoot = resolvePath processCwd r
                     in normalizedCwd = normalizedRoot \<or> startsWith normalizedCwd (normalizedRoot @ ''/'')) roots
                 then Inr (Inr normalizedCwd)
                 else Inr (Inl (''shell local action cwd is outside allowed roots: '' @ normalizedCwd))))"

text \<open>\<open>Math.max(1, Math.min(max, Math.trunc(value)))\<close>; with an \<open>undefined\<close> maximum it is \<open>NaN\<close>.\<close>

definition clampTimeoutMs :: "json option \<Rightarrow> localActionExecutionPolicy \<Rightarrow> js_num option" where
  "clampTimeoutMs v policy = (case finiteNumber v of
     None \<Rightarrow> map_option Fin (lp_defaultShellActionTimeoutMs policy)
   | Some q \<Rightarrow> Some (case lp_maxShellActionTimeoutMs policy of
       None \<Rightarrow> NaN
     | Some m \<Rightarrow> Fin (max 1 (min m (of_int (jsTrunc q))))))"

text \<open>\<open>value.slice(0, n)\<close>: a negative end counts from the end. The default of the parameter applies to
  \<open>undefined\<close>.\<close>

definition sliceTo :: "int \<Rightarrow> string \<Rightarrow> string" where
  "sliceTo n v = (if 0 \<le> n then take (nat n) v else take (nat (int (length v) + n)) v)"

definition truncateOutput :: "string \<Rightarrow> int option \<Rightarrow> string \<times> bool" where
  "truncateOutput v maxCaptureChars =
     (let n = orElse maxCaptureChars 8000
      in if int (length v) \<le> n then (v, False) else (sliceTo n v, True))"

section \<open>The executor\<close>

record execError =
  xe_message :: string
  xe_code :: "json option"
  xe_signal :: "string option"
  xe_killed :: "bool option"
  xe_stdout :: "string option"
  xe_stderr :: "string option"

datatype execOutcome = ExecDone string string | ExecError execError | ExecThrew string

text \<open>The process the executor runs in: its working directory, and \<open>execFile\<close> with the options the
  executor varies, \<open>cwd\<close> and \<open>timeout\<close>.\<close>

record 'w shellHost =
  sh_cwd :: string
  sh_execFile :: "string \<Rightarrow> string list \<Rightarrow> string \<Rightarrow> js_num option \<Rightarrow> 'w \<Rightarrow> execOutcome \<times> 'w"

definition numberOrNull :: "js_num option \<Rightarrow> json" where
  "numberOrNull n = (case n of None \<Rightarrow> JNull | Some x \<Rightarrow> JNum x)"

definition jsStrs :: "string list \<Rightarrow> json" where
  "jsStrs ss = JArr (map JStr ss)"

definition captureFields :: "string \<times> bool \<Rightarrow> string \<times> bool \<Rightarrow> jobj" where
  "captureFields out err = [(''stdout'', JStr (fst out)), (''stderr'', JStr (fst err)),
     (''stdoutTruncated'', JBool (snd out)), (''stderrTruncated'', JBool (snd err))]"

definition normalizeExecError :: "execOutcome \<Rightarrow> int option \<Rightarrow> jobj" where
  "normalizeExecError e maxCaptureChars = (case e of
     ExecThrew v \<Rightarrow> [(''message'', JStr v), (''exitCode'', JNull), (''signal'', JNull), (''timedOut'', JBool False)]
       @ captureFields ([], False) ([], False)
   | ExecError x \<Rightarrow>
       [(''message'', JStr (xe_message x)),
        (''exitCode'', case asNumber (xe_code x) of Some n \<Rightarrow> JNum n | None \<Rightarrow> JNull),
        (''code'', orElse (xe_code x) JNull), (''signal'', jsStrOrNull (xe_signal x)),
        (''timedOut'', JBool (orElse (xe_killed x) False))]
       @ captureFields (truncateOutput (orElse (xe_stdout x) []) maxCaptureChars)
           (truncateOutput (orElse (xe_stderr x) []) maxCaptureChars)
   | ExecDone _ _ \<Rightarrow> [])"

definition rejectedAction :: "string \<Rightarrow> jobj option \<Rightarrow> localActionCallbackResult" where
  "rejectedAction summary payload = \<lparr>cb_status = Some Rejected, cb_summary = Some summary, cb_payload = payload,
     cb_notes = [], cb_sharedState = emptyPatch\<rparr>"

text \<open>\<open>{ <key>: <list>, complexityStage }\<close>; an \<open>undefined\<close> value is no key of the payload.\<close>

definition stagePayload :: "string \<Rightarrow> string list option \<Rightarrow> localActionExecutionPolicy \<Rightarrow> jobj" where
  "stagePayload key values policy = (case values of None \<Rightarrow> [] | Some vs \<Rightarrow> [(key, jsStrs vs)])
     @ (case lp_complexityStage policy of None \<Rightarrow> [] | Some st \<Rightarrow> [(''complexityStage'', JStr (complexityStageText st))])"

definition runFields :: "string \<Rightarrow> string list \<Rightarrow> string \<Rightarrow> js_num option \<Rightarrow> jobj" where
  "runFields command args cwd timeoutMs =
     [(''command'', JStr command), (''args'', jsStrs args), (''cwd'', JStr cwd), (''timeoutMs'', numberOrNull timeoutMs)]"

definition reportOutcome ::
  "string \<Rightarrow> string list \<Rightarrow> string \<Rightarrow> js_num option \<Rightarrow> int option \<Rightarrow> execOutcome \<Rightarrow> localActionCallbackResult" where
  "reportOutcome command args cwd timeoutMs maxCaptureChars outcome = (case outcome of
     ExecDone out err \<Rightarrow>
       \<lparr>cb_status = Some Executed, cb_summary = Some (''shell action executed: '' @ command),
        cb_payload = Some (runFields command args cwd timeoutMs @ (''exitCode'', jsInt 0)
          # captureFields (truncateOutput out maxCaptureChars) (truncateOutput err maxCaptureChars)),
        cb_notes = [],
        cb_sharedState = emptyPatch\<lparr>patch_notes := [''local shell action executed: '' @ command]\<rparr>\<rparr>
   | _ \<Rightarrow>
       \<lparr>cb_status = Some ActionFailed, cb_summary = Some (''shell action failed: '' @ command),
        cb_payload = Some (runFields command args cwd timeoutMs @ normalizeExecError outcome maxCaptureChars),
        cb_notes = [],
        cb_sharedState = emptyPatch\<lparr>patch_notes := [''local shell action failed: '' @ command]\<rparr>\<rparr>)"

definition executeBuiltInLocalActionRequest ::
  "'w shellHost \<Rightarrow> localActionExecutionPolicy \<Rightarrow> 'w localActionCallback" where
  "executeBuiltInLocalActionRequest sh policy rec s request =
     (let p = resolveShellExecutionPolicy s policy;
          reject = (\<lambda>summary payload. ioReturn (Some (rejectedAction summary payload)))
      in if lar_kind request \<noteq> ''shell''
         then reject (''built-in executor does not support local action kind '' @ lar_kind request)
           (Some [(''supportedKinds'', jsStrs [''shell''])])
         else case truthyText (lar_command request) of
           None \<Rightarrow> reject ''shell local action requires a command'' None
         | Some command \<Rightarrow> (case lp_allowedShellCommands p of
             None \<Rightarrow> ioThrow undefinedList
           | Some commands \<Rightarrow>
               if \<not> isAllowedShellCommand command commands
               then reject (''shell local action command is not allowed: '' @ command)
                 (Some (stagePayload ''allowedShellCommands'' (Some commands) p))
               else case resolveAllowedCwd (sh_cwd sh) (jprop (lar_structuredPayload request) ''cwd'')
                   (lp_allowedCwdRoots p) of
                 Inl e \<Rightarrow> ioThrow e
               | Inr (Inl summary) \<Rightarrow>
                   reject summary (Some (stagePayload ''allowedCwdRoots'' (lp_allowedCwdRoots p) p))
               | Inr (Inr cwd) \<Rightarrow>
                   (let timeoutMs = clampTimeoutMs (jprop (lar_structuredPayload request) ''timeoutMs'') p
                    in (\<lambda>w. case sh_execFile sh command (lar_args request) cwd timeoutMs w of (outcome, w') \<Rightarrow>
                         (Inr (Some (reportOutcome command (lar_args request) cwd timeoutMs
                            (lp_maxCaptureChars p) outcome)), w')))))"

text \<open>The executor a host makes for itself when it is given a policy and no executor of its own.\<close>

definition withBuiltInExecutor :: "'w shellHost \<Rightarrow> partialActionPolicy \<Rightarrow> 'w hostDeps \<Rightarrow> 'w hostDeps" where
  "withBuiltInExecutor sh p h = h\<lparr>hd_executeLocalActionRequest := None,
     hd_builtInLocalAction := executeBuiltInLocalActionRequest sh
       (spreadPolicy (DEFAULT_LOCAL_ACTION_EXECUTION_POLICY (sh_cwd sh)) p)\<rparr>"

section \<open>What may run\<close>

text \<open>The policy, stated on path segments: the command is allowed by its name or by the last segment of
  its path, and the working directory is an allowed root or, unless that is the root directory
  itself, below it.\<close>

definition requestCwd :: "'w shellHost \<Rightarrow> localActionRequest \<Rightarrow> string" where
  "requestCwd sh request = orElse (truthyText (asString (jprop (lar_structuredPayload request) ''cwd''))) (sh_cwd sh)"

definition insideRoot :: "string list \<Rightarrow> string list \<Rightarrow> bool" where
  "insideRoot base segments \<longleftrightarrow> base = segments \<or> base \<noteq> [] \<and> strict_prefix base segments"

definition shellRequestAllowed :: "'w shellHost \<Rightarrow> localActionExecutionPolicy \<Rightarrow> localActionRequest \<Rightarrow> bool" where
  "shellRequestAllowed sh p request \<longleftrightarrow> lar_kind request = ''shell'' \<and>
     (case (truthyText (lar_command request), lp_allowedShellCommands p, lp_allowedCwdRoots p) of
        (Some command, Some commands, Some roots) \<Rightarrow>
          (\<exists>c\<in>set commands. toLowerCase c \<in> {toLowerCase command, toLowerCase (basename command)})
          \<and> isAbsolute (requestCwd sh request)
          \<and> (\<exists>r\<in>set roots. insideRoot (pathSegments (sh_cwd sh) r) (pathSegments (sh_cwd sh) (requestCwd sh request)))
      | _ \<Rightarrow> False)"

lemma inside_resolved:
  "resolvePath d p = resolvePath d r \<or> startsWith (resolvePath d p) (resolvePath d r @ ''/'')
   \<longleftrightarrow> insideRoot (pathSegments d r) (pathSegments d p)"
  unfolding resolvePath_def insideRoot_def
    pathOf_inject [OF pathSegments_clean pathSegments_clean] below_segments [OF pathSegments_clean pathSegments_clean]
  by auto

lemma resolveAllowedCwd_cases:
  "resolveAllowedCwd (sh_cwd sh) (jprop (lar_structuredPayload request) ''cwd'') roots =
     (let cwd = requestCwd sh request; segments = pathSegments (sh_cwd sh) cwd
      in if \<not> isAbsolute cwd then Inr (Inl ''shell local action cwd must be an absolute path'')
         else case roots of None \<Rightarrow> Inl undefinedList
           | Some rs \<Rightarrow> if \<exists>r\<in>set rs. insideRoot (pathSegments (sh_cwd sh) r) segments then Inr (Inr (pathOf segments))
               else Inr (Inl (''shell local action cwd is outside allowed roots: '' @ pathOf segments)))"
  unfolding resolveAllowedCwd_def requestCwd_def [symmetric] Let_def list_ex_iff inside_resolved
  by (simp add: resolvePath_def split: option.split)

lemma isAllowedShellCommand_iff:
  "isAllowedShellCommand command commands
   \<longleftrightarrow> (\<exists>c\<in>set commands. toLowerCase c \<in> {toLowerCase command, toLowerCase (basename command)})"
  by (auto simp: isAllowedShellCommand_def Let_def list_ex_iff)

lemma allowed_runs:
  assumes "shellRequestAllowed sh (resolveShellExecutionPolicy s policy) request"
  shows "\<exists>command. lar_command request = Some command
    \<and> executeBuiltInLocalActionRequest sh policy rec s request w =
      (let p = resolveShellExecutionPolicy s policy;
           cwd = pathOf (pathSegments (sh_cwd sh) (requestCwd sh request));
           timeoutMs = clampTimeoutMs (jprop (lar_structuredPayload request) ''timeoutMs'') p
       in case sh_execFile sh command (lar_args request) cwd timeoutMs w of (outcome, w') \<Rightarrow>
            (Inr (Some (reportOutcome command (lar_args request) cwd timeoutMs (lp_maxCaptureChars p) outcome)), w'))"
proof -
  let ?p = "resolveShellExecutionPolicy s policy"
  from assms obtain command commands roots where c: "truthyText (lar_command request) = Some command"
    "lp_allowedShellCommands ?p = Some commands" "lp_allowedCwdRoots ?p = Some roots"
    unfolding shellRequestAllowed_def by (auto split: option.splits)
  then have "isAllowedShellCommand command commands" "lar_kind request = ''shell''"
    "resolveAllowedCwd (sh_cwd sh) (jprop (lar_structuredPayload request) ''cwd'') (Some roots)
      = Inr (Inr (pathOf (pathSegments (sh_cwd sh) (requestCwd sh request))))"
    using assms by (simp_all add: shellRequestAllowed_def isAllowedShellCommand_iff resolveAllowedCwd_cases Let_def)
  moreover have "lar_command request = Some command" using c(1) by (simp add: truthyText_def split: if_splits)
  ultimately show ?thesis using c by (simp add: executeBuiltInLocalActionRequest_def Let_def)
qed

lemma refused_is_rejected:
  assumes "\<not> shellRequestAllowed sh (resolveShellExecutionPolicy s policy) request"
  shows "\<exists>res. (\<forall>f. executeBuiltInLocalActionRequest (sh\<lparr>sh_execFile := f\<rparr>) policy rec s request w = (res, w))
    \<and> (res = Inl undefinedList \<or> (\<exists>cb. res = Inr (Some cb) \<and> cb_status cb = Some Rejected))"
proof -
  let ?p = "resolveShellExecutionPolicy s policy"
  let ?exec = "\<lambda>f. executeBuiltInLocalActionRequest (sh\<lparr>sh_execFile := f\<rparr>) policy rec s request"
  let ?cwd = "resolveAllowedCwd (sh_cwd sh) (jprop (lar_structuredPayload request) ''cwd'') (lp_allowedCwdRoots ?p)"
  consider (kind) "lar_kind request \<noteq> ''shell''" | (command) "lar_kind request = ''shell''" "truthyText (lar_command request) = None"
    | (list) command where "lar_kind request = ''shell''" "truthyText (lar_command request) = Some command"
        "lp_allowedShellCommands ?p = None"
    | (named) command commands where "lar_kind request = ''shell''" "truthyText (lar_command request) = Some command"
        "lp_allowedShellCommands ?p = Some commands" by fastforce
  then show ?thesis
  proof cases
    case named
    show ?thesis
    proof (cases "isAllowedShellCommand command commands")
      case True
      have "?cwd = Inl undefinedList \<or> (\<exists>summary. ?cwd = Inr (Inl summary))"
        using assms named True
        by (auto simp: resolveAllowedCwd_cases Let_def shellRequestAllowed_def isAllowedShellCommand_iff split: option.splits)
      then show ?thesis using named True
        by (auto simp: executeBuiltInLocalActionRequest_def Let_def rejectedAction_def ioReturn_def ioThrow_def)
    qed (use named in \<open>simp add: executeBuiltInLocalActionRequest_def rejectedAction_def Let_def ioReturn_def\<close>)
  qed (simp_all add: executeBuiltInLocalActionRequest_def rejectedAction_def Let_def ioReturn_def ioThrow_def)
qed


text \<open>Requested timeouts stay within the maximum of the policy; the default is used as it is.\<close>

lemma clamped_timeout_bounds:
  "finiteNumber v = Some q \<Longrightarrow> lp_maxShellActionTimeoutMs p = Some m \<Longrightarrow> 1 \<le> m \<Longrightarrow>
   \<exists>t. clampTimeoutMs v p = Some (Fin t) \<and> 1 \<le> t \<and> t \<le> m"
  by (simp add: clampTimeoutMs_def)

lemma captured_output_is_bounded:
  "0 \<le> n \<Longrightarrow> int (length (fst (truncateOutput v (Some n)))) \<le> n
    \<and> prefix (fst (truncateOutput v (Some n))) v \<and> (snd (truncateOutput v (Some n)) \<longleftrightarrow> n < int (length v))"
  by (auto simp: truncateOutput_def sliceTo_def Let_def take_is_prefix)

text \<open>A host whose configuration has a \<open>runtime.localActions.shell\<close> object without a list of allowed
  commands gets no default list: the key is present with \<open>undefined\<close> and overwrites it. Unless the
  step brings its own list, every shell request with a command then ends in an exception, before any
  check, and the world is left as it was.\<close>

lemma partial_shell_config_loses_defaults:
  assumes "jprop config ''runtime'' = Some (JObj runtime)" "jprop runtime ''localActions'' = Some (JObj actions)"
    and "jprop actions ''shell'' = Some (JObj shell)" "asArray (jprop shell ''allowedCommands'') = None"
    and "asArray (optProp (asRecord (jprop (dataOf s) ''localActionPolicy'')) ''allowedCommands'') = None"
    and "shouldRequireOperatorApprovalForLocalAction s = False"
    and "lar_kind request = ''shell''" "lar_command request = Some command" "command \<noteq> []"
  shows "hostLocalAction (withBuiltInExecutor sh (resolveHostLocalActionExecutionPolicy config) h) rec s request w
    = (Inl undefinedList, w)"
proof -
  have "lp_allowedShellCommands (resolveShellExecutionPolicy s (spreadPolicy
      (DEFAULT_LOCAL_ACTION_EXECUTION_POLICY (sh_cwd sh)) (resolveHostLocalActionExecutionPolicy config))) = None"
    using assms(1-5) by (auto simp: resolveShellExecutionPolicy_def spreadPolicy_def resolveHostLocalActionExecutionPolicy_def
      optProp_def Let_def split: option.splits)
  then show ?thesis using assms(6-9)
    by (simp add: hostLocalAction_def withBuiltInExecutor_def executeBuiltInLocalActionRequest_def truthyText_def Let_def
      ioThrow_def)
qed

definition shellConfig :: "jobj \<Rightarrow> jobj" where
  "shellConfig shell = [(''runtime'', JObj [(''localActions'', JObj [(''shell'', JObj shell)])])]"

definition shellRequest :: "string \<Rightarrow> jobj \<Rightarrow> localActionRequest" where
  "shellRequest command payload = createTeamRunLocalActionRequest
     \<lparr>clr_id = ''a'', clr_teamRunId = ''r'', clr_ownerStepId = ''s'', clr_kind = ''shell'', clr_summary = ''run'',
      clr_command = Some command, clr_args = None, clr_structuredPayload = Some payload, clr_notes = None,
      clr_status = None, clr_createdAt = ''t0''\<rparr>"

text \<open>A host that records the processes it starts.\<close>

definition loggingHost :: "(string \<times> string) list shellHost" where
  "loggingHost = \<lparr>sh_cwd = ''/repo'', sh_execFile = (\<lambda>command args cwd timeoutMs w. (ExecDone ''ok'' [], w @ [(command, cwd)]))\<rparr>"

lemma shellRequest_simps [simp]:
  "lar_kind (shellRequest c p) = ''shell''" "lar_command (shellRequest c p) = Some c"
  "lar_structuredPayload (shellRequest c p) = p"
  by (simp_all add: shellRequest_def createTeamRunLocalActionRequest_def)

lemma partial_shell_config_loses_defaults_example:
  "\<forall>h rec w. hostLocalAction (withBuiltInExecutor loggingHost
      (resolveHostLocalActionExecutionPolicy (shellConfig [(''maxCaptureChars'', jsInt 100)])) h) rec
      (demoStep ''s'' 1 StepRunning []) (shellRequest ''git'' []) w = (Inl undefinedList, w)"
  by (intro allI, rule partial_shell_config_loses_defaults [where command = "''git''"
      and runtime = "[(''localActions'', JObj [(''shell'', JObj [(''maxCaptureChars'', jsInt 100)])])]"
      and actions = "[(''shell'', JObj [(''maxCaptureChars'', jsInt 100)])]" and shell = "[(''maxCaptureChars'', jsInt 100)]"])
    (simp_all add: shellConfig_def demoStep_def dataOf_def shouldRequireOperatorApprovalForLocalAction_def optProp_def)

text \<open>The check by the last segment admits a program of an allowed name from any directory; a step that
  brings a policy of its own replaces the lists of the host, so they are no upper bound; and the root
  directory, given as an allowed root, admits only itself.\<close>

definition policyStep :: "jobj \<Rightarrow> executionRunStep" where
  "policyStep policy = (demoStep ''s'' 1 StepRunning [])\<lparr>step_input :=
     (step_input (demoStep ''s'' 1 StepRunning []))\<lparr>in_structuredData := [(''localActionPolicy'', JObj policy)]\<rparr>\<rparr>"

lemma name_admits_any_directory:
  "snd (executeBuiltInLocalActionRequest loggingHost (DEFAULT_LOCAL_ACTION_EXECUTION_POLICY ''/repo'') rec
     (demoStep ''s'' 1 StepRunning []) (shellRequest ''/tmp/evil/git'' []) []) = [(''/tmp/evil/git'', ''/repo'')]"
  by code_simp

lemma step_policy_replaces_host_policy:
  "snd (executeBuiltInLocalActionRequest loggingHost
     ((DEFAULT_LOCAL_ACTION_EXECUTION_POLICY ''/repo'')\<lparr>lp_allowedShellCommands := Some [''git'']\<rparr>) rec
     (policyStep [(''allowedCommands'', JArr [JStr ''rm'']), (''allowedCwdRoots'', JArr [JStr ''/etc''])])
     (shellRequest ''rm'' [(''cwd'', JStr ''/etc/x/../ssl'')]) []) = [(''rm'', ''/etc/ssl'')]"
  by code_simp

lemma root_directory_admits_only_itself:
  "insideRoot (pathSegments cwd ''/'') segments \<longleftrightarrow> segments = []"
  by (auto simp: insideRoot_def pathSegments_def isAbsolute_def popSegment_def)

lemma dot_segments_do_not_escape:
  "\<not> shellRequestAllowed loggingHost (DEFAULT_LOCAL_ACTION_EXECUTION_POLICY ''/repo'')
     (shellRequest ''git'' [(''cwd'', JStr ''/repo/../etc'')])"
  by (simp add: shellRequestAllowed_def DEFAULT_LOCAL_ACTION_EXECUTION_POLICY_def requestCwd_def loggingHost_def
      truthyText_def insideRoot_def pathSegments_def isAbsolute_def popSegment_def)

end
