(* ===== verification/Team_Spec.thy ===== *)
theory Team_Spec
  imports Config_Selection Shell_Actions
begin

text \<open>
  The assignment a team works on, the task run spec (\<open>src/teams/types.ts\<close>): its parts, the defaults
  \<open>createTaskRunSpec\<close> of \<open>src/teams/model.ts\<close> fills in, the check of \<open>src/teams/schema.ts\<close>, the bounded
  spec of \<open>src/teams/taskRunSpecBuilder.ts\<close>, and the record store of \<open>src/teams/store.ts\<close>. The strings of
  a union are constructors with a text, numbers are JavaScript numbers until the schema has checked
  them. The error zod throws is a parameter \<open>zodError\<close>.
\<close>

section \<open>String unions\<close>

datatype requestedOutputKind = FinalResponse | Patch | ArtifactBundle | ReviewNote | StructuredReport
datatype requestedOutputFormat = TextFormat | MarkdownFormat | JsonFormat | DiffFormat | BundleFormat
datatype requestedOutputDestination = ResponseBody | ArtifactStore | HandoffDestination
datatype inputArtifactKind = FileArtifact | DirectoryArtifact | DocArtifact | BundleArtifact | PriorArtifact | UrlArtifact
datatype turnStopStatus = StopSucceeded | StopFailed | StopCancelled | StopNeedsHuman
datatype humanRequiredOn = NeedsApproval | MissingInfo | NeedsHuman
datatype humanDefaultBehavior = PauseByDefault | FailByDefault | ContinueByDefault
datatype localActionMode = ActionsForbidden | ActionsAllowed | ActionsNeedApproval
datatype resultReportingMode = SummaryOnly | SummaryAndPayload

fun outputKindText :: "requestedOutputKind \<Rightarrow> string" where
  "outputKindText FinalResponse = ''final-response''"
| "outputKindText Patch = ''patch''"
| "outputKindText ArtifactBundle = ''artifact-bundle''"
| "outputKindText ReviewNote = ''review-note''"
| "outputKindText StructuredReport = ''structured-report''"

fun outputFormatText :: "requestedOutputFormat \<Rightarrow> string" where
  "outputFormatText TextFormat = ''text''"
| "outputFormatText MarkdownFormat = ''markdown''"
| "outputFormatText JsonFormat = ''json''"
| "outputFormatText DiffFormat = ''diff''"
| "outputFormatText BundleFormat = ''bundle''"

fun destinationText :: "requestedOutputDestination \<Rightarrow> string" where
  "destinationText ResponseBody = ''response-body''"
| "destinationText ArtifactStore = ''artifact-store''"
| "destinationText HandoffDestination = ''handoff''"

fun inputArtifactKindText :: "inputArtifactKind \<Rightarrow> string" where
  "inputArtifactKindText FileArtifact = ''file''"
| "inputArtifactKindText DirectoryArtifact = ''directory''"
| "inputArtifactKindText DocArtifact = ''doc''"
| "inputArtifactKindText BundleArtifact = ''bundle''"
| "inputArtifactKindText PriorArtifact = ''prior-artifact''"
| "inputArtifactKindText UrlArtifact = ''url''"

fun turnStopStatusText :: "turnStopStatus \<Rightarrow> string" where
  "turnStopStatusText StopSucceeded = ''succeeded''"
| "turnStopStatusText StopFailed = ''failed''"
| "turnStopStatusText StopCancelled = ''cancelled''"
| "turnStopStatusText StopNeedsHuman = ''needs-human''"

fun humanRequiredOnText :: "humanRequiredOn \<Rightarrow> string" where
  "humanRequiredOnText NeedsApproval = ''needs-approval''"
| "humanRequiredOnText MissingInfo = ''missing-info''"
| "humanRequiredOnText NeedsHuman = ''needs-human''"

fun humanDefaultText :: "humanDefaultBehavior \<Rightarrow> string" where
  "humanDefaultText PauseByDefault = ''pause''"
| "humanDefaultText FailByDefault = ''fail''"
| "humanDefaultText ContinueByDefault = ''continue''"

fun localActionModeText :: "localActionMode \<Rightarrow> string" where
  "localActionModeText ActionsForbidden = ''forbidden''"
| "localActionModeText ActionsAllowed = ''allowed''"
| "localActionModeText ActionsNeedApproval = ''approval-required''"

fun reportingModeText :: "resultReportingMode \<Rightarrow> string" where
  "reportingModeText SummaryOnly = ''summary-only''"
| "reportingModeText SummaryAndPayload = ''summary-and-payload''"

fun triggerText :: "teamRunTrigger \<Rightarrow> string" where
  "triggerText TrigCli = ''cli''"
| "triggerText TrigService = ''service''"
| "triggerText TrigApi = ''api''"
| "triggerText TrigMcp = ''mcp''"
| "triggerText TrigScheduled = ''scheduled''"
| "triggerText TrigInternal = ''internal''"

section \<open>The spec\<close>

record requestedOutput =
  rqo_kind :: requestedOutputKind
  rqo_label :: string
  rqo_format :: requestedOutputFormat
  rqo_required :: bool
  rqo_schemaHint :: "string option"
  rqo_destination :: requestedOutputDestination

record inputArtifact =
  ina_id :: string
  ina_kind :: inputArtifactKind
  ina_title :: string
  ina_path :: "string option"
  ina_uri :: "string option"
  ina_mediaType :: "string option"
  ina_notes :: "string list"
  ina_required :: bool

record turnPolicy =
  tp_maxTurns :: "js_num option"
  tp_stopOnStatus :: "turnStopStatus list"
  tp_allowTeamInitiatedStop :: bool
  tp_allowHumanEscalation :: bool

record humanInteractionPolicy =
  hip_requiredOn :: "humanRequiredOn list"
  hip_allowClarificationRequests :: bool
  hip_allowApprovalRequests :: bool
  hip_defaultBehavior :: humanDefaultBehavior

record specActionPolicy =
  sap_mode :: localActionMode
  sap_complexityStage :: localActionComplexityStage
  sap_allowedActionKinds :: "string list"
  sap_allowedCommands :: "string list"
  sap_allowedCwdRoots :: "string list"
  sap_resultReportingMode :: resultReportingMode

record specProviderBudget =
  spb_maxRequests :: "js_num option"
  spb_maxTokens :: "js_num option"

record specConstraints =
  con_allowedServices :: "serviceId option list option"
  con_blockedServices :: "serviceId list option"
  con_maxRuntimeMinutes :: "js_num option"
  con_maxTurns :: "js_num option"
  con_providerBudget :: "specProviderBudget option"

record specOverrides =
  ov_runtimeProfileId :: "string option"
  ov_browserProfileId :: "string option"
  ov_agentIds :: "string list option"
  ov_promptAppend :: "string option"
  ov_structuredContext :: "jobj option"

record specRequestedBy =
  rqb_kind :: teamRunTrigger
  rqb_id :: "string option"
  rqb_label :: "string option"

record taskRunSpec =
  spec_id :: string
  spec_teamId :: string
  spec_title :: string
  spec_objective :: string
  spec_successCriteria :: "string list"
  spec_requestedOutputs :: "requestedOutput list"
  spec_inputArtifacts :: "inputArtifact list"
  spec_context :: jobj
  spec_constraints :: specConstraints
  spec_overrides :: specOverrides
  spec_turnPolicy :: turnPolicy
  spec_humanInteractionPolicy :: humanInteractionPolicy
  spec_localActionPolicy :: specActionPolicy
  spec_requestedBy :: "specRequestedBy option"
  spec_trigger :: teamRunTrigger
  spec_createdAt :: string

definition DEFAULT_TASK_RUN_SPEC_TURN_POLICY :: turnPolicy where
  "DEFAULT_TASK_RUN_SPEC_TURN_POLICY = \<lparr>tp_maxTurns = None, tp_stopOnStatus = [],
     tp_allowTeamInitiatedStop = True, tp_allowHumanEscalation = True\<rparr>"

definition DEFAULT_TASK_RUN_SPEC_HUMAN_INTERACTION_POLICY :: humanInteractionPolicy where
  "DEFAULT_TASK_RUN_SPEC_HUMAN_INTERACTION_POLICY = \<lparr>hip_requiredOn = [], hip_allowClarificationRequests = True,
     hip_allowApprovalRequests = True, hip_defaultBehavior = PauseByDefault\<rparr>"

definition DEFAULT_TASK_RUN_SPEC_LOCAL_ACTION_POLICY :: specActionPolicy where
  "DEFAULT_TASK_RUN_SPEC_LOCAL_ACTION_POLICY = \<lparr>sap_mode = ActionsForbidden, sap_complexityStage = BoundedCommand,
     sap_allowedActionKinds = [], sap_allowedCommands = [], sap_allowedCwdRoots = [],
     sap_resultReportingMode = SummaryOnly\<rparr>"

text \<open>\<open>z.number().int().positive().nullable().optional()\<close>\<close>

definition isPositiveInt :: "js_num option \<Rightarrow> bool" where
  "isPositiveInt n = (case n of None \<Rightarrow> True | Some (Fin q) \<Rightarrow> isIntegral q \<and> q > 0 | _ \<Rightarrow> False)"

definition TaskRunSpecConstraintsSchema :: "specConstraints \<Rightarrow> bool" where
  "TaskRunSpecConstraintsSchema c = (isPositiveInt (con_maxRuntimeMinutes c) \<and> isPositiveInt (con_maxTurns c)
     \<and> (case con_providerBudget c of None \<Rightarrow> True
         | Some b \<Rightarrow> isPositiveInt (spb_maxRequests b) \<and> isPositiveInt (spb_maxTokens b)))"

definition TaskRunSpecSchema :: "taskRunSpec \<Rightarrow> bool" where
  "TaskRunSpecSchema spec = (TaskRunSpecConstraintsSchema (spec_constraints spec)
     \<and> isPositiveInt (tp_maxTurns (spec_turnPolicy spec)))"

definition parseTaskRunSpec :: "(taskRunSpec \<Rightarrow> js_error) \<Rightarrow> taskRunSpec \<Rightarrow> taskRunSpec result" where
  "parseTaskRunSpec zodError spec = (if TaskRunSpecSchema spec then Inr spec else Inl (zodError spec))"

section \<open>Creating a spec\<close>

text \<open>\<open>Partial<...>\<close> policies.\<close>

record partialTurnPolicy =
  ptp_maxTurns :: "js_num option"
  ptp_stopOnStatus :: "turnStopStatus list option"
  ptp_allowTeamInitiatedStop :: "bool option"
  ptp_allowHumanEscalation :: "bool option"

record partialHumanPolicy =
  php_requiredOn :: "humanRequiredOn list option"
  php_allowClarificationRequests :: "bool option"
  php_allowApprovalRequests :: "bool option"
  php_defaultBehavior :: "humanDefaultBehavior option"

record partialSpecActionPolicy =
  psp_mode :: "localActionMode option"
  psp_complexityStage :: "localActionComplexityStage option"
  psp_allowedActionKinds :: "string list option"
  psp_allowedCommands :: "string list option"
  psp_allowedCwdRoots :: "string list option"
  psp_resultReportingMode :: "resultReportingMode option"

record createTaskRunSpecInput =
  cts_id :: string
  cts_teamId :: string
  cts_title :: string
  cts_objective :: string
  cts_createdAt :: string
  cts_successCriteria :: "string list option"
  cts_requestedOutputs :: "requestedOutput list option"
  cts_inputArtifacts :: "inputArtifact list option"
  cts_context :: "jobj option"
  cts_constraints :: "specConstraints option"
  cts_overrides :: "specOverrides option"
  cts_turnPolicy :: "partialTurnPolicy option"
  cts_humanInteractionPolicy :: "partialHumanPolicy option"
  cts_localActionPolicy :: "partialSpecActionPolicy option"
  cts_requestedBy :: "specRequestedBy option"
  cts_trigger :: "teamRunTrigger option"

definition buildTaskRunSpecTurnPolicy :: "partialTurnPolicy option \<Rightarrow> turnPolicy" where
  "buildTaskRunSpecTurnPolicy inp = (case inp of None \<Rightarrow> DEFAULT_TASK_RUN_SPEC_TURN_POLICY
   | Some p \<Rightarrow>
       \<lparr>tp_maxTurns = orElseOpt (ptp_maxTurns p) (tp_maxTurns DEFAULT_TASK_RUN_SPEC_TURN_POLICY),
        tp_stopOnStatus = orElse (ptp_stopOnStatus p) (tp_stopOnStatus DEFAULT_TASK_RUN_SPEC_TURN_POLICY),
        tp_allowTeamInitiatedStop = orElse (ptp_allowTeamInitiatedStop p)
          (tp_allowTeamInitiatedStop DEFAULT_TASK_RUN_SPEC_TURN_POLICY),
        tp_allowHumanEscalation = orElse (ptp_allowHumanEscalation p)
          (tp_allowHumanEscalation DEFAULT_TASK_RUN_SPEC_TURN_POLICY)\<rparr>)"

definition buildTaskRunSpecHumanInteractionPolicy :: "partialHumanPolicy option \<Rightarrow> humanInteractionPolicy" where
  "buildTaskRunSpecHumanInteractionPolicy inp = (case inp of None \<Rightarrow> DEFAULT_TASK_RUN_SPEC_HUMAN_INTERACTION_POLICY
   | Some p \<Rightarrow>
       (let d = DEFAULT_TASK_RUN_SPEC_HUMAN_INTERACTION_POLICY in
        \<lparr>hip_requiredOn = orElse (php_requiredOn p) (hip_requiredOn d),
         hip_allowClarificationRequests = orElse (php_allowClarificationRequests p) (hip_allowClarificationRequests d),
         hip_allowApprovalRequests = orElse (php_allowApprovalRequests p) (hip_allowApprovalRequests d),
         hip_defaultBehavior = orElse (php_defaultBehavior p) (hip_defaultBehavior d)\<rparr>))"

definition buildTaskRunSpecLocalActionPolicy :: "partialSpecActionPolicy option \<Rightarrow> specActionPolicy" where
  "buildTaskRunSpecLocalActionPolicy inp = (case inp of None \<Rightarrow> DEFAULT_TASK_RUN_SPEC_LOCAL_ACTION_POLICY
   | Some p \<Rightarrow>
       (let d = DEFAULT_TASK_RUN_SPEC_LOCAL_ACTION_POLICY in
        \<lparr>sap_mode = orElse (psp_mode p) (sap_mode d),
         sap_complexityStage = orElse (psp_complexityStage p) (sap_complexityStage d),
         sap_allowedActionKinds = orElse (psp_allowedActionKinds p) (sap_allowedActionKinds d),
         sap_allowedCommands = orElse (psp_allowedCommands p) (sap_allowedCommands d),
         sap_allowedCwdRoots = orElse (psp_allowedCwdRoots p) (sap_allowedCwdRoots d),
         sap_resultReportingMode = orElse (psp_resultReportingMode p) (sap_resultReportingMode d)\<rparr>))"

definition emptyConstraints :: specConstraints where
  "emptyConstraints = \<lparr>con_allowedServices = None, con_blockedServices = None, con_maxRuntimeMinutes = None,
     con_maxTurns = None, con_providerBudget = None\<rparr>"

definition emptyOverrides :: specOverrides where
  "emptyOverrides = \<lparr>ov_runtimeProfileId = None, ov_browserProfileId = None, ov_agentIds = None,
     ov_promptAppend = None, ov_structuredContext = None\<rparr>"

text \<open>
  \<open>createTaskRunSpec\<close>. The functions \<open>buildTaskRunSpecRequestedOutputs\<close>, \<open>...InputArtifacts\<close>,
  \<open>...Constraints\<close>, \<open>...Overrides\<close> and \<open>...RequestedBy\<close> copy their argument and write \<open>null\<close> for what
  is \<open>undefined\<close>; with options for both they are the identity, up to the default for no argument. The
  defaults of an input artifact apply to fields its type does not leave out.
\<close>

definition createTaskRunSpec :: "(taskRunSpec \<Rightarrow> js_error) \<Rightarrow> createTaskRunSpecInput \<Rightarrow> taskRunSpec result" where
  "createTaskRunSpec zodError inp = parseTaskRunSpec zodError
     \<lparr>spec_id = cts_id inp, spec_teamId = cts_teamId inp, spec_title = cts_title inp,
      spec_objective = cts_objective inp, spec_successCriteria = orElse (cts_successCriteria inp) [],
      spec_requestedOutputs = orElse (cts_requestedOutputs inp) [],
      spec_inputArtifacts = orElse (cts_inputArtifacts inp) [],
      spec_context = orElse (cts_context inp) [],
      spec_constraints = orElse (cts_constraints inp) emptyConstraints,
      spec_overrides = orElse (cts_overrides inp) emptyOverrides,
      spec_turnPolicy = buildTaskRunSpecTurnPolicy (cts_turnPolicy inp),
      spec_humanInteractionPolicy = buildTaskRunSpecHumanInteractionPolicy (cts_humanInteractionPolicy inp),
      spec_localActionPolicy = buildTaskRunSpecLocalActionPolicy (cts_localActionPolicy inp),
      spec_requestedBy = cts_requestedBy inp,
      spec_trigger = orElse (cts_trigger inp) TrigService,
      spec_createdAt = cts_createdAt inp\<rparr>"

section \<open>The bounded spec\<close>

datatype responseFormat = RespondText | RespondMarkdown | RespondJson

fun formatOfResponse :: "responseFormat \<Rightarrow> requestedOutputFormat" where
  "formatOfResponse RespondText = TextFormat"
| "formatOfResponse RespondMarkdown = MarkdownFormat"
| "formatOfResponse RespondJson = JsonFormat"

record boundedActionPolicy =
  bap_allowedShellCommands :: "string list option"
  bap_allowedCwdRoots :: "string list option"
  bap_mode :: "localActionMode option"

record buildBoundedInput =
  bbi_nowIso :: string
  bbi_taskRunSpecId :: string
  bbi_teamId :: string
  bbi_objective :: string
  bbi_title :: "string option"
  bbi_promptAppend :: "string option"
  bbi_structuredContext :: "jobj option"
  bbi_responseFormat :: "responseFormat option"
  bbi_outputContract :: "string option"
  bbi_maxTurns :: "js_num option"
  bbi_localActionPolicy :: "boundedActionPolicy option"
  bbi_context :: "jobj option"
  bbi_requestedBy :: "specRequestedBy option"
  bbi_trigger :: "teamRunTrigger option"

definition mergeStructuredContextWithOutputContract :: "jobj option \<Rightarrow> string option \<Rightarrow> jobj option" where
  "mergeStructuredContextWithOutputContract context outputContract =
     (case truthyText outputContract of
        None \<Rightarrow> context
      | Some c \<Rightarrow> Some (objSet ''outputContract'' (JStr c) (orElse context [])))"

definition boundedTitle :: "string option \<Rightarrow> string \<Rightarrow> string" where
  "boundedTitle title objective = (case trimmedName title of
     Some t \<Rightarrow> t
   | None \<Rightarrow> if length objective \<le> 80 then objective else take 77 objective @ ''...'')"

definition boundedTurnPolicy :: "js_num option \<Rightarrow> partialTurnPolicy option" where
  "boundedTurnPolicy maxTurns = (case maxTurns of
     Some (Fin q) \<Rightarrow> if q > 0
       then Some \<lparr>ptp_maxTurns = Some (Fin (of_int (jsTrunc q))), ptp_stopOnStatus = None,
              ptp_allowTeamInitiatedStop = None, ptp_allowHumanEscalation = None\<rparr>
       else None
   | _ \<Rightarrow> None)"

definition boundedActions :: "boundedActionPolicy option \<Rightarrow> partialSpecActionPolicy option" where
  "boundedActions inp = (case inp of None \<Rightarrow> None
   | Some p \<Rightarrow> (case bap_allowedShellCommands p of
       Some (c # cs) \<Rightarrow> Some
         \<lparr>psp_mode = Some (if bap_mode p = Some ActionsNeedApproval then ActionsNeedApproval else ActionsAllowed),
          psp_complexityStage = Some BoundedCommand, psp_allowedActionKinds = Some [''shell''],
          psp_allowedCommands = Some (c # cs), psp_allowedCwdRoots = Some (orElse (bap_allowedCwdRoots p) []),
          psp_resultReportingMode = Some SummaryOnly\<rparr>
     | _ \<Rightarrow> None))"

definition buildBoundedTeamTaskRunSpec :: "(taskRunSpec \<Rightarrow> js_error) \<Rightarrow> buildBoundedInput \<Rightarrow> taskRunSpec result" where
  "buildBoundedTeamTaskRunSpec zodError inp =
     (let objective = trim (bbi_objective inp)
      in createTaskRunSpec zodError
        \<lparr>cts_id = bbi_taskRunSpecId inp, cts_teamId = bbi_teamId inp, cts_title = boundedTitle (bbi_title inp) objective,
         cts_objective = objective, cts_createdAt = bbi_nowIso inp,
         cts_successCriteria = Some [''Complete the assignment objective: '' @ objective],
         cts_requestedOutputs = Some
           [\<lparr>rqo_kind = FinalResponse, rqo_label = ''final-response'',
             rqo_format = formatOfResponse (orElse (bbi_responseFormat inp) RespondMarkdown), rqo_required = True,
             rqo_schemaHint = None, rqo_destination = ResponseBody\<rparr>],
         cts_inputArtifacts = Some [], cts_context = Some (orElse (bbi_context inp) []), cts_constraints = None,
         cts_overrides = Some (emptyOverrides\<lparr>ov_promptAppend := bbi_promptAppend inp,
           ov_structuredContext := mergeStructuredContextWithOutputContract (bbi_structuredContext inp)
             (bbi_outputContract inp)\<rparr>),
         cts_turnPolicy = boundedTurnPolicy (bbi_maxTurns inp),
         cts_humanInteractionPolicy = None, cts_localActionPolicy = boundedActions (bbi_localActionPolicy inp),
         cts_requestedBy = bbi_requestedBy inp, cts_trigger = Some (orElse (bbi_trigger inp) TrigService)\<rparr>)"

section \<open>The record store\<close>

record specStoredRecord =
  ssr_taskRunSpecId :: string
  ssr_revision :: nat
  ssr_persistedAt :: string
  ssr_spec :: taskRunSpec

text \<open>The files of a spec, by its identifier: \<open>None\<close> is a missing file, an error what reading and parsing
  a damaged one throws.\<close>

record specFs =
  sfs_records :: "string \<Rightarrow> specStoredRecord result option"
  sfs_specs :: "string \<Rightarrow> taskRunSpec result option"

definition readTaskRunSpecStoredRecord ::
  "(taskRunSpec \<Rightarrow> js_error) \<Rightarrow> specFs \<Rightarrow> string \<Rightarrow> specStoredRecord option result" where
  "readTaskRunSpecStoredRecord zodError fs i = (case sfs_records fs i of
     None \<Rightarrow> Inr None
   | Some (Inl e) \<Rightarrow> Inl e
   | Some (Inr r) \<Rightarrow> (case parseTaskRunSpec zodError (ssr_spec r) of Inl e \<Rightarrow> Inl e | Inr _ \<Rightarrow> Inr (Some r)))"

definition readTaskRunSpec :: "(taskRunSpec \<Rightarrow> js_error) \<Rightarrow> specFs \<Rightarrow> string \<Rightarrow> taskRunSpec option result" where
  "readTaskRunSpec zodError fs i = (case readTaskRunSpecStoredRecord zodError fs i of
     Inl e \<Rightarrow> Inl e
   | Inr (Some r) \<Rightarrow> Inr (Some (ssr_spec r))
   | Inr None \<Rightarrow> (case sfs_specs fs i of
       None \<Rightarrow> Inr None
     | Some (Inl e) \<Rightarrow> Inl e
     | Some (Inr spec) \<Rightarrow> (case parseTaskRunSpec zodError spec of Inl e \<Rightarrow> Inl e | Inr _ \<Rightarrow> Inr (Some spec))))"

definition specRevisionMismatch :: "string \<Rightarrow> nat \<Rightarrow> nat \<Rightarrow> js_error" where
  "specRevisionMismatch i expected found = PlainError (''Task run spec '' @ i @ '' revision mismatch: expected ''
     @ natToStr expected @ '', found '' @ natToStr found)"

definition writeTaskRunSpecStoredRecord ::
  "(taskRunSpec \<Rightarrow> js_error) \<Rightarrow> taskRunSpec \<Rightarrow> nat option \<Rightarrow> string option \<Rightarrow> (specFs, specStoredRecord) io" where
  "writeTaskRunSpecStoredRecord zodError spec expectedRevision persistedAt = (\<lambda>fs.
     case parseTaskRunSpec zodError spec of Inl e \<Rightarrow> (Inl e, fs) | Inr parsed \<Rightarrow>
     (case readTaskRunSpecStoredRecord zodError fs (spec_id parsed) of Inl e \<Rightarrow> (Inl e, fs) | Inr existing \<Rightarrow>
       (let current = (case existing of None \<Rightarrow> 0 | Some r \<Rightarrow> ssr_revision r);
            next = \<lparr>ssr_taskRunSpecId = spec_id parsed, ssr_revision = current + 1,
              ssr_persistedAt = orElse persistedAt (spec_createdAt parsed), ssr_spec = parsed\<rparr>
        in case expectedRevision of
             Some expected \<Rightarrow> if current \<noteq> expected then (Inl (specRevisionMismatch (spec_id parsed) expected current), fs)
               else (Inr next, fs\<lparr>sfs_records := (sfs_records fs)(spec_id parsed \<mapsto> Inr next),
                 sfs_specs := (sfs_specs fs)(spec_id parsed \<mapsto> Inr parsed)\<rparr>)
           | None \<Rightarrow> (Inr next, fs\<lparr>sfs_records := (sfs_records fs)(spec_id parsed \<mapsto> Inr next),
                 sfs_specs := (sfs_specs fs)(spec_id parsed \<mapsto> Inr parsed)\<rparr>))))"

record specSummary =
  ssm_id :: string
  ssm_teamId :: string
  ssm_title :: string
  ssm_objective :: string
  ssm_createdAt :: string
  ssm_persistedAt :: string
  ssm_requestedOutputCount :: nat
  ssm_inputArtifactCount :: nat

definition summarizeTaskRunSpecStoredRecord :: "specStoredRecord \<Rightarrow> specSummary" where
  "summarizeTaskRunSpecStoredRecord r =
     \<lparr>ssm_id = spec_id (ssr_spec r), ssm_teamId = spec_teamId (ssr_spec r), ssm_title = spec_title (ssr_spec r),
      ssm_objective = spec_objective (ssr_spec r), ssm_createdAt = spec_createdAt (ssr_spec r),
      ssm_persistedAt = ssr_persistedAt r, ssm_requestedOutputCount = length (spec_requestedOutputs (ssr_spec r)),
      ssm_inputArtifactCount = length (spec_inputArtifacts (ssr_spec r))\<rparr>"

definition readTaskRunSpecInspectionSummary ::
  "(taskRunSpec \<Rightarrow> js_error) \<Rightarrow> specFs \<Rightarrow> string \<Rightarrow> specSummary option result" where
  "readTaskRunSpecInspectionSummary zodError fs i =
     (case readTaskRunSpecStoredRecord zodError fs i of Inl e \<Rightarrow> Inl e
      | Inr r \<Rightarrow> Inr (map_option summarizeTaskRunSpecStoredRecord r))"

section \<open>What the store and the builders keep\<close>

definition storedSpecRevision :: "(taskRunSpec \<Rightarrow> js_error) \<Rightarrow> specFs \<Rightarrow> string \<Rightarrow> nat" where
  "storedSpecRevision zodError fs i =
     (case readTaskRunSpecStoredRecord zodError fs i of Inr (Some r) \<Rightarrow> ssr_revision r | _ \<Rightarrow> 0)"

lemma write_spec_cases:
  assumes "writeTaskRunSpecStoredRecord zodError spec expected persistedAt fs = (Inr r, fs')"
  shows "TaskRunSpecSchema spec \<and> ssr_spec r = spec \<and> readTaskRunSpecStoredRecord zodError fs' (spec_id spec) = Inr (Some r)
    \<and> readTaskRunSpec zodError fs' (spec_id spec) = Inr (Some spec)
    \<and> ssr_revision r = storedSpecRevision zodError fs (spec_id spec) + 1"
  using assms
  by (auto simp: storedSpecRevision_def writeTaskRunSpecStoredRecord_def readTaskRunSpecStoredRecord_def readTaskRunSpec_def parseTaskRunSpec_def
      Let_def split: if_splits option.splits sum.splits)

lemma refused_spec_changes_nothing:
  "writeTaskRunSpecStoredRecord zodError spec expected persistedAt fs = (Inl e, fs') \<Longrightarrow> fs' = fs"
  by (auto simp: writeTaskRunSpecStoredRecord_def Let_def split: if_splits option.splits sum.splits)

lemma bounded_spec_schema:
  "isPositiveInt (tp_maxTurns (buildTaskRunSpecTurnPolicy (boundedTurnPolicy maxTurns)))
   \<longleftrightarrow> (\<forall>q. maxTurns = Some (Fin q) \<longrightarrow> q \<le> 0 \<or> 1 \<le> q)"
  by (auto simp: boundedTurnPolicy_def buildTaskRunSpecTurnPolicy_def isPositiveInt_def isIntegral_def orElseOpt_def
      jsTrunc_def DEFAULT_TASK_RUN_SPEC_TURN_POLICY_def split: option.splits js_num.splits)

text \<open>The one input the builder does not accept is a turn limit between 0 and 1, which passes its own test
  and is truncated to 0, which the schema refuses.\<close>

lemma bounded_spec_accepted_iff:
  "(\<exists>spec. buildBoundedTeamTaskRunSpec zodError inp = Inr spec)
   \<longleftrightarrow> (\<forall>q. bbi_maxTurns inp = Some (Fin q) \<longrightarrow> q \<le> 0 \<or> 1 \<le> q)"
  using bounded_spec_schema [of "bbi_maxTurns inp"]
  by (simp add: buildBoundedTeamTaskRunSpec_def createTaskRunSpec_def parseTaskRunSpec_def TaskRunSpecSchema_def
      TaskRunSpecConstraintsSchema_def emptyConstraints_def Let_def) (simp add: isPositiveInt_def)

end
