(* ===== verification/Team_Planning.thy ===== *)
theory Team_Planning
  imports Team_Spec Responses
begin

text \<open>
  The planning of a team run (\<open>src/teams/model.ts\<close>): the steps of the members of a team, or of its
  configured roles, for an assignment, whether each can run, what it is prompted with, the handoffs
  between them, and the bundle of the team run. The schema of a team configuration
  (\<open>src/schema/types.ts\<close>) is a predicate on its object; \<open>cmp\<close> is \<open>String.prototype.localeCompare\<close> and
  \<open>fracText\<close> prints a number that is not an integer.
\<close>

section \<open>Values in structured data\<close>

definition requestedOutputValue :: "requestedOutput \<Rightarrow> json" where
  "requestedOutputValue rq = JObj
     [(''kind'', JStr (outputKindText (rqo_kind rq))), (''label'', JStr (rqo_label rq)),
      (''format'', JStr (outputFormatText (rqo_format rq))), (''required'', JBool (rqo_required rq)),
      (''schemaHint'', jsStrOrNull (rqo_schemaHint rq)), (''destination'', JStr (destinationText (rqo_destination rq)))]"

definition servicesValue :: "serviceId option list option \<Rightarrow> json" where
  "servicesValue ss = (case ss of None \<Rightarrow> JNull | Some xs \<Rightarrow> JArr (map (\<lambda>s. jsStrOrNull (map_option serviceText s)) xs))"

definition constraintsValue :: "specConstraints \<Rightarrow> json" where
  "constraintsValue c = JObj
     [(''allowedServices'', servicesValue (con_allowedServices c)),
      (''blockedServices'', servicesValue (map_option (map Some) (con_blockedServices c))),
      (''maxRuntimeMinutes'', numberOrNull (con_maxRuntimeMinutes c)), (''maxTurns'', numberOrNull (con_maxTurns c)),
      (''providerBudget'', case con_providerBudget c of None \<Rightarrow> JNull
        | Some b \<Rightarrow> JObj [(''maxRequests'', numberOrNull (spb_maxRequests b)), (''maxTokens'', numberOrNull (spb_maxTokens b))])]"

definition overridesValue :: "specOverrides \<Rightarrow> json" where
  "overridesValue ov = JObj
     [(''runtimeProfileId'', jsStrOrNull (ov_runtimeProfileId ov)), (''browserProfileId'', jsStrOrNull (ov_browserProfileId ov)),
      (''agentIds'', case ov_agentIds ov of None \<Rightarrow> JNull | Some xs \<Rightarrow> jsStrs xs),
      (''promptAppend'', jsStrOrNull (ov_promptAppend ov)), (''structuredContext'', jsObjOrNull (ov_structuredContext ov))]"

definition turnPolicyValue :: "turnPolicy \<Rightarrow> json" where
  "turnPolicyValue p = JObj
     [(''maxTurns'', numberOrNull (tp_maxTurns p)), (''stopOnStatus'', jsStrs (map turnStopStatusText (tp_stopOnStatus p))),
      (''allowTeamInitiatedStop'', JBool (tp_allowTeamInitiatedStop p)),
      (''allowHumanEscalation'', JBool (tp_allowHumanEscalation p))]"

definition humanPolicyValue :: "humanInteractionPolicy \<Rightarrow> json" where
  "humanPolicyValue p = JObj
     [(''requiredOn'', jsStrs (map humanRequiredOnText (hip_requiredOn p))),
      (''allowClarificationRequests'', JBool (hip_allowClarificationRequests p)),
      (''allowApprovalRequests'', JBool (hip_allowApprovalRequests p)),
      (''defaultBehavior'', JStr (humanDefaultText (hip_defaultBehavior p)))]"

definition actionPolicyValue :: "specActionPolicy \<Rightarrow> json" where
  "actionPolicyValue p = JObj
     [(''mode'', JStr (localActionModeText (sap_mode p))), (''complexityStage'', JStr (complexityStageText (sap_complexityStage p))),
      (''allowedActionKinds'', jsStrs (sap_allowedActionKinds p)), (''allowedCommands'', jsStrs (sap_allowedCommands p)),
      (''allowedCwdRoots'', jsStrs (sap_allowedCwdRoots p)),
      (''resultReportingMode'', JStr (reportingModeText (sap_resultReportingMode p)))]"

text \<open>The structured data every step of an assignment carries.\<close>

definition assignmentData :: "taskRunSpec \<Rightarrow> jobj" where
  "assignmentData spec =
     [(''taskRunSpecId'', JStr (spec_id spec)), (''taskTitle'', JStr (spec_title spec)),
      (''taskObjective'', JStr (spec_objective spec)), (''taskContext'', JObj (spec_context spec)),
      (''successCriteria'', jsStrs (spec_successCriteria spec)),
      (''requestedOutputs'', JArr (map requestedOutputValue (spec_requestedOutputs spec))),
      (''constraints'', constraintsValue (spec_constraints spec)),
      (''overrides'', overridesValue (spec_overrides spec)),
      (''turnPolicy'', turnPolicyValue (spec_turnPolicy spec)),
      (''humanInteractionPolicy'', humanPolicyValue (spec_humanInteractionPolicy spec)),
      (''localActionPolicy'', actionPolicyValue (spec_localActionPolicy spec)),
      (''taskOverrideStructuredContext'', jsObjOrNull (ov_structuredContext (spec_overrides spec)))]"

section \<open>Steps and the bundle\<close>

record partialStepInput =
  psi_prompt :: "string option"
  psi_handoffIds :: "string list option"
  psi_artifacts :: "artifactRef list option"
  psi_structuredData :: "jobj option"
  psi_notes :: "string list option"

record createTeamRunStepInput =
  cti_id :: string
  cti_agentId :: string
  cti_runtimeProfileId :: "string option"
  cti_browserProfileId :: "string option"
  cti_service :: "serviceId option"
  cti_kind :: "teamRunStepKind option"
  cti_status :: "teamRunStepStatus option"
  cti_order :: int
  cti_dependsOnStepIds :: "string list option"
  cti_input :: "partialStepInput option"

definition buildStepInput :: "partialStepInput option \<Rightarrow> stepInput" where
  "buildStepInput inp = (case inp of
     None \<Rightarrow> \<lparr>in_prompt = None, in_handoffIds = [], in_artifacts = [], in_structuredData = [], in_notes = []\<rparr>
   | Some p \<Rightarrow> \<lparr>in_prompt = psi_prompt p, in_handoffIds = orElse (psi_handoffIds p) [],
       in_artifacts = orElse (psi_artifacts p) [], in_structuredData = orElse (psi_structuredData p) [],
       in_notes = orElse (psi_notes p) []\<rparr>)"

definition createTeamRunStep :: "string \<Rightarrow> createTeamRunStepInput \<Rightarrow> teamRunStep" where
  "createTeamRunStep teamRunId inp =
     \<lparr>tstep_id = cti_id inp, tstep_teamRunId = teamRunId, tstep_agentId = cti_agentId inp,
      tstep_runtimeProfileId = cti_runtimeProfileId inp, tstep_browserProfileId = cti_browserProfileId inp,
      tstep_service = cti_service inp, tstep_kind = orElse (cti_kind inp) KPrompt,
      tstep_status = orElse (cti_status inp) TStepPlanned, tstep_order = cti_order inp,
      tstep_dependsOnStepIds = orElse (cti_dependsOnStepIds inp) [], tstep_input = buildStepInput (cti_input inp),
      tstep_output = None, tstep_startedAt = None, tstep_completedAt = None, tstep_failure = None\<rparr>"

definition createTeamRunSharedState :: "string \<Rightarrow> string \<Rightarrow> string \<Rightarrow> teamSharedState" where
  "createTeamRunSharedState i teamRunId createdAt =
     \<lparr>tss_id = i, tss_teamRunId = teamRunId, tss_status = StateActive, tss_artifacts = [], tss_structuredOutputs = [],
      tss_notes = [], tss_history = [], tss_lastUpdatedAt = createdAt\<rparr>"

text \<open>The contract of an assignment as the structured data of a step holds it.\<close>

definition transferOutputValue :: "json \<Rightarrow> json" where
  "transferOutputValue v =
     (let candidate = orElse (asRecord (Some v)) []
      in JObj [(''label'', jsStrOrNull (asString (jprop candidate ''label''))),
        (''kind'', jsStrOrNull (asString (jprop candidate ''kind''))),
        (''destination'', jsStrOrNull (asString (jprop candidate ''destination''))),
        (''required'', JBool (jprop candidate ''required'' = Some (JBool True)))])"

definition transferArtifactValue :: "artifactRef \<Rightarrow> json" where
  "transferArtifactValue a = JObj
     [(''id'', JStr (art_id a)), (''kind'', JStr (art_kind a)), (''title'', jsStrOrNull (art_title a)),
      (''path'', jsStrOrNull (art_path a)), (''uri'', jsStrOrNull (art_uri a))]"

definition readTaskTransferContract :: "teamRunStep option \<Rightarrow> json option" where
  "readTaskTransferContract st = (case st of None \<Rightarrow> None | Some s \<Rightarrow>
     (let d = in_structuredData (tstep_input s);
          title = asString (jprop d ''taskTitle'');
          objective = asString (jprop d ''taskObjective'');
          successCriteria = (case asArray (jprop d ''successCriteria'') of None \<Rightarrow> [] | Some vs \<Rightarrow> strings vs);
          requestedOutputs = (case asArray (jprop d ''requestedOutputs'') of None \<Rightarrow> [] | Some vs \<Rightarrow> map transferOutputValue vs);
          inputArtifacts = map transferArtifactValue (in_artifacts (tstep_input s))
      in if truthyText title = None \<and> truthyText objective = None \<and> successCriteria = [] \<and> requestedOutputs = []
            \<and> inputArtifacts = [] then None
         else Some (JObj [(''title'', jsStrOrNull title), (''objective'', jsStrOrNull objective),
           (''successCriteria'', jsStrs successCriteria), (''requestedOutputs'', JArr requestedOutputs),
           (''inputArtifacts'', JArr inputArtifacts)])))"

definition plannedHandoff :: "teamRun \<Rightarrow> teamRunStep list \<Rightarrow> teamRunStep \<Rightarrow> nat \<times> string \<Rightarrow> handoff" where
  "plannedHandoff tr steps s target =
     (let (index, fromStepId) = target;
          d = in_structuredData (tstep_input s);
          fromStep = find (\<lambda>c. tstep_id c = fromStepId) steps;
          roleTarget = (case asString (jprop d ''handoffToRoleId'') of Some r \<Rightarrow> '' -> '' @ r | None \<Rightarrow> [])
      in \<lparr>ho_id = trun_id tr @ '':handoff:'' @ tstep_id s @ '':'' @ natToStr (index + 1), ho_teamRunId = trun_id tr,
          ho_fromStepId = fromStepId, ho_toStepId = tstep_id s,
          ho_fromAgentId = (case fromStep of Some f \<Rightarrow> tstep_agentId f | None \<Rightarrow> ''(unknown)''),
          ho_toAgentId = tstep_agentId s,
          ho_summary = trim (''Planned handoff for '' @ trun_id tr @ roleTarget), ho_artifacts = [],
          ho_structuredData = [(''taskRunSpecId'', jsStrOrNull (trun_taskRunSpecId tr)),
              (''toRoleId'', jsStrOrNull (asString (jprop d ''roleId'')))]
            @ (case readTaskTransferContract fromStep of None \<Rightarrow> [] | Some t \<Rightarrow> [(''taskTransfer'', t)]),
          ho_notes = [''planned handoff derived from team step dependencies''],
          ho_status = Prepared, ho_createdAt = trun_createdAt tr\<rparr>)"

definition createPlannedTeamRunHandoffs :: "teamRun \<Rightarrow> teamRunStep list \<Rightarrow> handoff list" where
  "createPlannedTeamRunHandoffs tr steps = concat (map (\<lambda>s.
     map (plannedHandoff tr steps s)
       (enumerate 0 (filter (\<lambda>d. d \<in> set (map tstep_id steps)) (tstep_dependsOnStepIds s)))) steps)"

record teamRunBundle =
  trb_teamRun :: teamRun
  trb_steps :: "teamRunStep list"
  trb_handoffs :: "handoff list"
  trb_localActionRequests :: "localActionRequest list"
  trb_sharedState :: teamSharedState

record createTeamRunBundleInput =
  ctb_runId :: string
  ctb_teamId :: string
  ctb_taskRunSpecId :: "string option"
  ctb_sharedStateId :: "string option"
  ctb_createdAt :: string
  ctb_updatedAt :: "string option"
  ctb_trigger :: "teamRunTrigger option"
  ctb_requestedBy :: "string option"
  ctb_entryPrompt :: "string option"
  ctb_initialInputs :: "jobj option"
  ctb_steps :: "createTeamRunStepInput list"
  ctb_handoffs :: "handoff list option"
  ctb_localActionRequests :: "createLocalActionRequestInput list option"

definition ctiLe :: "createTeamRunStepInput \<Rightarrow> createTeamRunStepInput \<Rightarrow> bool" where
  "ctiLe l r = (cti_order l - cti_order r \<le> 0)"

interpretation ctiSort: comparator ctiLe
  by unfold_locales (auto simp: ctiLe_def)

definition createTeamRunBundle :: "createTeamRunBundleInput \<Rightarrow> teamRunBundle" where
  "createTeamRunBundle inp =
     (let steps = map (createTeamRunStep (ctb_runId inp)) (sortBy ctiLe (ctb_steps inp));
          shared = createTeamRunSharedState (orElse (ctb_sharedStateId inp) (ctb_runId inp @ '':state''))
            (ctb_runId inp) (ctb_createdAt inp);
          tr = \<lparr>trun_id = ctb_runId inp, trun_teamId = ctb_teamId inp, trun_taskRunSpecId = ctb_taskRunSpecId inp,
            trun_status = RunPlanned, trun_createdAt = ctb_createdAt inp,
            trun_updatedAt = orElse (ctb_updatedAt inp) (ctb_createdAt inp),
            trun_trigger = orElse (ctb_trigger inp) TrigService, trun_requestedBy = ctb_requestedBy inp,
            trun_entryPrompt = ctb_entryPrompt inp, trun_initialInputs = orElse (ctb_initialInputs inp) [],
            trun_sharedStateId = tss_id shared, trun_stepIds = map tstep_id steps,
            trun_policy = DEFAULT_TEAM_RUN_EXECUTION_POLICY\<rparr>
      in \<lparr>trb_teamRun = tr, trb_steps = steps,
          trb_handoffs = (case ctb_handoffs inp of
            Some hs \<Rightarrow> map (\<lambda>h. h\<lparr>ho_teamRunId := trun_id tr\<rparr>) hs
          | None \<Rightarrow> createPlannedTeamRunHandoffs tr steps),
          trb_localActionRequests = map (\<lambda>q. createTeamRunLocalActionRequest (q\<lparr>clr_teamRunId := trun_id tr\<rparr>))
            (orElse (ctb_localActionRequests inp) []),
          trb_sharedState = shared\<rparr>)"

section \<open>Roles\<close>

record teamRole =
  role_id :: string
  role_agentId :: string
  role_order :: int
  role_instructions :: "string option"
  role_responseShape :: "jobj option"
  role_stepKind :: "teamRunStepKind option"
  role_handoffToRoleId :: "string option"

fun stepKindText :: "teamRunStepKind \<Rightarrow> string" where
  "stepKindText KPrompt = ''prompt''"
| "stepKindText KAnalysis = ''analysis''"
| "stepKindText KHandoff = ''handoff''"
| "stepKindText KReview = ''review''"
| "stepKindText KSynthesis = ''synthesis''"

definition optionalLiteral :: "string list \<Rightarrow> json option \<Rightarrow> bool" where
  "optionalLiteral ks v = (v = None \<or> list_ex (\<lambda>k. v = Some (JStr k)) ks)"

definition optionalBool :: "json option \<Rightarrow> bool" where
  "optionalBool v = (v = None \<or> asBool v \<noteq> None)"

definition optionalOrder :: "json option \<Rightarrow> bool" where
  "optionalOrder v = (v = None \<or> positiveInteger v \<noteq> None)"

definition TeamRoleConfigSchema :: "jobj \<Rightarrow> bool" where
  "TeamRoleConfigSchema r = (isText (jprop r ''agent'') \<and> optionalOrder (jprop r ''order'')
     \<and> isOptional isText (jprop r ''instructions'') \<and> isOptional isRecord (jprop r ''responseShape'')
     \<and> optionalLiteral (map stepKindText [KPrompt, KAnalysis, KHandoff, KReview, KSynthesis]) (jprop r ''stepKind'')
     \<and> isOptional isText (jprop r ''handoffToRole''))"

definition TeamDispatchConfigSchema :: "jobj \<Rightarrow> bool" where
  "TeamDispatchConfigSchema r =
     (optionalLiteral [''next_available''] (jprop r ''mode'') \<and> optionalLiteral [''none''] (jprop r ''projectSync''))"

definition TeamProjectConfigSchema :: "jobj \<Rightarrow> bool" where
  "TeamProjectConfigSchema r =
     (trimmedName (asString (jprop r ''name'')) \<noteq> None \<and> optionalBool (jprop r ''createIfMissing'')
      \<and> optionalLiteral [''none''] (jprop r ''sync''))"

definition TeamConfigSchema :: "jobj \<Rightarrow> bool" where
  "TeamConfigSchema r =
     (optionalLiteral [''workflow'', ''dispatch-pool''] (jprop r ''type'')
      \<and> isOptional (isArrayOf isJStr) (jprop r ''agents'') \<and> isOptional isText (jprop r ''description'')
      \<and> isOptional isText (jprop r ''instructions'') \<and> isOptional (isObjectOf TeamDispatchConfigSchema) (jprop r ''dispatch'')
      \<and> isOptional (isObjectOf TeamProjectConfigSchema) (jprop r ''project'')
      \<and> isOptional (isObjectOf (list_all (\<lambda>(k, v). isObjectOf TeamRoleConfigSchema (Some v)))) (jprop r ''roles'')
      \<and> isOptional isRecord (jprop r ''metadata''))"

definition MAX_SAFE_INTEGER :: int where "MAX_SAFE_INTEGER = 9007199254740991"

definition roleOf :: "string \<times> json \<Rightarrow> teamRole" where
  "roleOf entry =
     (let r = orElse (asRecord (Some (snd entry))) []
      in \<lparr>role_id = fst entry, role_agentId = orElse (asString (jprop r ''agent'')) [],
          role_order = orElse (positiveInteger (jprop r ''order'')) MAX_SAFE_INTEGER,
          role_instructions = asString (jprop r ''instructions''), role_responseShape = asRecord (jprop r ''responseShape''),
          role_stepKind = find (\<lambda>k. jprop r ''stepKind'' = Some (JStr (stepKindText k)))
            [KPrompt, KAnalysis, KHandoff, KReview, KSynthesis],
          role_handoffToRoleId = asString (jprop r ''handoffToRole'')\<rparr>)"

definition roleLe :: "(string \<Rightarrow> string \<Rightarrow> int) \<Rightarrow> teamRole \<Rightarrow> teamRole \<Rightarrow> bool" where
  "roleLe cmp l r = (role_order l - role_order r < 0
     \<or> role_order l - role_order r = 0 \<and> cmp (role_id l) (role_id r) \<le> 0)"

definition parseTeamRolePlanningConfigs :: "(string \<Rightarrow> string \<Rightarrow> int) \<Rightarrow> jobj option \<Rightarrow> teamRole list" where
  "parseTeamRolePlanningConfigs cmp teamConfig = (case teamConfig of None \<Rightarrow> []
   | Some config \<Rightarrow>
       if \<not> TeamConfigSchema config then []
       else case asRecord (jprop config ''roles'') of None \<Rightarrow> []
         | Some roles \<Rightarrow> sortBy (roleLe cmp) (map roleOf roles))"

section \<open>The prompt\<close>

definition inferStepKindForTaskRunSpec :: "nat \<Rightarrow> nat \<Rightarrow> taskRunSpec \<Rightarrow> teamRunStepKind" where
  "inferStepKindForTaskRunSpec index memberCount spec =
     (if memberCount \<le> 1 then (if spec_requestedOutputs spec \<noteq> [] then KSynthesis else KAnalysis)
      else if index = 0 then KAnalysis
      else if index = memberCount - 1 then KSynthesis
      else KReview)"

definition formatList :: "string list \<Rightarrow> string" where
  "formatList vs = (if vs \<noteq> [] then joinWith ''; '' vs else ''(none)'')"

definition formatRequestedOutputs :: "requestedOutput list \<Rightarrow> string" where
  "formatRequestedOutputs outputs = formatList (map (\<lambda>rq.
     rqo_label rq @ '' ['' @ outputKindText (rqo_kind rq) @ '' format='' @ outputFormatText (rqo_format rq)
     @ (if rqo_required rq then '' required'' else '' optional'')
     @ '' destination='' @ destinationText (rqo_destination rq) @ '']'') outputs)"

definition formatInputArtifacts :: "inputArtifact list \<Rightarrow> string" where
  "formatInputArtifacts artifacts = formatList (map ina_title artifacts)"

definition roleNote :: "nat \<Rightarrow> nat \<Rightarrow> string" where
  "roleNote index memberCount =
     (if memberCount \<le> 1 then ''Execute this assignment and produce the requested outputs.''
      else if index = 0 then ''Analyze the assignment, frame the work clearly, and prepare the next member handoff.''
      else if index = memberCount - 1 then ''Use prior team state to produce the final requested outputs for this assignment.''
      else ''Continue the assignment using prior team state and produce a handoff-ready update.'')"

definition promptLine :: "string \<Rightarrow> string option \<Rightarrow> string list" where
  "promptLine label v = (case truthyText v of None \<Rightarrow> [] | Some t \<Rightarrow> [label @ t])"

definition buildTaskRunSpecPrompt ::
  "(rat \<Rightarrow> string) \<Rightarrow> taskRunSpec \<Rightarrow> nat \<Rightarrow> nat \<Rightarrow> string option \<Rightarrow> string option \<Rightarrow> jobj option \<Rightarrow> string" where
  "buildTaskRunSpecPrompt fracText spec index memberCount teamInstructions roleInstructions responseShape =
     joinWith newline
       ([''Assignment: '' @ spec_title spec, ''Objective: '' @ spec_objective spec,
         ''Success criteria: '' @ formatList (spec_successCriteria spec),
         ''Requested outputs: '' @ formatRequestedOutputs (spec_requestedOutputs spec),
         ''Input artifacts: '' @ formatInputArtifacts (spec_inputArtifacts spec),
         ''Role guidance: '' @ roleNote index memberCount]
        @ promptLine ''Team instructions: '' teamInstructions
        @ promptLine ''Role instructions: '' roleInstructions
        @ (case responseShape of Some (kv # kvs) \<Rightarrow>
             [''Response shape hint: '' @ jsonStringify fracText (JObj (kv # kvs))] | _ \<Rightarrow> [])
        @ promptLine ''Task override: '' (ov_promptAppend (spec_overrides spec)))"

section \<open>Who may execute\<close>

definition buildTaskRunSpecAgentFilter :: "taskRunSpec \<Rightarrow> string list option" where
  "buildTaskRunSpecAgentFilter spec =
     (let agentIds = filter (\<lambda>a. trim a \<noteq> []) (orElse (ov_agentIds (spec_overrides spec)) [])
      in if agentIds \<noteq> [] then Some agentIds else None)"

record executionSelection =
  es_runtimeProfileId :: "string option"
  es_browserProfileId :: "string option"
  es_service :: "serviceId option"
  es_reason :: "string option"

definition selectionOfOverride :: "jobj \<Rightarrow> string \<Rightarrow> string option \<Rightarrow> string option \<Rightarrow> executionSelection" where
  "selectionOfOverride config requestedRuntime requestedBrowser agentId =
     (let override = resolveRuntimeSelection config (Some requestedRuntime) agentId in
      if truthyText (rs_runtimeProfileId override) = None
      then \<lparr>es_runtimeProfileId = None, es_browserProfileId = None, es_service = None,
        es_reason = Some (''blocked because taskRunSpec runtimeProfileId could not resolve ('' @ requestedRuntime @ '')'')\<rparr>
      else
        \<lparr>es_runtimeProfileId = rs_runtimeProfileId override, es_browserProfileId = rs_browserProfileId override,
         es_service = rs_defaultService override,
         es_reason = (case requestedBrowser of
           Some b \<Rightarrow> if rs_browserProfileId override \<noteq> Some b
             then Some (''blocked because taskRunSpec browserProfileId ('' @ b
               @ '') does not match the selected runtime profile browser profile (''
               @ orElse (rs_browserProfileId override) ''none'' @ '')'')
             else None
         | None \<Rightarrow> None)\<rparr>)"

definition resolveTaskRunSpecExecutionSelection ::
  "jobj option \<Rightarrow> taskRunSpec \<Rightarrow> string option \<Rightarrow> string option \<Rightarrow> string option \<Rightarrow> serviceId option \<Rightarrow> executionSelection" where
  "resolveTaskRunSpecExecutionSelection config spec agentId runtimeProfileId browserProfileId service =
     (let requestedRuntime = truthyText (ov_runtimeProfileId (spec_overrides spec));
          requestedBrowser = truthyText (ov_browserProfileId (spec_overrides spec));
          agent = (if trimmedName agentId \<noteq> None then agentId else None);
          given = (\<lambda>reason. \<lparr>es_runtimeProfileId = runtimeProfileId, es_browserProfileId = browserProfileId,
            es_service = service, es_reason = reason\<rparr>)
      in case (requestedRuntime, config) of
           (Some r, Some c) \<Rightarrow> selectionOfOverride c r requestedBrowser agent
         | _ \<Rightarrow>
             (case requestedRuntime of
                Some r \<Rightarrow> if runtimeProfileId \<noteq> Some r
                  then given (Some (''blocked because resolved team selection does not match taskRunSpec runtimeProfileId (''
                    @ r @ '')''))
                  else (case requestedBrowser of
                    Some b \<Rightarrow> if browserProfileId \<noteq> Some b
                      then given (Some (''blocked because resolved team selection does not match taskRunSpec browserProfileId (''
                        @ b @ '')'')) else given None
                  | None \<Rightarrow> given None)
              | None \<Rightarrow> (case requestedBrowser of
                  Some b \<Rightarrow> if browserProfileId \<noteq> Some b
                    then given (Some (''blocked because resolved team selection does not match taskRunSpec browserProfileId (''
                      @ b @ '')'')) else given None
                | None \<Rightarrow> given None)))"

text \<open>\<open>{ allowed, reason }\<close>: a service is allowed when there is no reason against it.\<close>

definition isTaskRunSpecServiceAllowed :: "taskRunSpec \<Rightarrow> serviceId option \<Rightarrow> string option" where
  "isTaskRunSpecServiceAllowed spec service =
     (let c = spec_constraints spec;
          allowed = orElse (con_allowedServices c) [];
          blocked = orElse (con_blockedServices c) []
      in if allowed \<noteq> [] \<and> service \<notin> set allowed
         then Some (''blocked because taskRunSpec allowedServices excludes the selected service''
           @ (case service of Some s \<Rightarrow> '' ('' @ serviceText s @ '')'' | None \<Rightarrow> '' (none)''))
         else case service of
           Some s \<Rightarrow> if s \<in> set blocked
             then Some (''blocked because taskRunSpec blockedServices excludes the selected service ('' @ serviceText s @ '')'')
             else None
         | None \<Rightarrow> None)"

section \<open>Planning an assignment\<close>

definition mapTaskArtifactToTeamArtifactRef :: "inputArtifact \<Rightarrow> artifactRef" where
  "mapTaskArtifactToTeamArtifactRef a =
     \<lparr>art_id = ina_id a, art_kind = inputArtifactKindText (ina_kind a), art_path = ina_path a, art_uri = ina_uri a,
      art_title = Some (ina_title a), art_metadata = None\<rparr>"

text \<open>What both planners build for the member at an index: \<open>planned\<close> or \<open>blocked\<close>, in a chain of
  dependencies, with the prompt of the assignment only when it can run.\<close>

definition plannedStepInput ::
  "string \<Rightarrow> taskRunSpec \<Rightarrow> nat \<Rightarrow> string \<Rightarrow> bool \<Rightarrow> executionSelection \<Rightarrow> teamRunStepKind \<Rightarrow> string \<Rightarrow> jobj \<Rightarrow> string
   \<Rightarrow> createTeamRunStepInput" where
  "plannedStepInput runId spec index agentId memberExists sel kind prompt roleData plannedNote =
     (let hasRuntimeContext = (memberExists \<and> truthyText (es_runtimeProfileId sel) \<noteq> None);
          serviceReason = isTaskRunSpecServiceAllowed spec (es_service sel);
          isRunnable = (hasRuntimeContext \<and> truthyText (es_reason sel) = None \<and> serviceReason = None)
      in \<lparr>cti_id = runId @ '':step:'' @ natToStr (index + 1), cti_agentId = agentId,
          cti_runtimeProfileId = es_runtimeProfileId sel, cti_browserProfileId = es_browserProfileId sel,
          cti_service = es_service sel, cti_kind = Some kind,
          cti_status = Some (if isRunnable then TStepPlanned else TStepBlocked), cti_order = int index + 1,
          cti_dependsOnStepIds = Some (if index > 0 then [runId @ '':step:'' @ natToStr index] else []),
          cti_input = Some
            \<lparr>psi_prompt = (if isRunnable then Some prompt else None), psi_handoffIds = None,
             psi_artifacts = Some (map mapTaskArtifactToTeamArtifactRef (spec_inputArtifacts spec)),
             psi_structuredData = Some (assignmentData spec @ roleData),
             psi_notes = Some [if isRunnable then plannedNote
               else case es_reason sel of Some r \<Rightarrow> r
                 | None \<Rightarrow> orElse serviceReason
                     ''blocked because the member does not resolve to a runnable runtime profile'']\<rparr>\<rparr>)"

definition roleData :: "teamRole \<Rightarrow> jobj" where
  "roleData role = [(''roleId'', JStr (role_id role)), (''roleInstructions'', jsStrOrNull (role_instructions role)),
     (''responseShape'', jsObjOrNull (role_responseShape role)), (''handoffToRoleId'', jsStrOrNull (role_handoffToRoleId role))]"

definition roleStepInput ::
  "(rat \<Rightarrow> string) \<Rightarrow> string \<Rightarrow> teamRuntimeSelections \<Rightarrow> taskRunSpec \<Rightarrow> jobj option \<Rightarrow> jobj option \<Rightarrow> nat \<Rightarrow> nat \<times> teamRole
   \<Rightarrow> createTeamRunStepInput" where
  "roleStepInput fracText runId team spec teamConfig config memberCount entry =
     (let (index, role) = entry;
          member = map_of (rev (map (\<lambda>m. (orElse (mem_agentId m) [], m)) (trs_members team))) (role_agentId role);
          sel = resolveTaskRunSpecExecutionSelection config spec (Some (role_agentId role))
            (Option.bind member rs_runtimeProfileId) (Option.bind member rs_browserProfileId)
            (Option.bind member rs_defaultService);
          teamInstructions = asString (optProp teamConfig ''instructions'')
      in plannedStepInput runId spec index (role_agentId role)
           (case member of Some m \<Rightarrow> mem_exists m | None \<Rightarrow> False) sel
           (orElse (role_stepKind role) (inferStepKindForTaskRunSpec index memberCount spec))
           (buildTaskRunSpecPrompt fracText spec index memberCount teamInstructions (role_instructions role)
             (role_responseShape role))
           (roleData role)
           ''planned from resolved team runtime selection, team role config, and taskRunSpec'')"

definition buildRoleAwareTeamRunStepsFromTaskRunSpec ::
  "(string \<Rightarrow> string \<Rightarrow> int) \<Rightarrow> (rat \<Rightarrow> string) \<Rightarrow> string \<Rightarrow> teamRuntimeSelections \<Rightarrow> taskRunSpec \<Rightarrow> jobj option \<Rightarrow> jobj option
   \<Rightarrow> createTeamRunStepInput list" where
  "buildRoleAwareTeamRunStepsFromTaskRunSpec cmp fracText runId team spec teamConfig config =
     (let roles = filter (\<lambda>r. case buildTaskRunSpecAgentFilter spec of Some agentIds \<Rightarrow> role_agentId r \<in> set agentIds | None \<Rightarrow> True)
            (parseTeamRolePlanningConfigs cmp teamConfig)
      in map (roleStepInput fracText runId team spec teamConfig config (length roles)) (enumerate 0 roles))"

definition memberStepInput ::
  "(rat \<Rightarrow> string) \<Rightarrow> string \<Rightarrow> taskRunSpec \<Rightarrow> jobj option \<Rightarrow> nat \<Rightarrow> nat \<times> memberSelection \<Rightarrow> createTeamRunStepInput" where
  "memberStepInput fracText runId spec config memberCount entry =
     (let (index, m) = entry;
          sel = resolveTaskRunSpecExecutionSelection config spec (mem_agentId m) (rs_runtimeProfileId m)
            (rs_browserProfileId m) (rs_defaultService m)
      in plannedStepInput runId spec index (orElse (mem_agentId m) (''member-'' @ natToStr (index + 1))) (mem_exists m) sel
           (inferStepKindForTaskRunSpec index memberCount spec)
           (buildTaskRunSpecPrompt fracText spec index memberCount None None None) []
           ''planned from resolved team runtime selection and taskRunSpec'')"

definition buildTeamRunStepsFromTaskRunSpec ::
  "(rat \<Rightarrow> string) \<Rightarrow> string \<Rightarrow> teamRuntimeSelections \<Rightarrow> taskRunSpec \<Rightarrow> jobj option \<Rightarrow> createTeamRunStepInput list" where
  "buildTeamRunStepsFromTaskRunSpec fracText runId team spec config =
     (let members = filter (\<lambda>m. case buildTaskRunSpecAgentFilter spec of
              Some agentIds \<Rightarrow> (case mem_agentId m of Some a \<Rightarrow> a \<in> set agentIds | None \<Rightarrow> False)
            | None \<Rightarrow> True) (trs_members team)
      in map (memberStepInput fracText runId spec config (length members)) (enumerate 0 members))"

section \<open>The bundles of a team\<close>

text \<open>The options the four entry points share, next to the run identifier and the creation time.\<close>

record planOptions =
  po_runId :: string
  po_createdAt :: string
  po_updatedAt :: "string option"
  po_trigger :: "teamRunTrigger option"
  po_requestedBy :: "string option"
  po_entryPrompt :: "string option"
  po_initialInputs :: "jobj option"

text \<open>\<open>{ selectedTeamId, teamExists, ...more }\<close>\<close>

definition teamInputs :: "teamRuntimeSelections \<Rightarrow> jobj \<Rightarrow> jobj" where
  "teamInputs team extra = foldl (\<lambda>r (k, v). objSet k v r)
     [(''selectedTeamId'', jsStrOrNull (trs_teamId team)), (''teamExists'', JBool (trs_exists team))] extra"

definition resolvedTeamStep :: "string \<Rightarrow> nat \<times> memberSelection \<Rightarrow> createTeamRunStepInput" where
  "resolvedTeamStep runId entry =
     (let (index, m) = entry;
          hasRuntimeContext = (mem_exists m \<and> truthyText (rs_runtimeProfileId m) \<noteq> None)
      in \<lparr>cti_id = runId @ '':step:'' @ natToStr (index + 1),
          cti_agentId = orElse (mem_agentId m) (''member-'' @ natToStr (index + 1)),
          cti_runtimeProfileId = rs_runtimeProfileId m, cti_browserProfileId = rs_browserProfileId m,
          cti_service = rs_defaultService m, cti_kind = Some KPrompt,
          cti_status = Some (if hasRuntimeContext then TStepPlanned else TStepBlocked), cti_order = int index + 1,
          cti_dependsOnStepIds = Some (if index > 0 then [runId @ '':step:'' @ natToStr index] else []),
          cti_input = Some \<lparr>psi_prompt = None, psi_handoffIds = None, psi_artifacts = None, psi_structuredData = None,
            psi_notes = Some [if hasRuntimeContext then ''planned from resolved team runtime selection''
              else ''blocked because the member does not resolve to a runnable runtime profile'']\<rparr>\<rparr>)"

definition createTeamRunBundleFromResolvedTeam :: "planOptions \<Rightarrow> teamRuntimeSelections \<Rightarrow> teamRunBundle" where
  "createTeamRunBundleFromResolvedTeam opts team = createTeamRunBundle
     \<lparr>ctb_runId = po_runId opts, ctb_teamId = orElse (trs_teamId team) ''(none)'', ctb_taskRunSpecId = None,
      ctb_sharedStateId = None, ctb_createdAt = po_createdAt opts, ctb_updatedAt = po_updatedAt opts,
      ctb_trigger = po_trigger opts, ctb_requestedBy = po_requestedBy opts, ctb_entryPrompt = po_entryPrompt opts,
      ctb_initialInputs = Some (teamInputs team (orElse (po_initialInputs opts) [])),
      ctb_steps = map (resolvedTeamStep (po_runId opts)) (enumerate 0 (trs_members team)),
      ctb_handoffs = None, ctb_localActionRequests = None\<rparr>"

definition projectTaskRunSpecRequestedByToTeamRunRequestedBy :: "specRequestedBy option \<Rightarrow> string option" where
  "projectTaskRunSpecRequestedByToTeamRunRequestedBy inp =
     map_option (\<lambda>r. orElse (rqb_label r) (orElse (rqb_id r) (triggerText (rqb_kind r)))) inp"

definition assignmentBundle ::
  "planOptions \<Rightarrow> teamRuntimeSelections \<Rightarrow> taskRunSpec \<Rightarrow> createTeamRunStepInput list \<Rightarrow> teamRunBundle" where
  "assignmentBundle opts team spec steps = createTeamRunBundle
     \<lparr>ctb_runId = po_runId opts, ctb_teamId = orElse (trs_teamId team) ''(none)'', ctb_taskRunSpecId = Some (spec_id spec),
      ctb_sharedStateId = None, ctb_createdAt = po_createdAt opts, ctb_updatedAt = po_updatedAt opts,
      ctb_trigger = Some (orElse (po_trigger opts) (spec_trigger spec)),
      ctb_requestedBy = orElseOpt (po_requestedBy opts)
        (projectTaskRunSpecRequestedByToTeamRunRequestedBy (spec_requestedBy spec)),
      ctb_entryPrompt = Some (spec_objective spec),
      ctb_initialInputs = Some (teamInputs team [(''taskRunSpecTitle'', JStr (spec_title spec))]),
      ctb_steps = steps, ctb_handoffs = None, ctb_localActionRequests = None\<rparr>"

definition assignmentSteps ::
  "(string \<Rightarrow> string \<Rightarrow> int) \<Rightarrow> (rat \<Rightarrow> string) \<Rightarrow> string \<Rightarrow> teamRuntimeSelections \<Rightarrow> taskRunSpec \<Rightarrow> jobj option \<Rightarrow> jobj option
   \<Rightarrow> createTeamRunStepInput list" where
  "assignmentSteps cmp fracText runId team spec teamConfig config =
     (let roleAwareSteps = buildRoleAwareTeamRunStepsFromTaskRunSpec cmp fracText runId team spec teamConfig config
      in if roleAwareSteps \<noteq> [] then roleAwareSteps else buildTeamRunStepsFromTaskRunSpec fracText runId team spec config)"

definition createTeamRunBundleFromResolvedTeamTaskRunSpec ::
  "(string \<Rightarrow> string \<Rightarrow> int) \<Rightarrow> (rat \<Rightarrow> string) \<Rightarrow> planOptions \<Rightarrow> teamRuntimeSelections \<Rightarrow> taskRunSpec \<Rightarrow> jobj option
   \<Rightarrow> teamRunBundle" where
  "createTeamRunBundleFromResolvedTeamTaskRunSpec cmp fracText opts team spec teamConfig =
     assignmentBundle opts team spec (assignmentSteps cmp fracText (po_runId opts) team spec teamConfig None)"

definition createTeamRunBundleFromConfigTaskRunSpec ::
  "(string \<Rightarrow> string \<Rightarrow> int) \<Rightarrow> (rat \<Rightarrow> string) \<Rightarrow> planOptions \<Rightarrow> jobj \<Rightarrow> string \<Rightarrow> taskRunSpec \<Rightarrow> teamRunBundle" where
  "createTeamRunBundleFromConfigTaskRunSpec cmp fracText opts config teamId spec =
     (let team = resolveTeamRuntimeSelections config (Some teamId)
      in assignmentBundle opts team spec
           (assignmentSteps cmp fracText (po_runId opts) team spec (getTeam config (Some teamId)) (Some config)))"

definition createTeamRunBundleFromConfig :: "planOptions \<Rightarrow> jobj \<Rightarrow> string \<Rightarrow> teamRunBundle" where
  "createTeamRunBundleFromConfig opts config teamId =
     createTeamRunBundleFromResolvedTeam opts (resolveTeamRuntimeSelections config (Some teamId))"

section \<open>A planned run is a chain\<close>

definition stepIdAt :: "string \<Rightarrow> nat \<Rightarrow> string" where
  "stepIdAt runId i = runId @ '':step:'' @ natToStr (i + 1)"

lemma stepIdAt_inject [simp]: "stepIdAt r i = stepIdAt r j \<longleftrightarrow> i = j"
  by (simp add: stepIdAt_def)

text \<open>The shape of all step inputs the planners make.\<close>

definition chainInputs :: "string \<Rightarrow> createTeamRunStepInput list \<Rightarrow> bool" where
  "chainInputs runId cs \<longleftrightarrow> (\<forall>i<length cs. cti_id (cs ! i) = stepIdAt runId i \<and> cti_order (cs ! i) = int i + 1
     \<and> cti_dependsOnStepIds (cs ! i) = Some (if i > 0 then [stepIdAt runId (i - 1)] else []))"

lemma chain_enumerate:
  assumes "\<And>i x. cti_id (f (i, x)) = stepIdAt runId i \<and> cti_order (f (i, x)) = int i + 1
    \<and> cti_dependsOnStepIds (f (i, x)) = Some (if i > 0 then [stepIdAt runId (i - 1)] else [])"
  shows "chainInputs runId (map f (enumerate 0 xs))"
  using assms by (simp add: chainInputs_def nth_enumerate_eq)

lemma plannedStepInput_chain:
  "cti_id (plannedStepInput r spec i a e sel k p d n) = stepIdAt r i
   \<and> cti_order (plannedStepInput r spec i a e sel k p d n) = int i + 1
   \<and> cti_dependsOnStepIds (plannedStepInput r spec i a e sel k p d n) = Some (if i > 0 then [stepIdAt r (i - 1)] else [])"
  by (simp add: plannedStepInput_def stepIdAt_def Let_def)

lemma assignmentSteps_chain: "chainInputs runId (assignmentSteps cmp fracText runId team spec teamConfig config)"
  unfolding assignmentSteps_def Let_def buildRoleAwareTeamRunStepsFromTaskRunSpec_def buildTeamRunStepsFromTaskRunSpec_def
  by (auto intro!: chain_enumerate simp: roleStepInput_def memberStepInput_def plannedStepInput_chain Let_def)

lemma resolvedTeam_chain: "chainInputs runId (map (resolvedTeamStep runId) (enumerate 0 members))"
  by (rule chain_enumerate) (simp add: resolvedTeamStep_def stepIdAt_def Let_def)

lemma chain_sorted: "chainInputs runId cs \<Longrightarrow> sortBy ctiLe cs = cs"
  by (rule ctiSort.sortBy_sorted) (auto simp: sorted_wrt_iff_nth_less chainInputs_def ctiLe_def)

lemma bundle_steps: "chainInputs (ctb_runId inp) (ctb_steps inp) \<Longrightarrow>
    trb_steps (createTeamRunBundle inp) = map (createTeamRunStep (ctb_runId inp)) (ctb_steps inp)"
  by (simp add: createTeamRunBundle_def Let_def chain_sorted)

definition isChain :: "string \<Rightarrow> teamRunStep list \<Rightarrow> bool" where
  "isChain runId steps \<longleftrightarrow> map tstep_id steps = map (stepIdAt runId) [0..<length steps]
     \<and> map tstep_order steps = map (\<lambda>i. int i + 1) [0..<length steps]
     \<and> map tstep_dependsOnStepIds steps = map (\<lambda>i. if i > 0 then [stepIdAt runId (i - 1)] else []) [0..<length steps]"

lemma chain_steps: "chainInputs runId cs \<Longrightarrow> isChain runId (map (createTeamRunStep runId) cs)"
  by (auto simp: isChain_def chainInputs_def createTeamRunStep_def intro!: nth_equalityI)

lemma chain_distinct: "isChain runId steps \<Longrightarrow> distinct (map tstep_id steps)"
  by (simp add: isChain_def distinct_map inj_on_def)

end
