(* ===== verification/Team_Results.thy ===== *)
theory Team_Results
  imports Team_Planning Step_Context
begin

text \<open>
  What the planning of an assignment promises the runner: the planned run is a chain of steps with a
  handoff between neighbours, every step that can run honours the assignment's constraints, the limits
  of the assignment are the limits the runner reads from each step, and each handoff carries the
  assignment's contract to the next step.
\<close>

section \<open>The chain\<close>

lemma map_index_eq: "map f xs = map g [0..<length xs] \<longleftrightarrow> (\<forall>i<length xs. f (xs ! i) = g i)"
  unfolding list_eq_iff_nth_eq by (simp only: length_map length_upt diff_zero nth_map nth_upt add_0 simp_thms cong: imp_cong)

lemma isChain_iff: "isChain r steps \<longleftrightarrow> (\<forall>i<length steps. tstep_id (steps ! i) = stepIdAt r i
    \<and> tstep_order (steps ! i) = int i + 1
    \<and> tstep_dependsOnStepIds (steps ! i) = (if i > 0 then [stepIdAt r (i - 1)] else []))"
  unfolding isChain_def map_index_eq by blast

lemma chain_nth:
  assumes "isChain r steps" "i < length steps"
  shows "tstep_id (steps ! i) = stepIdAt r i" "tstep_order (steps ! i) = int i + 1"
    "tstep_dependsOnStepIds (steps ! i) = (if i > 0 then [stepIdAt r (i - 1)] else [])"
  using assms unfolding isChain_iff by blast+

lemma chain_find:
  assumes "isChain r steps" "j < length steps"
  shows "find (\<lambda>c. tstep_id c = stepIdAt r j) steps = Some (steps ! j)"
  using assms by (auto simp: find_Some_iff chain_nth intro!: exI [of _ j])

lemma concat_neighbours: "concat (map (\<lambda>i. if i = 0 then [] else [g i]) [0..<n]) = map g [1..<n]"
  by (induction n) auto

definition plannedBetween :: "teamRun \<Rightarrow> teamRunStep list \<Rightarrow> nat \<Rightarrow> handoff" where
  "plannedBetween tr steps i = plannedHandoff tr steps (steps ! i) (0, tstep_id (steps ! (i - 1)))"

lemma chain_handoffs:
  assumes "isChain r steps"
  shows "createPlannedTeamRunHandoffs tr steps = map (plannedBetween tr steps) [1..<length steps]"
proof -
  let ?f = "\<lambda>s. map (plannedHandoff tr steps s)
    (enumerate 0 (filter (\<lambda>d. d \<in> set (map tstep_id steps)) (tstep_dependsOnStepIds s)))"
  have one: "?f (steps ! i) = (if i = 0 then [] else [plannedBetween tr steps i])" if "i < length steps" for i
  proof (cases i)
    case (Suc j)
    moreover have "stepIdAt r j \<in> set (map tstep_id steps)"
      using that Suc chain_nth(1) [OF assms, of j] nth_mem [of j "map tstep_id steps"] by simp
    ultimately show ?thesis
      using that chain_nth [OF assms that] chain_nth(1) [OF assms, of j] by (simp add: plannedBetween_def)
  qed (use that chain_nth [OF assms that] in simp)
  have "map ?f steps = map (\<lambda>i. if i = 0 then [] else [plannedBetween tr steps i]) [0..<length steps]"
    unfolding map_index_eq using one by blast
  then show ?thesis
    unfolding createPlannedTeamRunHandoffs_def by (simp add: concat_neighbours)
qed

lemma plannedBetween_ends [simp]:
  "ho_fromStepId (plannedBetween tr steps i) = tstep_id (steps ! (i - 1))"
  "ho_toStepId (plannedBetween tr steps i) = tstep_id (steps ! i)"
  by (simp_all add: plannedBetween_def plannedHandoff_def Let_def)

text \<open>What all entry points share: the bundle of step inputs in a chain.\<close>

lemma chain_bundle:
  assumes "chainInputs (ctb_runId inp) (ctb_steps inp)" "ctb_handoffs inp = None"
  shows "isChain (ctb_runId inp) (trb_steps (createTeamRunBundle inp))"
    "trun_stepIds (trb_teamRun (createTeamRunBundle inp)) = map tstep_id (trb_steps (createTeamRunBundle inp))"
    "trb_handoffs (createTeamRunBundle inp)
      = map (plannedBetween (trb_teamRun (createTeamRunBundle inp)) (trb_steps (createTeamRunBundle inp)))
          [1..<length (trb_steps (createTeamRunBundle inp))]"
proof -
  show chain: "isChain (ctb_runId inp) (trb_steps (createTeamRunBundle inp))"
    using assms(1) by (simp add: bundle_steps chain_steps)
  show "trun_stepIds (trb_teamRun (createTeamRunBundle inp)) = map tstep_id (trb_steps (createTeamRunBundle inp))"
    by (simp add: createTeamRunBundle_def Let_def)
  have "trb_handoffs (createTeamRunBundle inp)
      = createPlannedTeamRunHandoffs (trb_teamRun (createTeamRunBundle inp)) (trb_steps (createTeamRunBundle inp))"
    by (simp add: createTeamRunBundle_def Let_def assms(2))
  then show "trb_handoffs (createTeamRunBundle inp)
      = map (plannedBetween (trb_teamRun (createTeamRunBundle inp)) (trb_steps (createTeamRunBundle inp)))
          [1..<length (trb_steps (createTeamRunBundle inp))]"
    by (simp add: chain_handoffs [OF chain])
qed

lemma chain_sorted_steps: "isChain r steps \<Longrightarrow> sortBy tstepLe steps = steps"
proof (rule tstepSort.sortBy_sorted)
  assume chain: "isChain r steps"
  show "sorted_wrt tstepLe steps"
    using chain_nth(2) [OF chain] by (auto simp: sorted_wrt_iff_nth_less tstepLe_def)
qed

definition projectedRun :: "teamRunBundle \<Rightarrow> runBundle" where
  "projectedRun b = createExecutionRunRecordBundleFromTeamRun (trb_teamRun b) (trb_steps b)
     (Some (trb_handoffs b)) (Some (trb_localActionRequests b)) (trb_sharedState b)"

text \<open>The bundle of an assignment, and of a team without one, as the promises below read it.\<close>

definition chainedRun :: "string \<Rightarrow> teamRunBundle \<Rightarrow> bool" where
  "chainedRun runId b =
     (isChain runId (trb_steps b) \<and> trun_stepIds (trb_teamRun b) = map tstep_id (trb_steps b)
      \<and> map (\<lambda>h. (ho_fromStepId h, ho_toStepId h)) (trb_handoffs b)
          = map (\<lambda>i. (stepIdAt runId (i - 1), stepIdAt runId i)) [1..<length (trb_steps b)]
      \<and> wfBundle (projectedRun b)
      \<and> bdl_steps (projectedRun b) = map (projectTeamStep (trb_teamRun b)) (trb_steps b))"

lemma chain_bundle_run:
  assumes "chainInputs (ctb_runId inp) (ctb_steps inp)" "ctb_handoffs inp = None"
  shows "chainedRun (ctb_runId inp) (createTeamRunBundle inp)"
proof -
  note chain = chain_bundle [OF assms]
  let ?b = "createTeamRunBundle inp"
  let ?r = "ctb_runId inp"
  have "(ho_fromStepId (plannedBetween tr (trb_steps ?b) i), ho_toStepId (plannedBetween tr (trb_steps ?b) i))
      = (stepIdAt ?r (i - 1), stepIdAt ?r i)" if "i \<in> set [1..<length (trb_steps ?b)]" for tr i
    using that chain_nth(1) [OF chain(1), of i] chain_nth(1) [OF chain(1), of "i - 1"] by fastforce
  then have "map (\<lambda>h. (ho_fromStepId h, ho_toStepId h)) (trb_handoffs ?b)
      = map (\<lambda>i. (stepIdAt ?r (i - 1), stepIdAt ?r i)) [1..<length (trb_steps ?b)]"
    unfolding chain(3) map_map comp_def by (rule map_cong [OF refl])
  moreover have "wfBundle (projectedRun ?b)"
    unfolding projectedRun_def by (rule fromTeamRun_wf [OF chain_distinct [OF chain(1)]])
  moreover have "bdl_steps (projectedRun ?b) = map (projectTeamStep (trb_teamRun ?b)) (trb_steps ?b)"
    by (simp add: projectedRun_def fromTeamRun_steps chain_sorted_steps [OF chain(1)])
  ultimately show ?thesis
    unfolding chainedRun_def using chain(1,2) by blast
qed

text \<open>C24. A planned run is a chain, whichever entry point planned it: its steps are numbered from one in
  order, each depends exactly on the one before it, there is exactly one handoff for each pair of
  neighbours and none else, the run lists its steps in order, and its projection into the runtime is a
  well-formed record with those steps.\<close>

theorem planned_run_is_a_chain:
  "chainedRun (po_runId opts) (createTeamRunBundleFromConfigTaskRunSpec cmp fracText opts config teamId spec)
   \<and> chainedRun (po_runId opts) (createTeamRunBundleFromResolvedTeamTaskRunSpec cmp fracText opts team spec teamConfig)
   \<and> chainedRun (po_runId opts) (createTeamRunBundleFromConfig opts config teamId)
   \<and> chainedRun (po_runId opts) (createTeamRunBundleFromResolvedTeam opts team)"
proof -
  have assignment: "chainedRun (po_runId opts)
      (assignmentBundle opts t spec (assignmentSteps cmp fracText (po_runId opts) t spec tc c))" for t tc c
    using chain_bundle_run [of "\<lparr>ctb_runId = po_runId opts, ctb_teamId = a, ctb_taskRunSpecId = b, ctb_sharedStateId = d,
        ctb_createdAt = e, ctb_updatedAt = f, ctb_trigger = g, ctb_requestedBy = h, ctb_entryPrompt = i,
        ctb_initialInputs = j, ctb_steps = assignmentSteps cmp fracText (po_runId opts) t spec tc c,
        ctb_handoffs = None, ctb_localActionRequests = l\<rparr>" for a b d e f g h i j l]
    by (simp add: assignmentBundle_def assignmentSteps_chain)
  have plain: "chainedRun (po_runId opts) (createTeamRunBundleFromResolvedTeam opts t)" for t
    using chain_bundle_run [of "\<lparr>ctb_runId = po_runId opts, ctb_teamId = a, ctb_taskRunSpecId = b, ctb_sharedStateId = d,
        ctb_createdAt = e, ctb_updatedAt = f, ctb_trigger = g, ctb_requestedBy = h, ctb_entryPrompt = i,
        ctb_initialInputs = j, ctb_steps = map (resolvedTeamStep (po_runId opts)) (enumerate 0 (trs_members t)),
        ctb_handoffs = None, ctb_localActionRequests = l\<rparr>" for a b d e f g h i j l]
    by (simp add: createTeamRunBundleFromResolvedTeam_def resolvedTeam_chain)
  show ?thesis
    unfolding createTeamRunBundleFromConfigTaskRunSpec_def createTeamRunBundleFromResolvedTeamTaskRunSpec_def
      createTeamRunBundleFromConfig_def Let_def
    using assignment plain by blast
qed

section \<open>What the steps of an assignment are\<close>

lemma enumerate_filter:
  assumes "e \<in> set (enumerate 0 (filter P xs))"
  shows "P (snd e)"
proof -
  have "snd e \<in> set (map snd (enumerate 0 (filter P xs)))"
    using assms unfolding set_map by blast
  then show ?thesis by (simp del: set_map)
qed

text \<open>A step input of either planner, for an agent the filter of the assignment admits.\<close>

definition isAssignmentStep :: "string \<Rightarrow> taskRunSpec \<Rightarrow> jobj option \<Rightarrow> createTeamRunStepInput \<Rightarrow> bool" where
  "isAssignmentStep runId spec config c \<longleftrightarrow> (\<exists>index a ex agent rp bp sv k p d n.
     c = plannedStepInput runId spec index a ex
       (resolveTaskRunSpecExecutionSelection config spec agent rp bp sv) k p d n
     \<and> (d = [] \<or> (\<exists>role. d = roleData role))
     \<and> (case buildTaskRunSpecAgentFilter spec of None \<Rightarrow> True | Some agentIds \<Rightarrow> a \<in> set agentIds))"

lemma roleStep_assigned:
  assumes "case buildTaskRunSpecAgentFilter spec of None \<Rightarrow> True | Some agentIds \<Rightarrow> role_agentId role \<in> set agentIds"
  shows "isAssignmentStep runId spec config (roleStepInput fracText runId team spec teamConfig config n (i, role))"
  unfolding isAssignmentStep_def roleStepInput_def Let_def prod.case using assms by blast

lemma memberStep_assigned:
  assumes "case buildTaskRunSpecAgentFilter spec of
      Some agentIds \<Rightarrow> (case mem_agentId m of Some a \<Rightarrow> a \<in> set agentIds | None \<Rightarrow> False) | None \<Rightarrow> True"
  shows "isAssignmentStep runId spec config (memberStepInput fracText runId spec config n (i, m))"
proof -
  have "case buildTaskRunSpecAgentFilter spec of None \<Rightarrow> True
      | Some agentIds \<Rightarrow> orElse (mem_agentId m) (''member-'' @ natToStr (i + 1)) \<in> set agentIds"
    using assms by (auto split: option.splits)
  then show ?thesis unfolding isAssignmentStep_def memberStepInput_def Let_def prod.case by blast
qed

lemma assignmentSteps_assigned:
  assumes "c \<in> set (assignmentSteps cmp fracText runId team spec teamConfig config)"
  shows "isAssignmentStep runId spec config c"
proof -
  have roles: "isAssignmentStep runId spec config c"
    if c: "c \<in> set (buildRoleAwareTeamRunStepsFromTaskRunSpec cmp fracText runId team spec teamConfig config)"
  proof -
    obtain e n where e: "c = roleStepInput fracText runId team spec teamConfig config n e"
      "e \<in> set (enumerate 0 (filter (\<lambda>r. case buildTaskRunSpecAgentFilter spec of Some agentIds \<Rightarrow> role_agentId r \<in> set agentIds
        | None \<Rightarrow> True) (parseTeamRolePlanningConfigs cmp teamConfig)))"
      using c unfolding buildRoleAwareTeamRunStepsFromTaskRunSpec_def Let_def set_map by blast
    from e(2) have "case buildTaskRunSpecAgentFilter spec of Some agentIds \<Rightarrow> role_agentId (snd e) \<in> set agentIds | None \<Rightarrow> True"
      by (rule enumerate_filter)
    with e(1) show ?thesis
      using roleStep_assigned [where spec = spec and role = "snd e" and runId = runId and config = config
          and fracText = fracText and team = team and teamConfig = teamConfig and n = n and i = "fst e"]
      by (simp split: option.splits)
  qed
  have members: "isAssignmentStep runId spec config c"
    if c: "c \<in> set (buildTeamRunStepsFromTaskRunSpec fracText runId team spec config)"
  proof -
    obtain e n where e: "c = memberStepInput fracText runId spec config n e"
      "e \<in> set (enumerate 0 (filter (\<lambda>m. case buildTaskRunSpecAgentFilter spec of
              Some agentIds \<Rightarrow> (case mem_agentId m of Some a \<Rightarrow> a \<in> set agentIds | None \<Rightarrow> False)
            | None \<Rightarrow> True) (trs_members team)))"
      using c unfolding buildTeamRunStepsFromTaskRunSpec_def Let_def set_map by blast
    from e(2) have "case buildTaskRunSpecAgentFilter spec of
        Some agentIds \<Rightarrow> (case mem_agentId (snd e) of Some a \<Rightarrow> a \<in> set agentIds | None \<Rightarrow> False) | None \<Rightarrow> True"
      by (rule enumerate_filter)
    from memberStep_assigned [OF this, of runId config fracText n "fst e"] e(1) show ?thesis by simp
  qed
  show ?thesis
    using assms roles members by (auto simp: assignmentSteps_def Let_def split: if_splits)
qed

lemma assigned_step:
  assumes "s \<in> set (trb_steps (assignmentBundle opts team spec
      (assignmentSteps cmp fracText (po_runId opts) team spec teamConfig config)))"
  obtains c where "s = createTeamRunStep (po_runId opts) c" "isAssignmentStep (po_runId opts) spec config c"
  using assms assignmentSteps_assigned
  by (auto simp: assignmentBundle_def bundle_steps assignmentSteps_chain)

section \<open>The constraints of the assignment\<close>

text \<open>A step is planned for an agent the assignment admits, and is either planned or blocked. When it is
  planned it has a runtime profile, its service is one the assignment allows, and its browser profile is
  the one asked for; \<open>exactProfile\<close> adds that its runtime profile is the one asked for. It is prompted
  exactly when it is planned.\<close>

definition serviceAdmitted :: "taskRunSpec \<Rightarrow> serviceId option \<Rightarrow> bool" where
  "serviceAdmitted spec service =
     (let allowed = orElse (con_allowedServices (spec_constraints spec)) [];
          blocked = orElse (con_blockedServices (spec_constraints spec)) []
      in (allowed = [] \<or> service \<in> set allowed) \<and> service \<notin> Some ` set blocked)"

definition honoursAssignment :: "bool \<Rightarrow> taskRunSpec \<Rightarrow> teamRunStep \<Rightarrow> bool" where
  "honoursAssignment exactProfile spec s =
     (let requestedRuntime = truthyText (ov_runtimeProfileId (spec_overrides spec));
          requestedBrowser = truthyText (ov_browserProfileId (spec_overrides spec))
      in (case buildTaskRunSpecAgentFilter spec of None \<Rightarrow> True | Some agentIds \<Rightarrow> tstep_agentId s \<in> set agentIds)
         \<and> (if tstep_status s = TStepPlanned
            then truthyText (tstep_runtimeProfileId s) \<noteq> None \<and> serviceAdmitted spec (tstep_service s)
              \<and> (requestedBrowser = None \<or> tstep_browserProfileId s = requestedBrowser)
              \<and> (\<not> exactProfile \<or> requestedRuntime = None \<or> tstep_runtimeProfileId s = requestedRuntime)
              \<and> in_prompt (tstep_input s) \<noteq> None
            else tstep_status s = TStepBlocked \<and> in_prompt (tstep_input s) = None
              \<and> length (in_notes (tstep_input s)) = 1))"

lemma service_allowed_iff: "isTaskRunSpecServiceAllowed spec service = None \<longleftrightarrow> serviceAdmitted spec service"
  by (auto simp: isTaskRunSpecServiceAllowed_def serviceAdmitted_def Let_def split: option.splits)

lemma selection_browser:
  assumes "truthyText (es_reason (resolveTaskRunSpecExecutionSelection config spec agent rp bp sv)) = None"
    "truthyText (ov_browserProfileId (spec_overrides spec)) = Some b"
  shows "es_browserProfileId (resolveTaskRunSpecExecutionSelection config spec agent rp bp sv) = Some b"
  using assms unfolding resolveTaskRunSpecExecutionSelection_def selectionOfOverride_def Let_def
  by (auto simp: truthyText_def split: option.splits if_splits)

lemma selection_runtime:
  assumes "truthyText (es_reason (resolveTaskRunSpecExecutionSelection None spec agent rp bp sv)) = None"
    "truthyText (ov_runtimeProfileId (spec_overrides spec)) = Some r"
  shows "es_runtimeProfileId (resolveTaskRunSpecExecutionSelection None spec agent rp bp sv) = Some r"
  using assms unfolding resolveTaskRunSpecExecutionSelection_def Let_def
  by (auto simp: truthyText_def split: option.splits if_splits)

lemma assigned_honours:
  assumes "isAssignmentStep runId spec config c"
  shows "honoursAssignment (config = None) spec (createTeamRunStep runId c)"
proof -
  obtain index a ex agent rp bp sv k p d n where
    c: "c = plannedStepInput runId spec index a ex (resolveTaskRunSpecExecutionSelection config spec agent rp bp sv) k p d n"
    and filter: "case buildTaskRunSpecAgentFilter spec of None \<Rightarrow> True | Some agentIds \<Rightarrow> a \<in> set agentIds"
    using assms unfolding isAssignmentStep_def by blast
  let ?sel = "resolveTaskRunSpecExecutionSelection config spec agent rp bp sv"
  have browser: "truthyText (ov_browserProfileId (spec_overrides spec)) = None
      \<or> es_browserProfileId ?sel = truthyText (ov_browserProfileId (spec_overrides spec))"
    if "truthyText (es_reason ?sel) = None"
    using selection_browser [OF that] by (cases "truthyText (ov_browserProfileId (spec_overrides spec))") auto
  have runtime: "truthyText (ov_runtimeProfileId (spec_overrides spec)) = None
      \<or> es_runtimeProfileId ?sel = truthyText (ov_runtimeProfileId (spec_overrides spec))"
    if "truthyText (es_reason ?sel) = None" "config = None"
    using selection_runtime [of spec agent rp bp sv] that
    by (cases "truthyText (ov_runtimeProfileId (spec_overrides spec))") auto
  show ?thesis
    using filter browser runtime
    unfolding honoursAssignment_def c
    by (cases "buildTaskRunSpecAgentFilter spec")
      (auto simp: plannedStepInput_def createTeamRunStep_def buildStepInput_def Let_def service_allowed_iff)
qed


section \<open>The limits of the assignment\<close>

text \<open>The step data of an assignment answers every key of \<open>assignmentData\<close> with the assignment's value,
  also when the data of a role follows it.\<close>

lemma assigned_data:
  assumes "isAssignmentStep runId spec config c"
  shows "\<exists>d. dataOf (projectTeamStep tr (createTeamRunStep runId c)) = assignmentData spec @ d
    \<and> in_structuredData (tstep_input (createTeamRunStep runId c)) = assignmentData spec @ d"
proof -
  obtain index a ex sel k p d n where "c = plannedStepInput runId spec index a ex sel k p d n"
    using assms unfolding isAssignmentStep_def by blast
  then show ?thesis
    by (simp add: plannedStepInput_def createTeamRunStep_def buildStepInput_def Let_def projectTeamStep_def
        createExecutionRunStep_def dataOf_def)
qed

lemma assignment_keys:
  "jprop (assignmentData spec @ d) ''taskTitle'' = Some (JStr (spec_title spec))"
  "jprop (assignmentData spec @ d) ''taskObjective'' = Some (JStr (spec_objective spec))"
  "jprop (assignmentData spec @ d) ''successCriteria'' = Some (jsStrs (spec_successCriteria spec))"
  "jprop (assignmentData spec @ d) ''requestedOutputs'' = Some (JArr (map requestedOutputValue (spec_requestedOutputs spec)))"
  "jprop (assignmentData spec @ d) ''constraints'' = Some (constraintsValue (spec_constraints spec))"
  "jprop (assignmentData spec @ d) ''turnPolicy'' = Some (turnPolicyValue (spec_turnPolicy spec))"
  "jprop (assignmentData spec @ d) ''humanInteractionPolicy'' = Some (humanPolicyValue (spec_humanInteractionPolicy spec))"
  "jprop (assignmentData spec @ d) ''localActionPolicy'' = Some (actionPolicyValue (spec_localActionPolicy spec))"
  by (simp_all add: assignmentData_def)

lemma positive_number:
  assumes "isPositiveInt n"
  shows "map_option (\<lambda>i. Fin (of_int i)) (positiveInteger (Some (numberOrNull n))) = n"
proof (cases n)
  case (Some x)
  then obtain q where "x = Fin q" "isIntegral q" "q > 0"
    using assms by (cases x) (auto simp: isPositiveInt_def)
  with Some show ?thesis by (auto simp: numberOrNull_def positiveInteger_def isIntegral_def)
qed (simp add: numberOrNull_def positiveInteger_def)

text \<open>What the runner and the built-in executor read from a step is what the assignment says.\<close>

definition readsAssignment :: "taskRunSpec \<Rightarrow> executionRunStep \<Rightarrow> bool" where
  "readsAssignment spec e \<longleftrightarrow>
     (let c = spec_constraints spec; sap = spec_localActionPolicy spec; num = map_option (\<lambda>i. Fin (of_int i))
      in num (resolveStepTurnPolicyMaxTurns e) = tp_maxTurns (spec_turnPolicy spec)
       \<and> map_option Fin (resolveStepMaxRuntimeMinutes e) = con_maxRuntimeMinutes c
       \<and> num (resolveStepProviderBudgetMaxRequests e) = Option.bind (con_providerBudget c) spb_maxRequests
       \<and> num (resolveStepProviderBudgetMaxTokens e) = Option.bind (con_providerBudget c) spb_maxTokens
       \<and> interactionDefault e = humanDefaultText (hip_defaultBehavior (spec_humanInteractionPolicy spec))
       \<and> asString (optProp (stepPolicy e) ''mode'') = Some (localActionModeText (sap_mode sap))
       \<and> policyAllowedKinds (stepPolicy e) = Some (sap_allowedActionKinds sap)
       \<and> (\<forall>base. resolveShellExecutionPolicy e base = base
             \<lparr>lp_complexityStage := Some (sap_complexityStage sap),
              lp_allowedShellCommands := Some (filter (\<lambda>t. t \<noteq> []) (sap_allowedCommands sap)),
              lp_allowedCwdRoots := Some (filter (\<lambda>t. t \<noteq> []) (sap_allowedCwdRoots sap))\<rparr>))"

lemma strings_jsStrs [simp]: "strings (map JStr ss) = ss" "list_all isJStr (map JStr ss)"
  by (induction ss) (simp_all add: strings_def map_filter_simps isJStr_def)

lemma nonEmptyStrings_jsStrs [simp]: "nonEmptyStrings (map JStr ss) = filter (\<lambda>t. t \<noteq> []) ss"
  by (induction ss) (simp_all add: nonEmptyStrings_def truthyText_def somes_def map_filter_simps)

lemma stage_of_text [simp]: "isLocalActionComplexityStage (Some (JStr (complexityStageText st))) = Some st"
  by (cases st) (simp_all add: isLocalActionComplexityStage_def)

lemma positive_minutes:
  assumes "isPositiveInt n"
  shows "map_option Fin (case asNumber (Some (numberOrNull n)) of Some (Fin q) \<Rightarrow> if q > 0 then Some q else None | _ \<Rightarrow> None) = n"
proof (cases n)
  case (Some x)
  then obtain q where "x = Fin q" "q > 0"
    using assms by (cases x) (auto simp: isPositiveInt_def)
  with Some show ?thesis by (simp add: numberOrNull_def)
qed (simp add: numberOrNull_def)

lemma no_limit: "positiveInteger None = None"
  by (simp add: positiveInteger_def)

lemma positive_budget:
  assumes "TaskRunSpecConstraintsSchema c"
  shows "map_option (\<lambda>i. Fin (of_int i)) (positiveInteger (optProp (asRecord (optProp (asRecord (Some (constraintsValue c)))
      ''providerBudget'')) ''maxRequests'')) = Option.bind (con_providerBudget c) spb_maxRequests"
    "map_option (\<lambda>i. Fin (of_int i)) (positiveInteger (optProp (asRecord (optProp (asRecord (Some (constraintsValue c)))
      ''providerBudget'')) ''maxTokens'')) = Option.bind (con_providerBudget c) spb_maxTokens"
  using assms positive_number
  by (simp_all add: constraintsValue_def optProp_def TaskRunSpecConstraintsSchema_def no_limit split: option.splits)

lemma data_reads_assignment:
  assumes "TaskRunSpecSchema spec" "dataOf e = assignmentData spec @ d"
  shows "readsAssignment spec e"
proof -
  have c: "TaskRunSpecConstraintsSchema (spec_constraints spec)" "isPositiveInt (tp_maxTurns (spec_turnPolicy spec))"
    using assms(1) by (simp_all add: TaskRunSpecSchema_def)
  have "isPositiveInt (con_maxRuntimeMinutes (spec_constraints spec))"
    using c(1) by (simp add: TaskRunSpecConstraintsSchema_def)
  note keys = assignment_keys [of spec d, folded assms(2)]
  have policy: "stepPolicy e = asRecord (Some (actionPolicyValue (spec_localActionPolicy spec)))"
    using keys by (simp add: stepPolicy_def dataOf_def)
  have "map_option (\<lambda>i. Fin (of_int i)) (resolveStepTurnPolicyMaxTurns e) = tp_maxTurns (spec_turnPolicy spec)"
    using positive_number [OF c(2)]
    by (simp add: resolveStepTurnPolicyMaxTurns_def keys turnPolicyValue_def optProp_def)
  moreover have "map_option Fin (resolveStepMaxRuntimeMinutes e) = con_maxRuntimeMinutes (spec_constraints spec)"
    using positive_minutes [OF \<open>isPositiveInt (con_maxRuntimeMinutes (spec_constraints spec))\<close>]
    by (simp add: resolveStepMaxRuntimeMinutes_def keys constraintsValue_def optProp_def)
  moreover note positive_budget [OF c(1)]
  moreover have "interactionDefault e = humanDefaultText (hip_defaultBehavior (spec_humanInteractionPolicy spec))"
    by (simp add: interactionDefault_def keys humanPolicyValue_def optProp_def)
  moreover have "resolveShellExecutionPolicy e base = base
      \<lparr>lp_complexityStage := Some (sap_complexityStage (spec_localActionPolicy spec)),
       lp_allowedShellCommands := Some (filter (\<lambda>t. t \<noteq> []) (sap_allowedCommands (spec_localActionPolicy spec))),
       lp_allowedCwdRoots := Some (filter (\<lambda>t. t \<noteq> []) (sap_allowedCwdRoots (spec_localActionPolicy spec)))\<rparr>" for base
    by (simp add: resolveShellExecutionPolicy_def keys actionPolicyValue_def jsStrs_def)
  ultimately show ?thesis
    unfolding readsAssignment_def Let_def
    by (simp add: policy keys actionPolicyValue_def policyAllowedKinds_def optProp_def jsStrs_def providerBudget_def
        resolveStepProviderBudgetMaxRequests_def resolveStepProviderBudgetMaxTokens_def)
qed

text \<open>C19. The limits of an assignment are the limits the runner enforces: for a spec the schema accepts, every
  planned step, projected into the runtime, makes the runner read exactly the spec's turn limit, runtime
  limit, request and token budgets, its answer to unsettled outcomes and its local action mode and kinds,
  and makes the built-in executor use its complexity stage, commands and directories in place of the host's.\<close>

theorem assignment_limits_reach_the_runner:
  assumes "TaskRunSpecSchema spec"
  shows "list_all (\<lambda>s. readsAssignment spec (projectTeamStep tr s))
      (trb_steps (createTeamRunBundleFromConfigTaskRunSpec cmp fracText opts config teamId spec)
       @ trb_steps (createTeamRunBundleFromResolvedTeamTaskRunSpec cmp fracText opts team spec teamConfig))"
proof -
  have "readsAssignment spec (projectTeamStep tr s)"
    if s: "s \<in> set (trb_steps (assignmentBundle opts t spec (assignmentSteps cmp fracText (po_runId opts) t spec tc c)))" for s t tc c
  proof -
    obtain i where "s = createTeamRunStep (po_runId opts) i" "isAssignmentStep (po_runId opts) spec c i"
      using s by (rule assigned_step)
    with assigned_data [of "po_runId opts" spec c i tr] show ?thesis
      using data_reads_assignment [OF assms] by blast
  qed
  then show ?thesis
    by (simp add: list_all_iff createTeamRunBundleFromConfigTaskRunSpec_def
        createTeamRunBundleFromResolvedTeamTaskRunSpec_def Let_def ball_Un)
qed

definition demoSpec :: taskRunSpec where
  "demoSpec = \<lparr>spec_id = ''task'', spec_teamId = ''team'', spec_title = ''Fix'', spec_objective = ''Fix the bug'',
     spec_successCriteria = [''tests pass''], spec_requestedOutputs = [], spec_inputArtifacts = [], spec_context = [],
     spec_constraints = \<lparr>con_allowedServices = None, con_blockedServices = None, con_maxRuntimeMinutes = Some (Fin 30),
       con_maxTurns = None, con_providerBudget = Some \<lparr>spb_maxRequests = Some (Fin 5), spb_maxTokens = None\<rparr>\<rparr>,
     spec_overrides = \<lparr>ov_runtimeProfileId = None, ov_browserProfileId = None, ov_agentIds = None,
       ov_promptAppend = None, ov_structuredContext = None\<rparr>,
     spec_turnPolicy = DEFAULT_TASK_RUN_SPEC_TURN_POLICY\<lparr>tp_maxTurns := Some (Fin 3)\<rparr>,
     spec_humanInteractionPolicy = DEFAULT_TASK_RUN_SPEC_HUMAN_INTERACTION_POLICY,
     spec_localActionPolicy = DEFAULT_TASK_RUN_SPEC_LOCAL_ACTION_POLICY,
     spec_requestedBy = None, spec_trigger = TrigCli, spec_createdAt = ''t0''\<rparr>"

lemma demoSpec_schema: "TaskRunSpecSchema demoSpec"
  by (simp add: TaskRunSpecSchema_def TaskRunSpecConstraintsSchema_def isPositiveInt_def isIntegral_def demoSpec_def)

definition demoOptions :: planOptions where
  "demoOptions = \<lparr>po_runId = ''r'', po_createdAt = ''t0'', po_updatedAt = None, po_trigger = None, po_requestedBy = None,
     po_entryPrompt = None, po_initialInputs = None\<rparr>"

definition demoMember :: "string \<Rightarrow> memberSelection" where
  "demoMember a = \<lparr>rs_agent = None, rs_runtimeProfileId = Some ''work'', rs_runtimeProfile = None,
     rs_browserProfileId = None, rs_browserProfile = None, rs_defaultService = None, mem_agentId = Some a, mem_exists = True\<rparr>"

definition demoTeam :: teamRuntimeSelections where
  "demoTeam = \<lparr>trs_teamId = Some ''team'', trs_agentIds = [''ann''], trs_members = [demoMember ''ann''], trs_exists = True\<rparr>"

lemma demo_planned:
  "trb_steps (createTeamRunBundleFromResolvedTeamTaskRunSpec cmp fracText demoOptions demoTeam demoSpec None)
   = [createTeamRunStep ''r'' (memberStepInput fracText ''r'' demoSpec None 1 (0, demoMember ''ann''))]"
proof -
  have "assignmentSteps cmp fracText ''r'' demoTeam demoSpec None None
      = [memberStepInput fracText ''r'' demoSpec None 1 (0, demoMember ''ann'')]"
    by (simp add: assignmentSteps_def buildRoleAwareTeamRunStepsFromTaskRunSpec_def parseTeamRolePlanningConfigs_def
        buildTeamRunStepsFromTaskRunSpec_def buildTaskRunSpecAgentFilter_def demoTeam_def demoSpec_def sortBy_def)
  then show ?thesis
    using assignmentSteps_chain [of "''r''" cmp fracText demoTeam demoSpec None None]
    by (simp add: createTeamRunBundleFromResolvedTeamTaskRunSpec_def assignmentBundle_def bundle_steps demoOptions_def)
qed

lemma assignment_limits_reach_the_runner_witness:
  "\<forall>tr cmp fracText. (\<exists>s. trb_steps (createTeamRunBundleFromResolvedTeamTaskRunSpec cmp fracText demoOptions demoTeam demoSpec None) = [s]
     \<and> tstep_status s = TStepPlanned
     \<and> resolveStepTurnPolicyMaxTurns (projectTeamStep tr s) = Some 3)"
proof (intro allI)
  fix tr cmp fracText
  let ?s = "createTeamRunStep ''r'' (memberStepInput fracText ''r'' demoSpec None 1 (0, demoMember ''ann''))"
  have "readsAssignment demoSpec (projectTeamStep tr ?s)"
    using assignment_limits_reach_the_runner [OF demoSpec_schema, of tr cmp fracText demoOptions "[]" "[]" demoTeam None]
    by (simp add: demo_planned)
  then have "map_option (\<lambda>i. Fin (rat_of_int i)) (resolveStepTurnPolicyMaxTurns (projectTeamStep tr ?s)) = Some (Fin 3)"
    by (simp add: readsAssignment_def Let_def demoSpec_def)
  moreover have "tstep_status ?s = TStepPlanned"
    by (simp add: createTeamRunStep_def memberStepInput_def plannedStepInput_def Let_def demoMember_def demoSpec_def
        resolveTaskRunSpecExecutionSelection_def isTaskRunSpecServiceAllowed_def truthyText_def)
  ultimately show "\<exists>s. trb_steps (createTeamRunBundleFromResolvedTeamTaskRunSpec cmp fracText demoOptions demoTeam demoSpec None) = [s]
      \<and> tstep_status s = TStepPlanned \<and> resolveStepTurnPolicyMaxTurns (projectTeamStep tr s) = Some 3"
    by (auto simp: demo_planned)
qed

section \<open>The handoffs of the assignment\<close>

definition assignmentTransfer :: "taskRunSpec \<Rightarrow> taskTransfer" where
  "assignmentTransfer spec =
     \<lparr>tt_title = Some (spec_title spec), tt_objective = Some (spec_objective spec),
      tt_successCriteria = spec_successCriteria spec,
      tt_requestedOutputs = map (\<lambda>rq. \<lparr>tro_label = Some (rqo_label rq), tro_kind = Some (outputKindText (rqo_kind rq)),
         tro_destination = Some (destinationText (rqo_destination rq)), tro_required = rqo_required rq\<rparr>)
        (spec_requestedOutputs spec),
      tt_inputArtifacts = map (\<lambda>a. \<lparr>tia_id = Some (ina_id a), tia_kind = Some (inputArtifactKindText (ina_kind a)),
         tia_title = Some (ina_title a), tia_path = ina_path a, tia_uri = ina_uri a\<rparr>) (spec_inputArtifacts spec)\<rparr>"

text \<open>An assignment with nothing to hand over has no transfer.\<close>

definition assignmentTransfers :: "taskRunSpec \<Rightarrow> taskTransfer list" where
  "assignmentTransfers spec =
     (if spec_title spec = [] \<and> spec_objective spec = [] \<and> spec_successCriteria spec = []
         \<and> spec_requestedOutputs spec = [] \<and> spec_inputArtifacts spec = [] then []
      else [assignmentTransfer spec])"

lemma transfer_output_of_value:
  "transferOutputValue (requestedOutputValue rq) = requestedOutputJson
     \<lparr>tro_label = Some (rqo_label rq), tro_kind = Some (outputKindText (rqo_kind rq)),
      tro_destination = Some (destinationText (rqo_destination rq)), tro_required = rqo_required rq\<rparr>"
  by (simp add: transferOutputValue_def requestedOutputValue_def requestedOutputJson_def Let_def)

lemma transfer_artifact_of_value:
  "transferArtifactValue (mapTaskArtifactToTeamArtifactRef a) = inputArtifactJson
     \<lparr>tia_id = Some (ina_id a), tia_kind = Some (inputArtifactKindText (ina_kind a)),
      tia_title = Some (ina_title a), tia_path = ina_path a, tia_uri = ina_uri a\<rparr>"
  by (simp add: transferArtifactValue_def mapTaskArtifactToTeamArtifactRef_def inputArtifactJson_def jsStrOrNull_def)

lemma assigned_artifacts:
  assumes "isAssignmentStep runId spec config c"
  shows "in_artifacts (tstep_input (createTeamRunStep runId c)) = map mapTaskArtifactToTeamArtifactRef (spec_inputArtifacts spec)"
  using assms unfolding isAssignmentStep_def
  by (auto simp: plannedStepInput_def createTeamRunStep_def buildStepInput_def Let_def)

lemma contract_of_assigned:
  assumes "isAssignmentStep runId spec config c"
  shows "readTaskTransferContract (Some (createTeamRunStep runId c))
    = (case assignmentTransfers spec of [] \<Rightarrow> None | t # ts \<Rightarrow> Some (taskTransferJson t))"
proof -
  obtain d where d: "in_structuredData (tstep_input (createTeamRunStep runId c)) = assignmentData spec @ d"
    using assigned_data [OF assms] by blast
  note keys = assignment_keys [of spec d, folded d]
  show ?thesis
    by (simp add: readTaskTransferContract_def Let_def keys jsStrs_def assigned_artifacts [OF assms]
        assignmentTransfers_def assignmentTransfer_def taskTransferJson_def comp_def truthyText_def
        transfer_output_of_value transfer_artifact_of_value)
qed

lemma normalize_transfer:
  "t \<in> set (assignmentTransfers spec) \<Longrightarrow> normalizeTaskTransfer (Some (taskTransferJson t)) = Some t"
  by (auto simp: assignmentTransfers_def normalizeTaskTransfer_def taskTransferJson_def falsyText_def Let_def
      assignmentTransfer_def split: if_splits)

lemma between_transfer:
  assumes "isChain r steps" "1 \<le> i" "i < length steps"
    "readTaskTransferContract (Some (steps ! (i - 1))) = (case ts of [] \<Rightarrow> None | t # _ \<Rightarrow> Some (taskTransferJson t))"
    "\<And>t. t \<in> set ts \<Longrightarrow> normalizeTaskTransfer (Some (taskTransferJson t)) = Some t"
  shows "normalizeTaskTransfer (jprop (ho_structuredData (plannedBetween tr steps i)) ''taskTransfer'')
      = (case ts of [] \<Rightarrow> None | t # _ \<Rightarrow> Some t)"
    "ho_fromAgentId (plannedBetween tr steps i) = tstep_agentId (steps ! (i - 1))"
proof -
  have find: "find (\<lambda>c. tstep_id c = tstep_id (steps ! (i - 1))) steps = Some (steps ! (i - 1))"
    using chain_find [OF assms(1), of "i - 1"] chain_nth(1) [OF assms(1), of "i - 1"] assms(2,3) by simp
  show "ho_fromAgentId (plannedBetween tr steps i) = tstep_agentId (steps ! (i - 1))"
    by (simp add: plannedBetween_def plannedHandoff_def Let_def find [unfolded One_nat_def])
  show "normalizeTaskTransfer (jprop (ho_structuredData (plannedBetween tr steps i)) ''taskTransfer'')
      = (case ts of [] \<Rightarrow> None | t # _ \<Rightarrow> Some t)"
    using assms(4,5)
    by (cases ts) (simp_all add: plannedBetween_def plannedHandoff_def Let_def find [unfolded One_nat_def] normalizeTaskTransfer_def)
qed

lemma map_filter_one:
  "distinct xs \<Longrightarrow> List.map_filter (\<lambda>j. if j = i then g else None) xs = (if i \<in> set xs then (case g of None \<Rightarrow> [] | Some x \<Rightarrow> [x]) else [])"
  by (induction xs) (auto simp: map_filter_simps split: option.split)

lemma map_map_filter: "map h (List.map_filter f (map g xs)) = List.map_filter (\<lambda>x. map_option h (f (g x))) xs"
  by (induction xs) (auto simp: map_filter_simps split: option.split)

lemma map_filter_same: "(\<And>x. x \<in> set xs \<Longrightarrow> f x = g x) \<Longrightarrow> List.map_filter f xs = List.map_filter g xs"
  by (induction xs) (simp_all add: map_filter_simps split: option.split)

lemma assignmentBundle_chain:
  fixes opts team spec cmp fracText tc c
  defines "b \<equiv> assignmentBundle opts team spec (assignmentSteps cmp fracText (po_runId opts) team spec tc c)"
  shows "isChain (po_runId opts) (trb_steps b)"
    "trb_handoffs b = map (plannedBetween (trb_teamRun b) (trb_steps b)) [1..<length (trb_steps b)]"
  using chain_bundle(1,3) [of "\<lparr>ctb_runId = po_runId opts, ctb_teamId = a, ctb_taskRunSpecId = b', ctb_sharedStateId = d,
        ctb_createdAt = e, ctb_updatedAt = f, ctb_trigger = g, ctb_requestedBy = h, ctb_entryPrompt = i,
        ctb_initialInputs = j, ctb_steps = assignmentSteps cmp fracText (po_runId opts) team spec tc c,
        ctb_handoffs = None, ctb_localActionRequests = l\<rparr>" for a b' d e f g h i j l]
  by (simp_all add: b_def assignmentBundle_def assignmentSteps_chain)

lemma chain_extract:
  assumes "isChain r steps" "i < length steps"
    "\<And>j. j < length steps \<Longrightarrow>
      readTaskTransferContract (Some (steps ! j)) = (case ts of [] \<Rightarrow> None | t # _ \<Rightarrow> Some (taskTransferJson t))"
    "\<And>t. t \<in> set ts \<Longrightarrow> normalizeTaskTransfer (Some (taskTransferJson t)) = Some t"
    "length ts \<le> 1"
  shows "map (\<lambda>t. (dtt_fromStepId t, dtt_fromAgentId t, dtt_taskTransfer t))
      (extractDependencyTaskTransfers (map (plannedBetween tr steps) [1..<length steps]) (projectTeamStep tr (steps ! i)))
    = (if i = 0 then [] else map (\<lambda>t. (stepIdAt r (i - 1), tstep_agentId (steps ! (i - 1)), t)) ts)"
proof -
  let ?F = "\<lambda>h. if ho_toStepId h \<noteq> tstep_id (steps ! i) \<or> ho_fromStepId h \<notin> set (tstep_dependsOnStepIds (steps ! i)) then None
       else map_option (\<lambda>t. (ho_fromStepId h, ho_fromAgentId h, t))
         (normalizeTaskTransfer (jprop (ho_structuredData h) ''taskTransfer''))"
  have one: "?F (plannedBetween tr steps j) = (if j = i then map_option (\<lambda>t. (stepIdAt r (i - 1), tstep_agentId (steps ! (i - 1)), t))
      (case ts of [] \<Rightarrow> None | t # _ \<Rightarrow> Some t) else None)" if j: "j \<in> set [1..<length steps]" for j
  proof -
    have ids: "tstep_id (steps ! j) = stepIdAt r j" "tstep_id (steps ! (j - 1)) = stepIdAt r (j - 1)"
      "tstep_id (steps ! i) = stepIdAt r i"
      using chain_nth(1) [OF assms(1)] assms(2) j by auto
    note between = between_transfer [OF assms(1) _ _ assms(3) assms(4), of j tr]
    show ?thesis
      using ids between j chain_nth(3) [OF assms(1,2)] by (auto split: list.split)
  qed
  have step: "step_id (projectTeamStep tr (steps ! i)) = tstep_id (steps ! i)"
    "step_dependsOnStepIds (projectTeamStep tr (steps ! i)) = tstep_dependsOnStepIds (steps ! i)"
    by (simp_all add: projectTeamStep_def createExecutionRunStep_def)
  have "map (\<lambda>t. (dtt_fromStepId t, dtt_fromAgentId t, dtt_taskTransfer t))
      (extractDependencyTaskTransfers (map (plannedBetween tr steps) [1..<length steps]) (projectTeamStep tr (steps ! i)))
    = List.map_filter (\<lambda>j. ?F (plannedBetween tr steps j)) [1..<length steps]"
    unfolding extractDependencyTaskTransfers_def map_map_filter step
    by (rule map_filter_same) (simp add: option.map_comp comp_def)
  also have "\<dots> = List.map_filter (\<lambda>j. if j = i then map_option (\<lambda>t. (stepIdAt r (i - 1), tstep_agentId (steps ! (i - 1)), t))
      (case ts of [] \<Rightarrow> None | t # _ \<Rightarrow> Some t) else None) [1..<length steps]"
    by (rule map_filter_same [OF one])
  also have "\<dots> = (if i = 0 then [] else map (\<lambda>t. (stepIdAt r (i - 1), tstep_agentId (steps ! (i - 1)), t)) ts)"
    using assms(2,5) by (cases ts) (auto simp: map_filter_one)
  finally show ?thesis .
qed

text \<open>C21. Each step receives the assignment from the one before it: in the runtime the first step of a
  planned assignment finds no transfer among the handoffs, and every later step finds exactly one, from
  its predecessor and that step's agent, whose title, objective, criteria, requested outputs and input
  artifacts are those of the assignment; only an assignment with none of these hands nothing over.\<close>

theorem handoffs_carry_assignment:
  "(let b = createTeamRunBundleFromConfigTaskRunSpec cmp fracText opts config teamId spec; steps = trb_steps b
    in map (\<lambda>s. map (\<lambda>t. (dtt_fromStepId t, dtt_fromAgentId t, dtt_taskTransfer t))
        (extractDependencyTaskTransfers (trb_handoffs b) (projectTeamStep (trb_teamRun b) s))) steps
      = map (\<lambda>i. if i = 0 then []
          else map (\<lambda>t. (stepIdAt (po_runId opts) (i - 1), tstep_agentId (steps ! (i - 1)), t))
            (assignmentTransfers spec)) [0..<length steps])"
proof -
  let ?b = "createTeamRunBundleFromConfigTaskRunSpec cmp fracText opts config teamId spec"
  let ?steps = "trb_steps ?b" and ?r = "po_runId opts"
  obtain team tc where b: "?b = assignmentBundle opts team spec (assignmentSteps cmp fracText ?r team spec tc (Some config))"
    unfolding createTeamRunBundleFromConfigTaskRunSpec_def Let_def by blast
  have chain: "isChain ?r ?steps"
      "trb_handoffs ?b = map (plannedBetween (trb_teamRun ?b) ?steps) [1..<length ?steps]"
    using assignmentBundle_chain [of opts team spec cmp fracText tc "Some config"] by (simp_all add: b)
  have contract: "readTaskTransferContract (Some (?steps ! j))
      = (case assignmentTransfers spec of [] \<Rightarrow> None | t # _ \<Rightarrow> Some (taskTransferJson t))"
    if "j < length ?steps" for j
  proof -
    have "?steps ! j \<in> set (trb_steps (assignmentBundle opts team spec
        (assignmentSteps cmp fracText ?r team spec tc (Some config))))" using that by (simp add: b)
    then show ?thesis by (rule assigned_step) (use contract_of_assigned in fastforce)
  qed
  have single: "length (assignmentTransfers spec) \<le> 1" by (simp add: assignmentTransfers_def)
  show ?thesis
    unfolding Let_def map_index_eq
    using chain_extract [OF chain(1) _ contract normalize_transfer single, where tr = "trb_teamRun ?b"]
    by (simp add: chain(2))
qed

section \<open>A runtime profile nobody configured\<close>

text \<open>An override that names no configured profile does not block the step as the code says it should:
  the selection falls back to another profile of the configuration, and the step is planned there.\<close>

lemma unknown_profile_override_is_planned_elsewhere:
  "es_runtimeProfileId (selectionOfOverride twoProfiles ''wrok'' None None) = Some ''home''"
  "es_reason (selectionOfOverride twoProfiles ''wrok'' None None) = None"
  by (simp_all add: selectionOfOverride_def resolveRuntimeSelection_def unknown_profile_is_replaced truthyText_def
      trimmed_None Let_def)

end
