(* ===== verification/Team_Service.thy ===== *)
theory Team_Service
  imports Team_Results Responses
begin

text \<open>
  Running a planned team (\<open>src/teams/service.ts\<close>, \<open>src/teams/runtimeBridge.ts\<close>,
  \<open>src/teams/executionPayload.ts\<close>): the plan that sorts the steps of a team run into buckets, and the
  bridge that stores the assignment, projects the team run into the runtime, drains it and reports the
  outcome step by step. The schemas that check a planned run restate the types of the records, so
  parsing is the identity on them. The state pairs the files of the assignments with the world of the
  host and its lease sequence.
\<close>

section \<open>The plan\<close>

definition isTerminalTeamStep :: "teamRunStep \<Rightarrow> bool" where
  "isTerminalTeamStep s = (tstep_status s = TStepSucceeded \<or> tstep_status s = TStepFailed \<or>
     tstep_status s = TStepSkipped \<or> tstep_status s = TStepCancelled)"

definition canDispatchTeamStep :: "teamRunStep \<Rightarrow> bool" where
  "canDispatchTeamStep s = (tstep_status s = TStepPlanned \<or> tstep_status s = TStepReady)"

record teamBuckets =
  tb_runnable :: "string list"
  tb_waiting :: "string list"
  tb_blocked :: "string list"
  tb_terminal :: "string list"
  tb_missing :: "string list"

definition sortTeamStep :: "(string \<Rightarrow> teamRunStep option) \<Rightarrow> teamBuckets \<Rightarrow> teamRunStep \<Rightarrow> teamBuckets" where
  "sortTeamStep byId acc s =
     (if tstep_status s = TStepBlocked then acc\<lparr>tb_blocked := tb_blocked acc @ [tstep_id s]\<rparr>
      else if isTerminalTeamStep s then acc\<lparr>tb_terminal := tb_terminal acc @ [tstep_id s]\<rparr>
      else
        let dependencyStatuses = map (\<lambda>d. map_option tstep_status (byId d)) (tstep_dependsOnStepIds s);
            acc' = acc\<lparr>tb_missing := tb_missing acc @ filter (\<lambda>d. byId d = None) (tstep_dependsOnStepIds s)\<rparr>;
            dependenciesSatisfied = (dependencyStatuses = []
              \<or> list_all (\<lambda>st. st = Some TStepSucceeded) dependencyStatuses)
        in if canDispatchTeamStep s \<and> dependenciesSatisfied
           then acc'\<lparr>tb_runnable := tb_runnable acc' @ [tstep_id s]\<rparr>
           else acc'\<lparr>tb_waiting := tb_waiting acc' @ [tstep_id s]\<rparr>)"

record teamRunServicePlan =
  tsp_teamRun :: teamRun
  tsp_taskRunSpec :: "taskRunSpec option"
  tsp_sharedState :: teamSharedState
  tsp_steps :: "teamRunStep list"
  tsp_handoffs :: "handoff list"
  tsp_localActionRequests :: "localActionRequest list"
  tsp_handoffsById :: "string \<Rightarrow> handoff option"
  tsp_localActionRequestsById :: "string \<Rightarrow> localActionRequest option"
  tsp_stepsById :: "string \<Rightarrow> teamRunStep option"
  tsp_runnableStepIds :: "string list"
  tsp_waitingStepIds :: "string list"
  tsp_blockedStepIds :: "string list"
  tsp_terminalStepIds :: "string list"
  tsp_missingDependencyStepIds :: "string list"

text \<open>\<open>Object.fromEntries\<close>\<close>

definition fromEntries :: "('a \<Rightarrow> string) \<Rightarrow> 'a list \<Rightarrow> string \<Rightarrow> 'a option" where
  "fromEntries key xs = map_of (rev (map (\<lambda>x. (key x, x)) xs))"

definition createTeamRunServicePlan ::
  "teamRun \<Rightarrow> taskRunSpec option \<Rightarrow> teamRunStep list \<Rightarrow> teamSharedState \<Rightarrow> handoff list option
   \<Rightarrow> localActionRequest list option \<Rightarrow> teamRunServicePlan" where
  "createTeamRunServicePlan tr spec stepInputs shared handoffInputs requestInputs =
     (let steps = sortBy tstepLe stepInputs;
          handoffs = orElse handoffInputs [];
          requests = orElse requestInputs [];
          byId = fromEntries tstep_id steps;
          acc = foldl (sortTeamStep byId)
            \<lparr>tb_runnable = [], tb_waiting = [], tb_blocked = [], tb_terminal = [], tb_missing = []\<rparr> steps
      in \<lparr>tsp_teamRun = tr, tsp_taskRunSpec = spec, tsp_sharedState = shared, tsp_steps = steps,
          tsp_handoffs = handoffs, tsp_localActionRequests = requests,
          tsp_handoffsById = fromEntries ho_id handoffs,
          tsp_localActionRequestsById = fromEntries lar_id requests, tsp_stepsById = byId,
          tsp_runnableStepIds = tb_runnable acc, tsp_waitingStepIds = tb_waiting acc,
          tsp_blockedStepIds = tb_blocked acc, tsp_terminalStepIds = tb_terminal acc,
          tsp_missingDependencyStepIds = sort (remdups (tb_missing acc))\<rparr>)"

definition planOfBundle :: "taskRunSpec option \<Rightarrow> teamRunBundle \<Rightarrow> teamRunServicePlan" where
  "planOfBundle spec b = createTeamRunServicePlan (trb_teamRun b) spec (trb_steps b) (trb_sharedState b)
     (Some (trb_handoffs b)) (Some (trb_localActionRequests b))"

definition createTeamRunServicePlanFromResolvedTeam :: "planOptions \<Rightarrow> teamRuntimeSelections \<Rightarrow> teamRunServicePlan" where
  "createTeamRunServicePlanFromResolvedTeam opts team = planOfBundle None (createTeamRunBundleFromResolvedTeam opts team)"

definition createTeamRunServicePlanFromConfig :: "planOptions \<Rightarrow> jobj \<Rightarrow> string \<Rightarrow> teamRunServicePlan" where
  "createTeamRunServicePlanFromConfig opts config teamId =
     planOfBundle None (createTeamRunBundleFromConfig opts config teamId)"

definition createTeamRunServicePlanFromResolvedTeamTaskRunSpec ::
  "(string \<Rightarrow> string \<Rightarrow> int) \<Rightarrow> (rat \<Rightarrow> string) \<Rightarrow> planOptions \<Rightarrow> teamRuntimeSelections \<Rightarrow> taskRunSpec
   \<Rightarrow> teamRunServicePlan" where
  "createTeamRunServicePlanFromResolvedTeamTaskRunSpec cmp fracText opts team spec =
     planOfBundle (Some spec) (createTeamRunBundleFromResolvedTeamTaskRunSpec cmp fracText opts team spec None)"

definition createTeamRunServicePlanFromConfigTaskRunSpec ::
  "(string \<Rightarrow> string \<Rightarrow> int) \<Rightarrow> (rat \<Rightarrow> string) \<Rightarrow> planOptions \<Rightarrow> jobj \<Rightarrow> string \<Rightarrow> taskRunSpec \<Rightarrow> teamRunServicePlan" where
  "createTeamRunServicePlanFromConfigTaskRunSpec cmp fracText opts config teamId spec =
     planOfBundle (Some spec) (createTeamRunBundleFromConfigTaskRunSpec cmp fracText opts config teamId spec)"

section \<open>The bridge\<close>

fun mapRuntimeStepStatusToTeamStatus :: "executionRunStepStatus \<Rightarrow> teamRunStepStatus" where
  "mapRuntimeStepStatusToTeamStatus StepRunnable = TStepReady"
| "mapRuntimeStepStatusToTeamStatus StepPlanned = TStepPlanned"
| "mapRuntimeStepStatusToTeamStatus StepRunning = TStepRunning"
| "mapRuntimeStepStatusToTeamStatus StepSucceeded = TStepSucceeded"
| "mapRuntimeStepStatusToTeamStatus StepFailed = TStepFailed"
| "mapRuntimeStepStatusToTeamStatus StepBlocked = TStepBlocked"
| "mapRuntimeStepStatusToTeamStatus StepSkipped = TStepSkipped"
| "mapRuntimeStepStatusToTeamStatus StepCancelled = TStepCancelled"

record teamStepSummary =
  sts_teamStepId :: string
  sts_teamStepOrder :: int
  sts_teamStepStatus :: teamRunStepStatus
  sts_runtimeStepId :: "string option"
  sts_runtimeStepStatus :: "executionRunStepStatus option"
  sts_runtimeStepFailure :: "string option"
  sts_runtimeProfileId :: "string option"
  sts_browserProfileId :: "string option"
  sts_service :: "serviceId option"

record teamExecutionSummary =
  exs_teamRunId :: string
  exs_taskRunSpecId :: "string option"
  exs_runtimeRunId :: string
  exs_runtimeSourceKind :: executionRunSourceKind
  exs_runtimeRunStatus :: executionRunStatus
  exs_runtimeUpdatedAt :: string
  exs_terminalStepCount :: nat
  exs_stepSummaries :: "teamStepSummary list"

definition summarizeTeamStep :: "executionRunStep list \<Rightarrow> teamRunStep \<Rightarrow> teamStepSummary" where
  "summarizeTeamStep runtimeSteps s =
     (let rt = map_of (rev (map (\<lambda>r. (step_sourceStepId r, r)) runtimeSteps)) (Some (tstep_id s))
      in \<lparr>sts_teamStepId = tstep_id s, sts_teamStepOrder = tstep_order s,
          sts_teamStepStatus = (case rt of Some r \<Rightarrow> mapRuntimeStepStatusToTeamStatus (step_status r) | None \<Rightarrow> tstep_status s),
          sts_runtimeStepId = map_option step_id rt, sts_runtimeStepStatus = map_option step_status rt,
          sts_runtimeStepFailure = map_option fail_message (Option.bind rt step_failure),
          sts_runtimeProfileId = orElseOpt (Option.bind rt step_runtimeProfileId) (tstep_runtimeProfileId s),
          sts_browserProfileId = orElseOpt (Option.bind rt step_browserProfileId) (tstep_browserProfileId s),
          sts_service = orElseOpt (Option.bind rt step_service) (tstep_service s)\<rparr>)"

definition summarizeTeamRuntimeExecution :: "teamRunServicePlan \<Rightarrow> storedRecord \<Rightarrow> teamExecutionSummary" where
  "summarizeTeamRuntimeExecution plan rec =
     (let run = bdl_run (rec_bundle rec)
      in \<lparr>exs_teamRunId = trun_id (tsp_teamRun plan),
          exs_taskRunSpecId = orElseOpt (trun_taskRunSpecId (tsp_teamRun plan)) (run_taskRunSpecId run),
          exs_runtimeRunId = run_id run, exs_runtimeSourceKind = run_sourceKind run,
          exs_runtimeRunStatus = run_status run, exs_runtimeUpdatedAt = run_updatedAt run,
          exs_terminalStepCount = length (tsp_terminalStepIds plan),
          exs_stepSummaries = map (summarizeTeamStep (bdl_steps (rec_bundle rec))) (tsp_steps plan)\<rparr>)"

definition persistTaskRunSpec :: "(taskRunSpec \<Rightarrow> js_error) \<Rightarrow> taskRunSpec \<Rightarrow> (specFs, specStoredRecord) io" where
  "persistTaskRunSpec zodError spec = (\<lambda>fs.
     case readTaskRunSpecStoredRecord zodError fs (spec_id spec) of
       Inl e \<Rightarrow> (Inl e, fs)
     | Inr existing \<Rightarrow> writeTaskRunSpecStoredRecord zodError spec
         (Some (case existing of Some r \<Rightarrow> ssr_revision r | None \<Rightarrow> 0)) None fs)"

record teamRuntimeBridgeResult =
  tbr_teamPlan :: teamRunServicePlan
  tbr_persistedTaskRunSpecRecord :: "specStoredRecord option"
  tbr_createdRuntimeRecord :: storedRecord
  tbr_finalRuntimeRecord :: storedRecord
  tbr_executionSummary :: teamExecutionSummary
  tbr_hostDrainResults :: "idleResult list"

definition planRuntimeBundle :: "teamRunServicePlan \<Rightarrow> runBundle" where
  "planRuntimeBundle plan = createExecutionRunRecordBundleFromTeamRun (tsp_teamRun plan) (tsp_steps plan)
     (Some (tsp_handoffs plan)) (Some (tsp_localActionRequests plan)) (tsp_sharedState plan)"

text \<open>\<open>hostDrainResult?.drained.at(-1)?.record ?? createdRuntimeRecord\<close>\<close>

definition finalRecord :: "storedRecord \<Rightarrow> idleResult option \<Rightarrow> storedRecord" where
  "finalRecord created drained = (case drained of None \<Rightarrow> created
   | Some d \<Rightarrow> (case rev (dn_drained d) of [] \<Rightarrow> created | x # _ \<Rightarrow> orElse (dr_record x) created))"

definition bridgeDrain :: "string \<Rightarrow> idleOptions" where
  "bridgeDrain runId = \<lparr>io_drain = \<lparr>do_runId = Some runId, do_sourceKind = None, do_candidateStatuses = [],
     do_maxRuns = Some 100\<rparr>, io_maxPasses = None\<rparr>"

definition executeTeamRuntimePlan ::
  "(taskRunSpec \<Rightarrow> js_error) \<Rightarrow> 'w recordStore \<Rightarrow> 'w hostDeps \<Rightarrow> bool \<Rightarrow> teamRunServicePlan
   \<Rightarrow> (specFs \<times> 'w \<times> nat, teamRuntimeBridgeResult) io" where
  "executeTeamRuntimePlan zodError control h drainAfterCreate plan =
     ioBind (case tsp_taskRunSpec plan of None \<Rightarrow> ioReturn None
       | Some spec \<Rightarrow> ioBind (leftIo (persistTaskRunSpec zodError spec)) (\<lambda>r. ioReturn (Some r))) (\<lambda>persisted.
     ioBind (rightIo (leftIo (controlCreateRun control (planRuntimeBundle plan)))) (\<lambda>created.
     ioBind (if drainAfterCreate
         then ioBind (rightIo (drainRunsUntilIdle h None (bridgeDrain (run_id (bdl_run (planRuntimeBundle plan))))))
           (\<lambda>d. ioReturn (Some d))
         else ioReturn None) (\<lambda>drained.
     ioReturn \<lparr>tbr_teamPlan = plan, tbr_persistedTaskRunSpecRecord = persisted, tbr_createdRuntimeRecord = created,
       tbr_finalRuntimeRecord = finalRecord created drained,
       tbr_executionSummary = summarizeTeamRuntimeExecution plan (finalRecord created drained),
       tbr_hostDrainResults = (case drained of None \<Rightarrow> [] | Some d \<Rightarrow> [d])\<rparr>)))"

text \<open>The dependencies of the bridge; \<open>brd_newHost\<close> is the host its constructor makes from the rest of
  them, before the store, the owner and the executor of local actions are set.\<close>

record 'w bridgeDeps =
  brd_control :: "'w recordStore"
  brd_host :: "'w hostDeps option"
  brd_drainAfterCreate :: "bool option"
  brd_ownerId :: "string option"
  brd_executeLocalActionRequest :: "'w localActionCallback option"
  brd_newHost :: "'w hostDeps"
  brd_shell :: "'w shellHost"

definition bridgeHost :: "'w bridgeDeps \<Rightarrow> partialActionPolicy \<Rightarrow> 'w hostDeps" where
  "bridgeHost d policy = (case brd_host d of
     Some h \<Rightarrow> h
   | None \<Rightarrow>
       (withBuiltInExecutor (brd_shell d) policy (brd_newHost d))
         \<lparr>hd_control := brd_control d, hd_ownerId := Some (orElse (brd_ownerId d) ''host:team-runtime-bridge''),
          hd_executeLocalActionRequest := brd_executeLocalActionRequest d\<rparr>)"

text \<open>The entry points that take a configuration make a host of their own, with a lease sequence of its own,
  unless they are given one.\<close>

definition ownHost :: "'w bridgeDeps \<Rightarrow> (specFs \<times> 'w \<times> nat, 'a) io \<Rightarrow> (specFs \<times> 'w \<times> nat, 'a) io" where
  "ownHost d m = (\<lambda>(fs, w, n). if brd_host d \<noteq> None then m (fs, w, n)
     else case m (fs, w, 0) of (r, (fs', w', n')) \<Rightarrow> (r, (fs', w', n)))"

definition executeFromConfig ::
  "(taskRunSpec \<Rightarrow> js_error) \<Rightarrow> 'w bridgeDeps \<Rightarrow> planOptions \<Rightarrow> jobj \<Rightarrow> string
   \<Rightarrow> (specFs \<times> 'w \<times> nat, teamRuntimeBridgeResult) io" where
  "executeFromConfig zodError d opts config teamId =
     ownHost d (executeTeamRuntimePlan zodError (brd_control d) (bridgeHost d (resolveHostLocalActionExecutionPolicy config))
       (orElse (brd_drainAfterCreate d) True) (createTeamRunServicePlanFromConfig opts config teamId))"

definition executeFromConfigTaskRunSpec ::
  "(taskRunSpec \<Rightarrow> js_error) \<Rightarrow> (string \<Rightarrow> string \<Rightarrow> int) \<Rightarrow> (rat \<Rightarrow> string) \<Rightarrow> 'w bridgeDeps \<Rightarrow> planOptions \<Rightarrow> jobj
   \<Rightarrow> string \<Rightarrow> taskRunSpec \<Rightarrow> (specFs \<times> 'w \<times> nat, teamRuntimeBridgeResult) io" where
  "executeFromConfigTaskRunSpec zodError cmp fracText d opts config teamId spec =
     ownHost d (executeTeamRuntimePlan zodError (brd_control d) (bridgeHost d (resolveHostLocalActionExecutionPolicy config))
       (orElse (brd_drainAfterCreate d) True)
       (createTeamRunServicePlanFromConfigTaskRunSpec cmp fracText opts config teamId spec))"

definition executeFromResolvedTeam ::
  "(taskRunSpec \<Rightarrow> js_error) \<Rightarrow> 'w bridgeDeps \<Rightarrow> planOptions \<Rightarrow> teamRuntimeSelections
   \<Rightarrow> (specFs \<times> 'w \<times> nat, teamRuntimeBridgeResult) io" where
  "executeFromResolvedTeam zodError d opts team =
     executeTeamRuntimePlan zodError (brd_control d) (bridgeHost d emptyPartialPolicy)
       (orElse (brd_drainAfterCreate d) True) (createTeamRunServicePlanFromResolvedTeam opts team)"

definition executeFromResolvedTeamTaskRunSpec ::
  "(taskRunSpec \<Rightarrow> js_error) \<Rightarrow> (string \<Rightarrow> string \<Rightarrow> int) \<Rightarrow> (rat \<Rightarrow> string) \<Rightarrow> 'w bridgeDeps \<Rightarrow> planOptions
   \<Rightarrow> teamRuntimeSelections \<Rightarrow> taskRunSpec \<Rightarrow> (specFs \<times> 'w \<times> nat, teamRuntimeBridgeResult) io" where
  "executeFromResolvedTeamTaskRunSpec zodError cmp fracText d opts team spec =
     executeTeamRuntimePlan zodError (brd_control d) (bridgeHost d emptyPartialPolicy)
       (orElse (brd_drainAfterCreate d) True)
       (createTeamRunServicePlanFromResolvedTeamTaskRunSpec cmp fracText opts team spec)"

section \<open>The payload of an execution\<close>

record teamRunExecutionPayload =
  tep_teamId :: string
  tep_taskRunSpecId :: string
  tep_summary :: teamExecutionSummary
  tep_finalOutputSummary :: "string option"
  tep_sharedStateStatus :: sharedStateStatus
  tep_sharedStateNotes :: "string list"

definition buildTeamRunExecutionPayload :: "string \<Rightarrow> teamRuntimeBridgeResult \<Rightarrow> taskRunSpec \<Rightarrow> teamRunExecutionPayload" where
  "buildTeamRunExecutionPayload teamId res spec =
     (let b = rec_bundle (tbr_finalRuntimeRecord res)
      in \<lparr>tep_teamId = teamId, tep_taskRunSpecId = spec_id spec, tep_summary = tbr_executionSummary res,
          tep_finalOutputSummary = (case rev (sortBy stepLe (bdl_steps b)) of [] \<Rightarrow> None
            | s # _ \<Rightarrow> Option.bind (step_output s) out_summary),
          tep_sharedStateStatus = ss_status (bdl_sharedState b), tep_sharedStateNotes = ss_notes (bdl_sharedState b)\<rparr>)"

section \<open>The plan and the dispatcher\<close>

lemma projected_lookup:
  "stepsByIdOf (map (projectTeamStep tr) steps) i = map_option (projectTeamStep tr) (fromEntries tstep_id steps i)"
proof -
  have "map_of (map (\<lambda>s. (tstep_id s, projectTeamStep tr s)) xs) i
      = map_option (projectTeamStep tr) (map_of (map (\<lambda>s. (tstep_id s, s)) xs) i)" for xs
    by (induction xs) simp_all
  from this [of "rev steps"] show ?thesis
    by (simp add: stepsByIdOf_def fromEntries_def comp_def rev_map)
qed

text \<open>One step of the team's loop is one step of the dispatcher's, as long as nothing runs or has failed.\<close>

definition sameBuckets :: "teamBuckets \<Rightarrow> dispatchAcc \<Rightarrow> bool" where
  "sameBuckets t a \<longleftrightarrow> tb_runnable t = da_eligible a \<and> tb_waiting t = da_waiting a \<and> tb_blocked t = da_blocked a
     \<and> tb_terminal t = da_terminal a \<and> tb_missing t = da_missing a"

definition isQuiet :: "teamRunStep \<Rightarrow> bool" where
  "isQuiet s = (tstep_status s \<notin> {TStepRunning, TStepFailed, TStepCancelled})"

lemma bucket_step:
  assumes "sameBuckets t a" "isQuiet s"
  shows "sameBuckets (sortTeamStep (fromEntries tstep_id steps) t s)
    (dispatchStep (stepsByIdOf (map (projectTeamStep tr) steps)) False a (projectTeamStep tr s))"
proof -
  let ?e = "projectTeamStep tr s"
  have deps: "step_dependsOnStepIds ?e = tstep_dependsOnStepIds s"
    by (simp add: projectTeamStep_def createExecutionRunStep_def)
  have status: "mapTeamRunStepStatusToExecutionStatus st = StepSucceeded \<longleftrightarrow> st = TStepSucceeded" for st
    by (cases st) simp_all
  have satisfied: "dependenciesSatisfied (stepsByIdOf (map (projectTeamStep tr) steps)) ?e
      = (tstep_dependsOnStepIds s = [] \<or> list_all (\<lambda>d. map_option tstep_status (fromEntries tstep_id steps d) = Some TStepSucceeded)
          (tstep_dependsOnStepIds s))"
    by (simp add: dependenciesSatisfied_def deps projected_lookup list.pred_map comp_def option.map_comp status Let_def)
  have missing: "missingDependencies (stepsByIdOf (map (projectTeamStep tr) steps)) ?e
      = filter (\<lambda>d. fromEntries tstep_id steps d = None) (tstep_dependsOnStepIds s)"
    by (simp add: missingDependencies_def deps projected_lookup)
  show ?thesis
    using assms satisfied missing
    by (cases "tstep_status s") (simp_all add: sameBuckets_def isQuiet_def sortTeamStep_def dispatchStep_def isTerminalTeamStep_def
        isTerminalStep_def canDispatchTeamStep_def canDispatchStep_def list.pred_map comp_def Let_def)
qed

lemma bucket_steps:
  "sameBuckets t a \<Longrightarrow> list_all isQuiet xs \<Longrightarrow>
   sameBuckets (foldl (sortTeamStep (fromEntries tstep_id steps)) t xs)
     (foldl (dispatchStep (stepsByIdOf (map (projectTeamStep tr) steps)) False) a (map (projectTeamStep tr) xs))"
  by (induction xs arbitrary: t a) (simp_all add: bucket_step)

lemma quiet_no_failure:
  assumes "list_all isQuiet xs"
  shows "\<not> hasTerminalFailure run (map (projectTeamStep tr) xs)"
proof -
  have "isQuiet s \<Longrightarrow> mapTeamRunStepStatusToExecutionStatus (tstep_status s) \<notin> {StepFailed, StepCancelled}" for s
    by (cases "tstep_status s") (simp_all add: isQuiet_def)
  with assms show ?thesis by (fastforce simp: hasTerminalFailure_def list_all_iff list_ex_iff)
qed



section \<open>How far a team gets\<close>

text \<open>Every candidate of a drain ends with one entry: in the report, or among the deferred passes.\<close>

definition handled :: "nat \<Rightarrow> 'w \<times> drainLocals \<Rightarrow> bool" where
  "handled k wl \<longleftrightarrow> length (dl_drained (snd wl)) + length (dl_deferred (snd wl)) = k"

lemma handled_outside: "triple (handled k) (leftIo x) (\<lambda>_. handled k) (\<lambda>_. True)"
  unfolding handled_def by (rule triple_outside)

lemma handled_skip: "triple (handled k) (skipRun i why d r) (\<lambda>_. handled (Suc k)) (\<lambda>_. True)"
  unfolding skipRun_def pushDrained_def by (rule triple_updateDrain) (simp add: handled_def)

lemma handled_candidate: "triple (handled k) (executeCandidate h m c existing) (\<lambda>_. handled (Suc k)) (\<lambda>_. True)"
proof -
  have start: "triple (handled k) (updateDrain (\<lambda>l. l\<lparr>dl_executedCount := dl_executedCount l + 1\<rparr>)) (\<lambda>_. handled k) (\<lambda>_. True)"
    by (rule triple_updateDrain) (simp add: handled_def)
  have lease: "triple (handled k) (if existing = None then assignLeaseId h c else ioReturn None) (\<lambda>_. handled k) (\<lambda>_. True)"
    by (auto simp: triple_def assignLeaseId_def drainState_def updateDrain_def io_defs Let_def handled_def
      simp del: nextUniqueExecutionLeaseId.simps split: option.splits prod.splits)
  have finish: "triple (handled k) (pushExecuted r) (\<lambda>_. handled (Suc k)) (\<lambda>_. True)" for r
    unfolding pushExecuted_def by (rule triple_updateDrain) (simp add: handled_def)
  have run: "triple (handled k)
      (let d = \<lparr>df_record = c, df_leaseId = leaseId, df_existingLeaseId = existing\<rparr> in
       if m > 1 \<and> isBrowserBackedStoredExecutionRun c then updateDrain (\<lambda>l. l\<lparr>dl_deferred := dl_deferred l @ [d]\<rparr>)
       else ioBind (leftIo (executeCurrentRun h d)) pushExecuted) (\<lambda>_. handled (Suc k)) (\<lambda>_. True)" for leaseId
    unfolding Let_def
    by (intro triple_if triple_updateDrain budget_bind [OF handled_outside finish]) (simp add: handled_def)
  show ?thesis
    unfolding executeCandidate_def by (rule budget_bind [OF start budget_bind [OF lease run]])
qed

lemma handled_runnable: "triple (handled k) (drainRunnable h gate m c insp existing) (\<lambda>_. handled (Suc k)) (\<lambda>_. True)"
proof -
  have keep: "triple (handled k) (case gate of None \<Rightarrow> ioReturn None | Some g \<Rightarrow> leftIo (g c)) (\<lambda>_. handled k) (\<lambda>_. True)"
    by (intro triple_option triple_return handled_outside)
  show ?thesis
    unfolding drainRunnable_def
    by (intro triple_if handled_skip budget_bind [OF keep] triple_option handled_candidate)
qed

lemma handled_one: "triple (handled k) (drainOne h gate m planned c) (\<lambda>_. handled (Suc k)) (\<lambda>_. True)"
proof -
  have recovered: "triple (handled k) (drainRecovered h gate m insp existing) (\<lambda>_. handled (Suc k)) (\<lambda>_. True)" for insp existing
    unfolding drainRecovered_def
    by (intro triple_if handled_skip handled_runnable budget_bind [OF handled_outside])
  have held: "triple (handled k) (skipHeld h insp) (\<lambda>_. handled (Suc k)) (\<lambda>_. True)" for insp
    unfolding skipHeld_def by (intro budget_bind [OF handled_outside] handled_skip)
  have rest: "triple (\<lambda>wl. handled k wl \<and> snd wl = l) p (\<lambda>_. handled (Suc k)) (\<lambda>_. True)"
    if "triple (handled k) p (\<lambda>_. handled (Suc k)) (\<lambda>_. True)" for l and p :: "('a, unit) drain"
    using that by (rule triple_pre) simp
  show ?thesis
    unfolding drainOne_def Let_def
    by (intro triple_option handled_skip triple_if held budget_bind_state rest budget_bind [OF handled_outside] recovered)
qed

lemma handled_all: "triple (handled k) (drainAll h gate m planned cs) (\<lambda>_. handled (k + length cs)) (\<lambda>_. True)"
proof (induction cs arbitrary: k)
  case Nil
  show ?case by (simp add: triple_return)
next
  case (Cons c cs)
  show ?case using budget_bind [OF handled_one Cons.IH [of "Suc k"]] by simp
qed

lemma pushAll_length:
  "pushAllExecuted recs (w, l) = (res, w', l') \<Longrightarrow> length (dl_drained l') = length (dl_drained l) + length recs"
  by (induction recs arbitrary: w l) (auto simp: ioReturn_def pushExecuted_def updateDrain_def ioBind_def)

lemma drainLoop_entries:
  assumes "drainLoop h gate m cs (w, l0) = (Inr (), w', l)" "dl_drained l0 = []" "dl_deferred l0 = []"
  shows "length (dl_drained l) = length cs"
proof -
  from assms(1) obtain w1 l1 recs w2 where all: "drainAll h gate m (createActionableExecutionPlan cs m) cs (w, l0) = (Inr (), w1, l1)"
    and settle: "settleDeferred h (dl_deferred l1) w1 = (Inr recs, w2)"
    and push: "pushAllExecuted recs (w2, l1) = (Inr (), w', l)"
    unfolding drainLoop_def
    by (fastforce simp: ioBind_def drainState_def leftIo_def split: prod.splits sum.splits)
  have "handled 0 (w, l0)" using assms(2,3) by (simp add: handled_def)
  from tripleD [OF handled_all this all] have "length (dl_drained l1) + length (dl_deferred l1) = length cs"
    by (simp add: handled_def)
  with pushAll_length [OF push] settled_length [OF settle] show ?thesis by simp
qed

lemma inspectCandidates_length: "inspectCandidates h t rs w = (Inr cs, w') \<Longrightarrow> length cs = length rs"
  by (induction rs arbitrary: w cs w') (fastforce simp: ioReturn_def ioBind_def split: prod.splits sum.splits)+

lemma one_run_one_candidate:
  assumes "inspectHostDrainCandidates h opts w = (Inr (cs, expired), w')" "truthyText (do_runId opts) \<noteq> None"
  shows "length cs \<le> 1"
proof -
  have "length rs \<le> 1" if "listCandidateRuns h opts v = (Inr rs, v')" for rs v v'
    using that assms(2) by (auto simp: listCandidateRuns_def ioBind_def ioReturn_def split: option.splits prod.splits sum.splits)
  with assms(1) show ?thesis
    unfolding inspectHostDrainCandidates_def
    by (fastforce simp: ioBind_def ioReturn_def split: prod.splits sum.splits dest: inspectCandidates_length)
qed

text \<open>A pass over one run executes at most one step of it.\<close>

lemma one_pass_one_step:
  assumes "drainRunsOnce h gate opts wn = (Inr res, wn')" "truthyText (do_runId opts) \<noteq> None"
  shows "length (dn_executedRunIds res) \<le> 1"
proof -
  from assms(1) obtain w cs expired w1 l0 w2 l m where
    cs: "inspectHostDrainCandidates h opts w = (Inr (cs, expired), w1)"
    and run: "drainLoop h (orElseOpt gate (hd_executionGate h)) m cs (w1, l0) = (Inr (), w2, l)"
    and l0: "dl_drained l0 = []" "dl_deferred l0 = []"
    and res: "dn_drained res = dl_drained l"
    unfolding drainRunsOnce_def Let_def leftIo_def
    by (fastforce simp: ioBind_def split: prod.splits sum.splits)
  have "length (dn_drained res) \<le> 1"
    using drainLoop_entries [OF run l0] one_run_one_candidate [OF cs assms(2)] res by simp
  then show ?thesis
    unfolding drainRunsOnce_settles(2) [OF assms(1)] length_map using length_filter_le order_trans by blast
qed

lemma drainPasses_steps:
  "\<lbrakk>truthyText (do_runId opts) \<noteq> None; length (il_executedRunIds l) \<le> il_iterations l;
    drainPasses h gate opts n l wn = (Inr l', wn')\<rbrakk> \<Longrightarrow> length (il_executedRunIds l') \<le> il_iterations l'"
proof (induction n arbitrary: l wn)
  case 0
  then show ?case by (simp add: drainPasses.simps io_defs)
next
  case (Suc n)
  show ?case
  proof (cases "il_remainingRuns l \<le> 0")
    case True
    with Suc.prems show ?thesis by (simp add: drainPasses.simps io_defs)
  next
    case False
    let ?opts = "\<lparr>do_runId = do_runId opts, do_sourceKind = do_sourceKind opts, do_candidateStatuses = [],
      do_maxRuns = Some (il_remainingRuns l)\<rparr>"
    from Suc.prems(3) False obtain res wn1 settled wn2 where
      res: "drainRunsOnce h gate ?opts wn = (Inr res, wn1)"
      and rest: "(if settled \<or> dn_executedRunIds res = [] then ioReturn (mergePass l res)
        else drainPasses h gate opts n (mergePass l res)) wn2 = (Inr l', wn')"
      by (auto simp: drainPasses.simps(2) ioBind_def split: prod.splits sum.splits)
    from one_pass_one_step [OF res] Suc.prems(1) have "length (dn_executedRunIds res) \<le> 1" by simp
    with Suc.prems(2) have bound: "length (il_executedRunIds (mergePass l res)) \<le> il_iterations (mergePass l res)"
      by (simp add: mergePass_def Let_def mergeEntries_keep)
    from rest Suc.IH [OF Suc.prems(1) bound, of wn2] bound show ?thesis
      by (auto simp: ioReturn_def split: if_splits)
  qed
qed

lemma drained_run_steps:
  assumes "drainRunsUntilIdle h gate opts wn = (Inr res, wn')" "truthyText (do_runId (io_drain opts)) \<noteq> None"
  shows "length (dn_executedRunIds res) \<le> dn_iterations res"
proof -
  from assms(1) obtain l l0 n where run: "drainPasses h gate (io_drain opts) n l0 wn = (Inr l, wn')"
    and l0: "length (il_executedRunIds l0) \<le> il_iterations l0"
    and res: "dn_executedRunIds res = il_executedRunIds l" "dn_iterations res = il_iterations l"
    unfolding drainRunsUntilIdle_def
    by (fastforce simp: ioBind_def ioReturn_def split: prod.splits sum.splits)
  with drainPasses_steps [OF assms(2) l0 run] show ?thesis by simp
qed

lemma drain_iterations:
  assumes "drainRunsUntilIdle h gate opts wn = (Inr res, wn')"
  shows "int (dn_iterations res) \<le> max 1 (orElse (io_maxPasses opts) 8)"
  by (rule drainUntilIdle_inv [OF assms]) (auto simp: idleInv_def)

lemma planRuntimeBundle_id [simp]: "run_id (bdl_run (planRuntimeBundle plan)) = trun_id (tsp_teamRun plan)"
  by (simp add: planRuntimeBundle_def)


section \<open>A team with nothing to do\<close>

text \<open>A host that finds nothing to run in the run it is asked for reports it and leaves everything as it is.\<close>

lemma resting_run_drains:
  assumes read: "readExecutionRunStoredRecord fs i = Inr (Some rec)" "rec_runId rec = i" "i \<noteq> []"
    and rest: "getActiveExecutionRunLease rec = None"
      "dp_nextRunnableStepId (createExecutionRunDispatchPlan (rec_bundle rec)) = None"
      "dp_runningStepIds (createExecutionRunDispatchPlan (rec_bundle rec)) = []"
    and "0 < m"
  shows "drainRunsOnce demoHost None \<lparr>do_runId = Some i, do_sourceKind = sk, do_candidateStatuses = ss, do_maxRuns = Some m\<rparr>
      ((fs, emptyRunnerFs), n)
    = (Inr \<lparr>dn_ownerId = ''host:local-service'', dn_expiredLeaseRunIds = [], dn_executedRunIds = [],
         dn_drained = [\<lparr>dr_runId = i, dr_executed = False, dr_reason = Some NoRunnableStep, dr_detailReason = None,
           dr_record = Some rec\<rparr>]\<rparr>, ((fs, emptyRunnerFs), n))"
proof -
  let ?w = "(fs, emptyRunnerFs)"
  let ?c = "\<lparr>hc_runId = i, hc_inspection = Some (rec, createExecutionRunDispatchPlan (rec_bundle rec)),
    hc_kind = CandIdle, hc_createdAt = run_createdAt (bdl_run (rec_bundle rec))\<rparr>"
  have stored: "st_readRecord (hd_control demoHost) i ?w = (Inr (Some rec), ?w)"
    by (simp add: demoHost_def leftStore_def createExecutionRunRecordStore_def leftIo_def read)
  have "hostNow demoHost ?w = (Inr ''t5'', ?w)" by (simp add: hostNow_def demoHost_def)
  moreover have "hd_runnersControl demoHost = rightStore (createExecutionRunnerRecordStore (\<le>))" by (simp add: demoHost_def)
  moreover have "inspectCandidate demoHost t rec ?w = (Inr (?c, False), ?w)" for t
    by (simp add: inspectCandidate_def repairLocallyReclaimableLease_def controlInspectRun_def classifyHostDrainCandidate_def
        stored read rest io_defs truthy_def)
  ultimately have candidates: "inspectHostDrainCandidates demoHost
      \<lparr>do_runId = Some i, do_sourceKind = sk, do_candidateStatuses = ss, do_maxRuns = Some m\<rparr> ?w = (Inr ([?c], []), ?w)"
    using read(3) by (simp add: inspectHostDrainCandidates_def io_defs sweep_no_runners listCandidateRuns_def truthyText_def stored)
  have "claimBlocker demoHost x y w = (Inr None, w)" for x y w
    by (simp add: claimBlocker_def hostRunner_def demoHost_def truthyText_def io_defs)
  moreover have "existingLocalLease demoHost (rec, p) = None" for p
    by (simp add: existingLocalLease_def rest)
  moreover have "executionOwnerId demoHost = ''host:local-service''"
    by (simp add: executionOwnerId_def hostOwnerId_def demoHost_def)
  ultimately show ?thesis
    using \<open>0 < m\<close>
    by (simp add: drainRunsOnce_def candidates io_defs drainLoop_def drainOne_def Let_def read(2) rest drainState_def isActionable_def
        drainRecovered_def drainRunnable_def truthy_def skipRun_def pushDrained_def updateDrain_def settleDeferred_def)
qed

lemma resting_run_idle:
  assumes read: "readExecutionRunStoredRecord fs i = Inr (Some rec)" "rec_runId rec = i" "i \<noteq> []"
    and rest: "getActiveExecutionRunLease rec = None"
      "dp_nextRunnableStepId (createExecutionRunDispatchPlan (rec_bundle rec)) = None"
      "dp_runningStepIds (createExecutionRunDispatchPlan (rec_bundle rec)) = []"
      "run_status (bdl_run (rec_bundle rec)) = RunPlanned"
  shows "\<exists>res. drainRunsUntilIdle demoHost None (bridgeDrain i) ((fs, emptyRunnerFs), n) = (Inr res, ((fs, emptyRunnerFs), n))
    \<and> map dr_reason (dn_drained res) = [Some NoRunnableStep]"
proof -
  have "st_readRecord (hd_control demoHost) i (fs, emptyRunnerFs) = (Inr (Some rec), (fs, emptyRunnerFs))"
    by (simp add: demoHost_def leftStore_def createExecutionRunRecordStore_def leftIo_def read)
  then have "targetSettled demoHost (Some i) (fs, emptyRunnerFs) = (Inr False, (fs, emptyRunnerFs))"
    using read(3) rest(4) by (simp add: targetSettled_def truthyText_def io_defs isTerminalExecutionRunStatus_def)
  then show ?thesis
    by (simp add: drainRunsUntilIdle_def bridgeDrain_def numeral_eq_Suc drainPasses.simps io_defs
        resting_run_drains [OF read rest(1-3)] mergePass_def mergeEntry_def Let_def)
qed

definition emptyPlan :: teamRunServicePlan where
  "emptyPlan = createTeamRunServicePlanFromResolvedTeam demoOptions
     \<lparr>trs_teamId = None, trs_agentIds = [], trs_members = [], trs_exists = False\<rparr>"

lemma emptyPlan_bundle:
  "trun_id (tsp_teamRun emptyPlan) = ''r''" "bdl_steps (planRuntimeBundle emptyPlan) = []"
  "bdl_leases (planRuntimeBundle emptyPlan) = []" "run_status (bdl_run (planRuntimeBundle emptyPlan)) = RunPlanned"
  "tsp_taskRunSpec emptyPlan = None"
  by (simp_all add: emptyPlan_def createTeamRunServicePlanFromResolvedTeam_def planOfBundle_def createTeamRunServicePlan_def
      createTeamRunBundleFromResolvedTeam_def createTeamRunBundle_def demoOptions_def Let_def planRuntimeBundle_def
      createExecutionRunRecordBundleFromTeamRun_def createExecutionRunRecordBundle_def createExecutionRun_def
      createTeamRunSharedState_def createExecutionRunSharedState_def)

lemma create_in_files:
  assumes "readExecutionRunStoredRecord fs (run_id (bdl_run b)) = Inr None"
  obtains rec fs' where "controlCreateRun (leftStore (createExecutionRunRecordStore parse le)) b (fs, x) = (Inr rec, (fs', x))"
    "rec_runId rec = run_id (bdl_run b)" "rec_bundle rec = b"
    "readExecutionRunStoredRecord fs' (run_id (bdl_run b)) = Inr (Some rec)"
proof -
  let ?S = "leftStore (createExecutionRunRecordStore parse le)"
  obtain rec w' where rec: "controlCreateRun ?S b (fs, x) = (Inr rec, w')" "rec_bundle rec = b"
      "readExecutionRunStoredRecord (fst w') (run_id (bdl_run b)) = Inr (Some rec)"
    using runStore.create_fresh [where parse = parse and le = le and w = "(fs, x)" and b = b] assms
    unfolding files_peek by auto
  have "snd w' = x"
    using rec(1) by (auto simp: controlCreateRun_def ioBind_def leftStore_def leftIo_def split: prod.splits sum.splits)
  moreover have "rec_runId rec = run_id (bdl_run b)"
  proof -
    from rec(1) obtain v where "st_writeRecord ?S b (expecting 0) v = (Inr rec, w')"
      by (auto simp: controlCreateRun_def ioBind_def simp del: prod.split_sel_asm split: prod.splits sum.splits)
    then show ?thesis by (cases rule: runStore.write_cases [where parse = parse and le = le and b = b and opts = "expecting 0" and w = v]) simp_all
  qed
  ultimately show thesis using rec that by (cases w') auto
qed


section \<open>The assignment and its run\<close>

lemma persist_accepted:
  assumes "TaskRunSpecSchema spec" "readTaskRunSpecStoredRecord zodError fs (spec_id spec) = Inr existing"
  obtains r fs' where "persistTaskRunSpec zodError spec fs = (Inr r, fs')"
    "readTaskRunSpec zodError fs' (spec_id spec) = Inr (Some spec)" "ssr_spec r = spec"
    "storedSpecRevision zodError fs' (spec_id spec) = storedSpecRevision zodError fs (spec_id spec) + 1"
proof -
  have "\<exists>r fs'. persistTaskRunSpec zodError spec fs = (Inr r, fs')"
    using assms by (auto simp: persistTaskRunSpec_def writeTaskRunSpecStoredRecord_def parseTaskRunSpec_def Let_def
        split: option.split)
  then obtain r fs' where persist: "persistTaskRunSpec zodError spec fs = (Inr r, fs')" by blast
  then obtain expected where "writeTaskRunSpecStoredRecord zodError spec expected None fs = (Inr r, fs')"
    using assms(2) by (auto simp: persistTaskRunSpec_def)
  from write_spec_cases [OF this] persist show thesis
    by (intro that [OF persist]) (simp_all add: storedSpecRevision_def)
qed

text \<open>C22. The assignment is stored before its run, and stays when the run is refused: executing a plan whose run
  identifier is taken fails with the revision it found and changes no run, but the assignment is already
  stored and has moved to its next revision; with a fresh identifier, and no drain, the assignment and the
  run are both stored, the run being the projection of the plan.\<close>

theorem assignment_is_stored_before_its_run:
  fixes w :: "runFs \<times> 'x"
  assumes "tsp_taskRunSpec plan = Some spec" "TaskRunSpecSchema spec"
    and "readTaskRunSpecStoredRecord zodError fs (spec_id spec) = Inr existing"
    and "control = leftStore (createExecutionRunRecordStore parse le)"
  defines "i \<equiv> trun_id (tsp_teamRun plan)"
  defines "stored \<equiv> \<lambda>fs'. readTaskRunSpec zodError fs' (spec_id spec) = Inr (Some spec)
    \<and> storedSpecRevision zodError fs' (spec_id spec) = storedSpecRevision zodError fs (spec_id spec) + 1"
  shows "(\<forall>r. readExecutionRunStoredRecord (fst w) i = Inr (Some r) \<and> rec_revision r \<noteq> 0 \<longrightarrow>
      (\<exists>fs' w'. executeTeamRuntimePlan zodError control h drainAfterCreate plan (fs, w, n)
          = (Inl (revisionMismatch i 0 (rec_revision r)), (fs', w', n)) \<and> stored fs'
        \<and> (\<forall>j. readExecutionRunStoredRecord (fst w') j = readExecutionRunStoredRecord (fst w) j)))
    \<and> (readExecutionRunStoredRecord (fst w) i = Inr None \<longrightarrow>
      (\<exists>res fs' w'. executeTeamRuntimePlan zodError control h False plan (fs, w, n) = (Inr res, (fs', w', n)) \<and> stored fs'
        \<and> rec_bundle (tbr_finalRuntimeRecord res) = planRuntimeBundle plan
        \<and> readExecutionRunStoredRecord (fst w') i = Inr (Some (tbr_finalRuntimeRecord res))))"
proof (intro conjI impI allI; (elim conjE)?)
  let ?b = "planRuntimeBundle plan"
  obtain s fs' where persist: "persistTaskRunSpec zodError spec fs = (Inr s, fs')" "stored fs'"
    using persist_accepted [OF assms(2,3)] unfolding stored_def by metis
  {
    fix r assume "readExecutionRunStoredRecord (fst w) i = Inr (Some r)" "rec_revision r \<noteq> 0"
    then obtain w' where "controlCreateRun control ?b w = (Inl (revisionMismatch i 0 (rec_revision r)), w')"
        "\<forall>j. readExecutionRunStoredRecord (fst w') j = readExecutionRunStoredRecord (fst w) j"
      using runStore.create_taken [where parse = parse and le = le and w = w and b = ?b and r = r]
      unfolding files_peek assms(4) i_def planRuntimeBundle_id by blast
    then show "\<exists>fs' w'. executeTeamRuntimePlan zodError control h drainAfterCreate plan (fs, w, n)
          = (Inl (revisionMismatch i 0 (rec_revision r)), (fs', w', n)) \<and> stored fs'
        \<and> (\<forall>j. readExecutionRunStoredRecord (fst w') j = readExecutionRunStoredRecord (fst w) j)"
      using persist by (intro exI [of _ fs'] exI [of _ w']) (simp add: executeTeamRuntimePlan_def assms(1) io_defs leftIo_def rightIo_def)
  next
    assume "readExecutionRunStoredRecord (fst w) i = Inr None"
    then obtain rec w' where "controlCreateRun control ?b w = (Inr rec, w')" "rec_bundle rec = ?b"
        "readExecutionRunStoredRecord (fst w') i = Inr (Some rec)"
      using runStore.create_fresh [where parse = parse and le = le and w = w and b = ?b]
      unfolding files_peek assms(4) i_def planRuntimeBundle_id by blast
    then show "\<exists>res fs' w'. executeTeamRuntimePlan zodError control h False plan (fs, w, n) = (Inr res, (fs', w', n)) \<and> stored fs'
        \<and> rec_bundle (tbr_finalRuntimeRecord res) = planRuntimeBundle plan
        \<and> readExecutionRunStoredRecord (fst w') i = Inr (Some (tbr_finalRuntimeRecord res))"
      using persist by (simp add: executeTeamRuntimePlan_def assms(1) io_defs leftIo_def rightIo_def finalRecord_def)
  }
qed

definition demoPlan :: teamRunServicePlan where
  "demoPlan = createTeamRunServicePlanFromResolvedTeamTaskRunSpec (\<lambda>_ _. 0) (\<lambda>_. []) demoOptions demoTeam demoSpec"

lemma assignment_is_stored_before_its_run_witness:
  "\<forall>zodError. \<exists>fs' w'. executeTeamRuntimePlan zodError (hd_control demoHost) demoHost True demoPlan
      (\<lparr>sfs_records = \<lambda>_. None, sfs_specs = \<lambda>_. None\<rparr>, demoWorld, 0)
    = (Inl (revisionMismatch ''r'' 0 1), (fs', w', 0)) \<and> readTaskRunSpec zodError fs' ''task'' = Inr (Some demoSpec)"
proof
  fix zodError
  let ?fs = "\<lparr>sfs_records = \<lambda>_. None, sfs_specs = \<lambda>_. None\<rparr>"
  have plan: "tsp_taskRunSpec demoPlan = Some demoSpec" "trun_id (tsp_teamRun demoPlan) = ''r''" "spec_id demoSpec = ''task''"
    by (simp_all add: demoPlan_def createTeamRunServicePlanFromResolvedTeamTaskRunSpec_def planOfBundle_def
        createTeamRunServicePlan_def createTeamRunBundleFromResolvedTeamTaskRunSpec_def assignmentBundle_def
        createTeamRunBundle_def demoOptions_def Let_def demoSpec_def)
  have "TaskRunSpecSchema demoSpec" by (rule demoSpec_schema)
  moreover have "readTaskRunSpecStoredRecord zodError ?fs (spec_id demoSpec) = Inr None"
    by (simp add: readTaskRunSpecStoredRecord_def)
  moreover have "readExecutionRunStoredRecord (fst demoWorld) ''r'' = Inr (Some settledRecord)" "rec_revision settledRecord = 1"
    by (simp_all add: fsWith_read settledRecord_plan) (simp add: settledRecord_def)
  ultimately show "\<exists>fs' w'. executeTeamRuntimePlan zodError (hd_control demoHost) demoHost True demoPlan (?fs, demoWorld, 0)
    = (Inl (revisionMismatch ''r'' 0 1), (fs', w', 0)) \<and> readTaskRunSpec zodError fs' ''task'' = Inr (Some demoSpec)"
    using assignment_is_stored_before_its_run [OF plan(1) _ _ demoHost_stores(1), where w = demoWorld and fs = ?fs and n = 0]
    unfolding plan by fastforce
qed

end
